(* ===== verification/Prelude.thy ===== *)
theory Prelude
  imports Main "HOL-Library.Word" "HOL-Library.Numeral_Type"
begin

text \<open>
  Shared vocabulary of the development.

  \<^item> Names for the C integer types. A C integer of width \<open>w\<close> is a \<open>w word\<close>; unsigned types are read
    with \<open>unat\<close>/\<open>uint\<close>, signed types with \<open>sint\<close>. C's integer promotion of an \<open>int16_t\<close> operand to
    \<open>int\<close> is \<open>promote16\<close> (sign extension), storing an \<open>int\<close> into an \<open>int16_t\<close> is \<open>to_i16\<close> (the two's
    complement truncation of every compiler the project supports).
  \<^item> The ring of integers modulo the Kyber prime, as the numeral type \<open>3329\<close>.
  \<^item> The fact collections \<open>c_int\<close> (how \<open>sint\<close> commutes with the C operations) and \<open>len_simps\<close>
    (lengths of the buffers and arrays the operations produce).
  \<^item> Generic lemmas on lists updated by counting loops and on finite sums.
\<close>

unbundle bit_operations_syntax

named_theorems c_int "sint of C integer operations"
named_theorems len_simps "lengths of produced buffers"

section \<open>C integer types\<close>

type_synonym u8 = "8 word"
type_synonym u16 = "16 word"
type_synonym u32 = "32 word"
type_synonym u64 = "64 word"
type_synonym i16 = "16 word"
type_synonym i32 = "32 word"
type_synonym bytes = "u8 list"

abbreviation promote16 :: "i16 \<Rightarrow> i32" where
  "promote16 x \<equiv> scast x"

abbreviation to_i16 :: "i32 \<Rightarrow> i16" where
  "to_i16 x \<equiv> ucast x"

lemma signed_take_bit_shift:
  "signed_take_bit n (k :: int) = (k + 2 ^ n) mod 2 ^ Suc n - 2 ^ n"
  by (simp add: signed_take_bit_eq_take_bit_shift take_bit_eq_mod)

lemma signed_take_bit_id:
  "- (2 ^ n) \<le> k \<Longrightarrow> k < 2 ^ n \<Longrightarrow> signed_take_bit n k = (k :: int)"
  by (simp add: signed_take_bit_int_eq_self_iff)

lemma signed_take_bit_15_mod: "signed_take_bit 15 (k :: int) mod 65536 = k mod 65536"
  by (simp add: signed_take_bit_shift mod_diff_left_eq)

lemma signed_take_bit_15_ge: "- 32768 \<le> signed_take_bit 15 (k :: int)"
  by (simp add: signed_take_bit_shift)

lemma signed_take_bit_15_lt: "signed_take_bit 15 (k :: int) < 32768"
  by (simp add: signed_take_bit_shift)

lemma signed_take_bit_15_mult:
  "signed_take_bit 15 (signed_take_bit 15 x * y) = signed_take_bit 15 (x * y :: int)"
proof -
  have "(signed_take_bit 15 x * y) mod 65536 = (x * y) mod 65536"
    by (metis mod_mult_left_eq signed_take_bit_15_mod)
  then show ?thesis
    by (simp add: signed_take_bit_eq_iff_take_bit_eq take_bit_eq_mod)
qed

lemma signed_take_bit_15_diff:
  "signed_take_bit 15 (x - signed_take_bit 15 y) = signed_take_bit 15 (x - y :: int)"
proof -
  have "(x - signed_take_bit 15 y) mod 65536 = (x - y) mod 65536"
    by (metis mod_diff_right_eq signed_take_bit_15_mod)
  then show ?thesis
    by (simp add: signed_take_bit_eq_iff_take_bit_eq take_bit_eq_mod)
qed

lemma sint_promote16 [simp, c_int]: "sint (promote16 a) = sint a"
  by (simp add: sint_up_scast is_up)

lemma sint_to_i16 [c_int]: "sint (to_i16 a) = signed_take_bit 15 (sint a)"
  by transfer (simp add: bit_eq_iff bit_signed_take_bit_iff min_def bit_take_bit_iff)

lemma sint_i32_arith [c_int]:
  "sint (x + y :: i32) = signed_take_bit 31 (sint x + sint y)"
  "sint (x - y :: i32) = signed_take_bit 31 (sint x - sint y)"
  "sint (x * y :: i32) = signed_take_bit 31 (sint x * sint y)"
  by (simp_all add: sint_word_ariths)

lemma sint_i16_arith [c_int]:
  "sint (x + y :: i16) = signed_take_bit 15 (sint x + sint y)"
  "sint (x - y :: i16) = signed_take_bit 15 (sint x - sint y)"
  by (simp_all add: sint_word_ariths)

lemma sint_i16_ge: "- 32768 \<le> sint (a :: i16)"
  using sint_ge [of a] by simp

lemma sint_i16_lt: "sint (a :: i16) < 32768"
  using sint_lt [of a] by simp

lemma sint_inj: "sint a = sint b \<Longrightarrow> a = b"
  by (rule signed_word_eqI)

lemmas sint_i16_range = sint_i16_ge sint_i16_lt

text \<open>Below the sign bit, the signed and the unsigned reading of a word agree.\<close>

lemma sint_unat:
  assumes "unat (x :: 'a :: len word) < 2 ^ (LENGTH('a) - 1)"
  shows "sint x = int (unat x)"
proof -
  have "int (unat x) < 2 ^ (LENGTH('a) - 1)"
    using assms by (metis of_nat_less_iff of_nat_numeral of_nat_power)
  then have "signed_take_bit (LENGTH('a) - 1) (uint x) = uint x"
    by (intro signed_take_bit_id) (simp_all add: order_trans [of _ "0 :: int"])
  then show ?thesis
    by (simp add: sint_uint)
qed

lemma sint_to_i16_unat:
  assumes "unat (x :: u32) < 2 ^ 15"
  shows "sint (to_i16 x) = int (unat x)"
proof -
  have "int (unat x) < 2 ^ 15"
    using assms by (metis of_nat_less_iff of_nat_numeral of_nat_power)
  then have "signed_take_bit 15 (int (unat x)) = int (unat x)"
    by (intro signed_take_bit_id) (simp_all add: order_trans [of _ "0 :: int"])
  moreover have "sint x = int (unat x)"
    using assms by (intro sint_unat) simp
  ultimately show ?thesis
    by (simp only: sint_to_i16)
qed

lemma unat_ucast_up:
  assumes "LENGTH('a) \<le> LENGTH('b)"
  shows "unat (ucast (x :: 'a :: len word) :: 'b :: len word) = unat x"
proof -
  have "unat x < 2 ^ LENGTH('b)"
    using unsigned_less [where w = x and 'a = nat] assms
    by (meson less_le_trans one_le_numeral power_increasing)
  then show ?thesis
    by (simp add: unsigned_ucast_eq take_bit_nat_eq_self)
qed

text \<open>A product of two \<open>int16_t\<close> values fits an \<open>int\<close>.\<close>

lemma abs_mult_i16_le:
  fixes x y :: int
  assumes "\<bar>x\<bar> \<le> m" and "\<bar>y\<bar> \<le> n"
  shows "\<bar>x * y\<bar> \<le> m * n"
  using assms by (simp add: abs_mult mult_mono)

lemma sint_mult_i16 [c_int]: "sint (promote16 a * promote16 b) = sint a * sint b"
proof -
  have "\<bar>sint a\<bar> \<le> 32768" "\<bar>sint b\<bar> \<le> 32768"
    using sint_i16_range [of a] sint_i16_range [of b] by linarith+
  then have "\<bar>sint a * sint b\<bar> \<le> 32768 * 32768"
    by (rule abs_mult_i16_le)
  then show ?thesis
    by (simp add: sint_i32_arith signed_take_bit_id abs_le_iff)
qed

section \<open>Integers modulo the Kyber prime\<close>

type_synonym zq = "3329"

lemma of_int_zq_eq_0: "(of_int k :: zq) = 0 \<longleftrightarrow> 3329 dvd k"
  by (simp add: of_int_eq_0_iff_char_dvd bit1.CHAR_eq)

lemma of_int_zq_eq_iff: "(of_int a :: zq) = of_int b \<longleftrightarrow> a mod 3329 = b mod 3329"
proof -
  have "(of_int a :: zq) = of_int b \<longleftrightarrow> (of_int (a - b) :: zq) = 0"
    by simp
  also have "\<dots> \<longleftrightarrow> 3329 dvd a - b"
    by (rule of_int_zq_eq_0)
  also have "\<dots> \<longleftrightarrow> a mod 3329 = b mod 3329"
    by (simp add: mod_eq_dvd_iff)
  finally show ?thesis .
qed

text \<open>The residue class an \<open>int16_t\<close> coefficient stands for.\<close>

declare of_int_sint [simp del]

definition zq_of :: "i16 \<Rightarrow> zq" where
  "zq_of a = of_int (sint a)"

lemma zq_of_eq_iff: "zq_of a = zq_of b \<longleftrightarrow> sint a mod 3329 = sint b mod 3329"
  by (simp add: zq_of_def of_int_zq_eq_iff)

lemma zq_of_0 [simp]: "zq_of 0 = 0"
  by (simp add: zq_of_def)

text \<open>Sums and differences of coefficients that do not leave the \<open>int16_t\<close> range.\<close>

lemma sint_add_i16:
  "\<bar>sint (a :: i16)\<bar> + \<bar>sint b\<bar> < 32768 \<Longrightarrow> sint (a + b) = sint a + sint b"
  by (simp add: sint_i16_arith signed_take_bit_id)

lemma sint_sub_i16:
  "\<bar>sint (a :: i16)\<bar> + \<bar>sint b\<bar> < 32768 \<Longrightarrow> sint (a - b) = sint a - sint b"
  by (simp add: sint_i16_arith signed_take_bit_id)

lemma zq_of_add: "\<bar>sint a\<bar> + \<bar>sint b\<bar> < 32768 \<Longrightarrow> zq_of (a + b) = zq_of a + zq_of b"
  by (simp add: zq_of_def sint_add_i16)

lemma zq_of_sub: "\<bar>sint a\<bar> + \<bar>sint b\<bar> < 32768 \<Longrightarrow> zq_of (a - b) = zq_of a - zq_of b"
  by (simp add: zq_of_def sint_sub_i16)

text \<open>Computing a sum or difference in \<open>int\<close> and storing it in an \<open>int16_t\<close> wraps modulo \<open>2^16\<close>.\<close>

lemma to_i16_promote16:
  "to_i16 (promote16 a + promote16 b) = a + b"
  "to_i16 (promote16 a - promote16 b) = a - b"
  by (auto intro!: sint_inj simp: c_int)

lemma uint_eq_sint:
  assumes "0 \<le> sint (w :: 'a :: len word)"
  shows "uint w = sint w"
proof -
  have "uint w = uint (word_of_int (sint w) :: 'a word)"
    by (simp add: of_int_sint)
  also have "\<dots> = sint w mod 2 ^ LENGTH('a)"
    by (rule uint_word_of_int)
  also have "\<dots> = sint w"
  proof (rule mod_pos_pos_trivial [OF assms])
    show "sint w < 2 ^ LENGTH('a)"
      using sint_lt [of w] by (meson diff_le_self less_le_trans one_le_numeral power_increasing)
  qed
  finally show ?thesis .
qed

section \<open>Loops over index ranges\<close>

text \<open>A loop that copies the first \<open>n\<close> entries of an array.\<close>

lemma fold_copy:
  assumes "n \<le> length x" and "n \<le> length r"
  shows "fold (\<lambda>i r. r[i := x ! i]) [0..<n] r = take n x @ drop n r"
  using assms
proof (induction n)
  case (Suc n)
  then have "drop n r = r ! n # drop (Suc n) r"
    by (simp add: Cons_nth_drop_Suc)
  then show ?case
    using Suc by (simp add: list_update_append take_Suc_conv_app_nth)
qed simp

text \<open>
  A butterfly reads two entries at distance \<open>len\<close> and overwrites both. \<open>butterfly_loop\<close> runs it over a
  range of positions and \<open>block_loop\<close> over all blocks of \<open>2 * len\<close> entries; since no two steps touch
  the same entries, the final array is described entry by entry from the initial one.
\<close>

definition butterfly :: "('a \<Rightarrow> 'a \<Rightarrow> 'a) \<Rightarrow> ('a \<Rightarrow> 'a \<Rightarrow> 'a) \<Rightarrow> nat \<Rightarrow> nat \<Rightarrow> 'a list \<Rightarrow> 'a list" where
  "butterfly f g len j r = r[j + len := g (r ! j) (r ! (j + len)), j := f (r ! j) (r ! (j + len))]"

definition butterfly_loop ::
    "('a \<Rightarrow> 'a \<Rightarrow> 'a) \<Rightarrow> ('a \<Rightarrow> 'a \<Rightarrow> 'a) \<Rightarrow> nat \<Rightarrow> nat \<Rightarrow> nat \<Rightarrow> 'a list \<Rightarrow> 'a list" where
  "butterfly_loop f g len start m r = fold (butterfly f g len) [start..<start + m] r"

definition block_loop ::
    "(nat \<Rightarrow> 'a \<Rightarrow> 'a \<Rightarrow> 'a) \<Rightarrow> (nat \<Rightarrow> 'a \<Rightarrow> 'a \<Rightarrow> 'a) \<Rightarrow> nat \<Rightarrow> nat \<Rightarrow> 'a list \<Rightarrow> 'a list" where
  "block_loop f g len nb r =
     fold (\<lambda>b. butterfly_loop (f b) (g b) len (b * (2 * len)) len) [0..<nb] r"

lemma length_butterfly [simp]: "length (butterfly f g len j r) = length r"
  by (simp add: butterfly_def)

lemma length_butterfly_loop [simp]: "length (butterfly_loop f g len start m r) = length r"
  unfolding butterfly_loop_def by (induction m arbitrary: r) simp_all

lemma length_block_loop [simp]: "length (block_loop f g len nb r) = length r"
  unfolding block_loop_def by (induction nb arbitrary: r) simp_all

lemma butterfly_loop_nth:
  assumes "m \<le> len" and "start + len + m \<le> length r" and "i < length r"
  shows "butterfly_loop f g len start m r ! i =
    (if start \<le> i \<and> i < start + m then f (r ! i) (r ! (i + len))
     else if start + len \<le> i \<and> i < start + len + m then g (r ! (i - len)) (r ! i)
     else r ! i)"
  using assms
proof (induction m arbitrary: i)
  case 0
  then show ?case
    by (auto simp: butterfly_loop_def)
next
  case (Suc m)
  let ?r = "butterfly_loop f g len start m r"
  have "butterfly_loop f g len start (Suc m) r = butterfly f g len (start + m) ?r"
    by (simp add: butterfly_loop_def)
  moreover have "?r ! (start + m) = r ! (start + m)"
    and "?r ! (start + m + len) = r ! (start + m + len)"
    using Suc.prems by (simp_all add: Suc.IH)
  ultimately show ?case
    using Suc.prems by (auto simp: butterfly_def nth_list_update Suc.IH less_Suc_eq add.commute)
qed

lemma block_loop_Suc:
  "block_loop f g len (Suc nb) r
     = butterfly_loop (f nb) (g nb) len (nb * (2 * len)) len (block_loop f g len nb r)"
  by (simp add: block_loop_def)

lemma block_loop_nth_above:
  assumes "nb * (2 * len) \<le> i" and "i < length r"
  shows "block_loop f g len nb r ! i = r ! i"
  using assms
proof (induction nb)
  case 0
  then show ?case
    by (simp add: block_loop_def)
next
  case (Suc nb)
  then show ?case
    by (simp add: block_loop_Suc butterfly_loop_nth)
qed

lemma block_loop_nth:
  assumes "nb * (2 * len) \<le> length r" and "b < nb" and "j < len"
  shows "block_loop f g len nb r ! (b * (2 * len) + j)
           = f b (r ! (b * (2 * len) + j)) (r ! (b * (2 * len) + (len + j)))"
    and "block_loop f g len nb r ! (b * (2 * len) + (len + j))
           = g b (r ! (b * (2 * len) + j)) (r ! (b * (2 * len) + (len + j)))"
  using assms
proof (induction nb)
  case 0
  { case 1 then show ?case by simp }
  { case 2 then show ?case by simp }
next
  case (Suc nb)
  have below: "b * (2 * len) + (len + j) < nb * (2 * len)" if "b < nb"
  proof -
    have "Suc b * (2 * len) \<le> nb * (2 * len)"
      using that by (intro mult_le_mono1) simp
    then show ?thesis
      using \<open>j < len\<close> by simp
  qed
  { case 1
    then show ?case
      using Suc.IH below
      by (cases "b < nb") (auto simp: block_loop_Suc butterfly_loop_nth block_loop_nth_above less_Suc_eq ac_simps)
  }
  { case 2
    then show ?case
      using Suc.IH below
      by (cases "b < nb") (auto simp: block_loop_Suc butterfly_loop_nth block_loop_nth_above less_Suc_eq ac_simps)
  }
qed

end
