(* ===== verification/Keccak.thy ===== *)
theory Keccak
  imports Prelude
begin

text \<open>
  The permutation of \<open>native/mlkem/common/fips202.c\<close>. The source unrolls two rounds per iteration and
  keeps the 25 lanes in local variables; each half of the loop body is translated assignment by
  assignment (\<open>keccak_round_AE\<close> from the variables \<open>A..\<close> to \<open>E..\<close>, \<open>keccak_round_EA\<close> back). Both are
  shown equal to the composition of the five step mappings of FIPS 202 (section 3.2), with the
  rotation offsets and the round constants computed by the algorithms of the standard.
\<close>

section \<open>Definitions\<close>

definition NROUNDS :: nat where "NROUNDS = 24"

definition ROL :: "u64 \<Rightarrow> nat \<Rightarrow> u64" where
  "ROL a offset = push_bit offset a XOR drop_bit (64 - offset) a"

definition load64 :: "bytes \<Rightarrow> u64" where
  "load64 x = fold (\<lambda>i r. r OR push_bit (8 * i) (ucast (x ! i))) [0..<8] 0"

definition store64 :: "u64 \<Rightarrow> bytes" where
  "store64 u = map (\<lambda>i. ucast (drop_bit (8 * i) u)) [0..<8]"

definition KeccakF_RoundConstants :: "u64 list" where
  "KeccakF_RoundConstants = [
    0x0000000000000001, 0x0000000000008082,
    0x800000000000808a, 0x8000000080008000,
    0x000000000000808b, 0x0000000080000001,
    0x8000000080008081, 0x8000000000008009,
    0x000000000000008a, 0x0000000000000088,
    0x0000000080008009, 0x000000008000000a,
    0x000000008000808b, 0x800000000000008b,
    0x8000000000008089, 0x8000000000008003,
    0x8000000000008002, 0x8000000000000080,
    0x000000000000800a, 0x800000008000000a,
    0x8000000080008081, 0x8000000000008080,
    0x0000000080000001, 0x8000000080008008]"

definition keccak_round_AE :: "nat \<Rightarrow> u64 list \<Rightarrow> u64 list" where
  "keccak_round_AE round A =
     (let Aba = A ! 0; Abe = A ! 1; Abi = A ! 2; Abo = A ! 3; Abu = A ! 4;
          Aga = A ! 5; Age = A ! 6; Agi = A ! 7; Ago = A ! 8; Agu = A ! 9;
          Aka = A ! 10; Ake = A ! 11; Aki = A ! 12; Ako = A ! 13; Aku = A ! 14;
          Ama = A ! 15; Ame = A ! 16; Ami = A ! 17; Amo = A ! 18; Amu = A ! 19;
          Asa = A ! 20; Ase = A ! 21; Asi = A ! 22; Aso = A ! 23; Asu = A ! 24;
          BCa = Aba XOR Aga XOR Aka XOR Ama XOR Asa;
          BCe = Abe XOR Age XOR Ake XOR Ame XOR Ase;
          BCi = Abi XOR Agi XOR Aki XOR Ami XOR Asi;
          BCo = Abo XOR Ago XOR Ako XOR Amo XOR Aso;
          BCu = Abu XOR Agu XOR Aku XOR Amu XOR Asu; Da = BCu XOR ROL BCe 1;
          De = BCa XOR ROL BCi 1; Di = BCe XOR ROL BCo 1;
          Do = BCi XOR ROL BCu 1; Du = BCo XOR ROL BCa 1;
          Aba = Aba XOR Da; BCa = Aba;
          Age = Age XOR De; BCe = ROL Age 44;
          Aki = Aki XOR Di; BCi = ROL Aki 43;
          Amo = Amo XOR Do; BCo = ROL Amo 21;
          Asu = Asu XOR Du; BCu = ROL Asu 14;
          Eba = BCa XOR ((NOT BCe) AND BCi); Eba = Eba XOR KeccakF_RoundConstants ! round;
          Ebe = BCe XOR ((NOT BCi) AND BCo); Ebi = BCi XOR ((NOT BCo) AND BCu);
          Ebo = BCo XOR ((NOT BCu) AND BCa); Ebu = BCu XOR ((NOT BCa) AND BCe);
          Abo = Abo XOR Do; BCa = ROL Abo 28;
          Agu = Agu XOR Du; BCe = ROL Agu 20;
          Aka = Aka XOR Da; BCi = ROL Aka 3;
          Ame = Ame XOR De; BCo = ROL Ame 45;
          Asi = Asi XOR Di; BCu = ROL Asi 61;
          Ega = BCa XOR ((NOT BCe) AND BCi); Ege = BCe XOR ((NOT BCi) AND BCo);
          Egi = BCi XOR ((NOT BCo) AND BCu); Ego = BCo XOR ((NOT BCu) AND BCa);
          Egu = BCu XOR ((NOT BCa) AND BCe); Abe = Abe XOR De;
          BCa = ROL Abe 1; Agi = Agi XOR Di;
          BCe = ROL Agi 6; Ako = Ako XOR Do;
          BCi = ROL Ako 25; Amu = Amu XOR Du;
          BCo = ROL Amu 8; Asa = Asa XOR Da;
          BCu = ROL Asa 18; Eka = BCa XOR ((NOT BCe) AND BCi);
          Eke = BCe XOR ((NOT BCi) AND BCo); Eki = BCi XOR ((NOT BCo) AND BCu);
          Eko = BCo XOR ((NOT BCu) AND BCa); Eku = BCu XOR ((NOT BCa) AND BCe);
          Abu = Abu XOR Du; BCa = ROL Abu 27;
          Aga = Aga XOR Da; BCe = ROL Aga 36;
          Ake = Ake XOR De; BCi = ROL Ake 10;
          Ami = Ami XOR Di; BCo = ROL Ami 15;
          Aso = Aso XOR Do; BCu = ROL Aso 56;
          Ema = BCa XOR ((NOT BCe) AND BCi); Eme = BCe XOR ((NOT BCi) AND BCo);
          Emi = BCi XOR ((NOT BCo) AND BCu); Emo = BCo XOR ((NOT BCu) AND BCa);
          Emu = BCu XOR ((NOT BCa) AND BCe); Abi = Abi XOR Di;
          BCa = ROL Abi 62; Ago = Ago XOR Do;
          BCe = ROL Ago 55; Aku = Aku XOR Du;
          BCi = ROL Aku 39; Ama = Ama XOR Da;
          BCo = ROL Ama 41; Ase = Ase XOR De;
          BCu = ROL Ase 2; Esa = BCa XOR ((NOT BCe) AND BCi);
          Ese = BCe XOR ((NOT BCi) AND BCo); Esi = BCi XOR ((NOT BCo) AND BCu);
          Eso = BCo XOR ((NOT BCu) AND BCa); Esu = BCu XOR ((NOT BCa) AND BCe)
      in [Eba, Ebe, Ebi, Ebo, Ebu,
          Ega, Ege, Egi, Ego, Egu,
          Eka, Eke, Eki, Eko, Eku,
          Ema, Eme, Emi, Emo, Emu,
          Esa, Ese, Esi, Eso, Esu])"

definition keccak_round_EA :: "nat \<Rightarrow> u64 list \<Rightarrow> u64 list" where
  "keccak_round_EA round E =
     (let Eba = E ! 0; Ebe = E ! 1; Ebi = E ! 2; Ebo = E ! 3; Ebu = E ! 4;
          Ega = E ! 5; Ege = E ! 6; Egi = E ! 7; Ego = E ! 8; Egu = E ! 9;
          Eka = E ! 10; Eke = E ! 11; Eki = E ! 12; Eko = E ! 13; Eku = E ! 14;
          Ema = E ! 15; Eme = E ! 16; Emi = E ! 17; Emo = E ! 18; Emu = E ! 19;
          Esa = E ! 20; Ese = E ! 21; Esi = E ! 22; Eso = E ! 23; Esu = E ! 24;
          BCa = Eba XOR Ega XOR Eka XOR Ema XOR Esa;
          BCe = Ebe XOR Ege XOR Eke XOR Eme XOR Ese;
          BCi = Ebi XOR Egi XOR Eki XOR Emi XOR Esi;
          BCo = Ebo XOR Ego XOR Eko XOR Emo XOR Eso;
          BCu = Ebu XOR Egu XOR Eku XOR Emu XOR Esu; Da = BCu XOR ROL BCe 1;
          De = BCa XOR ROL BCi 1; Di = BCe XOR ROL BCo 1;
          Do = BCi XOR ROL BCu 1; Du = BCo XOR ROL BCa 1;
          Eba = Eba XOR Da; BCa = Eba;
          Ege = Ege XOR De; BCe = ROL Ege 44;
          Eki = Eki XOR Di; BCi = ROL Eki 43;
          Emo = Emo XOR Do; BCo = ROL Emo 21;
          Esu = Esu XOR Du; BCu = ROL Esu 14;
          Aba = BCa XOR ((NOT BCe) AND BCi);
          Aba = Aba XOR KeccakF_RoundConstants ! (round + 1);
          Abe = BCe XOR ((NOT BCi) AND BCo); Abi = BCi XOR ((NOT BCo) AND BCu);
          Abo = BCo XOR ((NOT BCu) AND BCa); Abu = BCu XOR ((NOT BCa) AND BCe);
          Ebo = Ebo XOR Do; BCa = ROL Ebo 28;
          Egu = Egu XOR Du; BCe = ROL Egu 20;
          Eka = Eka XOR Da; BCi = ROL Eka 3;
          Eme = Eme XOR De; BCo = ROL Eme 45;
          Esi = Esi XOR Di; BCu = ROL Esi 61;
          Aga = BCa XOR ((NOT BCe) AND BCi); Age = BCe XOR ((NOT BCi) AND BCo);
          Agi = BCi XOR ((NOT BCo) AND BCu); Ago = BCo XOR ((NOT BCu) AND BCa);
          Agu = BCu XOR ((NOT BCa) AND BCe); Ebe = Ebe XOR De;
          BCa = ROL Ebe 1; Egi = Egi XOR Di;
          BCe = ROL Egi 6; Eko = Eko XOR Do;
          BCi = ROL Eko 25; Emu = Emu XOR Du;
          BCo = ROL Emu 8; Esa = Esa XOR Da;
          BCu = ROL Esa 18; Aka = BCa XOR ((NOT BCe) AND BCi);
          Ake = BCe XOR ((NOT BCi) AND BCo); Aki = BCi XOR ((NOT BCo) AND BCu);
          Ako = BCo XOR ((NOT BCu) AND BCa); Aku = BCu XOR ((NOT BCa) AND BCe);
          Ebu = Ebu XOR Du; BCa = ROL Ebu 27;
          Ega = Ega XOR Da; BCe = ROL Ega 36;
          Eke = Eke XOR De; BCi = ROL Eke 10;
          Emi = Emi XOR Di; BCo = ROL Emi 15;
          Eso = Eso XOR Do; BCu = ROL Eso 56;
          Ama = BCa XOR ((NOT BCe) AND BCi); Ame = BCe XOR ((NOT BCi) AND BCo);
          Ami = BCi XOR ((NOT BCo) AND BCu); Amo = BCo XOR ((NOT BCu) AND BCa);
          Amu = BCu XOR ((NOT BCa) AND BCe); Ebi = Ebi XOR Di;
          BCa = ROL Ebi 62; Ego = Ego XOR Do;
          BCe = ROL Ego 55; Eku = Eku XOR Du;
          BCi = ROL Eku 39; Ema = Ema XOR Da;
          BCo = ROL Ema 41; Ese = Ese XOR De;
          BCu = ROL Ese 2; Asa = BCa XOR ((NOT BCe) AND BCi);
          Ase = BCe XOR ((NOT BCi) AND BCo); Asi = BCi XOR ((NOT BCo) AND BCu);
          Aso = BCo XOR ((NOT BCu) AND BCa); Asu = BCu XOR ((NOT BCa) AND BCe)
      in [Aba, Abe, Abi, Abo, Abu,
          Aga, Age, Agi, Ago, Agu,
          Aka, Ake, Aki, Ako, Aku,
          Ama, Ame, Ami, Amo, Amu,
          Asa, Ase, Asi, Aso, Asu])"

text \<open>
  The first 25 words of the array are permuted; an array may be longer (the incremental API keeps a
  counter behind them).
\<close>

definition KeccakF1600_StatePermute :: "u64 list \<Rightarrow> u64 list" where
  "KeccakF1600_StatePermute state =
     (let A = map (\<lambda>i. state ! i) [0..<25];
          A = fold (\<lambda>k A. keccak_round_EA (2 * k) (keccak_round_AE (2 * k) A)) [0..<NROUNDS div 2] A
      in A @ drop 25 state)"

section \<open>The step mappings of FIPS 202\<close>

text \<open>Lane \<open>(x, y)\<close> of a state is entry \<open>x + 5 * y\<close>.\<close>

definition lanes :: "(nat \<Rightarrow> nat \<Rightarrow> u64) \<Rightarrow> u64 list" where
  "lanes f = map (\<lambda>i. f (i mod 5) (i div 5)) [0..<25]"

definition theta :: "u64 list \<Rightarrow> u64 list" where
  "theta A = (let C = (\<lambda>x. A ! x XOR A ! (x + 5) XOR A ! (x + 10) XOR A ! (x + 15) XOR A ! (x + 20));
                  D = (\<lambda>x. C ((x + 4) mod 5) XOR word_rotl 1 (C ((x + 1) mod 5)))
              in lanes (\<lambda>x y. A ! (x + 5 * y) XOR D x))"

text \<open>Algorithm 2: walk from \<open>(1, 0)\<close> by \<open>(x, y) := (y, 2 x + 3 y)\<close>; step \<open>t\<close> rotates by \<open>(t + 1) (t + 2) / 2\<close>.\<close>

fun rho_walk :: "nat \<Rightarrow> nat \<times> nat \<Rightarrow> (nat \<times> nat) list" where
  "rho_walk 0 p = []"
| "rho_walk (Suc n) (x, y) = (x, y) # rho_walk n (y, (2 * x + 3 * y) mod 5)"

definition rho_table :: "((nat \<times> nat) \<times> nat) list" where
  "rho_table = zip (rho_walk 24 (1, 0)) (map (\<lambda>t. (t + 1) * (t + 2) div 2 mod 64) [0..<24])"

definition rho_offset :: "nat \<Rightarrow> nat \<Rightarrow> nat" where
  "rho_offset x y = (case map_of rho_table (x, y) of None \<Rightarrow> 0 | Some k \<Rightarrow> k)"

definition rho :: "u64 list \<Rightarrow> u64 list" where
  "rho A = lanes (\<lambda>x y. word_rotl (rho_offset x y) (A ! (x + 5 * y)))"

definition pi_step :: "u64 list \<Rightarrow> u64 list" where
  "pi_step A = lanes (\<lambda>x y. A ! ((x + 3 * y) mod 5 + 5 * x))"

definition chi :: "u64 list \<Rightarrow> u64 list" where
  "chi A = lanes (\<lambda>x y. A ! (x + 5 * y) XOR (NOT (A ! ((x + 1) mod 5 + 5 * y)) AND A ! ((x + 2) mod 5 + 5 * y)))"

text \<open>
  Algorithm 5: the linear feedback shift register behind the round constants. \<open>rc_bits n R\<close> lists the
  next \<open>n\<close> outputs from register \<open>R\<close>; the rounds use the first 168, so the reduction of the index
  modulo 255 in the standard has no effect.
\<close>

fun lfsr_step :: "bool list \<Rightarrow> bool list" where
  "lfsr_step [r0, r1, r2, r3, r4, r5, r6, r7] =
     [r7, r0, r1, r2, r3 \<noteq> r7, r4 \<noteq> r7, r5 \<noteq> r7, r6]"
| "lfsr_step _ = []"

fun rc_bits :: "nat \<Rightarrow> bool list \<Rightarrow> bool list" where
  "rc_bits 0 R = []"
| "rc_bits (Suc n) R = hd R # rc_bits n (lfsr_step R)"

definition rc_bit :: "nat \<Rightarrow> bool" where
  "rc_bit t = rc_bits 168 [True, False, False, False, False, False, False, False] ! t"

definition round_constant :: "nat \<Rightarrow> u64" where
  "round_constant ir = fold (\<lambda>j w. if rc_bit (7 * ir + j) then w OR push_bit (2 ^ j - 1) 1 else w) [0..<7] 0"

definition iota :: "nat \<Rightarrow> u64 list \<Rightarrow> u64 list" where
  "iota ir A = A[0 := A ! 0 XOR round_constant ir]"

definition keccak_round :: "nat \<Rightarrow> u64 list \<Rightarrow> u64 list" where
  "keccak_round ir A = iota ir (chi (pi_step (rho (theta A))))"

section \<open>The unrolled rounds are the rounds of the standard\<close>

lemma ROL_rotl:
  assumes "0 < n" and "n < 64"
  shows "ROL a n = word_rotl n a"
proof (rule bit_word_eqI)
  fix m assume "m < LENGTH(64)"
  then have m: "m < 64"
    by simp
  have r: "bit (word_rotl n a) m = bit a ((m + (64 - n)) mod 64)"
    using m assms by (simp add: bit_word_rotl_iff)
  show "bit (ROL a n) m = bit (word_rotl n a) m"
  proof (cases "n \<le> m")
    case True
    then have "(m + (64 - n)) mod 64 = m - n"
      using m assms by (simp add: mod_if)
    moreover have "\<not> bit a (64 - n + m)"
      using True bit_imp_le_length [of a "64 - n + m"] by auto
    ultimately show ?thesis
      using True m by (simp add: r ROL_def bit_simps)
  next
    case False
    then have "m + (64 - n) < 64"
      using m assms by linarith
    then have e: "(m + (64 - n)) mod 64 = 64 - n + m"
      by simp
    show ?thesis
      unfolding r e using False m by (simp add: ROL_def bit_simps)
  qed
qed

lemma nth_lanes: "i < 25 \<Longrightarrow> lanes f ! i = f (i mod 5) (i div 5)"
  by (simp add: lanes_def)

lemma length_lanes [simp, len_simps]: "length (lanes f) = 25"
  by (simp add: lanes_def)

lemma rho_walk_24:
  "rho_walk 24 (1, 0) =
    [(1, 0), (0, 2), (2, 1), (1, 2), (2, 3), (3, 3), (3, 0), (0, 1), (1, 3), (3, 1), (1, 4), (4, 4), (4, 0), (0, 3), (3, 4), (4, 3), (3, 2), (2, 2), (2, 0), (0, 4), (4, 2), (2, 4), (4, 1), (1, 1)]"
  by code_simp

lemma rho_offset_table:
  "map (\<lambda>i. rho_offset (i mod 5) (i div 5)) [0..<25]
     = [0, 1, 62, 28, 27, 36, 44, 6, 55, 20, 3, 10, 43, 25, 39, 41, 45, 15, 21, 8, 18, 2, 61, 56, 14]"
  unfolding rho_offset_def rho_table_def rho_walk_24 by (simp add: upt_rec)

lemma rc_bits_168:
  "rc_bits 168 [True, False, False, False, False, False, False, False] =
    [True, False, False, False, False, False, False,
     False, True, False, True, True, False, False,
     False, True, True, True, True, False, True,
     False, False, False, False, True, True, True,
     True, True, True, True, True, False, False,
     True, False, False, False, False, True, False,
     True, False, False, True, True, True, True,
     True, False, True, False, True, False, True,
     False, True, True, True, False, False, False,
     False, False, True, True, False, False, False,
     True, False, True, False, True, True, False,
     False, True, True, False, False, True, False,
     True, True, True, True, True, True, False,
     True, True, True, True, False, False, True,
     True, False, True, True, True, False, True,
     True, True, False, False, True, False, True,
     False, True, False, False, True, False, True,
     False, False, False, True, False, False, True,
     False, True, True, False, True, False, False,
     False, True, True, False, False, True, True,
     True, False, False, True, True, True, True,
     False, False, False, True, True, False, True,
     True, False, False, False, False, True, False,
     False, False, True, False, True, True, True]"
  by code_simp

lemma round_constants: "map round_constant [0..<24] = KeccakF_RoundConstants"
  unfolding round_constant_def rc_bit_def rc_bits_168 KeccakF_RoundConstants_def
  by (simp add: upt_rec)


lemma rho_offset_nth:
  assumes "i < 25"
  shows "rho_offset (i mod 5) (i div 5)
    = [0, 1, 62, 28, 27, 36, 44, 6, 55, 20, 3, 10, 43, 25, 39, 41, 45, 15, 21, 8, 18, 2, 61, 56, 14] ! i"
  unfolding rho_offset_table [symmetric] using assms by simp

text \<open>The step mappings, lane by lane.\<close>

lemma theta_nth: "i < 25 \<Longrightarrow> theta A ! i = A ! i XOR
     ((A ! ((i + 4) mod 5) XOR A ! ((i + 4) mod 5 + 5) XOR A ! ((i + 4) mod 5 + 10) XOR A ! ((i + 4) mod 5 + 15) XOR A ! ((i + 4) mod 5 + 20)) XOR
      word_rotl 1 (A ! ((i + 1) mod 5) XOR A ! ((i + 1) mod 5 + 5) XOR A ! ((i + 1) mod 5 + 10) XOR A ! ((i + 1) mod 5 + 15) XOR A ! ((i + 1) mod 5 + 20)))"
  unfolding theta_def Let_def by (simp add: nth_lanes mod_simps)

lemma rho_nth: "i < 25 \<Longrightarrow> rho A ! i = word_rotl ([0, 1, 62, 28, 27, 36, 44, 6, 55, 20, 3, 10, 43, 25, 39, 41, 45, 15, 21, 8, 18, 2, 61, 56, 14] ! i) (A ! i)"
  unfolding rho_def by (simp add: nth_lanes rho_offset_nth)

lemma pi_step_nth: "i < 25 \<Longrightarrow> pi_step A ! i = A ! ((i mod 5 + 3 * (i div 5)) mod 5 + 5 * (i mod 5))"
  unfolding pi_step_def by (simp add: nth_lanes)

lemma chi_nth: "i < 25 \<Longrightarrow> chi A ! i = A ! i XOR (NOT (A ! ((i + 1) mod 5 + 5 * (i div 5))) AND A ! ((i + 2) mod 5 + 5 * (i div 5)))"
  unfolding chi_def by (simp add: nth_lanes mod_simps)

lemma iota_nth: "i < length A \<Longrightarrow> iota r A ! i = (if i = 0 then A ! 0 XOR round_constant r else A ! i)"
  by (auto simp: iota_def nth_list_update)

lemma length_steps [simp, len_simps]: 
  "length (theta A) = 25" "length (rho A) = 25" "length (pi_step A) = 25" "length (chi A) = 25"
  "length (iota r A) = length A"
  by (simp_all add: theta_def rho_def pi_step_def chi_def iota_def Let_def)

lemma RoundConstants_nth: "r < 24 \<Longrightarrow> KeccakF_RoundConstants ! r = round_constant r"
  by (simp flip: round_constants)

lemma keccak_round_map: "keccak_round r A = map (\<lambda>i. keccak_round r A ! i) [0..<25]"
  using map_nth [of "keccak_round r A"] by (simp add: keccak_round_def)

lemmas step_nth = iota_nth chi_nth pi_step_nth rho_nth theta_nth

lemma upt_0_25:
  "[0..<25] = [0, 1, 2, 3, 4, 5, 6, 7, 8, 9, 10, 11, 12, 13, 14, 15, 16, 17, 18, 19, 20, 21, 22, 23, 24]"
  by (simp add: upt_rec)

lemma word_rotl_0: "word_rotl 0 (w :: u64) = w"
  by (rule bit_word_eqI) (simp add: bit_word_rotl_iff)

lemma keccak_round_AE_eq:
  assumes "r < 24"
  shows "keccak_round_AE r A = keccak_round r A"
  unfolding keccak_round_AE_def Let_def RoundConstants_nth [OF assms]
  by (subst keccak_round_map) (simp add: upt_0_25 keccak_round_def ROL_rotl step_nth word_rotl_0 xor.assoc,
      simp add: numeral_2_eq_2)

lemma keccak_round_EA_eq:
  assumes "r + 1 < 24"
  shows "keccak_round_EA r A = keccak_round (r + 1) A"
  unfolding keccak_round_EA_def Let_def RoundConstants_nth [OF assms]
  by (subst keccak_round_map) (simp add: upt_0_25 keccak_round_def ROL_rotl step_nth word_rotl_0 xor.assoc,
      simp add: numeral_2_eq_2)

lemma fold_pairs: "fold (\<lambda>k x. f (Suc (2 * k)) (f (2 * k) x)) [0..<n] x = fold f [0..<2 * n] x"
  by (induction n) simp_all

lemma length_keccak_round [simp, len_simps]: "length (keccak_round r A) = 25"
  by (simp add: keccak_round_def)

text \<open>\<open>KECCAK-p[1600, 24]\<close>.\<close>

definition keccak_p :: "u64 list \<Rightarrow> u64 list" where
  "keccak_p A = fold keccak_round [0..<24] A"

lemma KeccakF1600_StatePermute_eq:
  assumes "25 \<le> length s"
  shows "KeccakF1600_StatePermute s = keccak_p (take 25 s) @ drop 25 s"
proof -
  have "map (\<lambda>i. s ! i) [0..<25] = take 25 s"
    using assms by (intro nth_equalityI) simp_all
  moreover have "fold (\<lambda>k A. keccak_round_EA (2 * k) (keccak_round_AE (2 * k) A)) [0..<12] A
      = fold (\<lambda>k A. keccak_round (2 * k + 1) (keccak_round (2 * k) A)) [0..<12] A" for A
    by (rule fold_cong) (auto simp: keccak_round_AE_eq keccak_round_EA_eq)
  ultimately show ?thesis
    by (simp add: KeccakF1600_StatePermute_def NROUNDS_def keccak_p_def fold_pairs)
qed

lemma length_keccak_p [simp, len_simps]: "length (keccak_p A) = 25"
  by (simp add: keccak_p_def eval_nat_numeral)

lemma length_StatePermute [simp, len_simps]: "25 \<le> length s \<Longrightarrow> length (KeccakF1600_StatePermute s) = length s"
  by (simp add: KeccakF1600_StatePermute_eq)

section \<open>Properties\<close>

text \<open>
  C19. \<open>KeccakF1600_StatePermute\<close> (\<open>fips202.c\<close>), unrolled to two rounds per iteration over 25 named lanes
  with precomputed rotations and round constants, computes Keccak-p[1600, 24] of FIPS 202 as the
  composition of theta, rho, pi, chi and iota, with the rotation offsets and round constants generated
  as the standard defines them; words past the first 25 are left alone.
\<close>

theorem keccak_permutation:
  assumes "25 \<le> length s"
  shows "KeccakF1600_StatePermute s = keccak_p (take 25 s) @ drop 25 s"
  using assms by (rule KeccakF1600_StatePermute_eq)

theorem keccak_permutation_witness:
  "KeccakF1600_StatePermute (replicate 26 7) = keccak_p (take 25 (replicate 26 7)) @ drop 25 (replicate 26 7)"
  by (rule keccak_permutation) simp

end
