(* ===== verification/Codec.thy ===== *)
theory Codec
  imports Prelude
begin

text \<open>
  Packing of \<open>d\<close>-bit integers into bytes. FIPS 203 (section 4.2.1) reads a byte array as the bit
  string \<open>bit_at\<close> and stores integer number \<open>i\<close> in the bits from \<open>d * i\<close> on, least significant bit
  first. The C code packs \<open>g\<close> integers at a time into \<open>k\<close> bytes with hand-written shifts, differently
  for every \<open>d\<close>. The locale \<open>bit_packing\<close> is the contract of such a pair of routines; the round trips
  and the layout of a whole array are proved once from it.
\<close>

section \<open>Arrays written block by block\<close>

text \<open>A loop that appends a block of \<open>k\<close> elements per iteration.\<close>

abbreviation blocks :: "nat \<Rightarrow> (nat \<Rightarrow> 'a list) \<Rightarrow> 'a list" where
  "blocks n f \<equiv> concat (map f [0..<n])"

lemma length_blocks:
  assumes "\<And>i. i < n \<Longrightarrow> length (f i) = k"
  shows "length (blocks n f) = n * k"
  using assms by (induction n) simp_all

lemma nth_blocks:
  assumes "\<And>i. i < n \<Longrightarrow> length (f i) = k" and "i < n" and "j < k"
  shows "blocks n f ! (i * k + j) = f i ! j"
  using assms
proof (induction n)
  case (Suc n)
  have len: "length (blocks n f) = n * k"
    using Suc.prems(1) by (intro length_blocks) simp
  show ?case
  proof (cases "i < n")
    case True
    then have "Suc i * k \<le> n * k"
      by (intro mult_le_mono1) simp
    then show ?thesis
      using True Suc len by (simp add: nth_append)
  next
    case False
    then have "i = n"
      using Suc.prems by simp
    then show ?thesis
      using len by (simp add: nth_append)
  qed
qed simp

lemma nth_blocks_div_mod:
  assumes "\<And>i. i < n \<Longrightarrow> length (f i) = k" and "m < n * k"
  shows "blocks n f ! m = f (m div k) ! (m mod k)"
proof -
  have "0 < k"
    using assms(2) by (cases k) auto
  moreover have "m div k < n"
    using assms(2) by (rule less_mult_imp_div_less)
  ultimately show ?thesis
    using nth_blocks [of n f k "m div k" "m mod k"] assms(1) by simp
qed

text \<open>The block number \<open>i\<close> of an array.\<close>

abbreviation block_of :: "nat \<Rightarrow> nat \<Rightarrow> 'a list \<Rightarrow> 'a list" where
  "block_of k i xs \<equiv> take k (drop (i * k) xs)"

lemma length_block_of:
  assumes "length xs = n * k" and "i < n"
  shows "length (block_of k i xs) = k"
proof -
  have "Suc i * k \<le> n * k"
    using assms(2) by (intro mult_le_mono1) simp
  then show ?thesis
    using assms by (simp add: min_absorb2 le_diff_conv2)
qed

lemma nth_block_of:
  assumes "length xs = n * k" and "i < n" and "j < k"
  shows "block_of k i xs ! j = xs ! (i * k + j)"
  using length_block_of [OF assms(1,2)] assms(3) by simp

lemma blocks_block_of:
  assumes "length xs = n * k"
  shows "blocks n (\<lambda>i. block_of k i xs) = xs"
proof (rule nth_equalityI)
  show len: "length (blocks n (\<lambda>i. block_of k i xs)) = length xs"
    unfolding assms by (rule length_blocks) (rule length_block_of [OF assms])
  fix m assume "m < length (blocks n (\<lambda>i. block_of k i xs))"
  then have m: "m < n * k"
    unfolding len assms .
  have "0 < k" and "m div k < n"
    using m less_mult_imp_div_less [OF m] by (cases k; simp)+
  then show "blocks n (\<lambda>i. block_of k i xs) ! m = xs ! m"
    using nth_blocks_div_mod [of n "\<lambda>i. block_of k i xs" k, OF _ m] length_block_of [OF assms]
      nth_block_of [OF assms]
    by simp
qed

lemma block_of_blocks:
  assumes "\<And>i. i < n \<Longrightarrow> length (f i) = k" and "i < n"
  shows "block_of k i (blocks n f) = f i"
proof (rule nth_equalityI)
  have len: "length (blocks n f) = n * k"
    using assms(1) by (rule length_blocks)
  show "length (block_of k i (blocks n f)) = length (f i)"
    using length_block_of [OF len assms(2)] assms by simp
  fix j assume "j < length (block_of k i (blocks n f))"
  then have "j < k"
    using length_block_of [OF len assms(2)] by simp
  then show "block_of k i (blocks n f) ! j = f i ! j"
    using nth_block_of [OF len assms(2)] nth_blocks [of n f k i j] assms by simp
qed

lemma map_nth_block:
  assumes "length xs = n * k" and "i < n"
  shows "map (\<lambda>j. f (xs ! (k * i + j))) [0..<k] = block_of k i (map f xs)"
proof (rule nth_equalityI)
  have len: "length (map f xs) = n * k"
    using assms by simp
  note lb = length_block_of [OF len assms(2)]
  show "length (map (\<lambda>j. f (xs ! (k * i + j))) [0..<k]) = length (block_of k i (map f xs))"
    using lb by simp
  fix j assume "j < length (map (\<lambda>j. f (xs ! (k * i + j))) [0..<k])"
  then have j: "j < k"
    by simp
  have "Suc i * k \<le> n * k"
    using assms(2) by (intro mult_le_mono1) simp
  then have "i * k + j < length xs"
    using assms(1) j by simp
  then show "map (\<lambda>j. f (xs ! (k * i + j))) [0..<k] ! j = block_of k i (map f xs) ! j"
    using nth_block_of [OF len assms(2) j] j by (simp add: mult.commute)
qed

lemma blocks_cong: "(\<And>i. i < n \<Longrightarrow> f i = g i) \<Longrightarrow> blocks n f = blocks n g"
  by (intro arg_cong [of _ _ concat] map_cong) simp_all

section \<open>The bit string of a byte array\<close>

definition bit_at :: "bytes \<Rightarrow> nat \<Rightarrow> bool" where
  "bit_at b m = bit (b ! (m div 8)) (m mod 8)"

lemma bytes_eqI:
  assumes "length a = length b" and "\<And>m. m < 8 * length b \<Longrightarrow> bit_at a m = bit_at b m"
  shows "a = b"
proof (rule nth_equalityI [OF assms(1)])
  fix i assume "i < length a"
  then have i: "i < length b"
    using assms(1) by simp
  show "a ! i = b ! i"
  proof (rule bit_word_eqI)
    fix j assume "j < LENGTH(8)"
    then have "8 * i + j < 8 * length b" and "(8 * i + j) div 8 = i" and "(8 * i + j) mod 8 = j"
      using i by simp_all
    then show "bit (a ! i) j = bit (b ! i) j"
      using assms(2) [of "8 * i + j"] by (simp add: bit_at_def)
  qed
qed

lemma bit_at_blocks:
  assumes "\<And>i. i < n \<Longrightarrow> length (f i) = k" and "i < n" and "m < 8 * k"
  shows "bit_at (blocks n f) (8 * k * i + m) = bit_at (f i) m"
proof -
  have "8 * k * i + m = m + 8 * (i * k)"
    by (simp add: ac_simps)
  then have "(8 * k * i + m) div 8 = i * k + m div 8" and "(8 * k * i + m) mod 8 = m mod 8"
    by (simp_all only: div_mult_self2 mod_mult_self2)
  moreover have "m div 8 < k"
    using assms(3) by (simp add: less_mult_imp_div_less mult.commute)
  ultimately show ?thesis
    using nth_blocks [of n f k i "m div 8"] assms by (simp add: bit_at_def)
qed

text \<open>\<open>ByteDecode\<close> of FIPS 203: the \<open>d\<close>-bit integer number \<open>i\<close> of a byte array.\<close>

definition ByteDecode :: "nat \<Rightarrow> bytes \<Rightarrow> nat \<Rightarrow> nat" where
  "ByteDecode d b i = horner_sum of_bool 2 (map (\<lambda>j. bit_at b (d * i + j)) [0..<d])"

lemma ByteDecode_less: "ByteDecode d b i < 2 ^ d"
  unfolding ByteDecode_def using horner_sum_of_bool_2_less [of "map (\<lambda>j. bit_at b (d * i + j)) [0..<d]"]
  by simp

lemma unat_eq_ByteDecode:
  assumes "\<And>j. bit (w :: 'a :: len word) j \<longleftrightarrow> j < d \<and> bit_at b (d * i + j)"
  shows "unat w = ByteDecode d b i"
proof -
  have "take_bit d (unat w) = unat w"
    by (rule bit_eqI) (auto simp: bit_take_bit_iff bit_unsigned_iff assms)
  then have "unat w = horner_sum of_bool 2 (map (bit (unat w)) [0..<d])"
    by (simp add: horner_sum_bit_eq_take_bit)
  also have "map (bit (unat w)) [0..<d] = map (\<lambda>j. bit_at b (d * i + j)) [0..<d]"
    by (rule map_cong) (use assms in \<open>auto simp: bit_unsigned_iff\<close>)
  finally show ?thesis
    by (simp only: ByteDecode_def)
qed

section \<open>Packing routines\<close>

definition fits :: "nat \<Rightarrow> 'w :: len word list \<Rightarrow> bool" where
  "fits d t \<longleftrightarrow> (\<forall>x\<in>set t. \<forall>j\<ge>d. \<not> bit x j)"

lemma fits_nth: "fits d t \<Longrightarrow> i < length t \<Longrightarrow> d \<le> j \<Longrightarrow> \<not> bit (t ! i) j"
  by (auto simp: fits_def)

lemma fits_unat: "fits d t \<longleftrightarrow> (\<forall>x\<in>set t. unat x < 2 ^ d)"
proof -
  have "(\<forall>j\<ge>d. \<not> bit x j) \<longleftrightarrow> unat x < 2 ^ d" for x :: "'a word"
  proof -
    have b: "bit (unat x) j = bit x j" for j
      by (auto simp: bit_unsigned_iff dest: bit_imp_le_length)
    have "unat x < 2 ^ d \<longleftrightarrow> take_bit d (unat x) = unat x"
      by (rule take_bit_nat_eq_self_iff [symmetric])
    also have "\<dots> \<longleftrightarrow> (\<forall>j. j < d \<and> bit x j \<longleftrightarrow> bit x j)"
      unfolding bit_eq_iff bit_take_bit_iff b by simp
    also have "\<dots> \<longleftrightarrow> (\<forall>j\<ge>d. \<not> bit x j)"
      by (metis not_le)
    finally show ?thesis ..
  qed
  then show ?thesis
    by (simp add: fits_def)
qed

lemma fits_block_of: "fits d t \<Longrightarrow> fits d (block_of k i t)"
  by (auto simp: fits_def dest: in_set_takeD in_set_dropD)

locale bit_packing =
  fixes d g k :: nat
    and pack :: "'w :: len word list \<Rightarrow> bytes"
    and unpack :: "bytes \<Rightarrow> 'w word list"
  assumes size: "0 < d" "d * g = 8 * k"
    and length_pack: "length t = g \<Longrightarrow> length (pack t) = k"
    and length_unpack: "length b = k \<Longrightarrow> length (unpack b) = g"
    and bit_pack: "length t = g \<Longrightarrow> fits d t \<Longrightarrow> i < g \<Longrightarrow> j < d \<Longrightarrow>
      bit_at (pack t) (d * i + j) = bit (t ! i) j"
    and bit_unpack: "length b = k \<Longrightarrow> i < g \<Longrightarrow>
      bit (unpack b ! i) j \<longleftrightarrow> j < d \<and> bit_at b (d * i + j)"
begin

lemma fits_unpack: "length b = k \<Longrightarrow> fits d (unpack b)"
  by (auto simp: fits_def in_set_conv_nth length_unpack bit_unpack)

lemma unpack_pack:
  assumes "length t = g" and "fits d t"
  shows "unpack (pack t) = t"
proof (rule nth_equalityI)
  show len: "length (unpack (pack t)) = length t"
    using assms by (simp add: length_pack length_unpack)
  fix i assume "i < length (unpack (pack t))"
  then have i: "i < g" "i < length t"
    using assms len by simp_all
  have "bit (unpack (pack t) ! i) j = bit (t ! i) j" for j
    using assms i fits_nth [OF assms(2) i(2), of j]
    by (cases "j < d") (simp_all add: length_pack bit_unpack bit_pack)
  then show "unpack (pack t) ! i = t ! i"
    by (simp add: bit_eq_iff)
qed

lemma pack_unpack:
  assumes "length b = k"
  shows "pack (unpack b) = b"
proof (rule bytes_eqI)
  show "length (pack (unpack b)) = length b"
    using assms by (simp add: length_pack length_unpack)
  fix m assume "m < 8 * length b"
  then have "m < g * d"
    using assms size by (simp add: ac_simps)
  then have "m div d < g" and "m mod d < d" and m: "d * (m div d) + m mod d = m"
    using size by (simp_all add: less_mult_imp_div_less)
  then show "bit_at (pack (unpack b)) m = bit_at b m"
    using bit_pack [of "unpack b" "m div d" "m mod d"] bit_unpack [of b "m div d" "m mod d"] assms
    by (simp add: length_unpack fits_unpack)
qed

text \<open>Whole arrays, packed block by block.\<close>

lemma length_pack_blocks:
  assumes "\<And>i. i < n \<Longrightarrow> length (t i) = g"
  shows "length (blocks n (\<lambda>i. pack (t i))) = n * k"
  by (rule length_blocks) (simp add: assms length_pack)

lemma length_unpack_blocks:
  assumes "length b = n * k"
  shows "length (blocks n (\<lambda>i. unpack (block_of k i b))) = n * g"
  by (rule length_blocks) (rule length_unpack, rule length_block_of [OF assms])

lemma bit_pack_blocks:
  assumes t: "\<And>i. i < n \<Longrightarrow> length (t i) = g" "\<And>i. i < n \<Longrightarrow> fits d (t i)"
    and "i < n * g" and "j < d"
  shows "bit_at (blocks n (\<lambda>i. pack (t i))) (d * i + j) = bit (t (i div g) ! (i mod g)) j"
proof -
  have g: "0 < g" and q: "i div g < n" and r: "i mod g < g"
    using assms(3) less_mult_imp_div_less [OF assms(3)] by (cases g; simp)+
  have "d * i + j = d * g * (i div g) + (d * (i mod g) + j)"
    by (metis add.assoc add_mult_distrib2 mult.assoc mult_div_mod_eq)
  then have e: "d * i + j = 8 * k * (i div g) + (d * (i mod g) + j)"
    by (simp only: size(2))
  have "d * Suc (i mod g) \<le> d * g"
    using r by (intro mult_le_mono2) simp
  then have "d * (i mod g) + j < 8 * k"
    using assms(4) size(2) by simp
  then show ?thesis
    unfolding e using q r t assms(4) by (subst bit_at_blocks) (simp_all add: length_pack bit_pack)
qed

lemma unat_unpack_blocks:
  assumes "length b = n * k" and "i < n * g"
  shows "unat (blocks n (\<lambda>i. unpack (block_of k i b)) ! i) = ByteDecode d b i"
proof (rule unat_eq_ByteDecode)
  fix j
  let ?q = "i div g" and ?r = "i mod g"
  have g: "0 < g" and q: "?q < n" and r: "?r < g"
    using assms(2) less_mult_imp_div_less [OF assms(2)] by (cases g; simp)+
  note lb = length_block_of [OF assms(1)]
  have "blocks n (\<lambda>i. unpack (block_of k i b)) ! i = unpack (block_of k ?q b) ! ?r"
    by (rule nth_blocks_div_mod [OF _ assms(2)]) (rule length_unpack, rule lb)
  then have "bit (blocks n (\<lambda>i. unpack (block_of k i b)) ! i) j
      \<longleftrightarrow> j < d \<and> bit_at (block_of k ?q b) (d * ?r + j)"
    using bit_unpack [OF lb [OF q] r] by (simp only:)
  also have "\<dots> \<longleftrightarrow> j < d \<and> bit_at b (d * i + j)"
  proof (rule conj_cong [OF refl])
    assume j: "j < d"
    have "d * Suc ?r \<le> d * g"
      using r by (intro mult_le_mono2) simp
    then have "d * ?r + j < 8 * k"
      using j size(2) by simp
    then have "bit_at (blocks n (\<lambda>i. block_of k i b)) (8 * k * ?q + (d * ?r + j))
        = bit_at (block_of k ?q b) (d * ?r + j)"
      using q lb by (intro bit_at_blocks) auto
    moreover have "8 * k * ?q + (d * ?r + j) = d * i + j"
      by (metis add.assoc add_mult_distrib2 mult.assoc mult_div_mod_eq size(2))
    ultimately show "bit_at (block_of k ?q b) (d * ?r + j) = bit_at b (d * i + j)"
      by (simp only: blocks_block_of [OF assms(1)])
  qed
  finally show "bit (blocks n (\<lambda>i. unpack (block_of k i b)) ! i) j \<longleftrightarrow> j < d \<and> bit_at b (d * i + j)" .
qed

lemma unpack_pack_blocks:
  assumes "length t = n * g" and "fits d t"
  shows "blocks n (\<lambda>i. unpack (block_of k i (blocks n (\<lambda>i. pack (block_of g i t))))) = t"
proof -
  have "unpack (block_of k i (blocks n (\<lambda>i. pack (block_of g i t)))) = block_of g i t" if "i < n" for i
  proof -
    show ?thesis
      using that length_block_of [OF assms(1)] fits_block_of [OF assms(2)]
      by (subst block_of_blocks [where n = n]) (simp_all add: length_pack unpack_pack)
  qed
  then have "blocks n (\<lambda>i. unpack (block_of k i (blocks n (\<lambda>i. pack (block_of g i t)))))
      = blocks n (\<lambda>i. block_of g i t)"
    by (intro blocks_cong)
  then show ?thesis
    using blocks_block_of [OF assms(1)] by simp
qed

lemma pack_unpack_blocks:
  assumes "length b = n * k"
  shows "blocks n (\<lambda>i. pack (block_of g i (blocks n (\<lambda>i. unpack (block_of k i b))))) = b"
proof -
  have "pack (block_of g i (blocks n (\<lambda>i. unpack (block_of k i b)))) = block_of k i b" if "i < n" for i
    using that length_block_of [OF assms]
    by (subst block_of_blocks [where n = n]) (simp_all add: length_unpack pack_unpack)
  then have "blocks n (\<lambda>i. pack (block_of g i (blocks n (\<lambda>i. unpack (block_of k i b)))))
      = blocks n (\<lambda>i. block_of k i b)"
    by (intro blocks_cong)
  then show ?thesis
    using blocks_block_of [OF assms] by simp
qed

end

end
