(* ===== verification/Sponge.thy ===== *)
theory Sponge
  imports Keccak Codec
begin

text \<open>
  The sponge of \<open>native/mlkem/common/fips202.c\<close> and \<open>fips202.h\<close>: the one-shot routines, the
  incremental ones, and the hash functions built on both. The incremental context \<open>uint64_t[26]\<close> is
  the record \<open>keccak_inc\<close>: the 25 lanes and the counter in the 26th word. A context is allocated with
  \<open>malloc\<close>, and the process exits when that fails, so the definitions describe the calls that return.
  Lengths are natural numbers: a buffer is shorter than \<open>2^64\<close> bytes, so no \<open>size_t\<close> sum wraps.
\<close>

section \<open>Definitions\<close>

definition SHAKE128_RATE :: nat where "SHAKE128_RATE = 168"
definition SHAKE256_RATE :: nat where "SHAKE256_RATE = 136"
definition SHA3_256_RATE :: nat where "SHA3_256_RATE = 136"
definition SHA3_384_RATE :: nat where "SHA3_384_RATE = 104"
definition SHA3_512_RATE :: nat where "SHA3_512_RATE = 72"

lemmas rates = SHAKE128_RATE_def SHAKE256_RATE_def SHA3_256_RATE_def SHA3_384_RATE_def SHA3_512_RATE_def

subsection \<open>One-shot absorbing and squeezing\<close>

definition xor_lanes :: "nat \<Rightarrow> bytes \<Rightarrow> u64 list \<Rightarrow> u64 list" where
  "xor_lanes r m s = fold (\<lambda>i s. s[i := s ! i XOR load64 (drop (8 * i) m)]) [0..<r div 8] s"

text \<open>The loop \<open>while (mlen >= r)\<close>; the rates are positive, which keeps the recursion well founded.\<close>

function absorb_full :: "nat \<Rightarrow> u64 list \<Rightarrow> bytes \<Rightarrow> u64 list \<times> bytes" where
  "absorb_full r s m =
     (if r \<le> length m \<and> 0 < r
      then absorb_full r (KeccakF1600_StatePermute (xor_lanes r m s)) (drop r m)
      else (s, m))"
  by pat_completeness auto
termination
  by (relation "measure (\<lambda>(r, s, m). length m)") auto

declare absorb_full.simps [simp del]

definition keccak_absorb :: "nat \<Rightarrow> bytes \<Rightarrow> u8 \<Rightarrow> u64 list" where
  "keccak_absorb r m p =
     (let s = replicate 25 0;
          (s, m) = absorb_full r s m;
          t = replicate r 0;
          t = fold (\<lambda>i t. t[i := m ! i]) [0..<length m] t;
          t = t[length m := p];
          t = t[r - 1 := t ! (r - 1) OR 128]
      in xor_lanes r t s)"

fun keccak_squeezeblocks :: "nat \<Rightarrow> u64 list \<Rightarrow> nat \<Rightarrow> bytes \<times> u64 list" where
  "keccak_squeezeblocks 0 s r = ([], s)"
| "keccak_squeezeblocks (Suc nblocks) s r =
     (let s = KeccakF1600_StatePermute s;
          h = blocks (r div 8) (\<lambda>i. store64 (s ! i));
          (h', s) = keccak_squeezeblocks nblocks s r
      in (h @ h', s))"

subsection \<open>Incremental absorbing and squeezing\<close>

record keccak_inc =
  inc_s :: "u64 list"
  inc_pos :: u64

definition xor_byte :: "nat \<Rightarrow> u8 \<Rightarrow> u64 list \<Rightarrow> u64 list" where
  "xor_byte k b s = s[k div 8 := s ! (k div 8) XOR push_bit (8 * (k mod 8)) (ucast b)]"

definition state_byte :: "nat \<Rightarrow> u64 list \<Rightarrow> u8" where
  "state_byte k s = ucast (drop_bit (8 * (k mod 8)) (s ! (k div 8)))"

definition keccak_inc_init :: keccak_inc where
  "keccak_inc_init = \<lparr> inc_s = replicate 25 0, inc_pos = 0 \<rparr>"

definition inc_xor :: "bytes \<Rightarrow> nat \<Rightarrow> keccak_inc \<Rightarrow> keccak_inc" where
  "inc_xor m n c = c\<lparr> inc_s := fold (\<lambda>i. xor_byte (unat (inc_pos c) + i) (m ! i)) [0..<n] (inc_s c) \<rparr>"

text \<open>
  The loop \<open>while (mlen + s_inc[25] >= r)\<close>. The counter never exceeds the rate, so the difference
  \<open>r - s_inc[25]\<close> does not wrap.
\<close>

function inc_absorb_full :: "nat \<Rightarrow> keccak_inc \<Rightarrow> bytes \<Rightarrow> keccak_inc \<times> bytes" where
  "inc_absorb_full r c m =
     (if r \<le> length m + unat (inc_pos c) \<and> 0 < r
      then let n = r - unat (inc_pos c);
               c = inc_xor m n c;
               m = drop n m;
               c = c\<lparr> inc_pos := 0 \<rparr>;
               c = c\<lparr> inc_s := KeccakF1600_StatePermute (inc_s c) \<rparr>
           in inc_absorb_full r c m
      else (c, m))"
  by pat_completeness auto
termination
  by (relation "measure (\<lambda>(r, c, m). length m + unat (inc_pos c))") (auto simp: inc_xor_def)

declare inc_absorb_full.simps [simp del]

definition keccak_inc_absorb :: "nat \<Rightarrow> keccak_inc \<Rightarrow> bytes \<Rightarrow> keccak_inc" where
  "keccak_inc_absorb r c m =
     (let (c, m) = inc_absorb_full r c m;
          c = inc_xor m (length m) c
      in c\<lparr> inc_pos := inc_pos c + word_of_nat (length m) \<rparr>)"

definition keccak_inc_finalize :: "nat \<Rightarrow> u8 \<Rightarrow> keccak_inc \<Rightarrow> keccak_inc" where
  "keccak_inc_finalize r p c =
     (let c = c\<lparr> inc_s := xor_byte (unat (inc_pos c)) p (inc_s c) \<rparr>;
          c = c\<lparr> inc_s := xor_byte (r - 1) 128 (inc_s c) \<rparr>
      in c\<lparr> inc_pos := 0 \<rparr>)"

function inc_squeeze_blocks :: "nat \<Rightarrow> nat \<Rightarrow> keccak_inc \<Rightarrow> bytes \<times> keccak_inc" where
  "inc_squeeze_blocks r outlen c =
     (if 0 < outlen \<and> 0 < r
      then let c = c\<lparr> inc_s := KeccakF1600_StatePermute (inc_s c) \<rparr>;
               n = min outlen r;
               h = map (\<lambda>i. state_byte i (inc_s c)) [0..<n];
               c = c\<lparr> inc_pos := word_of_nat (r - n) \<rparr>;
               (h', c) = inc_squeeze_blocks r (outlen - n) c
           in (h @ h', c)
      else ([], c))"
  by pat_completeness auto
termination
  by (relation "measure (\<lambda>(r, outlen, c). outlen)") auto

declare inc_squeeze_blocks.simps [simp del]

definition keccak_inc_squeeze :: "nat \<Rightarrow> nat \<Rightarrow> keccak_inc \<Rightarrow> bytes \<times> keccak_inc" where
  "keccak_inc_squeeze r outlen c =
     (let n = min outlen (unat (inc_pos c));
          h = map (\<lambda>i. state_byte (r - unat (inc_pos c) + i) (inc_s c)) [0..<n];
          c = c\<lparr> inc_pos := inc_pos c - word_of_nat n \<rparr>;
          (h', c) = inc_squeeze_blocks r (outlen - n) c
      in (h @ h', c))"

subsection \<open>The public functions\<close>

definition shake128_inc_init :: keccak_inc where "shake128_inc_init = keccak_inc_init"
definition shake128_inc_absorb :: "keccak_inc \<Rightarrow> bytes \<Rightarrow> keccak_inc" where
  "shake128_inc_absorb state input = keccak_inc_absorb SHAKE128_RATE state input"
definition shake128_inc_finalize :: "keccak_inc \<Rightarrow> keccak_inc" where
  "shake128_inc_finalize state = keccak_inc_finalize SHAKE128_RATE 0x1F state"
definition shake128_inc_squeeze :: "nat \<Rightarrow> keccak_inc \<Rightarrow> bytes \<times> keccak_inc" where
  "shake128_inc_squeeze outlen state = keccak_inc_squeeze SHAKE128_RATE outlen state"

definition shake256_inc_init :: keccak_inc where "shake256_inc_init = keccak_inc_init"
definition shake256_inc_absorb :: "keccak_inc \<Rightarrow> bytes \<Rightarrow> keccak_inc" where
  "shake256_inc_absorb state input = keccak_inc_absorb SHAKE256_RATE state input"
definition shake256_inc_finalize :: "keccak_inc \<Rightarrow> keccak_inc" where
  "shake256_inc_finalize state = keccak_inc_finalize SHAKE256_RATE 0x1F state"
definition shake256_inc_squeeze :: "nat \<Rightarrow> keccak_inc \<Rightarrow> bytes \<times> keccak_inc" where
  "shake256_inc_squeeze outlen state = keccak_inc_squeeze SHAKE256_RATE outlen state"

definition shake128_absorb :: "bytes \<Rightarrow> u64 list" where
  "shake128_absorb input = keccak_absorb SHAKE128_RATE input 0x1F"
definition shake128_squeezeblocks :: "nat \<Rightarrow> u64 list \<Rightarrow> bytes \<times> u64 list" where
  "shake128_squeezeblocks nblocks state = keccak_squeezeblocks nblocks state SHAKE128_RATE"
definition shake256_absorb :: "bytes \<Rightarrow> u64 list" where
  "shake256_absorb input = keccak_absorb SHAKE256_RATE input 0x1F"
definition shake256_squeezeblocks :: "nat \<Rightarrow> u64 list \<Rightarrow> bytes \<times> u64 list" where
  "shake256_squeezeblocks nblocks state = keccak_squeezeblocks nblocks state SHAKE256_RATE"

definition shake128 :: "nat \<Rightarrow> bytes \<Rightarrow> bytes" where
  "shake128 outlen input =
     (let nblocks = outlen div SHAKE128_RATE;
          s = shake128_absorb input;
          (output, s) = shake128_squeezeblocks nblocks s;
          outlen = outlen - nblocks * SHAKE128_RATE
      in if outlen \<noteq> 0
         then let (t, s) = shake128_squeezeblocks 1 s in output @ map (\<lambda>i. t ! i) [0..<outlen]
         else output)"

definition shake256 :: "nat \<Rightarrow> bytes \<Rightarrow> bytes" where
  "shake256 outlen input =
     (let nblocks = outlen div SHAKE256_RATE;
          s = shake256_absorb input;
          (output, s) = shake256_squeezeblocks nblocks s;
          outlen = outlen - nblocks * SHAKE256_RATE
      in if outlen \<noteq> 0
         then let (t, s) = shake256_squeezeblocks 1 s in output @ map (\<lambda>i. t ! i) [0..<outlen]
         else output)"

definition sha3_256_inc_init :: keccak_inc where "sha3_256_inc_init = keccak_inc_init"
definition sha3_256_inc_absorb :: "keccak_inc \<Rightarrow> bytes \<Rightarrow> keccak_inc" where
  "sha3_256_inc_absorb state input = keccak_inc_absorb SHA3_256_RATE state input"
definition sha3_256_inc_finalize :: "keccak_inc \<Rightarrow> bytes" where
  "sha3_256_inc_finalize state =
     (let state = keccak_inc_finalize SHA3_256_RATE 0x06 state;
          (t, s) = keccak_squeezeblocks 1 (inc_s state) SHA3_256_RATE
      in map (\<lambda>i. t ! i) [0..<32])"
definition sha3_256 :: "bytes \<Rightarrow> bytes" where
  "sha3_256 input =
     (let s = keccak_absorb SHA3_256_RATE input 0x06;
          (t, s) = keccak_squeezeblocks 1 s SHA3_256_RATE
      in map (\<lambda>i. t ! i) [0..<32])"

definition sha3_384_inc_init :: keccak_inc where "sha3_384_inc_init = keccak_inc_init"
definition sha3_384_inc_absorb :: "keccak_inc \<Rightarrow> bytes \<Rightarrow> keccak_inc" where
  "sha3_384_inc_absorb state input = keccak_inc_absorb SHA3_384_RATE state input"
definition sha3_384_inc_finalize :: "keccak_inc \<Rightarrow> bytes" where
  "sha3_384_inc_finalize state =
     (let state = keccak_inc_finalize SHA3_384_RATE 0x06 state;
          (t, s) = keccak_squeezeblocks 1 (inc_s state) SHA3_384_RATE
      in map (\<lambda>i. t ! i) [0..<48])"
definition sha3_384 :: "bytes \<Rightarrow> bytes" where
  "sha3_384 input =
     (let s = keccak_absorb SHA3_384_RATE input 0x06;
          (t, s) = keccak_squeezeblocks 1 s SHA3_384_RATE
      in map (\<lambda>i. t ! i) [0..<48])"

definition sha3_512_inc_init :: keccak_inc where "sha3_512_inc_init = keccak_inc_init"
definition sha3_512_inc_absorb :: "keccak_inc \<Rightarrow> bytes \<Rightarrow> keccak_inc" where
  "sha3_512_inc_absorb state input = keccak_inc_absorb SHA3_512_RATE state input"
definition sha3_512_inc_finalize :: "keccak_inc \<Rightarrow> bytes" where
  "sha3_512_inc_finalize state =
     (let state = keccak_inc_finalize SHA3_512_RATE 0x06 state;
          (t, s) = keccak_squeezeblocks 1 (inc_s state) SHA3_512_RATE
      in map (\<lambda>i. t ! i) [0..<64])"
definition sha3_512 :: "bytes \<Rightarrow> bytes" where
  "sha3_512 input =
     (let s = keccak_absorb SHA3_512_RATE input 0x06;
          (t, s) = keccak_squeezeblocks 1 s SHA3_512_RATE
      in map (\<lambda>i. t ! i) [0..<64])"

section \<open>Byte-wise view of the state\<close>

text \<open>
  The contract between the sponge and the state it works on: bytes are added into positions, adding
  zero does nothing and adding twice adds the sum. \<open>feed\<close> is the duplex view of absorbing (one byte
  at a time, permuting when a block is full); splitting the input into pieces is invisible in it.
\<close>

locale byte_state =
  fixes perm :: "'s \<Rightarrow> 's" and xor_at :: "nat \<Rightarrow> u8 \<Rightarrow> 's \<Rightarrow> 's"
  assumes xor_at_0: "xor_at k 0 s = s"
    and xor_at_merge: "xor_at k a (xor_at k b s) = xor_at k (a XOR b) s"
begin

definition xor_run :: "nat \<Rightarrow> bytes \<Rightarrow> 's \<Rightarrow> 's" where
  "xor_run pos m s = fold (\<lambda>i. xor_at (pos + i) (m ! i)) [0..<length m] s"

definition feed :: "nat \<Rightarrow> 's \<times> nat \<Rightarrow> u8 \<Rightarrow> 's \<times> nat" where
  "feed r c b = (case c of (s, pos) \<Rightarrow>
     let s = xor_at pos b s in if pos + 1 = r then (perm s, 0) else (s, pos + 1))"

definition absorb_blocks :: "nat \<Rightarrow> bytes \<Rightarrow> 's \<Rightarrow> 's" where
  "absorb_blocks r P s = foldl (\<lambda>s B. perm (xor_run 0 B s)) s (map (\<lambda>i. block_of r i P) [0..<length P div r])"

lemma xor_run_Nil [simp]: "xor_run pos [] s = s"
  by (simp add: xor_run_def)

lemma xor_run_snoc: "xor_run pos (m @ [b]) s = xor_at (pos + length m) b (xor_run pos m s)"
proof -
  have "fold (\<lambda>i. xor_at (pos + i) ((m @ [b]) ! i)) [0..<length m] s
      = fold (\<lambda>i. xor_at (pos + i) (m ! i)) [0..<length m] s"
    by (rule fold_cong) (auto simp: nth_append)
  then show ?thesis
    by (simp add: xor_run_def)
qed

lemma xor_run_append: "xor_run pos (a @ b) s = xor_run (pos + length a) b (xor_run pos a s)"
  by (induction b rule: rev_induct) (simp_all add: xor_run_snoc add.assoc flip: append_assoc)

lemma xor_run_zeros: "xor_run pos (replicate n 0) s = s"
proof (induction n)
  case (Suc n)
  have "replicate (Suc n) 0 = replicate n 0 @ [0 :: u8]"
    by (simp add: replicate_append_same)
  then show ?case
    using Suc by (simp only: xor_run_snoc xor_at_0)
qed simp

lemma feeds_run:
  "pos + length m < r \<Longrightarrow> foldl (feed r) (s, pos) m = (xor_run pos m s, pos + length m)"
  by (induction m rule: rev_induct) (simp_all add: feed_def xor_run_snoc)

lemma feeds_full:
  assumes "pos + length m = r" and "m \<noteq> []"
  shows "foldl (feed r) (s, pos) m = (perm (xor_run pos m s), 0)"
proof -
  obtain m' b where m: "m = m' @ [b]"
    using assms(2) by (metis append_butlast_last_id)
  then show ?thesis
    using assms(1) by (simp add: feeds_run feed_def xor_run_snoc)
qed

lemma feeds_blocks:
  assumes "0 < r" and "length P = n * r"
  shows "foldl (feed r) (s, 0) P = (absorb_blocks r P s, 0)"
  using assms(2)
proof (induction n arbitrary: P)
  case 0
  then show ?case
    by (simp add: absorb_blocks_def)
next
  case (Suc n)
  define Q B where "Q = take (n * r) P" and "B = drop (n * r) P"
  have P: "P = Q @ B" and Q: "length Q = n * r" and B: "length B = r"
    using Suc.prems by (simp_all add: Q_def B_def)
  have "B \<noteq> []"
    using B assms(1) by auto
  have "block_of r i P = block_of r i Q" if "i < n" for i
  proof -
    have "Suc i * r \<le> n * r"
      using that by (intro mult_le_mono1) simp
    then show ?thesis
      using Q by (simp add: P)
  qed
  then have "map (\<lambda>i. block_of r i P) [0..<Suc n] = map (\<lambda>i. block_of r i Q) [0..<n] @ [B]"
    using Q B by (simp add: P)
  moreover have "length P div r = Suc n" "length Q div r = n"
    using Suc.prems Q assms(1) by simp_all
  ultimately have "absorb_blocks r P s = perm (xor_run 0 B (absorb_blocks r Q s))"
    by (simp only: absorb_blocks_def foldl_append foldl.simps)
  then show ?case
    using Suc.IH [OF Q] feeds_full [of 0 B r] B \<open>B \<noteq> []\<close> by (simp add: P)
qed

text \<open>The padding of the last block, as the one-shot and as the incremental code apply it.\<close>

lemma xor_run_padding:
  assumes "length m < r" and "\<not> bit p 7"
  shows "xor_run 0 (if length m + 1 = r then m @ [p OR 128] else m @ p # replicate (r - length m - 2) 0 @ [128]) s
    = xor_at (r - 1) 128 (xor_at (length m) p (xor_run 0 m s))"
proof (cases "length m + 1 = r")
  case True
  have "p OR 128 = 128 XOR p"
  proof (rule bit_word_eqI)
    fix n assume "n < LENGTH(8)"
    then have "bit (128 :: u8) n \<longleftrightarrow> n = 7"
      by (auto simp: less_Suc_eq numeral_eq_Suc)
    then show "bit (p OR 128) n = bit (128 XOR p) n"
      using assms(2) by (auto simp: bit_or_iff bit_xor_iff)
  qed
  moreover have "r - 1 = length m"
    using True by simp
  ultimately show ?thesis
    using True by (simp add: xor_run_snoc xor_at_merge)
next
  case False
  define z where "z = r - length m - 2"
  have r: "r = length m + 1 + z + 1"
    using False assms(1) by (simp add: z_def)
  have "m @ p # replicate z 0 @ [128] = ((m @ [p]) @ replicate z 0) @ [128]"
    by simp
  then have "xor_run 0 (m @ p # replicate z 0 @ [128]) s
      = xor_at (length m + 1 + z) 128 (xor_at (length m) p (xor_run 0 m s))"
    by (simp only: xor_run_snoc xor_run_append [of 0 "m @ [p]"] xor_run_zeros) simp
  then show ?thesis
    using False r unfolding z_def [symmetric] by simp
qed

end

lemma xor_byte_0: "xor_byte k 0 s = s"
  by (simp add: xor_byte_def)

lemma xor_byte_merge: "xor_byte k a (xor_byte k b s) = xor_byte k (a XOR b) s"
proof -
  have "push_bit n (ucast b) XOR push_bit n (ucast a) = push_bit n (ucast (a XOR b) :: u64)" for n
    by (rule bit_word_eqI) (auto simp: bit_simps)
  then show ?thesis
    by (cases "k div 8 < length s") (simp_all add: xor_byte_def xor.assoc list_update_beyond)
qed

interpretation ks: byte_state KeccakF1600_StatePermute xor_byte
  by unfold_locales (rule xor_byte_0, rule xor_byte_merge)


section \<open>Lanes and bytes\<close>

lemma byte_window:
  "8 * k \<le> n \<and> bit (x ! k) (n - 8 * k) \<longleftrightarrow> 8 * k \<le> n \<and> n < 8 * Suc k \<and> bit (x ! (n div 8) :: u8) (n mod 8)"
proof (cases "8 * k \<le> n \<and> n < 8 * Suc k")
  case True
  then have "n div 8 = k"
    by (intro div_nat_eqI) simp_all
  moreover from this have "n mod 8 = n - 8 * k"
    using minus_mult_div_eq_mod [of n 8] by simp
  ultimately show ?thesis
    using True by simp
next
  case False
  then show ?thesis
    using bit_imp_le_length [of "x ! k" "n - 8 * k"] by auto
qed

lemma bit_load64_fold:
  assumes "n < 64" and "k \<le> 8"
  shows "bit (fold (\<lambda>i r. r OR push_bit (8 * i) (ucast (x ! i))) [0..<k] (0 :: u64)) n
    \<longleftrightarrow> n < 8 * k \<and> bit (x ! (n div 8) :: u8) (n mod 8)"
  using assms(2)
proof (induction k)
  case (Suc k)
  note byte_window [of k n x]
  then show ?case
    using Suc assms(1) by (auto simp: bit_simps)
qed simp

lemma bit_xor_fold:
  assumes "n < 64" and "k \<le> 8"
  shows "bit (fold (\<lambda>i w. w XOR push_bit (8 * i) (ucast (x ! i))) [0..<k] (w :: u64)) n
    \<longleftrightarrow> (bit w n \<noteq> (n < 8 * k \<and> bit (x ! (n div 8) :: u8) (n mod 8)))"
  using assms(2)
proof (induction k)
  case (Suc k)
  note byte_window [of k n x]
  then show ?case
    using Suc assms(1) by (auto simp: bit_simps)
qed simp

lemma xor_load64:
  "fold (\<lambda>i w. w XOR push_bit (8 * i) (ucast (x ! i))) [0..<8] w = w XOR load64 x"
proof (rule bit_word_eqI)
  fix n assume "n < LENGTH(64)"
  then have n: "n < 64" "n < 8 * 8"
    by simp_all
  show "bit (fold (\<lambda>i w. w XOR push_bit (8 * i) (ucast (x ! i))) [0..<8] w) n = bit (w XOR load64 x) n"
    unfolding load64_def bit_xor_iff using bit_xor_fold [OF n(1), of 8 x w] bit_load64_fold [OF n(1), of 8 x] n
    by simp
qed

text \<open>Eight bytes added one by one are one lane added at once.\<close>

lemma xor_bytes_lane:
  assumes "k \<le> 8" and "i < length s"
  shows "fold (\<lambda>j. xor_byte (8 * i + j) (m ! (8 * i + j))) [0..<k] s
    = s[i := fold (\<lambda>j w. w XOR push_bit (8 * j) (ucast (m ! (8 * i + j)))) [0..<k] (s ! i)]"
  using assms(1)
proof (induction k)
  case (Suc k)
  have "(8 * i + k) div 8 = i" "(8 * i + k) mod 8 = k"
    using Suc.prems by simp_all
  then show ?case
    using Suc assms(2) by (simp add: xor_byte_def)
qed simp

lemma fold_upt_shift: "fold f [a..<a + n] s = fold (\<lambda>j. f (a + j)) [0..<n] s"
  by (induction n) simp_all

lemma xor_lanes_bytes:
  assumes "8 * n \<le> length m" and "n \<le> length s"
  shows "xor_lanes (8 * n) m s = fold (\<lambda>k. xor_byte k (m ! k)) [0..<8 * n] s"
  using assms
proof (induction n)
  case 0
  then show ?case
    by (simp add: xor_lanes_def)
next
  case (Suc n)
  let ?s = "xor_lanes (8 * n) m s"
  have len: "length ?s = length s"
  proof -
    have "length (fold (\<lambda>i s. s[i := h i s]) is s) = length s" for h :: "nat \<Rightarrow> u64 list \<Rightarrow> u64" and "is" s
      by (induction "is" arbitrary: s) simp_all
    then show ?thesis
      by (simp add: xor_lanes_def)
  qed
  have "xor_lanes (8 * Suc n) m s = ?s[n := ?s ! n XOR load64 (drop (8 * n) m)]"
    by (simp add: xor_lanes_def)
  also have "\<dots> = fold (\<lambda>j. xor_byte (8 * n + j) (m ! (8 * n + j))) [0..<8] ?s"
    using xor_bytes_lane [of 8 n ?s m] xor_load64 [of "drop (8 * n) m" "?s ! n"] len Suc.prems
    by (simp add: add.commute)
  also have "\<dots> = fold (\<lambda>k. xor_byte k (m ! k)) [8 * n..<8 * n + 8] ?s"
    by (rule fold_upt_shift [symmetric])
  also have "?s = fold (\<lambda>k. xor_byte k (m ! k)) [0..<8 * n] s"
    using Suc by simp
  finally show ?case
    using upt_add_eq_append [of 0 "8 * n" 8] by (simp add: add.commute)
qed

lemma xor_lanes_run:
  assumes "8 dvd r" and "r \<le> length m" and "r \<le> 8 * length s"
  shows "xor_lanes r m s = ks.xor_run 0 (take r m) s"
proof -
  obtain n where r: "r = 8 * n"
    using assms(1) by blast
  have "fold (\<lambda>k. xor_byte k (m ! k)) [0..<r] s = fold (\<lambda>k. xor_byte (0 + k) (take r m ! k)) [0..<r] s"
    by (rule fold_cong) auto
  then show ?thesis
    using xor_lanes_bytes [of n m s] assms by (simp add: r ks.xor_run_def)
qed

section \<open>The sponge of FIPS 202\<close>

text \<open>
  Message, suffix bits and \<open>pad10*1\<close> on bytes, the blocks absorbed one after the other, and the
  output stream. \<open>p\<close> holds the suffix bits and the first bit of the padding.
\<close>

definition sponge_pad :: "nat \<Rightarrow> u8 \<Rightarrow> bytes \<Rightarrow> bytes" where
  "sponge_pad r p m =
     (let q = r - length m mod r
      in if q = 1 then m @ [p OR 128] else m @ p # replicate (q - 2) 0 @ [128])"

definition absorb_block :: "bytes \<Rightarrow> u64 list \<Rightarrow> u64 list" where
  "absorb_block B s = fold (\<lambda>i. xor_byte i (B ! i)) [0..<length B] s"

definition sponge_absorb :: "nat \<Rightarrow> u8 \<Rightarrow> bytes \<Rightarrow> u64 list" where
  "sponge_absorb r p m =
     (let P = sponge_pad r p m
      in foldl (\<lambda>s B. keccak_p (absorb_block B s)) (replicate 25 0)
           (map (\<lambda>i. block_of r i P) [0..<length P div r]))"

definition sponge_byte :: "nat \<Rightarrow> u64 list \<Rightarrow> nat \<Rightarrow> u8" where
  "sponge_byte r S k = state_byte (k mod r) ((keccak_p ^^ (k div r)) S)"

definition sponge :: "nat \<Rightarrow> u8 \<Rightarrow> nat \<Rightarrow> bytes \<Rightarrow> bytes" where
  "sponge r p n m = map (sponge_byte r (sponge_absorb r p m)) [0..<n]"

definition good_rate :: "nat \<Rightarrow> bool" where
  "good_rate r \<longleftrightarrow> 0 < r \<and> r \<le> 200 \<and> 8 dvd r"

lemma good_rates [simp]:
  "good_rate SHAKE128_RATE" "good_rate SHAKE256_RATE" "good_rate SHA3_256_RATE"
  "good_rate SHA3_384_RATE" "good_rate SHA3_512_RATE"
  by (simp_all add: good_rate_def rates)

lemma length_xor_byte [simp, len_simps]: "length (xor_byte k b s) = length s"
  by (simp add: xor_byte_def)

lemma length_xor_run [simp, len_simps]: "length (ks.xor_run pos m s) = length s"
proof -
  have "length (fold (\<lambda>i. xor_byte (f i) (g i)) xs s) = length s" for f g and xs :: "nat list" and s
    by (induction xs arbitrary: s) simp_all
  then show ?thesis
    by (simp add: ks.xor_run_def)
qed

lemma permute_25: "length s = 25 \<Longrightarrow> KeccakF1600_StatePermute s = keccak_p s"
  by (simp add: KeccakF1600_StatePermute_eq)

lemma absorb_block_run: "absorb_block B s = ks.xor_run 0 B s"
  by (simp add: absorb_block_def ks.xor_run_def)

lemma length_feeds:
  assumes "length s = 25"
  shows "length (fst (foldl (ks.feed r) (s, pos) m)) = 25"
  using assms
proof (induction m arbitrary: s pos)
  case (Cons b m)
  then show ?case
    by (simp add: ks.feed_def Let_def)
qed simp

text \<open>Absorbing, in the duplex view.\<close>

lemma foldl_absorb_25:
  assumes "length s = 25"
  shows "foldl (\<lambda>s B. keccak_p (absorb_block B s)) s Bs
      = foldl (\<lambda>s B. KeccakF1600_StatePermute (ks.xor_run 0 B s)) s Bs"
  using assms by (induction Bs arbitrary: s) (simp_all add: permute_25 absorb_block_run)

lemma length_sponge_pad:
  assumes "0 < r"
  shows "length (sponge_pad r p m) = (length m div r + 1) * r"
proof -
  define d e where "d = length m div r" and "e = length m mod r"
  have "length m = d * r + e" "e < r"
    using assms by (simp_all add: d_def e_def)
  then show ?thesis
    unfolding sponge_pad_def Let_def d_def [symmetric] e_def [symmetric] by auto
qed

lemma sponge_absorb_feeds:
  assumes "0 < r"
  shows "foldl (ks.feed r) (replicate 25 0, 0) (sponge_pad r p m) = (sponge_absorb r p m, 0)"
proof -
  have "sponge_absorb r p m = ks.absorb_blocks r (sponge_pad r p m) (replicate 25 0)"
    unfolding sponge_absorb_def ks.absorb_blocks_def Let_def by (simp add: foldl_absorb_25)
  then show ?thesis
    using ks.feeds_blocks [OF assms length_sponge_pad [OF assms]] by simp
qed

text \<open>
  The state after the message alone: \<open>(s, pos)\<close> with \<open>pos < r\<close> bytes of an unfinished block. Adding
  the padding bytes and permuting completes the last block.
\<close>

lemma feeds_message:
  assumes "0 < r"
  obtains s where "foldl (ks.feed r) (s0, 0) m = (s, length m mod r)"
    and "s = ks.xor_run 0 (drop (length m div r * r) m) (ks.absorb_blocks r (take (length m div r * r) m) s0)"
proof -
  let ?n = "length m div r * r"
  have n: "?n \<le> length m" "length m - ?n = length m mod r"
    by (simp_all add: minus_div_mult_eq_mod)
  then have "foldl (ks.feed r) (s0, 0) (take ?n m) = (ks.absorb_blocks r (take ?n m) s0, 0)"
    by (intro ks.feeds_blocks [OF assms, where n = "length m div r"]) simp
  moreover have "foldl (ks.feed r) (s, 0) (drop ?n m) = (ks.xor_run 0 (drop ?n m) s, length m mod r)" for s
    using ks.feeds_run [of 0 "drop ?n m" r] n assms by simp
  ultimately have "foldl (ks.feed r) (s0, 0) (take ?n m @ drop ?n m)
      = (ks.xor_run 0 (drop ?n m) (ks.absorb_blocks r (take ?n m) s0), length m mod r)"
    by (simp only: foldl_append)
  then show ?thesis
    using that by simp
qed

lemma finish_block:
  assumes "0 < r" and "\<not> bit p 7" and m: "foldl (ks.feed r) (replicate 25 0, 0) m = (s, pos)"
  shows "KeccakF1600_StatePermute (xor_byte (r - 1) 128 (xor_byte pos p s)) = sponge_absorb r p m"
proof -
  let ?n = "length m div r * r"
  let ?B = "ks.absorb_blocks r (take ?n m) (replicate 25 0)"
  define t where "t = drop ?n m"
  define P where "P = (if length t + 1 = r then t @ [p OR 128] else t @ p # replicate (r - length t - 2) 0 @ [128])"
  have t: "length t = length m mod r" "length t < r"
    using assms(1) by (simp_all add: t_def minus_div_mult_eq_mod)
  have s: "s = ks.xor_run 0 t ?B" "pos = length t"
    using feeds_message [OF assms(1), of "replicate 25 0" m] m t by (auto simp: t_def)
  have P: "length P = r" "P \<noteq> []"
    using t by (auto simp: P_def)
  have "sponge_pad r p m = take ?n m @ P"
  proof -
    have q: "r - length m mod r = 1 \<longleftrightarrow> length t + 1 = r"
      using t by auto
    have mt: "m @ X = take ?n m @ (t @ X)" for X
      by (simp add: t_def)
    show ?thesis
      unfolding sponge_pad_def P_def Let_def q unfolding t(1) [symmetric]
      by (simp only: mt if_distrib [of "\<lambda>X. take ?n m @ X"])
  qed
  then have "(sponge_absorb r p m, 0) = foldl (ks.feed r) (?B, 0) P"
    using sponge_absorb_feeds [OF assms(1), of p m] ks.feeds_blocks [OF assms(1), of "take ?n m" "length m div r"]
    by simp
  also have "\<dots> = (KeccakF1600_StatePermute (ks.xor_run 0 P ?B), 0)"
    using P by (intro ks.feeds_full) simp_all
  also have "ks.xor_run 0 P ?B = xor_byte (r - 1) 128 (xor_byte (length t) p (ks.xor_run 0 t ?B))"
    unfolding P_def by (rule ks.xor_run_padding [OF t(2) assms(2)])
  finally show ?thesis
    by (simp add: s)
qed

subsection \<open>One-shot absorbing\<close>

lemma absorb_full_feeds:
  assumes "good_rate r" and "length s = 25"
  shows "\<exists>s' t. absorb_full r s m = (s', t) \<and> length s' = 25 \<and> length t < r
    \<and> foldl (ks.feed r) (s, 0) m = (ks.xor_run 0 t s', length t)"
  using assms(2)
proof (induction "length m" arbitrary: s m rule: less_induct)
  case less
  have r: "0 < r" "8 dvd r" "r \<le> 8 * length s"
    using assms(1) less.prems by (simp_all add: good_rate_def)
  show ?case
  proof (cases "r \<le> length m")
    case True
    let ?s = "KeccakF1600_StatePermute (xor_lanes r m s)"
    have x: "xor_lanes r m s = ks.xor_run 0 (take r m) s"
      using r True by (intro xor_lanes_run)
    have "foldl (ks.feed r) (s, 0) (take r m) = (?s, 0)"
      unfolding x using r True by (intro ks.feeds_full) auto
    then have f: "foldl (ks.feed r) (s, 0) m = foldl (ks.feed r) (?s, 0) (drop r m)"
      by (metis append_take_drop_id foldl_append)
    have "length ?s = 25"
      unfolding x using less.prems by simp
    moreover have "length (drop r m) < length m"
      using r True by (simp; linarith)
    ultimately obtain s' t where "absorb_full r ?s (drop r m) = (s', t)" "length s' = 25" "length t < r"
      "foldl (ks.feed r) (?s, 0) (drop r m) = (ks.xor_run 0 t s', length t)"
      using less.hyps [of "drop r m" ?s] by blast
    then show ?thesis
      unfolding f using r True by (subst absorb_full.simps) simp
  next
    case False
    then show ?thesis
      using less.prems ks.feeds_run [of 0 m r s] by (subst absorb_full.simps) simp
  qed
qed

lemma keccak_absorb_correct:
  assumes "good_rate r" and "\<not> bit p 7"
  shows "KeccakF1600_StatePermute (keccak_absorb r m p) = sponge_absorb r p m"
    and "length (keccak_absorb r m p) = 25"
proof -
  obtain s t where st: "absorb_full r (replicate 25 0) m = (s, t)" "length s = 25" "length t < r"
    and f: "foldl (ks.feed r) (replicate 25 0, 0) m = (ks.xor_run 0 t s, length t)"
    using absorb_full_feeds [OF assms(1), of "replicate 25 0" m] by auto
  have r: "0 < r" "8 dvd r" "r \<le> 8 * length s"
    using assms(1) st by (simp_all add: good_rate_def)
  define P where "P = (if length t + 1 = r then t @ [p OR 128] else t @ p # replicate (r - length t - 2) 0 @ [128])"
  define T where "T = fold (\<lambda>i u. u[i := t ! i]) [0..<length t] (replicate r 0)"
  have "T = t @ replicate (r - length t) 0"
    unfolding T_def using fold_copy [of "length t" t "replicate r 0"] st(3) by simp
  also have "replicate (r - length t) 0 = 0 # replicate (r - length t - 1) (0 :: u8)"
    using st(3) by (simp add: replicate_Suc [symmetric] del: replicate_Suc)
  finally have T: "T[length t := p] = t @ p # replicate (r - length t - 1) 0"
    by (simp add: list_update_append)
  have "T[length t := p, r - 1 := T[length t := p] ! (r - 1) OR 128] = P"
  proof (cases "length t + 1 = r")
    case True
    then have "r - 1 = length t" "r - length t - 1 = 0"
      by simp_all
    then show ?thesis
      using True unfolding T P_def by (simp add: list_update_append)
  next
    case False
    define z where "z = r - length t - 2"
    have z: "r - 1 = length t + Suc z" "r - length t - 1 = Suc z"
      using False st(3) by (simp_all add: z_def)
    have "(t @ p # replicate (Suc z) 0) ! (length t + Suc z) = 0"
      by (simp add: nth_append del: replicate_Suc)
    moreover have "(replicate (Suc z) (0 :: u8))[z := 128] = replicate z 0 @ [128]"
    proof -
      have "replicate (Suc z) 0 = replicate z 0 @ [0 :: u8]"
        by (simp add: replicate_append_same)
      then show ?thesis
        by (simp only: list_update_append length_replicate) simp
    qed
    ultimately show ?thesis
      using False unfolding T P_def z z_def [symmetric] by (simp add: list_update_append del: replicate_Suc)
  qed
  then have "keccak_absorb r m p = xor_lanes r P s"
    by (simp add: keccak_absorb_def st T_def)
  also have "\<dots> = ks.xor_run 0 P s"
    using xor_lanes_run [of r P s] r st by (auto simp: P_def)
  also have "\<dots> = xor_byte (r - 1) 128 (xor_byte (length t) p (ks.xor_run 0 t s))"
    unfolding P_def by (rule ks.xor_run_padding [OF st(3) assms(2)])
  finally have k: "keccak_absorb r m p = xor_byte (r - 1) 128 (xor_byte (length t) p (ks.xor_run 0 t s))" .
  show "KeccakF1600_StatePermute (keccak_absorb r m p) = sponge_absorb r p m"
    unfolding k by (rule finish_block [OF r(1) assms(2) f])
  show "length (keccak_absorb r m p) = 25"
    using st by (simp add: k)
qed

subsection \<open>Squeezing\<close>

lemma length_store64 [simp, len_simps]: "length (store64 u) = 8"
  by (simp add: store64_def)

lemma store_lanes:
  assumes "8 dvd r"
  shows "blocks (r div 8) (\<lambda>i. store64 (s ! i)) = map (\<lambda>k. state_byte k s) [0..<r]"
proof (rule nth_equalityI)
  have len: "length (blocks (r div 8) (\<lambda>i. store64 (s ! i))) = r"
    using length_blocks [of "r div 8" "\<lambda>i. store64 (s ! i)" 8] assms by simp
  then show "length (blocks (r div 8) (\<lambda>i. store64 (s ! i))) = length (map (\<lambda>k. state_byte k s) [0..<r])"
    by simp
  fix k assume "k < length (blocks (r div 8) (\<lambda>i. store64 (s ! i)))"
  then have k: "k < r"
    by (simp only: len)
  then have "blocks (r div 8) (\<lambda>i. store64 (s ! i)) ! k = store64 (s ! (k div 8)) ! (k mod 8)"
    using assms by (intro nth_blocks_div_mod) simp_all
  then show "blocks (r div 8) (\<lambda>i. store64 (s ! i)) ! k = map (\<lambda>k. state_byte k s) [0..<r] ! k"
    using k by (simp add: store64_def state_byte_def)
qed

lemma sponge_byte_shift:
  assumes "0 < r"
  shows "sponge_byte r S (j * r + k) = sponge_byte r ((keccak_p ^^ j) S) k"
proof -
  have "(j * r + k) div r = k div r + j" "(j * r + k) mod r = k mod r"
    using assms by simp_all
  then show ?thesis
    by (simp add: sponge_byte_def funpow_add)
qed

lemma sponge_byte_first: "i < r \<Longrightarrow> sponge_byte r S i = state_byte i S"
  by (simp add: sponge_byte_def)

lemma map_upt_shift: "map f [a..<a + n] = map (\<lambda>i. f (a + i)) [0..<n]"
  by (rule nth_equalityI) simp_all

lemma keccak_squeezeblocks_correct:
  assumes r: "good_rate r" and "length s = 25"
  shows "keccak_squeezeblocks n s r = (map (sponge_byte r (keccak_p s)) [0..<n * r], (keccak_p ^^ n) s)"
  using assms(2)
proof (induction n arbitrary: s)
  case (Suc n)
  have r0: "0 < r" "8 dvd r"
    using r by (simp_all add: good_rate_def)
  let ?S = "keccak_p s"
  have rest: "map (sponge_byte r ?S) [r..<r + n * r] = map (sponge_byte r (keccak_p ?S)) [0..<n * r]"
    using sponge_byte_shift [OF r0(1), of ?S 1] by (simp add: map_upt_shift)
  have first: "map (sponge_byte r ?S) [0..<r] = map (\<lambda>k. state_byte k ?S) [0..<r]"
    by (rule map_cong) (simp_all add: sponge_byte_first)
  have "[0..<Suc n * r] = [0..<r] @ [r..<r + n * r]"
    using upt_add_eq_append [of 0 r "n * r"] by simp
  then have "map (sponge_byte r ?S) [0..<Suc n * r]
      = map (\<lambda>k. state_byte k ?S) [0..<r] @ map (sponge_byte r (keccak_p ?S)) [0..<n * r]"
    by (simp only: map_append first rest)
  then show ?case
    using Suc r0 by (simp add: permute_25 store_lanes funpow_swap1 Let_def)
qed simp

lemma length_sponge_absorb [simp, len_simps]: "length (sponge_absorb r p m) = 25"
proof -
  have "length (foldl (\<lambda>s B. keccak_p (absorb_block B s)) s Bs) = 25" if "length s = 25" for s Bs
    using that by (induction Bs arbitrary: s) simp_all
  then show ?thesis
    by (simp add: sponge_absorb_def Let_def)
qed

lemma length_sponge [simp, len_simps]: "length (sponge r p n m) = n"
  by (simp add: sponge_def)

text \<open>One block is enough for the hash functions; the extendable-output functions ask for more.\<close>

lemma hash_correct:
  assumes "good_rate r" and "\<not> bit p 7" and "n \<le> r" and "length s = 25"
    and "KeccakF1600_StatePermute s = sponge_absorb r p m"
  shows "map (\<lambda>i. fst (keccak_squeezeblocks 1 s r) ! i) [0..<n] = sponge r p n m"
  using assms by (simp add: keccak_squeezeblocks_correct permute_25 sponge_def del: keccak_squeezeblocks.simps)

lemma sha3_correct:
  "sha3_256 m = sponge 136 0x06 32 m" "sha3_384 m = sponge 104 0x06 48 m" "sha3_512 m = sponge 72 0x06 64 m"
proof -
  have p: "\<not> bit (0x06 :: u8) 7"
    by simp
  have r: "good_rate 136" "good_rate 104" "good_rate 72"
    by (simp_all add: good_rate_def)
  show "sha3_256 m = sponge 136 0x06 32 m" "sha3_384 m = sponge 104 0x06 48 m" "sha3_512 m = sponge 72 0x06 64 m"
    using hash_correct [OF r(1) p _ keccak_absorb_correct(2) [OF r(1) p] keccak_absorb_correct(1) [OF r(1) p], of 32 m]
      hash_correct [OF r(2) p _ keccak_absorb_correct(2) [OF r(2) p] keccak_absorb_correct(1) [OF r(2) p], of 48 m]
      hash_correct [OF r(3) p _ keccak_absorb_correct(2) [OF r(3) p] keccak_absorb_correct(1) [OF r(3) p], of 64 m]
    by (simp_all add: sha3_256_def sha3_384_def sha3_512_def rates case_prod_beta Let_def del: keccak_squeezeblocks.simps)
qed

lemma xof_output:
  fixes n :: nat
  assumes r: "good_rate r" and s: "length s = 25" and S: "keccak_p s = sponge_absorb r p m"
  defines "nb \<equiv> n div r"
  shows "fst (keccak_squeezeblocks nb s r)
      @ map (\<lambda>i. fst (keccak_squeezeblocks 1 (snd (keccak_squeezeblocks nb s r)) r) ! i) [0..<n - nb * r]
    = sponge r p n m"
proof -
  have r0: "0 < r"
    using r by (simp add: good_rate_def)
  have n: "n = nb * r + (n - nb * r)" "n - nb * r < r"
    using r0 by (simp_all add: nb_def minus_div_mult_eq_mod)
  have l: "length ((keccak_p ^^ nb) s) = 25"
    by (induction nb) (simp_all add: s)
  have "map (\<lambda>i. fst (keccak_squeezeblocks 1 ((keccak_p ^^ nb) s) r) ! i) [0..<n - nb * r]
      = map (\<lambda>i. sponge_byte r (keccak_p s) (nb * r + i)) [0..<n - nb * r]"
    unfolding keccak_squeezeblocks_correct [OF r l]
    using n(2) by (intro map_cong) (simp_all add: sponge_byte_shift [OF r0] funpow_swap1)
  also have "\<dots> = map (sponge_byte r (keccak_p s)) [nb * r..<nb * r + (n - nb * r)]"
    by (rule map_upt_shift [symmetric])
  also have "map (sponge_byte r (keccak_p s)) [0..<nb * r] @ \<dots> = map (sponge_byte r (keccak_p s)) [0..<n]"
    using upt_add_eq_append [of 0 "nb * r" "n - nb * r"] n(1) by (simp flip: map_append)
  finally show ?thesis
    by (simp add: keccak_squeezeblocks_correct [OF r s] sponge_def S del: keccak_squeezeblocks.simps)
qed

lemma shake_correct:
  "shake128 n m = sponge 168 0x1F n m" "shake256 n m = sponge 136 0x1F n m"
proof -
  have p: "\<not> bit (0x1F :: u8) 7"
    by simp
  have r: "good_rate 168" "good_rate 136"
    by (simp_all add: good_rate_def)
  note k1 = keccak_absorb_correct [OF r(1) p, of m] and k2 = keccak_absorb_correct [OF r(2) p, of m]
  show "shake128 n m = sponge 168 0x1F n m"
    using xof_output [OF r(1) k1(2), of "0x1F" m n] k1
    by (auto simp: permute_25 shake128_def shake128_absorb_def shake128_squeezeblocks_def rates case_prod_beta
        Let_def simp del: keccak_squeezeblocks.simps split: if_splits)
  show "shake256 n m = sponge 136 0x1F n m"
    using xof_output [OF r(2) k2(2), of "0x1F" m n] k2
    by (auto simp: permute_25 shake256_def shake256_absorb_def shake256_squeezeblocks_def rates case_prod_beta
        Let_def simp del: keccak_squeezeblocks.simps split: if_splits)
qed

subsection \<open>Incremental absorbing\<close>

text \<open>The invariant of a context: 25 lanes and a counter below the rate.\<close>

definition inc_ok :: "nat \<Rightarrow> keccak_inc \<Rightarrow> bool" where
  "inc_ok r c \<longleftrightarrow> length (inc_s c) = 25 \<and> unat (inc_pos c) < r"

abbreviation inc_view :: "keccak_inc \<Rightarrow> u64 list \<times> nat" where
  "inc_view c \<equiv> (inc_s c, unat (inc_pos c))"

lemma inc_ok_init: "0 < r \<Longrightarrow> inc_ok r keccak_inc_init"
  by (simp add: inc_ok_def keccak_inc_init_def)

lemma inc_xor_run:
  assumes "n \<le> length m"
  shows "inc_s (inc_xor m n c) = ks.xor_run (unat (inc_pos c)) (take n m) (inc_s c)"
    and "inc_pos (inc_xor m n c) = inc_pos c"
proof -
  show "inc_s (inc_xor m n c) = ks.xor_run (unat (inc_pos c)) (take n m) (inc_s c)"
    unfolding inc_xor_def ks.xor_run_def using assms by (auto intro: fold_cong)
qed (simp add: inc_xor_def)

lemma inc_absorb_full_feeds:
  assumes "good_rate r" and "inc_ok r c"
  shows "\<exists>c' t. inc_absorb_full r c m = (c', t) \<and> inc_ok r c' \<and> length t + unat (inc_pos c') < r
    \<and> foldl (ks.feed r) (inc_view c) m = foldl (ks.feed r) (inc_view c') t"
  using assms(2)
proof (induction "length m" arbitrary: c m rule: less_induct)
  case less
  have r: "0 < r"
    using assms(1) by (simp add: good_rate_def)
  have c: "length (inc_s c) = 25" "unat (inc_pos c) < r"
    using less.prems by (simp_all add: inc_ok_def)
  show ?case
  proof (cases "r \<le> length m + unat (inc_pos c)")
    case True
    define n where "n = r - unat (inc_pos c)"
    have n: "0 < n" "n \<le> length m" "unat (inc_pos c) + n = r"
      using True c by (simp_all add: n_def)
    let ?s = "KeccakF1600_StatePermute (ks.xor_run (unat (inc_pos c)) (take n m) (inc_s c))"
    define d where "d = (inc_xor m n c)\<lparr> inc_pos := 0, inc_s := KeccakF1600_StatePermute (inc_s (inc_xor m n c)) \<rparr>"
    have d: "inc_s d = ?s" "inc_pos d = 0"
      using inc_xor_run(1) [OF n(2)] by (simp_all add: d_def)
    then have "inc_ok r d"
      using c r by (simp add: inc_ok_def)
    have "foldl (ks.feed r) (inc_view c) (take n m) = (?s, 0)"
      using n by (intro ks.feeds_full) auto
    then have f: "foldl (ks.feed r) (inc_view c) m = foldl (ks.feed r) (inc_view d) (drop n m)"
      using d foldl_append [of "ks.feed r" "inc_view c" "take n m" "drop n m"] by simp
    have "length (drop n m) < length m"
      using n by (simp; linarith)
    then obtain c' t where "inc_absorb_full r d (drop n m) = (c', t)" "inc_ok r c'"
      "length t + unat (inc_pos c') < r"
      "foldl (ks.feed r) (inc_view d) (drop n m) = foldl (ks.feed r) (inc_view c') t"
      using less.hyps [of "drop n m" d] \<open>inc_ok r d\<close> by blast
    moreover have "inc_absorb_full r c m = inc_absorb_full r d (drop n m)"
      using True r by (subst inc_absorb_full.simps) (simp add: Let_def n_def [symmetric] d_def)
    ultimately show ?thesis
      unfolding f by auto
  next
    case False
    then show ?thesis
      using less.prems by (subst inc_absorb_full.simps) auto
  qed
qed

text \<open>Absorbing keeps the invariant and feeds the bytes one after the other.\<close>

lemma keccak_inc_absorb_correct:
  assumes "good_rate r" and "inc_ok r c"
  shows "inc_ok r (keccak_inc_absorb r c m)"
    and "inc_view (keccak_inc_absorb r c m) = foldl (ks.feed r) (inc_view c) m"
proof -
  obtain d t where d: "inc_absorb_full r c m = (d, t)" "inc_ok r d" "length t + unat (inc_pos d) < r"
    and f: "foldl (ks.feed r) (inc_view c) m = foldl (ks.feed r) (inc_view d) t"
    using inc_absorb_full_feeds [OF assms] by blast
  have "r \<le> 200"
    using assms(1) by (simp add: good_rate_def)
  then have pos: "unat (inc_pos d + word_of_nat (length t)) = unat (inc_pos d) + length t"
    using d(3) by (simp add: unat_word_ariths unat_of_nat)
  have "inc_s (keccak_inc_absorb r c m) = ks.xor_run (unat (inc_pos d)) t (inc_s d)"
    "inc_pos (keccak_inc_absorb r c m) = inc_pos d + word_of_nat (length t)"
    using inc_xor_run [of "length t" t d] by (simp_all add: keccak_inc_absorb_def d(1))
  then have k: "inc_view (keccak_inc_absorb r c m)
      = (ks.xor_run (unat (inc_pos d)) t (inc_s d), unat (inc_pos d) + length t)"
    using pos by simp
  show "inc_view (keccak_inc_absorb r c m) = foldl (ks.feed r) (inc_view c) m"
    unfolding f k using d(3) by (intro ks.feeds_run [symmetric]) simp
  show "inc_ok r (keccak_inc_absorb r c m)"
    using k d(2,3) by (simp add: inc_ok_def)
qed

lemma keccak_inc_absorb_append:
  assumes "good_rate r" and "inc_ok r c"
  shows "keccak_inc_absorb r (keccak_inc_absorb r c m) m' = keccak_inc_absorb r c (m @ m')"
proof -
  have "inc_view (keccak_inc_absorb r (keccak_inc_absorb r c m) m') = inc_view (keccak_inc_absorb r c (m @ m'))"
    using keccak_inc_absorb_correct [OF assms] keccak_inc_absorb_correct [OF assms(1)] by simp
  then show ?thesis
    by (intro keccak_inc.equality) (simp_all add: word_unat_eq_iff)
qed

lemma good_rate_pos: "good_rate r \<Longrightarrow> 0 < r"
  by (simp add: good_rate_def)

lemma keccak_inc_absorb_nil: "inc_ok r c \<Longrightarrow> keccak_inc_absorb r c [] = c"
  by (simp add: keccak_inc_absorb_def inc_ok_def inc_absorb_full.simps [of r c "[]"] inc_xor_def)

lemma foldl_absorb_concat:
  assumes "good_rate r" and "inc_ok r c"
  shows "foldl (keccak_inc_absorb r) c ms = keccak_inc_absorb r c (concat ms)"
  using assms(2)
proof (induction ms arbitrary: c)
  case (Cons m ms)
  then show ?case
    using keccak_inc_absorb_correct(1) [OF assms(1) Cons.prems]
    by (simp add: keccak_inc_absorb_append [OF assms(1)])
qed (simp add: keccak_inc_absorb_nil)

text \<open>Finalising leaves the context as the one-shot function leaves its state.\<close>

lemma keccak_inc_finalize_correct:
  fixes m :: bytes
  assumes r: "good_rate r" and p: "\<not> bit p 7"
  defines "c \<equiv> keccak_inc_finalize r p (keccak_inc_absorb r keccak_inc_init m)"
  shows "inc_ok r c" and "inc_pos c = 0" and "KeccakF1600_StatePermute (inc_s c) = sponge_absorb r p m"
proof -
  have r0: "0 < r"
    using r by (simp add: good_rate_def)
  let ?d = "keccak_inc_absorb r keccak_inc_init m"
  note d = keccak_inc_absorb_correct [OF r inc_ok_init [OF r0], of m]
  have "foldl (ks.feed r) (replicate 25 0, 0) m = inc_view ?d"
    using d(2) by (simp add: keccak_inc_init_def)
  note fin = finish_block [OF r0 p this]
  show "inc_ok r c" "inc_pos c = 0"
    using d(1) r0 by (simp_all add: c_def keccak_inc_finalize_def inc_ok_def Let_def)
  show "KeccakF1600_StatePermute (inc_s c) = sponge_absorb r p m"
    using fin by (simp add: c_def keccak_inc_finalize_def Let_def)
qed

subsection \<open>Incremental squeezing\<close>

text \<open>\<open>squeezed r S k c\<close>: the context has handed out the first \<open>k\<close> bytes of the stream of \<open>S\<close>.\<close>

definition squeezed :: "nat \<Rightarrow> u64 list \<Rightarrow> nat \<Rightarrow> keccak_inc \<Rightarrow> bool" where
  "squeezed r S k c \<longleftrightarrow> inc_ok r c \<and> (\<exists>j. keccak_p (inc_s c) = (keccak_p ^^ j) S
     \<and> (0 < j \<longrightarrow> inc_s c = (keccak_p ^^ (j - 1)) S) \<and> j * r = k + unat (inc_pos c))"

lemma inc_squeeze_blocks_correct:
  assumes r: "good_rate r" and "squeezed r S k c" and "n = 0 \<or> inc_pos c = 0"
  shows "\<exists>c'. inc_squeeze_blocks r n c = (map (sponge_byte r S) [k..<k + n], c') \<and> squeezed r S (k + n) c'"
  using assms(2,3)
proof (induction n arbitrary: k c rule: less_induct)
  case (less n)
  have r0: "0 < r" "r \<le> 200"
    using r by (simp_all add: good_rate_def)
  show ?case
  proof (cases "n = 0")
    case True
    then show ?thesis
      using less.prems by (subst inc_squeeze_blocks.simps) simp
  next
    case False
    then have pos: "inc_pos c = 0"
      using less.prems by simp
    obtain j where j: "keccak_p (inc_s c) = (keccak_p ^^ j) S" "j * r = k" and len: "length (inc_s c) = 25"
      using less.prems(1) pos by (auto simp: squeezed_def inc_ok_def)
    define l where "l = min n r"
    define d where "d = c\<lparr> inc_s := (keccak_p ^^ j) S, inc_pos := word_of_nat (r - l) \<rparr>"
    have l: "0 < l" "l \<le> n" "l \<le> r" "l < n \<Longrightarrow> l = r"
      using False r0 by (auto simp: l_def min_def)
    have dpos: "unat (inc_pos d) = r - l"
      using r0 by (simp add: d_def unat_of_nat)
    have "length ((keccak_p ^^ j) S) = 25"
      unfolding j(1) [symmetric] by simp
    then have "inc_ok r d"
      using dpos l by (simp add: inc_ok_def d_def)
    moreover have "Suc j * r = k + l + unat (inc_pos d)"
      using dpos l j(2) by simp
    ultimately have sq: "squeezed r S (k + l) d"
      unfolding squeezed_def by (intro conjI exI [of _ "Suc j"]) (simp_all add: d_def)
    have bytes: "map (\<lambda>i. state_byte i ((keccak_p ^^ j) S)) [0..<l] = map (sponge_byte r S) [k..<k + l]"
      unfolding map_upt_shift using l
      by (intro map_cong) (simp_all add: j(2) [symmetric] sponge_byte_shift [OF r0(1)] sponge_byte_first)
    have "n - l = 0 \<or> inc_pos d = 0"
      using l by (cases "l < n") (auto simp: d_def)
    then obtain c' where c': "inc_squeeze_blocks r (n - l) d = (map (sponge_byte r S) [k + l..<k + l + (n - l)], c')"
        "squeezed r S (k + l + (n - l)) c'"
      using less.IH [of "n - l" "k + l" d] sq l by auto
    have "inc_squeeze_blocks r n c = (map (sponge_byte r S) [k..<k + l] @ map (sponge_byte r S) [k + l..<k + n], c')"
      using False r0 c' l
      by (subst inc_squeeze_blocks.simps)
        (simp add: Let_def l_def [symmetric] permute_25 [OF len] j(1) bytes d_def [symmetric] del: of_nat_diff)
    moreover have "[k..<k + l] @ [k + l..<k + n] = [k..<k + n]"
      using upt_add_eq_append [of k "k + l" "n - l"] l by simp
    ultimately show ?thesis
      using c' l by (auto simp flip: map_append)
  qed
qed

lemma keccak_inc_squeeze_correct:
  assumes r: "good_rate r" and c: "squeezed r S k c"
  shows "\<exists>c'. keccak_inc_squeeze r n c = (map (sponge_byte r S) [k..<k + n], c') \<and> squeezed r S (k + n) c'"
proof -
  have r0: "0 < r" "r \<le> 200"
    using r by (simp_all add: good_rate_def)
  define q where "q = unat (inc_pos c)"
  obtain j where j: "keccak_p (inc_s c) = (keccak_p ^^ j) S" "0 < j \<Longrightarrow> inc_s c = (keccak_p ^^ (j - 1)) S"
    "j * r = k + q" and len: "length (inc_s c) = 25" and q: "q < r"
    using c by (auto simp: squeezed_def inc_ok_def q_def)
  define l where "l = min n q"
  define d where "d = c\<lparr> inc_pos := inc_pos c - word_of_nat l \<rparr>"
  have dpos: "unat (inc_pos d) = q - l"
    using q r0 by (simp add: d_def unat_sub_if_size unat_of_nat q_def [symmetric] l_def word_size)
  have "inc_ok r d" "j * r = k + l + unat (inc_pos d)"
    using len q dpos j(3) by (simp_all add: inc_ok_def d_def l_def)
  then have sq: "squeezed r S (k + l) d"
    unfolding squeezed_def using j by (intro conjI exI [of _ j]) (simp_all add: d_def)
  have bytes: "map (\<lambda>i. state_byte (r - q + i) (inc_s c)) [0..<l] = map (sponge_byte r S) [k..<k + l]"
    unfolding map_upt_shift
  proof (intro map_cong refl)
    fix i assume "i \<in> set [0..<l]"
    then have i: "i < q"
      by (simp add: l_def)
    have "0 < j"
      using j(3) i by (cases j) auto
    then obtain j' where j': "j = Suc j'"
      using gr0_implies_Suc by blast
    define o' where "o' = r - q + i"
    have o: "o' < r" "k + i = j' * r + o'"
      using j(3) q i by (simp_all add: j' o'_def)
    show "state_byte (r - q + i) (inc_s c) = sponge_byte r S (k + i)"
      unfolding o'_def [symmetric] o(2)
      using j(2) o(1) by (simp add: j' sponge_byte_shift [OF r0(1)] sponge_byte_first)
  qed
  have "n - l = 0 \<or> inc_pos d = 0"
    using dpos by (auto simp: l_def min_def unat_eq_0 [symmetric])
  then obtain c' where c': "inc_squeeze_blocks r (n - l) d = (map (sponge_byte r S) [k + l..<k + l + (n - l)], c')"
      "squeezed r S (k + l + (n - l)) c'"
    using inc_squeeze_blocks_correct [OF r sq] by blast
  have "keccak_inc_squeeze r n c = (map (sponge_byte r S) [k..<k + l] @ map (sponge_byte r S) [k + l..<k + n], c')"
    using c'(1) bytes by (simp add: keccak_inc_squeeze_def Let_def q_def l_def d_def)
  moreover have "[k..<k + l] @ [k + l..<k + n] = [k..<k + n]"
    using upt_add_eq_append [of k "k + l" "n - l"] by (simp add: l_def)
  ultimately show ?thesis
    using c'(2) by (auto simp: l_def simp flip: map_append)
qed

lemma squeezed_finalize:
  assumes "good_rate r" and "\<not> bit p 7"
  shows "squeezed r (sponge_absorb r p m) 0 (keccak_inc_finalize r p (keccak_inc_absorb r keccak_inc_init m))"
  using keccak_inc_finalize_correct [OF assms]
  by (auto simp: squeezed_def inc_ok_def permute_25 intro!: exI [of _ 0])

text \<open>The incremental interface computes the one-shot function, however input and output are split.\<close>

lemma keccak_inc_correct:
  assumes r: "good_rate r" and "\<not> bit p 7"
  shows "\<exists>c'. keccak_inc_squeeze r n (keccak_inc_finalize r p (keccak_inc_absorb r keccak_inc_init m)) = (sponge r p n m, c')
    \<and> squeezed r (sponge_absorb r p m) n c'"
  using keccak_inc_squeeze_correct [OF r squeezed_finalize [OF assms], of n m] by (simp add: sponge_def)

section \<open>Properties\<close>

text \<open>
  C16. The one-shot hashes \<open>sha3_256\<close>, \<open>sha3_384\<close> and \<open>sha3_512\<close> (\<open>fips202.c\<close>) are the sponge of FIPS 202 with
  rates 136, 104 and 72, domain byte \<open>0x06\<close> and \<open>pad10*1\<close> padding, for every input.
\<close>

theorem sha3_is_sponge:
  "sha3_256 m = sponge 136 0x06 32 m \<and> sha3_384 m = sponge 104 0x06 48 m \<and> sha3_512 m = sponge 72 0x06 64 m"
  by (simp add: sha3_correct)

text \<open>
  C17. \<open>shake128\<close> and \<open>shake256\<close> (\<open>fips202.c\<close>) are the sponge of FIPS 202 with rates 168 and 136 and domain
  byte \<open>0x1F\<close>, for every input and every output length, whole blocks or not.
\<close>

theorem shake_is_sponge:
  "shake128 n m = sponge 168 0x1F n m \<and> shake256 n m = sponge 136 0x1F n m"
  by (simp add: shake_correct)

text \<open>
  C18. The incremental interface agrees with the one-shot sponge: absorbing any sequence of chunks,
  finalizing, and squeezing first \<open>n\<close> and then \<open>k\<close> more bytes yields the first \<open>n + k\<close> bytes of the sponge
  over the concatenated input, however the input and the output are cut.
\<close>

theorem incremental_is_sponge:
  assumes r: "good_rate r" and p: "\<not> bit p 7"
  shows "\<exists>h c h' c'. keccak_inc_squeeze r n
        (keccak_inc_finalize r p (foldl (keccak_inc_absorb r) keccak_inc_init ms)) = (h, c)
      \<and> keccak_inc_squeeze r k c = (h', c') \<and> h @ h' = sponge r p (n + k) (concat ms)"
proof -
  let ?S = "sponge_absorb r p (concat ms)"
  have "squeezed r ?S 0 (keccak_inc_finalize r p (foldl (keccak_inc_absorb r) keccak_inc_init ms))"
    unfolding foldl_absorb_concat [OF r inc_ok_init [OF good_rate_pos [OF r]]] by (rule squeezed_finalize [OF r p])
  then obtain c where c: "keccak_inc_squeeze r n
      (keccak_inc_finalize r p (foldl (keccak_inc_absorb r) keccak_inc_init ms))
        = (map (sponge_byte r ?S) [0..<0 + n], c)" "squeezed r ?S (0 + n) c"
    using keccak_inc_squeeze_correct [OF r] by blast
  obtain c' where c': "keccak_inc_squeeze r k c = (map (sponge_byte r ?S) [0 + n..<0 + n + k], c')"
    using keccak_inc_squeeze_correct [OF r c(2)] by blast
  have "map (sponge_byte r ?S) [0..<0 + n] @ map (sponge_byte r ?S) [0 + n..<0 + n + k]
      = sponge r p (n + k) (concat ms)"
    by (simp add: sponge_def upt_add_eq_append [of 0 n k] flip: map_append)
  then show ?thesis
    using c(1) c' by blast
qed

theorem incremental_is_sponge_witness:
  "\<exists>h c h' c'. keccak_inc_squeeze 136 10
        (keccak_inc_finalize 136 0x1F (foldl (keccak_inc_absorb 136) keccak_inc_init [[1, 2], [], [3]])) = (h, c)
      \<and> keccak_inc_squeeze 136 200 c = (h', c') \<and> h @ h' = sponge 136 0x1F (10 + 200) (concat [[1, 2], [], [3]])"
  by (rule incremental_is_sponge) (simp_all add: good_rate_def)

text \<open>
  Absorbing keeps the invariant of the incremental state, that the 26th word counts fewer pending
  bytes than the rate and the state has 25 words, so that \<open>keccak_inc_finalize\<close> always has room for the
  domain byte.
\<close>

theorem absorb_keeps_invariant:
  assumes "good_rate r" and "inc_ok r c"
  shows "inc_ok r (keccak_inc_absorb r c m)"
  using assms by (rule keccak_inc_absorb_correct)

theorem absorb_keeps_invariant_witness: "inc_ok 168 (keccak_inc_absorb 168 keccak_inc_init [1, 2, 3])"
  by (rule absorb_keeps_invariant) (simp_all add: good_rate_def inc_ok_def keccak_inc_init_def)

end
