(* ===== verification/Reduce.thy ===== *)
theory Reduce
  imports Prelude
begin

text \<open>
  The constants of \<open>native/mlkem/pqclean-ml-kem-768/params.h\<close> and the two reductions of
  \<open>reduce.c\<close>, on the machine integers of the source. \<open>montgomery_reduce\<close> and \<open>barrett_reduce\<close> are
  shown to return a representative of the right residue class within the bounds their comments
  promise; \<open>barrett_reduce\<close> for every \<open>int16_t\<close>, \<open>montgomery_reduce\<close> on its documented domain.
\<close>

section \<open>Parameters\<close>

definition KYBER_N :: nat where "KYBER_N = 256"
definition KYBER_Q :: i32 where "KYBER_Q = 3329"
definition KYBER_K :: nat where "KYBER_K = 3"
definition KYBER_SYMBYTES :: nat where "KYBER_SYMBYTES = 32"
definition KYBER_SSBYTES :: nat where "KYBER_SSBYTES = 32"
definition KYBER_POLYBYTES :: nat where "KYBER_POLYBYTES = 384"
definition KYBER_POLYVECBYTES :: nat where "KYBER_POLYVECBYTES = KYBER_K * KYBER_POLYBYTES"
definition KYBER_ETA1 :: nat where "KYBER_ETA1 = 2"
definition KYBER_ETA2 :: nat where "KYBER_ETA2 = 2"
definition KYBER_POLYCOMPRESSEDBYTES :: nat where "KYBER_POLYCOMPRESSEDBYTES = 128"
definition KYBER_POLYVECCOMPRESSEDBYTES :: nat where
  "KYBER_POLYVECCOMPRESSEDBYTES = KYBER_K * 320"
definition KYBER_INDCPA_MSGBYTES :: nat where "KYBER_INDCPA_MSGBYTES = KYBER_SYMBYTES"
definition KYBER_INDCPA_PUBLICKEYBYTES :: nat where
  "KYBER_INDCPA_PUBLICKEYBYTES = KYBER_POLYVECBYTES + KYBER_SYMBYTES"
definition KYBER_INDCPA_SECRETKEYBYTES :: nat where
  "KYBER_INDCPA_SECRETKEYBYTES = KYBER_POLYVECBYTES"
definition KYBER_INDCPA_BYTES :: nat where
  "KYBER_INDCPA_BYTES = KYBER_POLYVECCOMPRESSEDBYTES + KYBER_POLYCOMPRESSEDBYTES"
definition KYBER_PUBLICKEYBYTES :: nat where
  "KYBER_PUBLICKEYBYTES = KYBER_INDCPA_PUBLICKEYBYTES"
definition KYBER_SECRETKEYBYTES :: nat where
  "KYBER_SECRETKEYBYTES =
     KYBER_INDCPA_SECRETKEYBYTES + KYBER_INDCPA_PUBLICKEYBYTES + 2 * KYBER_SYMBYTES"
definition KYBER_CIPHERTEXTBYTES :: nat where "KYBER_CIPHERTEXTBYTES = KYBER_INDCPA_BYTES"

lemmas params =
  KYBER_N_def KYBER_Q_def KYBER_K_def KYBER_SYMBYTES_def KYBER_SSBYTES_def KYBER_POLYBYTES_def
  KYBER_POLYVECBYTES_def KYBER_ETA1_def KYBER_ETA2_def KYBER_POLYCOMPRESSEDBYTES_def
  KYBER_POLYVECCOMPRESSEDBYTES_def KYBER_INDCPA_MSGBYTES_def KYBER_INDCPA_PUBLICKEYBYTES_def
  KYBER_INDCPA_SECRETKEYBYTES_def KYBER_INDCPA_BYTES_def KYBER_PUBLICKEYBYTES_def
  KYBER_SECRETKEYBYTES_def KYBER_CIPHERTEXTBYTES_def

section \<open>Reductions\<close>

definition QINV :: i32 where "QINV = - 3327"
definition MONT :: i32 where "MONT = - 1044"

definition montgomery_reduce :: "i32 \<Rightarrow> i16" where
  "montgomery_reduce a =
     (let t = to_i16 (promote16 (to_i16 a) * QINV)
      in to_i16 (signed_drop_bit 16 (a - promote16 t * KYBER_Q)))"

text \<open>The constant \<open>v\<close> of the source, \<open>((1 << 26) + KYBER_Q / 2) / KYBER_Q\<close>.\<close>

definition barrett_v :: i16 where
  "barrett_v = word_of_int ((2 ^ 26 + 3329 div 2) div 3329)"

definition barrett_reduce :: "i16 \<Rightarrow> i16" where
  "barrett_reduce a =
     (let t = to_i16 (signed_drop_bit 26 (promote16 barrett_v * promote16 a + push_bit 25 1));
          t = to_i16 (promote16 t * KYBER_Q)
      in to_i16 (promote16 a - promote16 t))"

section \<open>Montgomery reduction\<close>

lemma montgomery_exact:
  fixes a :: int
  assumes "- 3329 * 2 ^ 15 \<le> a" and "a < 3329 * 2 ^ 15"
  defines "t \<equiv> signed_take_bit 15 (a * - 3327)"
  shows "(a - t * 3329) div 65536 * 65536 = a - t * 3329"
    and "- 3329 < (a - t * 3329) div 65536"
    and "(a - t * 3329) div 65536 < 3329"
proof -
  have "(a - t * 3329) mod 65536 = (a - a * (- 3327) * 3329) mod 65536"
    unfolding t_def by (metis mod_diff_right_eq mod_mult_left_eq signed_take_bit_15_mod)
  also have "a - a * (- 3327) * 3329 = a * 169 * 65536"
    by simp
  finally have "(a - t * 3329) mod 65536 = 0"
    by simp
  then show e: "(a - t * 3329) div 65536 * 65536 = a - t * 3329"
    by (metis add.right_neutral div_mult_mod_eq)
  have t: "- 32768 \<le> t" "t < 32768"
    unfolding t_def by (rule signed_take_bit_15_ge signed_take_bit_15_lt)+
  define d where "d = (a - t * 3329) div 65536"
  have "d * 65536 = a - t * 3329"
    using e by (simp add: d_def)
  then have "- 3329 < d" "d < 3329"
    using assms(1,2) t by simp_all
  then show "- 3329 < (a - t * 3329) div 65536" "(a - t * 3329) div 65536 < 3329"
    by (simp_all add: d_def)
qed

lemma sint_QINV: "sint QINV = - 3327"
  by (simp add: QINV_def)

lemma sint_montgomery_reduce:
  assumes "- 3329 * 2 ^ 15 \<le> sint a" and "sint a < 3329 * 2 ^ 15"
  shows "sint (montgomery_reduce a)
           = (sint a - signed_take_bit 15 (sint a * - 3327) * 3329) div 65536"
proof -
  define t where "t = to_i16 (promote16 (to_i16 a) * QINV)"
  define d where "d = (sint a - signed_take_bit 15 (sint a * - 3327) * 3329) div 65536"
  have t: "sint t = signed_take_bit 15 (sint a * - 3327)"
    using signed_take_bit_15_mult [of "sint a" "- 3327"]
    by (simp add: t_def sint_to_i16 sint_i32_arith sint_QINV)
  have "sint (a - promote16 t * KYBER_Q) = sint a - sint t * 3329"
    using assms sint_i16_range [of t] by (simp add: sint_i32_arith KYBER_Q_def signed_take_bit_id)
  then have "sint (signed_drop_bit 16 (a - promote16 t * KYBER_Q)) = d"
    unfolding sint_signed_drop_bit_eq drop_bit_eq_div d_def t by simp
  moreover have "- 3329 < d" "d < 3329"
    unfolding d_def using assms by (rule montgomery_exact)+
  ultimately have "sint (to_i16 (signed_drop_bit 16 (a - promote16 t * KYBER_Q))) = d"
    by (simp add: sint_to_i16 signed_take_bit_id)
  then show ?thesis
    by (simp add: montgomery_reduce_def Let_def d_def flip: t_def)
qed

text \<open>
  The two promises of the comment on \<open>montgomery_reduce\<close>: the result lies in
  \<open>{-q+1, \<dots>, q-1}\<close> and is congruent to \<open>a * R^-1\<close> modulo \<open>q\<close> for \<open>R = 2^16\<close>.
\<close>

lemma montgomery_reduce_correct:
  assumes "- 3329 * 2 ^ 15 \<le> sint a" and "sint a < 3329 * 2 ^ 15"
  shows "sint (montgomery_reduce a) * 2 ^ 16 mod 3329 = sint a mod 3329"
    and "\<bar>sint (montgomery_reduce a)\<bar> < 3329"
proof -
  let ?t = "signed_take_bit 15 (sint a * - 3327)"
  have "sint (montgomery_reduce a) * 65536 = sint a - ?t * 3329"
    unfolding sint_montgomery_reduce [OF assms] by (rule montgomery_exact(1) [OF assms])
  then have "sint (montgomery_reduce a) * 2 ^ 16 mod 3329 = (sint a - ?t * 3329) mod 3329"
    by simp
  also have "\<dots> = sint a mod 3329"
    by (metis mod_diff_right_eq mod_mult_self2_is_0 diff_zero)
  finally show "sint (montgomery_reduce a) * 2 ^ 16 mod 3329 = sint a mod 3329" .
  show "\<bar>sint (montgomery_reduce a)\<bar> < 3329"
    using montgomery_exact(2,3) [OF assms] by (simp add: sint_montgomery_reduce [OF assms])
qed

lemma zq_of_montgomery_reduce:
  assumes "- 3329 * 2 ^ 15 \<le> sint a" and "sint a < 3329 * 2 ^ 15"
  shows "zq_of (montgomery_reduce a) = of_int (sint a) * 169"
proof -
  have "of_int (sint (montgomery_reduce a) * 2 ^ 16) = (of_int (sint a) :: zq)"
    unfolding of_int_zq_eq_iff by (rule montgomery_reduce_correct(1) [OF assms])
  then have m: "zq_of (montgomery_reduce a) * 2 ^ 16 = of_int (sint a)"
    by (simp add: zq_of_def)
  have "(2 ^ 16 * 169 :: zq) = 1"
    by simp
  then have "zq_of (montgomery_reduce a) = zq_of (montgomery_reduce a) * 2 ^ 16 * 169"
    by (simp only: mult.assoc mult_1_right)
  then show ?thesis
    by (simp only: m)
qed

section \<open>Barrett reduction\<close>

lemma barrett_bounds:
  fixes a :: int
  assumes "- 32768 \<le> a" and "a < 32768"
  shows "\<bar>a - (20159 * a + 33554432) div 67108864 * 3329\<bar> \<le> 1664"
    and "\<bar>(20159 * a + 33554432) div 67108864\<bar> \<le> 10"
  using assms by simp_all

lemma sint_barrett_v: "sint barrett_v = 20159"
  by (simp add: barrett_v_def)

lemma sint_barrett_reduce:
  "sint (barrett_reduce a) = sint a - (20159 * sint a + 33554432) div 67108864 * 3329"
proof -
  define q where "q = (20159 * sint a + 33554432) div 67108864"
  define t where
    "t = to_i16 (signed_drop_bit 26 (promote16 barrett_v * promote16 a + push_bit 25 1))"
  define u where "u = to_i16 (promote16 t * KYBER_Q)"
  note r = sint_i16_range [of a]
  have q: "\<bar>sint a - q * 3329\<bar> \<le> 1664" "\<bar>q\<bar> \<le> 10"
    unfolding q_def using r by (rule barrett_bounds)+
  have "sint (promote16 barrett_v * promote16 a + push_bit 25 1) = 20159 * sint a + 33554432"
    using r by (simp add: sint_i32_arith sint_mult_i16 sint_barrett_v signed_take_bit_id)
  then have "sint (signed_drop_bit 26 (promote16 barrett_v * promote16 a + push_bit 25 1)) = q"
    unfolding sint_signed_drop_bit_eq drop_bit_eq_div q_def by simp
  then have t: "sint t = q"
    unfolding t_def sint_to_i16 using q by (simp add: signed_take_bit_id)
  have u: "sint u = signed_take_bit 15 (q * 3329)"
    unfolding u_def sint_to_i16 using q
    by (simp add: sint_i32_arith KYBER_Q_def t)
  have "sint (to_i16 (promote16 a - promote16 u)) = signed_take_bit 15 (sint a - q * 3329)"
    by (simp add: sint_to_i16 sint_i32_arith u signed_take_bit_15_diff)
  also have "\<dots> = sint a - q * 3329"
    using q(1) by (simp add: signed_take_bit_id)
  finally have "sint (to_i16 (promote16 a - promote16 u)) = sint a - q * 3329" .
  then show ?thesis
    unfolding barrett_reduce_def Let_def t_def [symmetric] u_def [symmetric] q_def [symmetric] .
qed

text \<open>
  The comment on \<open>barrett_reduce\<close>: for every \<open>int16_t\<close> the result is the centred representative,
  in \<open>{-(q-1)/2, \<dots>, (q-1)/2}\<close>.
\<close>

lemma barrett_reduce_correct:
  shows "sint (barrett_reduce a) mod 3329 = sint a mod 3329"
    and "\<bar>sint (barrett_reduce a)\<bar> \<le> 1664"
proof -
  show "sint (barrett_reduce a) mod 3329 = sint a mod 3329"
    by (simp add: sint_barrett_reduce mod_diff_right_eq [symmetric])
  show "\<bar>sint (barrett_reduce a)\<bar> \<le> 1664"
    unfolding sint_barrett_reduce by (rule barrett_bounds(1) [OF sint_i16_range])
qed

lemma zq_of_barrett_reduce [simp]: "zq_of (barrett_reduce a) = zq_of a"
  by (simp add: zq_of_eq_iff barrett_reduce_correct)

section \<open>Properties\<close>

text \<open>
  C31. \<open>montgomery_reduce\<close> (\<open>reduce.c\<close>) meets its contract: on the documented range of 32-bit inputs the
  16-bit result is \<open>a * 2^-16\<close> modulo \<open>q\<close> and lies strictly between \<open>-q\<close> and \<open>q\<close>, although the product
  with \<open>QINV\<close> and the truncation to \<open>int16_t\<close> wrap.
\<close>

theorem montgomery_reduce_spec:
  assumes "- 3329 * 2 ^ 15 \<le> sint a" and "sint a < 3329 * 2 ^ 15"
  shows "sint (montgomery_reduce a) * 2 ^ 16 mod 3329 = sint a mod 3329
    \<and> \<bar>sint (montgomery_reduce a)\<bar> < 3329"
  using montgomery_reduce_correct [OF assms] by simp

theorem montgomery_reduce_spec_witness:
  "sint (montgomery_reduce 109084671) * 2 ^ 16 mod 3329 = sint (109084671 :: i32) mod 3329
    \<and> \<bar>sint (montgomery_reduce 109084671)\<bar> < 3329"
  by (rule montgomery_reduce_spec) simp_all

text \<open>
  \<open>barrett_reduce\<close> (\<open>reduce.c\<close>) returns, for every 16-bit input, the centred representative modulo
  \<open>q\<close>: congruent to the input and of absolute value at most \<open>(q - 1) / 2\<close>.
\<close>

theorem barrett_reduce_spec:
  "sint (barrett_reduce a) mod 3329 = sint a mod 3329 \<and> \<bar>sint (barrett_reduce a)\<bar> \<le> 1664"
  using barrett_reduce_correct by blast

end
