(* ===== verification/NTT_Theory.thy ===== *)
theory NTT_Theory
  imports Prelude
begin

text \<open>
  The mathematics of the incomplete number-theoretic transform, over any commutative ring.

  A vector of \<open>n = 2 * N\<close> coefficients is read as a polynomial modulo \<open>X^n + 1\<close>. The transform splits
  it along a binary tree: node \<open>k\<close> carries the polynomial modulo \<open>X^L - node_mod zeta k\<close>, and its
  children carry the residues modulo \<open>X^(L/2) - zeta k\<close> and \<open>X^(L/2) + zeta k\<close>. \<open>residue\<close> is that
  residue in coefficients, \<open>nega_mul\<close> the product modulo \<open>X^n + 1\<close>. The locale \<open>twiddle_tree\<close> is the
  contract a table of twiddle factors has to meet; inside it one layer of butterflies is shown to
  go down or up one level of the tree, and the leaves to multiply as the polynomials do.
\<close>

section \<open>Residues and negacyclic products\<close>

definition residue :: "nat \<Rightarrow> nat \<Rightarrow> (nat \<Rightarrow> 'a :: comm_ring_1) \<Rightarrow> 'a \<Rightarrow> nat \<Rightarrow> 'a" where
  "residue nb L A g j = (\<Sum>i<nb. A (j + L * i) * g ^ i)"

definition nega_mul :: "nat \<Rightarrow> (nat \<Rightarrow> 'a :: comm_ring_1) \<Rightarrow> (nat \<Rightarrow> 'a) \<Rightarrow> nat \<Rightarrow> 'a" where
  "nega_mul n A B k = (\<Sum>i<n. A i * (if i \<le> k then B (k - i) else - B (n + k - i)))"

definition node_mod :: "(nat \<Rightarrow> 'a :: comm_ring_1) \<Rightarrow> nat \<Rightarrow> 'a" where
  "node_mod zeta k =
     (if k = 1 then - 1 else if even k then zeta (k div 2) else - zeta (k div 2))"

text \<open>
  \<open>represents zeta c nb L A r\<close>: the vector \<open>r\<close>, cut into \<open>nb\<close> blocks of \<open>L\<close> entries, holds \<open>c\<close> times the
  residues of \<open>A\<close> at the \<open>nb\<close> nodes of that level.
\<close>

definition represents ::
    "(nat \<Rightarrow> 'a :: comm_ring_1) \<Rightarrow> 'a \<Rightarrow> nat \<Rightarrow> nat \<Rightarrow> (nat \<Rightarrow> 'a) \<Rightarrow> (nat \<Rightarrow> 'a) \<Rightarrow> bool" where
  "represents zeta c nb L A r \<longleftrightarrow>
     (\<forall>b<nb. \<forall>j<L. r (b * L + j) = c * residue nb L A (node_mod zeta (nb + b)) j)"

lemma sum_even_odd:
  fixes f :: "nat \<Rightarrow> 'a :: comm_monoid_add"
  shows "(\<Sum>i<2 * n. f i) = (\<Sum>i<n. f (2 * i)) + (\<Sum>i<n. f (Suc (2 * i)))"
  by (induction n) (simp_all add: ac_simps)

lemma residue_split:
  "residue (2 * nb) L A z j = residue nb (2 * L) A (z\<^sup>2) j + z * residue nb (2 * L) A (z\<^sup>2) (L + j)"
proof -
  have "residue (2 * nb) L A z j
      = (\<Sum>i<nb. A (j + L * (2 * i)) * z ^ (2 * i))
        + (\<Sum>i<nb. A (j + L * Suc (2 * i)) * z ^ Suc (2 * i))"
    unfolding residue_def by (rule sum_even_odd)
  also have "(\<Sum>i<nb. A (j + L * (2 * i)) * z ^ (2 * i)) = residue nb (2 * L) A (z\<^sup>2) j"
    unfolding residue_def power_mult by (simp add: ac_simps)
  also have "(\<Sum>i<nb. A (j + L * Suc (2 * i)) * z ^ Suc (2 * i))
      = z * residue nb (2 * L) A (z\<^sup>2) (L + j)"
    unfolding residue_def power_mult power_Suc by (simp add: sum_distrib_left algebra_simps)
  finally show ?thesis .
qed

lemma residue_1: "residue 1 L A g j = A j"
  by (simp add: residue_def)

lemma residue_add: "residue nb L (\<lambda>i. A i + B i) g j = residue nb L A g j + residue nb L B g j"
  by (simp add: residue_def algebra_simps sum.distrib)

lemma residue_diff: "residue nb L (\<lambda>i. A i - B i) g j = residue nb L A g j - residue nb L B g j"
  by (simp add: residue_def algebra_simps sum_subtractf)

lemma residue_scale: "residue nb L (\<lambda>i. c * A i) g j = c * residue nb L A g j"
  by (simp add: residue_def algebra_simps sum_distrib_left)

lemma residue_cong:
  assumes "\<And>i. i < nb * L \<Longrightarrow> A i = B i" and "j < L"
  shows "residue nb L A g j = residue nb L B g j"
proof -
  have "A (j + L * i) = B (j + L * i)" if "i < nb" for i
  proof -
    have "j + L * i < L * Suc i"
      using assms(2) by simp
    also have "\<dots> \<le> L * nb"
      using that by (intro mult_le_mono2) simp
    finally show ?thesis
      by (intro assms(1)) (simp add: mult.commute)
  qed
  then show ?thesis
    by (simp add: residue_def)
qed

lemma represents_root: "represents zeta 1 1 n A A"
  by (simp add: represents_def residue_def)

section \<open>The product formula\<close>

text \<open>
  Against any weight that changes sign after \<open>n\<close> steps, the negacyclic product sums like the plain
  double sum over both factors.
\<close>

lemma nega_mul_inner:
  fixes B \<phi> :: "nat \<Rightarrow> 'a :: comm_ring_1"
  assumes anti: "\<And>k. \<phi> (n + k) = - \<phi> k" and "i \<le> n"
  shows "(\<Sum>k<n. (if i \<le> k then B (k - i) else - B (n + k - i)) * \<phi> k) = (\<Sum>j<n. B j * \<phi> (i + j))"
proof -
  let ?f = "\<lambda>k. (if i \<le> k then B (k - i) else - B (n + k - i)) * \<phi> k"
  have "(\<Sum>k<n. ?f k) = (\<Sum>k<i. ?f k) + (\<Sum>k=i..<n. ?f k)"
    unfolding lessThan_atLeast0
    by (rule sum.atLeastLessThan_concat [symmetric]) (use \<open>i \<le> n\<close> in auto)
  also have "(\<Sum>k<i. ?f k) = (\<Sum>j=n-i..<n. B j * \<phi> (i + j))"
  proof (rule sum.reindex_bij_witness [of _ "\<lambda>j. i + j - n" "\<lambda>k. n + k - i"])
    fix k assume k: "k \<in> {..<i}"
    then have "i + (n + k - i) = n + k"
      using \<open>i \<le> n\<close> by simp
    with k show "B (n + k - i) * \<phi> (i + (n + k - i)) = ?f k"
      by (simp add: anti)
  qed (use \<open>i \<le> n\<close> in auto)
  also have "(\<Sum>k=i..<n. ?f k) = (\<Sum>j<n-i. B j * \<phi> (i + j))"
    by (rule sum.reindex_bij_witness [of _ "\<lambda>j. i + j" "\<lambda>k. k - i"]) auto
  also have "(\<Sum>j=n-i..<n. B j * \<phi> (i + j)) + (\<Sum>j<n-i. B j * \<phi> (i + j))
      = (\<Sum>j<n. B j * \<phi> (i + j))"
    unfolding lessThan_atLeast0 add.commute [of "sum _ {n - i..<n}"]
    by (rule sum.atLeastLessThan_concat) auto
  finally show ?thesis .
qed

lemma nega_mul_weighted:
  fixes A B \<phi> :: "nat \<Rightarrow> 'a :: comm_ring_1"
  assumes anti: "\<And>k. \<phi> (n + k) = - \<phi> k"
  shows "(\<Sum>k<n. nega_mul n A B k * \<phi> k) = (\<Sum>i<n. \<Sum>j<n. A i * B j * \<phi> (i + j))"
proof -
  let ?w = "\<lambda>i k. (if i \<le> k then B (k - i) else - B (n + k - i)) * \<phi> k"
  have "(\<Sum>k<n. nega_mul n A B k * \<phi> k) = (\<Sum>k<n. \<Sum>i<n. A i * ?w i k)"
    by (simp add: nega_mul_def sum_distrib_right mult.assoc)
  also have "\<dots> = (\<Sum>i<n. A i * (\<Sum>k<n. ?w i k))"
    by (subst sum.swap) (simp add: sum_distrib_left)
  also have "\<dots> = (\<Sum>i<n. A i * (\<Sum>j<n. B j * \<phi> (i + j)))"
    by (intro sum.cong refl arg_cong2 [where f = times] nega_mul_inner anti) simp
  finally show ?thesis
    by (simp add: sum_distrib_left mult.assoc)
qed

text \<open>The two coefficients of a residue modulo \<open>X^2 - g\<close>, as weighted sums.\<close>

definition even_weight :: "'a :: comm_ring_1 \<Rightarrow> nat \<Rightarrow> 'a" where
  "even_weight g k = (if even k then g ^ (k div 2) else 0)"

definition odd_weight :: "'a :: comm_ring_1 \<Rightarrow> nat \<Rightarrow> 'a" where
  "odd_weight g k = (if odd k then g ^ (k div 2) else 0)"

lemma residue_weight:
  "residue N 2 A g 0 = (\<Sum>k<2 * N. A k * even_weight g k)"
  "residue N 2 A g 1 = (\<Sum>k<2 * N. A k * odd_weight g k)"
  by (simp_all add: residue_def sum_even_odd even_weight_def odd_weight_def)

lemma weight_anti:
  assumes "g ^ N = (- 1 :: 'a :: comm_ring_1)"
  shows "even_weight g (2 * N + k) = - even_weight g k"
    and "odd_weight g (2 * N + k) = - odd_weight g k"
  using assms by (simp_all add: even_weight_def odd_weight_def power_add)

lemma weight_add:
  "even_weight g (i + j) = even_weight g i * even_weight g j + g * (odd_weight g i * odd_weight g j)"
  "odd_weight g (i + j) = even_weight g i * odd_weight g j + odd_weight g i * even_weight g j"
  by (auto simp: even_weight_def odd_weight_def power_add elim!: evenE oddE)

lemma sum_sum_weights:
  fixes A B u v :: "nat \<Rightarrow> 'a :: comm_ring_1"
  shows "(\<Sum>i<n. \<Sum>j<n. A i * B j * (u i * v j)) = (\<Sum>i<n. A i * u i) * (\<Sum>j<n. B j * v j)"
  by (simp add: sum_product algebra_simps)

text \<open>Modulo \<open>X^2 - g\<close> with \<open>g^N = -1\<close>, the negacyclic product is the product of the residues.\<close>

lemma residue_nega_mul:
  fixes A B :: "nat \<Rightarrow> 'a :: comm_ring_1"
  assumes "g ^ N = (- 1 :: 'a)"
  defines "P \<equiv> nega_mul (2 * N) A B"
  shows "residue N 2 P g 0 = residue N 2 A g 0 * residue N 2 B g 0
           + g * (residue N 2 A g 1 * residue N 2 B g 1)"
    and "residue N 2 P g 1 = residue N 2 A g 0 * residue N 2 B g 1
           + residue N 2 A g 1 * residue N 2 B g 0"
proof -
  let ?n = "2 * N" and ?e = "even_weight g" and ?d = "odd_weight g"
  have "residue N 2 P g 0 = (\<Sum>i<?n. \<Sum>j<?n. A i * B j * ?e (i + j))"
    unfolding residue_weight P_def by (intro nega_mul_weighted weight_anti assms)
  also have "\<dots> = (\<Sum>i<?n. \<Sum>j<?n. A i * B j * (?e i * ?e j))
      + g * (\<Sum>i<?n. \<Sum>j<?n. A i * B j * (?d i * ?d j))"
    by (simp add: weight_add ring_distribs sum.distrib sum_distrib_left algebra_simps)
  finally show "residue N 2 P g 0 = residue N 2 A g 0 * residue N 2 B g 0
           + g * (residue N 2 A g 1 * residue N 2 B g 1)"
    by (simp only: sum_sum_weights residue_weight)
  have "residue N 2 P g 1 = (\<Sum>i<?n. \<Sum>j<?n. A i * B j * ?d (i + j))"
    unfolding residue_weight P_def by (intro nega_mul_weighted weight_anti assms)
  also have "\<dots> = (\<Sum>i<?n. \<Sum>j<?n. A i * B j * (?e i * ?d j))
      + (\<Sum>i<?n. \<Sum>j<?n. A i * B j * (?d i * ?e j))"
    by (simp add: weight_add ring_distribs sum.distrib)
  finally show "residue N 2 P g 1 = residue N 2 A g 0 * residue N 2 B g 1
           + residue N 2 A g 1 * residue N 2 B g 0"
    by (simp only: sum_sum_weights residue_weight)
qed

section \<open>The tree of twiddle factors\<close>

text \<open>
  The contract of a twiddle table with \<open>N\<close> entries: entry \<open>k\<close> is a square root of the modulus of
  node \<open>k\<close>, and the entries of one level are, up to sign, inverse to each other in mirrored order
  (which is the order in which the inverse transform walks the table).
\<close>

locale twiddle_tree =
  fixes zeta :: "nat \<Rightarrow> 'a :: comm_ring_1" and N :: nat
  assumes square: "1 \<le> k \<Longrightarrow> k < N \<Longrightarrow> (zeta k)\<^sup>2 = node_mod zeta k"
    and mirror: "2 ^ l + b < N \<Longrightarrow> b < 2 ^ l \<Longrightarrow> zeta (2 ^ l + b) * zeta (2 * 2 ^ l - 1 - b) = - 1"
begin

lemma node_mod_child:
  assumes "1 \<le> k"
  shows "node_mod zeta (2 * k) = zeta k" and "node_mod zeta (Suc (2 * k)) = - zeta k"
  using assms by (simp_all add: node_mod_def)

lemma node_mod_power:
  assumes "2 ^ l \<le> k" and "k < 2 ^ Suc l" and "k < 2 * N"
  shows "node_mod zeta k ^ 2 ^ l = - 1"
  using assms
proof (induction l arbitrary: k)
  case 0
  then show ?case
    by (simp add: node_mod_def)
next
  case (Suc l)
  let ?h = "k div 2"
  have h: "2 ^ l \<le> ?h" "?h < 2 ^ Suc l" "?h < N"
    using Suc.prems by auto
  moreover have "1 \<le> ?h"
    using h(1) one_le_power [of "2 :: nat" l] by linarith
  ultimately have h: "2 ^ l \<le> ?h" "?h < 2 ^ Suc l" "?h < N" "1 \<le> ?h"
    by simp_all
  then have "node_mod zeta ?h ^ 2 ^ l = - 1"
    by (intro Suc.IH) auto
  moreover have "(node_mod zeta k)\<^sup>2 = node_mod zeta ?h"
    using h square [of ?h] by (cases "even k") (auto simp: node_mod_def [of zeta k] elim!: evenE oddE)
  ultimately show ?case
    by (simp add: power_mult)
qed

text \<open>One layer of butterflies moves a vector from a level of the tree to the next.\<close>

lemma forward_layer:
  assumes rep: "represents zeta c nb (2 * len) A r"
    and nb: "1 \<le> nb" "2 * nb \<le> N"
    and lo: "\<And>b j. b < nb \<Longrightarrow> j < len \<Longrightarrow> r' (b * (2 * len) + j)
        = r (b * (2 * len) + j) + zeta (nb + b) * r (b * (2 * len) + (len + j))"
    and hi: "\<And>b j. b < nb \<Longrightarrow> j < len \<Longrightarrow> r' (b * (2 * len) + (len + j))
        = r (b * (2 * len) + j) - zeta (nb + b) * r (b * (2 * len) + (len + j))"
  shows "represents zeta c (2 * nb) len A r'"
  unfolding represents_def
proof (intro allI impI)
  fix b' j assume b': "b' < 2 * nb" and j: "j < len"
  define b where "b = b' div 2"
  have b: "b < nb"
    using b' by (simp add: b_def less_mult_imp_div_less mult.commute)
  let ?z = "zeta (nb + b)" and ?g = "node_mod zeta (nb + b)"
  have k: "1 \<le> nb + b"
    using nb by simp
  have sq: "?z\<^sup>2 = ?g" "(- ?z)\<^sup>2 = ?g"
    using nb b square [of "nb + b"] by simp_all
  have r0: "r (b * (2 * len) + j) = c * residue nb (2 * len) A ?g j"
    and r1: "r (b * (2 * len) + (len + j)) = c * residue nb (2 * len) A ?g (len + j)"
    using rep b j unfolding represents_def by auto
  show "r' (b' * len + j) = c * residue (2 * nb) len A (node_mod zeta (2 * nb + b')) j"
  proof (cases "even b'")
    case True
    then have e: "b' * len + j = b * (2 * len) + j" "2 * nb + b' = 2 * (nb + b)"
      by (auto simp: b_def elim!: evenE)
    show ?thesis
      unfolding e lo [OF b j] r0 r1 node_mod_child [OF k] residue_split sq
      by (simp add: algebra_simps)
  next
    case False
    then have e: "b' * len + j = b * (2 * len) + (len + j)" "2 * nb + b' = Suc (2 * (nb + b))"
      by (auto simp: b_def algebra_simps elim!: oddE)
    show ?thesis
      unfolding e hi [OF b j] r0 r1 node_mod_child [OF k] residue_split sq
      by (simp add: algebra_simps)
  qed
qed

text \<open>The layer of the inverse transform moves it back, at twice the scale.\<close>

lemma inverse_layer:
  assumes rep: "represents zeta c (2 * nb) len A r"
    and nb: "nb = 2 ^ l" "2 * nb \<le> N"
    and lo: "\<And>b j. b < nb \<Longrightarrow> j < len \<Longrightarrow> r' (b * (2 * len) + j)
        = r (b * (2 * len) + j) + r (b * (2 * len) + (len + j))"
    and hi: "\<And>b j. b < nb \<Longrightarrow> j < len \<Longrightarrow> r' (b * (2 * len) + (len + j))
        = zeta (2 * nb - 1 - b) * (r (b * (2 * len) + (len + j)) - r (b * (2 * len) + j))"
  shows "represents zeta (2 * c) nb (2 * len) A r'"
  unfolding represents_def
proof (intro allI impI)
  fix b i assume b: "b < nb" and i: "i < 2 * len"
  let ?z = "zeta (nb + b)" and ?g = "node_mod zeta (nb + b)"
  have k: "1 \<le> nb + b" "nb + b < N"
    using nb b by (simp_all add: Suc_leI)
  have sq: "?z\<^sup>2 = ?g" "(- ?z)\<^sup>2 = ?g"
    using k square [of "nb + b"] by simp_all
  have inv: "?z * zeta (2 * nb - 1 - b) = - 1"
    using mirror [of l b] nb b k by simp
  have child: "r (b * (2 * len) + j) = c * residue nb (2 * len) A ?g j
        + c * (?z * residue nb (2 * len) A ?g (len + j))"
      "r (b * (2 * len) + (len + j)) = c * residue nb (2 * len) A ?g j
        - c * (?z * residue nb (2 * len) A ?g (len + j))" if j: "j < len" for j
  proof -
    have "r (2 * b * len + j) = c * residue (2 * nb) len A (node_mod zeta (2 * (nb + b))) j"
      "r (Suc (2 * b) * len + j) = c * residue (2 * nb) len A (node_mod zeta (Suc (2 * (nb + b)))) j"
      using rep b j unfolding represents_def by (auto simp del: mult_Suc)
    then show "r (b * (2 * len) + j) = c * residue nb (2 * len) A ?g j
        + c * (?z * residue nb (2 * len) A ?g (len + j))"
      "r (b * (2 * len) + (len + j)) = c * residue nb (2 * len) A ?g j
        - c * (?z * residue nb (2 * len) A ?g (len + j))"
      unfolding node_mod_child [OF k(1)] residue_split sq by (simp_all add: algebra_simps)
  qed
  show "r' (b * (2 * len) + i) = 2 * c * residue nb (2 * len) A ?g i"
  proof (cases "i < len")
    case True
    then show ?thesis
      unfolding lo [OF b True] child [OF True] by (simp add: algebra_simps)
  next
    case False
    define j where "j = i - len"
    have j: "j < len" and ij: "i = len + j"
      using False i by (simp_all add: j_def)
    let ?R = "residue nb (2 * len) A ?g (len + j)"
    have "r' (b * (2 * len) + i) = zeta (2 * nb - 1 - b) * (- (2 * c * (?z * ?R)))"
      unfolding ij hi [OF b j] child [OF j] by (simp add: algebra_simps)
    also have "\<dots> = - (?z * zeta (2 * nb - 1 - b)) * (2 * c * ?R)"
      by (simp add: algebra_simps)
    also have "\<dots> = 2 * c * ?R"
      unfolding inv by simp
    finally show ?thesis
      by (simp only: ij)
  qed
qed

text \<open>Where 2 is invertible, every vector represents some polynomial at every level of the tree.\<close>

lemma represents_exists:
  assumes half: "2 * h = (1 :: 'a)" and N: "2 ^ l \<le> N"
  shows "\<exists>A. represents zeta 1 (2 ^ l) L A R"
  using N
proof (induction l arbitrary: L R)
  case 0
  show ?case
    using represents_root [of zeta L R] by auto
next
  case (Suc l)
  let ?n = "2 ^ l :: nat"
  define w where "w b = - zeta (2 * ?n - 1 - b)" for b
  define R' where "R' i = (let b = i div (2 * L); o' = i mod (2 * L) in
      if o' < L then h * (R (b * (2 * L) + o') + R (b * (2 * L) + (L + o')))
      else h * (w b * (R (b * (2 * L) + (o' - L)) - R (b * (2 * L) + o'))))" for i
  obtain A where A: "represents zeta 1 ?n (2 * L) A R'"
    using Suc.IH Suc.prems by fastforce
  have split: "R' (b * (2 * L) + j) = h * (R (b * (2 * L) + j) + R (b * (2 * L) + (L + j)))"
    "R' (b * (2 * L) + (L + j)) = h * (w b * (R (b * (2 * L) + j) - R (b * (2 * L) + (L + j))))"
    if "j < L" for b j
    using that by (simp_all add: R'_def Let_def div_mult_self3 mult.commute)
  have inv: "zeta (?n + b) * w b = 1" if "b < ?n" for b
    using mirror [of l b] that Suc.prems by (simp add: w_def)
  have lo: "h * (x + y) + zeta (?n + b) * (h * (w b * (x - y))) = x"
    and hi: "h * (x + y) - zeta (?n + b) * (h * (w b * (x - y))) = y" if "b < ?n" for b x y
  proof -
    have e: "zeta (?n + b) * (h * (w b * (x - y))) = zeta (?n + b) * w b * (h * (x - y))"
      by (simp only: ac_simps)
    have "h * (x + y) + h * (x - y) = 2 * h * x" "h * (x + y) - h * (x - y) = 2 * h * y"
      by (simp_all add: algebra_simps)
    then show "h * (x + y) + zeta (?n + b) * (h * (w b * (x - y))) = x"
      "h * (x + y) - zeta (?n + b) * (h * (w b * (x - y))) = y"
      unfolding e inv [OF that] half by simp_all
  qed
  have "represents zeta 1 (2 * ?n) L A R"
    using A by (rule forward_layer) (use Suc.prems in \<open>simp_all add: split lo hi\<close>)
  then show ?case
    by auto
qed

end

end
