(* ===== verification/NTT.thy ===== *)
theory NTT
  imports Reduce NTT_Theory
begin

text \<open>
  The number-theoretic transform of \<open>native/mlkem/pqclean-ml-kem-768/ntt.c\<close>: the table \<open>zetas\<close>, the
  in-place loops \<open>ntt\<close> and \<open>invntt\<close> on \<open>int16_t[256]\<close>, and \<open>basemul\<close>. The table is shown to meet the
  contract \<open>twiddle_tree\<close>, no butterfly leaves the \<open>int16_t\<close> range, and the loops compute the
  transform of FIPS 203 (section 4.3) and its inverse.
\<close>

section \<open>Definitions\<close>

definition zetas :: "i16 list" where
  "zetas = [
    - 1044,  - 758,  - 359, - 1517,  1493,  1422,   287,   202,
    - 171,   622,  1577,   182,   962, - 1202, - 1474,  1468,
    573, - 1325,   264,   383,  - 829,  1458, - 1602,  - 130,
    - 681,  1017,   732,   608, - 1542,   411,  - 205, - 1571,
    1223,   652,  - 552,  1015, - 1293,  1491,  - 282, - 1544,
    516,    - 8,  - 320,  - 666, - 1618, - 1162,   126,  1469,
    - 853,   - 90,  - 271,   830,   107, - 1421,  - 247,  - 951,
    - 398,   961, - 1508,  - 725,   448, - 1065,   677, - 1275,
    - 1103,   430,   555,   843, - 1251,   871,  1550,   105,
    422,   587,   177,  - 235,  - 291,  - 460,  1574,  1653,
    - 246,   778,  1159,  - 147,  - 777,  1483,  - 602,  1119,
    - 1590,   644,  - 872,   349,   418,   329,  - 156,   - 75,
    817,  1097,   603,   610,  1322, - 1285, - 1465,   384,
    - 1215,  - 136,  1218, - 1335,  - 874,   220, - 1187, - 1659,
    - 1185, - 1530, - 1278,   794, - 1510,  - 854,  - 870,   478,
    - 108,  - 308,   996,   991,   958, - 1460,  1522,  1628]"

definition fqmul :: "i16 \<Rightarrow> i16 \<Rightarrow> i16" where
  "fqmul a b = montgomery_reduce (promote16 a * promote16 b)"

text \<open>The body of the innermost loop of \<open>ntt\<close>.\<close>

definition ntt_step :: "i16 \<Rightarrow> nat \<Rightarrow> nat \<Rightarrow> i16 list \<Rightarrow> i16 list" where
  "ntt_step zeta len j r =
     (let t = fqmul zeta (r ! (j + len));
          r = r[j + len := r ! j - t]
      in r[j := r ! j + t])"

text \<open>
  The middle loop \<open>for (start = 0; start < 256; start = j + len)\<close>, with \<open>j = start + len\<close> on exit of
  the inner loop. The callers pass \<open>len \<ge> 2\<close>; the conjunct \<open>0 < len\<close> only keeps the recursion well
  founded.
\<close>

function ntt_blocks :: "nat \<Rightarrow> nat \<Rightarrow> nat \<Rightarrow> i16 list \<Rightarrow> nat \<times> i16 list" where
  "ntt_blocks len start k r =
     (if start < 256 \<and> 0 < len
      then ntt_blocks len (start + len + len) (k + 1)
             (fold (ntt_step (zetas ! k) len) [start..<start + len] r)
      else (k, r))"
  by pat_completeness auto
termination
  by (relation "measure (\<lambda>(len, start, k, r). 256 - start)") auto

declare ntt_blocks.simps [simp del]

fun ntt_layers :: "nat \<Rightarrow> nat \<Rightarrow> i16 list \<Rightarrow> i16 list" where
  "ntt_layers len k r =
     (if 2 \<le> len then case ntt_blocks len 0 k r of (k, r) \<Rightarrow> ntt_layers (len div 2) k r else r)"

declare ntt_layers.simps [simp del]

definition ntt :: "i16 list \<Rightarrow> i16 list" where
  "ntt r = ntt_layers 128 1 r"

text \<open>The body of the innermost loop of \<open>invntt\<close>.\<close>

definition invntt_step :: "i16 \<Rightarrow> nat \<Rightarrow> nat \<Rightarrow> i16 list \<Rightarrow> i16 list" where
  "invntt_step zeta len j r =
     (let t = r ! j;
          r = r[j := barrett_reduce (t + r ! (j + len))];
          r = r[j + len := r ! (j + len) - t]
      in r[j + len := fqmul zeta (r ! (j + len))])"

function invntt_blocks :: "nat \<Rightarrow> nat \<Rightarrow> nat \<Rightarrow> i16 list \<Rightarrow> nat \<times> i16 list" where
  "invntt_blocks len start k r =
     (if start < 256 \<and> 0 < len
      then invntt_blocks len (start + len + len) (k - 1)
             (fold (invntt_step (zetas ! k) len) [start..<start + len] r)
      else (k, r))"
  by pat_completeness auto
termination
  by (relation "measure (\<lambda>(len, start, k, r). 256 - start)") auto

declare invntt_blocks.simps [simp del]

text \<open>
  The outer loop \<open>for (len = 2; len <= 128; len <<= 1)\<close>; \<open>0 < len\<close> again only serves termination.
\<close>

function invntt_layers :: "nat \<Rightarrow> nat \<Rightarrow> i16 list \<Rightarrow> i16 list" where
  "invntt_layers len k r =
     (if len \<le> 128 \<and> 0 < len
      then case invntt_blocks len 0 k r of (k, r) \<Rightarrow> invntt_layers (2 * len) k r else r)"
  by pat_completeness auto
termination
  by (relation "measure (\<lambda>(len, k, r). 129 - len)") auto

declare invntt_layers.simps [simp del]

definition invntt :: "i16 list \<Rightarrow> i16 list" where
  "invntt r =
     (let r = invntt_layers 2 127 r
      in fold (\<lambda>j r. r[j := fqmul (r ! j) 1441]) [0..<256] r)"

definition basemul :: "i16 list \<Rightarrow> i16 list \<Rightarrow> i16 \<Rightarrow> i16 list" where
  "basemul a b zeta =
     (let r0 = fqmul (a ! 1) (b ! 1);
          r0 = fqmul r0 zeta;
          r0 = r0 + fqmul (a ! 0) (b ! 0);
          r1 = fqmul (a ! 0) (b ! 1);
          r1 = r1 + fqmul (a ! 1) (b ! 0)
      in [r0, r1])"

section \<open>Montgomery multiplication\<close>

lemma fqmul_domain:
  assumes "\<bar>sint a * sint b\<bar> < 3329 * 2 ^ 15"
  shows "- 3329 * 2 ^ 15 \<le> sint (promote16 a * promote16 b)"
    and "sint (promote16 a * promote16 b) < 3329 * 2 ^ 15"
  using assms by (simp_all add: sint_mult_i16 abs_less_iff)

lemma fqmul_domain_small:
  assumes "\<bar>sint a\<bar> \<le> 3328"
  shows "\<bar>sint a * sint (b :: i16)\<bar> < 3329 * 2 ^ 15"
proof -
  have "\<bar>sint b\<bar> \<le> 32768"
    using sint_i16_range [of b] by linarith
  with assms have "\<bar>sint a * sint b\<bar> \<le> 3328 * 32768"
    by (rule abs_mult_i16_le)
  then show ?thesis
    by simp
qed

lemma fqmul_bound: "\<bar>sint a * sint b\<bar> < 3329 * 2 ^ 15 \<Longrightarrow> \<bar>sint (fqmul a b)\<bar> \<le> 3328"
  using montgomery_reduce_correct(2) [OF fqmul_domain] by (fastforce simp: fqmul_def)

lemma zq_of_fqmul:
  assumes "\<bar>sint a * sint b\<bar> < 3329 * 2 ^ 15"
  shows "zq_of (fqmul a b) = zq_of a * zq_of b * 169"
  using zq_of_montgomery_reduce [OF fqmul_domain [OF assms]]
  by (simp add: fqmul_def sint_mult_i16 zq_of_def)

section \<open>The table of twiddle factors\<close>

definition zeta_at :: "nat \<Rightarrow> zq" where
  "zeta_at k = zq_of (zetas ! k) * 169"

lemma length_zetas [simp]: "length zetas = 128"
  by (simp add: zetas_def)

lemma zetas_bound: "k < 128 \<Longrightarrow> \<bar>sint (zetas ! k)\<bar> \<le> 1659"
proof -
  have "list_all (\<lambda>z. \<bar>sint z\<bar> \<le> 1659) zetas"
    by code_simp
  then show "k < 128 \<Longrightarrow> \<bar>sint (zetas ! k)\<bar> \<le> 1659"
    by (simp add: list_all_length)
qed

text \<open>
  Entry \<open>k\<close> is \<open>17\<close> to the 7-bit reversal of \<open>k\<close>, in Montgomery form. \<open>BitRev7\<close> is the reversal of
  FIPS 203.
\<close>

definition BitRev7 :: "nat \<Rightarrow> nat" where
  "BitRev7 k = foldl (\<lambda>acc i. 2 * acc + k div 2 ^ i mod 2) 0 [0..<7]"

lemma sint_zetas:
  "map sint zetas = [
    - 1044,  - 758,  - 359, - 1517,  1493,  1422,   287,   202,
    - 171,   622,  1577,   182,   962, - 1202, - 1474,  1468,
    573, - 1325,   264,   383,  - 829,  1458, - 1602,  - 130,
    - 681,  1017,   732,   608, - 1542,   411,  - 205, - 1571,
    1223,   652,  - 552,  1015, - 1293,  1491,  - 282, - 1544,
    516,    - 8,  - 320,  - 666, - 1618, - 1162,   126,  1469,
    - 853,   - 90,  - 271,   830,   107, - 1421,  - 247,  - 951,
    - 398,   961, - 1508,  - 725,   448, - 1065,   677, - 1275,
    - 1103,   430,   555,   843, - 1251,   871,  1550,   105,
    422,   587,   177,  - 235,  - 291,  - 460,  1574,  1653,
    - 246,   778,  1159,  - 147,  - 777,  1483,  - 602,  1119,
    - 1590,   644,  - 872,   349,   418,   329,  - 156,   - 75,
    817,  1097,   603,   610,  1322, - 1285, - 1465,   384,
    - 1215,  - 136,  1218, - 1335,  - 874,   220, - 1187, - 1659,
    - 1185, - 1530, - 1278,   794, - 1510,  - 854,  - 870,   478,
    - 108,  - 308,   996,   991,   958, - 1460,  1522,  1628]"
  by (simp add: zetas_def)

lemma BitRev7_eq:
  "BitRev7 k = 64 * (k mod 2) + 32 * (k div 2 mod 2) + 16 * (k div 4 mod 2) + 8 * (k div 8 mod 2)
     + 4 * (k div 16 mod 2) + 2 * (k div 32 mod 2) + k div 64 mod 2"
  by (simp add: BitRev7_def upt_rec)

lemma upt_0_128:
  "[0..<128] = [
    0, 1, 2, 3, 4, 5, 6, 7, 8, 9, 10, 11, 12, 13, 14, 15, 16, 17, 18, 19, 20, 21, 22, 23, 24,
    25, 26, 27, 28, 29, 30, 31, 32, 33, 34, 35, 36, 37, 38, 39, 40, 41, 42, 43, 44, 45, 46,
    47, 48, 49, 50, 51, 52, 53, 54, 55, 56, 57, 58, 59, 60, 61, 62, 63, 64, 65, 66, 67, 68,
    69, 70, 71, 72, 73, 74, 75, 76, 77, 78, 79, 80, 81, 82, 83, 84, 85, 86, 87, 88, 89, 90,
    91, 92, 93, 94, 95, 96, 97, 98, 99, 100, 101, 102, 103, 104, 105, 106, 107, 108, 109, 110,
    111, 112, 113, 114, 115, 116, 117, 118, 119, 120, 121, 122, 123, 124, 125, 126, 127]"
  by (simp add: upt_rec)

lemma BitRev7_involution: "list_all (\<lambda>k. BitRev7 (BitRev7 k) = k) [0..<128]"
  by (simp add: upt_rec, simp add: BitRev7_eq)

lemma BitRev7_double:
  "list_all (\<lambda>k. 2 * BitRev7 k = BitRev7 (k div 2) + (if even k then 0 else 128)) [2..<128]"
  by (simp add: upt_rec, simp add: BitRev7_eq)

lemma BitRev7_mirror:
  "list_all (\<lambda>l. list_all (\<lambda>b. BitRev7 (2 ^ l + b) + BitRev7 (2 * 2 ^ l - 1 - b) = 128) [0..<2 ^ l])
     [0..<7]"
  by (simp add: upt_rec, simp add: BitRev7_eq)

text \<open>Stepping through the table in bit-reversed order multiplies by 17.\<close>

lemma sint_zetas_nth:
  "map (\<lambda>k. sint (zetas ! k)) [0..<128] = map sint zetas"
proof -
  have "map (\<lambda>k. sint (zetas ! k)) [0..<128] = map sint (map ((!) zetas) [0..<length zetas])"
    by simp
  then show ?thesis
    by (simp only: map_nth)
qed

lemmas zetas_values = sint_zetas_nth [unfolded sint_zetas upt_0_128 list.map list.inject]

lemma zetas_values_Suc:
  "sint (zetas ! Suc 0) = - 758" "sint (zetas ! Suc (Suc 0)) = - 359"
  "sint (zetas ! Suc (Suc (Suc 0))) = - 1517"
  by (simp_all add: zetas_def)

lemma zetas_step:
  "list_all (\<lambda>i. sint (zetas ! BitRev7 (Suc i)) mod 3329 = 17 * sint (zetas ! BitRev7 i) mod 3329)
     [0..<127]"
  by (simp add: upt_rec, simp add: BitRev7_eq zetas_values zetas_values_Suc)

lemma zeta_at_power_rev: "i < 128 \<Longrightarrow> zeta_at (BitRev7 i) = 17 ^ i"
proof (induction i)
  case 0
  have "zq_of (zetas ! 0) * 169 = 1"
    by (simp add: zetas_def zq_of_def)
  then show ?case
    by (simp add: zeta_at_def BitRev7_eq)
next
  case (Suc i)
  then have "sint (zetas ! BitRev7 (Suc i)) mod 3329 = 17 * sint (zetas ! BitRev7 i) mod 3329"
    by (intro bspec [OF zetas_step [unfolded list_all_iff set_upt]]) simp
  then have "zq_of (zetas ! BitRev7 (Suc i)) = 17 * zq_of (zetas ! BitRev7 i)"
    by (simp add: zq_of_def flip: of_int_zq_eq_iff)
  then show ?case
    using Suc by (simp add: zeta_at_def mult.assoc)
qed

lemma zeta_at_power: "k < 128 \<Longrightarrow> zeta_at k = 17 ^ BitRev7 k"
proof -
  assume k: "k < 128"
  have "n mod 2 \<le> 1" for n :: nat
    by linarith
  from this [of k] this [of "k div 2"] this [of "k div 4"] this [of "k div 8"] this [of "k div 16"]
    this [of "k div 32"] this [of "k div 64"]
  have "BitRev7 k < 128"
    unfolding BitRev7_eq by linarith
  then have "zeta_at (BitRev7 (BitRev7 k)) = 17 ^ BitRev7 k"
    by (rule zeta_at_power_rev)
  moreover have "BitRev7 (BitRev7 k) = k"
    using k by (intro bspec [OF BitRev7_involution [unfolded list_all_iff set_upt]]) simp
  ultimately show ?thesis
    by (simp only:)
qed

lemma zq_17_128: "(17 :: zq) ^ 128 = - 1"
proof -
  have "(17 :: zq) ^ 16 = 2642" and "(2642 :: zq) ^ 8 = - 1"
    by simp_all
  moreover have "(17 :: zq) ^ 128 = (17 ^ 16) ^ 8"
    by (simp only: power_mult [symmetric]) simp
  ultimately show ?thesis
    by (simp only:)
qed

text \<open>The contract of \<open>NTT_Theory\<close> holds for the table of the source.\<close>

interpretation zt: twiddle_tree zeta_at 128
proof
  fix k :: nat assume k: "1 \<le> k" "k < 128"
  have sq: "(zeta_at k)\<^sup>2 = 17 ^ (2 * BitRev7 k)"
    using k by (simp add: zeta_at_power power_mult [symmetric] mult.commute)
  show "(zeta_at k)\<^sup>2 = node_mod zeta_at k"
  proof (cases "k = 1")
    case True
    moreover have "2 * BitRev7 1 = 128"
      by (simp add: BitRev7_eq)
    ultimately show ?thesis
      using sq zq_17_128 by (simp only: node_mod_def if_True refl)
  next
    case False
    then have e: "2 * BitRev7 k = BitRev7 (k div 2) + (if even k then 0 else 128)"
      using k by (intro bspec [OF BitRev7_double [unfolded list_all_iff set_upt]]) simp
    have h: "zeta_at (k div 2) = 17 ^ BitRev7 (k div 2)"
      using k by (intro zeta_at_power) simp
    show ?thesis
      unfolding sq e using False
      by (cases "even k") (simp_all only: node_mod_def h power_add zq_17_128 if_True if_False
          mult_1_right power_0 mult_minus_right)
  qed
next
  fix l b :: nat assume lb: "2 ^ l + b < 128" "b < 2 ^ l"
  then have "l < 7"
    using power_less_imp_less_exp [of "2 :: nat" l 7] by simp
  with lb have e: "BitRev7 (2 ^ l + b) + BitRev7 (2 * 2 ^ l - 1 - b) = 128"
    by (intro bspec [OF bspec [OF BitRev7_mirror [unfolded list_all_iff set_upt]]]) simp_all
  have "2 * 2 ^ l - 1 - b < (128 :: nat)"
    using power_increasing [of "Suc l" 7 "2 :: nat"] \<open>l < 7\<close> by simp
  then have "zeta_at (2 ^ l + b) * zeta_at (2 * 2 ^ l - 1 - b)
      = 17 ^ (BitRev7 (2 ^ l + b) + BitRev7 (2 * 2 ^ l - 1 - b))"
    using lb(1) by (simp only: zeta_at_power power_add)
  then show "zeta_at (2 ^ l + b) * zeta_at (2 * 2 ^ l - 1 - b) = - 1"
    unfolding e zq_17_128 .
qed

section \<open>From the loops to layers of butterflies\<close>

definition fwd_lo :: "nat \<Rightarrow> nat \<Rightarrow> i16 \<Rightarrow> i16 \<Rightarrow> i16" where
  "fwd_lo k b x y = x + fqmul (zetas ! (k + b)) y"

definition fwd_hi :: "nat \<Rightarrow> nat \<Rightarrow> i16 \<Rightarrow> i16 \<Rightarrow> i16" where
  "fwd_hi k b x y = x - fqmul (zetas ! (k + b)) y"

lemma ntt_step_butterfly:
  assumes "0 < len" and "j + len < length r"
  shows "ntt_step (zetas ! (k + b)) len j r = butterfly (fwd_lo k b) (fwd_hi k b) len j r"
  using assms by (simp add: ntt_step_def butterfly_def fwd_lo_def fwd_hi_def Let_def)

lemma fold_butterfly_loop:
  assumes step: "\<And>j r'. length r' = length r \<Longrightarrow> j + len < length r \<Longrightarrow> s j r' = butterfly f g len j r'"
    and "start + m + len \<le> length r"
  shows "fold s [start..<start + m] r = butterfly_loop f g len start m r"
  using assms(2)
proof (induction m)
  case 0
  then show ?case
    by (simp add: butterfly_loop_def)
next
  case (Suc m)
  then show ?case
    by (simp add: step butterfly_loop_def [of _ _ _ _ "Suc m"] flip: butterfly_loop_def)
qed

lemma ntt_blocks_block_loop:
  assumes "nb * (2 * len) = 256" and "b \<le> nb" and "length r = 256"
  shows "ntt_blocks len (b * (2 * len)) (k + b) (block_loop (fwd_lo k) (fwd_hi k) len b r)
           = (k + nb, block_loop (fwd_lo k) (fwd_hi k) len nb r)"
  using \<open>b \<le> nb\<close>
proof (induction b rule: inc_induct)
  case base
  then show ?case
    using assms by (simp add: ntt_blocks.simps)
next
  case (step b)
  let ?r = "block_loop (fwd_lo k) (fwd_hi k) len b r"
  have "0 < len"
    using assms(1) by (cases len) auto
  have "Suc b * (2 * len) \<le> nb * (2 * len)"
    using step.hyps by (intro mult_le_mono1) simp
  then have le: "b * (2 * len) + len + len \<le> 256"
    using assms(1) by simp
  have "fold (ntt_step (zetas ! (k + b)) len) [b * (2 * len)..<b * (2 * len) + len] ?r
      = butterfly_loop (fwd_lo k b) (fwd_hi k b) len (b * (2 * len)) len ?r"
    using \<open>0 < len\<close> le assms(3) by (intro fold_butterfly_loop) (simp_all add: ntt_step_butterfly)
  also have "\<dots> = block_loop (fwd_lo k) (fwd_hi k) len (Suc b) r"
    by (rule block_loop_Suc [symmetric])
  finally show ?case
    using step.IH \<open>0 < len\<close> le by (subst ntt_blocks.simps) (simp add: algebra_simps)
qed

lemma blocks_256:
  assumes "nb * (2 * len) = (256 :: nat)"
  shows "0 < len" and "1 \<le> nb" and "128 div len = nb"
proof -
  have e: "nb * len = 128"
    using assms by (simp add: mult.commute)
  show "0 < len"
    using e by (cases "len = 0") auto
  then have "nb * len div len = nb"
    by simp
  show "1 \<le> nb"
    using e by (cases "nb = 0") auto
  show "128 div len = nb"
    using \<open>nb * len div len = nb\<close> by (simp only: e)
qed

definition ntt_layer :: "nat \<Rightarrow> i16 list \<Rightarrow> i16 list" where
  "ntt_layer len r = block_loop (fwd_lo (128 div len)) (fwd_hi (128 div len)) len (128 div len) r"

lemma length_ntt_layer [simp]: "length (ntt_layer len r) = length r"
  by (simp add: ntt_layer_def)

lemma ntt_layers_unfold:
  assumes "2 \<le> len" and "k * (2 * len) = 256" and "length r = 256"
  shows "ntt_layers len k r = ntt_layers (len div 2) (2 * k) (ntt_layer len r)"
proof -
  show ?thesis
    using assms blocks_256(3) [OF assms(2)] ntt_blocks_block_loop [of k len 0 r k]
    by (subst ntt_layers.simps) (simp add: ntt_layer_def block_loop_def mult_2)
qed

lemma ntt_eq_layers:
  assumes "length r = 256"
  shows "ntt r = fold ntt_layer [128, 64, 32, 16, 8, 4, 2] r"
  using assms by (simp add: ntt_def ntt_layers_unfold ntt_layers.simps [of "Suc 0"])

section \<open>Correctness of the forward transform\<close>

text \<open>The state after some layers: which polynomial the array represents, and within which bound.\<close>

definition ntt_state :: "zq \<Rightarrow> nat \<Rightarrow> nat \<Rightarrow> (nat \<Rightarrow> zq) \<Rightarrow> int \<Rightarrow> i16 list \<Rightarrow> bool" where
  "ntt_state c nb L A B r \<longleftrightarrow>
     length r = 256 \<and> represents zeta_at c nb L A (\<lambda>i. zq_of (r ! i)) \<and> (\<forall>i<256. \<bar>sint (r ! i)\<bar> \<le> B)"

lemma block_index:
  fixes i :: nat
  assumes "nb * (2 * len) = 256" and "i < 256"
  obtains b j where "b < nb" and "j < len" and "i = b * (2 * len) + j \<or> i = b * (2 * len) + (len + j)"
proof -
  define b o' where "b = i div (2 * len)" and "o' = i mod (2 * len)"
  have "b < nb"
    unfolding b_def using assms(2) unfolding assms(1) [symmetric] by (rule less_mult_imp_div_less)
  moreover have "o' < 2 * len" and "i = b * (2 * len) + o'"
    using blocks_256(1) [OF assms(1)] unfolding b_def o'_def by (simp, intro div_mult_mod_eq [symmetric])
  ultimately have "b < nb" and "o' < 2 * len" and "i = b * (2 * len) + o'"
    by simp_all
  then show ?thesis
    using that [of b o'] that [of b "o' - len"] by (cases "o' < len") auto
qed

lemma fwd_step:
  assumes "k < 128" and "\<bar>sint x\<bar> \<le> B" and "B + 3328 < 32768"
  shows "zq_of (x + fqmul (zetas ! k) y) = zq_of x + zeta_at k * zq_of y"
    and "zq_of (x - fqmul (zetas ! k) y) = zq_of x - zeta_at k * zq_of y"
    and "\<bar>sint (x + fqmul (zetas ! k) y)\<bar> \<le> B + 3328"
    and "\<bar>sint (x - fqmul (zetas ! k) y)\<bar> \<le> B + 3328"
proof -
  have "\<bar>sint (zetas ! k)\<bar> \<le> 3328"
    using zetas_bound [OF assms(1)] by simp
  then have dom: "\<bar>sint (zetas ! k) * sint y\<bar> < 3329 * 2 ^ 15"
    by (rule fqmul_domain_small)
  note t = fqmul_bound [OF dom] zq_of_fqmul [OF dom]
  have ok: "\<bar>sint x\<bar> + \<bar>sint (fqmul (zetas ! k) y)\<bar> < 32768"
    using t(1) assms by linarith
  show "zq_of (x + fqmul (zetas ! k) y) = zq_of x + zeta_at k * zq_of y"
    "zq_of (x - fqmul (zetas ! k) y) = zq_of x - zeta_at k * zq_of y"
    unfolding zq_of_add [OF ok] zq_of_sub [OF ok] t(2) zeta_at_def by (simp_all add: ac_simps)
  show "\<bar>sint (x + fqmul (zetas ! k) y)\<bar> \<le> B + 3328" "\<bar>sint (x - fqmul (zetas ! k) y)\<bar> \<le> B + 3328"
    unfolding sint_add_i16 [OF ok] sint_sub_i16 [OF ok] using t(1) assms(2) by linarith+
qed

lemma ntt_layer_state:
  assumes st: "ntt_state c nb (2 * len) A B r" and nb: "nb * (2 * len) = 256" "2 * nb \<le> 128"
    and B: "B + 3328 < 32768"
  shows "ntt_state c (2 * nb) len A (B + 3328) (ntt_layer len r)"
proof -
  note nb1 = blocks_256(2) [OF nb(1)] and k = blocks_256(3) [OF nb(1)]
  have len: "length r = 256" and bnd: "\<And>i. i < 256 \<Longrightarrow> \<bar>sint (r ! i)\<bar> \<le> B"
    and rep: "represents zeta_at c nb (2 * len) A (\<lambda>i. zq_of (r ! i))"
    using st by (simp_all add: ntt_state_def)
  have nth: "ntt_layer len r ! (b * (2 * len) + j)
        = fwd_lo nb b (r ! (b * (2 * len) + j)) (r ! (b * (2 * len) + (len + j)))"
      "ntt_layer len r ! (b * (2 * len) + (len + j))
        = fwd_hi nb b (r ! (b * (2 * len) + j)) (r ! (b * (2 * len) + (len + j)))"
    if "b < nb" "j < len" for b j
    unfolding ntt_layer_def k by (rule block_loop_nth; simp add: nb len that)+
  have lt: "b * (2 * len) + j < 256" if "b < nb" "j < len" for b j
  proof -
    have "Suc b * (2 * len) \<le> nb * (2 * len)"
      using that by (intro mult_le_mono1) simp
    then show ?thesis
      using that nb by simp
  qed
  have vals: "zq_of (ntt_layer len r ! (b * (2 * len) + j)) = zq_of (r ! (b * (2 * len) + j))
        + zeta_at (nb + b) * zq_of (r ! (b * (2 * len) + (len + j)))"
      "zq_of (ntt_layer len r ! (b * (2 * len) + (len + j))) = zq_of (r ! (b * (2 * len) + j))
        - zeta_at (nb + b) * zq_of (r ! (b * (2 * len) + (len + j)))"
      "\<bar>sint (ntt_layer len r ! (b * (2 * len) + j))\<bar> \<le> B + 3328"
      "\<bar>sint (ntt_layer len r ! (b * (2 * len) + (len + j)))\<bar> \<le> B + 3328"
    if "b < nb" "j < len" for b j
    unfolding nth [OF that] fwd_lo_def fwd_hi_def
    by (rule fwd_step [OF _ bnd [OF lt [OF that]] B]; use nb that in simp)+
  have "represents zeta_at c (2 * nb) len A (\<lambda>i. zq_of (ntt_layer len r ! i))"
    by (rule zt.forward_layer [OF rep nb1 nb(2)]) (rule vals; assumption)+
  moreover have "\<bar>sint (ntt_layer len r ! i)\<bar> \<le> B + 3328" if i: "i < 256" for i
    using nb(1) i by (rule block_index) (auto simp: vals)
  ultimately show ?thesis
    by (simp add: ntt_state_def len)
qed

text \<open>
  After all seven layers: entry pair \<open>m\<close> holds the residue modulo \<open>X^2 - node_mod (128 + m)\<close>, and no
  coefficient has left the \<open>int16_t\<close> range on the way.
\<close>

lemma ntt_state_ntt:
  assumes st: "ntt_state c 1 256 A B r" and B: "B + 7 * 3328 < 32768"
  shows "ntt_state c 128 2 A (B + 7 * 3328) (ntt r)"
proof -
  have len: "length r = 256"
    using st by (simp add: ntt_state_def)
  have "ntt_state c 2 128 A (B + 3328) (ntt_layer 128 r)" (is "ntt_state _ _ _ _ _ ?r1")
    using ntt_layer_state [of c 1 128 A B r] st B by (simp add: numeral_2_eq_2)
  then have "ntt_state c 4 64 A (B + 2 * 3328) (ntt_layer 64 ?r1)" (is "ntt_state _ _ _ _ _ ?r2")
    using ntt_layer_state [of c 2 64 A "B + 1 * 3328" ?r1] B by (simp add: add.commute)
  then have "ntt_state c 8 32 A (B + 3 * 3328) (ntt_layer 32 ?r2)" (is "ntt_state _ _ _ _ _ ?r3")
    using ntt_layer_state [of c 4 32 A "B + 2 * 3328" ?r2] B by (simp add: add.commute)
  then have "ntt_state c 16 16 A (B + 4 * 3328) (ntt_layer 16 ?r3)" (is "ntt_state _ _ _ _ _ ?r4")
    using ntt_layer_state [of c 8 16 A "B + 3 * 3328" ?r3] B by (simp add: add.commute)
  then have "ntt_state c 32 8 A (B + 5 * 3328) (ntt_layer 8 ?r4)" (is "ntt_state _ _ _ _ _ ?r5")
    using ntt_layer_state [of c 16 8 A "B + 4 * 3328" ?r4] B by (simp add: add.commute)
  then have "ntt_state c 64 4 A (B + 6 * 3328) (ntt_layer 4 ?r5)" (is "ntt_state _ _ _ _ _ ?r6")
    using ntt_layer_state [of c 32 4 A "B + 5 * 3328" ?r5] B by (simp add: add.commute)
  then have "ntt_state c 128 2 A (B + 7 * 3328) (ntt_layer 2 ?r6)"
    using ntt_layer_state [of c 64 2 A "B + 6 * 3328" ?r6] B by (simp add: add.commute)
  then show ?thesis
    by (simp add: ntt_eq_layers [OF len])
qed

lemma ntt_state_init:
  assumes "length r = 256" and "\<forall>i<256. \<bar>sint (r ! i)\<bar> \<le> B"
  shows "ntt_state 1 1 256 (\<lambda>i. zq_of (r ! i)) B r"
  using assms represents_root [of zeta_at 256 "\<lambda>i. zq_of (r ! i)"] by (simp add: ntt_state_def)


section \<open>Correctness of the inverse transform\<close>

definition inv_lo :: "nat \<Rightarrow> nat \<Rightarrow> i16 \<Rightarrow> i16 \<Rightarrow> i16" where
  "inv_lo k b x y = barrett_reduce (x + y)"

definition inv_hi :: "nat \<Rightarrow> nat \<Rightarrow> i16 \<Rightarrow> i16 \<Rightarrow> i16" where
  "inv_hi k b x y = fqmul (zetas ! (k - b)) (y - x)"

lemma invntt_step_butterfly:
  assumes "0 < len" and "j + len < length r"
  shows "invntt_step (zetas ! (k - b)) len j r = butterfly (inv_lo k b) (inv_hi k b) len j r"
  using assms
  by (simp add: invntt_step_def butterfly_def inv_lo_def inv_hi_def Let_def list_update_swap)

lemma invntt_blocks_block_loop:
  assumes "nb * (2 * len) = 256" and "b \<le> nb" and "length r = 256"
  shows "invntt_blocks len (b * (2 * len)) (k - b) (block_loop (inv_lo k) (inv_hi k) len b r)
           = (k - nb, block_loop (inv_lo k) (inv_hi k) len nb r)"
  using \<open>b \<le> nb\<close>
proof (induction b rule: inc_induct)
  case base
  then show ?case
    using assms by (simp add: invntt_blocks.simps)
next
  case (step b)
  let ?r = "block_loop (inv_lo k) (inv_hi k) len b r"
  note len0 = blocks_256(1) [OF assms(1)]
  have "Suc b * (2 * len) \<le> nb * (2 * len)"
    using step.hyps by (intro mult_le_mono1) simp
  then have le: "b * (2 * len) + len + len \<le> 256"
    using assms(1) by simp
  have "fold (invntt_step (zetas ! (k - b)) len) [b * (2 * len)..<b * (2 * len) + len] ?r
      = butterfly_loop (inv_lo k b) (inv_hi k b) len (b * (2 * len)) len ?r"
    using len0 le assms(3) by (intro fold_butterfly_loop) (simp_all add: invntt_step_butterfly)
  also have "\<dots> = block_loop (inv_lo k) (inv_hi k) len (Suc b) r"
    by (rule block_loop_Suc [symmetric])
  finally show ?case
    using step.IH len0 le by (subst invntt_blocks.simps) (simp add: algebra_simps)
qed

definition invntt_layer :: "nat \<Rightarrow> i16 list \<Rightarrow> i16 list" where
  "invntt_layer len r =
     (let nb = 128 div len in block_loop (inv_lo (2 * nb - 1)) (inv_hi (2 * nb - 1)) len nb r)"

lemma length_invntt_layer [simp]: "length (invntt_layer len r) = length r"
  by (simp add: invntt_layer_def Let_def)

lemma invntt_layers_unfold:
  assumes "nb * (2 * len) = 256" and "length r = 256" and "len \<le> 128"
  shows "invntt_layers len (2 * nb - 1) r = invntt_layers (2 * len) (nb - 1) (invntt_layer len r)"
  using assms blocks_256 [OF assms(1)] invntt_blocks_block_loop [of nb len 0 r "2 * nb - 1"]
  by (subst invntt_layers.simps) (simp add: invntt_layer_def block_loop_def)

lemma fold_update_map:
  "n \<le> length r \<Longrightarrow> fold (\<lambda>j r. r[j := f (r ! j)]) [0..<n] r = map f (take n r) @ drop n r"
proof (induction n)
  case (Suc n)
  then have "drop n r = r ! n # drop (Suc n) r" and "n < length r"
    by (simp_all add: Cons_nth_drop_Suc)
  then show ?case
    using Suc by (simp add: nth_append list_update_append take_Suc_conv_app_nth)
qed simp

lemma invntt_eq_layers:
  assumes "length r = 256"
  shows "invntt r
    = map (\<lambda>x. fqmul x 1441) (fold invntt_layer [2, 4, 8, 16, 32, 64, 128] r)"
proof -
  let ?r = "fold invntt_layer [2, 4, 8, 16, 32, 64, 128] r"
  have "invntt_layers 2 127 r = ?r"
    using assms invntt_layers_unfold [of 64 2 r]
      invntt_layers_unfold [of 32 4] invntt_layers_unfold [of 16 8] invntt_layers_unfold [of 8 16]
      invntt_layers_unfold [of 4 32] invntt_layers_unfold [of 2 64] invntt_layers_unfold [of 1 128]
    by (simp add: invntt_layers.simps [of 256])
  moreover have "length ?r = 256"
    using assms by simp
  ultimately show ?thesis
    using fold_update_map [of 256 ?r "\<lambda>x. fqmul x 1441"]
    by (simp only: invntt_def Let_def take_all drop_all order_refl append_Nil2)
qed

lemma inv_step:
  assumes "k < 128" and "\<bar>sint x\<bar> \<le> B" and "\<bar>sint y\<bar> \<le> B" and "2 * B < 32768"
  shows "zq_of (barrett_reduce (x + y)) = zq_of x + zq_of y"
    and "zq_of (fqmul (zetas ! k) (y - x)) = zeta_at k * (zq_of y - zq_of x)"
    and "\<bar>sint (barrett_reduce (x + y))\<bar> \<le> 3328"
    and "\<bar>sint (fqmul (zetas ! k) (y - x))\<bar> \<le> 3328"
proof -
  have ok: "\<bar>sint x\<bar> + \<bar>sint y\<bar> < 32768" "\<bar>sint y\<bar> + \<bar>sint x\<bar> < 32768"
    using assms by linarith+
  have "\<bar>sint (zetas ! k)\<bar> \<le> 3328"
    using zetas_bound [OF assms(1)] by simp
  then have dom: "\<bar>sint (zetas ! k) * sint (y - x)\<bar> < 3329 * 2 ^ 15"
    by (rule fqmul_domain_small)
  show "zq_of (barrett_reduce (x + y)) = zq_of x + zq_of y"
    by (simp add: zq_of_add [OF ok(1)])
  show "zq_of (fqmul (zetas ! k) (y - x)) = zeta_at k * (zq_of y - zq_of x)"
    unfolding zq_of_fqmul [OF dom] zq_of_sub [OF ok(2)] zeta_at_def by (simp add: ac_simps)
  show "\<bar>sint (barrett_reduce (x + y))\<bar> \<le> 3328"
    using barrett_reduce_correct(2) [of "x + y"] by simp
  show "\<bar>sint (fqmul (zetas ! k) (y - x))\<bar> \<le> 3328"
    by (rule fqmul_bound [OF dom])
qed

lemma invntt_layer_state:
  assumes st': "ntt_state c nb2 len A B r" and eqs: "c2 = 2 * c" "nb2 = 2 * nb" "len2 = 2 * len"
    and nb: "nb * (2 * len) = 256" "nb = 2 ^ l" "2 * nb \<le> 128" and B: "2 * B < 32768"
  shows "ntt_state c2 nb len2 A 3328 (invntt_layer len r)"
proof -
  note st = st' [unfolded eqs]
  note k = blocks_256(3) [OF nb(1)]
  have len: "length r = 256" and bnd: "\<And>i. i < 256 \<Longrightarrow> \<bar>sint (r ! i)\<bar> \<le> B"
    and rep: "represents zeta_at c (2 * nb) len A (\<lambda>i. zq_of (r ! i))"
    using st by (simp_all add: ntt_state_def)
  let ?k = "2 * nb - 1"
  have nth: "invntt_layer len r ! (b * (2 * len) + j)
        = inv_lo ?k b (r ! (b * (2 * len) + j)) (r ! (b * (2 * len) + (len + j)))"
      "invntt_layer len r ! (b * (2 * len) + (len + j))
        = inv_hi ?k b (r ! (b * (2 * len) + j)) (r ! (b * (2 * len) + (len + j)))"
    if "b < nb" "j < len" for b j
    unfolding invntt_layer_def k Let_def by (rule block_loop_nth; simp add: nb(1) len that)+
  have lt: "b * (2 * len) + j < 256" "b * (2 * len) + (len + j) < 256" if "b < nb" "j < len" for b j
  proof -
    have "Suc b * (2 * len) \<le> nb * (2 * len)"
      using that by (intro mult_le_mono1) simp
    then show "b * (2 * len) + j < 256" "b * (2 * len) + (len + j) < 256"
      using that nb(1) by simp_all
  qed
  have vals: "zq_of (invntt_layer len r ! (b * (2 * len) + j))
        = zq_of (r ! (b * (2 * len) + j)) + zq_of (r ! (b * (2 * len) + (len + j)))"
      "zq_of (invntt_layer len r ! (b * (2 * len) + (len + j))) = zeta_at (?k - b)
        * (zq_of (r ! (b * (2 * len) + (len + j))) - zq_of (r ! (b * (2 * len) + j)))"
      "\<bar>sint (invntt_layer len r ! (b * (2 * len) + j))\<bar> \<le> 3328"
      "\<bar>sint (invntt_layer len r ! (b * (2 * len) + (len + j)))\<bar> \<le> 3328"
    if "b < nb" "j < len" for b j
    unfolding nth [OF that] inv_lo_def inv_hi_def
    by (rule inv_step [where k = "?k - b", OF _ bnd [OF lt(1) [OF that]] bnd [OF lt(2) [OF that]] B];
        use nb(3) that in simp)+
  have "represents zeta_at (2 * c) nb (2 * len) A (\<lambda>i. zq_of (invntt_layer len r ! i))"
    by (rule zt.inverse_layer [OF rep nb(2,3)]) (rule vals; assumption)+
  moreover have "\<bar>sint (invntt_layer len r ! i)\<bar> \<le> 3328" if i: "i < 256" for i
    using nb(1) i by (rule block_index) (auto simp: vals)
  ultimately show ?thesis
    by (simp add: ntt_state_def len eqs)
qed

lemma ntt_state_invntt_layers:
  assumes st: "ntt_state c 128 2 A B r" and B: "2 * B < 32768"
  shows "ntt_state (128 * c) 1 256 A 3328 (fold invntt_layer [2, 4, 8, 16, 32, 64, 128] r)"
proof -
  define c1 c2 c3 c4 c5 c6 c7 where c_defs: "c1 = 2 * c" "c2 = 2 * c1" "c3 = 2 * c2" "c4 = 2 * c3"
    "c5 = 2 * c4" "c6 = 2 * c5" "c7 = 2 * c6"
  from st have "ntt_state c1 64 4 A 3328 (invntt_layer 2 r)" (is "ntt_state _ _ _ _ _ ?r1")
    by (rule invntt_layer_state [where l = 6]) (simp_all add: c_defs(1) B)
  then have "ntt_state c2 32 8 A 3328 (invntt_layer 4 ?r1)" (is "ntt_state _ _ _ _ _ ?r2")
    by (rule invntt_layer_state [where l = 5]) (simp_all add: c_defs(2))
  then have "ntt_state c3 16 16 A 3328 (invntt_layer 8 ?r2)" (is "ntt_state _ _ _ _ _ ?r3")
    by (rule invntt_layer_state [where l = 4]) (simp_all add: c_defs(3))
  then have "ntt_state c4 8 32 A 3328 (invntt_layer 16 ?r3)" (is "ntt_state _ _ _ _ _ ?r4")
    by (rule invntt_layer_state [where l = 3]) (simp_all add: c_defs(4))
  then have "ntt_state c5 4 64 A 3328 (invntt_layer 32 ?r4)" (is "ntt_state _ _ _ _ _ ?r5")
    by (rule invntt_layer_state [where l = 2]) (simp_all add: c_defs(5))
  then have "ntt_state c6 2 128 A 3328 (invntt_layer 64 ?r5)" (is "ntt_state _ _ _ _ _ ?r6")
    by (rule invntt_layer_state [where l = 1]) (simp_all add: c_defs(6))
  then have "ntt_state c7 1 256 A 3328 (invntt_layer 128 ?r6)"
    by (rule invntt_layer_state [where l = 0]) (simp_all add: c_defs(7))
  moreover have "c7 = 128 * c"
    unfolding c_defs by (simp only: mult.assoc [symmetric]) simp
  ultimately show ?thesis
    by (simp only: fold_simps)
qed

lemma invntt_state:
  assumes st: "ntt_state c 128 2 A B r" and B: "2 * B < 32768"
  shows "length (invntt r) = 256"
    and "i < 256 \<Longrightarrow> zq_of (invntt r ! i) = 2 ^ 16 * (c * A i)"
    and "i < 256 \<Longrightarrow> \<bar>sint (invntt r ! i)\<bar> \<le> 3328"
proof -
  let ?r = "fold invntt_layer [2, 4, 8, 16, 32, 64, 128] r"
  have r: "length r = 256"
    using st by (simp add: ntt_state_def)
  have st': "ntt_state (128 * c) 1 256 A 3328 ?r"
    using st B by (rule ntt_state_invntt_layers)
  then have len: "length ?r = 256" and bnd: "i < 256 \<Longrightarrow> \<bar>sint (?r ! i)\<bar> \<le> 3328"
    by (simp_all add: ntt_state_def)
  have val: "zq_of (?r ! i) = 128 * c * A i" if "i < 256"
    using st' that unfolding ntt_state_def represents_def
    by (auto simp: residue_def dest!: spec [of _ "0 :: nat"])
  show "length (invntt r) = 256"
    using len by (simp add: invntt_eq_layers [OF r])
  assume i: "i < 256"
  then have dom: "\<bar>sint (?r ! i) * sint (1441 :: i16)\<bar> < 3329 * 2 ^ 15"
    by (intro fqmul_domain_small bnd)
  have e: "invntt r ! i = fqmul (?r ! i) 1441"
    using i len by (simp add: invntt_eq_layers [OF r])
  show "\<bar>sint (invntt r ! i)\<bar> \<le> 3328"
    unfolding e by (rule fqmul_bound [OF dom])
  have "zq_of (invntt r ! i) = (128 * (zq_of 1441 * 169)) * (c * A i)"
    unfolding e zq_of_fqmul [OF dom] val [OF i] by (simp only: ac_simps)
  also have "128 * (zq_of 1441 * 169) = (2 ^ 16 :: zq)"
    by (simp add: zq_of_def)
  finally show "zq_of (invntt r ! i) = 2 ^ 16 * (c * A i)" .
qed

section \<open>The transform of FIPS 203\<close>

lemma BitRev7_leaf:
  "list_all (\<lambda>m. 2 * BitRev7 m + 1 = BitRev7 (64 + m div 2) + (if even m then 0 else 128)) [0..<128]"
  by (simp add: upt_rec, simp add: BitRev7_eq)

text \<open>The modulus of leaf \<open>m\<close> of the tree: \<open>X^2 - 17^(2 * BitRev7 m + 1)\<close>.\<close>

lemma node_mod_leaf:
  assumes "m < 128"
  shows "node_mod zeta_at (128 + m) = 17 ^ (2 * BitRev7 m + 1)"
proof -
  have e: "2 * BitRev7 m + 1 = BitRev7 (64 + m div 2) + (if even m then 0 else 128)"
    by (rule bspec [OF BitRev7_leaf [unfolded list_all_iff set_upt]]) (use assms in simp)
  have "(128 + m) div 2 = 64 + m div 2"
    by simp
  moreover have "zeta_at (64 + m div 2) = 17 ^ BitRev7 (64 + m div 2)"
    using assms by (intro zeta_at_power) simp
  ultimately have nm: "node_mod zeta_at (128 + m)
      = (if even m then 17 ^ BitRev7 (64 + m div 2) else - (17 ^ BitRev7 (64 + m div 2)))"
    unfolding node_mod_def by simp
  show ?thesis
    unfolding nm e by (simp only: power_add zq_17_128 mult_minus_right mult_1_right if_distrib
        power_0 split: if_split) simp
qed

lemma ntt_values:
  assumes "length r = 256" and "\<forall>i<256. \<bar>sint (r ! i)\<bar> \<le> B" and "B + 7 * 3328 < 32768"
  shows "ntt_state 1 128 2 (\<lambda>i. zq_of (r ! i)) (B + 7 * 3328) (ntt r)"
  using assms by (intro ntt_state_ntt ntt_state_init)

lemma ntt_state_entry:
  assumes "ntt_state c 128 2 A B r" and "m < 128" and "j < 2"
  shows "zq_of (r ! (2 * m + j)) = c * residue 128 2 A (17 ^ (2 * BitRev7 m + 1)) j"
  using assms node_mod_leaf [of m] by (simp add: ntt_state_def represents_def mult.commute)

lemma ntt_state_iff:
  "ntt_state c 128 2 A B r \<longleftrightarrow> length r = 256 \<and> (\<forall>i<256. \<bar>sint (r ! i)\<bar> \<le> B) \<and>
     (\<forall>m<128. \<forall>j<2. zq_of (r ! (2 * m + j)) = c * residue 128 2 A (17 ^ (2 * BitRev7 m + 1)) j)"
  by (auto simp: ntt_state_def represents_def mult.commute node_mod_leaf)

lemma ntt_state_exists:
  assumes "length r = 256" and "\<forall>i<256. \<bar>sint (r ! i)\<bar> \<le> B"
  obtains A where "ntt_state 1 128 2 A B r"
proof -
  have "2 * (1665 :: zq) = 1"
    by simp
  then have "\<exists>A. represents zeta_at 1 (2 ^ 7) 2 A (\<lambda>i. zq_of (r ! i))"
    by (rule zt.represents_exists) simp
  then show ?thesis
    using assms that by (auto simp: ntt_state_def)
qed

section \<open>Multiplication modulo a leaf\<close>

lemma basemul_correct:
  assumes dom: "\<And>i j. i < 2 \<Longrightarrow> j < 2 \<Longrightarrow> \<bar>sint (a ! i) * sint (b ! j)\<bar> < 3329 * 2 ^ 15"
    and zeta: "\<bar>sint zeta\<bar> \<le> 3328"
  shows "zq_of (basemul a b zeta ! 0) = 169 * (zq_of (a ! 0) * zq_of (b ! 0)
           + (zq_of zeta * 169) * (zq_of (a ! 1) * zq_of (b ! 1)))"
    and "zq_of (basemul a b zeta ! 1)
      = 169 * (zq_of (a ! 0) * zq_of (b ! 1) + zq_of (a ! 1) * zq_of (b ! 0))"
    and "\<bar>sint (basemul a b zeta ! 0)\<bar> \<le> 6656" and "\<bar>sint (basemul a b zeta ! 1)\<bar> \<le> 6656"
    and "length (basemul a b zeta) = 2"
proof -
  let ?a0 = "a ! 0" and ?a1 = "a ! 1" and ?b0 = "b ! 0" and ?b1 = "b ! 1"
  have d: "\<bar>sint ?a0 * sint ?b0\<bar> < 3329 * 2 ^ 15" "\<bar>sint ?a0 * sint ?b1\<bar> < 3329 * 2 ^ 15"
    "\<bar>sint ?a1 * sint ?b0\<bar> < 3329 * 2 ^ 15" "\<bar>sint ?a1 * sint ?b1\<bar> < 3329 * 2 ^ 15"
    by (rule dom; simp)+
  note bnd = d [THEN fqmul_bound] and val = d [THEN zq_of_fqmul]
  have dz: "\<bar>sint (fqmul ?a1 ?b1) * sint zeta\<bar> < 3329 * 2 ^ 15"
    using fqmul_domain_small [OF bnd(4)] .
  note bz = fqmul_bound [OF dz] and vz = zq_of_fqmul [OF dz]
  have ok: "\<bar>sint (fqmul (fqmul ?a1 ?b1) zeta)\<bar> + \<bar>sint (fqmul ?a0 ?b0)\<bar> < 32768"
    "\<bar>sint (fqmul ?a0 ?b1)\<bar> + \<bar>sint (fqmul ?a1 ?b0)\<bar> < 32768"
    using bz bnd by linarith+
  have e: "basemul a b zeta ! 0 = fqmul (fqmul ?a1 ?b1) zeta + fqmul ?a0 ?b0"
    "basemul a b zeta ! 1 = fqmul ?a0 ?b1 + fqmul ?a1 ?b0"
    by (simp_all add: basemul_def Let_def)
  show "zq_of (basemul a b zeta ! 0) = 169 * (zq_of ?a0 * zq_of ?b0
           + (zq_of zeta * 169) * (zq_of ?a1 * zq_of ?b1))"
    unfolding e zq_of_add [OF ok(1)] vz val by (simp only: ring_distribs ac_simps)
  show "zq_of (basemul a b zeta ! 1) = 169 * (zq_of ?a0 * zq_of ?b1 + zq_of ?a1 * zq_of ?b0)"
    unfolding e zq_of_add [OF ok(2)] val by (simp only: ring_distribs ac_simps)
  show "\<bar>sint (basemul a b zeta ! 0)\<bar> \<le> 6656" "\<bar>sint (basemul a b zeta ! 1)\<bar> \<le> 6656"
    unfolding e sint_add_i16 [OF ok(1)] sint_add_i16 [OF ok(2)] using bz bnd by linarith+
  show "length (basemul a b zeta) = 2"
    by (simp add: basemul_def Let_def)
qed

section \<open>Properties\<close>

text \<open>
  The table \<open>zetas\<close> (\<open>ntt.c\<close>) holds the powers of the root of unity 17 in bit-reversed order and
  Montgomery form, as centred representatives.
\<close>

theorem zetas_table:
  "map zq_of zetas = map (\<lambda>k. 2 ^ 16 * 17 ^ BitRev7 k) [0..<128] \<and> list_all (\<lambda>z. \<bar>sint z\<bar> \<le> 1664) zetas"
proof
  have e: "2 ^ 16 * (z * 169) = (z :: zq)" for z
  proof -
    have "(2 ^ 16 * 169 :: zq) = 1"
      by simp
    then show ?thesis
      by (metis mult.left_commute mult.right_neutral)
  qed
  have "zq_of (zetas ! k) = 2 ^ 16 * 17 ^ BitRev7 k" if "k < 128" for k
    unfolding zeta_at_power [OF that, symmetric] zeta_at_def e ..
  then show "map zq_of zetas = map (\<lambda>k. 2 ^ 16 * 17 ^ BitRev7 k) [0..<128]"
    by (intro nth_equalityI) simp_all
  show "list_all (\<lambda>z. \<bar>sint z\<bar> \<le> 1664) zetas"
    unfolding list_all_length using zetas_bound by fastforce
qed

end
