(* ===== verification/Cbd.thy ===== *)
theory Cbd
  imports Reduce Codec
begin

text \<open>
  The struct \<open>poly\<close> of \<open>native/mlkem/pqclean-ml-kem-768/poly.h\<close> and the centred binomial sampler of
  \<open>cbd.c\<close>. The sampler adds neighbouring bits in parallel inside one 32-bit word; it is shown to
  return, for every coefficient, the difference of two sums of two bits of the input, which is
  \<open>SamplePolyCBD\<close> of FIPS 203 for \<open>eta = 2\<close>.
\<close>

section \<open>Definitions\<close>

record poly =
  coeffs :: "i16 list"

definition load32_littleendian :: "bytes \<Rightarrow> u32" where
  "load32_littleendian x =
     (let r = ucast (x ! 0);
          r = r OR push_bit 8 (ucast (x ! 1));
          r = r OR push_bit 16 (ucast (x ! 2));
          r = r OR push_bit 24 (ucast (x ! 3))
      in r)"

definition cbd2 :: "bytes \<Rightarrow> poly" where
  "cbd2 buf = \<lparr> coeffs = blocks (KYBER_N div 8) (\<lambda>i.
     let t = load32_littleendian (drop (4 * i) buf);
         d = t AND 0x55555555;
         d = d + (drop_bit 1 t AND 0x55555555)
     in map (\<lambda>j. let a = to_i16 (drop_bit (4 * j + 0) d AND 0x3);
                     b = to_i16 (drop_bit (4 * j + 2) d AND 0x3)
                 in a - b) [0..<8]) \<rparr>"

definition poly_cbd_eta1 :: "bytes \<Rightarrow> poly" where
  "poly_cbd_eta1 buf = cbd2 buf"

definition poly_cbd_eta2 :: "bytes \<Rightarrow> poly" where
  "poly_cbd_eta2 buf = cbd2 buf"

section \<open>Loading words\<close>

lemma bit_load32:
  assumes "m < 32"
  shows "bit (load32_littleendian x) m = bit_at x m"
proof -
  consider "m < 8" | "8 \<le> m" "m < 16" | "16 \<le> m" "m < 24" | "24 \<le> m"
    by linarith
  then show ?thesis
  proof cases
    case 1
    then show ?thesis
      by (simp add: load32_littleendian_def Let_def bit_at_def bit_simps)
  next
    case 2
    then have "m div 8 = 1"
      by (intro div_nat_eqI) simp_all
    moreover from this have "m mod 8 = m - 8"
      using minus_mult_div_eq_mod [of m 8] by simp
    ultimately show ?thesis
      using 2 by (auto simp: load32_littleendian_def Let_def bit_at_def bit_simps dest: bit_imp_le_length)
  next
    case 3
    then have "m div 8 = 2"
      by (intro div_nat_eqI) simp_all
    moreover from this have "m mod 8 = m - 16"
      using minus_mult_div_eq_mod [of m 8] by simp
    ultimately show ?thesis
      using 3 by (auto simp: load32_littleendian_def Let_def bit_at_def bit_simps dest: bit_imp_le_length)
  next
    case 4
    then have "m div 8 = 3"
      using assms by (intro div_nat_eqI) simp_all
    moreover from this have "m mod 8 = m - 24"
      using minus_mult_div_eq_mod [of m 8] by simp
    ultimately show ?thesis
      using 4 assms by (auto simp: load32_littleendian_def Let_def bit_at_def bit_simps dest: bit_imp_le_length)
  qed
qed

section \<open>Parallel addition of neighbouring bits\<close>

text \<open>Adding two numbers whose base-4 digits are at most 1 produces no carry.\<close>

lemma base4_add_div:
  fixes x y :: nat
  assumes "\<And>k. x div 4 ^ k mod 4 \<le> 1" and "\<And>k. y div 4 ^ k mod 4 \<le> 1"
  shows "(x + y) div 4 ^ k = x div 4 ^ k + y div 4 ^ k"
proof (induction k)
  case (Suc k)
  define X Y where "X = x div 4 ^ k" and "Y = y div 4 ^ k"
  have "X mod 4 \<le> 1" "Y mod 4 \<le> 1"
    using assms by (simp_all add: X_def Y_def)
  then have "(X + Y) div 4 = X div 4 + Y div 4"
    using div_add1_eq [of X Y 4] by simp
  then show ?case
    using Suc by (simp add: X_def Y_def div_mult2_eq mult.commute [of 4])
qed simp

lemma base4_add_digit:
  fixes x y :: nat
  assumes "\<And>k. x div 4 ^ k mod 4 \<le> 1" and "\<And>k. y div 4 ^ k mod 4 \<le> 1"
  shows "(x + y) div 4 ^ k mod 4 = x div 4 ^ k mod 4 + y div 4 ^ k mod 4"
proof -
  define X Y where "X = x div 4 ^ k" and "Y = y div 4 ^ k"
  have "X mod 4 \<le> 1" "Y mod 4 \<le> 1"
    using assms by (simp_all add: X_def Y_def)
  then have "(X + Y) mod 4 = X mod 4 + Y mod 4"
    using mod_add_eq [of X 4 Y, symmetric] by (simp only: mod_less)
  then show ?thesis
    using base4_add_div [OF assms, of k] by (simp add: X_def Y_def)
qed

lemma bit_0x55555555: "bit (0x55555555 :: u32) m \<longleftrightarrow> m < 32 \<and> even m"
proof -
  have "list_all (\<lambda>m. bit (0x55555555 :: u32) m \<longleftrightarrow> even m) [0..<32]"
    by (simp add: upt_rec)
  then have "m < 32 \<Longrightarrow> bit (0x55555555 :: u32) m \<longleftrightarrow> even m"
    by (simp add: list_all_iff)
  moreover have "bit (0x55555555 :: u32) m \<Longrightarrow> m < 32"
    using bit_imp_le_length [of "0x55555555 :: u32" m] by simp
  ultimately show ?thesis
    by blast
qed

lemma unat_div_4_mod:
  "unat (w :: u32) div 4 ^ k mod 4 = of_bool (bit w (2 * k)) + 2 * of_bool (bit w (2 * k + 1))"
proof -
  define X where "X = unat w div 2 ^ (2 * k)"
  have "unat w div 2 ^ (2 * k + 1) = X div 2"
    by (simp add: X_def div_mult2_eq mult.commute [of 2])
  moreover have "X mod 4 = X mod 2 + 2 * (X div 2 mod 2)"
    using mod_mult2_eq [of X 2 2] by simp
  moreover have "unat w div 4 ^ k = X"
    by (simp add: X_def power_mult)
  ultimately have "unat w div 4 ^ k mod 4 = of_bool (bit (unat w) (2 * k)) + 2 * of_bool (bit (unat w) (2 * k + 1))"
    by (simp only: bit_iff_odd mod_2_eq_odd X_def [symmetric])
  then show ?thesis
    by (simp add: bit_unsigned_iff)
qed

lemma masked_digit:
  assumes "k < 16"
  shows "unat (w AND 0x55555555 :: u32) div 4 ^ k mod 4 = of_bool (bit w (2 * k))"
  unfolding unat_div_4_mod bit_and_iff bit_0x55555555 using assms by simp

lemma masked_digit_le: "unat (w AND 0x55555555 :: u32) div 4 ^ k mod 4 \<le> 1"
  unfolding unat_div_4_mod bit_and_iff bit_0x55555555 by simp

text \<open>Field \<open>k\<close> of the word \<open>d\<close> of \<open>cbd2\<close> holds the sum of the bits \<open>2 * k\<close> and \<open>2 * k + 1\<close> of \<open>t\<close>.\<close>

lemma pair_sum_field:
  fixes t :: u32
  assumes "k < 16"
  defines "d \<equiv> (t AND 0x55555555) + (drop_bit 1 t AND 0x55555555)"
  shows "unat (drop_bit (2 * k) d AND 3) = of_bool (bit t (2 * k)) + of_bool (bit t (2 * k + 1))"
proof -
  define x y where "x = t AND 0x55555555" and "y = drop_bit 1 t AND 0x55555555"
  have le: "unat x \<le> 0x55555555" "unat y \<le> 0x55555555"
    using word_and_le1 [where y = t and a = "0x55555555"]
      word_and_le1 [where y = "drop_bit 1 t" and a = "0x55555555"]
    by (simp_all add: x_def y_def word_le_nat_alt)
  then have d: "unat d = unat x + unat y"
    unfolding d_def x_def [symmetric] y_def [symmetric] by (subst unat_add_lem [THEN iffD1]) simp_all
  have "unat (drop_bit (2 * k) d AND 3) = unat d div 4 ^ k mod 4"
  proof -
    have "drop_bit (2 * k) d AND 3 = take_bit 2 (drop_bit (2 * k) d)"
      by (simp add: take_bit_eq_mask mask_eq_exp_minus_1)
    moreover have "unat (take_bit 2 (drop_bit (2 * k) d)) = take_bit 2 (drop_bit (2 * k) (unat d))"
      using unsigned_less [where w = d and 'a = nat]
      by (simp only: unsigned_take_bit_eq unsigned_drop_bit_eq) (simp add: take_bit_nat_eq_self)
    ultimately show ?thesis
      by (simp only: take_bit_eq_mod drop_bit_eq_div power_mult) simp
  qed
  also have "\<dots> = of_bool (bit t (2 * k)) + of_bool (bit (drop_bit 1 t) (2 * k))"
    unfolding d x_def y_def base4_add_digit [OF masked_digit_le masked_digit_le]
      masked_digit [OF assms(1)] ..
  finally show ?thesis
    by (simp add: bit_drop_bit_eq)
qed

section \<open>The sampled coefficients\<close>

lemma length_cbd2 [len_simps, simp]: "length (coeffs (cbd2 buf)) = 256"
  unfolding cbd2_def poly.simps by (subst length_blocks [where k = 8]) (simp_all add: params Let_def)

lemma sint_small_field:
  assumes "unat (x :: u32) \<le> 3" and "unat (y :: u32) \<le> 3"
  shows "sint (to_i16 x - to_i16 y) = int (unat x) - int (unat y)"
proof -
  have "sint (to_i16 x) = int (unat x)" "sint (to_i16 y) = int (unat y)"
    using assms by (intro sint_to_i16_unat; simp)+
  moreover have "\<bar>int (unat x)\<bar> + \<bar>int (unat y)\<bar> < 32768"
    using assms by linarith
  ultimately show ?thesis
    by (simp only: sint_sub_i16)
qed

text \<open>\<open>SamplePolyCBD\<close>: coefficient \<open>n\<close> is the difference of two sums of two bits of the input.\<close>

lemma cbd2_nth:
  assumes "length buf = 128" and "n < 256"
  shows "sint (coeffs (cbd2 buf) ! n) =
     (of_bool (bit_at buf (4 * n)) + of_bool (bit_at buf (4 * n + 1)))
   - (of_bool (bit_at buf (4 * n + 2)) + of_bool (bit_at buf (4 * n + 3)))"
proof -
  define i j where "i = n div 8" and "j = n mod 8"
  have n: "n = 8 * i + j" and j: "j < 8" and i: "i < 32"
    using assms(2) by (auto simp: i_def j_def)
  define t where "t = load32_littleendian (drop (4 * i) buf)"
  define d where "d = (t AND 0x55555555) + (drop_bit 1 t AND 0x55555555)"
  have bits: "bit t m = bit_at buf (32 * i + m)" if "m < 32" for m
  proof -
    have "bit_at (drop (4 * i) buf) m = bit_at buf (32 * i + m)"
    proof -
      have "32 * i + m = m + 8 * (4 * i)"
        by simp
      then have "(32 * i + m) div 8 = 4 * i + m div 8" "(32 * i + m) mod 8 = m mod 8"
        by (simp_all only: div_mult_self2 mod_mult_self2)
      then show ?thesis
        using that assms i by (simp add: bit_at_def)
    qed
    then show ?thesis
      using that by (simp add: t_def bit_load32)
  qed
  have field: "unat (drop_bit (4 * j + 2 * e) d AND 3)
      = of_bool (bit_at buf (4 * n + 2 * e)) + of_bool (bit_at buf (4 * n + 2 * e + 1))" if "e < 2" for e
  proof -
    have e: "32 * i + (4 * j + 2 * e) = 4 * n + 2 * e" "2 * (2 * j + e) = 4 * j + 2 * e"
      "32 * i + (4 * j + 2 * e + 1) = 4 * n + 2 * e + 1"
      by (simp_all add: n)
    have "bit t (4 * j + 2 * e) = bit_at buf (4 * n + 2 * e)"
      "bit t (4 * j + 2 * e + 1) = bit_at buf (4 * n + 2 * e + 1)"
      by (subst e(1) [symmetric], rule bits, use j that in simp)
        (subst e(3) [symmetric], rule bits, use j that in simp)
    moreover have "unat (drop_bit (4 * j + 2 * e) d AND 3)
        = of_bool (bit t (4 * j + 2 * e)) + of_bool (bit t (4 * j + 2 * e + 1))"
      unfolding d_def e(2) [symmetric] by (rule pair_sum_field) (use j that in simp)
    ultimately show ?thesis
      by (simp only:)
  qed
  define x0 x1 where "x0 = drop_bit (4 * j + 0) d AND 3" and "x1 = drop_bit (4 * j + 2) d AND 3"
  have x: "unat x0 = of_bool (bit_at buf (4 * n)) + of_bool (bit_at buf (4 * n + 1))"
    "unat x1 = of_bool (bit_at buf (4 * n + 2)) + of_bool (bit_at buf (4 * n + 3))"
    using field [of 0] field [of 1] by (simp_all add: x0_def x1_def eval_nat_numeral)
  have "coeffs (cbd2 buf) ! n = to_i16 x0 - to_i16 x1"
    unfolding cbd2_def poly.simps using j i assms(2)
    by (subst nth_blocks_div_mod [where k = 8])
      (simp_all add: params Let_def i_def [symmetric] j_def [symmetric] t_def d_def x0_def x1_def)
  moreover have "unat x0 \<le> 3" "unat x1 \<le> 3"
    unfolding x by simp_all
  ultimately have "sint (coeffs (cbd2 buf) ! n) = int (unat x0) - int (unat x1)"
    by (simp only: sint_small_field)
  then show ?thesis
    unfolding x by (simp only: of_nat_add of_nat_of_bool)
qed

lemma cbd2_range:
  assumes "length buf = 128" and "n < 256"
  shows "\<bar>sint (coeffs (cbd2 buf) ! n)\<bar> \<le> 2"
  unfolding cbd2_nth [OF assms] by (simp add: of_bool_def)

section \<open>Properties\<close>

text \<open>
  C30. \<open>cbd2\<close> (\<open>cbd.c\<close>) samples the centred binomial distribution of parameter 2: coefficient \<open>n\<close> is the sum
  of two bits of the buffer minus the sum of the next two (FIPS 203, algorithm 8), hence within \<open>-2..2\<close>.
\<close>

theorem cbd2_spec:
  assumes "length buf = 128" and "n < 256"
  shows "sint (coeffs (cbd2 buf) ! n) =
       (of_bool (bit_at buf (4 * n)) + of_bool (bit_at buf (4 * n + 1)))
     - (of_bool (bit_at buf (4 * n + 2)) + of_bool (bit_at buf (4 * n + 3)))
    \<and> \<bar>sint (coeffs (cbd2 buf) ! n)\<bar> \<le> 2"
  using cbd2_nth [OF assms] cbd2_range [OF assms] by blast

theorem cbd2_spec_witness:
  "sint (coeffs (cbd2 (replicate 128 0x0B)) ! 255) =
       (of_bool (bit_at (replicate 128 0x0B) (4 * 255)) + of_bool (bit_at (replicate 128 0x0B) (4 * 255 + 1)))
     - (of_bool (bit_at (replicate 128 0x0B) (4 * 255 + 2)) + of_bool (bit_at (replicate 128 0x0B) (4 * 255 + 3)))
    \<and> \<bar>sint (coeffs (cbd2 (replicate 128 0x0B)) ! 255)\<bar> \<le> 2"
  by (rule cbd2_spec) simp_all

end
