(* ===== verification/Verify.thy ===== *)
theory Verify
  imports Prelude
begin

text \<open>
  The constant-time helpers of \<open>native/mlkem/pqclean-ml-kem-768/verify.c\<close>: comparison of two arrays
  and conditional moves. \<open>PQCLEAN_PREVENT_BRANCH_HACK\<close> is an empty assembly statement that does not
  change its operand, so it has no counterpart here.
\<close>

section \<open>Definitions\<close>

definition verify :: "bytes \<Rightarrow> bytes \<Rightarrow> nat \<Rightarrow> i32" where
  "verify a b len =
     (let r = fold (\<lambda>i r. r OR (a ! i XOR b ! i)) [0..<len] (0 :: u8)
      in ucast (drop_bit 63 (- (ucast r :: u64))))"

definition cmov :: "bytes \<Rightarrow> bytes \<Rightarrow> nat \<Rightarrow> u8 \<Rightarrow> bytes" where
  "cmov r x len b =
     (let b = - b
      in fold (\<lambda>i r. r[i := r ! i XOR (b AND (r ! i XOR x ! i))]) [0..<len] r)"

definition cmov_int16 :: "i16 \<Rightarrow> i16 \<Rightarrow> u16 \<Rightarrow> i16" where
  "cmov_int16 r v b = (let b = - b in r XOR (b AND (r XOR v)))"

section \<open>Comparison\<close>

lemma fold_or_eq_0:
  "fold (\<lambda>i r. r OR f i) xs (r0 :: 'a :: len word) = 0 \<longleftrightarrow> r0 = 0 \<and> (\<forall>i\<in>set xs. f i = 0)"
  by (induction xs arbitrary: r0) (auto simp: or_eq_0_iff)

lemma neg_byte_top:
  fixes r :: u8
  shows "drop_bit 63 (- (ucast r :: u64)) = (if r = 0 then 0 else 1)"
proof (cases "r = 0")
  case False
  have "0 < uint r" "uint r < 256"
    using False uint_lt2p [of r] by (simp_all add: uint_0_iff less_le)
  then have "uint (- (ucast r :: u64)) = 2 ^ 64 - uint r"
    by (simp add: uint_word_ariths(4) unsigned_ucast_eq take_bit_int_eq_self zmod_zminus1_eq_if)
  then have "uint (drop_bit 63 (- (ucast r :: u64))) = 1"
    unfolding unsigned_drop_bit_eq using \<open>0 < uint r\<close> \<open>uint r < 256\<close>
    by (simp add: drop_bit_eq_div take_bit_int_eq_self)
  then show ?thesis
    using False by (simp add: word_uint_eq_iff)
qed simp

lemma xor_eq_0: "x XOR y = 0 \<longleftrightarrow> x = (y :: 'a :: len word)"
proof
  assume "x XOR y = 0"
  then have "(x XOR y) XOR y = 0 XOR y"
    by (rule arg_cong)
  then show "x = y"
    unfolding xor.assoc by simp
qed simp

lemma verify_eq:
  assumes "len \<le> length a" and "len \<le> length b"
  shows "verify a b len = (if take len a = take len b then 0 else 1)"
proof -
  have "fold (\<lambda>i r. r OR (a ! i XOR b ! i)) [0..<len] 0 = 0 \<longleftrightarrow> (\<forall>i<len. a ! i = b ! i)"
    by (auto simp: fold_or_eq_0 xor_eq_0)
  also have "\<dots> \<longleftrightarrow> take len a = take len b"
    using assms by (simp add: list_eq_iff_nth_eq)
  finally show ?thesis
    by (simp add: verify_def neg_byte_top)
qed

section \<open>Conditional moves\<close>

lemma length_cmov [len_simps, simp]: "length (cmov r x len b) = length r"
proof -
  have "length (fold (\<lambda>i r. r[i := h i r]) is r) = length r" for h :: "nat \<Rightarrow> bytes \<Rightarrow> u8" and "is"
    by (induction "is" arbitrary: r) simp_all
  then show ?thesis
    by (simp add: cmov_def Let_def)
qed

lemma cmov_0: "cmov r x len 0 = r"
proof -
  have "fold (\<lambda>i r. r[i := r ! i]) is r = r" for "is"
    by (induction "is" arbitrary: r) simp_all
  then show ?thesis
    by (simp add: cmov_def)
qed

lemma cmov_1:
  assumes "len \<le> length r" and "len \<le> length x"
  shows "cmov r x len 1 = take len x @ drop len r"
proof -
  have "cmov r x len 1 = fold (\<lambda>i r. r[i := x ! i]) [0..<len] r"
    by (simp add: cmov_def flip: xor.assoc)
  also have "\<dots> = take len x @ drop len r"
    using assms by (intro fold_copy)
  finally show ?thesis .
qed

lemma cmov_int16_eq: "cmov_int16 r v 0 = r" "cmov_int16 r v 1 = v"
  by (simp_all add: cmov_int16_def flip: xor.assoc)

section \<open>Properties\<close>

text \<open>
  \<open>verify\<close> (\<open>verify.c\<close>) returns 0 exactly when the two buffers agree on the first \<open>len\<close> bytes and 1
  otherwise, although it only accumulates an OR of XORs and shifts the negated accumulator.
\<close>

theorem verify_spec:
  assumes "len \<le> length a" and "len \<le> length b"
  shows "verify a b len = (if take len a = take len b then 0 else 1)"
  using assms by (rule verify_eq)

theorem verify_spec_witness:
  "verify [1, 2, 3] [1, 2, 4] 3 = (if take 3 [1, 2, 3] = take 3 [1, 2, 4 :: u8] then 0 else 1)"
  by (rule verify_spec) simp_all

text \<open>
  \<open>cmov\<close> (\<open>verify.c\<close>) is a conditional copy: with \<open>b = 0\<close> the destination is untouched, with \<open>b = 1\<close>
  its first \<open>len\<close> bytes become those of the source and the rest stays.
\<close>

theorem cmov_spec:
  assumes "len \<le> length r" and "len \<le> length x"
  shows "cmov r x len (of_bool b) = (if b then take len x @ drop len r else r)"
  using cmov_1 [OF assms] by (simp add: cmov_0)

theorem cmov_spec_witness:
  "cmov [9, 9, 9] [1, 2] 2 (of_bool True) = (if True then take 2 [1, 2] @ drop 2 [9, 9, 9] else [9, 9, 9])"
  by (rule cmov_spec) simp_all

end
