(* ===== verification/Poly_Codec.thy ===== *)
theory Poly_Codec
  imports Cbd Verify
begin

text \<open>
  Compression and serialisation of one polynomial: the first half of
  \<open>native/mlkem/pqclean-ml-kem-768/poly.c\<close>. The arithmetic of the compression (multiplication by a
  rounded reciprocal instead of a division) is shown equal to the rounding of FIPS 203, the bit
  shuffling is shown to meet the contract \<open>bit_packing\<close>, and the round trips and error bounds follow.
\<close>

section \<open>Definitions\<close>

text \<open>C's promotions of \<open>uint8_t\<close> and \<open>uint16_t\<close> operands to \<open>int\<close>, and stores into \<open>uint8_t\<close>.\<close>

abbreviation promote_u8 :: "u8 \<Rightarrow> i32" where
  "promote_u8 x \<equiv> ucast x"

abbreviation promote_u16 :: "u16 \<Rightarrow> i32" where
  "promote_u16 x \<equiv> ucast x"

abbreviation to_u8 :: "i32 \<Rightarrow> u8" where
  "to_u8 x \<equiv> ucast x"

text \<open>\<open>u += (u >> 15) & KYBER_Q\<close>, on an \<open>int16_t\<close> and on a \<open>uint16_t\<close> that is read as one.\<close>

definition to_positive :: "i16 \<Rightarrow> i16" where
  "to_positive u = to_i16 (promote16 u + (signed_drop_bit 15 (promote16 u) AND KYBER_Q))"

definition to_positive_u16 :: "u16 \<Rightarrow> u16" where
  "to_positive_u16 t = to_i16 (promote_u16 t + (signed_drop_bit 15 (promote16 t) AND KYBER_Q))"

definition compress_d4 :: "i16 \<Rightarrow> u8" where
  "compress_d4 u =
     (let u = to_positive u;
          d0 = push_bit 4 (promote16 u) :: u32;
          d0 = d0 + 1665;
          d0 = d0 * 80635;
          d0 = drop_bit 28 d0
      in to_u8 (d0 AND 0xf))"

definition pack_d4 :: "u8 list \<Rightarrow> bytes" where
  "pack_d4 t =
    [to_u8 (promote_u8 (t ! 0) OR push_bit 4 (promote_u8 (t ! 1))),
     to_u8 (promote_u8 (t ! 2) OR push_bit 4 (promote_u8 (t ! 3))),
     to_u8 (promote_u8 (t ! 4) OR push_bit 4 (promote_u8 (t ! 5))),
     to_u8 (promote_u8 (t ! 6) OR push_bit 4 (promote_u8 (t ! 7)))]"

definition poly_compress :: "poly \<Rightarrow> bytes" where
  "poly_compress a = blocks (KYBER_N div 8) (\<lambda>i.
     let t = map (\<lambda>j. compress_d4 (coeffs a ! (8 * i + j))) [0..<8] in pack_d4 t)"

definition decompress_d4 :: "u8 \<Rightarrow> i16" where
  "decompress_d4 x = to_i16 (signed_drop_bit 4 (promote_u16 (ucast x) * KYBER_Q + 8))"

definition poly_decompress :: "bytes \<Rightarrow> poly" where
  "poly_decompress a = \<lparr> coeffs = blocks (KYBER_N div 2) (\<lambda>i.
     [decompress_d4 (a ! i AND 15), decompress_d4 (drop_bit 4 (a ! i))]) \<rparr>"

definition pack_d12 :: "u16 list \<Rightarrow> bytes" where
  "pack_d12 t =
    [to_u8 (drop_bit 0 (promote_u16 (t ! 0))),
     to_u8 (drop_bit 8 (promote_u16 (t ! 0)) OR push_bit 4 (promote_u16 (t ! 1))),
     to_u8 (drop_bit 4 (promote_u16 (t ! 1)))]"

definition poly_tobytes :: "poly \<Rightarrow> bytes" where
  "poly_tobytes a = blocks (KYBER_N div 2) (\<lambda>i.
     let t0 = to_positive_u16 (coeffs a ! (2 * i));
         t1 = to_positive_u16 (coeffs a ! (2 * i + 1))
     in pack_d12 [t0, t1])"

definition unpack_d12 :: "bytes \<Rightarrow> u16 list" where
  "unpack_d12 a =
    [to_i16 ((drop_bit 0 (promote_u8 (a ! 0)) OR push_bit 8 (promote_u16 (ucast (a ! 1)))) AND 0xFFF),
     to_i16 ((drop_bit 4 (promote_u8 (a ! 1)) OR push_bit 4 (promote_u16 (ucast (a ! 2)))) AND 0xFFF)]"

definition poly_frombytes :: "bytes \<Rightarrow> poly" where
  "poly_frombytes a = \<lparr> coeffs = blocks (KYBER_N div 2) (\<lambda>i. unpack_d12 (drop (3 * i) a)) \<rparr>"

definition poly_frommsg :: "bytes \<Rightarrow> poly" where
  "poly_frommsg msg = \<lparr> coeffs = blocks (KYBER_N div 8) (\<lambda>i.
     map (\<lambda>j. cmov_int16 0 (to_i16 ((KYBER_Q + 1) div 2)) (to_i16 (drop_bit j (promote_u8 (msg ! i)) AND 1)))
       [0..<8]) \<rparr>"

definition tomsg_bit :: "i16 \<Rightarrow> u32" where
  "tomsg_bit c =
     (let t = scast c;
          t = push_bit 1 t;
          t = t + 1665;
          t = t * 80635;
          t = drop_bit 28 t
      in t AND 1)"

definition tomsg_byte :: "u32 list \<Rightarrow> u8" where
  "tomsg_byte t = fold (\<lambda>j m. to_u8 (promote_u8 m OR push_bit j (t ! j))) [0..<8] 0"

definition poly_tomsg :: "poly \<Rightarrow> bytes" where
  "poly_tomsg a = map (\<lambda>i. tomsg_byte (map (\<lambda>j. tomsg_bit (coeffs a ! (8 * i + j))) [0..<8]))
     [0..<KYBER_N div 8]"

section \<open>The packing routines meet their contract\<close>

lemma all_less_upt: "(\<forall>i<n. P i) \<longleftrightarrow> list_all P [0..<n]"
  by (auto simp: list_all_iff)

lemma bit_u8_ge: "8 \<le> n \<Longrightarrow> \<not> bit (b :: u8) n"
  using bit_imp_le_length [of b n] by auto

definition unpack_d4 :: "bytes \<Rightarrow> u8 list" where
  "unpack_d4 a = blocks 4 (\<lambda>i. [a ! i AND 15, drop_bit 4 (a ! i)])"

lemma pack_d4_bits:
  assumes "length t = 8" and "fits 4 t"
  shows "\<forall>i<8. \<forall>j<4. bit_at (pack_d4 t) (4 * i + j) = bit (t ! i) j"
proof -
  have "\<not> bit (t ! i) j" if "i < 8" "4 \<le> j" for i j
    using fits_nth [OF assms(2)] assms(1) that by simp
  then show ?thesis
    unfolding all_less_upt
    by (simp add: upt_rec, simp add: bit_at_def pack_d4_def bit_simps, simp add: eval_nat_numeral)
qed

lemma unpack_d4_bits:
  assumes "length b = 4"
  shows "\<forall>i<8. \<forall>j<8. bit (unpack_d4 b ! i) j \<longleftrightarrow> j < 4 \<and> bit_at b (4 * i + j)"
  unfolding all_less_upt
  by (simp add: upt_rec, simp add: bit_at_def unpack_d4_def upt_rec bit_simps bit_u8_ge, simp add: eval_nat_numeral)

lemma pack_d12_bits:
  assumes "length t = 2" and "fits 12 t"
  shows "\<forall>i<2. \<forall>j<12. bit_at (pack_d12 t) (12 * i + j) = bit (t ! i) j"
proof -
  have "\<not> bit (t ! i) j" if "i < 2" "12 \<le> j" for i j
    using fits_nth [OF assms(2)] assms(1) that by simp
  then show ?thesis
    unfolding all_less_upt
    by (simp add: upt_rec, simp add: bit_at_def pack_d12_def bit_simps, simp add: eval_nat_numeral)
qed

lemma unpack_d12_bits:
  assumes "length b = 3"
  shows "\<forall>i<2. \<forall>j<16. bit (unpack_d12 b ! i) j \<longleftrightarrow> j < 12 \<and> bit_at b (12 * i + j)"
  unfolding all_less_upt
  by (simp add: upt_rec, simp add: bit_at_def unpack_d12_def upt_rec bit_simps bit_u8_ge, simp add: eval_nat_numeral)

interpretation d4: bit_packing 4 8 4 pack_d4 unpack_d4
proof
  fix t :: "u8 list" and b :: bytes and i j :: nat
  show "length (pack_d4 t) = 4"
    by (simp add: pack_d4_def)
  show "length (unpack_d4 b) = 8"
    by (simp add: unpack_d4_def upt_rec)
  show "bit_at (pack_d4 t) (4 * i + j) = bit (t ! i) j"
    if "length t = 8" "fits 4 t" "i < 8" "j < 4"
    using pack_d4_bits that by blast
  show "bit (unpack_d4 b ! i) j \<longleftrightarrow> j < 4 \<and> bit_at b (4 * i + j)" if "length b = 4" "i < 8"
    using unpack_d4_bits [OF that(1)] that(2) bit_u8_ge [of j "unpack_d4 b ! i"]
    by (cases "j < 8") auto
qed simp_all

lemma bit_u16_ge: "16 \<le> n \<Longrightarrow> \<not> bit (b :: u16) n"
  using bit_imp_le_length [of b n] by auto

interpretation d12: bit_packing 12 2 3 pack_d12 unpack_d12
proof
  fix t :: "u16 list" and b :: bytes and i j :: nat
  show "length (pack_d12 t) = 3"
    by (simp add: pack_d12_def)
  show "length (unpack_d12 b) = 2"
    by (simp add: unpack_d12_def)
  show "bit_at (pack_d12 t) (12 * i + j) = bit (t ! i) j"
    if "length t = 2" "fits 12 t" "i < 2" "j < 12"
    using pack_d12_bits that by blast
  show "bit (unpack_d12 b ! i) j \<longleftrightarrow> j < 12 \<and> bit_at b (12 * i + j)" if "length b = 3" "i < 2"
    using unpack_d12_bits [OF that(1)] that(2) bit_u16_ge [of j "unpack_d12 b ! i"]
    by (cases "j < 16") auto
qed simp_all

text \<open>Message bits: eight one-bit values per byte.\<close>

definition pack_d1 :: "u32 list \<Rightarrow> bytes" where
  "pack_d1 t = [tomsg_byte t]"

definition unpack_d1 :: "bytes \<Rightarrow> u32 list" where
  "unpack_d1 b = map (\<lambda>j. drop_bit j (promote_u8 (b ! 0)) AND 1) [0..<8]"

lemma bit_tomsg_fold:
  assumes "\<And>i j. i < n \<Longrightarrow> \<not> bit (t ! i) (Suc j)" and "n \<le> 8"
  shows "bit (fold (\<lambda>j m. to_u8 (promote_u8 m OR push_bit j (t ! j))) [0..<n] 0) k
    \<longleftrightarrow> k < n \<and> bit (t ! k) 0"
  using assms
proof (induction n)
  case (Suc n)
  have "bit (t ! n) (k - n) \<longleftrightarrow> k \<le> n \<and> bit (t ! n) 0" if "n \<le> k"
    using Suc.prems(1) [of n "k - Suc n"] that by (cases "k = n") (simp_all add: Suc_diff_Suc)
  then show ?case
    using Suc by (auto simp: bit_simps less_Suc_eq)
qed simp

lemma pack_d1_bits:
  assumes "length t = 8" and "fits 1 t"
  shows "\<forall>i<8. bit_at (pack_d1 t) i = bit (t ! i) 0"
proof -
  have "\<not> bit (t ! i) (Suc j)" if "i < 8" for i j
    using fits_nth [OF assms(2)] assms(1) that by simp
  then show ?thesis
    by (auto simp: bit_at_def pack_d1_def tomsg_byte_def bit_tomsg_fold)
qed

lemma unpack_d1_bits:
  "\<forall>i<8. bit (unpack_d1 b ! i) j \<longleftrightarrow> j < 1 \<and> bit_at b i"
  unfolding all_less_upt
  by (simp add: upt_rec, simp add: bit_at_def unpack_d1_def upt_rec bit_simps, auto simp: eval_nat_numeral)

interpretation d1: bit_packing 1 8 1 pack_d1 unpack_d1
proof
  fix t :: "u32 list" and b :: bytes and i j :: nat
  show "length (pack_d1 t) = 1"
    by (simp add: pack_d1_def)
  show "length (unpack_d1 b) = 8"
    by (simp add: unpack_d1_def)
  show "bit_at (pack_d1 t) (1 * i + j) = bit (t ! i) j"
    if "length t = 8" "fits 1 t" "i < 8" "j < 1"
    using pack_d1_bits that by simp
  show "bit (unpack_d1 b ! i) j \<longleftrightarrow> j < 1 \<and> bit_at b (1 * i + j)" if "length b = 1" "i < 8"
    using unpack_d1_bits [of b j] that(2) by auto
qed simp_all

section \<open>Rounding\<close>

text \<open>\<open>Compress\<close> and \<open>Decompress\<close> of FIPS 203 (section 4.2.1), on integers.\<close>

definition Compress :: "nat \<Rightarrow> int \<Rightarrow> int" where
  "Compress d x = (2 ^ d * (x mod 3329) + 1664) div 3329 mod 2 ^ d"

definition Decompress :: "nat \<Rightarrow> int \<Rightarrow> int" where
  "Decompress d y = (3329 * y + 2 ^ (d - 1)) div 2 ^ d"

lemma to_i16_add: "to_i16 (x + y) = to_i16 x + to_i16 y"
proof transfer
  fix x y :: int
  have "take_bit 16 (take_bit 32 x + take_bit 32 y)
      = take_bit 16 (take_bit 16 (take_bit 32 x) + take_bit 16 (take_bit 32 y))"
    by (rule take_bit_add [symmetric])
  also have "\<dots> = take_bit 16 (take_bit 16 x + take_bit 16 y)"
    by simp
  also have "\<dots> = take_bit 16 (take_bit 32 (x + y))"
    by (simp add: take_bit_add)
  finally show "take_bit LENGTH(16) (take_bit LENGTH(32) (x + y))
      = take_bit LENGTH(16) (take_bit LENGTH(32) x + take_bit LENGTH(32) y)"
    by simp
qed

lemma to_positive_u16_eq: "to_positive_u16 t = to_positive t"
proof -
  have "to_i16 (promote_u16 t) = to_i16 (promote16 t)"
    by (rule bit_word_eqI) (auto simp: bit_simps)
  then show ?thesis
    by (simp only: to_positive_u16_def to_positive_def to_i16_add)
qed

lemma sint_to_positive: "sint (to_positive u) = (if sint u < 0 then sint u + 3329 else sint u)"
proof -
  have "sint (signed_drop_bit 15 (promote16 u)) = sint u div 2 ^ 15"
    by (simp add: sint_signed_drop_bit_eq drop_bit_eq_div)
  also have "\<dots> = sint (if sint u < 0 then - 1 else 0 :: i32)"
    using sint_i16_range [of u] by (auto simp: div_eq_minus1 div_pos_pos_trivial)
  finally have "signed_drop_bit 15 (promote16 u) = (if sint u < 0 then - 1 else 0)"
    by (rule sint_inj)
  then show ?thesis
    using sint_i16_range [of u]
    by (auto simp: to_positive_def params sint_to_i16 sint_i32_arith signed_take_bit_id)
qed

lemma to_positive_mod:
  assumes "- 3329 \<le> sint u" and "sint u < 3329"
  shows "sint (to_positive u) = sint u mod 3329"
proof (cases "sint u < 0")
  case True
  then have "sint u mod 3329 = sint u + 3329"
    using assms(1) mod_pos_pos_trivial [of "sint u + 3329" 3329] by simp
  then show ?thesis
    using True by (simp add: sint_to_positive)
qed (use assms in \<open>simp add: sint_to_positive\<close>)

text \<open>The 32-bit product may wrap around; the bits that are kept are those of the exact product.\<close>

lemma product_bits:
  assumes "d \<le> 4"
  shows "uint (drop_bit 28 (word_of_int n :: u32) AND mask d) = n div 2 ^ 28 mod 2 ^ d"
proof -
  have "uint (drop_bit 28 (word_of_int n :: u32) AND mask d)
      = take_bit d (drop_bit 28 (take_bit 32 n))"
    by (simp only: take_bit_eq_mask [symmetric])
      (simp add: unsigned_take_bit_eq unsigned_drop_bit_eq unsigned_of_int)
  also have "\<dots> = take_bit d (drop_bit 28 n)"
    using assms by (simp add: drop_bit_take_bit min_def)
  finally show ?thesis
    by (simp add: take_bit_eq_mod drop_bit_eq_div)
qed

text \<open>Multiplication by the rounded reciprocal of \<open>q\<close> computes the quotient.\<close>

lemma reciprocal_28:
  fixes y :: int
  assumes "0 \<le> y" and "y < 3329 * 53"
  shows "(y + 1) * 80635 div 2 ^ 28 = y div 3329"
proof -
  define k r where "k = y div 3329" and "r = y mod 3329"
  have y: "y = 3329 * k + r" and r: "0 \<le> r" "r < 3329"
    by (simp_all add: k_def r_def)
  have "0 \<le> k" "k \<le> 52"
    using assms y r by linarith+
  then have "0 \<le> (y + 1) * 80635 - 2 ^ 28 * k" "(y + 1) * 80635 - 2 ^ 28 * k < 2 ^ 28"
    unfolding y using r by simp_all
  then show ?thesis
    unfolding k_def [symmetric] by (intro int_div_pos_eq [where r = "(y + 1) * 80635 - 2 ^ 28 * k"]) simp_all
qed

lemma compress_d4_eq:
  assumes "- 3329 \<le> sint u" and "sint u < 3329"
  shows "int (unat (compress_d4 u)) = Compress 4 (sint u)"
proof -
  define x where "x = sint u mod 3329"
  have x: "0 \<le> x" "x < 3329" and pos: "sint (to_positive u) = x"
    using to_positive_mod [OF assms] by (simp_all add: x_def)
  have "promote16 (to_positive u) = (word_of_int x :: u32)"
    by (simp add: pos [symmetric] of_int_sint)
  then have d: "drop_bit 28 ((push_bit 4 (promote16 (to_positive u)) + 1665) * 80635) AND 0xf
      = (drop_bit 28 (word_of_int (((16 * x + 1664) + 1) * 80635)) AND mask 4 :: u32)"
    by (simp add: push_bit_eq_mult mask_eq_exp_minus_1 algebra_simps)
  have "uint (drop_bit 28 (word_of_int (((16 * x + 1664) + 1) * 80635)) AND mask 4 :: u32)
      = (16 * x + 1664) div 3329 mod 2 ^ 4"
    by (subst product_bits, simp, subst reciprocal_28) (use x in simp_all)
  moreover from this have "uint (to_u8 (drop_bit 28 (word_of_int (((16 * x + 1664) + 1) * 80635)) AND mask 4))
      = (16 * x + 1664) div 3329 mod 2 ^ 4"
    by (simp only: unsigned_ucast_eq) (simp add: take_bit_int_eq_self)
  ultimately show ?thesis
    unfolding compress_d4_def Let_def d Compress_def x_def [symmetric] by simp
qed

lemma tomsg_bit_eq:
  assumes "\<bar>sint c\<bar> \<le> 1664"
  shows "tomsg_bit c = of_bool (833 \<le> \<bar>sint c\<bar>)"
proof -
  define n where "n = (2 * sint c + 1665) * 80635"
  have "(scast c :: u32) = word_of_int (sint c)"
    by (simp add: of_int_sint)
  then have "tomsg_bit c = drop_bit 28 (word_of_int n) AND mask 1"
    by (simp add: tomsg_bit_def Let_def n_def push_bit_eq_mult mask_eq_exp_minus_1 algebra_simps)
  then have "uint (tomsg_bit c) = n div 2 ^ 28 mod 2 ^ 1"
    by (simp only: product_bits)
  moreover have "n div 2 ^ 28 mod 2 ^ 1 = of_bool (833 \<le> \<bar>sint c\<bar>)"
  proof -
    consider "833 \<le> sint c" | "\<bar>sint c\<bar> \<le> 832" | "sint c \<le> - 833"
      by linarith
    then show ?thesis
    proof cases
      case 1
      then have "n div 2 ^ 28 = 1"
        using assms by (intro int_div_pos_eq [where r = "n - 2 ^ 28"]) (simp_all add: n_def)
      then show ?thesis
        using 1 by simp
    next
      case 2
      then have "n div 2 ^ 28 = 0"
        by (intro int_div_pos_eq [where r = n]) (simp_all add: n_def)
      then show ?thesis
        using 2 by simp
    next
      case 3
      then have "n div 2 ^ 28 = - 1"
        using assms by (intro int_div_pos_eq [where r = "n + 2 ^ 28"]) (simp_all add: n_def)
      then show ?thesis
        using 3 by simp
    qed
  qed
  ultimately show ?thesis
    by (simp add: word_uint_eq_iff of_bool_def split: if_splits)
qed
lemma decompress_d4_eq:
  assumes "unat x \<le> 15"
  shows "sint (decompress_d4 x) = Decompress 4 (int (unat x))"
proof -
  let ?y = "promote_u16 (ucast x)"
  have "unat ?y = unat x"
    using unat_ucast_up [of "ucast x :: u16", where 'b = 32] unat_ucast_up [of x, where 'b = 16] by simp
  then have y: "sint ?y = int (unat x)"
    using assms by (subst sint_unat) simp_all
  define n where "n = int (unat x)"
  have n: "0 \<le> n" "n \<le> 15"
    using assms by (simp_all only: n_def)
  then have "sint (?y * KYBER_Q + 8) = 3329 * n + 8"
    unfolding sint_i32_arith y n_def [symmetric] by (simp add: params signed_take_bit_id)
  then have "sint (signed_drop_bit 4 (?y * KYBER_Q + 8)) = (3329 * n + 8) div 16"
    by (simp add: sint_signed_drop_bit_eq drop_bit_eq_div)
  moreover have "0 \<le> (3329 * n + 8) div 16" "(3329 * n + 8) div 16 < 32768"
    using n by linarith+
  ultimately show ?thesis
    unfolding n_def [symmetric] by (simp add: decompress_d4_def Decompress_def sint_to_i16 signed_take_bit_id)
qed

text \<open>Compression to \<open>d\<close> bits and back moves a coefficient by at most \<open>q / 2^(d + 1)\<close>, rounded.\<close>

lemma Decompress_Compress_4:
  obtains e :: int where "\<bar>e\<bar> \<le> 104"
    and "Decompress 4 (Compress 4 x) mod 3329 = (x + e) mod 3329"
proof -
  define y where "y = x mod 3329"
  define k where "k = (16 * y + 1664) div 3329"
  define D where "D = (3329 * k + 8) div 16"
  have y: "0 \<le> y" "y < 3329"
    by (simp_all add: y_def)
  have k: "3329 * k \<le> 16 * y + 1664" "16 * y + 1664 < 3329 * k + 3329"
    unfolding k_def by linarith+
  have D: "16 * D \<le> 3329 * k + 8" "3329 * k + 8 < 16 * D + 16"
    unfolding D_def by linarith+
  have xy: "(x + (D - y)) mod 3329 = D mod 3329"
  proof -
    have "x + (D - y) = D + 3329 * (x div 3329)"
      unfolding y_def using div_mult_mod_eq [of x 3329] by linarith
    then show ?thesis
      by (simp only: mod_mult_self2)
  qed
  have "0 \<le> k" "k \<le> 16"
    using y k by linarith+
  moreover have "k \<noteq> 16 \<Longrightarrow> Decompress 4 (Compress 4 x) = D"
    using \<open>0 \<le> k\<close> \<open>k \<le> 16\<close>
    by (simp add: Decompress_def Compress_def y_def [symmetric] k_def [symmetric] D_def)
  moreover have "k = 16 \<Longrightarrow> Decompress 4 (Compress 4 x) mod 3329 = D mod 3329"
    by (simp add: Decompress_def Compress_def y_def [symmetric] k_def [symmetric] D_def)
  ultimately have "Decompress 4 (Compress 4 x) mod 3329 = (x + (D - y)) mod 3329"
    unfolding xy by auto
  moreover have "\<bar>D - y\<bar> \<le> 104"
    using k D by linarith
  ultimately show ?thesis
    using that by blast
qed

section \<open>Whole polynomials\<close>

text \<open>The arrays of a \<open>poly\<close> in a range, as the reductions leave them.\<close>

definition poly_bounded :: "int \<Rightarrow> poly \<Rightarrow> bool" where
  "poly_bounded B a \<longleftrightarrow> length (coeffs a) = 256 \<and> (\<forall>c\<in>set (coeffs a). \<bar>sint c\<bar> \<le> B)"

lemma poly_boundedI:
  assumes "length (coeffs a) = 256" and "\<And>i. i < 256 \<Longrightarrow> \<bar>sint (coeffs a ! i)\<bar> \<le> B"
  shows "poly_bounded B a"
  using assms by (auto simp: poly_bounded_def in_set_conv_nth)

lemma poly_boundedD:
  assumes "poly_bounded B a"
  shows "length (coeffs a) = 256" and "i < 256 \<Longrightarrow> \<bar>sint (coeffs a ! i)\<bar> \<le> B"
  using assms by (auto simp: poly_bounded_def)

lemma poly_bounded_mono: "poly_bounded B a \<Longrightarrow> B \<le> C \<Longrightarrow> poly_bounded C a"
  by (force simp: poly_bounded_def)

subsection \<open>\<open>poly_compress\<close> and \<open>poly_decompress\<close>\<close>

lemma poly_compress_blocks:
  assumes "length (coeffs a) = 256"
  shows "poly_compress a = blocks 32 (\<lambda>i. pack_d4 (block_of 8 i (map compress_d4 (coeffs a))))"
proof -
  have n: "KYBER_N div 8 = 32"
    by (simp add: params)
  show ?thesis
    unfolding poly_compress_def Let_def n
    by (intro blocks_cong arg_cong [of _ _ pack_d4] map_nth_block) (use assms in simp_all)
qed

lemma poly_decompress_blocks:
  assumes "length b = 128"
  shows "coeffs (poly_decompress b) = map decompress_d4 (blocks 32 (\<lambda>i. unpack_d4 (block_of 4 i b)))"
proof -
  have "blocks 32 (\<lambda>i. unpack_d4 (block_of 4 i b)) = blocks 128 (\<lambda>i. [b ! i AND 15, drop_bit 4 (b ! i)])"
    (is "?l = ?r")
  proof (rule nth_equalityI)
    have len: "length ?r = 128 * 2"
      by (rule length_blocks) simp
    then show "length ?l = length ?r"
      using d4.length_unpack_blocks [of b 32] assms by simp
    fix m assume "m < length ?l"
    then have m: "m < 256"
      using d4.length_unpack_blocks [of b 32] assms by simp
    have "?l ! m = unpack_d4 (block_of 4 (m div 8) b) ! (m mod 8)"
      using m assms by (intro nth_blocks_div_mod) (simp_all add: d4.length_unpack)
    also have "\<dots> = [block_of 4 (m div 8) b ! (m mod 8 div 2) AND 15,
        drop_bit 4 (block_of 4 (m div 8) b ! (m mod 8 div 2))] ! (m mod 8 mod 2)"
      unfolding unpack_d4_def by (intro nth_blocks_div_mod) simp_all
    also have "m mod 8 mod 2 = m mod 2"
      by (simp add: mod_mod_cancel)
    also have "block_of 4 (m div 8) b ! (m mod 8 div 2) = b ! (m div 8 * 4 + m mod 8 div 2)"
      using m assms by (intro nth_block_of [where n = 32]) simp_all
    also have "m div 8 * 4 + m mod 8 div 2 = m div 2"
      by presburger
    also have "[b ! (m div 2) AND 15, drop_bit 4 (b ! (m div 2))] ! (m mod 2) = ?r ! m"
      using m by (intro nth_blocks_div_mod [symmetric]) simp_all
    finally show "?l ! m = ?r ! m" .
  qed
  then show ?thesis
    by (simp add: poly_decompress_def params map_concat comp_def)
qed

lemma fits_compress:
  assumes "poly_bounded 3328 a"
  shows "fits 4 (map compress_d4 (coeffs a))"
proof -
  have "unat (compress_d4 c) < 16" if "c \<in> set (coeffs a)" for c
  proof -
    have "\<bar>sint c\<bar> \<le> 3328"
      using assms that by (simp add: poly_bounded_def)
    then have "int (unat (compress_d4 c)) = Compress 4 (sint c)"
      by (intro compress_d4_eq) linarith+
    then have "int (unat (compress_d4 c)) < 16"
      by (simp add: Compress_def)
    then show ?thesis
      by linarith
  qed
  then show ?thesis
    by (simp add: fits_unat)
qed

lemma length_poly_compress [len_simps]:
  assumes "length (coeffs a) = 256"
  shows "length (poly_compress a) = 128"
  unfolding poly_compress_blocks [OF assms]
  using d4.length_pack_blocks [of 32 "\<lambda>i. block_of 8 i (map compress_d4 (coeffs a))"] assms
  by simp

lemma length_poly_decompress [len_simps]: "length b = 128 \<Longrightarrow> length (coeffs (poly_decompress b)) = 256"
  using d4.length_unpack_blocks [of b 32] by (simp add: poly_decompress_blocks)

lemma poly_compress_bits:
  assumes a: "poly_bounded 3328 a" and i: "i < 256" and j: "j < 4"
  shows "bit_at (poly_compress a) (4 * i + j) = bit (Compress 4 (sint (coeffs a ! i))) j"
proof -
  let ?t = "map compress_d4 (coeffs a)"
  note len = poly_boundedD(1) [OF a]
  have lt: "length ?t = 32 * 8"
    using len by simp
  have fits: "fits 4 (block_of 8 i ?t)" for i
    using fits_compress [OF a] by (rule fits_block_of)
  have "bit_at (poly_compress a) (4 * i + j) = bit (block_of 8 (i div 8) ?t ! (i mod 8)) j"
    unfolding poly_compress_blocks [OF len]
    using length_block_of [OF lt] fits i j by (intro d4.bit_pack_blocks) simp_all
  also have "block_of 8 (i div 8) ?t ! (i mod 8) = ?t ! i"
    using i nth_block_of [OF lt, of "i div 8" "i mod 8"] by simp
  also have "bit (?t ! i) j = bit (int (unat (compress_d4 (coeffs a ! i)))) j"
    using i j len by (simp add: bit_of_nat_iff bit_unsigned_iff)
  also have "int (unat (compress_d4 (coeffs a ! i))) = Compress 4 (sint (coeffs a ! i))"
    using poly_boundedD(2) [OF a i] by (intro compress_d4_eq) linarith+
  finally show ?thesis .
qed

lemma poly_decompress_nth:
  assumes b: "length b = 128" and i: "i < 256"
  shows "sint (coeffs (poly_decompress b) ! i) = Decompress 4 (int (ByteDecode 4 b i))"
proof -
  have u: "unat (blocks 32 (\<lambda>i. unpack_d4 (block_of 4 i b)) ! i) = ByteDecode 4 b i"
    using b i by (intro d4.unat_unpack_blocks) simp_all
  have "coeffs (poly_decompress b) ! i = decompress_d4 (blocks 32 (\<lambda>i. unpack_d4 (block_of 4 i b)) ! i)"
    using d4.length_unpack_blocks [of b 32] b i by (simp add: poly_decompress_blocks)
  then show ?thesis
    using u ByteDecode_less [of 4 b i] by (simp only: decompress_d4_eq) (simp add: decompress_d4_eq)
qed

lemma poly_decompress_compress:
  assumes a: "poly_bounded 3328 a" and i: "i < 256"
  shows "sint (coeffs (poly_decompress (poly_compress a)) ! i) = Decompress 4 (Compress 4 (sint (coeffs a ! i)))"
proof -
  note len = poly_boundedD(1) [OF a]
  have "blocks 32 (\<lambda>i. unpack_d4 (block_of 4 i (poly_compress a))) = map compress_d4 (coeffs a)"
    unfolding poly_compress_blocks [OF len]
    using d4.unpack_pack_blocks [of "map compress_d4 (coeffs a)" 32] fits_compress [OF a] len by simp
  then have "coeffs (poly_decompress (poly_compress a)) ! i = decompress_d4 (compress_d4 (coeffs a ! i))"
    using i len by (simp add: poly_decompress_blocks length_poly_compress)
  moreover have "int (unat (compress_d4 (coeffs a ! i))) = Compress 4 (sint (coeffs a ! i))"
    using poly_boundedD(2) [OF a i] by (intro compress_d4_eq) linarith+
  moreover have "Compress 4 (sint (coeffs a ! i)) < 16"
    by (simp add: Compress_def)
  moreover from calculation have "unat (compress_d4 (coeffs a ! i)) \<le> 15"
    by linarith
  ultimately show ?thesis
    by (simp only: decompress_d4_eq)
qed


subsection \<open>\<open>poly_tobytes\<close> and \<open>poly_frombytes\<close>\<close>

lemma poly_tobytes_blocks:
  assumes "length (coeffs a) = 256"
  shows "poly_tobytes a = blocks 128 (\<lambda>i. pack_d12 (block_of 2 i (map to_positive (coeffs a))))"
proof -
  have n: "KYBER_N div 2 = 128"
    by (simp add: params)
  have "[to_positive (coeffs a ! (2 * i)), to_positive (coeffs a ! (2 * i + 1))]
      = block_of 2 i (map to_positive (coeffs a))" if "i < 128" for i
    using map_nth_block [of "coeffs a" 128 2 i to_positive] assms that by (simp add: upt_rec)
  then show ?thesis
    unfolding poly_tobytes_def Let_def n to_positive_u16_eq by (intro blocks_cong arg_cong [of _ _ pack_d12])
qed

lemma poly_frombytes_blocks:
  assumes "length b = 384"
  shows "coeffs (poly_frombytes b) = blocks 128 (\<lambda>i. unpack_d12 (block_of 3 i b))"
proof -
  have n: "KYBER_N div 2 = 128"
    by (simp add: params)
  have "unpack_d12 (drop (3 * i) b) = unpack_d12 (block_of 3 i b)" if "i < 128" for i
    using length_block_of [of b 128 3 i] assms that by (simp add: unpack_d12_def mult.commute)
  then show ?thesis
    unfolding poly_frombytes_def poly.simps n by (intro blocks_cong)
qed

lemma length_poly_tobytes [len_simps]: "length (coeffs a) = 256 \<Longrightarrow> length (poly_tobytes a) = 384"
  unfolding poly_tobytes_blocks
  using d12.length_pack_blocks [of 128 "\<lambda>i. block_of 2 i (map to_positive (coeffs a))"] by simp

lemma length_poly_frombytes [len_simps]: "length b = 384 \<Longrightarrow> length (coeffs (poly_frombytes b)) = 256"
  using d12.length_unpack_blocks [of b 128] by (simp add: poly_frombytes_blocks)

text \<open>Serialising stores the representative in \<open>[0, q)\<close> of every reduced coefficient.\<close>

lemma to_positive_range:
  assumes "\<bar>sint c\<bar> \<le> 3328"
  shows "0 \<le> sint (to_positive c)" and "sint (to_positive c) < 3329"
    and "unat (to_positive c) < 2 ^ 12" and "zq_of (to_positive c) = zq_of c"
proof -
  have m: "sint (to_positive c) = sint c mod 3329"
    using assms by (intro to_positive_mod) linarith+
  then show r: "0 \<le> sint (to_positive c)" "sint (to_positive c) < 3329"
    by simp_all
  have "uint (to_positive c) = sint (to_positive c)"
    using r by (intro uint_eq_sint) simp
  then have "unat (to_positive c) < 4096"
    using r uint_nat [of "to_positive c"] by linarith
  then show "unat (to_positive c) < 2 ^ 12"
    by simp
  show "zq_of (to_positive c) = zq_of c"
    unfolding zq_of_eq_iff m by simp
qed

lemma fits_to_positive:
  assumes "poly_bounded 3328 a"
  shows "fits 12 (map to_positive (coeffs a))"
  using assms to_positive_range(3) by (auto simp: fits_unat poly_bounded_def)

lemma poly_frombytes_tobytes:
  assumes "poly_bounded 3328 a"
  shows "poly_frombytes (poly_tobytes a) = \<lparr> coeffs = map to_positive (coeffs a) \<rparr>"
proof (rule poly.equality)
  have len: "length (coeffs a) = 256"
    using assms by (rule poly_boundedD)
  show "coeffs (poly_frombytes (poly_tobytes a)) = coeffs \<lparr> coeffs = map to_positive (coeffs a) \<rparr>"
    unfolding poly_frombytes_blocks [OF length_poly_tobytes [OF len]]
    unfolding poly_tobytes_blocks [OF len]
    using d12.unpack_pack_blocks [of "map to_positive (coeffs a)" 128] fits_to_positive [OF assms] len
    by simp
qed simp

lemma to_positive_nonneg: "0 \<le> sint c \<Longrightarrow> to_positive c = c"
  by (rule sint_inj) (simp add: sint_to_positive)

lemma poly_frombytes_nth:
  assumes "length b = 384" and "i < 256"
  shows "unat (coeffs (poly_frombytes b) ! i) = ByteDecode 12 b i"
    and "sint (coeffs (poly_frombytes b) ! i) = int (ByteDecode 12 b i)"
proof -
  show u: "unat (coeffs (poly_frombytes b) ! i) = ByteDecode 12 b i"
    unfolding poly_frombytes_blocks [OF assms(1)]
    using assms by (intro d12.unat_unpack_blocks) simp_all
  then show "sint (coeffs (poly_frombytes b) ! i) = int (ByteDecode 12 b i)"
    using ByteDecode_less [of 12 b i] by (subst sint_unat) simp_all
qed

lemma poly_tobytes_frombytes:
  assumes "length b = 384"
  shows "poly_tobytes (poly_frombytes b) = b"
proof -
  have "0 \<le> sint (coeffs (poly_frombytes b) ! i)" if "i < 256" for i
    unfolding poly_frombytes_nth(2) [OF assms that] by simp
  then have "map to_positive (coeffs (poly_frombytes b)) = coeffs (poly_frombytes b)"
    using length_poly_frombytes [OF assms] by (intro nth_equalityI) (simp_all add: to_positive_nonneg)
  then show ?thesis
    unfolding poly_tobytes_blocks [OF length_poly_frombytes [OF assms]]
    using d12.pack_unpack_blocks [of b 128] assms by (simp add: poly_frombytes_blocks)
qed

lemma poly_tobytes_bits:
  assumes a: "poly_bounded 3328 a" and i: "i < 256" and j: "j < 12"
  shows "bit_at (poly_tobytes a) (12 * i + j) = bit (sint (coeffs a ! i) mod 3329) j"
proof -
  let ?t = "map to_positive (coeffs a)"
  note len = poly_boundedD(1) [OF a] and c = poly_boundedD(2) [OF a i]
  have lt: "length ?t = 128 * 2"
    using len by simp
  have "bit_at (poly_tobytes a) (12 * i + j) = bit (block_of 2 (i div 2) ?t ! (i mod 2)) j"
    unfolding poly_tobytes_blocks [OF len]
    using length_block_of [OF lt] fits_block_of [OF fits_to_positive [OF a]] i j
    by (intro d12.bit_pack_blocks) simp_all
  also have "block_of 2 (i div 2) ?t ! (i mod 2) = ?t ! i"
    using i nth_block_of [OF lt, of "i div 2" "i mod 2"] by simp
  also have "bit (?t ! i) j = bit (sint (to_positive (coeffs a ! i))) j"
    using i j len by (simp add: bit_sint_iff)
  also have "sint (to_positive (coeffs a ! i)) = sint (coeffs a ! i) mod 3329"
    using c by (intro to_positive_mod) linarith+
  finally show ?thesis .
qed

subsection \<open>\<open>poly_frommsg\<close> and \<open>poly_tomsg\<close>\<close>

lemma poly_tomsg_blocks:
  assumes "length (coeffs a) = 256"
  shows "poly_tomsg a = blocks 32 (\<lambda>i. pack_d1 (block_of 8 i (map tomsg_bit (coeffs a))))"
proof -
  have n: "KYBER_N div 8 = 32"
    by (simp add: params)
  have "poly_tomsg a = blocks 32 (\<lambda>i. pack_d1 (map (\<lambda>j. tomsg_bit (coeffs a ! (8 * i + j))) [0..<8]))"
    by (simp add: poly_tomsg_def n pack_d1_def)
  also have "\<dots> = blocks 32 (\<lambda>i. pack_d1 (block_of 8 i (map tomsg_bit (coeffs a))))"
    by (intro blocks_cong arg_cong [of _ _ pack_d1] map_nth_block) (use assms in simp_all)
  finally show ?thesis .
qed

lemma length_poly_tomsg [len_simps, simp]: "length (poly_tomsg a) = 32"
  by (simp add: poly_tomsg_def params)

lemma length_poly_frommsg [len_simps, simp]: "length (coeffs (poly_frommsg m)) = 256"
  unfolding poly_frommsg_def poly.simps by (subst length_blocks [where k = 8]) (simp_all add: params)

lemma poly_frommsg_nth:
  assumes "i < 256"
  shows "coeffs (poly_frommsg m) ! i = (if bit_at m i then 1665 else 0)"
proof -
  have "coeffs (poly_frommsg m) ! i
      = cmov_int16 0 1665 (to_i16 (drop_bit (i mod 8) (promote_u8 (m ! (i div 8))) AND 1))"
    unfolding poly_frommsg_def poly.simps using assms
    by (subst nth_blocks_div_mod [where k = 8]) (simp_all add: params)
  moreover have "to_i16 (drop_bit (i mod 8) (promote_u8 (m ! (i div 8))) AND 1) = of_bool (bit_at m i)"
  proof -
    have "drop_bit (i mod 8) p AND 1 = of_bool (bit p (i mod 8))" for p :: i32
      by (simp add: and_one_eq bit_iff_odd_drop_bit mod_2_eq_odd)
    moreover have "i mod 8 < 32"
      using mod_less_divisor [of 8 i] by linarith
    ultimately show ?thesis
      by (simp add: bit_simps bit_at_def of_bool_def)
  qed
  ultimately show ?thesis
    by (simp add: cmov_int16_eq)
qed

lemma poly_tomsg_bits:
  assumes a: "poly_bounded 1664 a" and i: "i < 256"
  shows "bit_at (poly_tomsg a) i \<longleftrightarrow> 833 \<le> \<bar>sint (coeffs a ! i)\<bar>"
proof -
  let ?t = "map tomsg_bit (coeffs a)"
  note len = poly_boundedD(1) [OF a] and c = poly_boundedD(2) [OF a i]
  have lt: "length ?t = 32 * 8"
    using len by simp
  have fits: "fits 1 ?t"
    using a tomsg_bit_eq by (auto simp: fits_unat poly_bounded_def)
  have "bit_at (poly_tomsg a) (1 * i + 0) = bit (block_of 8 (i div 8) ?t ! (i mod 8)) 0"
    unfolding poly_tomsg_blocks [OF len]
    using length_block_of [OF lt] fits_block_of [OF fits] i by (intro d1.bit_pack_blocks) simp_all
  also have "block_of 8 (i div 8) ?t ! (i mod 8) = ?t ! i"
    using i nth_block_of [OF lt, of "i div 8" "i mod 8"] by simp
  finally show ?thesis
    using i len tomsg_bit_eq [OF c] by simp
qed

text \<open>A message survives noise of up to 831 in every coefficient.\<close>

lemma poly_tomsg_noisy:
  assumes a: "poly_bounded 1664 a" and m: "length m = 32"
    and noise: "\<And>i. i < 256 \<Longrightarrow> \<exists>e. \<bar>e\<bar> \<le> 831 \<and> sint (coeffs a ! i) mod 3329 = (of_bool (bit_at m i) * 1665 + e) mod 3329"
  shows "poly_tomsg a = m"
proof (rule bytes_eqI)
  show "length (poly_tomsg a) = length m"
    using m by simp
  fix i assume "i < 8 * length m"
  then have i: "i < 256"
    using m by simp
  obtain e where e: "\<bar>e\<bar> \<le> 831" "sint (coeffs a ! i) mod 3329 = (of_bool (bit_at m i) * 1665 + e) mod 3329"
    using noise [OF i] by blast
  define s where "s = sint (coeffs a ! i)"
  have s: "\<bar>s\<bar> \<le> 1664"
    using poly_boundedD(2) [OF a i] by (simp add: s_def)
  obtain k where k: "s = of_bool (bit_at m i) * 1665 + e + 3329 * k"
    using e(2) unfolding s_def [symmetric] by (metis mod_eqE mult.commute)
  have "833 \<le> \<bar>s\<bar> \<longleftrightarrow> bit_at m i"
  proof (cases "bit_at m i")
    case True
    then have "k = 0 \<or> k = - 1"
      using k s e(1) by (simp; linarith)
    then show ?thesis
      using True k e(1) by auto
  next
    case False
    then have "k = 0"
      using k s e(1) by (simp; linarith)
    then show ?thesis
      using False k e(1) by simp
  qed
  then show "bit_at (poly_tomsg a) i = bit_at m i"
    using poly_tomsg_bits [OF a i] by (simp add: s_def)
qed

section \<open>Properties\<close>

text \<open>
  \<open>poly_compress\<close> (\<open>poly.c\<close>) writes \<open>ByteEncode_4(Compress_4)\<close> of FIPS 203: bit \<open>j\<close> of the rounded
  quotient of coefficient \<open>i\<close> is bit \<open>4 * i + j\<close> of the output, although the division by \<open>q\<close> is a
  multiplication by a 32-bit reciprocal that wraps.
\<close>

theorem poly_compress_spec:
  assumes "poly_bounded 3328 a" and "i < 256" and "j < 4"
  shows "length (poly_compress a) = 128
    \<and> bit_at (poly_compress a) (4 * i + j) = bit (Compress 4 (sint (coeffs a ! i))) j"
  using poly_compress_bits [OF assms] length_poly_compress [OF poly_boundedD(1) [OF assms(1)]] by blast

theorem poly_compress_spec_witness:
  "length (poly_compress \<lparr> coeffs = replicate 256 1000 \<rparr>) = 128
    \<and> bit_at (poly_compress \<lparr> coeffs = replicate 256 1000 \<rparr>) (4 * 17 + 2)
      = bit (Compress 4 (sint (coeffs \<lparr> coeffs = replicate 256 1000 \<rparr> ! 17))) 2"
  by (rule poly_compress_spec) (simp_all add: poly_bounded_def)

text \<open>
  Decompressing a compressed polynomial loses at most 104 per coefficient modulo \<open>q\<close>, which is the
  rounding error of four bits.
\<close>

theorem poly_compression_error:
  assumes "poly_bounded 3328 a" and "i < 256"
  shows "\<exists>e. \<bar>e\<bar> \<le> 104
    \<and> sint (coeffs (poly_decompress (poly_compress a)) ! i) mod 3329 = (sint (coeffs a ! i) + e) mod 3329"
  unfolding poly_decompress_compress [OF assms] by (metis Decompress_Compress_4)

theorem poly_compression_error_witness:
  "\<exists>e. \<bar>e\<bar> \<le> 104 \<and> sint (coeffs (poly_decompress (poly_compress \<lparr> coeffs = replicate 256 1000 \<rparr>)) ! 5) mod 3329
      = (sint (coeffs \<lparr> coeffs = replicate 256 1000 \<rparr> ! 5) + e) mod 3329"
  by (rule poly_compression_error) (simp_all add: poly_bounded_def)

text \<open>
  \<open>poly_frombytes\<close> followed by \<open>poly_tobytes\<close> is the identity on every 384-byte array, canonical or
  not: the twelve-bit fields are neither reduced nor lost.
\<close>

theorem poly_bytes_roundtrip:
  assumes "length b = 384"
  shows "poly_tobytes (poly_frombytes b) = b"
  using assms by (rule poly_tobytes_frombytes)

theorem poly_bytes_roundtrip_witness: "poly_tobytes (poly_frombytes (replicate 384 0xFF)) = replicate 384 0xFF"
  by (rule poly_bytes_roundtrip) simp

text \<open>
  \<open>poly_tobytes\<close> followed by \<open>poly_frombytes\<close> returns the polynomial with each coefficient in the range
  \<open>-(q-1)..q-1\<close> replaced by its representative in \<open>0..q-1\<close>.
\<close>

theorem poly_serialise_roundtrip:
  assumes "poly_bounded 3328 a" and "i < 256"
  shows "sint (coeffs (poly_frombytes (poly_tobytes a)) ! i) = sint (coeffs a ! i) mod 3329"
proof -
  note c = poly_boundedD(2) [OF assms]
  have "sint (to_positive (coeffs a ! i)) = sint (coeffs a ! i) mod 3329"
    using c by (intro to_positive_mod) linarith+
  then show ?thesis
    using poly_frombytes_tobytes [OF assms(1)] poly_boundedD(1) [OF assms(1)] assms(2) by simp
qed

theorem poly_serialise_roundtrip_witness:
  "sint (coeffs (poly_frombytes (poly_tobytes \<lparr> coeffs = replicate 256 (- 5) \<rparr>)) ! 9)
    = sint (coeffs \<lparr> coeffs = replicate 256 (- 5) \<rparr> ! 9) mod 3329"
  by (rule poly_serialise_roundtrip) (simp_all add: poly_bounded_def)

text \<open>
  C28. \<open>poly_tomsg\<close> inverts \<open>poly_frommsg\<close> under noise: if every coefficient of a polynomial, reduced to absolute
  values of at most 1664 as \<open>poly_reduce\<close> leaves them, differs from the encoded message bit by at most 831 modulo
  \<open>q\<close>, the 32 message bytes are recovered.
\<close>

theorem message_noise_tolerance:
  assumes a: "poly_bounded 1664 a" and m: "length m = 32"
    and noise: "\<And>i. i < 256 \<Longrightarrow> \<exists>e. \<bar>e\<bar> \<le> 831
      \<and> sint (coeffs a ! i) mod 3329 = (sint (coeffs (poly_frommsg m) ! i) + e) mod 3329"
  shows "poly_tomsg a = m"
proof (rule poly_tomsg_noisy [OF a m])
  fix i :: nat assume i: "i < 256"
  show "\<exists>e. \<bar>e\<bar> \<le> 831 \<and> sint (coeffs a ! i) mod 3329 = (of_bool (bit_at m i) * 1665 + e) mod 3329"
    using noise [OF i] by (simp add: poly_frommsg_nth [OF i] split: if_splits)
qed

theorem message_noise_tolerance_witness:
  "poly_tomsg \<lparr> coeffs = replicate 256 831 \<rparr> = replicate 32 0"
proof (rule message_noise_tolerance)
  fix i :: nat assume i: "i < 256"
  have "\<not> bit_at (replicate 32 0) i"
    using i by (simp add: bit_at_def)
  then have "sint (coeffs \<lparr> coeffs = replicate 256 (831 :: i16) \<rparr> ! i) mod 3329
      = (sint (coeffs (poly_frommsg (replicate 32 0)) ! i) + 831) mod 3329"
    using i by (simp add: poly_frommsg_nth)
  then show "\<exists>e. \<bar>e\<bar> \<le> 831 \<and> sint (coeffs \<lparr> coeffs = replicate 256 (831 :: i16) \<rparr> ! i) mod 3329
      = (sint (coeffs (poly_frommsg (replicate 32 0)) ! i) + e) mod 3329"
    by (intro exI [of _ 831]) simp
qed (simp_all add: poly_bounded_def)

end
