(* ===== verification/Poly.thy ===== *)
theory Poly
  imports NTT Poly_Codec
begin

text \<open>
  Arithmetic on one polynomial: the second half of \<open>native/mlkem/pqclean-ml-kem-768/poly.c\<close>. The
  predicate \<open>ntt_rep\<close> says which element of \<open>Z_q[X]/(X^256 + 1)\<close> an array in the NTT domain stands
  for, at which scale (a power of the Montgomery factor) and within which bound; every operation is
  described by how it moves these three.
\<close>

section \<open>Definitions\<close>

definition poly_reduce :: "poly \<Rightarrow> poly" where
  "poly_reduce r = r\<lparr> coeffs := map (\<lambda>i. barrett_reduce (coeffs r ! i)) [0..<KYBER_N] \<rparr>"

definition poly_ntt :: "poly \<Rightarrow> poly" where
  "poly_ntt r = poly_reduce (r\<lparr> coeffs := ntt (coeffs r) \<rparr>)"

definition poly_invntt_tomont :: "poly \<Rightarrow> poly" where
  "poly_invntt_tomont r = r\<lparr> coeffs := invntt (coeffs r) \<rparr>"

definition poly_basemul_montgomery :: "poly \<Rightarrow> poly \<Rightarrow> poly" where
  "poly_basemul_montgomery a b = \<lparr> coeffs = blocks (KYBER_N div 4) (\<lambda>i.
     basemul (drop (4 * i) (coeffs a)) (drop (4 * i) (coeffs b)) (zetas ! (64 + i))
     @ basemul (drop (4 * i + 2) (coeffs a)) (drop (4 * i + 2) (coeffs b)) (- (zetas ! (64 + i)))) \<rparr>"

definition poly_tomont :: "poly \<Rightarrow> poly" where
  "poly_tomont r =
     (let f = word_of_nat (2 ^ 32 mod 3329) :: i16
      in r\<lparr> coeffs := map (\<lambda>i. montgomery_reduce (promote16 (coeffs r ! i) * promote16 f)) [0..<KYBER_N] \<rparr>)"

definition poly_add :: "poly \<Rightarrow> poly \<Rightarrow> poly" where
  "poly_add a b = \<lparr> coeffs = map (\<lambda>i. coeffs a ! i + coeffs b ! i) [0..<KYBER_N] \<rparr>"

definition poly_sub :: "poly \<Rightarrow> poly \<Rightarrow> poly" where
  "poly_sub a b = \<lparr> coeffs = map (\<lambda>i. coeffs a ! i - coeffs b ! i) [0..<KYBER_N] \<rparr>"

section \<open>What a polynomial stands for\<close>

definition poly_zq :: "poly \<Rightarrow> nat \<Rightarrow> zq" where
  "poly_zq a i = zq_of (coeffs a ! i)"

definition ntt_rep :: "zq \<Rightarrow> (nat \<Rightarrow> zq) \<Rightarrow> int \<Rightarrow> poly \<Rightarrow> bool" where
  "ntt_rep c A B a \<longleftrightarrow> ntt_state c 128 2 A B (coeffs a)"

lemma ntt_rep_bounded: "ntt_rep c A B a \<Longrightarrow> poly_bounded B a"
  by (rule poly_boundedI) (simp_all add: ntt_rep_def ntt_state_def)

lemma ntt_rep_iff:
  "ntt_rep c A B a \<longleftrightarrow> poly_bounded B a \<and>
     (\<forall>m<128. \<forall>j<2. poly_zq a (2 * m + j) = c * residue 128 2 A (17 ^ (2 * BitRev7 m + 1)) j)"
  unfolding ntt_rep_def ntt_state_iff poly_zq_def poly_bounded_def all_set_conv_all_nth by auto

lemma ntt_rep_exists:
  assumes "poly_bounded B a"
  obtains A where "ntt_rep 1 A B a"
  using ntt_state_exists [of "coeffs a" B] poly_boundedD [OF assms] by (auto simp: ntt_rep_def)

lemma ntt_rep_mono: "ntt_rep c A B a \<Longrightarrow> B \<le> C \<Longrightarrow> ntt_rep c A C a"
  unfolding ntt_rep_iff using poly_bounded_mono by blast

lemma pair_index:
  assumes "i < (256 :: nat)"
  obtains m j where "m < 128" and "j < 2" and "i = 2 * m + j"
  using that [of "i div 2" "i mod 2"] assms by simp

section \<open>Coefficientwise operations\<close>

lemma poly_reduce_nth: "i < 256 \<Longrightarrow> coeffs (poly_reduce a) ! i = barrett_reduce (coeffs a ! i)"
  by (simp add: poly_reduce_def params)

lemma poly_zq_reduce [simp]: "i < 256 \<Longrightarrow> poly_zq (poly_reduce a) i = poly_zq a i"
  by (simp add: poly_zq_def poly_reduce_nth)

lemma poly_bounded_reduce: "poly_bounded 1664 (poly_reduce a)"
  by (rule poly_boundedI) (simp_all add: poly_reduce_nth barrett_reduce_correct, simp add: poly_reduce_def params)

lemma ntt_rep_scale:
  assumes a: "ntt_rep c A B a" and bnd: "poly_bounded C b"
    and scale: "\<And>i. i < 256 \<Longrightarrow> poly_zq b i = k * poly_zq a i"
  shows "ntt_rep (k * c) A C b"
  unfolding ntt_rep_iff
proof (intro conjI allI impI)
  fix m j :: nat assume mj: "m < 128" "j < 2"
  then have "poly_zq b (2 * m + j) = k * poly_zq a (2 * m + j)"
    by (intro scale) simp
  also have "poly_zq a (2 * m + j) = c * residue 128 2 A (17 ^ (2 * BitRev7 m + 1)) j"
    using a mj unfolding ntt_rep_iff by blast
  finally show "poly_zq b (2 * m + j) = k * c * residue 128 2 A (17 ^ (2 * BitRev7 m + 1)) j"
    by (simp only: mult.assoc)
qed (rule bnd)

lemma ntt_rep_reduce:
  assumes "ntt_rep c A B a"
  shows "ntt_rep c A 1664 (poly_reduce a)"
  using ntt_rep_scale [OF assms poly_bounded_reduce, of a 1] by simp

lemma poly_add_nth: "i < 256 \<Longrightarrow> coeffs (poly_add a b) ! i = coeffs a ! i + coeffs b ! i"
  by (simp add: poly_add_def params)

lemma poly_sub_nth: "i < 256 \<Longrightarrow> coeffs (poly_sub a b) ! i = coeffs a ! i - coeffs b ! i"
  by (simp add: poly_sub_def params)

lemma poly_no_overflow:
  assumes "poly_bounded B a" and "poly_bounded C b" and "B + C < 32768" and "i < 256"
  shows "\<bar>sint (coeffs a ! i)\<bar> + \<bar>sint (coeffs b ! i)\<bar> < 32768"
  using poly_boundedD(2) [OF assms(1,4)] poly_boundedD(2) [OF assms(2,4)] assms(3) by linarith

lemma poly_add_correct:
  assumes "poly_bounded B a" and "poly_bounded C b" and "B + C < 32768"
  shows "poly_bounded (B + C) (poly_add a b)"
    and "i < 256 \<Longrightarrow> poly_zq (poly_add a b) i = poly_zq a i + poly_zq b i"
proof -
  note ok = poly_no_overflow [OF assms]
  show "poly_bounded (B + C) (poly_add a b)"
  proof (rule poly_boundedI)
    fix i :: nat assume i: "i < 256"
    show "\<bar>sint (coeffs (poly_add a b) ! i)\<bar> \<le> B + C"
      unfolding poly_add_nth [OF i] sint_add_i16 [OF ok [OF i]]
      using poly_boundedD(2) [OF assms(1) i] poly_boundedD(2) [OF assms(2) i] by linarith
  qed (simp add: poly_add_def params)
  show "i < 256 \<Longrightarrow> poly_zq (poly_add a b) i = poly_zq a i + poly_zq b i"
    using ok by (simp add: poly_zq_def poly_add_nth zq_of_add)
qed

lemma poly_sub_correct:
  assumes "poly_bounded B a" and "poly_bounded C b" and "B + C < 32768"
  shows "poly_bounded (B + C) (poly_sub a b)"
    and "i < 256 \<Longrightarrow> poly_zq (poly_sub a b) i = poly_zq a i - poly_zq b i"
proof -
  note ok = poly_no_overflow [OF assms]
  show "poly_bounded (B + C) (poly_sub a b)"
  proof (rule poly_boundedI)
    fix i :: nat assume i: "i < 256"
    show "\<bar>sint (coeffs (poly_sub a b) ! i)\<bar> \<le> B + C"
      unfolding poly_sub_nth [OF i] sint_sub_i16 [OF ok [OF i]]
      using poly_boundedD(2) [OF assms(1) i] poly_boundedD(2) [OF assms(2) i] by linarith
  qed (simp add: poly_sub_def params)
  show "i < 256 \<Longrightarrow> poly_zq (poly_sub a b) i = poly_zq a i - poly_zq b i"
    using ok by (simp add: poly_zq_def poly_sub_nth zq_of_sub)
qed

lemma ntt_rep_add:
  assumes a: "ntt_rep c A B a" and b: "ntt_rep c A' B' b" and ok: "B + B' < 32768"
  shows "ntt_rep c (\<lambda>i. A i + A' i) (B + B') (poly_add a b)"
proof -
  note add = poly_add_correct [OF ntt_rep_bounded [OF a] ntt_rep_bounded [OF b] ok]
  show ?thesis
    using a b unfolding ntt_rep_iff
    by (simp add: add residue_add ring_distribs)
qed

text \<open>\<open>f = 2^32 mod q\<close> turns into a factor \<open>2^16\<close>.\<close>

lemma poly_tomont_correct:
  assumes "i < 256"
  shows "poly_zq (poly_tomont a) i = 2 ^ 16 * poly_zq a i"
    and "\<bar>sint (coeffs (poly_tomont a) ! i)\<bar> \<le> 3328"
proof -
  let ?c = "coeffs a ! i"
  have e: "coeffs (poly_tomont a) ! i = fqmul ?c 1353"
    using assms by (simp add: poly_tomont_def params fqmul_def)
  have "\<bar>sint (1353 :: i16) * sint ?c\<bar> < 3329 * 2 ^ 15"
    by (rule fqmul_domain_small) simp
  then have dom: "\<bar>sint ?c * sint (1353 :: i16)\<bar> < 3329 * 2 ^ 15"
    by (simp only: mult.commute)
  show "\<bar>sint (coeffs (poly_tomont a) ! i)\<bar> \<le> 3328"
    unfolding e by (rule fqmul_bound [OF dom])
  have "zq_of ?c * zq_of 1353 * 169 = (zq_of 1353 * 169) * zq_of ?c"
    by (simp only: ac_simps)
  also have "zq_of 1353 * 169 = 2 ^ 16"
    by (simp add: zq_of_def)
  finally show "poly_zq (poly_tomont a) i = 2 ^ 16 * poly_zq a i"
    unfolding poly_zq_def e zq_of_fqmul [OF dom] .
qed

lemma ntt_rep_tomont:
  assumes "ntt_rep c A B a"
  shows "ntt_rep (2 ^ 16 * c) A 3328 (poly_tomont a)"
proof -
  have "poly_bounded 3328 (poly_tomont a)"
    by (rule poly_boundedI) (simp_all only: poly_tomont_correct, simp add: poly_tomont_def params Let_def)
  then show ?thesis
    using assms by (intro ntt_rep_scale) (simp_all only: poly_tomont_correct)
qed

section \<open>The transforms\<close>

lemma ntt_rep_poly_ntt:
  assumes "poly_bounded B a" and "B + 7 * 3328 < 32768"
  shows "ntt_rep 1 (poly_zq a) 1664 (poly_ntt a)"
proof -
  have "ntt_state 1 128 2 (\<lambda>i. zq_of (coeffs a ! i)) (B + 7 * 3328) (ntt (coeffs a))"
    using poly_boundedD [OF assms(1)] assms(2) by (intro ntt_values) auto
  then have "ntt_rep 1 (poly_zq a) (B + 7 * 3328) (a\<lparr> coeffs := ntt (coeffs a) \<rparr>)"
    by (simp add: ntt_rep_def poly_zq_def [abs_def])
  then show ?thesis
    unfolding poly_ntt_def by (rule ntt_rep_reduce)
qed

lemma poly_invntt_correct:
  assumes "ntt_rep c A B a" and "2 * B < 32768"
  shows "poly_bounded 3328 (poly_invntt_tomont a)"
    and "i < 256 \<Longrightarrow> poly_zq (poly_invntt_tomont a) i = 2 ^ 16 * (c * A i)"
  using invntt_state [of c A B "coeffs a"] assms
  by (auto intro!: poly_boundedI simp: ntt_rep_def poly_invntt_tomont_def poly_zq_def)

section \<open>Multiplication in the NTT domain\<close>

lemma length_basemul [len_simps, simp]: "length (basemul a b z) = 2"
  by (simp add: basemul_def Let_def)

lemma poly_basemul_nth:
  assumes "m < 128" and "j < 2" and "length (coeffs a) = 256" and "length (coeffs b) = 256"
  shows "coeffs (poly_basemul_montgomery a b) ! (2 * m + j)
    = basemul (drop (2 * m) (coeffs a)) (drop (2 * m) (coeffs b))
        (if even m then zetas ! (64 + m div 2) else - (zetas ! (64 + m div 2))) ! j"
proof -
  define h p where "h = m div 2" and "p = m mod 2"
  have m: "m = 2 * h + p" and p: "p < 2"
    by (simp_all add: h_def p_def)
  have "2 * m + j = (2 * p + j) + 4 * h"
    by (simp add: m)
  moreover have "2 * p + j < 4"
    using p assms(2) by simp
  ultimately have dm: "(2 * m + j) div 4 = h" "(2 * m + j) mod 4 = 2 * p + j"
    by (simp_all only: div_mult_self2 mod_mult_self2 div_less mod_less)
  have "coeffs (poly_basemul_montgomery a b) ! (2 * m + j)
      = (basemul (drop (4 * h) (coeffs a)) (drop (4 * h) (coeffs b)) (zetas ! (64 + h))
         @ basemul (drop (4 * h + 2) (coeffs a)) (drop (4 * h + 2) (coeffs b)) (- (zetas ! (64 + h))))
        ! (2 * p + j)"
    unfolding poly_basemul_montgomery_def poly.simps dm [symmetric] using assms(1,2)
    by (intro nth_blocks_div_mod) (simp_all add: params)
  moreover have "p = 0 \<or> p = 1"
    using p by auto
  ultimately show ?thesis
    using assms(2) unfolding h_def [symmetric] by (auto simp: m nth_append)
qed

lemma leaf_zeta:
  assumes "m < 128"
  defines "z \<equiv> if even m then zetas ! (64 + m div 2) else - (zetas ! (64 + m div 2))"
  shows "zq_of z * 169 = 17 ^ (2 * BitRev7 m + 1)" and "\<bar>sint z\<bar> \<le> 3328"
proof -
  let ?y = "zetas ! (64 + m div 2)"
  have b: "\<bar>sint ?y\<bar> \<le> 1659"
    using assms(1) by (intro zetas_bound) simp
  then have neg: "sint (- ?y) = - sint ?y"
    using sint_sub_i16 [of 0 ?y] by simp
  then have zn: "zq_of (- ?y) = - zq_of ?y"
    by (simp add: zq_of_def)
  show "\<bar>sint z\<bar> \<le> 3328"
    using b neg by (simp add: z_def)
  have "(128 + m) div 2 = 64 + m div 2"
    by simp
  then have "node_mod zeta_at (128 + m) = zq_of z * 169"
    by (simp add: node_mod_def z_def zeta_at_def zn)
  then show "zq_of z * 169 = 17 ^ (2 * BitRev7 m + 1)"
    using node_mod_leaf [OF assms(1)] by (simp only:)
qed

lemma leaf_power: "((17 :: zq) ^ (2 * r + 1)) ^ 128 = - 1"
proof -
  have "((17 :: zq) ^ (2 * r + 1)) ^ 128 = (17 ^ 128) ^ (2 * r + 1)"
    by (simp only: power_mult [symmetric] mult.commute)
  then show ?thesis
    unfolding zq_17_128 by simp
qed

lemma ntt_rep_basemul:
  assumes a: "ntt_rep ca A Ba a" and b: "ntt_rep cb B Bb b" and dom: "Ba * Bb < 3329 * 2 ^ 15"
  shows "ntt_rep (169 * (ca * cb)) (nega_mul 256 A B) 6656 (poly_basemul_montgomery a b)"
proof -
  let ?r = "poly_basemul_montgomery a b"
  note ba = poly_boundedD [OF ntt_rep_bounded [OF a]] and bb = poly_boundedD [OF ntt_rep_bounded [OF b]]
  have pair: "poly_zq ?r (2 * m + j)
        = 169 * (ca * cb) * residue 128 2 (nega_mul 256 A B) (17 ^ (2 * BitRev7 m + 1)) j
      \<and> \<bar>sint (coeffs ?r ! (2 * m + j))\<bar> \<le> 6656" if m: "m < 128" and j: "j < 2" for m j
  proof -
    define z where "z = (if even m then zetas ! (64 + m div 2) else - (zetas ! (64 + m div 2)))"
    define g where "g = (17 :: zq) ^ (2 * BitRev7 m + 1)"
    let ?x = "drop (2 * m) (coeffs a)" and ?y = "drop (2 * m) (coeffs b)"
    let ?RA = "residue 128 2 A g" and ?RB = "residue 128 2 B g"
    have z: "zq_of z * 169 = g" "\<bar>sint z\<bar> \<le> 3328"
      using leaf_zeta [OF m] by (simp_all only: z_def g_def)
    have nth: "?x ! i = coeffs a ! (2 * m + i)" "?y ! i = coeffs b ! (2 * m + i)" if "i < 2" for i
      using that m ba(1) bb(1) by simp_all
    have x: "zq_of (?x ! i) = ca * ?RA i" "zq_of (?y ! i) = cb * ?RB i" if "i < 2" for i
      using a b m that unfolding nth [OF that] ntt_rep_iff poly_zq_def g_def by blast+
    have x01: "zq_of (?x ! 0) = ca * ?RA 0" "zq_of (?y ! 0) = cb * ?RB 0"
      "zq_of (?x ! 1) = ca * ?RA 1" "zq_of (?y ! 1) = cb * ?RB 1"
      by (rule x; simp)+
    have "\<bar>sint (?x ! i) * sint (?y ! k)\<bar> < 3329 * 2 ^ 15" if "i < 2" "k < 2" for i k
    proof -
      have "\<bar>sint (?x ! i)\<bar> \<le> Ba" "\<bar>sint (?y ! k)\<bar> \<le> Bb"
        unfolding nth(1) [OF that(1)] nth(2) [OF that(2)] using m that by (intro ba bb; simp)+
      then show ?thesis
        using abs_mult_i16_le dom by (meson le_less_trans)
    qed
    note bm = basemul_correct [where a = ?x and b = ?y, OF this z(2)]
    have g: "g ^ 128 = - 1"
      unfolding g_def by (rule leaf_power)
    have N: "2 * 128 = (256 :: nat)"
      by simp
    note prod = residue_nega_mul [OF g, of A B, unfolded N]
    have ring: "169 * (ca * p * (cb * q) + g * (ca * u * (cb * v))) = 169 * (ca * cb) * (p * q + g * (u * v))"
      "169 * (ca * p * (cb * q) + ca * u * (cb * v)) = 169 * (ca * cb) * (p * q + u * v)" for p q u v
      by (simp_all only: ring_distribs ac_simps)
    have r: "coeffs ?r ! (2 * m + j) = basemul ?x ?y z ! j"
      unfolding z_def by (rule poly_basemul_nth [OF m j ba(1) bb(1)])
    have "zq_of (basemul ?x ?y z ! 0) = 169 * (ca * cb) * residue 128 2 (nega_mul 256 A B) g 0"
      by (simp only: bm(1) z(1) prod x01 ring)
    moreover have "zq_of (basemul ?x ?y z ! 1) = 169 * (ca * cb) * residue 128 2 (nega_mul 256 A B) g 1"
      by (simp only: bm(2) prod x01 ring)
    moreover have "j = 0 \<or> j = 1"
      using j by auto
    ultimately show ?thesis
      unfolding poly_zq_def r g_def [symmetric] using bm(3,4) by auto
  qed
  show ?thesis
    unfolding ntt_rep_iff
  proof (intro conjI poly_boundedI allI impI)
    show "length (coeffs ?r) = 256"
      unfolding poly_basemul_montgomery_def poly.simps by (subst length_blocks [where k = 4]) (simp_all add: params)
    show "\<bar>sint (coeffs ?r ! i)\<bar> \<le> 6656" if "i < 256" for i
      using that by (rule pair_index) (use pair in blast)
  qed (use pair in blast)
qed

section \<open>Properties\<close>

text \<open>
  C27. \<open>poly_ntt\<close> (\<open>poly.c\<close>, \<open>ntt.c\<close>) computes the number-theoretic transform of FIPS 203: entries \<open>2 * m\<close> and
  \<open>2 * m + 1\<close> are the residue of the polynomial modulo \<open>X^2 - 17^(2 * BitRev7(m) + 1)\<close>, with no 16-bit
  overflow in the seven layers for inputs up to 9471 in absolute value, and centred at the end.
\<close>

theorem poly_ntt_spec:
  assumes "poly_bounded B a" and "B \<le> 9471" and "m < 128" and "j < 2"
  shows "poly_bounded 1664 (poly_ntt a)
    \<and> poly_zq (poly_ntt a) (2 * m + j) = residue 128 2 (poly_zq a) (17 ^ (2 * BitRev7 m + 1)) j"
  using ntt_rep_poly_ntt [OF assms(1)] assms(2-) unfolding ntt_rep_iff by simp

theorem poly_ntt_spec_witness:
  "poly_bounded 1664 (poly_ntt \<lparr> coeffs = replicate 256 3 \<rparr>)
    \<and> poly_zq (poly_ntt \<lparr> coeffs = replicate 256 3 \<rparr>) (2 * 77 + 1)
      = residue 128 2 (poly_zq \<lparr> coeffs = replicate 256 3 \<rparr>) (17 ^ (2 * BitRev7 77 + 1)) 1"
  by (rule poly_ntt_spec [where B = 3]) (simp_all add: poly_bounded_def)

text \<open>
  \<open>poly_invntt_tomont\<close> inverts \<open>poly_ntt\<close> up to the Montgomery factor \<open>2^16\<close>, coefficient by coefficient.
\<close>

theorem poly_invntt_ntt:
  assumes "poly_bounded B a" and "B \<le> 9471" and "i < 256"
  shows "poly_bounded 3328 (poly_invntt_tomont (poly_ntt a))
    \<and> poly_zq (poly_invntt_tomont (poly_ntt a)) i = 2 ^ 16 * poly_zq a i"
proof -
  have rep: "ntt_rep 1 (poly_zq a) 1664 (poly_ntt a)"
    using assms(2) by (intro ntt_rep_poly_ntt [OF assms(1)]) linarith
  show ?thesis
    using poly_invntt_correct [OF rep] assms(3) by simp
qed

theorem poly_invntt_ntt_witness:
  "poly_bounded 3328 (poly_invntt_tomont (poly_ntt \<lparr> coeffs = replicate 256 (- 9471) \<rparr>))
    \<and> poly_zq (poly_invntt_tomont (poly_ntt \<lparr> coeffs = replicate 256 (- 9471) \<rparr>)) 200
      = 2 ^ 16 * poly_zq \<lparr> coeffs = replicate 256 (- 9471) \<rparr> 200"
  by (rule poly_invntt_ntt [where B = 9471]) (simp_all add: poly_bounded_def)

end
