(* ===== verification/Polyvec.thy ===== *)
theory Polyvec
  imports Poly
begin

text \<open>
  Vectors of three polynomials: \<open>native/mlkem/pqclean-ml-kem-768/polyvec.c\<close>. The compression to ten
  bits works on 64-bit integers and packs four coefficients into five bytes; \<open>basemul_acc\<close> is the
  inner product of two vectors in the NTT domain.
\<close>

section \<open>Definitions\<close>

record polyvec =
  vec :: "poly list"

definition compress_d10 :: "u16 \<Rightarrow> u16" where
  "compress_d10 t =
     (let t = to_positive_u16 t;
          d0 = ucast t :: u64;
          d0 = push_bit 10 d0;
          d0 = d0 + 1665;
          d0 = d0 * 1290167;
          d0 = drop_bit 32 d0
      in ucast (d0 AND 0x3ff))"

definition pack_d10 :: "u16 list \<Rightarrow> bytes" where
  "pack_d10 t =
    [to_u8 (drop_bit 0 (promote_u16 (t ! 0))),
     to_u8 (drop_bit 8 (promote_u16 (t ! 0)) OR push_bit 2 (promote_u16 (t ! 1))),
     to_u8 (drop_bit 6 (promote_u16 (t ! 1)) OR push_bit 4 (promote_u16 (t ! 2))),
     to_u8 (drop_bit 4 (promote_u16 (t ! 2)) OR push_bit 6 (promote_u16 (t ! 3))),
     to_u8 (drop_bit 2 (promote_u16 (t ! 3)))]"

definition polyvec_compress :: "polyvec \<Rightarrow> bytes" where
  "polyvec_compress a = blocks KYBER_K (\<lambda>i. blocks (KYBER_N div 4) (\<lambda>j.
     let t = map (\<lambda>k. compress_d10 (coeffs (vec a ! i) ! (4 * j + k))) [0..<4] in pack_d10 t))"

definition unpack_d10 :: "bytes \<Rightarrow> u16 list" where
  "unpack_d10 a =
    [to_i16 (drop_bit 0 (promote_u8 (a ! 0)) OR push_bit 8 (promote_u16 (ucast (a ! 1)))),
     to_i16 (drop_bit 2 (promote_u8 (a ! 1)) OR push_bit 6 (promote_u16 (ucast (a ! 2)))),
     to_i16 (drop_bit 4 (promote_u8 (a ! 2)) OR push_bit 4 (promote_u16 (ucast (a ! 3)))),
     to_i16 (drop_bit 6 (promote_u8 (a ! 3)) OR push_bit 2 (promote_u16 (ucast (a ! 4))))]"

definition decompress_d10 :: "u16 \<Rightarrow> i16" where
  "decompress_d10 t = ucast (drop_bit 10 ((ucast (t AND 0x3FF) :: u32) * KYBER_Q + 512))"

definition polyvec_decompress :: "bytes \<Rightarrow> polyvec" where
  "polyvec_decompress a = \<lparr> vec = map (\<lambda>i. \<lparr> coeffs = blocks (KYBER_N div 4) (\<lambda>j.
     map decompress_d10 (unpack_d10 (drop (5 * (KYBER_N div 4 * i + j)) a))) \<rparr>) [0..<KYBER_K] \<rparr>"

definition polyvec_tobytes :: "polyvec \<Rightarrow> bytes" where
  "polyvec_tobytes a = blocks KYBER_K (\<lambda>i. poly_tobytes (vec a ! i))"

definition polyvec_frombytes :: "bytes \<Rightarrow> polyvec" where
  "polyvec_frombytes a = \<lparr> vec = map (\<lambda>i. poly_frombytes (drop (i * KYBER_POLYBYTES) a)) [0..<KYBER_K] \<rparr>"

definition polyvec_ntt :: "polyvec \<Rightarrow> polyvec" where
  "polyvec_ntt r = r\<lparr> vec := map (\<lambda>i. poly_ntt (vec r ! i)) [0..<KYBER_K] \<rparr>"

definition polyvec_invntt_tomont :: "polyvec \<Rightarrow> polyvec" where
  "polyvec_invntt_tomont r = r\<lparr> vec := map (\<lambda>i. poly_invntt_tomont (vec r ! i)) [0..<KYBER_K] \<rparr>"

definition polyvec_basemul_acc_montgomery :: "polyvec \<Rightarrow> polyvec \<Rightarrow> poly" where
  "polyvec_basemul_acc_montgomery a b =
     (let r = poly_basemul_montgomery (vec a ! 0) (vec b ! 0);
          r = fold (\<lambda>i r. let t = poly_basemul_montgomery (vec a ! i) (vec b ! i) in poly_add r t)
                [1..<KYBER_K] r
      in poly_reduce r)"

definition polyvec_reduce :: "polyvec \<Rightarrow> polyvec" where
  "polyvec_reduce r = r\<lparr> vec := map (\<lambda>i. poly_reduce (vec r ! i)) [0..<KYBER_K] \<rparr>"

definition polyvec_add :: "polyvec \<Rightarrow> polyvec \<Rightarrow> polyvec" where
  "polyvec_add a b = \<lparr> vec = map (\<lambda>i. poly_add (vec a ! i) (vec b ! i)) [0..<KYBER_K] \<rparr>"

section \<open>Ten-bit packing\<close>

text \<open>The masked fields of \<open>unpack_d10\<close>, as \<open>polyvec_decompress\<close> uses them.\<close>

definition unpack_masked_d10 :: "bytes \<Rightarrow> u16 list" where
  "unpack_masked_d10 a = map (\<lambda>t. t AND 0x3FF) (unpack_d10 a)"

lemma pack_d10_bits:
  assumes "length t = 4" and "fits 10 t"
  shows "\<forall>i<4. \<forall>j<10. bit_at (pack_d10 t) (10 * i + j) = bit (t ! i) j"
proof -
  have "\<not> bit (t ! i) j" if "i < 4" "10 \<le> j" for i j
    using fits_nth [OF assms(2)] assms(1) that by simp
  then show ?thesis
    unfolding all_less_upt
    by (simp add: upt_rec, simp add: bit_at_def pack_d10_def bit_simps, simp add: eval_nat_numeral)
qed

lemma unpack_d10_bits:
  assumes "length b = 5"
  shows "\<forall>i<4. \<forall>j<16. bit (unpack_masked_d10 b ! i) j \<longleftrightarrow> j < 10 \<and> bit_at b (10 * i + j)"
  unfolding all_less_upt
  by (simp add: upt_rec, simp add: bit_at_def unpack_masked_d10_def unpack_d10_def upt_rec bit_simps bit_u8_ge,
      simp add: eval_nat_numeral)

interpretation d10: bit_packing 10 4 5 pack_d10 unpack_masked_d10
proof
  fix t :: "u16 list" and b :: bytes and i j :: nat
  show "length (pack_d10 t) = 5"
    by (simp add: pack_d10_def)
  show "length (unpack_masked_d10 b) = 4"
    by (simp add: unpack_masked_d10_def unpack_d10_def)
  show "bit_at (pack_d10 t) (10 * i + j) = bit (t ! i) j"
    if "length t = 4" "fits 10 t" "i < 4" "j < 10"
    using pack_d10_bits that by blast
  show "bit (unpack_masked_d10 b ! i) j \<longleftrightarrow> j < 10 \<and> bit_at b (10 * i + j)"
    if "length b = 5" "i < 4"
    using unpack_d10_bits [OF that(1)] that(2) bit_u16_ge [of j "unpack_masked_d10 b ! i"]
    by (cases "j < 16") auto
qed simp_all

section \<open>Rounding to ten bits\<close>

text \<open>
  Here the reciprocal is only just precise enough: the quotient could be one too small for an exact
  multiple of \<open>q\<close> from \<open>954 * q\<close> on, and the numbers \<open>1024 * x + 1664\<close> do not meet one.
\<close>

lemma no_large_multiple: "list_all (\<lambda>k. (3329 * k - 1664) mod 1024 \<noteq> (0 :: int)) [954..1024]"
  by (simp add: upto_rec1)

lemma reciprocal_32:
  fixes x :: int
  assumes "0 \<le> x" and "x < 3329"
  shows "(1024 * x + 1664 + 1) * 1290167 div 2 ^ 32 = (1024 * x + 1664) div 3329"
proof -
  define y where "y = 1024 * x + 1664"
  define k r where "k = y div 3329" and "r = y mod 3329"
  have y: "y = 3329 * k + r" and r: "0 \<le> r" "r < 3329"
    by (simp_all add: k_def r_def)
  have k: "0 \<le> k" "k \<le> 1024"
    using assms y r unfolding y_def by linarith+
  have "k \<le> 953 \<or> 1 \<le> r"
  proof (rule ccontr)
    assume "\<not> ?thesis"
    then have "r = 0" "954 \<le> k"
      using r by linarith+
    then have "3329 * k - 1664 = 1024 * x"
      using y unfolding y_def by simp
    then have "(3329 * k - 1664) mod 1024 = 0"
      by simp
    moreover have "k \<in> {954..1024}"
      using \<open>954 \<le> k\<close> k(2) by simp
    ultimately show False
      using bspec [OF no_large_multiple [unfolded list_all_iff set_upto], of k] by simp
  qed
  then have "0 \<le> (y + 1) * 1290167 - 2 ^ 32 * k" "(y + 1) * 1290167 - 2 ^ 32 * k < 2 ^ 32"
    unfolding y using r k by auto
  then show ?thesis
    unfolding y_def [symmetric] k_def [symmetric]
    by (intro int_div_pos_eq [where r = "(y + 1) * 1290167 - 2 ^ 32 * k"]) simp_all
qed

lemma compress_d10_eq:
  assumes "- 3329 \<le> sint u" and "sint u < 3329"
  shows "int (unat (compress_d10 u)) = Compress 10 (sint u)"
proof -
  define x where "x = sint u mod 3329"
  have x: "0 \<le> x" "x < 3329" and pos: "sint (to_positive u) = x"
    using to_positive_mod [OF assms] by (simp_all add: x_def)
  define n where "n = (1024 * x + 1664 + 1) * 1290167"
  have n: "0 \<le> n" "n < 2 ^ 64"
    using x by (simp_all add: n_def)
  have "uint (to_positive u) = x"
    using x pos by (subst uint_eq_sint) simp_all
  then have "(ucast (to_positive u) :: u64) = word_of_int x"
    by (metis word_of_int_uint ucast_eq)
  then have d: "drop_bit 32 ((push_bit 10 (ucast (to_positive u)) + 1665) * 1290167) AND 0x3ff
      = (drop_bit 32 (word_of_int n) AND mask 10 :: u64)"
    by (simp add: push_bit_eq_mult mask_eq_exp_minus_1 n_def algebra_simps)
  have "uint (drop_bit 32 (word_of_int n) AND mask 10 :: u64) = n div 2 ^ 32 mod 2 ^ 10"
  proof -
    have "uint (drop_bit 32 (word_of_int n) AND mask 10 :: u64) = take_bit 10 (drop_bit 32 (take_bit 64 n))"
      by (simp only: take_bit_eq_mask [symmetric])
        (simp add: unsigned_take_bit_eq unsigned_drop_bit_eq unsigned_of_int)
    then show ?thesis
      using n by (simp only: take_bit_int_eq_self) (simp add: take_bit_eq_mod drop_bit_eq_div)
  qed
  also have "n div 2 ^ 32 = (1024 * x + 1664) div 3329"
    unfolding n_def by (rule reciprocal_32 [OF x])
  finally have v: "uint (drop_bit 32 (word_of_int n) AND mask 10 :: u64) = (1024 * x + 1664) div 3329 mod 2 ^ 10" .
  then have "uint (ucast (drop_bit 32 (word_of_int n) AND mask 10 :: u64) :: u16)
      = (1024 * x + 1664) div 3329 mod 2 ^ 10"
    by (simp only: unsigned_ucast_eq) (simp add: take_bit_int_eq_self)
  then show ?thesis
    unfolding compress_d10_def Let_def to_positive_u16_eq d Compress_def x_def [symmetric] by simp
qed

lemma decompress_d10_eq:
  assumes "unat t < 1024"
  shows "sint (decompress_d10 t) = Decompress 10 (int (unat t))"
proof -
  have "t AND 0x3FF = take_bit 10 t"
    by (simp add: take_bit_eq_mask mask_eq_exp_minus_1)
  also have "\<dots> = t"
    using assms by (intro word_unat_eq_iff [THEN iffD2])
      (simp add: unsigned_take_bit_eq take_bit_nat_eq_self)
  finally have m: "t AND 0x3FF = t" .
  define w where "w = (ucast t :: u32) * KYBER_Q + 512"
  have "unat (ucast t :: u32) = unat t"
    by (rule unat_ucast_up) simp
  then have w: "unat w = unat t * 3329 + 512"
    using assms unfolding w_def by (simp add: unat_word_ariths params)
  have u: "unat (drop_bit 10 w) = (unat t * 3329 + 512) div 1024"
    using assms by (simp only: unsigned_drop_bit_eq) (simp add: w drop_bit_eq_div take_bit_nat_eq_self)
  moreover have "(unat t * 3329 + 512) div 1024 < 32768"
    using assms by (simp add: less_mult_imp_div_less)
  ultimately have "sint (decompress_d10 t) = int ((unat t * 3329 + 512) div 1024)"
    unfolding decompress_d10_def m w_def [symmetric] by (subst sint_to_i16_unat) (simp_all only: u, simp)
  also have "\<dots> = Decompress 10 (int (unat t))"
    by (simp add: Decompress_def zdiv_int ac_simps del: of_nat_unat)
  finally show ?thesis .
qed

lemma Decompress_Compress_10:
  obtains e :: int where "\<bar>e\<bar> \<le> 2"
    and "Decompress 10 (Compress 10 x) mod 3329 = (x + e) mod 3329"
proof -
  define y where "y = x mod 3329"
  define k where "k = (1024 * y + 1664) div 3329"
  define D where "D = (3329 * k + 512) div 1024"
  have y: "0 \<le> y" "y < 3329"
    by (simp_all add: y_def)
  have k: "3329 * k \<le> 1024 * y + 1664" "1024 * y + 1664 < 3329 * k + 3329"
    unfolding k_def by linarith+
  have D: "1024 * D \<le> 3329 * k + 512" "3329 * k + 512 < 1024 * D + 1024"
    unfolding D_def by linarith+
  have "x + (D - y) = D + 3329 * (x div 3329)"
    unfolding y_def using div_mult_mod_eq [of x 3329] by linarith
  then have xy: "(x + (D - y)) mod 3329 = D mod 3329"
    by (simp only: mod_mult_self2)
  have "0 \<le> k" "k \<le> 1024"
    using y k by linarith+
  moreover have "k \<noteq> 1024 \<Longrightarrow> Decompress 10 (Compress 10 x) = D"
    using \<open>0 \<le> k\<close> \<open>k \<le> 1024\<close>
    by (simp add: Decompress_def Compress_def y_def [symmetric] k_def [symmetric] D_def)
  moreover have "k = 1024 \<Longrightarrow> Decompress 10 (Compress 10 x) mod 3329 = D mod 3329"
    by (simp add: Decompress_def Compress_def y_def [symmetric] k_def [symmetric] D_def)
  ultimately have "Decompress 10 (Compress 10 x) mod 3329 = (x + (D - y)) mod 3329"
    unfolding xy by auto
  moreover have "\<bar>D - y\<bar> \<le> 2"
    using k D by linarith
  ultimately show ?thesis
    using that by blast
qed

section \<open>Whole vectors\<close>

definition polyvec_bounded :: "int \<Rightarrow> polyvec \<Rightarrow> bool" where
  "polyvec_bounded B a \<longleftrightarrow> length (vec a) = 3 \<and> (\<forall>p\<in>set (vec a). poly_bounded B p)"

lemma polyvec_boundedI:
  assumes "length (vec a) = 3" and "\<And>i. i < 3 \<Longrightarrow> poly_bounded B (vec a ! i)"
  shows "polyvec_bounded B a"
  using assms by (auto simp: polyvec_bounded_def in_set_conv_nth)

lemma polyvec_boundedD:
  assumes "polyvec_bounded B a"
  shows "length (vec a) = 3" and "i < 3 \<Longrightarrow> poly_bounded B (vec a ! i)"
    and "i < 3 \<Longrightarrow> length (coeffs (vec a ! i)) = 256"
  using assms by (auto simp: polyvec_bounded_def intro: poly_boundedD)

lemma polyvec_eqI:
  assumes "length (vec a) = 3" and "length (vec b) = 3" and "\<And>i. i < 3 \<Longrightarrow> vec a ! i = vec (b :: polyvec) ! i"
  shows "a = (b :: polyvec)"
  using assms by (intro polyvec.equality nth_equalityI) simp_all

lemma vec_nth:
  assumes "i < 3"
  shows "vec (polyvec_ntt a) ! i = poly_ntt (vec a ! i)"
    and "vec (polyvec_invntt_tomont a) ! i = poly_invntt_tomont (vec a ! i)"
    and "vec (polyvec_reduce a) ! i = poly_reduce (vec a ! i)"
    and "vec (polyvec_add a b) ! i = poly_add (vec a ! i) (vec b ! i)"
    and "vec (polyvec_frombytes c) ! i = poly_frombytes (drop (i * 384) c)"
  using assms
  by (simp_all add: polyvec_ntt_def polyvec_invntt_tomont_def polyvec_reduce_def polyvec_add_def
      polyvec_frombytes_def params)

lemma length_vec [len_simps, simp]:
  "length (vec (polyvec_ntt a)) = 3" "length (vec (polyvec_invntt_tomont a)) = 3"
  "length (vec (polyvec_reduce a)) = 3" "length (vec (polyvec_add a b)) = 3"
  "length (vec (polyvec_frombytes c)) = 3" "length (vec (polyvec_decompress c)) = 3"
  by (simp_all add: polyvec_ntt_def polyvec_invntt_tomont_def polyvec_reduce_def polyvec_add_def
      polyvec_frombytes_def polyvec_decompress_def params)

subsection \<open>Serialisation\<close>

lemma length_polyvec_tobytes [len_simps]:
  assumes "polyvec_bounded B a"
  shows "length (polyvec_tobytes a) = 1152"
  unfolding polyvec_tobytes_def
  by (subst length_blocks [where k = 384])
    (simp_all add: params length_poly_tobytes polyvec_boundedD [OF assms])

text \<open>The readers of one polynomial only look at their own bytes.\<close>

lemma poly_frombytes_take:
  assumes "384 \<le> length b"
  shows "poly_frombytes b = poly_frombytes (take 384 b)"
proof -
  have "unpack_d12 (drop (3 * i) b) = unpack_d12 (drop (3 * i) (take 384 b))" if "i < 128" for i
    using that assms by (simp add: unpack_d12_def)
  then show ?thesis
    unfolding poly_frombytes_def params
    by (intro arg_cong [of _ _ "\<lambda>xs. \<lparr> coeffs = xs \<rparr>"] blocks_cong) simp
qed

lemma poly_decompress_take:
  assumes "128 \<le> length b"
  shows "poly_decompress b = poly_decompress (take 128 b)"
  unfolding poly_decompress_def params
  by (intro arg_cong [of _ _ "\<lambda>xs. \<lparr> coeffs = xs \<rparr>"] blocks_cong) simp

lemma polyvec_frombytes_tobytes:
  assumes a: "polyvec_bounded 3328 a"
  shows "polyvec_frombytes (polyvec_tobytes a @ rest)
    = \<lparr> vec = map (\<lambda>p. \<lparr> coeffs = map to_positive (coeffs p) \<rparr>) (vec a) \<rparr>"
proof (rule polyvec_eqI)
  fix i :: nat assume i: "i < 3"
  have len: "length (poly_tobytes (vec a ! k)) = 384" if "k < 3" for k
    using polyvec_boundedD [OF a] that by (simp add: length_poly_tobytes)
  let ?b = "polyvec_tobytes a"
  have lb: "length ?b = 1152"
    by (rule length_polyvec_tobytes [OF a])
  have "poly_frombytes (drop (i * 384) (?b @ rest)) = poly_frombytes (take 384 (drop (i * 384) (?b @ rest)))"
    using i lb by (intro poly_frombytes_take) simp
  also have "take 384 (drop (i * 384) (?b @ rest)) = block_of 384 i ?b"
    using i lb by simp
  also have "\<dots> = poly_tobytes (vec a ! i)"
    unfolding polyvec_tobytes_def using i len by (intro block_of_blocks) (simp_all add: params)
  also have "poly_frombytes \<dots> = \<lparr> coeffs = map to_positive (coeffs (vec a ! i)) \<rparr>"
    using polyvec_boundedD [OF a] i by (intro poly_frombytes_tobytes) simp
  finally show "vec (polyvec_frombytes (?b @ rest)) ! i
      = vec \<lparr> vec = map (\<lambda>p. \<lparr> coeffs = map to_positive (coeffs p) \<rparr>) (vec a) \<rparr> ! i"
    using i polyvec_boundedD(1) [OF a] by (simp add: vec_nth)
qed (use polyvec_boundedD(1) [OF a] in simp_all)

lemma polyvec_tobytes_frombytes:
  assumes "length b = 1152"
  shows "polyvec_tobytes (polyvec_frombytes b) = b"
proof -
  have "poly_tobytes (vec (polyvec_frombytes b) ! i) = block_of 384 i b" if i: "i < 3" for i
  proof -
    have "poly_frombytes (drop (i * 384) b) = poly_frombytes (block_of 384 i b)"
      using i assms by (intro poly_frombytes_take) simp
    then show ?thesis
      using i assms by (simp add: vec_nth poly_tobytes_frombytes)
  qed
  then have "polyvec_tobytes (polyvec_frombytes b) = blocks 3 (\<lambda>i. block_of 384 i b)"
    unfolding polyvec_tobytes_def params by (intro blocks_cong)
  then show ?thesis
    using blocks_block_of [of b 3 384] assms by simp
qed

lemma polyvec_frombytes_bounded:
  assumes "1152 \<le> length b"
  shows "polyvec_bounded 4095 (polyvec_frombytes b)"
proof (rule polyvec_boundedI)
  fix i :: nat assume i: "i < 3"
  let ?c = "take 384 (drop (i * 384) b)"
  have c: "length ?c = 384"
    using i assms by simp
  have e: "vec (polyvec_frombytes b) ! i = poly_frombytes ?c"
    using i assms poly_frombytes_take [of "drop (i * 384) b"] by (simp add: vec_nth)
  show "poly_bounded 4095 (vec (polyvec_frombytes b) ! i)"
    unfolding e
  proof (rule poly_boundedI)
    fix j :: nat assume j: "j < 256"
    show "\<bar>sint (coeffs (poly_frombytes ?c) ! j)\<bar> \<le> 4095"
      unfolding poly_frombytes_nth(2) [OF c j] using ByteDecode_less [of 12 ?c j] by simp
  qed (rule length_poly_frombytes [OF c])
qed simp

subsection \<open>Compression\<close>

lemma vec_compress_blocks:
  assumes "length (coeffs p) = 256"
  shows "blocks (KYBER_N div 4) (\<lambda>j. let t = map (\<lambda>k. compress_d10 (coeffs p ! (4 * j + k))) [0..<4] in pack_d10 t)
    = blocks 64 (\<lambda>j. pack_d10 (block_of 4 j (map compress_d10 (coeffs p))))"
proof -
  have n: "KYBER_N div 4 = 64"
    by (simp add: params)
  show ?thesis
    unfolding Let_def n by (intro blocks_cong arg_cong [of _ _ pack_d10] map_nth_block) (use assms in simp_all)
qed

lemma polyvec_compress_block:
  assumes a: "polyvec_bounded B a" and i: "i < 3"
  shows "block_of 320 i (polyvec_compress a @ rest)
    = blocks 64 (\<lambda>j. pack_d10 (block_of 4 j (map compress_d10 (coeffs (vec a ! i)))))"
    and "length (polyvec_compress a) = 960"
proof -
  let ?f = "\<lambda>i. blocks 64 (\<lambda>j. pack_d10 (block_of 4 j (map compress_d10 (coeffs (vec a ! i)))))"
  have e: "polyvec_compress a = blocks 3 ?f"
    unfolding polyvec_compress_def params(3)
    by (intro blocks_cong vec_compress_blocks polyvec_boundedD(3) [OF a])
  have len: "length (?f k) = 320" if "k < 3" for k
    using d10.length_pack_blocks [of 64 "\<lambda>j. block_of 4 j (map compress_d10 (coeffs (vec a ! k)))"]
      polyvec_boundedD(3) [OF a that] by simp
  show l: "length (polyvec_compress a) = 960"
    unfolding e using length_blocks [of 3 ?f 320] len by simp
  have "block_of 320 i (polyvec_compress a @ rest) = block_of 320 i (polyvec_compress a)"
    using i l by simp
  also have "\<dots> = ?f i"
    unfolding e by (rule block_of_blocks [OF len i])
  finally show "block_of 320 i (polyvec_compress a @ rest) = ?f i" .
qed

lemma fits_compress_d10:
  assumes "poly_bounded 3328 a"
  shows "fits 10 (map compress_d10 (coeffs a))"
proof -
  have "unat (compress_d10 c) < 1024" if "c \<in> set (coeffs a)" for c
  proof -
    have "\<bar>sint c\<bar> \<le> 3328"
      using assms that by (simp add: poly_bounded_def)
    then have "int (unat (compress_d10 c)) = Compress 10 (sint c)"
      by (intro compress_d10_eq) linarith+
    then have "int (unat (compress_d10 c)) < 1024"
      by (simp add: Compress_def)
    then show ?thesis
      by linarith
  qed
  then show ?thesis
    by (simp add: fits_unat)
qed

lemma polyvec_decompress_block:
  assumes "960 \<le> length b" and i: "i < 3"
  shows "coeffs (vec (polyvec_decompress b) ! i)
    = map decompress_d10 (blocks 64 (\<lambda>j. unpack_masked_d10 (block_of 5 j (block_of 320 i b))))"
proof -
  have m: "decompress_d10 (t AND 0x3FF) = decompress_d10 t" for t
    by (simp add: decompress_d10_def and.assoc)
  have "map decompress_d10 (unpack_d10 (drop (5 * (64 * i + j)) b))
      = map decompress_d10 (unpack_masked_d10 (block_of 5 j (block_of 320 i b)))" if "j < 64" for j
  proof -
    have "unpack_d10 (drop (5 * (64 * i + j)) b) = unpack_d10 (block_of 5 j (block_of 320 i b))"
      using that i assms by (simp add: unpack_d10_def ac_simps)
    then show ?thesis
      by (simp add: unpack_masked_d10_def m)
  qed
  then have "blocks 64 (\<lambda>j. map decompress_d10 (unpack_d10 (drop (5 * (64 * i + j)) b)))
      = blocks 64 (\<lambda>j. map decompress_d10 (unpack_masked_d10 (block_of 5 j (block_of 320 i b))))"
    by (intro blocks_cong)
  moreover have "vec (polyvec_decompress b) ! i
      = \<lparr> coeffs = blocks 64 (\<lambda>j. map decompress_d10 (unpack_d10 (drop (5 * (64 * i + j)) b))) \<rparr>"
    using i by (simp add: polyvec_decompress_def params del: upt_Suc)
  ultimately show ?thesis
    by (simp add: map_concat comp_def)
qed

lemma polyvec_decompress_compress:
  assumes a: "polyvec_bounded 3328 a" and i: "i < 3" and n: "n < 256"
  shows "sint (coeffs (vec (polyvec_decompress (polyvec_compress a @ rest)) ! i) ! n)
    = Decompress 10 (Compress 10 (sint (coeffs (vec a ! i) ! n)))"
proof -
  let ?c = "coeffs (vec a ! i)"
  note p = polyvec_boundedD(2) [OF a i] and len = polyvec_boundedD(3) [OF a i]
  have "960 \<le> length (polyvec_compress a @ rest)"
    using polyvec_compress_block(2) [OF a i] by simp
  then have "coeffs (vec (polyvec_decompress (polyvec_compress a @ rest)) ! i)
      = map decompress_d10 (map compress_d10 ?c)"
    unfolding polyvec_decompress_block [OF \<open>960 \<le> _\<close> i] polyvec_compress_block(1) [OF a i]
    using d10.unpack_pack_blocks [of "map compress_d10 ?c" 64] fits_compress_d10 [OF p] len by simp
  then have "coeffs (vec (polyvec_decompress (polyvec_compress a @ rest)) ! i) ! n
      = decompress_d10 (compress_d10 (?c ! n))"
    using n len by simp
  moreover have "int (unat (compress_d10 (?c ! n))) = Compress 10 (sint (?c ! n))"
    using poly_boundedD(2) [OF p n] by (intro compress_d10_eq) linarith+
  moreover have "Compress 10 (sint (?c ! n)) < 1024"
    by (simp add: Compress_def)
  moreover from calculation have "unat (compress_d10 (?c ! n)) < 1024"
    by linarith
  ultimately show ?thesis
    by (simp only: decompress_d10_eq)
qed

lemma polyvec_compress_bits:
  assumes a: "polyvec_bounded 3328 a" and i: "i < 3" and n: "n < 256" and j: "j < 10"
  shows "bit_at (polyvec_compress a) (2560 * i + 10 * n + j) = bit (Compress 10 (sint (coeffs (vec a ! i) ! n))) j"
proof -
  let ?t = "map compress_d10 (coeffs (vec a ! i))"
  note p = polyvec_boundedD(2) [OF a i]
  note len = polyvec_boundedD(3) [OF a i]
  have lt: "length ?t = 64 * 4"
    using len by simp
  have "bit_at (polyvec_compress a) (8 * 320 * i + (10 * n + j)) = bit_at (block_of 320 i (polyvec_compress a)) (10 * n + j)"
    using bit_at_blocks [of 3 "\<lambda>i. block_of 320 i (polyvec_compress a)" 320 i "10 * n + j"]
      blocks_block_of [of "polyvec_compress a" 3 320] length_block_of [of "polyvec_compress a" 3 320] polyvec_compress_block(2) [OF a i] i n j
    by simp
  also have "\<dots> = bit (block_of 4 (n div 4) ?t ! (n mod 4)) j"
    unfolding polyvec_compress_block(1) [OF a i, of "[]", simplified]
    using length_block_of [OF lt] fits_block_of [OF fits_compress_d10 [OF p]] n j by (intro d10.bit_pack_blocks) simp_all
  also have "block_of 4 (n div 4) ?t ! (n mod 4) = ?t ! n"
    using n nth_block_of [OF lt, of "n div 4" "n mod 4"] by simp
  also have "bit (?t ! n) j = bit (int (unat (compress_d10 (coeffs (vec a ! i) ! n)))) j"
    using n j len by (simp add: bit_of_nat_iff bit_unsigned_iff)
  also have "int (unat (compress_d10 (coeffs (vec a ! i) ! n))) = Compress 10 (sint (coeffs (vec a ! i) ! n))"
    using poly_boundedD(2) [OF p n] by (intro compress_d10_eq) linarith+
  finally show ?thesis
    by (simp add: add.assoc)
qed

subsection \<open>Vectors in the NTT domain\<close>

definition vec_rep :: "zq \<Rightarrow> (nat \<Rightarrow> nat \<Rightarrow> zq) \<Rightarrow> int \<Rightarrow> polyvec \<Rightarrow> bool" where
  "vec_rep c A B a \<longleftrightarrow> (\<forall>i<3. ntt_rep c (A i) B (vec a ! i))"

definition inner_mul :: "(nat \<Rightarrow> nat \<Rightarrow> 'a :: comm_ring_1) \<Rightarrow> (nat \<Rightarrow> nat \<Rightarrow> 'a) \<Rightarrow> nat \<Rightarrow> 'a" where
  "inner_mul A B n = (\<Sum>i<3. nega_mul 256 (A i) (B i) n)"

lemma polyvec_basemul_acc_correct:
  assumes a: "vec_rep ca A Ba a" and b: "vec_rep cb B Bb b" and dom: "Ba * Bb < 3329 * 2 ^ 15"
  shows "ntt_rep (169 * (ca * cb)) (inner_mul A B) 1664 (polyvec_basemul_acc_montgomery a b)"
proof -
  let ?t = "\<lambda>i. poly_basemul_montgomery (vec a ! i) (vec b ! i)"
  have t: "ntt_rep (169 * (ca * cb)) (nega_mul 256 (A i) (B i)) 6656 (?t i)" if "i < 3" for i
    using a b that dom by (intro ntt_rep_basemul) (auto simp: vec_rep_def)
  have "ntt_rep (169 * (ca * cb)) (\<lambda>n. nega_mul 256 (A 0) (B 0) n + nega_mul 256 (A 1) (B 1) n) (6656 + 6656)
      (poly_add (?t 0) (?t 1))"
    by (intro ntt_rep_add t) simp_all
  then have "ntt_rep (169 * (ca * cb))
      (\<lambda>n. nega_mul 256 (A 0) (B 0) n + nega_mul 256 (A 1) (B 1) n + nega_mul 256 (A 2) (B 2) n) (6656 + 6656 + 6656)
      (poly_add (poly_add (?t 0) (?t 1)) (?t 2))"
    by (intro ntt_rep_add t) simp_all
  moreover have "inner_mul A B
      = (\<lambda>n. nega_mul 256 (A 0) (B 0) n + nega_mul 256 (A 1) (B 1) n + nega_mul 256 (A 2) (B 2) n)"
  proof
    have "{..<3} = {0, 1, 2 :: nat}"
      by auto
    then show "inner_mul A B n
        = nega_mul 256 (A 0) (B 0) n + nega_mul 256 (A 1) (B 1) n + nega_mul 256 (A 2) (B 2) n" for n
      by (simp add: inner_mul_def add.assoc)
  qed
  moreover have "polyvec_basemul_acc_montgomery a b = poly_reduce (poly_add (poly_add (?t 0) (?t 1)) (?t 2))"
    by (simp add: polyvec_basemul_acc_montgomery_def params upt_rec numeral_2_eq_2)
  ultimately show ?thesis
    by (simp only: ntt_rep_reduce)
qed

lemma vec_rep_ntt:
  assumes "polyvec_bounded B a" and "B < 9472"
  shows "vec_rep 1 (\<lambda>i. poly_zq (vec a ! i)) 1664 (polyvec_ntt a)"
  unfolding vec_rep_def using ntt_rep_poly_ntt [OF polyvec_boundedD(2) [OF assms(1)]] assms(2)
  by (simp add: vec_nth)

lemma vec_rep_bounded: "vec_rep c A B a \<Longrightarrow> length (vec a) = 3 \<Longrightarrow> polyvec_bounded B a"
  by (rule polyvec_boundedI) (auto simp: vec_rep_def intro: ntt_rep_bounded)

lemma vec_rep_exists:
  assumes "polyvec_bounded B a"
  obtains A where "vec_rep 1 A B a"
proof -
  have "\<exists>A. ntt_rep 1 A B (vec a ! i)" if "i < 3" for i
    using polyvec_boundedD(2) [OF assms that] by (blast elim: ntt_rep_exists)
  then obtain A where "\<forall>i<3. ntt_rep 1 (A i) B (vec a ! i)"
    by metis
  then show ?thesis
    using that by (simp add: vec_rep_def)
qed

text \<open>Multiplying two vectors of polynomials through the NTT domain gives their inner product.\<close>

lemma one_mont: "(2 ^ 16 * 169 :: zq) = 1"
  by simp

lemma polyvec_inner_product:
  assumes "polyvec_bounded B a" "polyvec_bounded C b" and "B < 9472" "C < 9472"
  defines "r \<equiv> poly_invntt_tomont (polyvec_basemul_acc_montgomery (polyvec_ntt a) (polyvec_ntt b))"
  shows "poly_bounded 3328 r"
    and "n < 256 \<Longrightarrow> poly_zq r n = inner_mul (\<lambda>i. poly_zq (vec a ! i)) (\<lambda>i. poly_zq (vec b ! i)) n"
proof -
  have rep: "ntt_rep (169 * (1 * 1)) (inner_mul (\<lambda>i. poly_zq (vec a ! i)) (\<lambda>i. poly_zq (vec b ! i))) 1664
      (polyvec_basemul_acc_montgomery (polyvec_ntt a) (polyvec_ntt b))"
    using vec_rep_ntt [OF assms(1,3)] vec_rep_ntt [OF assms(2,4)]
    by (rule polyvec_basemul_acc_correct) simp
  show "poly_bounded 3328 r"
    unfolding r_def by (rule poly_invntt_correct [OF rep]) simp
  have "2 ^ 16 * (169 * (1 * 1) * x) = (x :: zq)" for x
    by (simp only: mult_1_right mult.assoc [symmetric] one_mont mult_1_left)
  then show "n < 256 \<Longrightarrow> poly_zq r n = inner_mul (\<lambda>i. poly_zq (vec a ! i)) (\<lambda>i. poly_zq (vec b ! i)) n"
    unfolding r_def using poly_invntt_correct(2) [OF rep] by simp
qed

section \<open>Properties\<close>

text \<open>
  C20. Multiplying through the NTT domain is the ring inner product: \<open>polyvec_ntt\<close> on both vectors,
  \<open>polyvec_basemul_acc_montgomery\<close> and \<open>poly_invntt_tomont\<close> give the sum of the three negacyclic products
  modulo \<open>q\<close>, the Montgomery factors cancelling, for all coefficients of absolute value at most 9471, which every
  caller stays within.
\<close>

theorem ntt_inner_product:
  assumes "polyvec_bounded B a" and "polyvec_bounded C b" and "B \<le> 9471" and "C \<le> 9471" and "n < 256"
  shows "poly_zq (poly_invntt_tomont (polyvec_basemul_acc_montgomery (polyvec_ntt a) (polyvec_ntt b))) n
    = (\<Sum>i<3. nega_mul 256 (poly_zq (vec a ! i)) (poly_zq (vec b ! i)) n)"
  using polyvec_inner_product(2) [OF assms(1,2)] assms(3-) unfolding inner_mul_def by simp

theorem ntt_inner_product_witness:
  "poly_zq (poly_invntt_tomont (polyvec_basemul_acc_montgomery
      (polyvec_ntt \<lparr> vec = replicate 3 \<lparr> coeffs = replicate 256 2 \<rparr> \<rparr>)
      (polyvec_ntt \<lparr> vec = replicate 3 \<lparr> coeffs = replicate 256 1000 \<rparr> \<rparr>))) 31
    = (\<Sum>i<3. nega_mul 256 (poly_zq (vec \<lparr> vec = replicate 3 \<lparr> coeffs = replicate 256 2 \<rparr> \<rparr> ! i))
        (poly_zq (vec \<lparr> vec = replicate 3 \<lparr> coeffs = replicate 256 1000 \<rparr> \<rparr> ! i)) 31)"
  by (rule ntt_inner_product [where B = 2 and C = 1000]) (simp_all add: polyvec_bounded_def poly_bounded_def)

text \<open>
  C29. \<open>polyvec_compress\<close> and \<open>polyvec_decompress\<close> are those of FIPS 203. The ten-bit rounding by a 64-bit
  reciprocal is the exact rounding: for every vector of coefficients of absolute value at most 3328, bit \<open>j\<close> of \<open>Compress\<close> of
  coefficient \<open>n\<close> of polynomial \<open>i\<close> is bit \<open>2560 i + 10 n + j\<close> of the 960 bytes. Decompressing them yields
  exactly \<open>Decompress\<close> of these values, which differ from the coefficients by at most 2 modulo \<open>q\<close>.
\<close>

theorem polyvec_compression_error:
  assumes "polyvec_bounded 3328 a" and "i < 3" and "n < 256" and "j < 10"
  shows "length (polyvec_compress a) = 960
    \<and> bit_at (polyvec_compress a) (2560 * i + 10 * n + j) = bit (Compress 10 (sint (coeffs (vec a ! i) ! n))) j
    \<and> sint (coeffs (vec (polyvec_decompress (polyvec_compress a)) ! i) ! n) = Decompress 10 (Compress 10 (sint (coeffs (vec a ! i) ! n)))
    \<and> (\<exists>e. \<bar>e\<bar> \<le> 2 \<and> sint (coeffs (vec (polyvec_decompress (polyvec_compress a)) ! i) ! n) mod 3329
        = (sint (coeffs (vec a ! i) ! n) + e) mod 3329)"
proof (intro conjI)
  show d: "sint (coeffs (vec (polyvec_decompress (polyvec_compress a)) ! i) ! n) = Decompress 10 (Compress 10 (sint (coeffs (vec a ! i) ! n)))"
    using polyvec_decompress_compress [OF assms(1-3), of "[]"] by simp
  show "\<exists>e. \<bar>e\<bar> \<le> 2 \<and> sint (coeffs (vec (polyvec_decompress (polyvec_compress a)) ! i) ! n) mod 3329
      = (sint (coeffs (vec a ! i) ! n) + e) mod 3329"
    unfolding d by (metis Decompress_Compress_10)
qed (rule polyvec_compress_block(2) [OF assms(1,2)], rule polyvec_compress_bits [OF assms])

theorem polyvec_compression_error_witness:
  "let a = \<lparr> vec = replicate 3 \<lparr> coeffs = replicate 256 1000 \<rparr> \<rparr>
   in length (polyvec_compress a) = 960
    \<and> bit_at (polyvec_compress a) (2560 * 2 + 10 * 9 + 4) = bit (Compress 10 (sint (coeffs (vec a ! 2) ! 9))) 4
    \<and> sint (coeffs (vec (polyvec_decompress (polyvec_compress a)) ! 2) ! 9) = Decompress 10 (Compress 10 (sint (coeffs (vec a ! 2) ! 9)))
    \<and> (\<exists>e. \<bar>e\<bar> \<le> 2 \<and> sint (coeffs (vec (polyvec_decompress (polyvec_compress a)) ! 2) ! 9) mod 3329
        = (sint (coeffs (vec a ! 2) ! 9) + e) mod 3329)"
  unfolding Let_def by (rule polyvec_compression_error) (simp_all add: polyvec_bounded_def poly_bounded_def)

text \<open>
  \<open>polyvec_tobytes\<close> after \<open>polyvec_frombytes\<close> is the identity on every array of 1152 bytes.
\<close>

theorem polyvec_bytes_roundtrip:
  assumes "length b = 1152"
  shows "polyvec_tobytes (polyvec_frombytes b) = b"
  using assms by (rule polyvec_tobytes_frombytes)

theorem polyvec_bytes_roundtrip_witness:
  "polyvec_tobytes (polyvec_frombytes (replicate 1152 0xAB)) = replicate 1152 0xAB"
  by (rule polyvec_bytes_roundtrip) simp

end
