(* ===== verification/Symmetric.thy ===== *)
theory Symmetric
  imports Sponge Polyvec
begin

text \<open>
  The symmetric primitives of ML-KEM: \<open>native/mlkem/pqclean-ml-kem-768/symmetric-shake.c\<close> and the macros of
  \<open>symmetric.h\<close>, instances of the functions of \<open>fips202.c\<close>, and the noise sampler of \<open>poly.c\<close> that is
  built on them. A buffer that is assembled with \<open>memcpy\<close> and single stores is the concatenation of its
  parts. The lemmas name each of them as an instance of the sponge of FIPS 202.
\<close>

section \<open>Definitions\<close>

definition XOF_BLOCKBYTES :: nat where
  "XOF_BLOCKBYTES = SHAKE128_RATE"

definition kyber_shake128_absorb :: "bytes \<Rightarrow> u8 \<Rightarrow> u8 \<Rightarrow> u64 list" where
  "kyber_shake128_absorb seed x y =
     (let extseed = take KYBER_SYMBYTES seed @ [x, y]
      in shake128_absorb extseed)"

definition kyber_shake256_prf :: "nat \<Rightarrow> bytes \<Rightarrow> u8 \<Rightarrow> bytes" where
  "kyber_shake256_prf outlen key nonce =
     (let extkey = take KYBER_SYMBYTES key @ [nonce]
      in shake256 outlen extkey)"

definition kyber_shake256_rkprf :: "bytes \<Rightarrow> bytes \<Rightarrow> bytes" where
  "kyber_shake256_rkprf key input =
     (let s = shake256_inc_init;
          s = shake256_inc_absorb s (take KYBER_SYMBYTES key);
          s = shake256_inc_absorb s (take KYBER_CIPHERTEXTBYTES input);
          s = shake256_inc_finalize s;
          (out, s) = shake256_inc_squeeze KYBER_SSBYTES s
      in out)"

text \<open>The macros.\<close>

definition hash_h :: "bytes \<Rightarrow> bytes" where
  "hash_h input = sha3_256 input"

definition hash_g :: "bytes \<Rightarrow> bytes" where
  "hash_g input = sha3_512 input"

definition xof_absorb :: "bytes \<Rightarrow> u8 \<Rightarrow> u8 \<Rightarrow> u64 list" where
  "xof_absorb seed x y = kyber_shake128_absorb seed x y"

definition xof_squeezeblocks :: "nat \<Rightarrow> u64 list \<Rightarrow> bytes \<times> u64 list" where
  "xof_squeezeblocks outblocks state = shake128_squeezeblocks outblocks state"

definition kyber_prf :: "nat \<Rightarrow> bytes \<Rightarrow> u8 \<Rightarrow> bytes" where
  "kyber_prf outbytes key nonce = kyber_shake256_prf outbytes key nonce"

definition rkprf :: "bytes \<Rightarrow> bytes \<Rightarrow> bytes" where
  "rkprf key input = kyber_shake256_rkprf key input"

text \<open>The noise sampler.\<close>

definition poly_getnoise_eta1 :: "bytes \<Rightarrow> u8 \<Rightarrow> poly" where
  "poly_getnoise_eta1 seed nonce =
     (let buf = kyber_prf (KYBER_ETA1 * KYBER_N div 4) seed nonce
      in poly_cbd_eta1 buf)"

definition poly_getnoise_eta2 :: "bytes \<Rightarrow> u8 \<Rightarrow> poly" where
  "poly_getnoise_eta2 seed nonce =
     (let buf = kyber_prf (KYBER_ETA2 * KYBER_N div 4) seed nonce
      in poly_cbd_eta2 buf)"

section \<open>As instances of the sponge\<close>

lemma hash_h_eq: "hash_h m = sponge 136 0x06 32 m"
  by (simp add: hash_h_def sha3_correct)

lemma hash_g_eq: "hash_g m = sponge 72 0x06 64 m"
  by (simp add: hash_g_def sha3_correct)

lemma length_hash [len_simps, simp]: "length (hash_h m) = 32" "length (hash_g m) = 64"
  by (simp_all add: hash_h_eq hash_g_eq)

lemma kyber_prf_eq: "kyber_prf n key nonce = sponge 136 0x1F n (take 32 key @ [nonce])"
  by (simp add: kyber_prf_def kyber_shake256_prf_def shake_correct params)

lemma inc_shake256:
  "fst (shake256_inc_squeeze n (shake256_inc_finalize (foldl shake256_inc_absorb shake256_inc_init ms)))
    = sponge 136 0x1F n (concat ms)"
proof -
  have r: "good_rate 136" and p: "\<not> bit (0x1F :: u8) 7"
    by (simp_all add: good_rate_def)
  have "shake256_inc_absorb = keccak_inc_absorb 136"
    by (intro ext) (simp add: shake256_inc_absorb_def rates)
  then have "foldl shake256_inc_absorb shake256_inc_init ms = keccak_inc_absorb 136 keccak_inc_init (concat ms)"
    using foldl_absorb_concat [OF r inc_ok_init [OF good_rate_pos [OF r]]] by (simp add: shake256_inc_init_def)
  then show ?thesis
    using keccak_inc_correct [OF r p, of n "concat ms"]
    by (auto simp: shake256_inc_squeeze_def shake256_inc_finalize_def rates)
qed

lemma rkprf_eq: "rkprf key input = sponge 136 0x1F 32 (take 32 key @ take 1088 input)"
  using inc_shake256 [of 32 "[take 32 key, take 1088 input]"]
  by (simp add: rkprf_def kyber_shake256_rkprf_def params case_prod_beta)

lemma length_rkprf [len_simps, simp]: "length (rkprf key input) = 32"
  by (simp add: rkprf_eq)

lemma xof_absorb_correct:
  "keccak_p (xof_absorb seed x y) = sponge_absorb 168 0x1F (take 32 seed @ [x, y])"
  "length (xof_absorb seed x y) = 25"
proof -
  have r: "good_rate 168" and p: "\<not> bit (0x1F :: u8) 7"
    by (simp_all add: good_rate_def)
  have e: "xof_absorb seed x y = keccak_absorb 168 (take 32 seed @ [x, y]) 0x1F"
    by (simp add: xof_absorb_def kyber_shake128_absorb_def shake128_absorb_def params rates)
  show l: "length (xof_absorb seed x y) = 25"
    unfolding e by (rule keccak_absorb_correct(2) [OF r p])
  show "keccak_p (xof_absorb seed x y) = sponge_absorb 168 0x1F (take 32 seed @ [x, y])"
    using keccak_absorb_correct(1) [OF r p] l unfolding e by (metis permute_25)
qed

section \<open>Noise\<close>

lemma poly_getnoise_eq:
  "poly_getnoise_eta1 seed nonce = cbd2 (sponge 136 0x1F 128 (take 32 seed @ [nonce]))"
  "poly_getnoise_eta2 seed nonce = cbd2 (sponge 136 0x1F 128 (take 32 seed @ [nonce]))"
  by (simp_all add: poly_getnoise_eta1_def poly_getnoise_eta2_def poly_cbd_eta1_def poly_cbd_eta2_def
      kyber_prf_eq params)

lemma poly_bounded_cbd2: "length buf = 128 \<Longrightarrow> poly_bounded 2 (cbd2 buf)"
  by (rule poly_boundedI) (simp_all add: cbd2_range length_cbd2)

lemma poly_bounded_getnoise [intro, simp]:
  "poly_bounded 2 (poly_getnoise_eta1 seed nonce)" "poly_bounded 2 (poly_getnoise_eta2 seed nonce)"
  by (simp_all add: poly_getnoise_eq poly_bounded_cbd2)

end
