(* ===== verification/Sampling.thy ===== *)
theory Sampling
  imports Symmetric
begin

text \<open>
  The samplers of \<open>native/mlkem/pqclean-ml-kem-768/indcpa.c\<close>: rejection sampling and the expansion of the
  matrix from its seed.

  The loop of \<open>gen_matrix\<close> runs until 256 values below \<open>q\<close> have come out of SHAKE128. No proof bounds the
  number of blocks it takes, so it is a partial function and \<open>None\<close> stands for a call that does not
  return; an entry is shown to return exactly when the stream holds enough candidates, and then to be
  \<open>SampleNTT\<close> of FIPS 203.
\<close>

section \<open>Definitions\<close>

subsection \<open>Rejection sampling\<close>

text \<open>The array \<open>r\<close> filled up to \<open>ctr\<close> is the list of the values sampled so far.\<close>

function rej_loop :: "nat \<Rightarrow> bytes \<Rightarrow> nat \<Rightarrow> nat \<Rightarrow> i16 list \<Rightarrow> i16 list" where
  "rej_loop len buf buflen pos r =
     (if length r < len \<and> pos + 3 \<le> buflen
      then let val0 = to_i16 ((drop_bit 0 (promote_u8 (buf ! (pos + 0)))
                               OR push_bit 8 (promote_u16 (ucast (buf ! (pos + 1))))) AND 0xFFF);
               val1 = to_i16 ((drop_bit 4 (promote_u8 (buf ! (pos + 1)))
                               OR push_bit 4 (promote_u16 (ucast (buf ! (pos + 2))))) AND 0xFFF);
               r = (if promote_u16 val0 < KYBER_Q then r @ [val0] else r);
               r = (if length r < len \<and> promote_u16 val1 < KYBER_Q then r @ [val1] else r)
           in rej_loop len buf buflen (pos + 3) r
      else r)"
  by pat_completeness auto
termination
  by (relation "measure (\<lambda>(len, buf, buflen, pos, r). buflen - pos)") auto

declare rej_loop.simps [simp del]

definition rej_uniform :: "nat \<Rightarrow> bytes \<Rightarrow> nat \<Rightarrow> i16 list" where
  "rej_uniform len buf buflen = rej_loop len buf buflen 0 []"

subsection \<open>The matrix\<close>

definition GEN_MATRIX_NBLOCKS :: nat where
  "GEN_MATRIX_NBLOCKS =
     (12 * KYBER_N div 8 * (2 ^ 12) div unat KYBER_Q + XOF_BLOCKBYTES) div XOF_BLOCKBYTES"

partial_function (option) gen_more :: "u64 list \<Rightarrow> i16 list \<Rightarrow> i16 list option" where
  "gen_more state r =
     (if length r < KYBER_N
      then let (buf, state) = xof_squeezeblocks 1 state;
               buflen = XOF_BLOCKBYTES
           in gen_more state (r @ rej_uniform (KYBER_N - length r) buf buflen)
      else Some r)"

declare gen_more.simps [code]

definition gen_entry :: "bytes \<Rightarrow> u8 \<Rightarrow> u8 \<Rightarrow> poly option" where
  "gen_entry seed x y =
     (let state = xof_absorb seed x y;
          (buf, state) = xof_squeezeblocks GEN_MATRIX_NBLOCKS state;
          buflen = GEN_MATRIX_NBLOCKS * XOF_BLOCKBYTES;
          r = rej_uniform KYBER_N buf buflen
      in map_option (\<lambda>r. \<lparr> coeffs = r \<rparr>) (gen_more state r))"

definition gen_matrix :: "bytes \<Rightarrow> bool \<Rightarrow> polyvec list option" where
  "gen_matrix seed transposed =
     those (map (\<lambda>i. map_option (\<lambda>row. \<lparr> vec = row \<rparr>)
       (those (map (\<lambda>j.
          if transposed then gen_entry seed (word_of_nat i) (word_of_nat j)
          else gen_entry seed (word_of_nat j) (word_of_nat i)) [0..<KYBER_K]))) [0..<KYBER_K])"

definition gen_a :: "bytes \<Rightarrow> polyvec list option" where
  "gen_a seed = gen_matrix seed False"

definition gen_at :: "bytes \<Rightarrow> polyvec list option" where
  "gen_at seed = gen_matrix seed True"

section \<open>Rejection sampling\<close>

text \<open>
  \<open>SampleNTT\<close> of FIPS 203 (algorithm 7): each three bytes of the stream \<open>C\<close> hold two candidates of twelve
  bits, and those below \<open>q\<close> are accepted in order.
\<close>

definition ntt_candidate :: "(nat \<Rightarrow> u8) \<Rightarrow> nat \<Rightarrow> nat" where
  "ntt_candidate C i =
     (let k = 3 * (i div 2) in ByteDecode 12 [C k, C (k + 1), C (k + 2)] (i mod 2))"

definition ntt_accepted :: "(nat \<Rightarrow> u8) \<Rightarrow> nat \<Rightarrow> nat list" where
  "ntt_accepted C n = filter (\<lambda>d. d < 3329) (map (ntt_candidate C) [0..<n])"

lemma unat_unpack_d12:
  assumes "j < 2"
  shows "unat (unpack_d12 [x, y, z] ! j) = ByteDecode 12 [x, y, z] j"
  using d12.unat_unpack_blocks [of "[x, y, z]" 1 j] assms by simp

lemma less_KYBER_Q: "promote_u16 v < KYBER_Q \<longleftrightarrow> unat v < 3329"
  by (simp add: word_less_nat_alt unat_ucast_up params)

lemma ntt_accepted_append:
  "ntt_accepted C (i + n) = ntt_accepted C i @ filter (\<lambda>d. d < 3329) (map (ntt_candidate C) [i..<i + n])"
  unfolding ntt_accepted_def using upt_add_eq_append [of 0 i n] by simp

lemma ntt_candidate_pair:
  "ntt_candidate C (2 * k) = ByteDecode 12 [C (3 * k), C (3 * k + 1), C (3 * k + 2)] 0"
  "ntt_candidate C (Suc (2 * k)) = ByteDecode 12 [C (3 * k), C (3 * k + 1), C (3 * k + 2)] 1"
  by (simp_all add: ntt_candidate_def Let_def)

text \<open>One iteration of the loop reads the pair of candidates at \<open>pos\<close>.\<close>

lemma rej_loop_correct:
  fixes r :: "i16 list"
  assumes "buflen \<le> length buf" and "length r \<le> len" and "k \<le> buflen div 3"
    and "map unat r = take len (ntt_accepted (\<lambda>i. buf ! i) (2 * k))"
  shows "map unat (rej_loop len buf buflen (3 * k) r) = take len (ntt_accepted (\<lambda>i. buf ! i) (2 * (buflen div 3)))"
  using assms(2-)
proof (induction "buflen div 3 - k" arbitrary: k r)
  case (Suc d)
  let ?C = "\<lambda>i. buf ! i"
  show ?case
  proof (cases "length r < len")
    case True
    have k: "3 * k + 3 \<le> buflen"
      using Suc.hyps(2) by simp
    define w where "w = unpack_d12 [buf ! (3 * k), buf ! (3 * k + 1), buf ! (3 * k + 2)]"
    define r1 where "r1 = (if unat (w ! 0) < 3329 then r @ [w ! 0] else r)"
    define r2 where "r2 = (if length r1 < len \<and> unat (w ! 1) < 3329 then r1 @ [w ! 1] else r1)"
    have step: "rej_loop len buf buflen (3 * k) r = rej_loop len buf buflen (3 * Suc k) r2"
      unfolding r2_def r1_def w_def using True k
      by (subst rej_loop.simps) (simp add: Let_def less_KYBER_Q unpack_d12_def add.commute)
    have w: "unat (w ! 0) = ntt_candidate ?C (2 * k)" "unat (w ! 1) = ntt_candidate ?C (Suc (2 * k))"
      by (simp_all only: w_def ntt_candidate_pair unat_unpack_d12)
    have full: "map unat r = ntt_accepted ?C (2 * k)"
    proof -
      have "length (take len (ntt_accepted ?C (2 * k))) < len"
        using arg_cong [OF Suc.prems(3), of length] True by simp
      then show ?thesis
        using Suc.prems(3) by simp
    qed
    have "ntt_accepted ?C (2 * Suc k) = map unat r
        @ filter (\<lambda>d. d < 3329) [ntt_candidate ?C (2 * k), ntt_candidate ?C (Suc (2 * k))]"
      using ntt_accepted_append [of ?C "2 * k" 2] upt_conv_Cons [of "2 * k" "2 * k + 2"] by (simp add: full)
    then have "map unat r2 = take len (ntt_accepted ?C (2 * Suc k))" "length r2 \<le> len"
      using True by (auto simp: r2_def r1_def w(1) w(2) [unfolded One_nat_def] take_Cons')
    then show ?thesis
      unfolding step using Suc.hyps by (intro Suc.hyps(1)) simp_all
  next
    case False
    then have l: "length r = len"
      using Suc.prems by simp
    then have "take len (ntt_accepted ?C (2 * k + n)) = take len (ntt_accepted ?C (2 * k))" for n
      using arg_cong [OF Suc.prems(3), of length] by (simp add: ntt_accepted_append)
    from this [of "2 * (buflen div 3 - k)"] show ?thesis
      using False Suc.prems by (subst rej_loop.simps) (simp add: algebra_simps)
  qed
next
  case 0
  then have "buflen < 3 * k + 3" "k = buflen div 3"
    by simp_all
  then show ?case
    using 0 by (subst rej_loop.simps) simp
qed

lemma rej_uniform_correct:
  assumes "buflen \<le> length buf"
  shows "map unat (rej_uniform len buf buflen) = take len (ntt_accepted (\<lambda>i. buf ! i) (2 * (buflen div 3)))"
  using rej_loop_correct [OF assms, of "[]" len 0] by (simp add: rej_uniform_def ntt_accepted_def)

section \<open>The matrix\<close>

lemma gen_blocks: "GEN_MATRIX_NBLOCKS = 3" "XOF_BLOCKBYTES = 168"
  by (simp_all add: GEN_MATRIX_NBLOCKS_def XOF_BLOCKBYTES_def rates params)

lemma xof_squeezeblocks_correct:
  assumes "length st = 25"
  shows "xof_squeezeblocks k st = (map (sponge_byte 168 (keccak_p st)) [0..<k * 168], (keccak_p ^^ k) st)"
  using keccak_squeezeblocks_correct [of 168 st k] assms
  by (simp add: xof_squeezeblocks_def shake128_squeezeblocks_def rates good_rate_def)

text \<open>
  \<open>xof_at S n st\<close>: \<open>n\<close> blocks of the stream of \<open>S\<close> have been squeezed out of \<open>st\<close>. They hold 112 candidates
  each, so the candidates of the next blocks are those of the stream from \<open>112 * n\<close> on.
\<close>

definition xof_at :: "u64 list \<Rightarrow> nat \<Rightarrow> u64 list \<Rightarrow> bool" where
  "xof_at S n st \<longleftrightarrow> length st = 25 \<and> keccak_p st = (keccak_p ^^ n) S"

lemma xof_at_step:
  assumes "xof_at S n st"
  shows "xof_at S (n + k) ((keccak_p ^^ k) st)"
proof (induction k)
  case (Suc k)
  then have "keccak_p ((keccak_p ^^ Suc k) st) = (keccak_p ^^ (n + Suc k)) S"
    by (simp add: xof_at_def)
  moreover have "length ((keccak_p ^^ Suc k) st) = 25"
    by (simp only: funpow.simps comp_apply length_keccak_p)
  ultimately show ?case
    by (simp only: xof_at_def)
qed (use assms in simp)

lemma ntt_candidate_shift:
  assumes "\<And>i. i < 3 * m \<Longrightarrow> C' i = C (3 * k + i)" and "i < 2 * m"
  shows "ntt_candidate C' i = ntt_candidate C (2 * k + i)"
proof -
  have "i div 2 < m"
    using assms(2) by (intro less_mult_imp_div_less) simp
  then have "3 * (i div 2) + 2 < 3 * m"
    by linarith
  moreover have "(2 * k + i) div 2 = k + i div 2" "(2 * k + i) mod 2 = i mod 2"
    by simp_all
  ultimately show ?thesis
    using assms(1) by (simp add: ntt_candidate_def Let_def algebra_simps)
qed

lemma rej_block:
  assumes st: "xof_at S n st" and buf: "buf = fst (xof_squeezeblocks k st)" and r: "length r < 256"
    and inv: "map unat r = take 256 (ntt_accepted (sponge_byte 168 S) (112 * n))"
  shows "map unat (r @ rej_uniform (256 - length r) buf (k * 168))
    = take 256 (ntt_accepted (sponge_byte 168 S) (112 * (n + k)))"
proof -
  let ?C = "sponge_byte 168 S"
  have b: "buf = map (\<lambda>i. ?C (n * 168 + i)) [0..<k * 168]"
    using st by (simp add: buf xof_at_def xof_squeezeblocks_correct sponge_byte_shift)
  have "ntt_candidate (\<lambda>i. buf ! i) i = ntt_candidate ?C (2 * (56 * n) + i)" if "i < 2 * (56 * k)" for i
    using that by (rule ntt_candidate_shift [rotated]) (simp add: b algebra_simps)
  then have "map (ntt_candidate (\<lambda>i. buf ! i)) [0..<112 * k] = map (ntt_candidate ?C) [112 * n..<112 * n + 112 * k]"
    by (intro nth_equalityI) simp_all
  then have new: "ntt_accepted ?C (112 * (n + k)) = ntt_accepted ?C (112 * n) @ ntt_accepted (\<lambda>i. buf ! i) (112 * k)"
    using ntt_accepted_append [of ?C "112 * n" "112 * k"] by (simp add: ntt_accepted_def algebra_simps)
  have "length (take 256 (ntt_accepted ?C (112 * n))) < 256"
    using arg_cong [OF inv, of length] r by simp
  then have full: "map unat r = ntt_accepted ?C (112 * n)"
    using inv by simp
  have "2 * (k * 168 div 3) = 112 * k"
    by simp
  moreover have "length buf = k * 168"
    by (simp add: b)
  ultimately have "map unat (rej_uniform (256 - length r) buf (k * 168))
      = take (256 - length r) (ntt_accepted (\<lambda>i. buf ! i) (112 * k))"
    using rej_uniform_correct [of "k * 168" buf "256 - length r"] by simp
  moreover have "length (ntt_accepted ?C (112 * n)) = length r"
    using arg_cong [OF full, of length] by simp
  ultimately show ?thesis
    using r by (simp only: map_append full new take_append) simp
qed

lemma gen_more_step:
  assumes "length r < 256" and "length st = 25"
  shows "gen_more st r
    = gen_more (keccak_p st) (r @ rej_uniform (256 - length r) (fst (xof_squeezeblocks 1 st)) (1 * 168))"
  using assms by (subst gen_more.simps) (simp add: params gen_blocks xof_squeezeblocks_correct)

lemma gen_more_returns:
  assumes "xof_at S n st" and "map unat r = take 256 (ntt_accepted (sponge_byte 168 S) (112 * n))"
    and "256 \<le> length (ntt_accepted (sponge_byte 168 S) (112 * k))" and "n \<le> k"
  shows "\<exists>r'. gen_more st r = Some r' \<and> map unat r' = take 256 (ntt_accepted (sponge_byte 168 S) (112 * k))"
  using assms
proof (induction "k - n" arbitrary: n st r)
  case 0
  have "length r = length (map unat r)"
    by simp
  also have "\<dots> = 256"
    using 0 by (simp del: length_map)
  finally have "length r = 256" .
  then show ?case
    using 0 by (subst gen_more.simps) (auto simp: params)
next
  case (Suc d)
  let ?C = "sponge_byte 168 S"
  show ?case
  proof (cases "length r < 256")
    case True
    note inv = rej_block [OF Suc.prems(1) refl True Suc.prems(2), of 1]
    have "length st = 25"
      using Suc.prems(1) by (simp add: xof_at_def)
    then show ?thesis
      unfolding gen_more_step [OF True \<open>length st = 25\<close>]
      using Suc.hyps xof_at_step [OF Suc.prems(1), of 1] inv Suc.prems(3)
      by (intro Suc.hyps(1) [of "n + 1"]) auto
  next
    case False
    then have l: "length r = 256" "256 \<le> length (ntt_accepted ?C (112 * n))"
      using arg_cong [OF Suc.prems(2), of length] by simp_all
    have "take 256 (ntt_accepted ?C (112 * n + i)) = take 256 (ntt_accepted ?C (112 * n))" for i
      using l(2) by (simp add: ntt_accepted_append)
    from this [of "112 * (k - n)"] show ?thesis
      using False Suc.prems l by (subst gen_more.simps) (auto simp: params algebra_simps)
  qed
qed

lemma gen_more_needs:
  assumes "gen_more st r = Some r'"
  shows "\<forall>n. xof_at S n st \<longrightarrow> map unat r = take 256 (ntt_accepted (sponge_byte 168 S) (112 * n))
    \<longrightarrow> (\<exists>k\<ge>n. 256 \<le> length (ntt_accepted (sponge_byte 168 S) (112 * k)))"
  using assms
proof (rule gen_more.raw_induct [rotated], intro allI impI)
  let ?F = "\<lambda>n. ntt_accepted (sponge_byte 168 S) (112 * n)"
  fix gen st r r' n
  assume IH: "\<And>st r r'. gen st r = Some r' \<Longrightarrow> \<forall>n. xof_at S n st \<longrightarrow> map unat r = take 256 (?F n) \<longrightarrow> (\<exists>k\<ge>n. 256 \<le> length (?F k))"
    and body: "(if length r < KYBER_N
       then let (buf, state) = xof_squeezeblocks 1 st; buflen = XOF_BLOCKBYTES
            in gen state (r @ rej_uniform (KYBER_N - length r) buf buflen)
       else Some r) = Some r'"
    and st: "xof_at S n st" and inv: "map unat r = take 256 (?F n)"
  have l: "length st = 25"
    using st by (simp add: xof_at_def)
  show "\<exists>k\<ge>n. 256 \<le> length (?F k)"
  proof (cases "length r < 256")
    case True
    have "gen (keccak_p st) (r @ rej_uniform (256 - length r) (fst (xof_squeezeblocks 1 st)) (1 * 168)) = Some r'"
      using body True l by (simp add: params gen_blocks xof_squeezeblocks_correct)
    from IH [OF this, THEN spec [of _ "n + 1"]] have "\<exists>k\<ge>n + 1. 256 \<le> length (?F k)"
      using xof_at_step [OF st, of 1] rej_block [OF st refl True inv, of 1] by simp
    then show ?thesis
      using add_leD1 by blast
  next
    case False
    then have "256 \<le> length (take 256 (?F n))"
      using arg_cong [OF inv, of length] by simp
    then show ?thesis
      by auto
  qed
qed

text \<open>
  An entry of the matrix: the call returns exactly when the stream holds enough candidates below \<open>q\<close>,
  and then delivers the first 256 of them.
\<close>

definition xof_stream :: "bytes \<Rightarrow> u8 \<Rightarrow> u8 \<Rightarrow> nat \<Rightarrow> u8" where
  "xof_stream seed x y = sponge_byte 168 (sponge_absorb 168 0x1F (take 32 seed @ [x, y]))"

lemma gen_entry_unfold:
  obtains st r where "gen_entry seed x y = map_option (\<lambda>r. \<lparr> coeffs = r \<rparr>) (gen_more st r)"
    and "xof_at (sponge_absorb 168 0x1F (take 32 seed @ [x, y])) 3 st"
    and "map unat r = take 256 (ntt_accepted (xof_stream seed x y) (112 * 3))"
proof -
  let ?S = "sponge_absorb 168 0x1F (take 32 seed @ [x, y])"
  define s0 where "s0 = xof_absorb seed x y"
  have s0: "xof_at ?S 0 s0"
    using xof_absorb_correct by (simp add: xof_at_def s0_def)
  let ?r = "rej_uniform 256 (fst (xof_squeezeblocks 3 s0)) (3 * 168)"
  have "map unat ([] @ rej_uniform (256 - length ([] :: i16 list)) (fst (xof_squeezeblocks 3 s0)) (3 * 168))
      = take 256 (ntt_accepted (sponge_byte 168 ?S) (112 * (0 + 3)))"
    by (rule rej_block [OF s0 refl]) (simp_all add: ntt_accepted_def)
  then have r: "map unat ?r = take 256 (ntt_accepted (xof_stream seed x y) (112 * 3))"
    by (simp add: xof_stream_def)
  have l: "length s0 = 25"
    using s0 by (simp add: xof_at_def)
  have "gen_entry seed x y = map_option (\<lambda>r. \<lparr> coeffs = r \<rparr>) (gen_more ((keccak_p ^^ 3) s0) ?r)"
    by (simp add: gen_entry_def gen_blocks params xof_squeezeblocks_correct [OF l] case_prod_beta flip: s0_def)
  then show ?thesis
    using that r xof_at_step [OF s0, of 3] by simp
qed

lemma gen_entry_correct:
  assumes "256 \<le> length (ntt_accepted (xof_stream seed x y) (112 * k))"
  shows "\<exists>p. gen_entry seed x y = Some p
    \<and> map unat (coeffs p) = take 256 (ntt_accepted (xof_stream seed x y) (112 * k))"
proof -
  obtain st r where g: "gen_entry seed x y = map_option (\<lambda>r. \<lparr> coeffs = r \<rparr>) (gen_more st r)"
    and st: "xof_at (sponge_absorb 168 0x1F (take 32 seed @ [x, y])) 3 st"
    and r: "map unat r = take 256 (ntt_accepted (xof_stream seed x y) (112 * 3))"
    using gen_entry_unfold by metis
  let ?F = "\<lambda>k. ntt_accepted (xof_stream seed x y) (112 * k)"
  define k' where "k' = max 3 k"
  have "?F k' = ?F k @ filter (\<lambda>d. d < 3329) (map (ntt_candidate (xof_stream seed x y)) [112 * k..<112 * k'])"
    using ntt_accepted_append [of _ "112 * k" "112 * (k' - k)"] by (simp add: k'_def algebra_simps)
  then have k': "256 \<le> length (?F k')" "take 256 (?F k') = take 256 (?F k)"
    using assms by simp_all
  then show ?thesis
    using gen_more_returns [OF st r [unfolded xof_stream_def] _, of k'] g
    by (auto simp: k'_def xof_stream_def)
qed

lemma gen_entry_returns_iff:
  "(\<exists>p. gen_entry seed x y = Some p) \<longleftrightarrow> (\<exists>k. 256 \<le> length (ntt_accepted (xof_stream seed x y) (112 * k)))"
proof
  assume "\<exists>p. gen_entry seed x y = Some p"
  then obtain st r r' where "gen_more st r = Some r'"
    and "xof_at (sponge_absorb 168 0x1F (take 32 seed @ [x, y])) 3 st"
    and "map unat r = take 256 (ntt_accepted (xof_stream seed x y) (112 * 3))"
    by (rule_tac gen_entry_unfold [of seed x y]) auto
  then show "\<exists>k. 256 \<le> length (ntt_accepted (xof_stream seed x y) (112 * k))"
    using gen_more_needs by (metis xof_stream_def)
qed (use gen_entry_correct in blast)

lemma gen_entry_bounded:
  assumes "gen_entry seed x y = Some p"
  shows "poly_bounded 3328 p"
proof -
  obtain k where "256 \<le> length (ntt_accepted (xof_stream seed x y) (112 * k))"
    using gen_entry_returns_iff assms by blast
  from gen_entry_correct [OF this] obtain n
    where n: "map unat (coeffs p) = take 256 (ntt_accepted (xof_stream seed x y) n)" "256 \<le> length (ntt_accepted (xof_stream seed x y) n)"
    using assms \<open>256 \<le> _\<close> by auto
  have len: "length (coeffs p) = 256"
    using arg_cong [OF n(1), of length] n(2) by simp
  have "unat c < 3329" if "c \<in> set (coeffs p)" for c
  proof -
    have "unat c \<in> set (take 256 (ntt_accepted (xof_stream seed x y) n))"
      using that by (simp flip: n(1))
    then have "unat c \<in> set (ntt_accepted (xof_stream seed x y) n)"
      by (rule in_set_takeD)
    then show ?thesis
      by (simp add: ntt_accepted_def)
  qed
  then have "\<bar>sint c\<bar> \<le> 3328" if "c \<in> set (coeffs p)" for c
  proof -
    have "unat c < 3329"
      using \<open>\<And>c. c \<in> set (coeffs p) \<Longrightarrow> unat c < 3329\<close> that .
    moreover from this have "sint c = int (unat c)"
      by (intro sint_unat) simp
    ultimately show ?thesis
      by linarith
  qed
  then show ?thesis
    using len by (simp add: poly_bounded_def)
qed

lemma those_SomeD:
  assumes "those xs = Some ys"
  shows "length ys = length xs" and "i < length xs \<Longrightarrow> xs ! i = Some (ys ! i)"
  using assms
proof (induction xs arbitrary: ys i)
  case (Cons x xs)
  { case 1 then show ?case using Cons.IH(1) by (auto split: option.splits) }
  { case 2 then show ?case using Cons.IH(2) by (cases i) (auto split: option.splits) }
qed auto

lemma gen_matrix_entry:
  assumes "gen_matrix seed transposed = Some a" and "i < 3" and "j < 3"
  shows "length (vec (a ! i)) = 3"
    and "gen_entry seed (word_of_nat (if transposed then i else j)) (word_of_nat (if transposed then j else i))
      = Some (vec (a ! i) ! j)"
proof -
  let ?row = "\<lambda>i. those (map (\<lambda>j. if transposed then gen_entry seed (word_of_nat i) (word_of_nat j)
          else gen_entry seed (word_of_nat j) (word_of_nat i)) [0..<3])"
  have upt: "k < 3 \<Longrightarrow> [0..<3] ! k = k" for k
    by simp
  have "map_option (\<lambda>row. \<lparr> vec = row \<rparr>) (?row i) = Some (a ! i)"
    using those_SomeD(2) [OF assms(1) [unfolded gen_matrix_def params], of i] assms(2)
    by (simp only: length_map length_upt nth_map upt diff_zero)
  then obtain row where "?row i = Some row" "\<lparr> vec = row \<rparr> = a ! i"
    by auto
  then have row: "?row i = Some (vec (a ! i))"
    by (metis polyvec.select_convs(1))
  show "length (vec (a ! i)) = 3"
    using those_SomeD(1) [OF row] by simp
  show "gen_entry seed (word_of_nat (if transposed then i else j)) (word_of_nat (if transposed then j else i))
      = Some (vec (a ! i) ! j)"
    using those_SomeD(2) [OF row, of j] assms(3)
    by (cases transposed) (simp_all only: length_map length_upt nth_map upt diff_zero if_True if_False simp_thms)
qed

lemma gen_matrix_bounded:
  assumes "gen_matrix seed transposed = Some a" and "i < 3"
  shows "polyvec_bounded 3328 (a ! i)"
  using gen_matrix_entry(1) [OF assms, of 0] gen_matrix_entry(2) [OF assms]
  by (intro polyvec_boundedI gen_entry_bounded) auto

text \<open>\<open>gen_at\<close> is the transpose of \<open>gen_a\<close>.\<close>

lemma gen_at_transpose:
  assumes "gen_a seed = Some a" and "gen_at seed = Some at" and "i < 3" and "j < 3"
  shows "vec (at ! i) ! j = vec (a ! j) ! i"
  using gen_matrix_entry(2) [OF assms(1) [unfolded gen_a_def] assms(4,3)]
    gen_matrix_entry(2) [OF assms(2) [unfolded gen_at_def] assms(3,4)] by simp

lemma those_map_Some:
  assumes "\<And>x. x \<in> set xs \<Longrightarrow> f x = Some (g x)"
  shows "those (map f xs) = Some (map g xs)"
  using assms by (induction xs) simp_all

lemma those_map_None: "x \<in> set xs \<Longrightarrow> f x = None \<Longrightarrow> those (map f xs) = None"
  by (induction xs) (auto split: option.splits)

lemma gen_matrix_Some:
  assumes "\<And>i j. i < 3 \<Longrightarrow> j < 3 \<Longrightarrow>
    gen_entry seed (word_of_nat (if transposed then i else j)) (word_of_nat (if transposed then j else i)) = Some (P i j)"
  shows "gen_matrix seed transposed = Some (map (\<lambda>i. \<lparr> vec = map (P i) [0..<3] \<rparr>) [0..<3])"
proof -
  have row: "those (map (\<lambda>j. if transposed then gen_entry seed (word_of_nat i) (word_of_nat j)
      else gen_entry seed (word_of_nat j) (word_of_nat i)) [0..<3]) = Some (map (P i) [0..<3])" if "i < 3" for i
    by (rule those_map_Some) (use assms [OF that] in \<open>cases transposed; simp\<close>)
  show ?thesis
    unfolding gen_matrix_def params by (rule those_map_Some) (use row in simp)
qed

lemma gen_matrix_None:
  assumes "i < 3" and "j < 3"
    and "gen_entry seed (word_of_nat (if transposed then i else j)) (word_of_nat (if transposed then j else i)) = None"
  shows "gen_matrix seed transposed = None"
proof -
  have "those (map (\<lambda>j. if transposed then gen_entry seed (word_of_nat i) (word_of_nat j)
      else gen_entry seed (word_of_nat j) (word_of_nat i)) [0..<3]) = None"
    using assms by (intro those_map_None [of j]) (auto split: if_splits)
  then show ?thesis
    unfolding gen_matrix_def params using assms(1) by (intro those_map_None [of i]) simp_all
qed

definition matrix_transpose :: "polyvec list \<Rightarrow> polyvec list" where
  "matrix_transpose a = map (\<lambda>i. \<lparr> vec = map (\<lambda>j. vec (a ! j) ! i) [0..<3] \<rparr>) [0..<3]"

section \<open>Properties\<close>

text \<open>
  \<open>rej_uniform\<close> (\<open>indcpa.c\<close>) delivers, in order and at most \<open>len\<close> of them, exactly the twelve-bit
  candidates below \<open>q\<close> of the whole three-byte groups of the buffer.
\<close>

theorem rej_uniform_spec:
  assumes "buflen \<le> length buf"
  shows "map unat (rej_uniform len buf buflen)
    = take len (filter (\<lambda>d. d < 3329) (map (ntt_candidate (\<lambda>i. buf ! i)) [0..<2 * (buflen div 3)]))"
  using rej_uniform_correct [OF assms] by (simp add: ntt_accepted_def)

theorem rej_uniform_spec_witness:
  "map unat (rej_uniform 3 [0x01, 0x20, 0x03, 0xFF, 0xFF, 0xFF, 0x05, 0x00] 8)
    = take 3 (filter (\<lambda>d. d < 3329)
        (map (ntt_candidate (\<lambda>i. [0x01, 0x20, 0x03, 0xFF, 0xFF, 0xFF, 0x05, 0x00] ! i)) [0..<2 * (8 div 3)]))"
  by (rule rej_uniform_spec) simp

text \<open>
  C21. The sampling loop of \<open>gen_matrix\<close> (\<open>indcpa.c\<close>) computes \<open>SampleNTT\<close> of FIPS 203 on the SHAKE128 stream
  of the seed and the two index bytes. It returns exactly when some prefix of whole blocks holds 256
  candidates below \<open>q\<close>, and then with the first 256 of them; otherwise it runs forever.
\<close>

theorem gen_entry_spec:
  "gen_entry seed x y =
     (if \<exists>k. 256 \<le> length (ntt_accepted (xof_stream seed x y) (112 * k))
      then Some \<lparr> coeffs = map word_of_nat (take 256 (ntt_accepted (xof_stream seed x y)
             (112 * (LEAST k. 256 \<le> length (ntt_accepted (xof_stream seed x y) (112 * k)))))) \<rparr>
      else None)"
proof (cases "\<exists>k. 256 \<le> length (ntt_accepted (xof_stream seed x y) (112 * k))")
  case True
  let ?k = "LEAST k. 256 \<le> length (ntt_accepted (xof_stream seed x y) (112 * k))"
  have "256 \<le> length (ntt_accepted (xof_stream seed x y) (112 * ?k))"
    using True by (rule LeastI_ex)
  then obtain p where p: "gen_entry seed x y = Some p"
    "map unat (coeffs p) = take 256 (ntt_accepted (xof_stream seed x y) (112 * ?k))"
    using gen_entry_correct by blast
  have "coeffs p = map word_of_nat (map unat (coeffs p))"
    by (simp add: comp_def)
  then show ?thesis
    using True p by (simp add: poly.equality)
next
  case False
  then show ?thesis
    using gen_entry_returns_iff [of seed x y] by auto
qed

text \<open>
  \<open>gen_at\<close> produces the transpose of the matrix \<open>gen_a\<close> produces from the same seed, and does not return
  exactly when \<open>gen_a\<close> does not.
\<close>

theorem gen_at_is_transpose: "gen_at seed = map_option matrix_transpose (gen_a seed)"
proof (cases "\<exists>i<3. \<exists>j<3. gen_entry seed (word_of_nat j) (word_of_nat i) = None")
  case True
  then obtain i j where ij: "i < 3" "j < 3" "gen_entry seed (word_of_nat j) (word_of_nat i) = None"
    by blast
  then show ?thesis
    using gen_matrix_None [OF ij(1,2), of seed False] gen_matrix_None [OF ij(2,1), of seed True]
    by (simp add: gen_a_def gen_at_def)
next
  case False
  define P where "P i j = the (gen_entry seed (word_of_nat j) (word_of_nat i))" for i j
  have P: "gen_entry seed (word_of_nat j) (word_of_nat i) = Some (P i j)" if "i < 3" "j < 3" for i j
    using False that by (auto simp: P_def)
  have "gen_a seed = Some (map (\<lambda>i. \<lparr> vec = map (P i) [0..<3] \<rparr>) [0..<3])"
    unfolding gen_a_def by (rule gen_matrix_Some) (simp add: P)
  moreover have "gen_at seed = Some (map (\<lambda>i. \<lparr> vec = map (\<lambda>j. P j i) [0..<3] \<rparr>) [0..<3])"
    unfolding gen_at_def by (rule gen_matrix_Some) (simp add: P)
  ultimately show ?thesis
    by (simp add: matrix_transpose_def)
qed

end
