(* ===== verification/Negacyclic.thy ===== *)
theory Negacyclic
  imports NTT_Theory
begin

text \<open>
  The negacyclic product \<open>nega_mul\<close> makes the vectors of \<open>n\<close> coefficients a commutative ring: it is the
  product of polynomials modulo \<open>X^n + 1\<close>. The double sum with the signed indicator \<open>fold_sign\<close> is
  the symmetric form from which commutativity and associativity are read off.
\<close>

section \<open>Products as double sums\<close>

definition fold_sign :: "nat \<Rightarrow> nat \<Rightarrow> nat \<Rightarrow> 'a :: comm_ring_1" where
  "fold_sign n k m = (if m mod n = k then (- 1) ^ (m div n) else 0)"

lemma fold_sign_column:
  assumes "i < n" and "j < n" and "k < n"
  shows "fold_sign n k (i + j)
    = (if i \<le> k then (if j = k - i then 1 else 0) else (if j = n + k - i then - 1 else 0))"
proof (cases "i + j < n")
  case True
  then show ?thesis
    using assms by (auto simp: fold_sign_def)
next
  case False
  then have "(i + j) mod n = i + j - n" "(i + j) div n = 1"
    using assms by (simp_all add: le_mod_geq le_div_geq)
  then show ?thesis
    using assms False by (auto simp: fold_sign_def)
qed

lemma nega_mul_sum:
  assumes k: "k < n"
  shows "nega_mul n A B k = (\<Sum>i<n. \<Sum>j<n. A i * B j * fold_sign n k (i + j))"
  unfolding nega_mul_def
proof (rule sum.cong)
  fix i assume "i \<in> {..<n}"
  then have i: "i < n"
    by simp
  define j0 s where "j0 = (if i \<le> k then k - i else n + k - i)" and "s = (if i \<le> k then 1 else - 1 :: 'a)"
  have j0: "j0 < n"
    using i k by (auto simp: j0_def)
  have "fold_sign n k (i + j) = (if j = j0 then s else 0)" if "j < n" for j
    unfolding fold_sign_column [OF i that k] j0_def s_def by simp
  then have "(\<Sum>j<n. A i * B j * fold_sign n k (i + j)) = (\<Sum>j<n. if j = j0 then A i * B j * s else 0)"
    by (intro sum.cong) auto
  also have "\<dots> = A i * B j0 * s"
    using j0 by simp
  finally show "A i * (if i \<le> k then B (k - i) else - B (n + k - i)) = (\<Sum>j<n. A i * B j * fold_sign n k (i + j))"
    by (simp add: j0_def s_def)
qed simp

lemma nega_mul_commute:
  assumes "k < n"
  shows "nega_mul n A B k = nega_mul n B A k"
  unfolding nega_mul_sum [OF assms]
  by (subst sum.swap) (simp add: ac_simps)

lemma fold_sign_chain:
  fixes k n m c :: nat
  assumes "0 < n"
  shows "(\<Sum>l<n. fold_sign n l m * fold_sign n k (l + c)) = (fold_sign n k (m + c) :: 'a :: comm_ring_1)"
proof -
  have "(\<Sum>l<n. fold_sign n l m * fold_sign n k (l + c))
      = (\<Sum>l<n. if l = m mod n then (- 1) ^ (m div n) * fold_sign n k (m mod n + c) else (0 :: 'a))"
    by (rule sum.cong) (auto simp: fold_sign_def)
  also have "\<dots> = (- 1) ^ (m div n) * fold_sign n k (m mod n + c)"
    using assms by simp
  also have "\<dots> = fold_sign n k (m + c)"
  proof -
    have "m + c = n * (m div n) + (m mod n + c)"
      by simp
    then have "(m + c) mod n = (m mod n + c) mod n" "(m + c) div n = m div n + (m mod n + c) div n"
      using assms by (metis mod_mult_self4, metis div_mult_self4 not_less_zero)
    then show ?thesis
      by (simp add: fold_sign_def power_add)
  qed
  finally show ?thesis .
qed

lemma nega_mul_triple:
  assumes k: "k < n"
  shows "nega_mul n (nega_mul n A B) C k
    = (\<Sum>i<n. \<Sum>j<n. \<Sum>c<n. A i * B j * C c * fold_sign n k (i + j + c))"
proof -
  have "nega_mul n (nega_mul n A B) C k
      = (\<Sum>l<n. \<Sum>c<n. (\<Sum>i<n. \<Sum>j<n. A i * B j * fold_sign n l (i + j)) * C c * fold_sign n k (l + c))"
    unfolding nega_mul_sum [OF k] by (intro sum.cong) (auto simp: nega_mul_sum)
  also have "\<dots> = (\<Sum>l<n. \<Sum>c<n. \<Sum>i<n. \<Sum>j<n. A i * B j * C c * (fold_sign n l (i + j) * fold_sign n k (l + c)))"
    by (simp add: sum_distrib_left sum_distrib_right ac_simps)
  also have "\<dots> = (\<Sum>c<n. \<Sum>l<n. \<Sum>i<n. \<Sum>j<n. A i * B j * C c * (fold_sign n l (i + j) * fold_sign n k (l + c)))"
    by (rule sum.swap)
  also have "\<dots> = (\<Sum>c<n. \<Sum>i<n. \<Sum>l<n. \<Sum>j<n. A i * B j * C c * (fold_sign n l (i + j) * fold_sign n k (l + c)))"
    by (intro sum.cong refl sum.swap)
  also have "\<dots> = (\<Sum>c<n. \<Sum>i<n. \<Sum>j<n. \<Sum>l<n. A i * B j * C c * (fold_sign n l (i + j) * fold_sign n k (l + c)))"
    by (intro sum.cong refl sum.swap)
  also have "\<dots> = (\<Sum>c<n. \<Sum>i<n. \<Sum>j<n. A i * B j * C c * fold_sign n k (i + j + c))"
    using k by (simp add: fold_sign_chain flip: sum_distrib_left)
  also have "\<dots> = (\<Sum>i<n. \<Sum>c<n. \<Sum>j<n. A i * B j * C c * fold_sign n k (i + j + c))"
    by (rule sum.swap)
  also have "\<dots> = (\<Sum>i<n. \<Sum>j<n. \<Sum>c<n. A i * B j * C c * fold_sign n k (i + j + c))"
    by (intro sum.cong refl sum.swap)
  finally show ?thesis .
qed

section \<open>Ring laws\<close>

lemma nega_mul_cong:
  assumes "\<And>i. i < n \<Longrightarrow> A i = A' i" and "\<And>i. i < n \<Longrightarrow> B i = B' i" and "k < n"
  shows "nega_mul n A B k = nega_mul n A' B' k"
  unfolding nega_mul_sum [OF assms(3)] using assms(1,2) by (intro sum.cong) auto

lemma nega_mul_assoc:
  assumes k: "k < n"
  shows "nega_mul n (nega_mul n A B) C k = nega_mul n A (nega_mul n B C) k"
proof -
  have "nega_mul n A (nega_mul n B C) k = nega_mul n (nega_mul n B C) A k"
    by (rule nega_mul_commute [OF k])
  also have "\<dots> = (\<Sum>j<n. \<Sum>c<n. \<Sum>i<n. A i * B j * C c * fold_sign n k (i + j + c))"
    unfolding nega_mul_triple [OF k] by (simp add: ac_simps)
  also have "\<dots> = (\<Sum>j<n. \<Sum>i<n. \<Sum>c<n. A i * B j * C c * fold_sign n k (i + j + c))"
    by (intro sum.cong refl sum.swap)
  also have "\<dots> = (\<Sum>i<n. \<Sum>j<n. \<Sum>c<n. A i * B j * C c * fold_sign n k (i + j + c))"
    by (rule sum.swap)
  finally show ?thesis
    unfolding nega_mul_triple [OF k] by (rule sym)
qed

lemma nega_mul_add:
  assumes "k < n"
  shows "nega_mul n (\<lambda>i. A i + A' i) B k = nega_mul n A B k + nega_mul n A' B k"
    and "nega_mul n A (\<lambda>i. B i + B' i) k = nega_mul n A B k + nega_mul n A B' k"
  unfolding nega_mul_sum [OF assms] by (simp_all add: ring_distribs sum.distrib)

lemma nega_mul_sum_left:
  assumes "k < n"
  shows "nega_mul n (\<lambda>i. \<Sum>x\<in>X. F x i) B k = (\<Sum>x\<in>X. nega_mul n (F x) B k)"
proof (cases "finite X")
  case True
  then show ?thesis
    by (induction X) (simp_all add: nega_mul_add [OF assms] nega_mul_sum [OF assms])
next
  case False
  then show ?thesis
    by (simp add: nega_mul_sum [OF assms])
qed

lemma nega_mul_sum_right:
  assumes "k < n"
  shows "nega_mul n A (\<lambda>i. \<Sum>x\<in>X. F x i) k = (\<Sum>x\<in>X. nega_mul n A (F x) k)"
  unfolding nega_mul_commute [OF assms, of A] nega_mul_sum_left [OF assms] ..

end
