(* ===== verification/Pke.thy ===== *)
theory Pke
  imports Polyvec Negacyclic
begin

text \<open>
  K-PKE of FIPS 203 (section 5) without sampling, compression and encoding: functions of the
  coefficient index over a commutative ring (\<open>Z_q\<close> or the integers), with the negacyclic product.
  \<open>pke_key\<close> is the public vector \<open>t = A s + e\<close>, \<open>pke_u\<close> and \<open>pke_v\<close> the two parts of a ciphertext, \<open>pke_w\<close> what decryption rounds.
\<close>

definition pke_key :: "(nat \<Rightarrow> nat \<Rightarrow> nat \<Rightarrow> 'a :: comm_ring_1) \<Rightarrow> (nat \<Rightarrow> nat \<Rightarrow> 'a) \<Rightarrow> (nat \<Rightarrow> nat \<Rightarrow> 'a) \<Rightarrow> nat \<Rightarrow> nat \<Rightarrow> 'a" where
  "pke_key A s e i n = inner_mul (A i) s n + e i n"

definition pke_u :: "(nat \<Rightarrow> nat \<Rightarrow> nat \<Rightarrow> 'a :: comm_ring_1) \<Rightarrow> (nat \<Rightarrow> nat \<Rightarrow> 'a) \<Rightarrow> (nat \<Rightarrow> nat \<Rightarrow> 'a) \<Rightarrow> nat \<Rightarrow> nat \<Rightarrow> 'a" where
  "pke_u A y e1 i n = inner_mul (\<lambda>j. A j i) y n + e1 i n"

definition pke_v :: "(nat \<Rightarrow> nat \<Rightarrow> 'a :: comm_ring_1) \<Rightarrow> (nat \<Rightarrow> nat \<Rightarrow> 'a) \<Rightarrow> (nat \<Rightarrow> 'a) \<Rightarrow> (nat \<Rightarrow> 'a) \<Rightarrow> nat \<Rightarrow> 'a" where
  "pke_v t y e2 \<mu> n = inner_mul t y n + e2 n + \<mu> n"

definition pke_w :: "(nat \<Rightarrow> nat \<Rightarrow> 'a :: comm_ring_1) \<Rightarrow> (nat \<Rightarrow> nat \<Rightarrow> 'a) \<Rightarrow> (nat \<Rightarrow> 'a) \<Rightarrow> nat \<Rightarrow> 'a" where
  "pke_w s u v n = v n - inner_mul s u n"

text \<open>The decryption noise, with the compression errors \<open>cu\<close> and \<open>cv\<close> of the ciphertext.\<close>

definition pke_noise :: "(nat \<Rightarrow> nat \<Rightarrow> 'a :: comm_ring_1) \<Rightarrow> (nat \<Rightarrow> nat \<Rightarrow> 'a) \<Rightarrow> (nat \<Rightarrow> nat \<Rightarrow> 'a) \<Rightarrow> (nat \<Rightarrow> nat \<Rightarrow> 'a)
    \<Rightarrow> (nat \<Rightarrow> 'a) \<Rightarrow> (nat \<Rightarrow> nat \<Rightarrow> 'a) \<Rightarrow> (nat \<Rightarrow> 'a) \<Rightarrow> nat \<Rightarrow> 'a" where
  "pke_noise s e y e1 e2 cu cv n =
     inner_mul e y n + e2 n + cv n - inner_mul s (\<lambda>i n. e1 i n + cu i n) n"

lemma inner_mul_add:
  assumes "n < 256"
  shows "inner_mul (\<lambda>i n. A i n + A' i n) B n = inner_mul A B n + inner_mul A' B n"
    and "inner_mul A (\<lambda>i n. B i n + B' i n) n = inner_mul A B n + inner_mul A B' n"
  unfolding inner_mul_def by (simp_all add: nega_mul_add [OF assms] sum.distrib)

lemma inner_mul_cong:
  assumes "\<And>i n. i < 3 \<Longrightarrow> n < 256 \<Longrightarrow> A i n = A' i n" and "\<And>i n. i < 3 \<Longrightarrow> n < 256 \<Longrightarrow> B i n = B' i n" and "n < 256"
  shows "inner_mul A B n = inner_mul A' B' n"
  unfolding inner_mul_def using assms by (intro sum.cong nega_mul_cong) auto

lemma inner_mul_transpose:
  assumes "n < 256"
  shows "inner_mul (\<lambda>i. inner_mul (A i) s) y n = inner_mul s (\<lambda>i. inner_mul (\<lambda>j. A j i) y) n"
proof -
  have s: "inner_mul U V = (\<lambda>n. \<Sum>i<3. nega_mul 256 (U i) (V i) n)" for U V
    by (intro ext) (rule inner_mul_def)
  have "nega_mul 256 (nega_mul 256 (A i j) (s j)) (y i) n = nega_mul 256 (s j) (nega_mul 256 (A i j) (y i)) n" for i j
  proof -
    have "nega_mul 256 (nega_mul 256 (A i j) (s j)) (y i) n = nega_mul 256 (nega_mul 256 (s j) (A i j)) (y i) n"
      by (rule nega_mul_cong [OF nega_mul_commute refl assms])
    also have "\<dots> = nega_mul 256 (s j) (nega_mul 256 (A i j) (y i)) n"
      by (rule nega_mul_assoc [OF assms])
    finally show ?thesis .
  qed
  then have "inner_mul (\<lambda>i. inner_mul (A i) s) y n
      = (\<Sum>i<3. \<Sum>j<3. nega_mul 256 (s j) (nega_mul 256 (A i j) (y i)) n)"
    unfolding s nega_mul_sum_left [OF assms] by simp
  also have "\<dots> = (\<Sum>j<3. \<Sum>i<3. nega_mul 256 (s j) (nega_mul 256 (A i j) (y i)) n)"
    by (rule sum.swap)
  also have "\<dots> = inner_mul s (\<lambda>i. inner_mul (\<lambda>j. A j i) y) n"
    unfolding s nega_mul_sum_right [OF assms] by simp
  finally show ?thesis .
qed

lemma pke_decrypt:
  assumes u: "\<And>i n. i < 3 \<Longrightarrow> n < 256 \<Longrightarrow> u i n = pke_u A y e1 i n + cu i n"
    and v: "\<And>n. n < 256 \<Longrightarrow> v n = pke_v (pke_key A s e) y e2 \<mu> n + cv n" and n: "n < 256"
  shows "pke_w s u v n = \<mu> n + pke_noise s e y e1 e2 cu cv n"
proof -
  have "inner_mul s u n = inner_mul s (\<lambda>i n. inner_mul (\<lambda>j. A j i) y n + (e1 i n + cu i n)) n"
    using u by (intro inner_mul_cong [OF refl _ n]) (simp add: pke_u_def add.assoc)
  then have "inner_mul s u n
      = inner_mul s (\<lambda>i. inner_mul (\<lambda>j. A j i) y) n + inner_mul s (\<lambda>i n. e1 i n + cu i n) n"
    using inner_mul_add(2) [OF n] by simp
  moreover have "inner_mul (pke_key A s e) y n = inner_mul (\<lambda>i. inner_mul (A i) s) y n + inner_mul e y n"
    using inner_mul_add(1) [OF n] by (simp add: pke_key_def [abs_def])
  ultimately show ?thesis
    using v [OF n] by (simp add: pke_w_def pke_v_def pke_noise_def inner_mul_transpose [OF n] algebra_simps)
qed

text \<open>Noise computed over the integers stands for noise over \<open>Z_q\<close>.\<close>

lemma of_int_nega_mul: "of_int (nega_mul n A B k) = nega_mul n (\<lambda>i. of_int (A i)) (\<lambda>i. of_int (B i)) k"
  by (auto simp: nega_mul_def intro!: sum.cong)

lemma of_int_inner_mul: "of_int (inner_mul A B n) = inner_mul (\<lambda>i n. of_int (A i n)) (\<lambda>i n. of_int (B i n)) n"
  by (simp add: inner_mul_def of_int_nega_mul)

lemma of_int_pke_noise:
  "of_int (pke_noise s e y e1 e2 cu cv n)
    = pke_noise (\<lambda>i n. of_int (s i n)) (\<lambda>i n. of_int (e i n)) (\<lambda>i n. of_int (y i n)) (\<lambda>i n. of_int (e1 i n))
        (\<lambda>n. of_int (e2 n)) (\<lambda>i n. of_int (cu i n)) (\<lambda>n. of_int (cv n)) n"
  by (simp add: pke_noise_def of_int_inner_mul)

end
