(* ===== verification/Indcpa.thy ===== *)
theory Indcpa
  imports Sampling Pke
begin

text \<open>
  The public-key encryption scheme under ML-KEM: \<open>native/mlkem/pqclean-ml-kem-768/indcpa.c\<close> without the
  samplers of \<open>Sampling\<close>: the serialisation of keys and ciphertexts and the three operations. Their linear
  algebra is split off as \<open>keypair_core\<close>, \<open>enc_core\<close> and \<open>dec_core\<close>, between the sampling and the
  serialisation; these are shown to implement the scheme of \<open>Pke\<close> over the ring, and decryption to
  return the encrypted message whenever the decryption noise is at most 831. \<open>None\<close> stands for a call
  that does not return because the expansion of the matrix does not.
\<close>

section \<open>Definitions\<close>

subsection \<open>Serialisation of keys and ciphertexts\<close>

definition pack_pk :: "polyvec \<Rightarrow> bytes \<Rightarrow> bytes" where
  "pack_pk pk seed = polyvec_tobytes pk @ take KYBER_SYMBYTES seed"

definition unpack_pk :: "bytes \<Rightarrow> polyvec \<times> bytes" where
  "unpack_pk packedpk =
     (polyvec_frombytes packedpk, take KYBER_SYMBYTES (drop KYBER_POLYVECBYTES packedpk))"

definition pack_sk :: "polyvec \<Rightarrow> bytes" where
  "pack_sk sk = polyvec_tobytes sk"

definition unpack_sk :: "bytes \<Rightarrow> polyvec" where
  "unpack_sk packedsk = polyvec_frombytes packedsk"

definition pack_ciphertext :: "polyvec \<Rightarrow> poly \<Rightarrow> bytes" where
  "pack_ciphertext b v = polyvec_compress b @ poly_compress v"

definition unpack_ciphertext :: "bytes \<Rightarrow> polyvec \<times> poly" where
  "unpack_ciphertext c = (polyvec_decompress c, poly_decompress (drop KYBER_POLYVECCOMPRESSEDBYTES c))"

subsection \<open>Key generation, encryption, decryption\<close>

text \<open>The loops that fill a vector with noise, counting up the nonce.\<close>

definition noise_vec :: "bytes \<Rightarrow> u8 \<Rightarrow> polyvec" where
  "noise_vec seed nonce = \<lparr> vec = map (\<lambda>i. poly_getnoise_eta1 seed (nonce + word_of_nat i)) [0..<KYBER_K] \<rparr>"

definition noise_vec2 :: "bytes \<Rightarrow> u8 \<Rightarrow> polyvec" where
  "noise_vec2 seed nonce = \<lparr> vec = map (\<lambda>i. poly_getnoise_eta2 seed (nonce + word_of_nat i)) [0..<KYBER_K] \<rparr>"

definition keypair_core :: "polyvec list \<Rightarrow> polyvec \<Rightarrow> polyvec \<Rightarrow> polyvec \<times> polyvec" where
  "keypair_core a skpv e =
     (let skpv = polyvec_ntt skpv;
          e = polyvec_ntt e;
          pkpv = \<lparr> vec = map (\<lambda>i. let p = polyvec_basemul_acc_montgomery (a ! i) skpv in poly_tomont p)
                     [0..<KYBER_K] \<rparr>;
          pkpv = polyvec_add pkpv e;
          pkpv = polyvec_reduce pkpv
      in (pkpv, skpv))"

definition indcpa_keypair_derand :: "bytes \<Rightarrow> (bytes \<times> bytes) option" where
  "indcpa_keypair_derand coins =
     (let buf = take KYBER_SYMBYTES coins @ [word_of_nat KYBER_K];
          buf = hash_g buf;
          publicseed = take KYBER_SYMBYTES buf;
          noiseseed = drop KYBER_SYMBYTES buf
      in case gen_a publicseed of
           None \<Rightarrow> None
         | Some a \<Rightarrow>
             let nonce = 0;
                 skpv = noise_vec noiseseed nonce;
                 nonce = nonce + word_of_nat KYBER_K;
                 e = noise_vec noiseseed nonce;
                 (pkpv, skpv) = keypair_core a skpv e
             in Some (pack_pk pkpv publicseed, pack_sk skpv))"

definition enc_core :: "polyvec list \<Rightarrow> polyvec \<Rightarrow> polyvec \<Rightarrow> polyvec \<Rightarrow> poly \<Rightarrow> poly \<Rightarrow> polyvec \<times> poly" where
  "enc_core at pkpv sp ep epp k =
     (let sp = polyvec_ntt sp;
          b = \<lparr> vec = map (\<lambda>i. polyvec_basemul_acc_montgomery (at ! i) sp) [0..<KYBER_K] \<rparr>;
          v = polyvec_basemul_acc_montgomery pkpv sp;
          b = polyvec_invntt_tomont b;
          v = poly_invntt_tomont v;
          b = polyvec_add b ep;
          v = poly_add v epp;
          v = poly_add v k;
          b = polyvec_reduce b;
          v = poly_reduce v
      in (b, v))"

definition indcpa_enc :: "bytes \<Rightarrow> bytes \<Rightarrow> bytes \<Rightarrow> bytes option" where
  "indcpa_enc m pk coins =
     (let (pkpv, seed) = unpack_pk pk;
          k = poly_frommsg m
      in case gen_at seed of
           None \<Rightarrow> None
         | Some at \<Rightarrow>
             let nonce = 0;
                 sp = noise_vec coins nonce;
                 nonce = nonce + word_of_nat KYBER_K;
                 ep = noise_vec2 coins nonce;
                 nonce = nonce + word_of_nat KYBER_K;
                 epp = poly_getnoise_eta2 coins nonce;
                 (b, v) = enc_core at pkpv sp ep epp k
             in Some (pack_ciphertext b v))"

definition dec_core :: "polyvec \<Rightarrow> poly \<Rightarrow> polyvec \<Rightarrow> poly" where
  "dec_core b v skpv =
     (let b = polyvec_ntt b;
          mp = polyvec_basemul_acc_montgomery skpv b;
          mp = poly_invntt_tomont mp;
          mp = poly_sub v mp
      in poly_reduce mp)"

definition indcpa_dec :: "bytes \<Rightarrow> bytes \<Rightarrow> bytes" where
  "indcpa_dec c sk =
     (let (b, v) = unpack_ciphertext c;
          skpv = unpack_sk sk;
          mp = dec_core b v skpv
      in poly_tomsg mp)"

section \<open>The cores implement the scheme\<close>

text \<open>
  A polynomial in the NTT domain stands for a ring element by \<open>ntt_rep\<close>; \<open>mat_rep\<close> lifts this to the
  matrix. \<open>vec_zq\<close> reads a vector in the standard domain.
\<close>

definition mat_rep :: "(nat \<Rightarrow> nat \<Rightarrow> nat \<Rightarrow> zq) \<Rightarrow> int \<Rightarrow> polyvec list \<Rightarrow> bool" where
  "mat_rep A B a \<longleftrightarrow> (\<forall>i<3. vec_rep 1 (A i) B (a ! i))"

abbreviation vec_zq :: "polyvec \<Rightarrow> nat \<Rightarrow> nat \<Rightarrow> zq" where
  "vec_zq a i \<equiv> poly_zq (vec a ! i)"

lemma mat_rep_exists:
  assumes "\<And>i. i < 3 \<Longrightarrow> polyvec_bounded B (a ! i)"
  obtains A where "mat_rep A B a"
proof -
  have "\<exists>A. vec_rep 1 A B (a ! i)" if "i < 3" for i
    using assms [OF that] by (blast elim: vec_rep_exists)
  then obtain A where "\<forall>i<3. vec_rep 1 (A i) B (a ! i)"
    by metis
  then show ?thesis
    using that by (simp add: mat_rep_def)
qed

lemma mat_rep_transpose:
  assumes "mat_rep A B a" and "\<And>i j. i < 3 \<Longrightarrow> j < 3 \<Longrightarrow> vec (at ! i) ! j = vec (a ! j) ! i"
  shows "mat_rep (\<lambda>i j. A j i) B at"
  using assms by (simp add: mat_rep_def vec_rep_def)

lemma mont_cancel: "2 ^ 16 * (169 * (1 * 1)) = (1 :: zq)"
  by simp

lemma vec_rep_keypair:
  assumes a: "mat_rep A B a" and s: "polyvec_bounded C s" and e: "polyvec_bounded C e"
    and B: "B * 1664 < 3329 * 2 ^ 15" and C: "C < 9472"
  shows "vec_rep 1 (pke_key A (vec_zq s) (vec_zq e)) 1664 (fst (keypair_core a s e))"
    and "vec_rep 1 (vec_zq s) 1664 (snd (keypair_core a s e))"
proof -
  note s' = vec_rep_ntt [OF s C] and e' = vec_rep_ntt [OF e C]
  show "vec_rep 1 (vec_zq s) 1664 (snd (keypair_core a s e))"
    using s' by (simp add: keypair_core_def Let_def)
  show "vec_rep 1 (pke_key A (vec_zq s) (vec_zq e)) 1664 (fst (keypair_core a s e))"
    unfolding vec_rep_def
  proof (intro allI impI)
    fix i :: nat assume i: "i < 3"
    have "vec_rep 1 (A i) B (a ! i)"
      using a i by (simp add: mat_rep_def)
    then have "ntt_rep (169 * (1 * 1)) (inner_mul (A i) (vec_zq s)) 1664
        (polyvec_basemul_acc_montgomery (a ! i) (polyvec_ntt s))"
      using s' B by (rule polyvec_basemul_acc_correct)
    then have "ntt_rep 1 (inner_mul (A i) (vec_zq s)) 3328
        (poly_tomont (polyvec_basemul_acc_montgomery (a ! i) (polyvec_ntt s)))"
      using ntt_rep_tomont mont_cancel by metis
    moreover have "ntt_rep 1 (vec_zq e i) 1664 (vec (polyvec_ntt e) ! i)"
      using e' i by (simp add: vec_rep_def)
    ultimately have "ntt_rep 1 (\<lambda>n. inner_mul (A i) (vec_zq s) n + vec_zq e i n) (3328 + 1664)
        (poly_add (poly_tomont (polyvec_basemul_acc_montgomery (a ! i) (polyvec_ntt s))) (vec (polyvec_ntt e) ! i))"
      by (rule ntt_rep_add) simp
    then have "ntt_rep 1 (pke_key A (vec_zq s) (vec_zq e) i) 1664
        (poly_reduce (poly_add (poly_tomont (polyvec_basemul_acc_montgomery (a ! i) (polyvec_ntt s)))
          (vec (polyvec_ntt e) ! i)))"
      unfolding pke_key_def [abs_def] by (rule ntt_rep_reduce)
    then show "ntt_rep 1 (pke_key A (vec_zq s) (vec_zq e) i) 1664 (vec (fst (keypair_core a s e)) ! i)"
      using i by (simp add: keypair_core_def Let_def vec_nth params del: upt_Suc)
  qed
qed

text \<open>A product taken through the NTT domain, as encryption and decryption use it.\<close>

lemma inner_product_back:
  assumes a: "vec_rep 1 A B a" and b: "polyvec_bounded C b" and B: "B * 1664 < 3329 * 2 ^ 15" and C: "C < 9472"
  defines "r \<equiv> poly_invntt_tomont (polyvec_basemul_acc_montgomery a (polyvec_ntt b))"
  shows "poly_bounded 3328 r" and "n < 256 \<Longrightarrow> poly_zq r n = inner_mul A (vec_zq b) n"
proof -
  have rep: "ntt_rep (169 * (1 * 1)) (inner_mul A (vec_zq b)) 1664 (polyvec_basemul_acc_montgomery a (polyvec_ntt b))"
    using a vec_rep_ntt [OF b C] B by (rule polyvec_basemul_acc_correct)
  show "poly_bounded 3328 r"
    unfolding r_def by (rule poly_invntt_correct [OF rep]) simp
  have "2 ^ 16 * (169 * (1 * 1) * x) = (x :: zq)" for x
    by (simp only: mult_1_right mult.assoc [symmetric] one_mont mult_1_left)
  then show "n < 256 \<Longrightarrow> poly_zq r n = inner_mul A (vec_zq b) n"
    unfolding r_def using poly_invntt_correct(2) [OF rep] by simp
qed

lemma enc_core_correct:
  assumes at: "mat_rep (\<lambda>i j. A j i) B at" and t: "vec_rep 1 T B pkpv"
    and y: "polyvec_bounded C y" and e1: "polyvec_bounded C e1" and e2: "poly_bounded C e2" and k: "poly_bounded C k"
    and B: "B * 1664 < 3329 * 2 ^ 15" and C: "C < 9472"
  defines "b \<equiv> fst (enc_core at pkpv y e1 e2 k)" and "v \<equiv> snd (enc_core at pkpv y e1 e2 k)"
  shows "polyvec_bounded 1664 b" and "poly_bounded 1664 v"
    and "i < 3 \<Longrightarrow> n < 256 \<Longrightarrow> vec_zq b i n = pke_u A (vec_zq y) (vec_zq e1) i n"
    and "n < 256 \<Longrightarrow> poly_zq v n = pke_v T (vec_zq y) (poly_zq e2) (poly_zq k) n"
proof -
  let ?p = "\<lambda>i. poly_invntt_tomont (polyvec_basemul_acc_montgomery (at ! i) (polyvec_ntt y))"
  have b: "vec b ! i = poly_reduce (poly_add (?p i) (vec e1 ! i))" if "i < 3" for i
    using that by (simp add: b_def enc_core_def Let_def vec_nth params del: upt_Suc)
  show "polyvec_bounded 1664 b"
    by (rule polyvec_boundedI) (simp_all add: b poly_bounded_reduce, simp add: b_def enc_core_def Let_def)
  show "vec_zq b i n = pke_u A (vec_zq y) (vec_zq e1) i n" if i: "i < 3" and n: "n < 256"
  proof -
    have "vec_rep 1 (\<lambda>j. A j i) B (at ! i)"
      using at i by (simp add: mat_rep_def)
    note p = inner_product_back [OF this y B C]
    have "poly_zq (poly_add (?p i) (vec e1 ! i)) n = poly_zq (?p i) n + vec_zq e1 i n"
      using poly_add_correct(2) [OF p(1) polyvec_boundedD(2) [OF e1 i] _ n] C by simp
    then show ?thesis
      using n p(2) by (simp add: b [OF i] pke_u_def)
  qed
  let ?q = "poly_invntt_tomont (polyvec_basemul_acc_montgomery pkpv (polyvec_ntt y))"
  note q = inner_product_back [OF t y B C]
  have v: "v = poly_reduce (poly_add (poly_add ?q e2) k)"
    by (simp add: v_def enc_core_def Let_def)
  show "poly_bounded 1664 v"
    unfolding v by (rule poly_bounded_reduce)
  have "3328 + C < 32768" "3328 + C + C < 32768"
    using C by linarith+
  note sum1 = poly_add_correct [OF q(1) e2 this(1)]
  note sum2 = poly_add_correct(2) [OF sum1(1) k \<open>3328 + C + C < 32768\<close>]
  show "poly_zq v n = pke_v T (vec_zq y) (poly_zq e2) (poly_zq k) n" if n: "n < 256"
    using n sum1(2) sum2 q(2) by (simp add: v pke_v_def)
qed

lemma dec_core_correct:
  assumes s: "vec_rep 1 S B skpv" and b: "polyvec_bounded C b" and v: "poly_bounded C v"
    and B: "B * 1664 < 3329 * 2 ^ 15" and C: "C < 9472"
  shows "poly_bounded 1664 (dec_core b v skpv)"
    and "n < 256 \<Longrightarrow> poly_zq (dec_core b v skpv) n = pke_w S (vec_zq b) (poly_zq v) n"
proof -
  note p = inner_product_back [OF s b B C]
  have "C + 3328 < 32768"
    using C by linarith
  note d = poly_sub_correct [OF v p(1) this]
  show "poly_bounded 1664 (dec_core b v skpv)"
    by (simp add: dec_core_def Let_def poly_bounded_reduce)
  show "n < 256 \<Longrightarrow> poly_zq (dec_core b v skpv) n = pke_w S (vec_zq b) (poly_zq v) n"
    using d(2) p(2) by (simp add: dec_core_def Let_def pke_w_def)
qed

section \<open>Keys and ciphertexts in bytes\<close>

lemma poly_zq_nth: "poly_zq a n = of_int (sint (coeffs a ! n))"
  by (simp add: poly_zq_def zq_of_def)

lemma polyvec_bounded_mono: "polyvec_bounded B a \<Longrightarrow> B \<le> C \<Longrightarrow> polyvec_bounded C a"
  unfolding polyvec_bounded_def using poly_bounded_mono by blast

lemma vec_rep_stored:
  assumes a: "vec_rep 1 A 1664 a" and len: "length (vec a) = 3"
  shows "vec_rep 1 A 3328 (polyvec_frombytes (polyvec_tobytes a @ rest))"
  unfolding vec_rep_def
proof (intro allI impI)
  fix i :: nat assume i: "i < 3"
  have b: "polyvec_bounded 3328 a"
    by (rule polyvec_bounded_mono [OF vec_rep_bounded [OF a len]]) simp
  note p = polyvec_boundedD(2) [OF b i] and c = polyvec_boundedD(3) [OF b i]
  let ?p = "\<lparr> coeffs = map to_positive (coeffs (vec a ! i)) \<rparr>"
  have "vec (polyvec_frombytes (polyvec_tobytes a @ rest)) ! i = ?p"
    using polyvec_frombytes_tobytes [OF b] i len by simp
  moreover have "poly_bounded 3328 ?p"
  proof (rule poly_boundedI)
    fix n :: nat assume n: "n < 256"
    show "\<bar>sint (coeffs ?p ! n)\<bar> \<le> 3328"
      using to_positive_range(1,2) [OF poly_boundedD(2) [OF p n]] n c by simp
  qed (simp add: c)
  moreover have "poly_zq ?p n = 1 * poly_zq (vec a ! i) n" if n: "n < 256" for n
    using to_positive_range(4) [OF poly_boundedD(2) [OF p n]] n c by (simp add: poly_zq_def)
  ultimately show "ntt_rep 1 (A i) 3328 (vec (polyvec_frombytes (polyvec_tobytes a @ rest)) ! i)"
    using ntt_rep_scale [of 1 "A i" 1664 "vec a ! i" 3328 ?p 1] a i by (simp add: vec_rep_def)
qed

lemma Decompress_range:
  fixes y :: int
  shows "0 \<le> y \<Longrightarrow> y < 16 \<Longrightarrow> \<bar>Decompress 4 y\<bar> \<le> 3329"
    and "0 \<le> y \<Longrightarrow> y < 1024 \<Longrightarrow> \<bar>Decompress 10 y\<bar> \<le> 3329"
proof -
  show "\<bar>Decompress 4 y\<bar> \<le> 3329" if "0 \<le> y" "y < 16"
  proof -
    have "0 \<le> (3329 * y + 8) div 16" "(3329 * y + 8) div 16 \<le> 3329"
      using that by linarith+
    then show ?thesis
      by (simp add: Decompress_def)
  qed
  show "\<bar>Decompress 10 y\<bar> \<le> 3329" if "0 \<le> y" "y < 1024"
  proof -
    have "0 \<le> (3329 * y + 512) div 1024" "(3329 * y + 512) div 1024 \<le> 3329"
      using that by linarith+
    then show ?thesis
      by (simp add: Decompress_def)
  qed
qed

lemma poly_decompress_bounded:
  assumes "128 \<le> length b"
  shows "poly_bounded 3329 (poly_decompress b)"
proof (rule poly_boundedI)
  have l: "length (take 128 b) = 128"
    using assms by simp
  fix i :: nat assume i: "i < 256"
  have "int (ByteDecode 4 (take 128 b) i) < 16"
    using ByteDecode_less [of 4 "take 128 b" i] by simp
  then show "\<bar>sint (coeffs (poly_decompress b) ! i)\<bar> \<le> 3329"
    unfolding poly_decompress_take [OF assms] poly_decompress_nth [OF l i]
    by (intro Decompress_range(1)) simp_all
qed (simp add: poly_decompress_def params length_concat comp_def sum_list_triv)

lemma decompress_d10_range: "\<bar>sint (decompress_d10 t)\<bar> \<le> 3329"
proof -
  have m: "decompress_d10 (take_bit 10 t) = decompress_d10 t"
    by (simp add: decompress_d10_def take_bit_eq_mask mask_eq_exp_minus_1 and.assoc)
  have "unat (take_bit 10 t) < 1024"
    using take_bit_nat_less_exp [of 10 "unat t"] by (simp add: take_bit_word_eq_self unsigned_take_bit_eq)
  then have "\<bar>Decompress 10 (int (unat (take_bit 10 t)))\<bar> \<le> 3329"
    by (intro Decompress_range(2)) linarith+
  then show ?thesis
    using decompress_d10_eq [OF \<open>unat (take_bit 10 t) < 1024\<close>] by (simp only: m)
qed

lemma polyvec_decompress_bounded: "polyvec_bounded 3329 (polyvec_decompress b)"
proof (rule polyvec_boundedI)
  fix i :: nat assume i: "i < 3"
  let ?c = "blocks 64 (\<lambda>j. map decompress_d10 (unpack_d10 (drop (5 * (64 * i + j)) b)))"
  have e: "vec (polyvec_decompress b) ! i = \<lparr> coeffs = ?c \<rparr>"
    using i by (simp add: polyvec_decompress_def params del: upt_Suc)
  have "length ?c = 256"
    using length_blocks [of 64 "\<lambda>j. map decompress_d10 (unpack_d10 (drop (5 * (64 * i + j)) b))" 4]
    by (simp add: unpack_d10_def)
  then show "poly_bounded 3329 (vec (polyvec_decompress b) ! i)"
    unfolding e poly_bounded_def using decompress_d10_range by auto
qed simp

section \<open>Decryption recovers the message\<close>

text \<open>The error that compression adds to a ciphertext, as a centred residue.\<close>

definition centred :: "int \<Rightarrow> int" where
  "centred x = (x + 1664) mod 3329 - 1664"

abbreviation coeff :: "poly \<Rightarrow> nat \<Rightarrow> int" where
  "coeff p n \<equiv> sint (coeffs p ! n)"

abbreviation vec_coeff :: "polyvec \<Rightarrow> nat \<Rightarrow> nat \<Rightarrow> int" where
  "vec_coeff a i \<equiv> coeff (vec a ! i)"

definition u_error :: "polyvec \<Rightarrow> nat \<Rightarrow> nat \<Rightarrow> int" where
  "u_error b i n = centred (coeff (vec (polyvec_decompress (polyvec_compress b)) ! i) n - coeff (vec b ! i) n)"

definition v_error :: "poly \<Rightarrow> nat \<Rightarrow> int" where
  "v_error v n = centred (coeff (poly_decompress (poly_compress v)) n - coeff v n)"

lemma of_int_centred: "(of_int (centred x) :: zq) = of_int x"
  unfolding centred_def of_int_zq_eq_iff by (simp add: mod_diff_left_eq)

lemma unpack_pack_ciphertext:
  assumes b: "polyvec_bounded 1664 b" and v: "poly_bounded 1664 v"
  shows "n < 256 \<Longrightarrow> poly_zq (snd (unpack_ciphertext (pack_ciphertext b v))) n = poly_zq v n + of_int (v_error v n)"
    and "i < 3 \<Longrightarrow> n < 256 \<Longrightarrow> vec_zq (fst (unpack_ciphertext (pack_ciphertext b v))) i n = vec_zq b i n + of_int (u_error b i n)"
proof -
  have "length (polyvec_compress b) = 960"
    using polyvec_compress_block(2) [OF b, of 0] by simp
  then have "snd (unpack_ciphertext (pack_ciphertext b v)) = poly_decompress (poly_compress v)"
    by (simp add: unpack_ciphertext_def pack_ciphertext_def params)
  then show "n < 256 \<Longrightarrow> poly_zq (snd (unpack_ciphertext (pack_ciphertext b v))) n = poly_zq v n + of_int (v_error v n)"
    by (simp add: v_error_def of_int_centred poly_zq_nth)
  have b': "polyvec_bounded 3328 b"
    using b by (rule polyvec_bounded_mono) simp
  show "vec_zq (fst (unpack_ciphertext (pack_ciphertext b v))) i n = vec_zq b i n + of_int (u_error b i n)"
    if "i < 3" "n < 256"
    using polyvec_decompress_compress [OF b' that, of "poly_compress v"] polyvec_decompress_compress [OF b' that, of "[]"]
    by (simp add: unpack_ciphertext_def pack_ciphertext_def u_error_def of_int_centred poly_zq_nth)
qed

text \<open>\<open>ByteEncode_1(Compress_1)\<close> of FIPS 203: the message a vector of residues rounds to.\<close>

definition round_msg :: "(nat \<Rightarrow> int) \<Rightarrow> bytes" where
  "round_msg w = map (\<lambda>i. horner_sum of_bool 2 (map (\<lambda>j. Compress 1 (w (8 * i + j)) = 1) [0..<8])) [0..<32]"

lemma bit_at_round_msg: "n < 256 \<Longrightarrow> bit_at (round_msg w) n \<longleftrightarrow> Compress 1 (w n) = 1"
  by (simp add: bit_at_def round_msg_def bit_horner_sum_bit_word_iff)

lemma div_q_eqI: "3329 * k \<le> x \<Longrightarrow> x < 3329 * (k + 1) \<Longrightarrow> x div 3329 = (k :: int)"
  by (rule int_div_pos_eq [of _ _ _ "x - 3329 * k"]) auto

lemma Compress_1_eq:
  assumes "\<bar>x\<bar> \<le> 1664"
  shows "Compress 1 x = 1 \<longleftrightarrow> 833 \<le> \<bar>x\<bar>"
proof (cases "0 \<le> x")
  case True
  then have "x mod 3329 = x"
    using assms by (intro mod_pos_pos_trivial) auto
  moreover have "833 \<le> x \<Longrightarrow> (2 * x + 1664) div 3329 = 1" "\<not> 833 \<le> x \<Longrightarrow> (2 * x + 1664) div 3329 = 0"
    using True assms by (auto intro!: div_q_eqI)
  ultimately show ?thesis
    using True by (cases "833 \<le> x") (simp_all add: Compress_def)
next
  case False
  then have "x mod 3329 = x + 3329"
    using assms mod_pos_pos_trivial [of "x + 3329" 3329] by simp
  moreover have "x \<le> - 833 \<Longrightarrow> (2 * (x + 3329) + 1664) div 3329 = 1"
    "\<not> x \<le> - 833 \<Longrightarrow> (2 * (x + 3329) + 1664) div 3329 = 2"
    using False assms by (auto intro!: div_q_eqI)
  moreover have "833 \<le> \<bar>x\<bar> \<longleftrightarrow> x \<le> - 833"
    using False by linarith
  ultimately show ?thesis
    by (cases "x \<le> - 833") (simp_all add: Compress_def)
qed

lemma tomsg_round:
  assumes a: "poly_bounded 1664 a" and w: "\<And>n. n < 256 \<Longrightarrow> poly_zq a n = of_int (w n)"
  shows "poly_tomsg a = round_msg w"
proof (rule bytes_eqI)
  show "length (poly_tomsg a) = length (round_msg w)"
    by (simp add: round_msg_def)
  fix n assume "n < 8 * length (round_msg w)"
  then have n: "n < 256"
    by (simp add: round_msg_def)
  have "(of_int (coeff a n) :: zq) = of_int (w n)"
    using w [OF n] by (simp only: poly_zq_nth)
  then have "Compress 1 (w n) = Compress 1 (coeff a n)"
    unfolding of_int_zq_eq_iff by (simp only: Compress_def)
  then show "bit_at (poly_tomsg a) n = bit_at (round_msg w) n"
    unfolding poly_tomsg_bits [OF a n] bit_at_round_msg [OF n]
    using Compress_1_eq [OF poly_boundedD(2) [OF a n]] by simp
qed

lemma round_msg_noisy:
  assumes m: "length m = 32" and z: "\<And>n. n < 256 \<Longrightarrow> \<bar>z n\<bar> \<le> 831"
  shows "round_msg (\<lambda>n. 1665 * of_bool (bit_at m n) + z n) = m"
proof (rule bytes_eqI)
  fix n assume "n < 8 * length m"
  then have n: "n < 256"
    using m by simp
  have "Compress 1 (1665 + z n) = 1"
  proof -
    have "(1665 + z n) mod 3329 = 1665 + z n"
      using z [OF n] by (intro mod_pos_pos_trivial) auto
    moreover have "(2 * (1665 + z n) + 1664) div 3329 = 1"
      using z [OF n] by (auto intro!: div_q_eqI)
    ultimately show ?thesis
      by (simp add: Compress_def)
  qed
  moreover have "Compress 1 (z n) \<noteq> 1"
    using Compress_1_eq [of "z n"] z [OF n] by simp
  ultimately show "bit_at (round_msg (\<lambda>n. 1665 * of_bool (bit_at m n) + z n)) n = bit_at m n"
    by (simp add: bit_at_round_msg [OF n])
qed (simp add: m round_msg_def)

lemma poly_bounded_frommsg: "poly_bounded 1665 (poly_frommsg m)"
proof (rule poly_boundedI)
  show "length (coeffs (poly_frommsg m)) = 256"
    by (simp add: poly_frommsg_def params length_concat comp_def sum_list_triv)
qed (simp add: poly_frommsg_nth)

lemma length_pack_ciphertext:
  assumes "polyvec_bounded 1664 b" and "poly_bounded 1664 v"
  shows "length (pack_ciphertext b v) = 1088"
  using polyvec_compress_block(2) [OF assms(1), of 0] length_poly_compress [OF poly_boundedD(1) [OF assms(2)]]
  by (simp add: pack_ciphertext_def)

text \<open>
  The encryption scheme between sampling and hashing: keys from a matrix and two noise vectors, a
  ciphertext from the transposed matrix and fresh noise, all of it through the byte encodings.
\<close>

lemma decrypt_core:
  fixes a at :: "polyvec list" and s e y e1 :: polyvec and e2 :: poly and m rest rest' :: bytes
  assumes a: "\<And>i. i < 3 \<Longrightarrow> polyvec_bounded 3328 (a ! i)"
    and at: "\<And>i j. i < 3 \<Longrightarrow> j < 3 \<Longrightarrow> vec (at ! i) ! j = vec (a ! j) ! i"
    and small: "polyvec_bounded 2 s" "polyvec_bounded 2 e" "polyvec_bounded 2 y" "polyvec_bounded 2 e1" "poly_bounded 2 e2"
  defines "pkpv \<equiv> fst (keypair_core a s e)" and "skpv \<equiv> snd (keypair_core a s e)"
  defines "b \<equiv> fst (enc_core at (polyvec_frombytes (polyvec_tobytes pkpv @ rest)) y e1 e2 (poly_frommsg m))"
    and "v \<equiv> snd (enc_core at (polyvec_frombytes (polyvec_tobytes pkpv @ rest)) y e1 e2 (poly_frommsg m))"
  shows "indcpa_dec (pack_ciphertext b v) (polyvec_tobytes skpv @ rest')
    = round_msg (\<lambda>n. 1665 * of_bool (bit_at m n)
        + pke_noise (vec_coeff s) (vec_coeff e) (vec_coeff y) (vec_coeff e1) (coeff e2) (u_error b) (v_error v) n)"
proof -
  obtain A where A: "mat_rep A 3328 a"
    using mat_rep_exists a by blast
  let ?T = "pke_key A (vec_zq s) (vec_zq e)"
  have len: "length (vec pkpv) = 3" "length (vec skpv) = 3"
    by (simp_all add: pkpv_def skpv_def keypair_core_def Let_def)
  note key = vec_rep_keypair [OF A small(1,2), folded pkpv_def skpv_def]
  have T: "vec_rep 1 ?T 3328 (polyvec_frombytes (polyvec_tobytes pkpv @ rest))"
    and S: "vec_rep 1 (vec_zq s) 3328 (polyvec_frombytes (polyvec_tobytes skpv @ rest'))"
    using key len by (simp_all add: vec_rep_stored)
  have bnd: "polyvec_bounded 1665 y" "polyvec_bounded 1665 e1" "poly_bounded 1665 e2"
    using small by (auto intro: polyvec_bounded_mono poly_bounded_mono)
  note enc = enc_core_correct [OF mat_rep_transpose [OF A at] T bnd poly_bounded_frommsg [of m], folded b_def v_def]
  let ?c = "pack_ciphertext b v"
  define b' v' where "b' = fst (unpack_ciphertext ?c)" and "v' = snd (unpack_ciphertext ?c)"
  have vb: "polyvec_bounded 1664 b" "poly_bounded 1664 v"
    using enc by simp_all
  have v': "\<And>n. n < 256 \<Longrightarrow> poly_zq v' n = poly_zq v n + of_int (v_error v n)"
    and b': "\<And>i n. i < 3 \<Longrightarrow> n < 256 \<Longrightarrow> vec_zq b' i n = vec_zq b i n + of_int (u_error b i n)"
    using unpack_pack_ciphertext [OF vb] by (simp_all add: b'_def v'_def)
  have "128 \<le> length (drop 960 ?c)"
    using length_pack_ciphertext [OF vb] by simp
  then have "polyvec_bounded 3329 b'" "poly_bounded 3329 v'"
    by (simp_all add: b'_def v'_def unpack_ciphertext_def polyvec_decompress_bounded poly_decompress_bounded params)
  note dec = dec_core_correct [OF S this]
  let ?noise = "pke_noise (vec_coeff s) (vec_coeff e) (vec_coeff y) (vec_coeff e1) (coeff e2) (u_error b) (v_error v)"
  have "poly_zq (dec_core b' v' (polyvec_frombytes (polyvec_tobytes skpv @ rest'))) n
      = of_int (1665 * of_bool (bit_at m n) + ?noise n)" if n: "n < 256" for n
  proof -
    have "poly_zq (dec_core b' v' (polyvec_frombytes (polyvec_tobytes skpv @ rest'))) n
        = poly_zq (poly_frommsg m) n + pke_noise (vec_zq s) (vec_zq e) (vec_zq y) (vec_zq e1) (poly_zq e2)
            (\<lambda>i n. of_int (u_error b i n)) (\<lambda>n. of_int (v_error v n)) n"
      unfolding dec(2) [OF _ _ n, simplified]
    proof (rule pke_decrypt [OF _ _ n])
      show "vec_zq b' i k = pke_u A (vec_zq y) (vec_zq e1) i k + of_int (u_error b i k)" if "i < 3" "k < 256" for i k
        using b' enc(3) that by simp
      show "poly_zq v' k = pke_v ?T (vec_zq y) (poly_zq e2) (poly_zq (poly_frommsg m)) k + of_int (v_error v k)"
        if "k < 256" for k
        using v' enc(4) that by simp
    qed
    also have "\<dots> = poly_zq (poly_frommsg m) n + of_int (?noise n)"
      unfolding of_int_pke_noise by (simp only: poly_zq_nth [abs_def])
    also have "poly_zq (poly_frommsg m) n = of_int (1665 * of_bool (bit_at m n))"
      by (simp add: poly_zq_nth poly_frommsg_nth [OF n])
    finally show ?thesis
      by (simp only: of_int_add)
  qed
  then have "poly_tomsg (dec_core b' v' (polyvec_frombytes (polyvec_tobytes skpv @ rest')))
      = round_msg (\<lambda>n. 1665 * of_bool (bit_at m n) + ?noise n)"
    using dec(1) by (intro tomsg_round) auto
  then show ?thesis
    by (simp add: indcpa_dec_def b'_def v'_def unpack_sk_def case_prod_beta)
qed

section \<open>Decryption of the encrypted message\<close>

text \<open>The noise of a decryption as a function of the key seed, the message and the coins.\<close>

definition decryption_noise :: "bytes \<Rightarrow> bytes \<Rightarrow> bytes \<Rightarrow> nat \<Rightarrow> int" where
  "decryption_noise d m r n =
     (let seeds = hash_g (take 32 d @ [3]);
          s = noise_vec (drop 32 seeds) 0;
          e = noise_vec (drop 32 seeds) 3;
          pk = pack_pk (fst (keypair_core (the (gen_a (take 32 seeds))) s e)) (take 32 seeds);
          y = noise_vec r 0;
          e1 = noise_vec2 r 3;
          e2 = poly_getnoise_eta2 r 6;
          (b, v) = enc_core (the (gen_at (take 32 seeds))) (polyvec_frombytes pk) y e1 e2 (poly_frommsg m)
      in pke_noise (vec_coeff s) (vec_coeff e) (vec_coeff y) (vec_coeff e1) (coeff e2) (u_error b) (v_error v) n)"

lemma noise_vec_bounded: "polyvec_bounded 2 (noise_vec seed nonce)" "polyvec_bounded 2 (noise_vec2 seed nonce)"
  by (simp_all add: polyvec_bounded_def noise_vec_def noise_vec2_def params)

lemma indcpa_keypair_eq:
  fixes d :: bytes
  defines "seeds \<equiv> hash_g (take 32 d @ [3])"
  defines "key \<equiv> \<lambda>a. keypair_core a (noise_vec (drop 32 seeds) 0) (noise_vec (drop 32 seeds) 3)"
  shows "indcpa_keypair_derand d = map_option (\<lambda>a. (pack_pk (fst (key a)) (take 32 seeds), pack_sk (snd (key a))))
    (gen_a (take 32 seeds))"
  unfolding indcpa_keypair_derand_def seeds_def key_def
  by (simp add: params Let_def case_prod_beta option.case_eq_if map_option_case)

lemma indcpa_enc_eq:
  "indcpa_enc m pk r = map_option (\<lambda>at. let (b, v) = enc_core at (polyvec_frombytes pk) (noise_vec r 0) (noise_vec2 r 3)
        (poly_getnoise_eta2 r 6) (poly_frommsg m) in pack_ciphertext b v)
    (gen_at (take 32 (drop 1152 pk)))"
  unfolding indcpa_enc_def
  by (simp add: unpack_pk_def params Let_def case_prod_beta option.case_eq_if map_option_case del: upt_Suc)

lemma keypair_core_stored:
  assumes "\<And>i. i < 3 \<Longrightarrow> polyvec_bounded 3328 (a ! i)" and "polyvec_bounded 2 s" and "polyvec_bounded 2 e"
  shows "polyvec_bounded 1664 (fst (keypair_core a s e))" and "polyvec_bounded 1664 (snd (keypair_core a s e))"
proof -
  obtain A where "mat_rep A 3328 a"
    using mat_rep_exists assms(1) by blast
  note key = vec_rep_keypair [OF this assms(2,3)]
  show "polyvec_bounded 1664 (fst (keypair_core a s e))" "polyvec_bounded 1664 (snd (keypair_core a s e))"
    using key by (auto intro!: vec_rep_bounded simp: keypair_core_def Let_def)
qed

lemma noise_key:
  assumes "gen_a seed = Some a"
  shows "polyvec_bounded 1664 (fst (keypair_core a (noise_vec x i) (noise_vec z j)))"
    and "polyvec_bounded 1664 (snd (keypair_core a (noise_vec x i) (noise_vec z j)))"
    and "length (polyvec_tobytes (fst (keypair_core a (noise_vec x i) (noise_vec z j)))) = 1152"
    and "length (polyvec_tobytes (snd (keypair_core a (noise_vec x i) (noise_vec z j)))) = 1152"
proof -
  note st = keypair_core_stored [OF gen_matrix_bounded [OF assms [unfolded gen_a_def]] noise_vec_bounded(1) noise_vec_bounded(1)]
  show "polyvec_bounded 1664 (fst (keypair_core a (noise_vec x i) (noise_vec z j)))"
    "polyvec_bounded 1664 (snd (keypair_core a (noise_vec x i) (noise_vec z j)))"
    using st by blast+
  show "length (polyvec_tobytes (fst (keypair_core a (noise_vec x i) (noise_vec z j)))) = 1152"
    "length (polyvec_tobytes (snd (keypair_core a (noise_vec x i) (noise_vec z j)))) = 1152"
    using length_polyvec_tobytes st by blast+
qed

lemma indcpa_keypair_length:
  assumes "indcpa_keypair_derand d = Some (pk, sk)"
  shows "length pk = 1184" and "length sk = 1152"
proof -
  let ?h = "hash_g (take 32 d @ [3])"
  obtain a where a: "gen_a (take 32 ?h) = Some a"
    and pk: "pk = pack_pk (fst (keypair_core a (noise_vec (drop 32 ?h) 0) (noise_vec (drop 32 ?h) 3))) (take 32 ?h)"
    and sk: "sk = pack_sk (snd (keypair_core a (noise_vec (drop 32 ?h) 0) (noise_vec (drop 32 ?h) 3)))"
    using assms unfolding indcpa_keypair_eq by auto
  show "length pk = 1184" "length sk = 1152"
    using noise_key(3,4) [OF a] by (simp_all add: pk sk pack_pk_def pack_sk_def params)
qed

lemma enc_core_shape:
  "polyvec_bounded 1664 (fst (enc_core at pkpv y e1 e2 k))" "poly_bounded 1664 (snd (enc_core at pkpv y e1 e2 k))"
  by (simp_all add: enc_core_def Let_def polyvec_bounded_def polyvec_reduce_def poly_bounded_reduce params)

lemma indcpa_enc_length: "indcpa_enc m pk r = Some c \<Longrightarrow> length c = 1088"
  using enc_core_shape by (auto simp: indcpa_enc_eq case_prod_beta length_pack_ciphertext)

lemma poly_frommsg_append:
  assumes "length m = 32"
  shows "poly_frommsg (m @ rest) = poly_frommsg m"
proof -
  have "(m @ rest) ! i = m ! i" if "i < 32" for i
    using that assms by (simp add: nth_append)
  then show ?thesis
    unfolding poly_frommsg_def params by (intro arg_cong [of _ _ "\<lambda>xs. \<lparr> coeffs = xs \<rparr>"] blocks_cong) simp
qed

lemma indcpa_enc_append: "length m = 32 \<Longrightarrow> indcpa_enc (m @ rest) pk r = indcpa_enc m pk r"
  by (simp add: indcpa_enc_eq poly_frommsg_append)

lemma indcpa_correct:
  assumes key: "indcpa_keypair_derand d = Some (pk, sk)" and enc: "indcpa_enc m (pk @ rest) r = Some c"
  shows "indcpa_dec c (sk @ rest') = round_msg (\<lambda>n. 1665 * of_bool (bit_at m n) + decryption_noise d m r n)"
proof -
  define h where "h = hash_g (take 32 d @ [3])"
  let ?s = "noise_vec (drop 32 h) 0" and ?e = "noise_vec (drop 32 h) 3" and ?y = "noise_vec r 0"
    and ?e1 = "noise_vec2 r 3" and ?e2 = "poly_getnoise_eta2 r 6"
  obtain a where a: "gen_a (take 32 h) = Some a"
    and pk: "pk = pack_pk (fst (keypair_core a ?s ?e)) (take 32 h)" and sk: "sk = pack_sk (snd (keypair_core a ?s ?e))"
    using key unfolding indcpa_keypair_eq h_def by auto
  have len: "length (polyvec_tobytes (fst (keypair_core a ?s ?e))) = 1152" "length h = 64"
    using noise_key(3) [OF a] by (simp_all add: h_def)
  have seed: "take 32 (drop 1152 (pk @ rest)) = take 32 h" and pk': "pk @ rest = polyvec_tobytes (fst (keypair_core a ?s ?e)) @ (take 32 h @ rest)"
    using len by (simp_all add: pk pack_pk_def params)
  let ?pk = "polyvec_frombytes (polyvec_tobytes (fst (keypair_core a ?s ?e)) @ (take 32 h @ rest))"
  obtain at where at: "gen_at (take 32 h) = Some at"
    and c: "c = pack_ciphertext (fst (enc_core at ?pk ?y ?e1 ?e2 (poly_frommsg m))) (snd (enc_core at ?pk ?y ?e1 ?e2 (poly_frommsg m)))"
    using enc unfolding indcpa_enc_eq unfolding seed unfolding pk' by (cases "gen_at (take 32 h)") (simp_all add: case_prod_beta)
  have frombytes: "polyvec_frombytes pk = ?pk"
    using polyvec_bounded_mono [OF noise_key(1) [OF a], of 3328]
    by (simp add: pk pack_pk_def params polyvec_frombytes_tobytes)
  have n: "decryption_noise d m r n = pke_noise (vec_coeff ?s) (vec_coeff ?e) (vec_coeff ?y) (vec_coeff ?e1) (coeff ?e2)
      (u_error (fst (enc_core at ?pk ?y ?e1 ?e2 (poly_frommsg m)))) (v_error (snd (enc_core at ?pk ?y ?e1 ?e2 (poly_frommsg m)))) n" for n
    unfolding decryption_noise_def h_def [symmetric] a at option.sel Let_def pk [symmetric] frombytes by (simp only: case_prod_beta)
  show ?thesis
    unfolding c sk pack_sk_def n
    by (rule decrypt_core [OF gen_matrix_bounded [OF a [unfolded gen_a_def]] gen_at_transpose [OF a at]
          noise_vec_bounded(1) noise_vec_bounded(1) noise_vec_bounded(1) noise_vec_bounded(2) poly_bounded_getnoise(2)])
qed

section \<open>Noise budget\<close>

lemma centred_eqI:
  assumes "x mod 3329 = (y + e) mod 3329" and "\<bar>e\<bar> \<le> 1664"
  shows "centred (x - y) = e"
proof -
  have "(x - y + 1664) mod 3329 = (e + 1664) mod 3329"
    using mod_diff_cong [OF assms(1) refl, of y] by (metis add_diff_cancel_left' mod_add_left_eq)
  also have "\<dots> = e + 1664"
    using assms(2) by (intro mod_pos_pos_trivial) auto
  finally show ?thesis
    by (simp add: centred_def)
qed

lemma v_error_bound:
  assumes "poly_bounded 1664 v" and "n < 256"
  shows "\<bar>v_error v n\<bar> \<le> 104"
proof -
  obtain e where e: "\<bar>e\<bar> \<le> 104" "Decompress 4 (Compress 4 (coeff v n)) mod 3329 = (coeff v n + e) mod 3329"
    using Decompress_Compress_4 by blast
  have "poly_bounded 3328 v"
    using assms(1) by (rule poly_bounded_mono) simp
  then have "v_error v n = e"
    unfolding v_error_def poly_decompress_compress [OF \<open>poly_bounded 3328 v\<close> assms(2)]
    using e by (intro centred_eqI) auto
  then show ?thesis
    using e by simp
qed

lemma inner_mul_zero: "(\<And>i n. i < 3 \<Longrightarrow> n < 256 \<Longrightarrow> A i n = 0) \<Longrightarrow> n < 256 \<Longrightarrow> inner_mul A B n = 0"
  by (simp add: inner_mul_def nega_mul_sum)

section \<open>Properties\<close>

text \<open>
  C9. Encryption is inverted by decryption up to rounding of noise: for every key seed \<open>d\<close>, message \<open>m\<close> and
  coins \<open>r\<close>, whenever \<open>indcpa_keypair_derand\<close> and \<open>indcpa_enc\<close> return, \<open>indcpa_dec\<close> yields
  \<open>ByteEncode_1(Compress_1(1665 * m + noise))\<close>, where the noise is
  \<open>e . y + e2 + cv - s . (e1 + cu)\<close> over the integers, computed from the sampled vectors and the
  compression errors. Every step of the C code is included: NTTs, Montgomery factors, reductions,
  packing, compression. The two sides agree as partial functions.
\<close>

theorem indcpa_decryption:
  "Option.bind (indcpa_keypair_derand d) (\<lambda>(pk, sk). map_option (\<lambda>c. indcpa_dec c sk) (indcpa_enc m pk r))
   = Option.bind (indcpa_keypair_derand d) (\<lambda>(pk, sk). map_option
       (\<lambda>c. round_msg (\<lambda>n. 1665 * of_bool (bit_at m n) + decryption_noise d m r n)) (indcpa_enc m pk r))"
proof (cases "indcpa_keypair_derand d")
  case (Some key)
  then obtain pk sk where key: "indcpa_keypair_derand d = Some (pk, sk)"
    by (cases key) simp
  show ?thesis
  proof (cases "indcpa_enc m pk r")
    case (Some c)
    then show ?thesis
      using indcpa_correct [OF key, of m "[]" r c "[]"] by (simp add: key)
  qed (simp add: key)
qed simp

text \<open>
  C10. Decryption returns the message if the noise is small enough: keys made from any matrix
  of reduced polynomials and any noise vectors within \<open>-2..2\<close>, serialised and read back, decrypt a
  ciphertext for that key to the encrypted 32 bytes if the decryption noise is at most 831 everywhere.
\<close>

theorem small_noise_decrypts:
  assumes "\<forall>i<3. polyvec_bounded 3328 (a ! i)"
    and "\<forall>i<3. \<forall>j<3. vec (at ! i) ! j = vec (a ! j) ! i"
    and "polyvec_bounded 2 s" and "polyvec_bounded 2 e" and "polyvec_bounded 2 y" and "polyvec_bounded 2 e1"
    and "poly_bounded 2 e2" and "length m = 32"
    and "keypair_core a s e = (pkpv, skpv)"
    and "enc_core at (fst (unpack_pk (pack_pk pkpv seed))) y e1 e2 (poly_frommsg m) = (b, v)"
    and "\<forall>n<256. \<bar>pke_noise (vec_coeff s) (vec_coeff e) (vec_coeff y) (vec_coeff e1) (coeff e2)
      (u_error b) (v_error v) n\<bar> \<le> 831"
  shows "indcpa_dec (pack_ciphertext b v) (pack_sk skpv) = m"
proof -
  let ?b = "fst (enc_core at (polyvec_frombytes (polyvec_tobytes pkpv @ take 32 seed)) y e1 e2 (poly_frommsg m))"
    and ?v = "snd (enc_core at (polyvec_frombytes (polyvec_tobytes pkpv @ take 32 seed)) y e1 e2 (poly_frommsg m))"
  have bv: "?b = b" "?v = v" and key: "fst (keypair_core a s e) = pkpv" "snd (keypair_core a s e) = skpv"
    using assms(9,10) by (simp_all add: unpack_pk_def pack_pk_def params)
  have "indcpa_dec (pack_ciphertext b v) (polyvec_tobytes skpv @ [])
    = round_msg (\<lambda>n. 1665 * of_bool (bit_at m n)
        + pke_noise (vec_coeff s) (vec_coeff e) (vec_coeff y) (vec_coeff e1) (coeff e2) (u_error b) (v_error v) n)"
    using decrypt_core [of a at s e y e1 e2 "take 32 seed" m "[]"] assms(1-7) unfolding key bv by blast
  also have "\<dots> = m"
    using assms(8,11) by (intro round_msg_noisy) auto
  finally show ?thesis
    by (simp add: pack_sk_def)
qed

theorem small_noise_decrypts_witness:
  "let p = (\<lambda>c. \<lparr> coeffs = replicate 256 c \<rparr>); v = (\<lambda>c. \<lparr> vec = replicate 3 (p c) \<rparr>);
       a = replicate 3 (v 1000); m = replicate 32 0x5A;
       (pkpv, skpv) = keypair_core a (v 0) (v 0);
       (b, w) = enc_core a (fst (unpack_pk (pack_pk pkpv (replicate 32 7)))) (v 1) (v (- 2)) (p 1) (poly_frommsg m)
   in indcpa_dec (pack_ciphertext b w) (pack_sk skpv) = m"
proof -
  define p v where "p c = \<lparr> coeffs = replicate 256 c \<rparr>" and "v c = \<lparr> vec = replicate 3 (p c) \<rparr>" for c :: i16
  define a where "a = replicate 3 (v 1000)"
  obtain pkpv skpv where key: "keypair_core a (v 0) (v 0) = (pkpv, skpv)"
    by fastforce
  let ?m = "replicate 32 0x5A :: bytes"
  obtain b w where enc:
    "enc_core a (fst (unpack_pk (pack_pk pkpv (replicate 32 7)))) (v 1) (v (- 2)) (p 1) (poly_frommsg ?m) = (b, w)"
    by fastforce
  have w: "poly_bounded 1664 w"
    using enc_core_shape(2) [of a "fst (unpack_pk (pack_pk pkpv (replicate 32 7)))" "v 1" "v (- 2)" "p 1" "poly_frommsg ?m"]
    by (simp add: enc)
  have zero: "vec_coeff (v 0) i n = 0" if "i < 3" "n < 256" for i n
    using that by (simp add: v_def p_def)
  have "pke_noise (vec_coeff (v 0)) (vec_coeff (v 0)) (vec_coeff (v 1)) (vec_coeff (v (- 2))) (coeff (p 1))
      (u_error b) (v_error w) n = 1 + v_error w n" if n: "n < 256" for n
  proof -
    have "inner_mul (vec_coeff (v 0)) B n = 0" for B
      using zero by (rule inner_mul_zero [OF _ n])
    then show ?thesis
      using n by (simp add: pke_noise_def p_def)
  qed
  then have "\<forall>n<256. \<bar>pke_noise (vec_coeff (v 0)) (vec_coeff (v 0)) (vec_coeff (v 1)) (vec_coeff (v (- 2)))
      (coeff (p 1)) (u_error b) (v_error w) n\<bar> \<le> 831"
    using v_error_bound [OF w] by fastforce
  note dec = small_noise_decrypts [OF _ _ _ _ _ _ _ _ key enc this]
  have "indcpa_dec (pack_ciphertext b w) (pack_sk skpv) = ?m"
    by (rule dec) (simp_all add: a_def v_def p_def polyvec_bounded_def poly_bounded_def)
  then show ?thesis
    using key enc by (simp add: Let_def a_def v_def p_def)
qed

end
