(* ===== verification/Buffer.thy ===== *)
theory Buffer
  imports Prelude
begin

text \<open>
  Buffers of the C interface. A pointer that a routine only reads or only overwrites is the list it
  points to, \<open>None\<close> the null pointer; where two pointers of a call may be the same, they are addresses of
  a memory. \<open>INT_MAX\<close> and \<open>UINT_MAX\<close> are those of \<open>limits.h\<close> for 32-bit integers, lengths of type \<open>size_t\<close>
  are natural numbers: a sum the routines form never exceeds a length they were given.
\<close>

type_synonym ptr = "nat option"
type_synonym memory = "nat \<Rightarrow> bytes"

definition INT_MAX :: nat where
  "INT_MAX = 2 ^ 31 - 1"

definition UINT_MAX :: nat where
  "UINT_MAX = 2 ^ 32 - 1"

text \<open>A call that stores the bytes \<open>bs\<close> at \<open>out + got\<close>.\<close>

definition write_at :: "bytes \<Rightarrow> nat \<Rightarrow> bytes \<Rightarrow> bytes" where
  "write_at out got bs = take got out @ bs @ drop (got + length bs) out"

text \<open>A memory that holds the given buffers at the addresses 0, 1, 2 and so on.\<close>

definition buffers :: "bytes list \<Rightarrow> memory" where
  "buffers bs p = (if p < length bs then bs ! p else [])"

lemma buffers_simps [simp]:
  "buffers (b # bs) 0 = b" "buffers (b # bs) (Suc p) = buffers bs p" "0 < p \<Longrightarrow> buffers (b # bs) p = buffers bs (p - 1)"
  by (auto simp: buffers_def nth_Cons')

lemma INT_MAX_half_pos [simp]: "0 < INT_MAX div 2"
  by (simp add: INT_MAX_def)

lemma length_write_at [len_simps]: "got + length bs \<le> length out \<Longrightarrow> length (write_at out got bs) = length out"
  by (simp add: write_at_def)

lemma write_at_Nil [simp]: "write_at out got [] = out"
  by (simp add: write_at_def)

lemma take_write_at: "length bs \<le> length out \<Longrightarrow> take (length bs) (write_at out 0 bs) = bs"
  by (simp add: write_at_def)

lemma drop_write_at: "got \<le> length out \<Longrightarrow> drop (got + length bs) (write_at out got bs) = drop (got + length bs) out"
  by (simp add: write_at_def)

lemma write_at_write_at:
  assumes "got + length a \<le> length out"
  shows "write_at (write_at out got a) (got + length a) b = write_at out got (a @ b)"
proof -
  have "min (length out) got = got"
    using assms by simp
  then show ?thesis
    by (simp add: write_at_def add.assoc add.left_commute add.commute)
qed

end
