(* ===== verification/Randombytes.thy ===== *)
theory Randombytes
  imports Buffer
begin

text \<open>
  The entropy source: \<open>native/randombytes.c\<close>. The operating system is a parameter, a record of the calls
  the code makes on an abstract world: \<open>getrandom(2)\<close>, the stream over \<open>/dev/urandom\<close> and
  \<open>arc4random_buf(3)\<close>. A call returns the bytes it wrote, or an error number, and the next world.

  The caller's buffer is a list that is overwritten in place, \<open>None\<close> the null pointer. The retry loop
  over \<open>getrandom\<close> can be interrupted without end, so it is a partial function whose result \<open>None\<close> stands
  for a call that does not return; \<open>Abort\<close> is the end of the process by \<open>abort(3)\<close>.
\<close>

section \<open>Definitions\<close>

datatype errno = EINTR | ENOSYS | Errno nat

datatype platform = Linux | Apple | Other_platform

datatype 'a outcome = Return 'a | Abort

record 'w os =
  platform :: platform
  getrandom :: "nat \<Rightarrow> 'w \<Rightarrow> (errno + bytes) \<times> 'w"
  fopen_urandom :: "'w \<Rightarrow> bool \<times> 'w"
  fread :: "nat \<Rightarrow> 'w \<Rightarrow> bytes \<times> 'w"
  fclose :: "'w \<Rightarrow> 'w"
  arc4random_buf :: "nat \<Rightarrow> 'w \<Rightarrow> bytes \<times> 'w"

function urandom_loop :: "'w os \<Rightarrow> nat \<Rightarrow> nat \<Rightarrow> bytes \<Rightarrow> 'w \<Rightarrow> int \<times> bytes \<times> 'w" where
  "urandom_loop os len got out w =
     (if got < len
      then let (bs, w) = fread os (len - got) w
           in if length bs = 0 then (- 1, out, fclose os w)
              else urandom_loop os len (got + length bs) (write_at out got bs) w
      else (0, out, fclose os w))"
  by pat_completeness auto
termination
  by (relation "measure (\<lambda>(os, len, got, out, w). len - got)") (auto intro!: diff_less_mono2)

declare urandom_loop.simps [simp del]

definition fill_from_urandom :: "'w os \<Rightarrow> bytes \<Rightarrow> nat \<Rightarrow> 'w \<Rightarrow> int \<times> bytes \<times> 'w" where
  "fill_from_urandom os out len w =
     (let (opened, w) = fopen_urandom os w
      in if \<not> opened then (- 1, out, w) else urandom_loop os len 0 out w)"

partial_function (option) getrandom_loop ::
    "'w os \<Rightarrow> nat \<Rightarrow> nat \<Rightarrow> bytes \<Rightarrow> 'w \<Rightarrow> (nat \<times> bytes \<times> 'w) option" where
  "getrandom_loop os len got out w =
     (if got < len
      then case getrandom os (len - got) w of
             (Inl e, w) \<Rightarrow> if e = EINTR then getrandom_loop os len got out w else Some (got, out, w)
           | (Inr bs, w) \<Rightarrow> getrandom_loop os len (got + length bs) (write_at out got bs) w
      else Some (got, out, w))"

declare getrandom_loop.simps [code]

definition e2ee_secure_random ::
    "'w os \<Rightarrow> bytes option \<Rightarrow> nat \<Rightarrow> 'w \<Rightarrow> (int \<times> bytes option \<times> 'w) option" where
  "e2ee_secure_random os out len w =
     (if len = 0 then Some (0, out, w)
      else case out of
        None \<Rightarrow> Some (- 1, None, w)
      | Some out \<Rightarrow>
          (case platform os of
             Linux \<Rightarrow>
               (case getrandom_loop os len 0 out w of
                  None \<Rightarrow> None
                | Some (got, out, w) \<Rightarrow>
                    if got = len then Some (0, Some out, w)
                    else let (rc, out, w) = fill_from_urandom os out len w in Some (rc, Some out, w))
           | Apple \<Rightarrow>
               let (bs, w) = arc4random_buf os len w in Some (0, Some (write_at out 0 bs), w)
           | Other_platform \<Rightarrow>
               let (rc, out, w) = fill_from_urandom os out len w in Some (rc, Some out, w)))"

definition PQCLEAN_randombytes ::
    "'w os \<Rightarrow> bytes option \<Rightarrow> nat \<Rightarrow> 'w \<Rightarrow> (int \<times> bytes option \<times> 'w) outcome option" where
  "PQCLEAN_randombytes os output n w =
     (case e2ee_secure_random os output n w of
        None \<Rightarrow> None
      | Some (rc, output, w) \<Rightarrow> if rc \<noteq> 0 then Some Abort else Some (Return (0, output, w)))"

section \<open>The calls of the operating system\<close>

text \<open>Documented behaviour: a read returns at most the bytes asked for, \<open>arc4random_buf\<close> all of them.\<close>

definition os_laws :: "'w os \<Rightarrow> bool" where
  "os_laws os \<longleftrightarrow>
     (\<forall>n w bs w'. getrandom os n w = (Inr bs, w') \<longrightarrow> length bs \<le> n) \<and>
     (\<forall>n w. length (fst (fread os n w)) \<le> n) \<and>
     (\<forall>n w. length (fst (arc4random_buf os n w)) = n)"

text \<open>Two buffers that agree on the part that has been written.\<close>

definition agree :: "nat \<Rightarrow> bytes \<Rightarrow> bytes \<Rightarrow> bool" where
  "agree n a b \<longleftrightarrow> n \<le> length a \<and> length a = length b \<and> take n a = take n b"

lemma agree_write:
  assumes "agree got a b" and "got + length bs \<le> length a"
  shows "agree (got + length bs) (write_at a got bs) (write_at b got bs)"
    and "length (write_at a got bs) = length a"
  using assms by (simp_all add: agree_def write_at_def)

lemma agree_all: "agree (length a) a b \<Longrightarrow> a = b"
  by (auto simp: agree_def)

lemma urandom_loop_agree:
  assumes "os_laws os" and "agree got a b" and "length a = len"
    and "urandom_loop os len got a w = (rc, o1, w')"
  shows "\<exists>o2. urandom_loop os len got b w = (rc, o2, w') \<and> length o1 = len \<and> (rc = 0 \<longrightarrow> o1 = o2)"
  using assms(2-)
proof (induction "len - got" arbitrary: got a b w rule: less_induct)
  case less
  show ?case
  proof (cases "got < len")
    case True
    obtain bs w1 where f: "fread os (len - got) w = (bs, w1)"
      by fastforce
    then have bs: "got + length bs \<le> length a"
      using assms(1) True less.prems(2) by (metis add.commute fst_conv le_diff_conv2 less_imp_le os_laws_def)
    show ?thesis
    proof (cases "bs = []")
      case False
      let ?a = "write_at a got bs" and ?b = "write_at b got bs"
      have "urandom_loop os len (got + length bs) ?a w1 = (rc, o1, w')"
        using less.prems(3) True False f by (subst (asm) urandom_loop.simps) simp
      then have "\<exists>o2. urandom_loop os len (got + length bs) ?b w1 = (rc, o2, w') \<and> length o1 = len \<and> (rc = 0 \<longrightarrow> o1 = o2)"
        using agree_write [OF less.prems(1) bs] less.prems(2) True False
        by (intro less.hyps) (auto intro: diff_less_mono2)
      then show ?thesis
        using True False f by (subst urandom_loop.simps) simp
    next
      case True
      then show ?thesis
        using less.prems f \<open>got < len\<close> by (auto simp: urandom_loop.simps [of _ _ got])
    qed
  next
    case False
    then have "a = b"
      using less.prems(1,2) by (intro agree_all) (simp add: agree_def)
    moreover have "o1 = a"
      using less.prems(3) False by (simp add: urandom_loop.simps [of _ _ got])
    ultimately show ?thesis
      using less.prems(2,3) by auto
  qed
qed

lemma fill_from_urandom_agree:
  assumes "os_laws os" and "length a = len" and "length b = len"
    and "fill_from_urandom os a len w = (rc, o1, w')"
  shows "\<exists>o2. fill_from_urandom os b len w = (rc, o2, w') \<and> length o1 = len \<and> (rc = 0 \<longrightarrow> o1 = o2)"
proof (cases "fst (fopen_urandom os w)")
  case True
  then show ?thesis
    using urandom_loop_agree [OF assms(1), of 0 a b len "snd (fopen_urandom os w)"] assms(2-)
    by (auto simp: fill_from_urandom_def agree_def case_prod_beta)
next
  case False
  then show ?thesis
    using assms by (auto simp: fill_from_urandom_def case_prod_beta)
qed

lemma getrandom_loop_agree:
  fixes os :: "'w os"
  assumes "os_laws os" and "agree got a b" and "length a = len"
    and "getrandom_loop os len got a w = Some (g, o1, w')"
  shows "\<exists>o2. getrandom_loop os len got b w = Some (g, o2, w') \<and> agree g o1 o2 \<and> length o1 = len"
proof -
  define P where "P os len got a w x \<longleftrightarrow> (os_laws os \<longrightarrow> (\<forall>b. agree got a b \<longrightarrow> length a = len \<longrightarrow>
    (\<exists>o2. getrandom_loop os len got b w = Some (fst x, o2, snd (snd x)) \<and> agree (fst x) (fst (snd x)) o2
      \<and> length (fst (snd x)) = len)))"
    for os :: "'w os" and len got :: nat and a :: bytes and w :: 'w and x :: "nat \<times> bytes \<times> 'w"
  have "P os len got a w (g, o1, w')"
    using assms(4)
  proof (rule getrandom_loop.raw_induct [where P = P, rotated])
    fix gen :: "'w os \<Rightarrow> nat \<Rightarrow> nat \<Rightarrow> bytes \<Rightarrow> 'w \<Rightarrow> (nat \<times> bytes \<times> 'w) option" and os len got a w x
    assume IH: "\<And>os len got a w x. gen os len got a w = Some x \<Longrightarrow> P os len got a w x"
      and body: "(if got < len
         then case getrandom os (len - got) w of
                (Inl e, w) \<Rightarrow> if e = EINTR then gen os len got a w else Some (got, a, w)
              | (Inr bs, w) \<Rightarrow> gen os len (got + length bs) (write_at a got bs) w
         else Some (got, a, w)) = Some x"
    show "P os len got a w x"
      unfolding P_def
    proof (intro impI allI)
      fix b assume os: "os_laws os" and ab: "agree got a b" and len: "length a = len"
      let ?goal = "\<lambda>b w. \<exists>o2. getrandom_loop os len got b w = Some (fst x, o2, snd (snd x))
        \<and> agree (fst x) (fst (snd x)) o2 \<and> length (fst (snd x)) = len"
      show "?goal b w"
      proof (cases "got < len")
        case lt: True
        obtain r w1 where r: "getrandom os (len - got) w = (r, w1)"
          by fastforce
        show ?thesis
        proof (cases r)
          case (Inl e)
          show ?thesis
          proof (cases "e = EINTR")
            case True
            then have "gen os len got a w1 = Some x"
              using body lt r Inl by simp
            then show ?thesis
              using IH os ab len lt r Inl True unfolding P_def
              by (subst getrandom_loop.simps) simp
          next
            case False
            then show ?thesis
              using body ab len lt r Inl by (subst getrandom_loop.simps) auto
          qed
        next
          case (Inr bs)
          have "length bs \<le> len - got"
            using os r Inr unfolding os_laws_def by blast
          then have n: "got + length bs \<le> length a"
            using lt len by simp
          have "gen os len (got + length bs) (write_at a got bs) w1 = Some x"
            using body lt r Inr by simp
          then show ?thesis
            using IH os agree_write [OF ab n] len lt r Inr unfolding P_def
            by (subst getrandom_loop.simps) simp
        qed
      next
        case False
        then show ?thesis
          using body ab len by (subst getrandom_loop.simps) auto
      qed
    qed
  qed
  then show ?thesis
    using assms(1-3) unfolding P_def by simp
qed

lemma secure_random_fills:
  assumes "os_laws os" and "length a = len" and "length b = len"
    and "e2ee_secure_random os (Some a) len w = Some (0, o1, w')"
  shows "e2ee_secure_random os (Some b) len w = Some (0, o1, w') \<and> (\<exists>bs. o1 = Some bs \<and> length bs = len)"
proof (cases "len = 0")
  case True
  then show ?thesis
    using assms by (simp add: e2ee_secure_random_def)
next
  case pos: False
  have urandom: "\<exists>x. fill_from_urandom os d len v = (0, x, w') \<and> Some x = o1 \<and> length x = len"
    if "fill_from_urandom os c len v = (0, the o1, w')" "Some (the o1) = o1" "length c = len" "length d = len" for v c d
    using fill_from_urandom_agree [OF assms(1) that(3,4,1)] that(2) by auto
  show ?thesis
  proof (cases "platform os")
    case Linux
    obtain g c v where g: "getrandom_loop os len 0 a w = Some (g, c, v)"
      using assms(4) pos Linux by (auto simp: e2ee_secure_random_def split: option.splits)
    obtain c' where c': "getrandom_loop os len 0 b w = Some (g, c', v)" "agree g c c'" "length c = len"
      using getrandom_loop_agree [OF assms(1) _ assms(2) g, of b] assms(2,3) by (auto simp: agree_def)
    show ?thesis
    proof (cases "g = len")
      case True
      then have "c = c'"
        using c' by (intro agree_all) simp
      then show ?thesis
        using assms(4) pos Linux g c' True by (auto simp: e2ee_secure_random_def)
    next
      case False
      then have "fill_from_urandom os c len v = (0, the o1, w')" "Some (the o1) = o1"
        using assms(4) pos Linux g by (auto simp: e2ee_secure_random_def case_prod_beta prod_eq_iff)
      moreover have "length c' = len"
        using c' by (simp add: agree_def)
      ultimately have "\<exists>x. fill_from_urandom os c' len v = (0, x, w') \<and> Some x = o1 \<and> length x = len"
        using c'(3) by (intro urandom)
      then show ?thesis
        using pos Linux c'(1) False by (auto simp: e2ee_secure_random_def)
    qed
  next
    case Apple
    have "length (fst (arc4random_buf os len w)) = len"
      using assms(1) by (simp add: os_laws_def)
    then show ?thesis
      using assms(2-) pos Apple by (auto simp: e2ee_secure_random_def case_prod_beta write_at_def)
  next
    case Other_platform
    then have "fill_from_urandom os a len w = (0, the o1, w')" "Some (the o1) = o1"
      using assms(4) pos by (auto simp: e2ee_secure_random_def case_prod_beta prod_eq_iff)
    then show ?thesis
      using urandom [OF _ _ assms(2,3), of w] pos Other_platform by (auto simp: e2ee_secure_random_def)
  qed
qed

section \<open>Scripted system calls\<close>

text \<open>
  A kernel that answers \<open>getrandom\<close> from a list: interruptions, short reads and failures in any order.
\<close>

fun script_getrandom :: "nat \<Rightarrow> (errno + bytes) list \<Rightarrow> (errno + bytes) \<times> (errno + bytes) list" where
  "script_getrandom n [] = (Inl ENOSYS, [])"
| "script_getrandom n (Inl e # w) = (Inl e, w)"
| "script_getrandom n (Inr bs # w) = (Inr (take n bs), w)"

fun delivered :: "(errno + bytes) list \<Rightarrow> bytes" where
  "delivered [] = []"
| "delivered (Inl e # w) = delivered w"
| "delivered (Inr bs # w) = bs @ delivered w"

definition script_os :: "bytes \<Rightarrow> (errno + bytes) list os" where
  "script_os file = \<lparr> platform = Linux, getrandom = script_getrandom,
     fopen_urandom = (\<lambda>w. (file \<noteq> [], w)), fread = (\<lambda>n w. (take n file, w)), fclose = (\<lambda>w. w),
     arc4random_buf = (\<lambda>n w. (replicate n 0, w)) \<rparr>"

lemma script_getrandom_length: "script_getrandom n w = (Inr bs, w') \<Longrightarrow> length bs \<le> n"
  by (induction n w rule: script_getrandom.induct) auto

lemma os_laws_script: "os_laws (script_os file)"
  using script_getrandom_length by (auto simp: os_laws_def script_os_def)

lemma getrandom_loop_script:
  assumes "getrandom os = script_getrandom" and "\<forall>e. Inl e \<in> set script \<longrightarrow> e = EINTR"
    and "got \<le> len" and "len - got \<le> length (delivered script)" and "length out = len"
  shows "\<exists>w'. getrandom_loop os len got out script = Some (len, take got out @ take (len - got) (delivered script), w')"
  using assms(2-)
proof (induction script arbitrary: got out)
  case Nil
  then show ?case
    by (subst getrandom_loop.simps) simp
next
  case (Cons r script)
  show ?case
  proof (cases "got < len")
    case lt: True
    show ?thesis
    proof (cases r)
      case (Inl e)
      then show ?thesis
        using Cons lt assms(1) by (subst getrandom_loop.simps) simp
    next
      case (Inr bs)
      let ?bs = "take (len - got) bs"
      have "\<exists>w'. getrandom_loop os len (got + length ?bs) (write_at out got ?bs) script
          = Some (len, take (got + length ?bs) (write_at out got ?bs) @ take (len - (got + length ?bs)) (delivered script), w')"
        using Cons.prems Inr lt by (intro Cons.IH) (auto simp: write_at_def min_def)
      moreover have "take (got + length ?bs) (write_at out got ?bs) = take got out @ ?bs"
        using Cons.prems lt by (simp add: write_at_def min_def)
      moreover have "?bs @ take (len - (got + length ?bs)) (delivered script) = take (len - got) (delivered (r # script))"
        using Inr by (simp add: min_def)
      ultimately show ?thesis
        using lt assms(1) Inr by (subst getrandom_loop.simps) simp
    qed
  next
    case False
    then show ?thesis
      using Cons.prems by (subst getrandom_loop.simps) simp
  qed
qed

section \<open>Properties\<close>

text \<open>
  C22. When \<open>PQCLEAN_randombytes\<close> (\<open>randombytes.c\<close>) returns, it returns 0 and has overwritten the whole
  buffer with bytes of the operating system: the result does not depend on what the buffer held before.
  Short reads, interruptions and the fallback to \<open>/dev/urandom\<close> are included; every other end is an abort
  or no return at all.
\<close>

theorem randombytes_fills_or_aborts:
  assumes "os_laws os" and "length a = n" and "length b = n"
    and "PQCLEAN_randombytes os (Some a) n w = Some (Return (rc, result, w'))"
  shows "rc = 0 \<and> PQCLEAN_randombytes os (Some b) n w = Some (Return (0, result, w'))
    \<and> (\<exists>bs. result = Some bs \<and> length bs = n)"
proof -
  have r: "rc = 0" "e2ee_secure_random os (Some a) n w = Some (0, result, w')"
    using assms(4) by (auto simp: PQCLEAN_randombytes_def split: option.splits prod.splits if_splits)
  show ?thesis
    using secure_random_fills [OF assms(1-3) r(2)] r(1) by (simp add: PQCLEAN_randombytes_def)
qed

theorem randombytes_fills_or_aborts_witness:
  "(0 :: int) = 0 \<and> PQCLEAN_randombytes (script_os [7]) (Some [9, 9, 9]) 3 [Inl EINTR, Inr [1], Inl ENOSYS]
      = Some (Return (0, Some [7, 7, 7], [])) \<and> (\<exists>bs. Some [7, 7, 7 :: u8] = Some bs \<and> length bs = 3)"
proof (rule randombytes_fills_or_aborts)
  show "PQCLEAN_randombytes (script_os [7]) (Some [0, 0, 0]) 3 [Inl EINTR, Inr [1], Inl ENOSYS]
      = Some (Return (0, Some [7, 7, 7], []))"
    by code_simp
qed (simp_all add: os_laws_script)

text \<open>
  C23. \<open>e2ee_secure_random\<close> (\<open>randombytes.c\<close>) returns after any finite number of interruptions and short or
  empty reads, with the delivered bytes in order: if the answers of \<open>getrandom\<close> are only \<open>EINTR\<close> and byte
  strings that together hold \<open>len\<close> bytes, the result is 0 and the first \<open>len\<close> of them.
\<close>

theorem getrandom_retries:
  assumes "platform os = Linux" and "getrandom os = script_getrandom" and "\<forall>e. Inl e \<in> set script \<longrightarrow> e = EINTR"
    and "len \<le> length (delivered script)" and "length out = len"
  shows "\<exists>w'. e2ee_secure_random os (Some out) len script = Some (0, Some (take len (delivered script)), w')"
proof (cases "len = 0")
  case False
  then show ?thesis
    using getrandom_loop_script [OF assms(2,3), of 0 len out] assms by (auto simp: e2ee_secure_random_def)
qed (use assms in \<open>simp add: e2ee_secure_random_def\<close>)

theorem getrandom_retries_witness:
  "\<exists>w'. e2ee_secure_random (script_os []) (Some [0, 0, 0]) 3 [Inl EINTR, Inr [1, 2], Inl EINTR, Inr [], Inr [3, 4]]
      = Some (0, Some (take 3 (delivered [Inl EINTR, Inr [1, 2], Inl EINTR, Inr [], Inr [3, 4]])), w')"
  by (rule getrandom_retries) (simp_all add: script_os_def)

text \<open>
  A failing \<open>getrandom\<close> other than an interruption falls back to \<open>/dev/urandom\<close>, which is read from the
  start of the buffer; the result is then that of the fallback, an error included.
\<close>

theorem urandom_fallback:
  assumes "platform os = Linux" and "0 < len" and "getrandom os len w = (Inl e, w1)" and "e \<noteq> EINTR"
    and "fill_from_urandom os out len w1 = (rc, out', w2)"
  shows "e2ee_secure_random os (Some out) len w = Some (rc, Some out', w2)"
proof -
  have "getrandom_loop os len 0 out w = Some (0, out, w1)"
    using assms(2-4) by (subst getrandom_loop.simps) simp
  then show ?thesis
    using assms by (simp add: e2ee_secure_random_def)
qed

theorem urandom_fallback_witness:
  "e2ee_secure_random (script_os []) (Some [0, 0]) 2 [Inl ENOSYS] = Some (- 1, Some [0, 0], [])"
  by (rule urandom_fallback [where e = ENOSYS]) (simp_all add: script_os_def fill_from_urandom_def)

end
