(* ===== verification/Kem.thy ===== *)
theory Kem
  imports Indcpa Verify Randombytes
begin

text \<open>
  The key encapsulation mechanism: \<open>native/mlkem/pqclean-ml-kem-768/kem.c\<close>, the Fujisaki-Okamoto
  transform around the encryption scheme with implicit rejection. The functions take the random coins
  as an argument; the two that draw them themselves run \<open>PQCLEAN_randombytes\<close> on a local buffer, whose
  initial contents cannot matter because the call overwrites all of it. The return value of each
  function is 0. \<open>None\<close> is a call that does not return and \<open>Abort\<close> the end of the process.
\<close>

section \<open>Definitions\<close>

definition crypto_kem_keypair_derand :: "bytes \<Rightarrow> (bytes \<times> bytes) option" where
  "crypto_kem_keypair_derand coins =
     (case indcpa_keypair_derand coins of
        None \<Rightarrow> None
      | Some (pk, sk) \<Rightarrow>
          let sk = sk @ take KYBER_PUBLICKEYBYTES pk;
              sk = sk @ hash_h (take KYBER_PUBLICKEYBYTES pk);
              sk = sk @ take KYBER_SYMBYTES (drop KYBER_SYMBYTES coins)
          in Some (pk, sk))"

definition crypto_kem_keypair :: "'w os \<Rightarrow> 'w \<Rightarrow> (int \<times> bytes \<times> bytes \<times> 'w) outcome option" where
  "crypto_kem_keypair os w =
     (let coins = replicate (2 * KYBER_SYMBYTES) 0
      in case PQCLEAN_randombytes os (Some coins) (2 * KYBER_SYMBYTES) w of
           None \<Rightarrow> None
         | Some Abort \<Rightarrow> Some Abort
         | Some (Return (rc, coins, w)) \<Rightarrow>
             (case crypto_kem_keypair_derand (the coins) of
                None \<Rightarrow> None
              | Some (pk, sk) \<Rightarrow> Some (Return (0, pk, sk, w))))"

definition crypto_kem_enc_derand :: "bytes \<Rightarrow> bytes \<Rightarrow> (bytes \<times> bytes) option" where
  "crypto_kem_enc_derand pk coins =
     (let buf = take KYBER_SYMBYTES coins;
          buf = buf @ hash_h (take KYBER_PUBLICKEYBYTES pk);
          kr = hash_g buf
      in case indcpa_enc buf pk (drop KYBER_SYMBYTES kr) of
           None \<Rightarrow> None
         | Some ct \<Rightarrow> Some (ct, take KYBER_SYMBYTES kr))"

definition crypto_kem_enc :: "'w os \<Rightarrow> bytes \<Rightarrow> 'w \<Rightarrow> (int \<times> bytes \<times> bytes \<times> 'w) outcome option" where
  "crypto_kem_enc os pk w =
     (let coins = replicate KYBER_SYMBYTES 0
      in case PQCLEAN_randombytes os (Some coins) KYBER_SYMBYTES w of
           None \<Rightarrow> None
         | Some Abort \<Rightarrow> Some Abort
         | Some (Return (rc, coins, w)) \<Rightarrow>
             (case crypto_kem_enc_derand pk (the coins) of
                None \<Rightarrow> None
              | Some (ct, ss) \<Rightarrow> Some (Return (0, ct, ss, w))))"

definition crypto_kem_dec :: "bytes \<Rightarrow> bytes \<Rightarrow> bytes option" where
  "crypto_kem_dec ct sk =
     (let pk = drop KYBER_INDCPA_SECRETKEYBYTES sk;
          buf = indcpa_dec ct sk;
          buf = buf @ take KYBER_SYMBYTES (drop (KYBER_SECRETKEYBYTES - 2 * KYBER_SYMBYTES) sk);
          kr = hash_g buf
      in case indcpa_enc buf pk (drop KYBER_SYMBYTES kr) of
           None \<Rightarrow> None
         | Some cmp \<Rightarrow>
             let fail = verify ct cmp KYBER_CIPHERTEXTBYTES;
                 ss = rkprf (drop (KYBER_SECRETKEYBYTES - KYBER_SYMBYTES) sk) ct;
                 ss = cmov ss kr KYBER_SYMBYTES (ucast (1 - fail))
             in Some ss)"


section \<open>Decapsulation\<close>

text \<open>
  FIPS 203 (algorithm 18): decrypt, derive the key and the coins from the message and the stored hash,
  encrypt again, and compare.
\<close>

definition fo_key :: "bytes \<Rightarrow> bytes \<Rightarrow> bytes" where
  "fo_key m h = take 32 (hash_g (m @ h))"

definition fo_coins :: "bytes \<Rightarrow> bytes \<Rightarrow> bytes" where
  "fo_coins m h = drop 32 (hash_g (m @ h))"

definition reject_key :: "bytes \<Rightarrow> bytes \<Rightarrow> bytes" where
  "reject_key z ct = sponge 136 0x1F 32 (z @ ct)"

definition fo_decaps :: "bytes \<Rightarrow> bytes \<Rightarrow> bytes \<Rightarrow> bytes \<Rightarrow> bytes \<Rightarrow> bytes option" where
  "fo_decaps m pk h z ct =
     map_option (\<lambda>c'. if c' = ct then fo_key m h else reject_key z ct) (indcpa_enc m pk (fo_coins m h))"

lemma length_reject_key [simp]: "length (reject_key z ct) = 32"
  by (simp add: reject_key_def length_sponge)

lemma length_indcpa_dec [len_simps, simp]: "length (indcpa_dec c sk) = 32"
  by (simp add: indcpa_dec_def case_prod_beta)

lemma select_key:
  assumes "length ct = 1088" and "length cmp = 1088" and "length ss = 32" and "32 \<le> length kr"
  shows "cmov ss kr 32 (ucast (1 - verify ct cmp 1088)) = (if cmp = ct then take 32 kr else ss)"
proof -
  have "verify ct cmp 1088 = (if cmp = ct then 0 else 1)"
    using assms(1,2) by (subst verify_eq) auto
  then show ?thesis
    using assms cmov_1 [of 32 ss kr] by (simp add: cmov_0)
qed

lemma crypto_kem_dec_eq:
  assumes "length ct = 1088" and "length sk = 2400"
  shows "crypto_kem_dec ct sk
    = fo_decaps (indcpa_dec ct sk) (drop 1152 sk) (take 32 (drop 2336 sk)) (drop 2368 sk) ct"
proof -
  let ?m = "indcpa_dec ct sk" and ?h = "take 32 (drop 2336 sk)"
  have J: "rkprf (drop 2368 sk) ct = reject_key (drop 2368 sk) ct"
    using assms by (simp add: rkprf_eq reject_key_def)
  have "crypto_kem_dec ct sk = (case indcpa_enc (?m @ ?h) (drop 1152 sk) (fo_coins ?m ?h) of
      None \<Rightarrow> None
    | Some cmp \<Rightarrow> Some (cmov (rkprf (drop 2368 sk) ct) (hash_g (?m @ ?h)) 32 (ucast (1 - verify ct cmp 1088))))"
    unfolding crypto_kem_dec_def Let_def fo_coins_def params by (simp split: option.split)
  also have "\<dots> = fo_decaps ?m (drop 1152 sk) ?h (drop 2368 sk) ct"
  proof (cases "indcpa_enc ?m (drop 1152 sk) (fo_coins ?m ?h)")
    case (Some cmp)
    then show ?thesis
      using select_key [OF assms(1) indcpa_enc_length [OF Some] length_reject_key, of "hash_g (?m @ ?h)"]
      by (simp add: indcpa_enc_append fo_decaps_def fo_key_def J)
  qed (simp add: indcpa_enc_append fo_decaps_def)
  finally show ?thesis .
qed

lemma crypto_kem_keypair_derand_eq:
  "crypto_kem_keypair_derand coins = map_option (\<lambda>(pk, sk). (pk, sk @ pk @ hash_h pk @ take 32 (drop 32 coins)))
     (indcpa_keypair_derand coins)"
  using indcpa_keypair_length by (auto simp: crypto_kem_keypair_derand_def params split: option.splits)

lemma crypto_kem_enc_derand_eq:
  assumes "length m = 32" and "length pk = 1184"
  shows "crypto_kem_enc_derand pk m
    = map_option (\<lambda>ct. (ct, fo_key m (hash_h pk))) (indcpa_enc m pk (fo_coins m (hash_h pk)))"
proof -
  have "crypto_kem_enc_derand pk m = (case indcpa_enc (m @ hash_h pk) pk (fo_coins m (hash_h pk)) of
      None \<Rightarrow> None | Some ct \<Rightarrow> Some (ct, fo_key m (hash_h pk)))"
    unfolding crypto_kem_enc_derand_def Let_def fo_coins_def fo_key_def params using assms by (simp split: option.split)
  then show ?thesis
    using assms by (simp add: indcpa_enc_append map_option_case)
qed

lemma poly_frombytes_append:
  assumes "384 \<le> length a"
  shows "poly_frombytes (a @ rest) = poly_frombytes a"
  using assms poly_frombytes_take [of a] poly_frombytes_take [of "a @ rest"] by simp

lemma polyvec_frombytes_append:
  assumes "1152 \<le> length a"
  shows "polyvec_frombytes (a @ rest) = polyvec_frombytes a"
  unfolding polyvec_frombytes_def params using assms by (simp add: poly_frombytes_append)

lemma indcpa_enc_pk_append:
  assumes "length pk = 1184"
  shows "indcpa_enc m (pk @ rest) r = indcpa_enc m pk r"
  using assms by (simp add: indcpa_enc_eq polyvec_frombytes_append)


lemma kem_roundtrip_eq:
  assumes "length coins = 64" and "length m = 32"
  shows "Option.bind (crypto_kem_keypair_derand coins) (\<lambda>(pk, sk).
      Option.bind (crypto_kem_enc_derand pk m) (\<lambda>(ct, ss). crypto_kem_dec ct sk))
    = Option.bind (crypto_kem_keypair_derand coins) (\<lambda>(pk, sk).
      Option.bind (crypto_kem_enc_derand pk m) (\<lambda>(ct, ss).
        let m' = round_msg (\<lambda>n. 1665 * of_bool (bit_at m n) + decryption_noise coins m (fo_coins m (hash_h pk)) n)
        in if m' = m then Some ss else fo_decaps m' pk (hash_h pk) (drop 32 coins) ct))"
proof (cases "indcpa_keypair_derand coins")
  case (Some key)
  then obtain pk sk where key: "indcpa_keypair_derand coins = Some (pk, sk)"
    by (cases key) simp
  note len = indcpa_keypair_length [OF key]
  define h where "h = hash_h pk"
  define dk where "dk = sk @ pk @ h @ drop 32 coins"
  have kem: "crypto_kem_keypair_derand coins = Some (pk, dk)"
    using assms by (simp add: crypto_kem_keypair_derand_eq key dk_def h_def)
  have dk: "length dk = 2400" "drop 1152 dk = pk @ h @ drop 32 coins" "take 32 (drop 2336 dk) = h" "drop 2368 dk = drop 32 coins"
    using len assms by (simp_all add: dk_def h_def)
  show ?thesis
  proof (cases "indcpa_enc m pk (fo_coins m h)")
    case (Some ct)
    let ?m = "round_msg (\<lambda>n. 1665 * of_bool (bit_at m n) + decryption_noise coins m (fo_coins m h) n)"
    have ct: "length ct = 1088"
      using Some by (rule indcpa_enc_length)
    have "indcpa_enc m (pk @ []) (fo_coins m h) = Some ct"
      using Some by simp
    then have m': "indcpa_dec ct dk = ?m"
      unfolding dk_def by (rule indcpa_correct [OF key])
    have "crypto_kem_dec ct dk = fo_decaps ?m pk h (drop 32 coins) ct"
      unfolding crypto_kem_dec_eq [OF ct dk(1)] m' dk(2-) by (simp add: fo_decaps_def indcpa_enc_pk_append len)
    moreover have "fo_decaps ?m pk h (drop 32 coins) ct = Some (fo_key m h)" if "?m = m"
      unfolding that by (simp add: fo_decaps_def Some)
    ultimately show ?thesis
      using Some assms len by (simp add: kem crypto_kem_enc_derand_eq Let_def flip: h_def)
  next
    case None
    then show ?thesis
      using assms len by (simp add: kem crypto_kem_enc_derand_eq flip: h_def)
  qed
qed (simp add: crypto_kem_keypair_derand_eq)


section \<open>Properties\<close>

text \<open>
  C2. \<open>crypto_kem_dec\<close> (\<open>kem.c\<close>) is the decapsulation of FIPS 203 with implicit rejection: it decrypts to a
  message, encrypts that message again under the coins \<open>G(m || h)\<close> prescribes, and returns the key
  \<open>G(m || h)\<close> if this reproduces the whole ciphertext and \<open>SHAKE256(z || ct)\<close> otherwise. The constant-time
  comparison and the conditional move decide exactly this case distinction; nothing else of the result
  tells the two cases apart.
\<close>

theorem decapsulation_spec:
  assumes "length ct = 1088" and "length sk = 2400"
  shows "crypto_kem_dec ct sk =
    (let m = indcpa_dec ct sk; h = take 32 (drop 2336 sk); pk = drop 1152 sk; z = drop 2368 sk
     in map_option (\<lambda>c'. if c' = ct then take 32 (hash_g (m @ h)) else sponge 136 0x1F 32 (z @ ct))
          (indcpa_enc m pk (drop 32 (hash_g (m @ h)))))"
  unfolding Let_def using crypto_kem_dec_eq [OF assms]
  unfolding fo_decaps_def fo_key_def fo_coins_def reject_key_def .

theorem decapsulation_spec_witness:
  "crypto_kem_dec (replicate 1088 1) (replicate 2400 2) =
    (let m = indcpa_dec (replicate 1088 1) (replicate 2400 2); h = take 32 (drop 2336 (replicate 2400 2));
         pk = drop 1152 (replicate 2400 2); z = drop 2368 (replicate 2400 2)
     in map_option (\<lambda>c'. if c' = replicate 1088 1 then take 32 (hash_g (m @ h)) else sponge 136 0x1F 32 (z @ replicate 1088 1))
          (indcpa_enc m pk (drop 32 (hash_g (m @ h)))))"
  by (rule decapsulation_spec) simp_all

text \<open>
  C1. Decapsulating an honestly made ciphertext with the matching key returns the encapsulated secret
  whenever the rounded message survives the noise: for every 64 bytes of key coins and every 32-byte
  message, whenever key generation and encapsulation return, \<open>crypto_kem_dec\<close> behaves as
  \<open>fo_decaps\<close> on \<open>ByteEncode_1(Compress_1(1665 * m + noise))\<close>, which is the encapsulated secret if that
  is \<open>m\<close>. The two sides agree as partial functions of the coins.
\<close>

theorem kem_roundtrip:
  assumes "length coins = 64" and "length m = 32"
  shows "Option.bind (crypto_kem_keypair_derand coins) (\<lambda>(pk, sk).
      Option.bind (crypto_kem_enc_derand pk m) (\<lambda>(ct, ss). crypto_kem_dec ct sk))
    = Option.bind (crypto_kem_keypair_derand coins) (\<lambda>(pk, sk).
      Option.bind (crypto_kem_enc_derand pk m) (\<lambda>(ct, ss).
        let m' = round_msg (\<lambda>n. 1665 * of_bool (bit_at m n) + decryption_noise coins m (fo_coins m (hash_h pk)) n)
        in if m' = m then Some ss else fo_decaps m' pk (hash_h pk) (drop 32 coins) ct))"
  by (rule kem_roundtrip_eq [OF assms])

theorem kem_roundtrip_witness:
  "Option.bind (crypto_kem_keypair_derand (replicate 64 7)) (\<lambda>(pk, sk).
      Option.bind (crypto_kem_enc_derand pk (replicate 32 9)) (\<lambda>(ct, ss). crypto_kem_dec ct sk))
    = Option.bind (crypto_kem_keypair_derand (replicate 64 7)) (\<lambda>(pk, sk).
      Option.bind (crypto_kem_enc_derand pk (replicate 32 9)) (\<lambda>(ct, ss).
        let m' = round_msg (\<lambda>n. 1665 * of_bool (bit_at (replicate 32 9) n)
                   + decryption_noise (replicate 64 7) (replicate 32 9) (fo_coins (replicate 32 9) (hash_h pk)) n)
        in if m' = replicate 32 9 then Some ss
           else fo_decaps m' pk (hash_h pk) (drop 32 (replicate 64 7)) ct))"
  by (rule kem_roundtrip) simp_all

end
