(* ===== verification/Aead.thy ===== *)
theory Aead
  imports Buffer
begin

text \<open>
  Authenticated encryption: \<open>chacha20_poly1305\<close>, \<open>e2ee_chacha20_seal\<close> and \<open>e2ee_chacha20_open\<close> of
  \<open>native/e2ee_proxy_api.c\<close>. The cipher itself is OpenSSL's and a parameter: a record of the calls the
  code makes, on an abstract cipher context. A call returns the C result, the bytes it stores and the
  next context. \<open>EVP_CIPHER_CTX_new\<close> and \<open>EVP_CIPHER_CTX_free\<close> act on an abstract heap.

  The header allows the plaintext and the ciphertext buffer to be the same, so pointers are addresses
  of a memory here and every access goes through it.
\<close>

unbundle bit_operations_syntax

section \<open>Definitions\<close>

datatype aead_ctrl = EVP_CTRL_AEAD_SET_IVLEN | EVP_CTRL_AEAD_SET_TAG | EVP_CTRL_AEAD_GET_TAG

record ('k, 'c, 'w) evp_cipher =
  EVP_chacha20_poly1305 :: 'k
  EVP_CIPHER_CTX_new :: "'w \<Rightarrow> 'c option \<times> 'w"
  EVP_CipherInit_ex :: "'c \<Rightarrow> 'k option \<Rightarrow> bytes option \<Rightarrow> bytes option \<Rightarrow> int \<Rightarrow> int \<times> 'c"
  EVP_CIPHER_CTX_ctrl :: "'c \<Rightarrow> aead_ctrl \<Rightarrow> nat \<Rightarrow> bytes option \<Rightarrow> int \<times> bytes \<times> 'c"
  EVP_CipherUpdate :: "'c \<Rightarrow> bytes \<Rightarrow> nat \<Rightarrow> int \<times> int \<times> bytes \<times> 'c"
  EVP_CipherFinal_ex :: "'c \<Rightarrow> int \<times> int \<times> 'c"
  EVP_CIPHER_CTX_free :: "'c \<Rightarrow> 'w \<Rightarrow> 'w"

text \<open>The loop over the input, in pieces whose length fits an \<open>int\<close>.\<close>

function cipher_loop ::
    "('k, 'c, 'w) evp_cipher \<Rightarrow> nat \<Rightarrow> nat \<Rightarrow> nat \<Rightarrow> nat \<Rightarrow> memory \<Rightarrow> 'c \<Rightarrow> bool \<times> memory \<times> 'c" where
  "cipher_loop ssl inp in_len out don m ctx =
     (if don < in_len
      then let chunk = in_len - don;
               chunk = (if chunk > INT_MAX div 2 then INT_MAX div 2 else chunk);
               (ok, outl, bs, ctx) = EVP_CipherUpdate ssl ctx (drop don (m inp)) chunk;
               m = m(out := write_at (m out) don bs)
           in if ok \<noteq> 1 then (False, m, ctx)
              else if outl < 0 \<or> nat outl \<noteq> chunk then (False, m, ctx)
              else cipher_loop ssl inp in_len out (don + chunk) m ctx
      else (True, m, ctx))"
  by pat_completeness auto
termination
  by (relation "measure (\<lambda>(ssl, inp, in_len, out, don, m, ctx). in_len - don)") (auto simp: INT_MAX_def)

declare cipher_loop.simps [simp del]

text \<open>The steps between the allocation of the context and the label \<open>out\<close>.\<close>

definition cipher_run ::
    "('k, 'c, 'w) evp_cipher \<Rightarrow> int \<Rightarrow> nat \<Rightarrow> nat \<Rightarrow> nat \<Rightarrow> nat \<Rightarrow> nat \<Rightarrow> nat \<Rightarrow> memory \<Rightarrow> 'c
       \<Rightarrow> int \<times> memory \<times> 'c" where
  "cipher_run ssl encrypt key nonce inp in_len out tag m ctx =
     (let (ok, ctx) = EVP_CipherInit_ex ssl ctx (Some (EVP_chacha20_poly1305 ssl)) None None encrypt
      in if ok \<noteq> 1 then (- 1, m, ctx) else
      let (ok, _, ctx) = EVP_CIPHER_CTX_ctrl ssl ctx EVP_CTRL_AEAD_SET_IVLEN 12 None
      in if ok \<noteq> 1 then (- 1, m, ctx) else
      let (ok, ctx) = EVP_CipherInit_ex ssl ctx None (Some (m key)) (Some (m nonce)) encrypt
      in if ok \<noteq> 1 then (- 1, m, ctx) else
      let (ok, bs, ctx) = (if encrypt = 0 then EVP_CIPHER_CTX_ctrl ssl ctx EVP_CTRL_AEAD_SET_TAG 16 (Some (m tag))
                           else (1, [], ctx));
          m = m(tag := write_at (m tag) 0 bs)
      in if ok \<noteq> 1 then (- 1, m, ctx) else
      let (going, m, ctx) = cipher_loop ssl inp in_len out 0 m ctx
      in if \<not> going then (- 1, m, ctx) else
      let (ok, outl, ctx) = EVP_CipherFinal_ex ssl ctx
      in if ok \<noteq> 1 then (- 1, m, ctx) else
      if outl \<noteq> 0 then (- 1, m, ctx) else
      let (ok, bs, ctx) = (if encrypt \<noteq> 0 then EVP_CIPHER_CTX_ctrl ssl ctx EVP_CTRL_AEAD_GET_TAG 16 (Some (m tag))
                           else (1, [], ctx));
          m = m(tag := write_at (m tag) 0 bs)
      in if ok \<noteq> 1 then (- 1, m, ctx) else (0, m, ctx))"

definition chacha20_poly1305 ::
    "('k, 'c, 'w) evp_cipher \<Rightarrow> int \<Rightarrow> ptr \<Rightarrow> ptr \<Rightarrow> ptr \<Rightarrow> nat \<Rightarrow> ptr \<Rightarrow> ptr \<Rightarrow> memory \<Rightarrow> 'w
       \<Rightarrow> int \<times> memory \<times> 'w" where
  "chacha20_poly1305 ssl encrypt key nonce inp in_len out tag m w =
     (if key = None \<or> nonce = None \<or> tag = None then (- 1, m, w)
      else if in_len > 0 \<and> (inp = None \<or> out = None) then (- 1, m, w)
      else case EVP_CIPHER_CTX_new ssl w of
             (None, w) \<Rightarrow> (- 1, m, w)
           | (Some ctx, w) \<Rightarrow>
               let (rc, m, ctx) = cipher_run ssl encrypt (the key) (the nonce) (the inp) in_len (the out) (the tag) m ctx
               in (rc, m, EVP_CIPHER_CTX_free ssl ctx w))"

definition e2ee_chacha20_seal ::
    "('k, 'c, 'w) evp_cipher \<Rightarrow> ptr \<Rightarrow> ptr \<Rightarrow> ptr \<Rightarrow> nat \<Rightarrow> ptr \<Rightarrow> ptr \<Rightarrow> memory \<Rightarrow> 'w \<Rightarrow> int \<times> memory \<times> 'w" where
  "e2ee_chacha20_seal ssl key nonce plaintext pt_len ciphertext tag m w =
     chacha20_poly1305 ssl 1 key nonce plaintext pt_len ciphertext tag m w"

definition e2ee_chacha20_open ::
    "('k, 'c, 'w) evp_cipher \<Rightarrow> ptr \<Rightarrow> ptr \<Rightarrow> ptr \<Rightarrow> nat \<Rightarrow> ptr \<Rightarrow> ptr \<Rightarrow> memory \<Rightarrow> 'w \<Rightarrow> int \<times> memory \<times> 'w" where
  "e2ee_chacha20_open ssl key nonce ciphertext ct_len tag plaintext m w =
     (let (rc, m, w) = chacha20_poly1305 ssl 0 key nonce ciphertext ct_len plaintext tag m w
      in if rc \<noteq> 0 \<and> plaintext \<noteq> None \<and> ct_len > 0
         then (rc, m(the plaintext := write_at (m (the plaintext)) 0 (replicate ct_len 0)), w)
         else (rc, m, w))"


section \<open>The cipher OpenSSL documents\<close>

text \<open>
  The part of a context the documentation of the EVP interface speaks of: direction, key, nonce, the
  ciphertext seen so far and the expected tag. ChaCha20 adds the bytes of a keystream, Poly1305 computes
  a 16-byte tag of the ciphertext (there is no associated data); both are functions of key and nonce.
\<close>

record aead_view =
  encrypting :: bool
  aead_key :: bytes
  aead_nonce :: bytes
  seen :: bytes
  expected :: bytes

type_synonym keystream = "bytes \<Rightarrow> bytes \<Rightarrow> nat \<Rightarrow> u8"
type_synonym mac = "bytes \<Rightarrow> bytes \<Rightarrow> bytes \<Rightarrow> bytes"

definition stream_xor :: "(nat \<Rightarrow> u8) \<Rightarrow> nat \<Rightarrow> bytes \<Rightarrow> bytes" where
  "stream_xor ks off bs = map (\<lambda>i. bs ! i XOR ks (off + i)) [0..<length bs]"

definition view_stream :: "keystream \<Rightarrow> aead_view \<Rightarrow> bytes \<Rightarrow> bytes" where
  "view_stream ks v bs = stream_xor (ks (aead_key v) (aead_nonce v)) (length (seen v)) bs"

definition view_tag :: "mac \<Rightarrow> aead_view \<Rightarrow> bytes" where
  "view_tag mac v = mac (aead_key v) (aead_nonce v) (seen v)"

text \<open>What a successful call does, and that a tag that does not match is never accepted.\<close>

definition evp_laws :: "('k, 'c, 'w) evp_cipher \<Rightarrow> ('c \<Rightarrow> aead_view) \<Rightarrow> keystream \<Rightarrow> mac \<Rightarrow> bool" where
  "evp_laws ssl view ks mac \<longleftrightarrow>
     (\<forall>k n ct. length (mac k n ct) = 16) \<and>
     (\<forall>c k n e c'. EVP_CipherInit_ex ssl c None (Some k) (Some n) e = (1, c') \<longrightarrow>
        view c' = \<lparr> encrypting = (e \<noteq> 0), aead_key = take 32 k, aead_nonce = take 12 n, seen = [], expected = [] \<rparr>) \<and>
     (\<forall>c t ok bs c'. EVP_CIPHER_CTX_ctrl ssl c EVP_CTRL_AEAD_SET_TAG 16 (Some t) = (ok, bs, c') \<longrightarrow> bs = []) \<and>
     (\<forall>c t bs c'. EVP_CIPHER_CTX_ctrl ssl c EVP_CTRL_AEAD_SET_TAG 16 (Some t) = (1, bs, c') \<longrightarrow>
        view c' = (view c)\<lparr> expected := take 16 t \<rparr>) \<and>
     (\<forall>c inp n outl bs c'. EVP_CipherUpdate ssl c inp n = (1, outl, bs, c') \<longrightarrow>
        outl = int n \<and> bs = view_stream ks (view c) (take n inp) \<and>
        view c' = (view c)\<lparr> seen := seen (view c) @ (if encrypting (view c) then bs else take n inp) \<rparr>) \<and>
     (\<forall>c outl c'. EVP_CipherFinal_ex ssl c = (1, outl, c') \<longrightarrow>
        outl = 0 \<and> view c' = view c \<and> (\<not> encrypting (view c) \<longrightarrow> expected (view c) = view_tag mac (view c))) \<and>
     (\<forall>c t bs c'. EVP_CIPHER_CTX_ctrl ssl c EVP_CTRL_AEAD_GET_TAG 16 (Some t) = (1, bs, c') \<longrightarrow>
        bs = view_tag mac (view c))"

text \<open>That no call fails, except the last one on a tag that does not match: memory never runs out.\<close>

definition evp_total :: "('k, 'c, 'w) evp_cipher \<Rightarrow> ('c \<Rightarrow> aead_view) \<Rightarrow> mac \<Rightarrow> bool" where
  "evp_total ssl view mac \<longleftrightarrow>
     (\<forall>w. fst (EVP_CIPHER_CTX_new ssl w) \<noteq> None) \<and>
     (\<forall>c k kb nb e. fst (EVP_CipherInit_ex ssl c k kb nb e) = 1) \<and>
     (\<forall>c a n p. fst (EVP_CIPHER_CTX_ctrl ssl c a n p) = 1) \<and>
     (\<forall>c inp n. fst (EVP_CipherUpdate ssl c inp n) = 1) \<and>
     (\<forall>c. encrypting (view c) \<or> expected (view c) = view_tag mac (view c) \<longrightarrow> fst (EVP_CipherFinal_ex ssl c) = 1)"

lemma length_stream_xor [simp, len_simps]: "length (stream_xor ks off bs) = length bs"
  by (simp add: stream_xor_def)

lemma length_view_stream [simp, len_simps]: "length (view_stream ks v bs) = length bs"
  by (simp add: view_stream_def)

lemma stream_xor_append: "stream_xor ks off (a @ b) = stream_xor ks off a @ stream_xor ks (off + length a) b"
  by (rule nth_equalityI) (auto simp: stream_xor_def nth_append add.assoc)

lemma stream_xor_xor [simp]: "stream_xor ks off (stream_xor ks off bs) = bs"
  by (rule nth_equalityI) (simp_all add: stream_xor_def xor.assoc)

section \<open>The loop\<close>

text \<open>The context after the bytes \<open>bs\<close> have gone through it.\<close>

definition fed :: "keystream \<Rightarrow> aead_view \<Rightarrow> bytes \<Rightarrow> aead_view" where
  "fed ks v bs = v\<lparr> seen := seen v @ (if encrypting v then view_stream ks v bs else bs) \<rparr>"

lemma fed_sel [simp]:
  "encrypting (fed ks v bs) = encrypting v" "aead_key (fed ks v bs) = aead_key v"
  "aead_nonce (fed ks v bs) = aead_nonce v" "expected (fed ks v bs) = expected v"
  by (simp_all add: fed_def)

lemma view_stream_append: "view_stream ks v (a @ b) = view_stream ks v a @ view_stream ks (fed ks v a) b"
  by (simp add: view_stream_def stream_xor_append fed_def)

lemma fed_append: "fed ks (fed ks v a) b = fed ks v (a @ b)"
  by (cases v) (simp add: fed_def view_stream_def stream_xor_append)

lemma fed_Nil [simp]: "fed ks v [] = v"
  by (cases v) (simp add: fed_def view_stream_def stream_xor_def)

definition chunk_of :: "nat \<Rightarrow> nat" where
  "chunk_of n = (if n > INT_MAX div 2 then INT_MAX div 2 else n)"

lemma chunk_of: "chunk_of n \<le> n" "0 < n \<Longrightarrow> 0 < chunk_of n"
  by (simp_all add: chunk_of_def)

lemma evp_lawsD:
  assumes "evp_laws ssl view ks mac"
  shows "length (mac k n ct) = 16"
    and "EVP_CipherInit_ex ssl c None (Some k) (Some n) e = (1, c') \<Longrightarrow>
      view c' = \<lparr> encrypting = (e \<noteq> 0), aead_key = take 32 k, aead_nonce = take 12 n, seen = [], expected = [] \<rparr>"
    and "EVP_CIPHER_CTX_ctrl ssl c EVP_CTRL_AEAD_SET_TAG 16 (Some t) = (ok, bs, c') \<Longrightarrow> bs = []"
    and "EVP_CIPHER_CTX_ctrl ssl c EVP_CTRL_AEAD_SET_TAG 16 (Some t) = (1, bs, c') \<Longrightarrow>
      view c' = (view c)\<lparr> expected := take 16 t \<rparr>"
    and "EVP_CipherFinal_ex ssl c = (1, outl, c') \<Longrightarrow> outl = 0 \<and> view c' = view c"
    and "EVP_CipherFinal_ex ssl c = (1, outl, c') \<Longrightarrow> \<not> encrypting (view c) \<Longrightarrow>
      expected (view c) = view_tag mac (view c)"
    and "EVP_CIPHER_CTX_ctrl ssl c EVP_CTRL_AEAD_GET_TAG 16 (Some t) = (1, bs, c') \<Longrightarrow> bs = view_tag mac (view c)"
  using assms unfolding evp_laws_def by metis+

lemma cipher_update:
  assumes "evp_laws ssl view ks mac" and "EVP_CipherUpdate ssl c inp n = (1, outl, bs, c')"
  shows "outl = int n" and "bs = view_stream ks (view c) (take n inp)" and "view c' = fed ks (view c) (take n inp)"
  using assms unfolding evp_laws_def fed_def by auto

text \<open>
  Whatever way the input is cut, and also when it is overwritten by the output, the loop stores the
  input combined with the keystream.
\<close>

lemma cipher_loop_correct:
  assumes laws: "evp_laws ssl view ks mac"
    and "don \<le> in_len" and "in_len \<le> length (m inp)" and "in_len \<le> length (m out)"
    and "cipher_loop ssl inp in_len out don m c = (True, m', c')"
  defines "rest \<equiv> take (in_len - don) (drop don (m inp))"
  shows "m' = m(out := write_at (m out) don (view_stream ks (view c) rest)) \<and> view c' = fed ks (view c) rest"
  using assms(2-5) unfolding rest_def
proof (induction "in_len - don" arbitrary: don m c rule: less_induct)
  case less
  show ?case
  proof (cases "don < in_len")
    case False
    then show ?thesis
      using less.prems by (subst (asm) cipher_loop.simps) (simp add: view_stream_def stream_xor_def)
  next
    case True
    define n where "n = chunk_of (in_len - don)"
    define a where "a = take n (drop don (m inp))"
    have n: "0 < n" "don + n \<le> in_len"
      using True chunk_of [of "in_len - don"] by (simp_all add: n_def)
    obtain ok outl bs c1 where up: "EVP_CipherUpdate ssl c (drop don (m inp)) n = (ok, outl, bs, c1)"
      by (metis prod_cases4)
    define m1 where "m1 = m(out := write_at (m out) don bs)"
    have ok: "ok = 1" and rec: "cipher_loop ssl inp in_len out (don + n) m1 c1 = (True, m', c')"
      using less.prems(4) True up unfolding m1_def
      by (subst (asm) cipher_loop.simps, simp add: Let_def flip: chunk_of_def n_def split: if_splits)+
    note upd = cipher_update [OF laws up [unfolded ok]]
    have la: "length a = n" "length bs = n"
      using upd(2) n less.prems by (simp_all add: a_def)
    have m1: "in_len \<le> length (m1 inp)" "in_len \<le> length (m1 out)"
      "drop (don + n) (m1 inp) = drop (don + n) (m inp)"
      using less.prems n la drop_write_at [of don "m out" bs] by (auto simp: m1_def length_write_at)
    define b where "b = take (in_len - (don + n)) (drop (don + n) (m inp))"
    have split: "take (in_len - don) (drop don (m inp)) = a @ b"
      using n take_add [of n "in_len - (don + n)" "drop don (m inp)"] by (simp add: a_def b_def add.commute)
    have "m' = m1(out := write_at (m1 out) (don + n) (view_stream ks (view c1) b)) \<and> view c' = fed ks (view c1) b"
      using less.hyps [of "don + n" m1 c1] n m1 rec unfolding b_def by simp
    then show ?thesis
      unfolding split using upd la n less.prems
      by (simp add: m1_def a_def view_stream_append fed_append write_at_write_at [symmetric])
  qed
qed

lemma cipher_loop_total:
  assumes laws: "evp_laws ssl view ks mac" and total: "evp_total ssl view mac"
  shows "\<exists>m' c'. cipher_loop ssl inp in_len out don m c = (True, m', c')"
proof (induction "in_len - don" arbitrary: don m c rule: less_induct)
  case less
  show ?case
  proof (cases "don < in_len")
    case True
    define n where "n = chunk_of (in_len - don)"
    obtain outl bs c1 where up: "EVP_CipherUpdate ssl c (drop don (m inp)) n = (1, outl, bs, c1)"
      using total unfolding evp_total_def by (metis fst_conv prod_cases4)
    have "0 < n" "outl = int n"
      using True chunk_of(2) cipher_update(1) [OF laws up] by (simp_all add: n_def)
    then show ?thesis
      using less [of "don + n"] True up
      by (subst cipher_loop.simps) (simp add: Let_def flip: chunk_of_def n_def)
  qed (subst cipher_loop.simps, simp)
qed


section \<open>Sealing and opening\<close>

text \<open>The AEAD of RFC 8439 without associated data.\<close>

definition aead_seal :: "keystream \<Rightarrow> mac \<Rightarrow> bytes \<Rightarrow> bytes \<Rightarrow> bytes \<Rightarrow> bytes \<times> bytes" where
  "aead_seal ks mac k n pt = (let ct = stream_xor (ks k n) 0 pt in (ct, mac k n ct))"

definition aead_open :: "keystream \<Rightarrow> mac \<Rightarrow> bytes \<Rightarrow> bytes \<Rightarrow> bytes \<Rightarrow> bytes \<Rightarrow> bytes option" where
  "aead_open ks mac k n ct t = (if t = mac k n ct then Some (stream_xor (ks k n) 0 ct) else None)"

lemma aead_open_seal: "aead_seal ks mac k n pt = (ct, t) \<Longrightarrow> aead_open ks mac k n ct t = Some pt"
  by (auto simp: aead_seal_def aead_open_def Let_def)

text \<open>The view of a context that has been given the key, the nonce and, for opening, the tag.\<close>

definition keyed :: "bool \<Rightarrow> bytes \<Rightarrow> bytes \<Rightarrow> bytes \<Rightarrow> aead_view" where
  "keyed enc k n t = \<lparr> encrypting = enc, aead_key = take 32 k, aead_nonce = take 12 n, seen = [],
     expected = (if enc then [] else take 16 t) \<rparr>"

lemma fed_keyed:
  "seen (fed ks (keyed enc k n t) bs) = (if enc then stream_xor (ks (take 32 k) (take 12 n)) 0 bs else bs)"
  "view_stream ks (keyed enc k n t) bs = stream_xor (ks (take 32 k) (take 12 n)) 0 bs"
  "view_tag mac (fed ks (keyed enc k n t) bs)
     = mac (take 32 k) (take 12 n) (if enc then stream_xor (ks (take 32 k) (take 12 n)) 0 bs else bs)"
  "encrypting (keyed enc k n t) = enc" "expected (keyed enc k n t) = (if enc then [] else take 16 t)"
  by (simp_all add: keyed_def fed_def view_stream_def view_tag_def)

text \<open>A run that returns 0 has fed the whole input to a context with the right key, nonce and tag.\<close>

lemma cipher_run_seal:
  assumes laws: "evp_laws ssl view ks mac" and "in_len \<le> length (m inp)" and "in_len \<le> length (m out)"
    and run: "cipher_run ssl 1 key nonce inp in_len out tag m c = (0, m', c')"
    and "tag \<noteq> out"
  defines "s \<equiv> aead_seal ks mac (take 32 (m key)) (take 12 (m nonce)) (take in_len (m inp))"
  shows "m' = m(out := write_at (m out) 0 (fst s), tag := write_at (m tag) 0 (snd s))"
proof -
  obtain c1 c2 c3 m4 c4 c5 where init: "EVP_CipherInit_ex ssl c2 None (Some (m key)) (Some (m nonce)) 1 = (1, c3)"
    and loop: "cipher_loop ssl inp in_len out 0 m c3 = (True, m4, c4)"
    and final: "EVP_CipherFinal_ex ssl c4 = (1, 0, c5)"
    and tag: "\<exists>bs. EVP_CIPHER_CTX_ctrl ssl c5 EVP_CTRL_AEAD_GET_TAG 16 (Some (m4 tag)) = (1, bs, c')
      \<and> m' = m4(tag := write_at (m4 tag) 0 bs)"
    using run unfolding cipher_run_def by (auto simp: Let_def split: prod.splits if_splits)
  have c3: "view c3 = keyed True (m key) (m nonce) []"
    using evp_lawsD(2) [OF laws init] by (simp add: keyed_def)
  have c4: "m4 = m(out := write_at (m out) 0 (view_stream ks (view c3) (take in_len (m inp))))"
    "view c4 = fed ks (view c3) (take in_len (m inp))"
    using cipher_loop_correct [OF laws _ assms(2,3) loop] by simp_all
  have "view c5 = view c4"
    using evp_lawsD(5) [OF laws final] by simp
  moreover have "m' = m4(tag := write_at (m4 tag) 0 (view_tag mac (view c5)))"
    using tag evp_lawsD(7) [OF laws] by blast
  ultimately show ?thesis
    using c4 c3 \<open>tag \<noteq> out\<close> by (simp add: s_def aead_seal_def fed_keyed Let_def)
qed

lemma cipher_run_seal_total:
  assumes laws: "evp_laws ssl view ks mac" and total: "evp_total ssl view mac"
    and len: "in_len \<le> length (m inp)" "in_len \<le> length (m out)"
  shows "fst (cipher_run ssl 1 key nonce inp in_len out tag m c) = 0"
proof -
  note ok = total [unfolded evp_total_def]
  obtain c1 where 1: "EVP_CipherInit_ex ssl c (Some (EVP_chacha20_poly1305 ssl)) None None 1 = (1, c1)"
    using ok by (metis prod.collapse)
  obtain b2 c2 where 2: "EVP_CIPHER_CTX_ctrl ssl c1 EVP_CTRL_AEAD_SET_IVLEN 12 None = (1, b2, c2)"
    using ok by (metis prod.collapse)
  obtain c3 where 3: "EVP_CipherInit_ex ssl c2 None (Some (m key)) (Some (m nonce)) 1 = (1, c3)"
    using ok by (metis prod.collapse)
  obtain m4 c4 where 4: "cipher_loop ssl inp in_len out 0 m c3 = (True, m4, c4)"
    using cipher_loop_total [OF laws total] by blast
  have "encrypting (view c4)"
    using cipher_loop_correct [OF laws _ len 4] evp_lawsD(2) [OF laws 3] by simp
  then obtain outl c5 where 5: "EVP_CipherFinal_ex ssl c4 = (1, outl, c5)"
    using ok by (metis prod.collapse)
  obtain b6 c6 where 6: "EVP_CIPHER_CTX_ctrl ssl c5 EVP_CTRL_AEAD_GET_TAG 16 (Some (m4 tag)) = (1, b6, c6)"
    using ok by (metis prod.collapse)
  have "outl = 0"
    using evp_lawsD(5) [OF laws 5] by simp
  then show ?thesis
    using 1 2 3 4 5 6 by (simp add: cipher_run_def Let_def fun_upd_idem)
qed

text \<open>Up to the last call, an opening context has seen the ciphertext and knows the tag.\<close>

lemma cipher_run_open:
  assumes laws: "evp_laws ssl view ks mac" and total: "evp_total ssl view mac"
    and len: "in_len \<le> length (m inp)" "in_len \<le> length (m out)"
    and k: "k = take 32 (m key)" and n: "n = take 12 (m nonce)" and ct: "ct = take in_len (m inp)"
  shows "\<exists>c'. cipher_run ssl 0 key nonce inp in_len out tag m c
    = (if take 16 (m tag) = mac k n ct then 0 else - 1, m(out := write_at (m out) 0 (stream_xor (ks k n) 0 ct)), c')"
proof -
  note ok = total [unfolded evp_total_def]
  obtain c1 where 1: "EVP_CipherInit_ex ssl c (Some (EVP_chacha20_poly1305 ssl)) None None 0 = (1, c1)"
    using ok by (metis prod.collapse)
  obtain b2 c2 where 2: "EVP_CIPHER_CTX_ctrl ssl c1 EVP_CTRL_AEAD_SET_IVLEN 12 None = (1, b2, c2)"
    using ok by (metis prod.collapse)
  obtain c3 where 3: "EVP_CipherInit_ex ssl c2 None (Some (m key)) (Some (m nonce)) 0 = (1, c3)"
    using ok by (metis prod.collapse)
  obtain b4 c4 where "EVP_CIPHER_CTX_ctrl ssl c3 EVP_CTRL_AEAD_SET_TAG 16 (Some (m tag)) = (1, b4, c4)"
    using ok by (metis prod.collapse)
  then have 4: "EVP_CIPHER_CTX_ctrl ssl c3 EVP_CTRL_AEAD_SET_TAG 16 (Some (m tag)) = (1, [], c4)"
    and v4: "view c4 = keyed False (m key) (m nonce) (m tag)"
    using evp_lawsD(3,4) [OF laws] evp_lawsD(2) [OF laws 3] by (auto simp: keyed_def)
  obtain m5 c5 where 5: "cipher_loop ssl inp in_len out 0 m c4 = (True, m5, c5)"
    using cipher_loop_total [OF laws total] by blast
  have m5: "m5 = m(out := write_at (m out) 0 (stream_xor (ks k n) 0 ct))" and v5: "view c5 = fed ks (view c4) ct"
    using cipher_loop_correct [OF laws _ len 5] unfolding v4 by (simp_all add: fed_keyed k n ct)
  have tag: "view_tag mac (view c5) = mac k n ct" "expected (view c5) = take 16 (m tag)" "\<not> encrypting (view c5)"
    unfolding v5 v4 by (simp_all add: fed_keyed k n)
  obtain r outl c6 where 6: "EVP_CipherFinal_ex ssl c5 = (r, outl, c6)"
    by (metis prod.collapse)
  have r: "r = 1 \<longleftrightarrow> take 16 (m tag) = mac k n ct"
    using evp_lawsD(6) [OF laws, of c5] ok tag 6 by (metis fst_conv)
  have "r = 1 \<Longrightarrow> outl = 0"
    using evp_lawsD(5) [OF laws] 6 by blast
  then show ?thesis
    using 1 2 3 4 5 6 r by (simp add: cipher_run_def Let_def m5 fun_upd_idem)
qed

lemma write_at_overwrite: "length a = length b \<Longrightarrow> write_at (write_at out 0 a) 0 b = write_at out 0 b"
  by (simp add: write_at_def)

lemma seal_correct:
  assumes "evp_laws ssl view ks mac" and "evp_total ssl view mac"
    and "pt_len \<le> length (m p)" and "pt_len \<le> length (m c)" and "t \<noteq> c"
    and "aead_seal ks mac (take 32 (m k)) (take 12 (m n)) (take pt_len (m p)) = (ct, tag)"
  shows "\<exists>w'. e2ee_chacha20_seal ssl (Some k) (Some n) (Some p) pt_len (Some c) (Some t) m w
    = (0, m(c := write_at (m c) 0 ct, t := write_at (m t) 0 tag), w')"
proof -
  obtain ctx w1 where new: "EVP_CIPHER_CTX_new ssl w = (Some ctx, w1)"
    using assms(2) unfolding evp_total_def by (metis option.collapse prod.collapse)
  obtain m' ctx' where run: "cipher_run ssl 1 k n p pt_len c t m ctx = (0, m', ctx')"
    using cipher_run_seal_total [OF assms(1-4)] by (metis prod.collapse)
  from cipher_run_seal [OF assms(1,3,4) run assms(5)] assms(6) run show ?thesis
    by (simp add: e2ee_chacha20_seal_def chacha20_poly1305_def new)
qed

lemma open_correct:
  assumes "evp_laws ssl view ks mac" and "evp_total ssl view mac"
    and len: "ct_len \<le> length (m c)" "ct_len \<le> length (m p)"
  shows "\<exists>w'. e2ee_chacha20_open ssl (Some k) (Some n) (Some c) ct_len (Some t) (Some p) m w =
    (case aead_open ks mac (take 32 (m k)) (take 12 (m n)) (take ct_len (m c)) (take 16 (m t)) of
       Some pt \<Rightarrow> (0, m(p := write_at (m p) 0 pt), w')
     | None \<Rightarrow> (- 1, m(p := write_at (m p) 0 (replicate ct_len 0)), w'))"
proof -
  obtain ctx w1 where new: "EVP_CIPHER_CTX_new ssl w = (Some ctx, w1)"
    using assms(2) unfolding evp_total_def by (metis option.collapse prod.collapse)
  from cipher_run_open [OF assms refl refl refl, of k n t ctx] obtain ctx' where run:
    "cipher_run ssl 0 k n c ct_len p t m ctx =
      (if take 16 (m t) = mac (take 32 (m k)) (take 12 (m n)) (take ct_len (m c)) then 0 else - 1,
       m(p := write_at (m p) 0 (stream_xor (ks (take 32 (m k)) (take 12 (m n))) 0 (take ct_len (m c)))), ctx')" ..
  show ?thesis
    using len write_at_overwrite [of "stream_xor (ks (take 32 (m k)) (take 12 (m n))) 0 (take ct_len (m c))" "replicate ct_len 0" "m p"]
    by (auto simp: e2ee_chacha20_open_def chacha20_poly1305_def new run aead_open_def)
qed


section \<open>A cipher that satisfies the laws\<close>

definition toy_keystream :: keystream where
  "toy_keystream k n i = hd (k @ [0]) + hd (n @ [0]) + of_nat i"

definition toy_mac :: mac where
  "toy_mac k n ct = (take 16 (k @ n @ replicate 16 0))[0 := foldr (+) ct 7]"

definition toy_update :: "aead_view \<Rightarrow> bytes \<Rightarrow> nat \<Rightarrow> int \<times> int \<times> bytes \<times> aead_view" where
  "toy_update v inp n =
     (1, int n, view_stream toy_keystream v (take n inp), fed toy_keystream v (take n inp))"

definition toy_ctrl :: "aead_view \<Rightarrow> aead_ctrl \<Rightarrow> nat \<Rightarrow> bytes option \<Rightarrow> int \<times> bytes \<times> aead_view" where
  "toy_ctrl v a n p = (case a of
       EVP_CTRL_AEAD_SET_IVLEN \<Rightarrow> (1, [], v)
     | EVP_CTRL_AEAD_SET_TAG \<Rightarrow> (1, [], v\<lparr> expected := take n (the p) \<rparr>)
     | EVP_CTRL_AEAD_GET_TAG \<Rightarrow> (1, view_tag toy_mac v, v))"

definition toy_init :: "aead_view \<Rightarrow> unit option \<Rightarrow> bytes option \<Rightarrow> bytes option \<Rightarrow> int \<Rightarrow> int \<times> aead_view" where
  "toy_init v cipher k n e = (case (k, n) of
       (Some k, Some n) \<Rightarrow> (1, \<lparr> encrypting = (e \<noteq> 0), aead_key = take 32 k, aead_nonce = take 12 n,
          seen = [], expected = [] \<rparr>)
     | _ \<Rightarrow> (1, v))"

definition toy_cipher :: "(unit, aead_view, int) evp_cipher" where
  "toy_cipher = \<lparr> EVP_chacha20_poly1305 = (),
     EVP_CIPHER_CTX_new = (\<lambda>w. (Some (keyed False [] [] []), w + 1)),
     EVP_CipherInit_ex = toy_init, EVP_CIPHER_CTX_ctrl = toy_ctrl, EVP_CipherUpdate = toy_update,
     EVP_CipherFinal_ex = (\<lambda>v. (if encrypting v \<or> expected v = view_tag toy_mac v then 1 else 0, 0, v)),
     EVP_CIPHER_CTX_free = (\<lambda>v w. w - 1) \<rparr>"

lemma toy_cipher_laws:
  "evp_laws toy_cipher (\<lambda>v. v) toy_keystream toy_mac" "evp_total toy_cipher (\<lambda>v. v) toy_mac"
  by (auto simp: evp_laws_def evp_total_def toy_cipher_def toy_init_def toy_ctrl_def toy_update_def toy_mac_def fed_def
      split: if_splits option.splits aead_ctrl.splits)


section \<open>Properties\<close>

lemma chacha20_poly1305_rc: "chacha20_poly1305 ssl e k n i il out t m w = (rc, m', w') \<Longrightarrow> rc = 0 \<or> rc = - 1"
  unfolding chacha20_poly1305_def cipher_run_def by (auto simp: Let_def split: if_splits prod.splits option.splits)

text \<open>
  C7. \<open>e2ee_chacha20_open\<close> (\<open>e2ee_proxy_api.c\<close>) implements the opening of RFC 8439 without associated data,
  over an OpenSSL that behaves as documented and does not run out of memory: the result is 0 and the
  plaintext if the tag is that of the ciphertext, and otherwise -1 and a plaintext buffer of zeros; no
  other memory changes. The input can be of any length, is processed in pieces of at most
  \<open>INT_MAX / 2\<close> bytes, and may be the output buffer itself.
\<close>

theorem open_authenticates:
  assumes "evp_laws ssl view ks mac" and "evp_total ssl view mac"
    and "ct_len \<le> length (m c)" and "ct_len \<le> length (m p)"
  shows "\<exists>w'. e2ee_chacha20_open ssl (Some k) (Some n) (Some c) ct_len (Some t) (Some p) m w =
    (case aead_open ks mac (take 32 (m k)) (take 12 (m n)) (take ct_len (m c)) (take 16 (m t)) of
       Some pt \<Rightarrow> (0, m(p := write_at (m p) 0 pt), w')
     | None \<Rightarrow> (- 1, m(p := write_at (m p) 0 (replicate ct_len 0)), w'))"
  by (rule open_correct [OF assms])

theorem open_authenticates_witness:
  "\<exists>w'. e2ee_chacha20_open toy_cipher (Some 0) (Some 1) (Some 2) 3 (Some 3) (Some 2) (\<lambda>a. replicate 32 1) 0 =
    (case aead_open toy_keystream toy_mac (take 32 (replicate 32 1)) (take 12 (replicate 32 1)) (take 3 (replicate 32 1))
            (take 16 (replicate 32 1)) of
       Some pt \<Rightarrow> (0, (\<lambda>a. replicate 32 1)(2 := write_at (replicate 32 1) 0 pt), w')
     | None \<Rightarrow> (- 1, (\<lambda>a. replicate 32 1)(2 := write_at (replicate 32 1) 0 (replicate 3 0)), w'))"
  using open_authenticates [OF toy_cipher_laws, of 3 "\<lambda>a. replicate 32 1" 2 2 0 1 3 0] by simp

text \<open>
  \<open>e2ee_chacha20_seal\<close> returns 0, and what it produces \<open>e2ee_chacha20_open\<close> turns back into the
  plaintext, with the same key and nonce, into any buffer that is large enough: both calls may work in
  place.
\<close>

theorem aead_roundtrip:
  assumes "evp_laws ssl view ks mac" and "evp_total ssl view mac"
    and "len \<le> length (m p)" and "len \<le> length (m c)" and "16 \<le> length (m t)" and "len \<le> length (m q)"
    and "t \<noteq> c" and "k \<notin> {c, t}" and "n \<notin> {c, t}" and "q \<noteq> t"
  shows "\<exists>m1 w1 m2 w2. e2ee_chacha20_seal ssl (Some k) (Some n) (Some p) len (Some c) (Some t) m w = (0, m1, w1)
    \<and> e2ee_chacha20_open ssl (Some k) (Some n) (Some c) len (Some t) (Some q) m1 w1 = (0, m2, w2)
    \<and> take len (m2 q) = take len (m p)"
proof -
  obtain ct tag where s: "aead_seal ks mac (take 32 (m k)) (take 12 (m n)) (take len (m p)) = (ct, tag)"
    by (metis surj_pair)
  define m1 where "m1 = m(c := write_at (m c) 0 ct, t := write_at (m t) 0 tag)"
  obtain w1 where seal: "e2ee_chacha20_seal ssl (Some k) (Some n) (Some p) len (Some c) (Some t) m w = (0, m1, w1)"
    using seal_correct [OF assms(1-4,7) s] unfolding m1_def by blast
  have l: "length ct = len" "length tag = 16"
    using s assms(3) evp_lawsD(1) [OF assms(1)] by (auto simp: aead_seal_def Let_def)
  have m1: "take len (m1 c) = ct" "take 16 (m1 t) = tag" "m1 k = m k" "m1 n = m n" "len \<le> length (m1 c)" "len \<le> length (m1 q)"
    using l assms(4-10) take_write_at [of ct "m c"] take_write_at [of tag "m t"] unfolding m1_def
    by (auto simp: length_write_at)
  obtain w2 where "e2ee_chacha20_open ssl (Some k) (Some n) (Some c) len (Some t) (Some q) m1 w1
      = (0, m1(q := write_at (m1 q) 0 (take len (m p))), w2)"
    using open_correct [OF assms(1,2) m1(5,6), of k n t w1] aead_open_seal [OF s] m1 by auto
  moreover have "take len (write_at (m1 q) 0 (take len (m p))) = take len (m p)"
    using take_write_at [of "take len (m p)" "m1 q"] assms(3) m1(6) by (simp add: min_absorb2)
  ultimately show ?thesis
    using seal by auto
qed

theorem aead_roundtrip_witness:
  "\<exists>m1 w1 m2 w2. e2ee_chacha20_seal toy_cipher (Some 0) (Some 1) (Some 2) 3 (Some 2) (Some 3) (\<lambda>a. replicate 32 5) 0 = (0, m1, w1)
    \<and> e2ee_chacha20_open toy_cipher (Some 0) (Some 1) (Some 2) 3 (Some 3) (Some 2) m1 w1 = (0, m2, w2)
    \<and> take 3 (m2 2) = take 3 (replicate 32 5)"
  by (rule aead_roundtrip [OF toy_cipher_laws]) simp_all

text \<open>
  C25. A call of \<open>e2ee_chacha20_open\<close> that does not return 0 returns -1 and leaves nothing of a plaintext
  behind: the output buffer holds \<open>ct_len\<close> zeros, whatever failed and however OpenSSL behaved, also when the
  call was refused because of another null pointer.
\<close>

theorem open_failure_wipes:
  assumes "e2ee_chacha20_open ssl k n c ct_len t (Some p) m w = (rc, m', w')" and "rc \<noteq> 0"
  shows "rc = - 1 \<and> take ct_len (m' p) = replicate ct_len 0"
proof -
  obtain m1 where run: "chacha20_poly1305 ssl 0 k n c ct_len (Some p) t m w = (rc, m1, w')"
    and m': "m' = (if 0 < ct_len then m1(p := write_at (m1 p) 0 (replicate ct_len 0)) else m1)"
    using assms by (auto simp: e2ee_chacha20_open_def split: prod.splits if_splits)
  show ?thesis
    using chacha20_poly1305_rc [OF run] assms(2) by (simp add: m' write_at_def)
qed

theorem open_failure_wipes_witness:
  "(- 1 :: int) = - 1 \<and> take 2 (((\<lambda>a :: nat. [4, 5, 6 :: u8])(7 := write_at [4, 5, 6] 0 (replicate 2 0))) 7) = replicate 2 0"
  by (rule open_failure_wipes [of toy_cipher None "Some 1" "Some 2" 2 "Some 3" 7 "\<lambda>a. [4, 5, 6]" 0 "- 1"
        "(\<lambda>a. [4, 5, 6])(7 := write_at [4, 5, 6] 0 (replicate 2 0))" 0])
    (simp_all add: e2ee_chacha20_open_def chacha20_poly1305_def)

text \<open>
  Every cipher context is freed exactly once on every path: if \<open>EVP_CIPHER_CTX_new\<close> adds one live
  context when it succeeds and \<open>EVP_CIPHER_CTX_free\<close> removes one, the number of live contexts is the same
  before and after \<open>chacha20_poly1305\<close>.
\<close>

theorem cipher_context_balance:
  assumes "\<And>w. live (snd (EVP_CIPHER_CTX_new ssl w)) = live w + (if fst (EVP_CIPHER_CTX_new ssl w) = None then 0 else 1)"
    and "\<And>c w. live (EVP_CIPHER_CTX_free ssl c w) = live w - (1 :: int)"
    and "chacha20_poly1305 ssl e k n i il out t m w = (rc, m', w')"
  shows "live w' = live w"
  using assms(3) assms(1) [of w] assms(2) unfolding chacha20_poly1305_def
  by (auto split: prod.splits option.splits if_splits)

theorem cipher_context_balance_witness:
  "(\<lambda>w. w) (snd (snd (chacha20_poly1305 toy_cipher 0 (Some 0) (Some 1) (Some 2) 3 (Some 2) (Some 3) (\<lambda>a. replicate 32 5) 4)))
     = (4 :: int)"
  by (rule cipher_context_balance [where ssl = toy_cipher, OF _ _ surjective_pairing [THEN trans, OF arg_cong2 [where f = Pair, OF refl surjective_pairing]]])
    (simp_all add: toy_cipher_def)

end
