(* ===== verification/Hkdf.thy ===== *)
theory Hkdf
  imports Buffer
begin

text \<open>
  Key derivation: \<open>e2ee_hkdf_sha256\<close> of \<open>native/e2ee_proxy_api.c\<close>. OpenSSL is a parameter, a record of the
  calls the code makes on an abstract derivation context; a call succeeds if its result is positive. The
  routine is proved to compute HKDF as RFC 5869 defines it, over the HMAC the library provides.
\<close>

section \<open>Definitions\<close>

record ('d, 'c, 'w) evp_kdf =
  EVP_sha256 :: 'd
  EVP_PKEY_CTX_new_hkdf :: "'w \<Rightarrow> 'c option \<times> 'w"
  EVP_PKEY_derive_init :: "'c \<Rightarrow> int \<times> 'c"
  EVP_PKEY_CTX_set_hkdf_md :: "'c \<Rightarrow> 'd \<Rightarrow> int \<times> 'c"
  EVP_PKEY_CTX_set1_hkdf_salt :: "'c \<Rightarrow> bytes option \<Rightarrow> int \<Rightarrow> int \<times> 'c"
  EVP_PKEY_CTX_set1_hkdf_key :: "'c \<Rightarrow> bytes option \<Rightarrow> int \<Rightarrow> int \<times> 'c"
  EVP_PKEY_CTX_add1_hkdf_info :: "'c \<Rightarrow> bytes option \<Rightarrow> int \<Rightarrow> int \<times> 'c"
  EVP_PKEY_derive :: "'c \<Rightarrow> nat \<Rightarrow> int \<times> bytes \<times> nat \<times> 'c"
  EVP_PKEY_CTX_free :: "'c \<Rightarrow> 'w \<Rightarrow> 'w"

text \<open>The steps between the allocation of the context and the label \<open>out\<close>.\<close>

definition hkdf_run ::
    "('d, 'c, 'w) evp_kdf \<Rightarrow> bytes option \<Rightarrow> nat \<Rightarrow> bytes option \<Rightarrow> nat \<Rightarrow> bytes option \<Rightarrow> nat \<Rightarrow> bytes \<Rightarrow> nat \<Rightarrow> 'c
       \<Rightarrow> int \<times> bytes \<times> 'c" where
  "hkdf_run ssl ikm ikm_len salt salt_len info info_len okm okm_len pctx =
     (let (r, pctx) = EVP_PKEY_derive_init ssl pctx
      in if r \<le> 0 then (- 1, okm, pctx) else
      let (r, pctx) = EVP_PKEY_CTX_set_hkdf_md ssl pctx (EVP_sha256 ssl)
      in if r \<le> 0 then (- 1, okm, pctx) else
      let (r, pctx) = (if salt_len > 0 then EVP_PKEY_CTX_set1_hkdf_salt ssl pctx salt (int salt_len) else (1, pctx))
      in if r \<le> 0 then (- 1, okm, pctx) else
      let (r, pctx) = EVP_PKEY_CTX_set1_hkdf_key ssl pctx ikm (int ikm_len)
      in if r \<le> 0 then (- 1, okm, pctx) else
      let (r, pctx) = (if info_len > 0 then EVP_PKEY_CTX_add1_hkdf_info ssl pctx info (int info_len) else (1, pctx))
      in if r \<le> 0 then (- 1, okm, pctx) else
      let outlen = okm_len;
          (r, bs, outlen, pctx) = EVP_PKEY_derive ssl pctx outlen;
          okm = write_at okm 0 bs
      in if r \<le> 0 then (- 1, okm, pctx) else
      if outlen \<noteq> okm_len then (- 1, okm, pctx) else (0, okm, pctx))"

definition e2ee_hkdf_sha256 ::
    "('d, 'c, 'w) evp_kdf \<Rightarrow> bytes option \<Rightarrow> nat \<Rightarrow> bytes option \<Rightarrow> nat \<Rightarrow> bytes option \<Rightarrow> nat \<Rightarrow> bytes option \<Rightarrow> nat \<Rightarrow> 'w
       \<Rightarrow> int \<times> bytes option \<times> 'w" where
  "e2ee_hkdf_sha256 ssl ikm ikm_len salt salt_len info info_len okm okm_len w =
     (if ikm = None \<or> ikm_len = 0 \<or> okm = None \<or> okm_len = 0 then (- 1, okm, w)
      else if ikm_len > INT_MAX \<or> salt_len > INT_MAX \<or> info_len > INT_MAX then (- 1, okm, w)
      else if okm_len > 255 * 32 then (- 1, okm, w)
      else case EVP_PKEY_CTX_new_hkdf ssl w of
             (None, w) \<Rightarrow> (- 1, okm, w)
           | (Some pctx, w) \<Rightarrow>
               let (rc, okm, pctx) = hkdf_run ssl ikm ikm_len salt salt_len info info_len (the okm) okm_len pctx
               in (rc, Some okm, EVP_PKEY_CTX_free ssl pctx w))"


section \<open>RFC 5869 over the HMAC of the library\<close>

type_synonym hmac = "bytes \<Rightarrow> bytes \<Rightarrow> bytes"

definition hkdf_extract :: "hmac \<Rightarrow> bytes \<Rightarrow> bytes \<Rightarrow> bytes" where
  "hkdf_extract hmac salt ikm = hmac (if salt = [] then replicate 32 0 else salt) ikm"

fun hkdf_T :: "hmac \<Rightarrow> bytes \<Rightarrow> bytes \<Rightarrow> nat \<Rightarrow> bytes" where
  "hkdf_T hmac prk info 0 = []"
| "hkdf_T hmac prk info (Suc i) = hmac prk (hkdf_T hmac prk info i @ info @ [of_nat (Suc i)])"

definition hkdf_expand :: "hmac \<Rightarrow> bytes \<Rightarrow> bytes \<Rightarrow> nat \<Rightarrow> bytes" where
  "hkdf_expand hmac prk info len = take len (concat (map (hkdf_T hmac prk info) [1..<(len + 31) div 32 + 1]))"

definition hkdf :: "hmac \<Rightarrow> bytes \<Rightarrow> bytes \<Rightarrow> bytes \<Rightarrow> nat \<Rightarrow> bytes" where
  "hkdf hmac salt ikm info len = hkdf_expand hmac (hkdf_extract hmac salt ikm) info len"

text \<open>
  The documented behaviour of the calls: each sets its parameter in the context, \<open>info\<close> is appended, an
  unset salt is empty, and the derivation returns HKDF with the digest of the context.
\<close>

record 'd kdf_view =
  kdf_md :: "'d option"
  kdf_salt :: bytes
  kdf_key :: bytes
  kdf_info :: bytes

definition kdf_laws :: "('d, 'c, 'w) evp_kdf \<Rightarrow> ('c \<Rightarrow> 'd kdf_view) \<Rightarrow> ('d \<Rightarrow> hmac) \<Rightarrow> bool" where
  "kdf_laws ssl view hmac \<longleftrightarrow>
     (\<forall>k m. length (hmac (EVP_sha256 ssl) k m) = 32) \<and>
     (\<forall>c r c'. EVP_PKEY_derive_init ssl c = (r, c') \<longrightarrow> 0 < r \<longrightarrow>
        view c' = \<lparr> kdf_md = None, kdf_salt = [], kdf_key = [], kdf_info = [] \<rparr>) \<and>
     (\<forall>c d r c'. EVP_PKEY_CTX_set_hkdf_md ssl c d = (r, c') \<longrightarrow> 0 < r \<longrightarrow> view c' = (view c)\<lparr> kdf_md := Some d \<rparr>) \<and>
     (\<forall>c s n r c'. EVP_PKEY_CTX_set1_hkdf_salt ssl c (Some s) (int n) = (r, c') \<longrightarrow> 0 < r \<longrightarrow>
        view c' = (view c)\<lparr> kdf_salt := take n s \<rparr>) \<and>
     (\<forall>c k n r c'. EVP_PKEY_CTX_set1_hkdf_key ssl c (Some k) (int n) = (r, c') \<longrightarrow> 0 < r \<longrightarrow>
        view c' = (view c)\<lparr> kdf_key := take n k \<rparr>) \<and>
     (\<forall>c i n r c'. EVP_PKEY_CTX_add1_hkdf_info ssl c (Some i) (int n) = (r, c') \<longrightarrow> 0 < r \<longrightarrow>
        view c' = (view c)\<lparr> kdf_info := kdf_info (view c) @ take n i \<rparr>) \<and>
     (\<forall>c n r bs outlen c' d. EVP_PKEY_derive ssl c n = (r, bs, outlen, c') \<longrightarrow> 0 < r \<longrightarrow> kdf_md (view c) = Some d \<longrightarrow>
        outlen = n \<and> bs = hkdf (hmac d) (kdf_salt (view c)) (kdf_key (view c)) (kdf_info (view c)) n)"

text \<open>That no call fails on parameters within the limits.\<close>

definition kdf_total :: "('d, 'c, 'w) evp_kdf \<Rightarrow> bool" where
  "kdf_total ssl \<longleftrightarrow>
     (\<forall>w. fst (EVP_PKEY_CTX_new_hkdf ssl w) \<noteq> None) \<and>
     (\<forall>c. 0 < fst (EVP_PKEY_derive_init ssl c)) \<and>
     (\<forall>c d. 0 < fst (EVP_PKEY_CTX_set_hkdf_md ssl c d)) \<and>
     (\<forall>c p n. 0 < fst (EVP_PKEY_CTX_set1_hkdf_salt ssl c (Some p) n)) \<and>
     (\<forall>c p n. 0 < fst (EVP_PKEY_CTX_set1_hkdf_key ssl c (Some p) n)) \<and>
     (\<forall>c p n. 0 < fst (EVP_PKEY_CTX_add1_hkdf_info ssl c (Some p) n)) \<and>
     (\<forall>c n. 0 < fst (EVP_PKEY_derive ssl c n))"

lemma kdf_lawsD:
  assumes "kdf_laws ssl view hmac" and "0 < r"
  shows "EVP_PKEY_derive_init ssl c = (r, c') \<Longrightarrow>
      view c' = \<lparr> kdf_md = None, kdf_salt = [], kdf_key = [], kdf_info = [] \<rparr>"
    and "EVP_PKEY_CTX_set_hkdf_md ssl c d = (r, c') \<Longrightarrow> view c' = (view c)\<lparr> kdf_md := Some d \<rparr>"
    and "EVP_PKEY_CTX_set1_hkdf_salt ssl c (Some s) (int n) = (r, c') \<Longrightarrow> view c' = (view c)\<lparr> kdf_salt := take n s \<rparr>"
    and "EVP_PKEY_CTX_set1_hkdf_key ssl c (Some k) (int n) = (r, c') \<Longrightarrow> view c' = (view c)\<lparr> kdf_key := take n k \<rparr>"
    and "EVP_PKEY_CTX_add1_hkdf_info ssl c (Some i) (int n) = (r, c') \<Longrightarrow>
      view c' = (view c)\<lparr> kdf_info := kdf_info (view c) @ take n i \<rparr>"
    and "EVP_PKEY_derive ssl c n = (r, bs, outlen, c') \<Longrightarrow> kdf_md (view c) = Some d \<Longrightarrow>
      outlen = n \<and> bs = hkdf (hmac d) (kdf_salt (view c)) (kdf_key (view c)) (kdf_info (view c)) n"
  using assms unfolding kdf_laws_def by metis+

lemma length_hkdf:
  assumes "\<And>k m. length (hmac k m) = 32"
  shows "length (hkdf hmac salt ikm info len) = len"
proof -
  have "length (hkdf_T hmac prk info i) = 32" if "0 < i" for prk i
    using that assms by (cases i) simp_all
  then have "length (concat (map (hkdf_T hmac prk info) [1..<n + 1])) = 32 * n" for prk n
    by (induction n) (auto simp: assms)
  then show ?thesis
    unfolding hkdf_def hkdf_expand_def by simp
qed

text \<open>The parameters a call derives from; a salt or an information of length 0 is never read.\<close>

lemma hkdf_run_correct:
  assumes laws: "kdf_laws ssl view hmac" and total: "kdf_total ssl"
    and salt: "salt_len = 0 \<or> salt = Some s" and info: "info_len = 0 \<or> info = Some i"
  shows "\<exists>c'. hkdf_run ssl (Some ikm) ikm_len salt salt_len info info_len okm okm_len c =
    (0, write_at okm 0 (hkdf (hmac (EVP_sha256 ssl)) (take salt_len s) (take ikm_len ikm) (take info_len i) okm_len), c')"
proof -
  note ok = total [unfolded kdf_total_def]
  let ?d = "EVP_sha256 ssl"
  obtain r1 c1 where 1: "EVP_PKEY_derive_init ssl c = (r1, c1)" "0 < r1"
    using ok by (metis prod.collapse)
  obtain r2 c2 where 2: "EVP_PKEY_CTX_set_hkdf_md ssl c1 ?d = (r2, c2)" "0 < r2"
    using ok by (metis prod.collapse)
  obtain r3 c3 where 3: "(if salt_len > 0 then EVP_PKEY_CTX_set1_hkdf_salt ssl c2 salt (int salt_len) else (1, c2)) = (r3, c3)"
      "0 < r3" "view c3 = (view c2)\<lparr> kdf_salt := take salt_len s \<rparr>"
  proof (cases "salt_len = 0")
    case True
    then show ?thesis
      using that [of 1 c2] kdf_lawsD(1) [OF laws 1(2,1)] kdf_lawsD(2) [OF laws 2(2,1)] by simp
  next
    case False
    then obtain r3 c3 where "EVP_PKEY_CTX_set1_hkdf_salt ssl c2 salt (int salt_len) = (r3, c3)" "0 < r3"
      using ok salt by (metis prod.collapse)
    then show ?thesis
      using that False salt kdf_lawsD(3) [OF laws] by auto
  qed
  obtain r4 c4 where 4: "EVP_PKEY_CTX_set1_hkdf_key ssl c3 (Some ikm) (int ikm_len) = (r4, c4)" "0 < r4"
    using ok by (metis prod.collapse)
  note v4 = kdf_lawsD(4) [OF laws 4(2,1), unfolded 3(3) kdf_lawsD(2) [OF laws 2(2,1)] kdf_lawsD(1) [OF laws 1(2,1)]]
  obtain r5 c5 where 5: "(if info_len > 0 then EVP_PKEY_CTX_add1_hkdf_info ssl c4 info (int info_len) else (1, c4)) = (r5, c5)"
      "0 < r5" "view c5 = (view c4)\<lparr> kdf_info := take info_len i \<rparr>"
  proof (cases "info_len = 0")
    case True
    then show ?thesis
      using that [of 1 c4] v4 by simp
  next
    case False
    then obtain r5 c5 where "EVP_PKEY_CTX_add1_hkdf_info ssl c4 info (int info_len) = (r5, c5)" "0 < r5"
      using ok info by (metis prod.collapse)
    then show ?thesis
      using that False info kdf_lawsD(5) [OF laws] v4 by auto
  qed
  obtain r6 bs outlen c6 where 6: "EVP_PKEY_derive ssl c5 okm_len = (r6, bs, outlen, c6)" "0 < r6"
    using ok by (metis prod.collapse)
  have "outlen = okm_len \<and> bs = hkdf (hmac ?d) (take salt_len s) (take ikm_len ikm) (take info_len i) okm_len"
    using kdf_lawsD(6) [OF laws 6(2,1), of ?d] 5(3) v4 by simp
  then show ?thesis
    using 1 2 3(1,2) 4 5(1,2) 6 by (simp add: hkdf_run_def Let_def)
qed

lemma hkdf_correct:
  assumes "kdf_laws ssl view hmac" and "kdf_total ssl"
    and "salt_len = 0 \<or> salt = Some s" and "info_len = 0 \<or> info = Some i"
    and "0 < ikm_len" and "ikm_len \<le> INT_MAX" and "salt_len \<le> INT_MAX" and "info_len \<le> INT_MAX"
    and "0 < okm_len" and "okm_len \<le> 8160" and "okm_len \<le> length out"
  shows "\<exists>okm w'. e2ee_hkdf_sha256 ssl (Some ikm) ikm_len salt salt_len info info_len (Some out) okm_len w = (0, Some okm, w')
    \<and> length okm = length out \<and> drop okm_len okm = drop okm_len out
    \<and> take okm_len okm = hkdf (hmac (EVP_sha256 ssl)) (take salt_len s) (take ikm_len ikm) (take info_len i) okm_len"
proof -
  obtain c w1 where new: "EVP_PKEY_CTX_new_hkdf ssl w = (Some c, w1)"
    using assms(2) unfolding kdf_total_def by (metis option.collapse prod.collapse)
  let ?bs = "hkdf (hmac (EVP_sha256 ssl)) (take salt_len s) (take ikm_len ikm) (take info_len i) okm_len"
  obtain c' where run: "hkdf_run ssl (Some ikm) ikm_len salt salt_len info info_len out okm_len c = (0, write_at out 0 ?bs, c')"
    using hkdf_run_correct [OF assms(1-4)] by blast
  have "length ?bs = okm_len"
    using assms(1) by (intro length_hkdf) (simp add: kdf_laws_def)
  then have "length (write_at out 0 ?bs) = length out \<and> drop okm_len (write_at out 0 ?bs) = drop okm_len out
      \<and> take okm_len (write_at out 0 ?bs) = ?bs"
    using assms(11) by (simp add: write_at_def)
  moreover have "e2ee_hkdf_sha256 ssl (Some ikm) ikm_len salt salt_len info info_len (Some out) okm_len w
      = (0, Some (write_at out 0 ?bs), EVP_PKEY_CTX_free ssl c' w1)"
    using assms(5-10) new run by (simp add: e2ee_hkdf_sha256_def)
  ultimately show ?thesis
    by blast
qed


section \<open>A library that satisfies the laws\<close>

definition toy_hmac :: "unit \<Rightarrow> hmac" where
  "toy_hmac d k m = take 32 (map2 (+) (k @ replicate 32 1) (m @ replicate 32 2) @ replicate 32 0)"

definition toy_kdf :: "(unit, unit kdf_view, int) evp_kdf" where
  "toy_kdf = \<lparr> EVP_sha256 = (),
     EVP_PKEY_CTX_new_hkdf = (\<lambda>w. (Some \<lparr> kdf_md = None, kdf_salt = [1], kdf_key = [2], kdf_info = [3] \<rparr>, w + 1)),
     EVP_PKEY_derive_init = (\<lambda>v. (1, \<lparr> kdf_md = None, kdf_salt = [], kdf_key = [], kdf_info = [] \<rparr>)),
     EVP_PKEY_CTX_set_hkdf_md = (\<lambda>v d. (1, v\<lparr> kdf_md := Some d \<rparr>)),
     EVP_PKEY_CTX_set1_hkdf_salt = (\<lambda>v s n. (1, v\<lparr> kdf_salt := take (nat n) (the s) \<rparr>)),
     EVP_PKEY_CTX_set1_hkdf_key = (\<lambda>v k n. (1, v\<lparr> kdf_key := take (nat n) (the k) \<rparr>)),
     EVP_PKEY_CTX_add1_hkdf_info = (\<lambda>v i n. (1, v\<lparr> kdf_info := kdf_info v @ take (nat n) (the i) \<rparr>)),
     EVP_PKEY_derive = (\<lambda>v n. (1, hkdf (toy_hmac ()) (kdf_salt v) (kdf_key v) (kdf_info v) n, n, v)),
     EVP_PKEY_CTX_free = (\<lambda>v w. w - 1) \<rparr>"

lemma toy_kdf_laws: "kdf_laws toy_kdf (\<lambda>v. v) toy_hmac" "kdf_total toy_kdf"
  by (simp_all add: kdf_laws_def kdf_total_def toy_kdf_def toy_hmac_def)


section \<open>Properties\<close>

text \<open>
  C24. \<open>e2ee_hkdf_sha256\<close> (\<open>e2ee_proxy_api.c\<close>) computes HKDF-SHA256 of RFC 5869 for every input within the
  limits, over an OpenSSL that behaves as documented and does not fail: the result is 0 and the output
  buffer starts with the \<open>okm_len\<close> derived bytes and is unchanged after them. A salt of length 0 is the
  salt of 32 zero bytes, and a salt or information of length 0 may be a null pointer.
\<close>

theorem hkdf_rfc5869:
  assumes "kdf_laws ssl view hmac" and "kdf_total ssl"
    and "salt_len = 0 \<or> salt = Some s" and "info_len = 0 \<or> info = Some i"
    and "0 < ikm_len" and "ikm_len \<le> INT_MAX" and "salt_len \<le> INT_MAX" and "info_len \<le> INT_MAX"
    and "0 < okm_len" and "okm_len \<le> 8160" and "okm_len \<le> length out"
  shows "\<exists>okm w'. e2ee_hkdf_sha256 ssl (Some ikm) ikm_len salt salt_len info info_len (Some out) okm_len w = (0, Some okm, w')
    \<and> length okm = length out \<and> drop okm_len okm = drop okm_len out
    \<and> take okm_len okm = hkdf (hmac (EVP_sha256 ssl)) (take salt_len s) (take ikm_len ikm) (take info_len i) okm_len"
  by (rule hkdf_correct [OF assms])

theorem hkdf_rfc5869_witness:
  "\<exists>okm w'. e2ee_hkdf_sha256 toy_kdf (Some [5, 6]) 2 None 0 (Some [7, 8]) 1 (Some (replicate 40 0)) 33 0 = (0, Some okm, w')
    \<and> length okm = length (replicate 40 (0 :: u8)) \<and> drop 33 okm = drop 33 (replicate 40 0)
    \<and> take 33 okm = hkdf (toy_hmac (EVP_sha256 toy_kdf)) (take 0 []) (take 2 [5, 6]) (take 1 [7, 8]) 33"
  by (rule hkdf_rfc5869 [OF toy_kdf_laws]) (simp_all add: INT_MAX_def)

text \<open>
  \<open>e2ee_hkdf_sha256\<close> refuses every call outside the limits with -1, before it touches OpenSSL or the
  output: a null or empty key material or output, a length that does not fit an \<open>int\<close>, or more than the
  \<open>255 * 32\<close> bytes RFC 5869 allows.
\<close>

theorem hkdf_limits:
  assumes "ikm = None \<or> ikm_len = 0 \<or> okm = None \<or> okm_len = 0 \<or> ikm_len \<ge> 2 ^ 31 \<or> salt_len \<ge> 2 ^ 31
    \<or> info_len \<ge> 2 ^ 31 \<or> okm_len > 8160"
  shows "e2ee_hkdf_sha256 ssl ikm ikm_len salt salt_len info info_len okm okm_len w = (- 1, okm, w)"
  using assms by (auto simp: e2ee_hkdf_sha256_def INT_MAX_def)

theorem hkdf_limits_witness:
  "e2ee_hkdf_sha256 toy_kdf (Some [1]) 1 (Some [2]) 1 None 0 (Some [9]) 8161 3 = (- 1, Some [9], 3)"
  by (rule hkdf_limits) simp

text \<open>
  On every path of \<open>e2ee_hkdf_sha256\<close>, whichever call of OpenSSL fails, the result is 0 or -1 and a
  derivation context that was allocated is freed exactly once: the number of live contexts is the same
  before and after.
\<close>

theorem hkdf_context_balance:
  assumes "\<And>w. live (snd (EVP_PKEY_CTX_new_hkdf ssl w)) = live w + (if fst (EVP_PKEY_CTX_new_hkdf ssl w) = None then 0 else 1)"
    and "\<And>c w. live (EVP_PKEY_CTX_free ssl c w) = live w - (1 :: int)"
    and "e2ee_hkdf_sha256 ssl ikm ikm_len salt salt_len info info_len okm okm_len w = (rc, okm', w')"
  shows "live w' = live w \<and> (rc = 0 \<or> rc = - 1)"
  using assms(3) assms(1) [of w] assms(2) unfolding e2ee_hkdf_sha256_def hkdf_run_def
  by (auto simp: Let_def split: prod.splits option.splits if_splits)

theorem hkdf_context_balance_witness:
  "(\<lambda>w. w) (3 :: int) = (\<lambda>w. w) 3 \<and> ((- 1 :: int) = 0 \<or> (- 1 :: int) = - 1)"
  by (rule hkdf_context_balance [where ssl = "toy_kdf\<lparr> EVP_PKEY_derive_init := \<lambda>v. (0, v) \<rparr>" and ikm = "Some [1]" and ikm_len = 1
        and salt = None and salt_len = 0 and info = None and info_len = 0 and okm = "Some [9]" and okm_len = 1
        and okm' = "Some [9]"])
    (simp_all add: toy_kdf_def e2ee_hkdf_sha256_def hkdf_run_def INT_MAX_def)

end
