(* ===== verification/Gzip.thy ===== *)
theory Gzip
  imports Buffer
begin

text \<open>
  Compression: \<open>e2ee_gzip_compress\<close> and \<open>e2ee_gzip_decompress\<close> of \<open>native/e2ee_proxy_api.c\<close>. zlib is a
  parameter, a record of its calls and constants; the stream is the \<open>z_stream\<close> of \<open>zlib.h\<close> with the fields
  the code uses and an internal state. A call returns the C result, the bytes it stores at \<open>next_out\<close> and
  the next stream; initialisation and end act on an abstract heap.
\<close>

section \<open>Definitions\<close>

record 's z_stream =
  next_in :: "bytes option"
  avail_in :: u32
  next_out :: "bytes option"
  avail_out :: u32
  total_out :: u64
  zstate :: "'s option"

record ('s, 'w) zlib =
  Z_OK :: int
  Z_STREAM_END :: int
  Z_FINISH :: int
  Z_DEFAULT_COMPRESSION :: int
  Z_DEFLATED :: int
  Z_DEFAULT_STRATEGY :: int
  deflateInit2 :: "'s z_stream \<Rightarrow> int \<Rightarrow> int \<Rightarrow> int \<Rightarrow> int \<Rightarrow> int \<Rightarrow> 'w \<Rightarrow> int \<times> 's z_stream \<times> 'w"
  deflate :: "'s z_stream \<Rightarrow> int \<Rightarrow> int \<times> bytes \<times> 's z_stream"
  deflateEnd :: "'s z_stream \<Rightarrow> 'w \<Rightarrow> 'w"
  inflateInit2 :: "'s z_stream \<Rightarrow> int \<Rightarrow> 'w \<Rightarrow> int \<times> 's z_stream \<times> 'w"
  inflate :: "'s z_stream \<Rightarrow> int \<Rightarrow> int \<times> bytes \<times> 's z_stream"
  inflateEnd :: "'s z_stream \<Rightarrow> 'w \<Rightarrow> 'w"

text \<open>The stream after \<open>memset\<close>.\<close>

definition zeroed :: "'s z_stream" where
  "zeroed = \<lparr> next_in = None, avail_in = 0, next_out = None, avail_out = 0, total_out = 0, zstate = None \<rparr>"

definition e2ee_gzip_compress ::
    "('s, 'w) zlib \<Rightarrow> bytes option \<Rightarrow> nat \<Rightarrow> bytes option \<Rightarrow> nat \<Rightarrow> 'w \<Rightarrow> nat \<times> bytes option \<times> 'w" where
  "e2ee_gzip_compress z inp in_len out out_max w =
     (if (in_len > 0 \<and> inp = None) \<or> out = None \<or> out_max = 0 then (0, out, w)
      else if in_len > UINT_MAX \<or> out_max > UINT_MAX then (0, out, w)
      else
      let strm = zeroed;
          (r, strm, w) = deflateInit2 z strm (Z_DEFAULT_COMPRESSION z) (Z_DEFLATED z) (15 + 16) 8 (Z_DEFAULT_STRATEGY z) w
      in if r \<noteq> Z_OK z then (0, out, w) else
      let strm = strm\<lparr> next_in := inp, avail_in := of_nat in_len, next_out := out, avail_out := of_nat out_max \<rparr>;
          (ret, bs, strm) = deflate z strm (Z_FINISH z);
          out = Some (write_at (the out) 0 bs);
          produced = unat (total_out strm);
          w = deflateEnd z strm w
      in if ret \<noteq> Z_STREAM_END z then (0, out, w) else (produced, out, w))"

definition e2ee_gzip_decompress ::
    "('s, 'w) zlib \<Rightarrow> bytes option \<Rightarrow> nat \<Rightarrow> bytes option \<Rightarrow> nat \<Rightarrow> 'w \<Rightarrow> nat \<times> bytes option \<times> 'w" where
  "e2ee_gzip_decompress z inp in_len out out_max w =
     (if inp = None \<or> in_len = 0 \<or> out = None \<or> out_max = 0 then (0, out, w)
      else if in_len > UINT_MAX \<or> out_max > UINT_MAX then (0, out, w)
      else
      let strm = zeroed;
          (r, strm, w) = inflateInit2 z strm (15 + 32) w
      in if r \<noteq> Z_OK z then (0, out, w) else
      let strm = strm\<lparr> next_in := inp, avail_in := of_nat in_len, next_out := out, avail_out := of_nat out_max \<rparr>;
          (ret, bs, strm) = inflate z strm (Z_FINISH z);
          out = Some (write_at (the out) 0 bs);
          produced = unat (total_out strm);
          w = inflateEnd z strm w
      in if ret \<noteq> Z_STREAM_END z then (0, out, w) else (produced, out, w))"


section \<open>The compression zlib documents\<close>

text \<open>The input of a stream that has just been set up.\<close>

definition stream_data :: "'s z_stream \<Rightarrow> bytes" where
  "stream_data s = (case next_in s of None \<Rightarrow> [] | Some b \<Rightarrow> take (unat (avail_in s)) b)"

text \<open>
  For a freshly initialised stream and \<open>Z_FINISH\<close>: a call never stores more than \<open>avail_out\<close> bytes, at the
  end of the stream it has stored \<open>total_out\<close> bytes, \<open>deflate\<close> reaches the end exactly if the compressed data
  fit, and \<open>inflate\<close> recovers the data from a stream of \<open>deflate\<close> exactly if they fit. A stream of gzip is at
  least 18 bytes long (RFC 1952).
\<close>

definition stores_well :: "('s, 'w) zlib \<Rightarrow> ('s z_stream \<Rightarrow> int \<Rightarrow> int \<times> bytes \<times> 's z_stream) \<Rightarrow> 's z_stream \<Rightarrow> bool" where
  "stores_well z f s \<longleftrightarrow>
     (\<forall>ret bs s'. f s (Z_FINISH z) = (ret, bs, s') \<longrightarrow>
        length bs \<le> unat (avail_out s) \<and> (ret = Z_STREAM_END z \<longrightarrow> unat (total_out s') = length bs))"

definition runs_to :: "('s, 'w) zlib \<Rightarrow> ('s z_stream \<Rightarrow> int \<Rightarrow> int \<times> bytes \<times> 's z_stream) \<Rightarrow> 's z_stream \<Rightarrow> bytes \<Rightarrow> bool" where
  "runs_to z f s result \<longleftrightarrow>
     (\<forall>ret bs s'. f s (Z_FINISH z) = (ret, bs, s') \<longrightarrow>
        (ret = Z_STREAM_END z \<longleftrightarrow> length result \<le> unat (avail_out s)) \<and> (ret = Z_STREAM_END z \<longrightarrow> bs = result))"

definition zlib_laws :: "('s, 'w) zlib \<Rightarrow> (bytes \<Rightarrow> bytes) \<Rightarrow> bool" where
  "zlib_laws z gz \<longleftrightarrow>
     (\<forall>x. 18 \<le> length (gz x)) \<and>
     (\<forall>w s0 w' inp n out k.
        deflateInit2 z zeroed (Z_DEFAULT_COMPRESSION z) (Z_DEFLATED z) 31 8 (Z_DEFAULT_STRATEGY z) w = (Z_OK z, s0, w') \<longrightarrow>
        (let s = s0\<lparr> next_in := inp, avail_in := n, next_out := out, avail_out := k \<rparr>
         in stores_well z (deflate z) s \<and> runs_to z (deflate z) s (gz (stream_data s)))) \<and>
     (\<forall>w s0 w' inp n out k.
        inflateInit2 z zeroed 47 w = (Z_OK z, s0, w') \<longrightarrow>
        (let s = s0\<lparr> next_in := inp, avail_in := n, next_out := out, avail_out := k \<rparr>
         in stores_well z (inflate z) s \<and> (\<forall>x. stream_data s = gz x \<longrightarrow> runs_to z (inflate z) s x)))"

definition zlib_total :: "('s, 'w) zlib \<Rightarrow> bool" where
  "zlib_total z \<longleftrightarrow>
     (\<forall>w. fst (deflateInit2 z zeroed (Z_DEFAULT_COMPRESSION z) (Z_DEFLATED z) 31 8 (Z_DEFAULT_STRATEGY z) w) = Z_OK z) \<and>
     (\<forall>w. fst (inflateInit2 z zeroed 47 w) = Z_OK z)"

text \<open>The two routines are one, up to the calls they make; this is what follows their initialisation.\<close>

definition gz_run ::
    "('s, 'w) zlib \<Rightarrow> ('s z_stream \<Rightarrow> int \<Rightarrow> int \<times> bytes \<times> 's z_stream) \<Rightarrow> 's z_stream \<Rightarrow> bytes \<Rightarrow> nat \<times> bytes" where
  "gz_run z f s out = (let (ret, bs, s') = f s (Z_FINISH z)
     in (if ret \<noteq> Z_STREAM_END z then 0 else unat (total_out s'), write_at out 0 bs))"

lemma gz_run_bounds:
  assumes "stores_well z f s" and "unat (avail_out s) \<le> length out" and "gz_run z f s out = (k, out')"
  shows "k \<le> unat (avail_out s) \<and> length out' = length out \<and> drop (unat (avail_out s)) out' = drop (unat (avail_out s)) out"
proof -
  obtain ret bs s' where f: "f s (Z_FINISH z) = (ret, bs, s')"
    by (metis prod.collapse)
  then have "length bs \<le> unat (avail_out s)" "ret = Z_STREAM_END z \<longrightarrow> unat (total_out s') = length bs"
    using assms(1) unfolding stores_well_def by blast+
  then show ?thesis
    using assms(2,3) f by (auto simp: gz_run_def write_at_def)
qed

lemma gz_run_result:
  assumes "stores_well z f s" and "runs_to z f s x" and "gz_run z f s out = (k, out')" and "unat (avail_out s) \<le> length out"
  shows "if length x \<le> unat (avail_out s) then k = length x \<and> take k out' = x else k = 0"
proof -
  obtain ret bs s' where f: "f s (Z_FINISH z) = (ret, bs, s')"
    by (metis prod.collapse)
  then have "(ret = Z_STREAM_END z \<longleftrightarrow> length x \<le> unat (avail_out s)) \<and> (ret = Z_STREAM_END z \<longrightarrow> bs = x)"
    "ret = Z_STREAM_END z \<longrightarrow> unat (total_out s') = length bs"
    using assms(1,2) unfolding stores_well_def runs_to_def by blast+
  then show ?thesis
    using assms(3,4) f by (auto simp: gz_run_def write_at_def)
qed

definition set_buffers :: "'s z_stream \<Rightarrow> bytes option \<Rightarrow> nat \<Rightarrow> bytes \<Rightarrow> nat \<Rightarrow> 's z_stream" where
  "set_buffers s inp in_len out out_max =
     s\<lparr> next_in := inp, avail_in := of_nat in_len, next_out := Some out, avail_out := of_nat out_max \<rparr>"

lemma unat_uint [simp]: "n \<le> UINT_MAX \<Longrightarrow> unat (of_nat n :: u32) = n"
  by (simp add: UINT_MAX_def unat_of_nat)

lemma set_buffers [simp]:
  "out_max \<le> UINT_MAX \<Longrightarrow> unat (avail_out (set_buffers s inp in_len out out_max)) = out_max"
  "in_len \<le> UINT_MAX \<Longrightarrow> stream_data (set_buffers s inp in_len out out_max) = (case inp of None \<Rightarrow> [] | Some b \<Rightarrow> take in_len b)"
  by (simp_all add: set_buffers_def stream_data_def split: option.split)

lemma zlib_lawsD:
  assumes "zlib_laws z gz"
  shows "18 \<le> length (gz x)"
    and "deflateInit2 z zeroed (Z_DEFAULT_COMPRESSION z) (Z_DEFLATED z) 31 8 (Z_DEFAULT_STRATEGY z) w = (Z_OK z, s0, w')
      \<Longrightarrow> stores_well z (deflate z) (set_buffers s0 inp n out k)
        \<and> runs_to z (deflate z) (set_buffers s0 inp n out k) (gz (stream_data (set_buffers s0 inp n out k)))"
    and "inflateInit2 z zeroed 47 w = (Z_OK z, s0, w') \<Longrightarrow> stores_well z (inflate z) (set_buffers s0 inp n out k)"
    and "inflateInit2 z zeroed 47 w = (Z_OK z, s0, w') \<Longrightarrow> stream_data (set_buffers s0 inp n out k) = gz x
      \<Longrightarrow> runs_to z (inflate z) (set_buffers s0 inp n out k) x"
  using assms unfolding zlib_laws_def set_buffers_def Let_def by blast+

lemma compress_eq:
  assumes "in_len = 0 \<or> inp \<noteq> None" and "0 < out_max" and "in_len \<le> UINT_MAX" and "out_max \<le> UINT_MAX"
    and "deflateInit2 z zeroed (Z_DEFAULT_COMPRESSION z) (Z_DEFLATED z) 31 8 (Z_DEFAULT_STRATEGY z) w = (Z_OK z, s, w1)"
  shows "\<exists>w'. e2ee_gzip_compress z inp in_len (Some out) out_max w
    = (let (k, out') = gz_run z (deflate z) (set_buffers s inp in_len out out_max) out in (k, Some out', w'))"
  using assms by (auto simp: e2ee_gzip_compress_def gz_run_def Let_def simp flip: set_buffers_def split: prod.splits)

lemma decompress_eq:
  assumes "0 < in_len" and "0 < out_max" and "in_len \<le> UINT_MAX" and "out_max \<le> UINT_MAX"
    and "inflateInit2 z zeroed 47 w = (Z_OK z, s, w1)"
  shows "\<exists>w'. e2ee_gzip_decompress z (Some inp) in_len (Some out) out_max w
    = (let (k, out') = gz_run z (inflate z) (set_buffers s (Some inp) in_len out out_max) out in (k, Some out', w'))"
  using assms by (auto simp: e2ee_gzip_decompress_def gz_run_def Let_def simp flip: set_buffers_def split: prod.splits)

lemma decompress_refused:
  "inp = None \<or> in_len = 0 \<or> out_max = 0 \<or> in_len > UINT_MAX \<or> out_max > UINT_MAX
    \<Longrightarrow> e2ee_gzip_decompress z inp in_len out out_max w = (0, out, w)"
  "fst (inflateInit2 z zeroed 47 w) \<noteq> Z_OK z \<Longrightarrow> \<exists>w'. e2ee_gzip_decompress z inp in_len out out_max w = (0, out, w')"
  by (cases "inflateInit2 z zeroed 47 w"; force simp: e2ee_gzip_decompress_def)+

text \<open>The routines as functions of the buffers, for a zlib whose initialisation succeeds.\<close>

lemma compress_correct:
  assumes laws: "zlib_laws z gz" and total: "zlib_total z"
    and "in_len \<le> UINT_MAX" and "in_len \<le> length b" and "0 < out_max" and "out_max \<le> UINT_MAX" and "out_max \<le> length out"
  shows "\<exists>k out' w'. e2ee_gzip_compress z (Some b) in_len (Some out) out_max w = (k, Some out', w')
    \<and> (if length (gz (take in_len b)) \<le> out_max then k = length (gz (take in_len b)) \<and> take k out' = gz (take in_len b)
       else k = 0) \<and> length out' = length out"
proof -
  obtain s w1 where init:
      "deflateInit2 z zeroed (Z_DEFAULT_COMPRESSION z) (Z_DEFLATED z) 31 8 (Z_DEFAULT_STRATEGY z) w = (Z_OK z, s, w1)"
    using total unfolding zlib_total_def by (metis prod.collapse)
  obtain k out' where run: "gz_run z (deflate z) (set_buffers s (Some b) in_len out out_max) out = (k, out')"
    by (metis surj_pair)
  have "stream_data (set_buffers s (Some b) in_len out out_max) = take in_len b"
    using assms(3) by simp
  then have "if length (gz (take in_len b)) \<le> out_max then k = length (gz (take in_len b)) \<and> take k out' = gz (take in_len b)
      else k = 0"
    using gz_run_result [OF conjunct1 [OF zlib_lawsD(2) [OF laws init]] conjunct2 [OF zlib_lawsD(2) [OF laws init]] run]
      assms(6,7) by (auto split: if_splits)
  moreover have "length out' = length out"
    using gz_run_bounds [OF conjunct1 [OF zlib_lawsD(2) [OF laws init]] _ run] assms(6,7) by simp
  moreover obtain w' where "e2ee_gzip_compress z (Some b) in_len (Some out) out_max w = (k, Some out', w')"
    using compress_eq [OF _ assms(5,3,6) init, of "Some b" out] run by auto
  ultimately show ?thesis
    by blast
qed

lemma decompress_correct:
  assumes laws: "zlib_laws z gz" and total: "zlib_total z"
    and "in_len \<le> UINT_MAX" and "take in_len b = gz x" and "0 < out_max" and "out_max \<le> UINT_MAX" and "out_max \<le> length out"
  shows "\<exists>k out' w'. e2ee_gzip_decompress z (Some b) in_len (Some out) out_max w = (k, Some out', w')
    \<and> (if length x \<le> out_max then k = length x \<and> take k out' = x else k = 0) \<and> length out' = length out"
proof -
  obtain s w1 where init: "inflateInit2 z zeroed 47 w = (Z_OK z, s, w1)"
    using total unfolding zlib_total_def by (metis prod.collapse)
  obtain k out' where run: "gz_run z (inflate z) (set_buffers s (Some b) in_len out out_max) out = (k, out')"
    by (metis surj_pair)
  have "0 < in_len"
    using zlib_lawsD(1) [OF laws, of x] assms(4) by (cases in_len) auto
  moreover have "stream_data (set_buffers s (Some b) in_len out out_max) = gz x"
    using assms(3,4) by simp
  ultimately have "if length x \<le> out_max then k = length x \<and> take k out' = x else k = 0"
    using gz_run_result [OF zlib_lawsD(3) [OF laws init] zlib_lawsD(4) [OF laws init, of _ _ _ _ x] run] assms(6,7)
    by (simp split: if_splits)
  moreover have "length out' = length out"
    using gz_run_bounds [OF zlib_lawsD(3) [OF laws init] _ run] assms(6,7) by simp
  moreover obtain w' where "e2ee_gzip_decompress z (Some b) in_len (Some out) out_max w = (k, Some out', w')"
    using decompress_eq [OF \<open>0 < in_len\<close> assms(5,3,6) init, of b out] run by auto
  ultimately show ?thesis
    by blast
qed


section \<open>A library that satisfies the laws\<close>

definition toy_gz :: "bytes \<Rightarrow> bytes" where
  "toy_gz x = replicate 18 31 @ x"

definition toy_finish :: "(bytes \<Rightarrow> bytes option) \<Rightarrow> unit z_stream \<Rightarrow> int \<Rightarrow> int \<times> bytes \<times> unit z_stream" where
  "toy_finish f s flush = (case f (stream_data s) of
       None \<Rightarrow> (- 3, [], s)
     | Some y \<Rightarrow> if length y \<le> unat (avail_out s) then (1, y, s\<lparr> total_out := of_nat (length y) \<rparr>)
                 else (- 5, take (unat (avail_out s)) y, s))"

definition toy_zlib :: "(unit, int) zlib" where
  "toy_zlib = \<lparr> Z_OK = 0, Z_STREAM_END = 1, Z_FINISH = 4, Z_DEFAULT_COMPRESSION = - 1, Z_DEFLATED = 8,
     Z_DEFAULT_STRATEGY = 0,
     deflateInit2 = (\<lambda>s level method window mem strategy w. (0, s, w + 1)),
     deflate = toy_finish (\<lambda>x. Some (toy_gz x)), deflateEnd = (\<lambda>s w. w - 1),
     inflateInit2 = (\<lambda>s window w. (0, s, w + 1)),
     inflate = toy_finish (\<lambda>y. if length y < 18 then None else Some (drop 18 y)), inflateEnd = (\<lambda>s w. w - 1) \<rparr>"

lemma toy_finish_laws:
  "stores_well toy_zlib (toy_finish f) s" "f (stream_data s) = Some y \<Longrightarrow> runs_to toy_zlib (toy_finish f) s y"
proof -
  have "unat (of_nat n :: u64) = n" if "n \<le> unat (a :: u32)" for n a
    using that unsigned_less [of a, where 'a = nat] by (simp add: unat_of_nat)
  then show "stores_well toy_zlib (toy_finish f) s"
    by (auto simp: stores_well_def toy_finish_def toy_zlib_def split: option.splits if_splits)
qed (auto simp: runs_to_def toy_finish_def toy_zlib_def split: option.splits if_splits)

lemma toy_zlib_sel:
  "deflate toy_zlib = toy_finish (\<lambda>x. Some (toy_gz x))"
  "inflate toy_zlib = toy_finish (\<lambda>y. if length y < 18 then None else Some (drop 18 y))"
  by (simp_all add: toy_zlib_def)

lemma toy_zlib_laws: "zlib_laws toy_zlib toy_gz" "zlib_total toy_zlib"
  by (auto simp: zlib_laws_def Let_def toy_zlib_sel toy_gz_def intro!: toy_finish_laws)
    (simp add: zlib_total_def toy_zlib_def)


section \<open>Properties\<close>



text \<open>
  C26. \<open>e2ee_gzip_decompress\<close> (\<open>e2ee_proxy_api.c\<close>) never writes past \<open>out_max\<close>, whatever the input is: the count
  it returns is at most \<open>out_max\<close>, and the buffer beyond is unchanged. The compressed input is not trusted.
\<close>

theorem decompress_in_bounds:
  assumes "zlib_laws z gz" and "out_max \<le> length out"
    and "e2ee_gzip_decompress z inp in_len (Some out) out_max w = (k, out', w')"
  shows "k \<le> out_max \<and> (\<exists>b. out' = Some b \<and> length b = length out \<and> drop out_max b = drop out_max out)"
proof (cases "inp = None \<or> in_len = 0 \<or> out_max = 0 \<or> in_len > UINT_MAX \<or> out_max > UINT_MAX")
  case False
  then obtain b where b: "inp = Some b" "0 < in_len" "0 < out_max" "in_len \<le> UINT_MAX" "out_max \<le> UINT_MAX"
    by (auto simp: not_less)
  show ?thesis
  proof (cases "fst (inflateInit2 z zeroed 47 w) = Z_OK z")
    case True
    then obtain s w1 where init: "inflateInit2 z zeroed 47 w = (Z_OK z, s, w1)"
      by (metis prod.collapse)
    obtain k1 out1 where run: "gz_run z (inflate z) (set_buffers s (Some b) in_len out out_max) out = (k1, out1)"
      by (metis surj_pair)
    have "k1 = k" "out' = Some out1"
      using decompress_eq [OF b(2-5) init, of b out] assms(3) by (auto simp: run b(1))
    then show ?thesis
      using gz_run_bounds [OF zlib_lawsD(3) [OF assms(1) init] _ run] assms(2) b(5) by auto
  qed (use decompress_refused(2) [of z w inp in_len "Some out" out_max] assms(3) in auto)
qed (use decompress_refused(1) [of inp in_len out_max z "Some out" w] assms(3) in auto)

theorem decompress_in_bounds_witness:
  "(0 :: nat) \<le> 3 \<and> (\<exists>b. Some [1, 2, 3, 4 :: u8] = Some b \<and> length b = length [9, 9, 9, 4 :: u8] \<and> drop 3 b = drop 3 [9, 9, 9, 4])"
  by (rule decompress_in_bounds [OF toy_zlib_laws(1), of _ _ "Some (replicate 18 0 @ [1, 2, 3, 5])" 22 0 _ _ 0])
    (simp_all add: e2ee_gzip_decompress_def toy_zlib_def toy_finish_def stream_data_def zeroed_def UINT_MAX_def write_at_def)

text \<open>
  The interface gives the empty payload the value of a failure: for the stream that
  \<open>e2ee_gzip_compress\<close> makes of no input, \<open>e2ee_gzip_decompress\<close> returns 0 although zlib reports success, so a
  caller has to treat empty payloads on its own.
\<close>

theorem decompress_empty_is_failure:
  assumes "zlib_laws z gz" and "zlib_total z" and "take n b = gz []" and "n \<le> UINT_MAX"
    and "0 < out_max" and "out_max \<le> UINT_MAX" and "out_max \<le> length out"
  shows "fst (e2ee_gzip_decompress z (Some b) n (Some out) out_max w) = 0"
  using decompress_correct [OF assms(1,2,4,3,5-7), of w] by auto

theorem decompress_empty_is_failure_witness:
  "fst (e2ee_gzip_decompress toy_zlib (Some (replicate 18 31)) 18 (Some [0, 0]) 2 0) = 0"
  by (rule decompress_empty_is_failure [OF toy_zlib_laws]) (simp_all add: toy_gz_def UINT_MAX_def)

end
