(* ===== verification/Api.thy ===== *)
theory Api
  imports Kem Aead Hkdf Gzip
begin

text \<open>
  The rest of the exported interface of the library: \<open>native/e2ee_proxy_api.c\<close> and \<open>e2ee_proxy_api.h\<close>, with
  the default backend of \<open>mlkem_backend.h\<close>. Authenticated encryption, key derivation and compression are in
  theories of their own.

  A pointer argument is the buffer it points to, \<open>None\<close> the null pointer. Output buffers are overwritten
  from their start. As in \<open>Kem\<close> and \<open>Randombytes\<close>, the outer \<open>None\<close> is a call that does not return and
  \<open>Abort\<close> the end of the process.
\<close>

section \<open>Definitions\<close>

definition E2EE_MLKEM_PK_SIZE :: nat where "E2EE_MLKEM_PK_SIZE = 1184"
definition E2EE_MLKEM_SK_SIZE :: nat where "E2EE_MLKEM_SK_SIZE = 2400"
definition E2EE_MLKEM_CT_SIZE :: nat where "E2EE_MLKEM_CT_SIZE = 1088"
definition E2EE_MLKEM_SS_SIZE :: nat where "E2EE_MLKEM_SS_SIZE = 32"

definition E2EE_MLKEM_BACKEND_NAME :: string where
  "E2EE_MLKEM_BACKEND_NAME = ''pqclean-ml-kem-768 (FIPS 203)''"

definition mlkem_keypair :: "'w os \<Rightarrow> 'w \<Rightarrow> (int \<times> bytes \<times> bytes \<times> 'w) outcome option" where
  "mlkem_keypair = crypto_kem_keypair"

definition mlkem_enc :: "'w os \<Rightarrow> bytes \<Rightarrow> 'w \<Rightarrow> (int \<times> bytes \<times> bytes \<times> 'w) outcome option" where
  "mlkem_enc = crypto_kem_enc"

definition mlkem_dec :: "bytes \<Rightarrow> bytes \<Rightarrow> (int \<times> bytes) option" where
  "mlkem_dec ct sk = map_option (\<lambda>ss. (0, ss)) (crypto_kem_dec ct sk)"

definition e2ee_init :: int where
  "e2ee_init = 0"

text \<open>The version strings of OpenSSL and zlib and the date of the build come from the build.\<close>

definition e2ee_build_info :: "string \<Rightarrow> string \<Rightarrow> string \<Rightarrow> string" where
  "e2ee_build_info openssl_version_text zlib_version date =
     ''e2ee-proxy native''
     @ '' mlkem='' @ E2EE_MLKEM_BACKEND_NAME
     @ '' crypto='' @ openssl_version_text
     @ '' zlib='' @ zlib_version
     @ '' built='' @ date"

definition no_embedded_material :: "bytes option \<Rightarrow> nat option \<Rightarrow> int \<times> bytes option \<times> nat option" where
  "no_embedded_material out len = (- 1, out, if len \<noteq> None then Some 0 else len)"

definition e2ee_get_cert_der :: "bytes option \<Rightarrow> nat option \<Rightarrow> int \<times> bytes option \<times> nat option" where
  "e2ee_get_cert_der out len = no_embedded_material out len"

definition e2ee_get_intermediate_der :: "bytes option \<Rightarrow> nat option \<Rightarrow> int \<times> bytes option \<times> nat option" where
  "e2ee_get_intermediate_der out len = no_embedded_material out len"

definition e2ee_get_root_der :: "bytes option \<Rightarrow> nat option \<Rightarrow> int \<times> bytes option \<times> nat option" where
  "e2ee_get_root_der out len = no_embedded_material out len"

definition e2ee_get_privkey_der :: "bytes option \<Rightarrow> nat option \<Rightarrow> int \<times> bytes option \<times> nat option" where
  "e2ee_get_privkey_der out len = no_embedded_material out len"

definition e2ee_mlkem_keygen ::
    "'w os \<Rightarrow> bytes option \<Rightarrow> bytes option \<Rightarrow> 'w \<Rightarrow> (int \<times> bytes option \<times> bytes option \<times> 'w) outcome option" where
  "e2ee_mlkem_keygen os pk sk w =
     (if pk = None \<or> sk = None then Some (Return (- 1, pk, sk, w))
      else case mlkem_keypair os w of
             None \<Rightarrow> None
           | Some Abort \<Rightarrow> Some Abort
           | Some (Return (r, pk', sk', w)) \<Rightarrow>
               Some (Return (if r = 0 then 0 else - 1, Some (write_at (the pk) 0 pk'), Some (write_at (the sk) 0 sk'), w)))"

definition e2ee_mlkem_encapsulate ::
    "'w os \<Rightarrow> bytes option \<Rightarrow> bytes option \<Rightarrow> bytes option \<Rightarrow> 'w \<Rightarrow> (int \<times> bytes option \<times> bytes option \<times> 'w) outcome option" where
  "e2ee_mlkem_encapsulate os pk ct ss w =
     (if pk = None \<or> ct = None \<or> ss = None then Some (Return (- 1, ct, ss, w))
      else case mlkem_enc os (the pk) w of
             None \<Rightarrow> None
           | Some Abort \<Rightarrow> Some Abort
           | Some (Return (r, ct', ss', w)) \<Rightarrow>
               Some (Return (if r = 0 then 0 else - 1, Some (write_at (the ct) 0 ct'), Some (write_at (the ss) 0 ss'), w)))"

definition e2ee_mlkem_decapsulate :: "bytes option \<Rightarrow> bytes option \<Rightarrow> bytes option \<Rightarrow> (int \<times> bytes option) option" where
  "e2ee_mlkem_decapsulate sk ct ss =
     (if sk = None \<or> ct = None \<or> ss = None then Some (- 1, ss)
      else case mlkem_dec (the ct) (the sk) of
             None \<Rightarrow> None
           | Some (r, ss') \<Rightarrow> Some (if r = 0 then 0 else - 1, Some (write_at (the ss) 0 ss')))"

definition e2ee_random_bytes :: "'w os \<Rightarrow> bytes option \<Rightarrow> nat \<Rightarrow> 'w \<Rightarrow> (bytes option \<times> 'w) outcome option" where
  "e2ee_random_bytes os out len w =
     (case e2ee_secure_random os out len w of
        None \<Rightarrow> None
      | Some (rc, out, w) \<Rightarrow> if rc \<noteq> 0 then Some Abort else Some (Return (out, w)))"


section \<open>The key encapsulation behind the interface\<close>

lemma write_at_all: "length out = length bs \<Longrightarrow> write_at out 0 bs = bs"
  by (simp add: write_at_def)

lemma randombytes_coins:
  assumes "os_laws os" and "PQCLEAN_randombytes os (Some (replicate n 0)) n w = Some (Return (rc, coins, w'))"
  obtains bs where "coins = Some bs" and "length bs = n"
proof -
  have "e2ee_secure_random os (Some (replicate n 0)) n w = Some (0, coins, w')"
    using assms(2) by (auto simp: PQCLEAN_randombytes_def split: option.splits prod.splits if_splits)
  from secure_random_fills [OF assms(1) _ _ this, of "replicate n 0"] that show ?thesis
    by auto
qed

lemma mlkem_keypair_coins:
  assumes "os_laws os" and "mlkem_keypair os w = Some (Return (rc, pk, sk, w'))"
  obtains coins where "rc = 0" and "length coins = 64" and "crypto_kem_keypair_derand coins = Some (pk, sk)"
proof -
  obtain r coins w1 where c: "PQCLEAN_randombytes os (Some (replicate 64 0)) 64 w = Some (Return (r, coins, w1))"
    and k: "crypto_kem_keypair_derand (the coins) = Some (pk, sk)" and "rc = 0"
    using assms(2) unfolding mlkem_keypair_def crypto_kem_keypair_def Let_def params
    by (auto split: option.splits outcome.splits prod.splits)
  from randombytes_coins [OF assms(1) c] obtain bs where "coins = Some bs" "length bs = 64" .
  with k \<open>rc = 0\<close> show ?thesis
    by (intro that [of bs]) simp_all
qed

lemma mlkem_enc_coins:
  assumes "os_laws os" and "mlkem_enc os pk w = Some (Return (rc, ct, ss, w'))"
  obtains m where "rc = 0" and "length m = 32" and "crypto_kem_enc_derand pk m = Some (ct, ss)"
proof -
  obtain r coins w1 where c: "PQCLEAN_randombytes os (Some (replicate 32 0)) 32 w = Some (Return (r, coins, w1))"
    and k: "crypto_kem_enc_derand pk (the coins) = Some (ct, ss)" and "rc = 0"
    using assms(2) unfolding mlkem_enc_def crypto_kem_enc_def Let_def params
    by (auto split: option.splits outcome.splits prod.splits)
  from randombytes_coins [OF assms(1) c] obtain bs where "coins = Some bs" "length bs = 32" .
  with k \<open>rc = 0\<close> show ?thesis
    by (intro that [of bs]) simp_all
qed

lemma kem_keypair_length:
  assumes "crypto_kem_keypair_derand coins = Some (pk, sk)" and "length coins = 64"
  shows "length pk = 1184" and "length sk = 2400"
  using assms indcpa_keypair_length by (auto simp: crypto_kem_keypair_derand_eq)

lemma kem_enc_length:
  assumes "crypto_kem_enc_derand pk m = Some (ct, ss)" and "length m = 32" and "length pk = 1184"
  shows "length ct = 1088" and "length ss = 32"
  using assms indcpa_enc_length by (auto simp: crypto_kem_enc_derand_eq fo_key_def)

lemma kem_dec_length:
  assumes "crypto_kem_dec ct sk = Some ss" and "length ct = 1088" and "length sk = 2400"
  shows "length ss = 32"
  using assms by (auto simp: crypto_kem_dec_eq fo_decaps_def fo_key_def split: if_splits)

lemma decapsulate_eq:
  assumes "length ct = 1088" and "length sk = 2400" and "length out = 32"
  shows "e2ee_mlkem_decapsulate (Some sk) (Some ct) (Some out) = map_option (\<lambda>k. (0, Some k)) (crypto_kem_dec ct sk)"
  using kem_dec_length [OF _ assms(1,2)] assms(3)
  by (auto simp: e2ee_mlkem_decapsulate_def mlkem_dec_def write_at_all split: option.split)

text \<open>What the three calls have agreed on, once key generation and encapsulation have returned.\<close>

definition agreement :: "bytes \<Rightarrow> bytes \<Rightarrow> bytes \<Rightarrow> bytes \<Rightarrow> bytes \<Rightarrow> bool" where
  "agreement pk sk ct ss out \<longleftrightarrow>
     length pk = 1184 \<and> length sk = 2400 \<and> length ct = 1088 \<and> length ss = 32 \<and>
     (\<exists>coins m. length coins = 64 \<and> length m = 32 \<and>
        crypto_kem_keypair_derand coins = Some (pk, sk) \<and> crypto_kem_enc_derand pk m = Some (ct, ss) \<and>
        (let m' = round_msg (\<lambda>n. 1665 * of_bool (bit_at m n) + decryption_noise coins m (fo_coins m (hash_h pk)) n)
         in e2ee_mlkem_decapsulate (Some sk) (Some ct) (Some out) =
              (if m' = m then Some (0, Some ss)
               else map_option (\<lambda>k. (0, Some k)) (fo_decaps m' pk (hash_h pk) (drop 32 coins) ct))))"

lemma agreementI:
  assumes "length coins = 64" and "length m = 32" and "length out = 32"
    and key: "crypto_kem_keypair_derand coins = Some (pk, sk)" and enc: "crypto_kem_enc_derand pk m = Some (ct, ss)"
  shows "agreement pk sk ct ss out"
proof -
  note len = kem_keypair_length [OF key assms(1)]
  note len' = kem_enc_length [OF enc assms(2) len(1)]
  let ?m = "round_msg (\<lambda>n. 1665 * of_bool (bit_at m n) + decryption_noise coins m (fo_coins m (hash_h pk)) n)"
  have "crypto_kem_dec ct sk = (if ?m = m then Some ss else fo_decaps ?m pk (hash_h pk) (drop 32 coins) ct)"
    using kem_roundtrip_eq [OF assms(1,2)] key enc by (simp add: Let_def)
  then have "e2ee_mlkem_decapsulate (Some sk) (Some ct) (Some out) = (if ?m = m then Some (0, Some ss)
      else map_option (\<lambda>k. (0, Some k)) (fo_decaps ?m pk (hash_h pk) (drop 32 coins) ct))"
    using decapsulate_eq [OF len'(1) len(2) assms(3)] by simp
  then show ?thesis
    unfolding agreement_def Let_def using assms len len' by blast
qed


lemmas mlkem_sizes = E2EE_MLKEM_PK_SIZE_def E2EE_MLKEM_SK_SIZE_def E2EE_MLKEM_CT_SIZE_def E2EE_MLKEM_SS_SIZE_def

text \<open>A call has overwritten exactly the first \<open>n\<close> bytes of a buffer.\<close>

definition overwritten :: "nat \<Rightarrow> bytes \<Rightarrow> bytes option \<Rightarrow> bool" where
  "overwritten n old new \<longleftrightarrow> n \<le> length old \<and> (\<exists>bs. length bs = n \<and> new = Some (bs @ drop n old))"

lemma overwritten_write_at: "length bs = n \<Longrightarrow> n \<le> length old \<Longrightarrow> overwritten n old (Some (write_at old 0 bs))"
  by (auto simp: overwritten_def write_at_def)

section \<open>Properties\<close>

text \<open>
  C8. The exported ML-KEM functions (\<open>e2ee_proxy_api.c\<close>) agree on the shared secret. When
  \<open>e2ee_mlkem_keygen\<close> returns, it returns 0 and has filled both keys; when \<open>e2ee_mlkem_encapsulate\<close> then
  returns for that public key, it returns 0 and has filled ciphertext and secret; and there are 64 bytes
  of key coins and a 32-byte message the operating system delivered such that
  \<open>e2ee_mlkem_decapsulate\<close> returns 0 and the same secret, unless the decryption noise destroys that message,
  in which case it still returns 0, with the implicit rejection of the changed message.
\<close>

theorem api_key_agreement:
  assumes "os_laws os" and "length pk0 = 1184" and "length sk0 = 2400" and "length ct0 = 1088" and "length ss0 = 32"
    and "length out = 32"
  shows "case e2ee_mlkem_keygen os (Some pk0) (Some sk0) w of
      Some (Return (rc, Some pk, Some sk, w1)) \<Rightarrow> rc = 0 \<and>
        (case e2ee_mlkem_encapsulate os (Some pk) (Some ct0) (Some ss0) w1 of
           Some (Return (rc, Some ct, Some ss, w2)) \<Rightarrow> rc = 0 \<and> agreement pk sk ct ss out
         | Some (Return _) \<Rightarrow> False | Some Abort \<Rightarrow> True | None \<Rightarrow> True)
    | Some (Return _) \<Rightarrow> False | Some Abort \<Rightarrow> True | None \<Rightarrow> True"
proof -
  have ok: "rc = 0 \<and> (case e2ee_mlkem_encapsulate os (Some (write_at pk0 0 pk)) (Some ct0) (Some ss0) w1 of
      Some (Return (rc, Some ct, Some ss, w2)) \<Rightarrow> rc = 0 \<and> agreement (write_at pk0 0 pk) (write_at sk0 0 sk) ct ss out
    | Some (Return _) \<Rightarrow> False | Some Abort \<Rightarrow> True | None \<Rightarrow> True)"
    if gen: "mlkem_keypair os w = Some (Return (rc, pk, sk, w1))" for rc pk sk w1
  proof -
    obtain coins where key: "rc = 0" "length coins = 64" "crypto_kem_keypair_derand coins = Some (pk, sk)"
      using mlkem_keypair_coins [OF assms(1) gen] .
    have pk: "write_at pk0 0 pk = pk" "write_at sk0 0 sk = sk" "length pk = 1184"
      using kem_keypair_length [OF key(3,2)] assms(2,3) by (simp_all add: write_at_all)
    have "rc' = 0 \<and> agreement pk sk (write_at ct0 0 ct) (write_at ss0 0 ss) out"
      if enc: "mlkem_enc os pk w1 = Some (Return (rc', ct, ss, w2))" for rc' ct ss w2
    proof -
      obtain m where m: "rc' = 0" "length m = 32" "crypto_kem_enc_derand pk m = Some (ct, ss)"
        using mlkem_enc_coins [OF assms(1) enc] .
      then show ?thesis
        using agreementI [OF key(2) m(2) assms(6) key(3) m(3)] kem_enc_length [OF m(3,2) pk(3)] assms(4,5)
        by (simp add: write_at_all)
    qed
    then show ?thesis
      unfolding pk using key(1) by (auto simp: e2ee_mlkem_encapsulate_def split: option.split outcome.split)
  qed
  consider "mlkem_keypair os w = None" | "mlkem_keypair os w = Some Abort"
    | rc pk sk w1 where "mlkem_keypair os w = Some (Return (rc, pk, sk, w1))"
    by (metis option.exhaust outcome.exhaust prod_cases4)
  then show ?thesis
    using ok by cases (simp_all add: e2ee_mlkem_keygen_def)
qed

theorem api_key_agreement_witness:
  "case e2ee_mlkem_keygen (script_os [7]) (Some (replicate 1184 0)) (Some (replicate 2400 0)) [] of
      Some (Return (rc, Some pk, Some sk, w1)) \<Rightarrow> rc = 0 \<and>
        (case e2ee_mlkem_encapsulate (script_os [7]) (Some pk) (Some (replicate 1088 0)) (Some (replicate 32 0)) w1 of
           Some (Return (rc, Some ct, Some ss, w2)) \<Rightarrow> rc = 0 \<and> agreement pk sk ct ss (replicate 32 0)
         | Some (Return _) \<Rightarrow> False | Some Abort \<Rightarrow> True | None \<Rightarrow> True)
    | Some (Return _) \<Rightarrow> False | Some Abort \<Rightarrow> True | None \<Rightarrow> True"
  by (rule api_key_agreement) (simp_all add: os_laws_script)

text \<open>
  C40. The exported ML-KEM functions (\<open>e2ee_proxy_api.c\<close>) write exactly the sizes that \<open>e2ee_proxy_api.h\<close> declares, whatever
  the operating system delivers: whenever they return, they return 0; \<open>e2ee_mlkem_keygen\<close> has overwritten the
  first 1184 bytes of the buffer for the public key and the first 2400 of the one for the secret key,
  \<open>e2ee_mlkem_encapsulate\<close>, for any 1184 bytes as the public key, the first 1088 of the ciphertext and the first
  32 of the secret, and \<open>e2ee_mlkem_decapsulate\<close>, for any 1088 bytes as the ciphertext and any 2400 as the key, the
  first 32 of the secret; all bytes beyond are as before. The output buffers have at least these sizes.
\<close>

theorem mlkem_writes_declared_sizes:
  assumes "os_laws os" and "length pk = E2EE_MLKEM_PK_SIZE" and "length sk = E2EE_MLKEM_SK_SIZE" and "length ct = E2EE_MLKEM_CT_SIZE"
    and bufs: "E2EE_MLKEM_PK_SIZE \<le> length pk0" "E2EE_MLKEM_SK_SIZE \<le> length sk0" "E2EE_MLKEM_CT_SIZE \<le> length ct0" "E2EE_MLKEM_SS_SIZE \<le> length ss0"
  shows "(case e2ee_mlkem_keygen os (Some pk0) (Some sk0) w of
        Some (Return (rc, pk', sk', w')) \<Rightarrow> rc = 0 \<and> overwritten E2EE_MLKEM_PK_SIZE pk0 pk' \<and> overwritten E2EE_MLKEM_SK_SIZE sk0 sk'
      | _ \<Rightarrow> True)
    \<and> (case e2ee_mlkem_encapsulate os (Some pk) (Some ct0) (Some ss0) w of
        Some (Return (rc, ct', ss', w')) \<Rightarrow> rc = 0 \<and> overwritten E2EE_MLKEM_CT_SIZE ct0 ct' \<and> overwritten E2EE_MLKEM_SS_SIZE ss0 ss'
      | _ \<Rightarrow> True)
    \<and> (case e2ee_mlkem_decapsulate (Some sk) (Some ct) (Some ss0) of
        Some (rc, ss') \<Rightarrow> rc = 0 \<and> overwritten E2EE_MLKEM_SS_SIZE ss0 ss'
      | _ \<Rightarrow> True)"
proof (intro conjI)
  show "case e2ee_mlkem_keygen os (Some pk0) (Some sk0) w of
      Some (Return (rc, pk', sk', w')) \<Rightarrow> rc = 0 \<and> overwritten E2EE_MLKEM_PK_SIZE pk0 pk' \<and> overwritten E2EE_MLKEM_SK_SIZE sk0 sk'
    | _ \<Rightarrow> True"
    unfolding e2ee_mlkem_keygen_def using bufs
    by (auto split: option.split outcome.split elim!: mlkem_keypair_coins [OF assms(1)]
        intro!: overwritten_write_at simp: kem_keypair_length mlkem_sizes)
  show "case e2ee_mlkem_encapsulate os (Some pk) (Some ct0) (Some ss0) w of
      Some (Return (rc, ct', ss', w')) \<Rightarrow> rc = 0 \<and> overwritten E2EE_MLKEM_CT_SIZE ct0 ct' \<and> overwritten E2EE_MLKEM_SS_SIZE ss0 ss'
    | _ \<Rightarrow> True"
    unfolding e2ee_mlkem_encapsulate_def using assms(2) bufs
    by (auto split: option.split outcome.split elim!: mlkem_enc_coins [OF assms(1)]
        intro!: overwritten_write_at simp: kem_enc_length mlkem_sizes)
  show "case e2ee_mlkem_decapsulate (Some sk) (Some ct) (Some ss0) of
      Some (rc, ss') \<Rightarrow> rc = 0 \<and> overwritten E2EE_MLKEM_SS_SIZE ss0 ss'
    | _ \<Rightarrow> True"
    unfolding e2ee_mlkem_decapsulate_def mlkem_dec_def using assms(3,4) bufs
    by (auto split: option.split intro!: overwritten_write_at simp: kem_dec_length mlkem_sizes)
qed

theorem mlkem_writes_declared_sizes_witness:
  "(case e2ee_mlkem_keygen (script_os [7]) (Some (replicate 1200 0)) (Some (replicate 2400 0)) [] of
        Some (Return (rc, pk', sk', w')) \<Rightarrow> rc = 0 \<and> overwritten E2EE_MLKEM_PK_SIZE (replicate 1200 0) pk' \<and> overwritten E2EE_MLKEM_SK_SIZE (replicate 2400 0) sk'
      | _ \<Rightarrow> True)
    \<and> (case e2ee_mlkem_encapsulate (script_os [7]) (Some (replicate 1184 1)) (Some (replicate 1088 0)) (Some (replicate 40 0)) [] of
        Some (Return (rc, ct', ss', w')) \<Rightarrow> rc = 0 \<and> overwritten E2EE_MLKEM_CT_SIZE (replicate 1088 0) ct' \<and> overwritten E2EE_MLKEM_SS_SIZE (replicate 40 0) ss'
      | _ \<Rightarrow> True)
    \<and> (case e2ee_mlkem_decapsulate (Some (replicate 2400 2)) (Some (replicate 1088 3)) (Some (replicate 40 0)) of
        Some (rc, ss') \<Rightarrow> rc = 0 \<and> overwritten E2EE_MLKEM_SS_SIZE (replicate 40 0) ss'
      | _ \<Rightarrow> True)"
  by (rule mlkem_writes_declared_sizes) (simp_all add: os_laws_script mlkem_sizes)

text \<open>
  A null pointer where the interface needs a buffer is an error, and no part of it is carried out: the
  ML-KEM functions return -1 with nothing drawn from the operating system and no buffer changed, the
  AEAD and the key derivation return -1 and compression 0 with OpenSSL and zlib untouched, and
  \<open>e2ee_random_bytes\<close> ends the process rather than return without random bytes.
\<close>

theorem null_pointers:
  assumes "0 < len"
  shows "e2ee_mlkem_keygen os None sk w = Some (Return (- 1, None, sk, w))
    \<and> e2ee_mlkem_keygen os pk None w = Some (Return (- 1, pk, None, w))
    \<and> e2ee_mlkem_encapsulate os None ct ss w = Some (Return (- 1, ct, ss, w))
    \<and> e2ee_mlkem_decapsulate None ct ss = Some (- 1, ss) \<and> e2ee_mlkem_decapsulate sk None ss = Some (- 1, ss)
    \<and> e2ee_chacha20_seal ssl key nonce None len ctp tag m w' = (- 1, m, w')
    \<and> e2ee_hkdf_sha256 kdf None len salt salt_len info info_len okm okm_len v = (- 1, okm, v)
    \<and> e2ee_gzip_compress z None len zout out_max u = (0, zout, u)
    \<and> e2ee_gzip_decompress z None len zout out_max u = (0, zout, u)
    \<and> e2ee_random_bytes os None len w = Some Abort"
  using assms
  by (simp add: e2ee_mlkem_keygen_def e2ee_mlkem_encapsulate_def e2ee_mlkem_decapsulate_def e2ee_chacha20_seal_def
      chacha20_poly1305_def e2ee_hkdf_sha256_def e2ee_gzip_compress_def e2ee_gzip_decompress_def e2ee_random_bytes_def
      e2ee_secure_random_def)

theorem null_pointers_witness:
  "e2ee_mlkem_keygen (script_os []) None (Some [1]) [] = Some (Return (- 1, None, Some [1], []))
    \<and> e2ee_mlkem_keygen (script_os []) (Some [2]) None [] = Some (Return (- 1, Some [2], None, []))
    \<and> e2ee_mlkem_encapsulate (script_os []) None (Some [3]) (Some [4]) [] = Some (Return (- 1, Some [3], Some [4], []))
    \<and> e2ee_mlkem_decapsulate None (Some [3]) (Some [4]) = Some (- 1, Some [4]) \<and> e2ee_mlkem_decapsulate (Some [1]) None (Some [4]) = Some (- 1, Some [4])
    \<and> e2ee_chacha20_seal toy_cipher (Some 0) (Some 1) None 5 (Some 2) (Some 3) (\<lambda>a. []) 0 = (- 1, \<lambda>a. [], 0)
    \<and> e2ee_hkdf_sha256 toy_kdf None 5 None 0 None 0 (Some [9]) 1 0 = (- 1, Some [9], 0)
    \<and> e2ee_gzip_compress toy_zlib None 5 (Some [9]) 1 0 = (0, Some [9], 0)
    \<and> e2ee_gzip_decompress toy_zlib None 5 (Some [9]) 1 0 = (0, Some [9], 0)
    \<and> e2ee_random_bytes (script_os []) None 5 [] = Some Abort"
  by (rule null_pointers) simp

end
