(* ===== verification/Fips_Ctx.thy ===== *)
theory Fips_Ctx
  imports Sponge
begin

text \<open>
  The contexts of \<open>native/mlkem/common/fips202.c\<close> on the heap. In \<open>Sponge\<close> a context is a value; here it is
  the pointer the C structures hold, and every function allocates, reads, overwrites, copies or frees the
  block behind it. \<open>malloc\<close> hands out addresses in order and may fail at any of them; its memory is
  uninitialised. A program ends in \<open>Done\<close>, in \<open>Exit\<close> with a status, or in \<open>Undefined\<close>, the behaviour of C on
  a block that is not live.
\<close>

section \<open>Definitions\<close>

record heap =
  heap_blocks :: "nat \<rightharpoonup> u64 list"
  next_block :: nat
  junk :: "nat \<Rightarrow> u64"
  fails :: "nat \<Rightarrow> bool"

datatype 'a c_run = Done 'a heap | Exit int | Undefined

definition PQC_SHAKEINCCTX_BYTES :: nat where
  "PQC_SHAKEINCCTX_BYTES = 8 * 26"

definition PQC_SHAKECTX_BYTES :: nat where
  "PQC_SHAKECTX_BYTES = 8 * 25"

definition malloc :: "nat \<Rightarrow> heap \<Rightarrow> nat option \<times> heap" where
  "malloc n h = (let p = next_block h; h' = h\<lparr> next_block := Suc p \<rparr>
     in if fails h p then (None, h')
        else (Some p, h'\<lparr> heap_blocks := (heap_blocks h)(p \<mapsto> map (junk h) [0..<n div 8]) \<rparr>))"

definition free :: "nat \<Rightarrow> heap \<Rightarrow> unit c_run" where
  "free p h = (case heap_blocks h p of None \<Rightarrow> Undefined | Some b \<Rightarrow> Done () (h\<lparr> heap_blocks := (heap_blocks h)(p := None) \<rparr>))"

text \<open>Copying the first \<open>n\<close> bytes of a block to the start of another.\<close>

definition memcpy :: "nat \<Rightarrow> nat \<Rightarrow> nat \<Rightarrow> heap \<Rightarrow> unit c_run" where
  "memcpy dest src n h = (case (heap_blocks h dest, heap_blocks h src) of
       (Some d, Some s) \<Rightarrow>
         if length d < n div 8 \<or> length s < n div 8 then Undefined
         else Done () (h\<lparr> heap_blocks := (heap_blocks h)(dest \<mapsto> take (n div 8) s @ drop (n div 8) d) \<rparr>)
     | _ \<Rightarrow> Undefined)"

definition c_bind :: "'a c_run \<Rightarrow> ('a \<Rightarrow> heap \<Rightarrow> 'b c_run) \<Rightarrow> 'b c_run" where
  "c_bind x f = (case x of Done a h \<Rightarrow> f a h | Exit s \<Rightarrow> Exit s | Undefined \<Rightarrow> Undefined)"

text \<open>The incremental context as the 26 words of the block, the last one the position.\<close>

definition inc_words :: "keccak_inc \<Rightarrow> u64 list" where
  "inc_words c = inc_s c @ [inc_pos c]"

definition words_inc :: "u64 list \<Rightarrow> keccak_inc" where
  "words_inc b = \<lparr> inc_s = take 25 b, inc_pos = b ! 25 \<rparr>"

text \<open>A routine that runs on the words of a live block.\<close>

definition with_inc :: "nat \<Rightarrow> (keccak_inc \<Rightarrow> 'a \<times> keccak_inc) \<Rightarrow> heap \<Rightarrow> 'a c_run" where
  "with_inc p f h = (case heap_blocks h p of
       None \<Rightarrow> Undefined
     | Some b \<Rightarrow> if length b < 26 then Undefined
         else let (a, c) = f (words_inc b) in Done a (h\<lparr> heap_blocks := (heap_blocks h)(p \<mapsto> inc_words c @ drop 26 b) \<rparr>))"

definition inc_init_ctx :: "keccak_inc \<Rightarrow> heap \<Rightarrow> nat c_run" where
  "inc_init_ctx init h = (case malloc PQC_SHAKEINCCTX_BYTES h of
       (None, h) \<Rightarrow> Exit 111
     | (Some p, h) \<Rightarrow> c_bind (with_inc p (\<lambda>_. ((), init)) h) (\<lambda>_ h. Done p h))"

definition ctx_clone :: "nat \<Rightarrow> nat \<Rightarrow> heap \<Rightarrow> nat c_run" where
  "ctx_clone n src h = (case malloc n h of
       (None, h) \<Rightarrow> Exit 111
     | (Some dest, h) \<Rightarrow> c_bind (memcpy dest src n h) (\<lambda>_ h. Done dest h))"

definition shake128_inc_ctx_clone :: "nat \<Rightarrow> heap \<Rightarrow> nat c_run" where
  "shake128_inc_ctx_clone src h = ctx_clone PQC_SHAKEINCCTX_BYTES src h"
definition shake128_inc_ctx_release :: "nat \<Rightarrow> heap \<Rightarrow> unit c_run" where
  "shake128_inc_ctx_release p h = free p h"
definition shake256_inc_ctx_clone :: "nat \<Rightarrow> heap \<Rightarrow> nat c_run" where
  "shake256_inc_ctx_clone src h = ctx_clone PQC_SHAKEINCCTX_BYTES src h"
definition shake256_inc_ctx_release :: "nat \<Rightarrow> heap \<Rightarrow> unit c_run" where
  "shake256_inc_ctx_release p h = free p h"
definition shake128_ctx_clone :: "nat \<Rightarrow> heap \<Rightarrow> nat c_run" where
  "shake128_ctx_clone src h = ctx_clone PQC_SHAKECTX_BYTES src h"
definition shake128_ctx_release :: "nat \<Rightarrow> heap \<Rightarrow> unit c_run" where
  "shake128_ctx_release p h = free p h"
definition shake256_ctx_clone :: "nat \<Rightarrow> heap \<Rightarrow> nat c_run" where
  "shake256_ctx_clone src h = ctx_clone PQC_SHAKECTX_BYTES src h"
definition shake256_ctx_release :: "nat \<Rightarrow> heap \<Rightarrow> unit c_run" where
  "shake256_ctx_release p h = free p h"
definition sha3_256_inc_ctx_clone :: "nat \<Rightarrow> heap \<Rightarrow> nat c_run" where
  "sha3_256_inc_ctx_clone src h = ctx_clone PQC_SHAKEINCCTX_BYTES src h"
definition sha3_256_inc_ctx_release :: "nat \<Rightarrow> heap \<Rightarrow> unit c_run" where
  "sha3_256_inc_ctx_release p h = free p h"
definition sha3_384_inc_ctx_clone :: "nat \<Rightarrow> heap \<Rightarrow> nat c_run" where
  "sha3_384_inc_ctx_clone src h = ctx_clone PQC_SHAKEINCCTX_BYTES src h"
definition sha3_384_inc_ctx_release :: "nat \<Rightarrow> heap \<Rightarrow> unit c_run" where
  "sha3_384_inc_ctx_release p h = free p h"
definition sha3_512_inc_ctx_clone :: "nat \<Rightarrow> heap \<Rightarrow> nat c_run" where
  "sha3_512_inc_ctx_clone src h = ctx_clone PQC_SHAKEINCCTX_BYTES src h"
definition sha3_512_inc_ctx_release :: "nat \<Rightarrow> heap \<Rightarrow> unit c_run" where
  "sha3_512_inc_ctx_release p h = free p h"

text \<open>The functions of one hash on its contexts: init, absorb, clone, release and finalize.\<close>

record hash_ops =
  op_init :: "heap \<Rightarrow> nat c_run"
  op_absorb :: "nat \<Rightarrow> bytes \<Rightarrow> heap \<Rightarrow> unit c_run"
  op_clone :: "nat \<Rightarrow> heap \<Rightarrow> nat c_run"
  op_release :: "nat \<Rightarrow> heap \<Rightarrow> unit c_run"
  op_finalize :: "nat \<Rightarrow> heap \<Rightarrow> bytes c_run"

definition sha3_256_ops :: hash_ops where
  "sha3_256_ops = \<lparr> op_init = inc_init_ctx sha3_256_inc_init,
     op_absorb = (\<lambda>p input. with_inc p (\<lambda>c. ((), sha3_256_inc_absorb c input))),
     op_clone = sha3_256_inc_ctx_clone, op_release = sha3_256_inc_ctx_release,
     op_finalize = (\<lambda>p h. c_bind (with_inc p (\<lambda>c. (sha3_256_inc_finalize c, c)) h)
       (\<lambda>out h. c_bind (sha3_256_inc_ctx_release p h) (\<lambda>_ h. Done out h))) \<rparr>"

definition sha3_384_ops :: hash_ops where
  "sha3_384_ops = \<lparr> op_init = inc_init_ctx sha3_384_inc_init,
     op_absorb = (\<lambda>p input. with_inc p (\<lambda>c. ((), sha3_384_inc_absorb c input))),
     op_clone = sha3_384_inc_ctx_clone, op_release = sha3_384_inc_ctx_release,
     op_finalize = (\<lambda>p h. c_bind (with_inc p (\<lambda>c. (sha3_384_inc_finalize c, c)) h)
       (\<lambda>out h. c_bind (sha3_384_inc_ctx_release p h) (\<lambda>_ h. Done out h))) \<rparr>"

definition sha3_512_ops :: hash_ops where
  "sha3_512_ops = \<lparr> op_init = inc_init_ctx sha3_512_inc_init,
     op_absorb = (\<lambda>p input. with_inc p (\<lambda>c. ((), sha3_512_inc_absorb c input))),
     op_clone = sha3_512_inc_ctx_clone, op_release = sha3_512_inc_ctx_release,
     op_finalize = (\<lambda>p h. c_bind (with_inc p (\<lambda>c. (sha3_512_inc_finalize c, c)) h)
       (\<lambda>out h. c_bind (sha3_512_inc_ctx_release p h) (\<lambda>_ h. Done out h))) \<rparr>"

text \<open>A client: any sequence of calls. The contexts it holds are the addresses \<open>malloc\<close> has handed out.\<close>

datatype ctx_call = Init | Absorb nat bytes | Clone nat | Release nat | Finalize nat

fun run_calls :: "hash_ops \<Rightarrow> ctx_call list \<Rightarrow> heap \<Rightarrow> bytes list c_run" where
  "run_calls ops [] h = Done [] h"
| "run_calls ops (Init # cs) h = c_bind (op_init ops h) (\<lambda>_. run_calls ops cs)"
| "run_calls ops (Absorb p x # cs) h = c_bind (op_absorb ops p x h) (\<lambda>_. run_calls ops cs)"
| "run_calls ops (Clone p # cs) h = c_bind (op_clone ops p h) (\<lambda>_. run_calls ops cs)"
| "run_calls ops (Release p # cs) h = c_bind (op_release ops p h) (\<lambda>_. run_calls ops cs)"
| "run_calls ops (Finalize p # cs) h =
     c_bind (op_finalize ops p h) (\<lambda>out h. c_bind (run_calls ops cs h) (\<lambda>outs. Done (out # outs)))"

text \<open>What the calls mean: a context stands for the message absorbed into it, a copy for the same message.\<close>

fun spec_calls :: "(bytes \<Rightarrow> bytes) \<Rightarrow> ctx_call list \<Rightarrow> (nat \<rightharpoonup> bytes) \<Rightarrow> nat \<Rightarrow> (bytes list \<times> (nat \<rightharpoonup> bytes)) option" where
  "spec_calls hash [] msgs k = Some ([], msgs)"
| "spec_calls hash (Init # cs) msgs k = spec_calls hash cs (msgs(k \<mapsto> [])) (Suc k)"
| "spec_calls hash (Absorb p x # cs) msgs k =
     (case msgs p of None \<Rightarrow> None | Some m \<Rightarrow> spec_calls hash cs (msgs(p \<mapsto> m @ x)) k)"
| "spec_calls hash (Clone p # cs) msgs k =
     (case msgs p of None \<Rightarrow> None | Some m \<Rightarrow> spec_calls hash cs (msgs(k \<mapsto> m)) (Suc k))"
| "spec_calls hash (Release p # cs) msgs k =
     (case msgs p of None \<Rightarrow> None | Some m \<Rightarrow> spec_calls hash cs (msgs(p := None)) k)"
| "spec_calls hash (Finalize p # cs) msgs k =
     (case msgs p of None \<Rightarrow> None
      | Some m \<Rightarrow> map_option (\<lambda>(outs, msgs). (hash m # outs, msgs)) (spec_calls hash cs (msgs(p := None)) k))"


section \<open>Contexts as messages\<close>

lemmas ctx_simps = c_bind_def malloc_def free_def memcpy_def with_inc_def inc_init_ctx_def ctx_clone_def
  PQC_SHAKEINCCTX_BYTES_def PQC_SHAKECTX_BYTES_def

lemma inc_words [simp]:
  "length (inc_s c) = 25 \<Longrightarrow> length (inc_words c) = 26" "length (inc_s c) = 25 \<Longrightarrow> words_inc (inc_words c) = c"
  by (simp_all add: inc_words_def words_inc_def nth_append)

text \<open>The block of a context that has absorbed \<open>m\<close>.\<close>

definition message_block :: "nat \<Rightarrow> bytes \<Rightarrow> u64 list" where
  "message_block r m = inc_words (keccak_inc_absorb r keccak_inc_init m)"

lemma message_block:
  assumes "good_rate r"
  shows "length (message_block r m) = 26"
    and "words_inc (message_block r m) = keccak_inc_absorb r keccak_inc_init m"
    and "message_block r [] = inc_words keccak_inc_init"
    and "inc_words (keccak_inc_absorb r (keccak_inc_absorb r keccak_inc_init m) x) = message_block r (m @ x)"
proof -
  have "inc_ok r keccak_inc_init" "0 < r"
    using assms by (simp_all add: inc_ok_init good_rate_pos)
  then have ok: "length (inc_s (keccak_inc_absorb r keccak_inc_init m)) = 25" for m
    using keccak_inc_absorb_correct(1) [OF assms] unfolding inc_ok_def by blast
  then show "length (message_block r m) = 26"
    and w: "words_inc (message_block r m) = keccak_inc_absorb r keccak_inc_init m"
    by (simp_all add: message_block_def)
  show "message_block r [] = inc_words keccak_inc_init"
    using \<open>inc_ok r keccak_inc_init\<close> by (simp add: message_block_def keccak_inc_absorb_nil)
  show "inc_words (keccak_inc_absorb r (keccak_inc_absorb r keccak_inc_init m) x) = message_block r (m @ x)"
    using keccak_inc_absorb_append [OF assms \<open>inc_ok r keccak_inc_init\<close>] by (simp add: message_block_def)
qed

lemma sha3_inc_finalize:
  "sha3_256_inc_finalize (keccak_inc_absorb 136 keccak_inc_init m) = sha3_256 m"
  "sha3_384_inc_finalize (keccak_inc_absorb 104 keccak_inc_init m) = sha3_384 m"
  "sha3_512_inc_finalize (keccak_inc_absorb 72 keccak_inc_init m) = sha3_512 m"
proof -
  have p: "\<not> bit (0x06 :: u8) 7"
    by simp
  have h: "map (\<lambda>i. fst (keccak_squeezeblocks 1 (inc_s (keccak_inc_finalize r 6 (keccak_inc_absorb r keccak_inc_init m))) r) ! i) [0..<n]
      = sponge r 6 n m" if "good_rate r" "n \<le> r" for r n
    using keccak_inc_finalize_correct [OF that(1) p, of m] by (intro hash_correct [OF that(1) p that(2)]) (simp_all add: inc_ok_def)
  show "sha3_256_inc_finalize (keccak_inc_absorb 136 keccak_inc_init m) = sha3_256 m"
    "sha3_384_inc_finalize (keccak_inc_absorb 104 keccak_inc_init m) = sha3_384 m"
    "sha3_512_inc_finalize (keccak_inc_absorb 72 keccak_inc_init m) = sha3_512 m"
    using h [of 136 32] h [of 104 48] h [of 72 64]
    by (simp_all add: sha3_256_inc_finalize_def sha3_384_inc_finalize_def sha3_512_inc_finalize_def sha3_correct rates
        good_rate_def case_prod_beta Let_def del: keccak_squeezeblocks.simps)
qed

text \<open>
  The contract of the five functions, in terms of the generic ones: the same context layout, the rate of
  the hash, and a finalisation that computes the hash of the absorbed message.
\<close>

locale hash_contexts =
  fixes ops :: hash_ops and r :: nat and hash :: "bytes \<Rightarrow> bytes" and fin :: "keccak_inc \<Rightarrow> bytes"
  assumes rate: "good_rate r"
    and init: "op_init ops = inc_init_ctx keccak_inc_init"
    and absorb: "op_absorb ops p x = with_inc p (\<lambda>c. ((), keccak_inc_absorb r c x))"
    and clone: "op_clone ops = ctx_clone PQC_SHAKEINCCTX_BYTES"
    and release: "op_release ops = free"
    and finalize: "op_finalize ops p h =
      c_bind (with_inc p (\<lambda>c. (fin c, c)) h) (\<lambda>out h. c_bind (free p h) (\<lambda>_ h. Done out h))"
    and hash: "fin (keccak_inc_absorb r keccak_inc_init m) = hash m"
begin

text \<open>The live contexts of the client hold their messages, all other blocks are as they were.\<close>

definition holds :: "(nat \<rightharpoonup> u64 list) \<Rightarrow> (nat \<rightharpoonup> bytes) \<Rightarrow> heap \<Rightarrow> bool" where
  "holds others msgs h \<longleftrightarrow>
     (\<forall>p. heap_blocks h p = (case msgs p of None \<Rightarrow> others p | Some m \<Rightarrow> Some (message_block r m))) \<and>
     dom msgs \<inter> dom others = {} \<and> (\<forall>p \<in> dom msgs \<union> dom others. p < next_block h) \<and> (\<forall>p. \<not> fails h p)"

lemma holds_block: "holds others msgs h \<Longrightarrow> msgs p = Some m \<Longrightarrow> heap_blocks h p = Some (message_block r m)"
  by (simp add: holds_def)

lemma holds_upd:
  assumes "holds others msgs h" and "msgs p = Some m"
  shows "holds others (msgs(p \<mapsto> m')) (h\<lparr> heap_blocks := (heap_blocks h)(p \<mapsto> message_block r m') \<rparr>)"
    and "holds others (msgs(p := None)) (h\<lparr> heap_blocks := (heap_blocks h)(p := None) \<rparr>)"
  using assms by (auto simp: holds_def disjoint_iff dom_def split: option.split)

lemma holds_new:
  assumes "holds others msgs h"
  shows "holds others (msgs(next_block h \<mapsto> m))
    (h\<lparr> next_block := Suc (next_block h), heap_blocks := (heap_blocks h)(next_block h \<mapsto> message_block r m) \<rparr>)"
  using assms by (auto simp: holds_def less_Suc_eq split: option.split)

lemma holds_fresh: "holds others msgs h \<Longrightarrow> msgs p = Some m \<Longrightarrow> p \<noteq> next_block h"
  by (auto simp: holds_def)

lemma init_step:
  assumes "holds others msgs h"
  shows "op_init ops h = Done (next_block h)
    (h\<lparr> next_block := Suc (next_block h), heap_blocks := (heap_blocks h)(next_block h \<mapsto> message_block r []) \<rparr>)"
  using assms by (simp add: init ctx_simps message_block [OF rate] holds_def Let_def)

lemma absorb_step:
  assumes "holds others msgs h" and "msgs p = Some m"
  shows "op_absorb ops p x h = Done () (h\<lparr> heap_blocks := (heap_blocks h)(p \<mapsto> message_block r (m @ x)) \<rparr>)"
  using assms by (simp add: absorb with_inc_def holds_block message_block [OF rate])

lemma clone_step:
  assumes "holds others msgs h" and "msgs p = Some m"
  shows "op_clone ops p h = Done (next_block h)
    (h\<lparr> next_block := Suc (next_block h), heap_blocks := (heap_blocks h)(next_block h \<mapsto> message_block r m) \<rparr>)"
  using holds_block [OF assms] holds_fresh [OF assms] assms(1)
  by (simp add: clone ctx_simps message_block [OF rate] holds_def Let_def)

lemma release_step:
  assumes "holds others msgs h" and "msgs p = Some m"
  shows "op_release ops p h = Done () (h\<lparr> heap_blocks := (heap_blocks h)(p := None) \<rparr>)"
  using assms by (simp add: release free_def holds_block)

lemma finalize_step:
  assumes "holds others msgs h" and "msgs p = Some m"
  shows "op_finalize ops p h = Done (hash m) (h\<lparr> heap_blocks := (heap_blocks h)(p := None) \<rparr>)"
  using holds_block [OF assms] by (simp add: finalize with_inc_def free_def c_bind_def message_block [OF rate] hash)

theorem calls_refine:
  assumes "holds others msgs h" and "spec_calls hash cs msgs (next_block h) = Some (outs, msgs')"
  shows "\<exists>h'. run_calls ops cs h = Done outs h' \<and> holds others msgs' h'"
  using assms
proof (induction cs arbitrary: msgs h outs)
  case (Cons c cs)
  show ?case
  proof (cases c)
    case Init
    then show ?thesis
      using Cons.IH [OF holds_new [OF Cons.prems(1), of "[]"]] Cons.prems by (simp add: init_step c_bind_def del: fun_upd_apply)
  next
    case (Absorb p x)
    with Cons.prems obtain m where "msgs p = Some m"
      by (auto split: option.splits)
    then show ?thesis
      using Cons.IH [OF holds_upd(1) [OF Cons.prems(1), of p m "m @ x"]] Cons.prems Absorb by (simp add: absorb_step c_bind_def del: fun_upd_apply)
  next
    case (Clone p)
    with Cons.prems obtain m where "msgs p = Some m"
      by (auto split: option.splits)
    then show ?thesis
      using Cons.IH [OF holds_new [OF Cons.prems(1), of m]] Cons.prems Clone by (simp add: clone_step c_bind_def del: fun_upd_apply)
  next
    case (Release p)
    with Cons.prems obtain m where "msgs p = Some m"
      by (auto split: option.splits)
    then show ?thesis
      using Cons.IH [OF holds_upd(2) [OF Cons.prems(1), of p m]] Cons.prems Release by (simp add: release_step c_bind_def del: fun_upd_apply)
  next
    case (Finalize p)
    with Cons.prems obtain m outs' where m: "msgs p = Some m" "outs = hash m # outs'"
      "spec_calls hash cs (msgs(p := None)) (next_block h) = Some (outs', msgs')"
      by (auto split: option.splits)
    then show ?thesis
      using Cons.IH [OF holds_upd(2) [OF Cons.prems(1) m(1)], of outs'] Cons.prems(1) Finalize
      by (auto simp: finalize_step c_bind_def simp del: fun_upd_apply)
  qed
qed simp

end

interpretation sha3_256_contexts: hash_contexts sha3_256_ops 136 sha3_256 sha3_256_inc_finalize
  by unfold_locales
    (simp_all add: sha3_256_ops_def good_rate_def sha3_256_inc_init_def sha3_256_inc_absorb_def sha3_256_inc_ctx_clone_def
      sha3_256_inc_ctx_release_def sha3_inc_finalize rates fun_eq_iff)

interpretation sha3_384_contexts: hash_contexts sha3_384_ops 104 sha3_384 sha3_384_inc_finalize
  by unfold_locales
    (simp_all add: sha3_384_ops_def good_rate_def sha3_384_inc_init_def sha3_384_inc_absorb_def sha3_384_inc_ctx_clone_def
      sha3_384_inc_ctx_release_def sha3_inc_finalize rates fun_eq_iff)

interpretation sha3_512_contexts: hash_contexts sha3_512_ops 72 sha3_512 sha3_512_inc_finalize
  by unfold_locales
    (simp_all add: sha3_512_ops_def good_rate_def sha3_512_inc_init_def sha3_512_inc_absorb_def sha3_512_inc_ctx_clone_def
      sha3_512_inc_ctx_release_def sha3_inc_finalize rates fun_eq_iff)


section \<open>Properties\<close>

text \<open>
  C12. The contexts of the incremental SHA-3 functions (\<open>fips202.c\<close>) behave as the messages absorbed into
  them. For every sequence of init, absorb, clone, release and finalize calls on live contexts, while
  \<open>malloc\<close> succeeds, the program runs without undefined behaviour, every finalize returns the SHA-3 digest
  of everything absorbed into that context or into the context it was cloned from before the cloning, and
  afterwards exactly the contexts that were neither finalized nor released are still allocated: nothing
  leaks and no other block changes.
\<close>

theorem sha3_contexts:
  assumes "\<forall>p \<in> dom (heap_blocks h). p < next_block h" and "\<forall>p. \<not> fails h p"
    and "(ops, r, hash) \<in> {(sha3_256_ops, 136, sha3_256), (sha3_384_ops, 104, sha3_384), (sha3_512_ops, 72, sha3_512)}"
    and "spec_calls hash cs Map.empty (next_block h) = Some (outs, msgs)"
  shows "\<exists>h'. run_calls ops cs h = Done outs h' \<and>
    (\<forall>p. heap_blocks h' p = (case msgs p of None \<Rightarrow> heap_blocks h p | Some m \<Rightarrow> Some (message_block r m)))"
proof -
  have "sha3_256_contexts.holds (heap_blocks h) Map.empty h" "sha3_384_contexts.holds (heap_blocks h) Map.empty h"
    "sha3_512_contexts.holds (heap_blocks h) Map.empty h"
    using assms(1,2) by (simp_all add: sha3_256_contexts.holds_def sha3_384_contexts.holds_def sha3_512_contexts.holds_def)
  note refine = sha3_256_contexts.calls_refine [OF this(1)] sha3_384_contexts.calls_refine [OF this(2)]
    sha3_512_contexts.calls_refine [OF this(3)]
  from assms(3) consider "ops = sha3_256_ops" "r = 136" "hash = sha3_256" | "ops = sha3_384_ops" "r = 104" "hash = sha3_384"
    | "ops = sha3_512_ops" "r = 72" "hash = sha3_512"
    by auto
  then show ?thesis
  proof cases
    case 1
    then show ?thesis
      using refine(1) assms(4) unfolding sha3_256_contexts.holds_def by fast
  next
    case 2
    then show ?thesis
      using refine(2) assms(4) unfolding sha3_384_contexts.holds_def by fast
  next
    case 3
    then show ?thesis
      using refine(3) assms(4) unfolding sha3_512_contexts.holds_def by fast
  qed
qed

theorem sha3_contexts_witness:
  "\<exists>h'. run_calls sha3_256_ops [Init, Absorb 0 [1], Clone 0, Absorb 0 [2], Absorb 1 [3], Finalize 0, Finalize 1]
      \<lparr> heap_blocks = Map.empty, next_block = 0, junk = (\<lambda>i. 5), fails = (\<lambda>p. False) \<rparr>
    = Done [sha3_256 [1, 2], sha3_256 [1, 3]] h' \<and>
    (\<forall>p. heap_blocks h' p = (case Map.empty p of None \<Rightarrow> heap_blocks \<lparr> heap_blocks = Map.empty, next_block = 0, junk = (\<lambda>i. 5), fails = (\<lambda>p. False) \<rparr> p
       | Some m \<Rightarrow> Some (message_block 136 m)))"
  by (rule sha3_contexts [where hash = sha3_256]) (simp_all add: fun_eq_iff)

text \<open>
  All seven clone functions (\<open>fips202.c\<close>) make an independent copy: for a live context of the right
  size, cloning returns a new block with the same words and leaves every other block alone; if \<open>malloc\<close>
  fails the process exits with status 111, and nothing else happens.
\<close>

theorem clone_copies:
  assumes "heap_blocks h p = Some b" and "p \<noteq> next_block h"
    and "(clone, n) \<in> {(shake128_inc_ctx_clone, 26), (shake256_inc_ctx_clone, 26), (shake128_ctx_clone, 25), (shake256_ctx_clone, 25),
      (sha3_256_inc_ctx_clone, 26), (sha3_384_inc_ctx_clone, 26), (sha3_512_inc_ctx_clone, 26)}"
    and "length b = n"
  shows "clone p h = (if fails h (next_block h) then Exit 111
    else Done (next_block h) (h\<lparr> next_block := Suc (next_block h), heap_blocks := (heap_blocks h)(next_block h \<mapsto> b) \<rparr>))"
proof -
  have "ctx_clone (8 * n) p h = (if fails h (next_block h) then Exit 111
    else Done (next_block h) (h\<lparr> next_block := Suc (next_block h), heap_blocks := (heap_blocks h)(next_block h \<mapsto> b) \<rparr>))"
    using assms(1,2,4) by (simp add: ctx_simps Let_def)
  moreover have "clone p h = ctx_clone (8 * n) p h"
    using assms(3)
    by (auto simp: shake128_inc_ctx_clone_def shake256_inc_ctx_clone_def shake128_ctx_clone_def shake256_ctx_clone_def
        sha3_256_inc_ctx_clone_def sha3_384_inc_ctx_clone_def sha3_512_inc_ctx_clone_def
        PQC_SHAKEINCCTX_BYTES_def PQC_SHAKECTX_BYTES_def)
  ultimately show ?thesis
    by simp
qed

theorem clone_copies_witness:
  "shake128_ctx_clone 0 \<lparr> heap_blocks = [0 \<mapsto> replicate 25 7], next_block = 1, junk = (\<lambda>i. 5), fails = (\<lambda>p. p = 1) \<rparr> =
    (if fails \<lparr> heap_blocks = [0 \<mapsto> replicate 25 7], next_block = 1, junk = (\<lambda>i. 5), fails = (\<lambda>p. p = 1) \<rparr>
          (next_block \<lparr> heap_blocks = [0 \<mapsto> replicate 25 7], next_block = 1, junk = (\<lambda>i. 5), fails = (\<lambda>p. p = 1) \<rparr>) then Exit 111
     else Done 1 (\<lparr> heap_blocks = [0 \<mapsto> replicate 25 7, 1 \<mapsto> replicate 25 7], next_block = 2, junk = (\<lambda>i. 5), fails = (\<lambda>p. p = 1) \<rparr>))"
  using clone_copies [of "\<lparr> heap_blocks = [0 \<mapsto> replicate 25 7], next_block = 1, junk = (\<lambda>i. 5), fails = (\<lambda>p. p = 1) \<rparr>" 0
      "replicate 25 7" shake128_ctx_clone 25] by simp

end
