(* ===== verification/Calls.thy ===== *)
theory Calls
  imports Api
begin

text \<open>
  Calls of the exported functions as their clients make them: the self-test program and the Lua code of the
  proxy own the buffers they pass. A client is a function on the states of the operating system and the
  libraries; it may fail to return or abort, like the functions it calls.
\<close>

unbundle bit_operations_syntax

section \<open>Clients of the library\<close>

record ('w, 'k, 'c, 'v, 'd, 'p, 'x, 's, 'u) libs =
  lib_os :: "'w os"
  lib_ssl :: "('k, 'c, 'v) evp_cipher"
  lib_kdf :: "('d, 'p, 'x) evp_kdf"
  lib_z :: "('s, 'u) zlib"

record ('w, 'v, 'x, 'u) native =
  w_os :: 'w
  w_ssl :: 'v
  w_kdf :: 'x
  w_z :: 'u

type_synonym ('st, 'a) call = "'st \<Rightarrow> ('a \<times> 'st) outcome option"

definition tret :: "'a \<Rightarrow> ('st, 'a) call" where
  "tret a st = Some (Return (a, st))"

definition tbind :: "('st, 'a) call \<Rightarrow> ('a \<Rightarrow> ('st, 'b) call) \<Rightarrow> ('st, 'b) call" where
  "tbind m f st = (case m st of
       None \<Rightarrow> None
     | Some Abort \<Rightarrow> Some Abort
     | Some (Return (a, st)) \<Rightarrow> f a st)"

lemma tbind_assoc: "tbind (tbind m f) g = tbind m (\<lambda>a. tbind (f a) g)"
  by (rule ext) (simp add: tbind_def split: option.split outcome.split prod.split)

lemma tbind_split: "tbind (case p of (a, b) \<Rightarrow> f a b) g = (case p of (a, b) \<Rightarrow> tbind (f a b) g)"
  by (cases p) simp

lemma tbind_tret: "tbind (tret a) f = f a"
  by (rule ext) (simp add: tbind_def tret_def)

section \<open>The calls\<close>

definition do_random where
  "do_random L out n st = (case e2ee_random_bytes (lib_os L) (Some out) n (w_os st) of
       None \<Rightarrow> None
     | Some Abort \<Rightarrow> Some Abort
     | Some (Return (out, w)) \<Rightarrow> Some (Return (the out, st\<lparr> w_os := w \<rparr>)))"

definition do_keygen where
  "do_keygen L pk sk st = (case e2ee_mlkem_keygen (lib_os L) (Some pk) (Some sk) (w_os st) of
       None \<Rightarrow> None
     | Some Abort \<Rightarrow> Some Abort
     | Some (Return (rc, pk, sk, w)) \<Rightarrow> Some (Return ((rc, the pk, the sk), st\<lparr> w_os := w \<rparr>)))"

definition do_encapsulate where
  "do_encapsulate L pk ct ss st = (case e2ee_mlkem_encapsulate (lib_os L) (Some pk) (Some ct) (Some ss) (w_os st) of
       None \<Rightarrow> None
     | Some Abort \<Rightarrow> Some Abort
     | Some (Return (rc, ct, ss, w)) \<Rightarrow> Some (Return ((rc, the ct, the ss), st\<lparr> w_os := w \<rparr>)))"

definition do_decapsulate where
  "do_decapsulate sk ct ss st = (case e2ee_mlkem_decapsulate (Some sk) (Some ct) (Some ss) of
       None \<Rightarrow> None
     | Some (rc, ss) \<Rightarrow> Some (Return ((rc, the ss), st)))"

definition do_hkdf where
  "do_hkdf L ikm ikm_len salt salt_len info info_len okm okm_len st =
     (let (rc, okm, x) = e2ee_hkdf_sha256 (lib_kdf L) (Some ikm) ikm_len salt salt_len info info_len (Some okm) okm_len (w_kdf st)
      in Some (Return ((rc, the okm), st\<lparr> w_kdf := x \<rparr>)))"

definition do_seal where
  "do_seal L key nonce pt n ct tag st =
     (let (rc, m, v) = e2ee_chacha20_seal (lib_ssl L) (Some 0) (Some 1) (Some 2) n (Some 3) (Some 4) (buffers [key, nonce, pt, ct, tag]) (w_ssl st)
      in Some (Return ((rc, m 3, m 4), st\<lparr> w_ssl := v \<rparr>)))"

definition do_open where
  "do_open L key nonce ct n tag pt st =
     (let (rc, m, v) = e2ee_chacha20_open (lib_ssl L) (Some 0) (Some 1) (Some 2) n (Some 3) (Some 4) (buffers [key, nonce, ct, tag, pt]) (w_ssl st)
      in Some (Return ((rc, m 4), st\<lparr> w_ssl := v \<rparr>)))"

definition do_compress where
  "do_compress L inp n out out_max st =
     (let (k, out, u) = e2ee_gzip_compress (lib_z L) (Some inp) n (Some out) out_max (w_z st)
      in Some (Return ((k, the out), st\<lparr> w_z := u \<rparr>)))"

definition do_decompress where
  "do_decompress L inp n out out_max st =
     (let (k, out, u) = e2ee_gzip_decompress (lib_z L) (Some inp) n (Some out) out_max (w_z st)
      in Some (Return ((k, the out), st\<lparr> w_z := u \<rparr>)))"

section \<open>What the libraries promise their clients\<close>

text \<open>Little-endian, as in the trailer of a gzip stream.\<close>

definition le32 :: "u32 \<Rightarrow> bytes" where
  "le32 w = [ucast w, ucast (drop_bit 8 w), ucast (drop_bit 16 w), ucast (drop_bit 24 w)]"

text \<open>
  What callers rely on beyond the round trip: the format of RFC 1952 (the magic bytes, the length of
  the input in the last four bytes), the bound zlib documents for the size of its output, and that data
  starting with a zero byte are neither gzip nor zlib data.
\<close>

definition gzip_format :: "('s, 'u) zlib \<Rightarrow> (bytes \<Rightarrow> bytes) \<Rightarrow> bool" where
  "gzip_format z gz \<longleftrightarrow>
     (\<forall>x. gz x ! 0 = 0x1f \<and> gz x ! 1 = 0x8b \<and> drop (length (gz x) - 4) (gz x) = le32 (of_nat (length x))) \<and>
     (\<forall>x. length (gz x) \<le> length x + length x div 2 ^ 12 + length x div 2 ^ 14 + length x div 2 ^ 25 + 64) \<and>
     (\<forall>w s0 w' inp n out k. inflateInit2 z zeroed 47 w = (Z_OK z, s0, w') \<longrightarrow>
        (let s = s0\<lparr> next_in := inp, avail_in := n, next_out := out, avail_out := k \<rparr>
         in stream_data s \<noteq> [] \<and> hd (stream_data s) = 0 \<longrightarrow> fst (inflate z s (Z_FINISH z)) \<noteq> Z_STREAM_END z))"

text \<open>An entropy source that works: \<open>n\<close> bytes are drawn from the operating system by \<open>rnd n\<close>.\<close>

definition entropy :: "'w os \<Rightarrow> (nat \<Rightarrow> 'w \<Rightarrow> bytes \<times> 'w) \<Rightarrow> bool" where
  "entropy os rnd \<longleftrightarrow> (\<forall>out n w. length out = n \<longrightarrow>
     e2ee_secure_random os (Some out) n w = Some (0, Some (fst (rnd n w)), snd (rnd n w)) \<and> length (fst (rnd n w)) = n)"

lemma entropyD:
  assumes "entropy os rnd" and "length out = n"
  shows "e2ee_random_bytes os (Some out) n w = Some (Return (Some (fst (rnd n w)), snd (rnd n w)))"
    and "PQCLEAN_randombytes os (Some out) n w = Some (Return (0, Some (fst (rnd n w)), snd (rnd n w)))"
    and "length (fst (rnd n w)) = n"
  using assms unfolding entropy_def by (auto simp: e2ee_random_bytes_def PQCLEAN_randombytes_def)

text \<open>The documented behaviour of everything outside the repository.\<close>

definition libs_laws where
  "libs_laws L rnd cview ks mac kview hmac gz \<longleftrightarrow>
     entropy (lib_os L) rnd \<and>
     evp_laws (lib_ssl L) cview ks mac \<and> evp_total (lib_ssl L) cview mac \<and>
     kdf_laws (lib_kdf L) kview hmac \<and> kdf_total (lib_kdf L) \<and>
     zlib_laws (lib_z L) gz \<and> zlib_total (lib_z L) \<and> gzip_format (lib_z L) gz"

lemma libs_lawsD:
  assumes "libs_laws L rnd cview ks mac kview hmac gz"
  shows "entropy (lib_os L) rnd" "evp_laws (lib_ssl L) cview ks mac" "evp_total (lib_ssl L) cview mac"
    "kdf_laws (lib_kdf L) kview hmac" "kdf_total (lib_kdf L)" "zlib_laws (lib_z L) gz" "zlib_total (lib_z L)" "gzip_format (lib_z L) gz"
  using assms by (simp_all add: libs_laws_def)

section \<open>The results of the calls\<close>

lemma do_random_eq:
  assumes "entropy (lib_os L) rnd" and "length out = n"
  shows "do_random L out n st = Some (Return (fst (rnd n (w_os st)), st\<lparr> w_os := snd (rnd n (w_os st)) \<rparr>))"
  using entropyD(1) [OF assms] by (simp add: do_random_def)

lemma do_keygen_eq:
  assumes os: "entropy (lib_os L) rnd" and "length pk0 = 1184" and "length sk0 = 2400"
  shows "do_keygen L pk0 sk0 st = (case crypto_kem_keypair_derand (fst (rnd 64 (w_os st))) of
      None \<Rightarrow> None
    | Some (pk, sk) \<Rightarrow> Some (Return ((0, pk, sk), st\<lparr> w_os := snd (rnd 64 (w_os st)) \<rparr>)))"
proof -
  have "length (fst (rnd 64 (w_os st))) = 64"
    using entropyD(3) [OF os, of "replicate 64 0" 64 "w_os st"] by simp
  note len = kem_keypair_length [OF _ this]
  have "crypto_kem_keypair (lib_os L) (w_os st) = (case crypto_kem_keypair_derand (fst (rnd 64 (w_os st))) of
      None \<Rightarrow> None | Some (pk, sk) \<Rightarrow> Some (Return (0, pk, sk, snd (rnd 64 (w_os st)))))"
    using entropyD(2) [OF os, of "replicate 64 0" 64 "w_os st"] by (simp add: crypto_kem_keypair_def params Let_def)
  then show ?thesis
    using len assms(2,3)
    by (auto simp: do_keygen_def e2ee_mlkem_keygen_def mlkem_keypair_def write_at_all split: option.split)
qed

lemma do_encapsulate_eq:
  assumes os: "entropy (lib_os L) rnd" and "length pk = 1184" and "length ct0 = 1088" and "length ss0 = 32"
  shows "do_encapsulate L pk ct0 ss0 st = (case crypto_kem_enc_derand pk (fst (rnd 32 (w_os st))) of
      None \<Rightarrow> None
    | Some (ct, ss) \<Rightarrow> Some (Return ((0, ct, ss), st\<lparr> w_os := snd (rnd 32 (w_os st)) \<rparr>)))"
proof -
  have "length (fst (rnd 32 (w_os st))) = 32"
    using entropyD(3) [OF os, of "replicate 32 0" 32 "w_os st"] by simp
  note len = kem_enc_length [OF _ this assms(2)]
  have "crypto_kem_enc (lib_os L) pk (w_os st) = (case crypto_kem_enc_derand pk (fst (rnd 32 (w_os st))) of
      None \<Rightarrow> None | Some (ct, ss) \<Rightarrow> Some (Return (0, ct, ss, snd (rnd 32 (w_os st)))))"
    using entropyD(2) [OF os, of "replicate 32 0" 32 "w_os st"] by (simp add: crypto_kem_enc_def params Let_def)
  then show ?thesis
    using len assms(3,4)
    by (auto simp: do_encapsulate_def e2ee_mlkem_encapsulate_def mlkem_enc_def write_at_all split: option.split)
qed

lemma do_decapsulate_eq:
  assumes "length ct = 1088" and "length sk = 2400" and "length ss0 = 32"
  shows "do_decapsulate sk ct ss0 st = (case crypto_kem_dec ct sk of None \<Rightarrow> None | Some ss \<Rightarrow> Some (Return ((0, ss), st)))"
  using decapsulate_eq [OF assms] by (auto simp: do_decapsulate_def split: option.split)

lemma do_hkdf_eq:
  assumes laws: "kdf_laws (lib_kdf L) view hmac" "kdf_total (lib_kdf L)"
    and args: "salt_len = 0 \<or> salt = Some s" "info_len = 0 \<or> info = Some i"
      "0 < ikm_len" "ikm_len \<le> INT_MAX" "salt_len \<le> INT_MAX" "info_len \<le> INT_MAX" "0 < n" "n \<le> 8160" "n \<le> length out"
  shows "\<exists>x. do_hkdf L ikm ikm_len salt salt_len info info_len out n st = Some (Return ((0,
    hkdf (hmac (EVP_sha256 (lib_kdf L))) (take salt_len s) (take ikm_len ikm) (take info_len i) n @ drop n out), st\<lparr> w_kdf := x \<rparr>))"
proof -
  obtain okm x where call: "e2ee_hkdf_sha256 (lib_kdf L) (Some ikm) ikm_len salt salt_len info info_len (Some out) n (w_kdf st) = (0, Some okm, x)"
    and okm: "drop n okm = drop n out" "take n okm = hkdf (hmac (EVP_sha256 (lib_kdf L))) (take salt_len s) (take ikm_len ikm) (take info_len i) n"
    using hkdf_correct [OF laws args] by blast
  have "okm = take n okm @ drop n okm"
    by simp
  with call okm show ?thesis
    by (auto simp: do_hkdf_def)
qed

lemma do_seal_eq:
  assumes "evp_laws (lib_ssl L) view ks mac" and "evp_total (lib_ssl L) view mac" and "n \<le> length pt" and "n \<le> length ct"
    and "aead_seal ks mac (take 32 key) (take 12 nonce) (take n pt) = (c, t)"
  shows "\<exists>v. do_seal L key nonce pt n ct tag st = Some (Return ((0, write_at ct 0 c, write_at tag 0 t), st\<lparr> w_ssl := v \<rparr>))"
  using seal_correct [OF assms(1,2), of n "buffers [key, nonce, pt, ct, tag]" 2 3 4 0 1 c t "w_ssl st"] assms(3-)
  by (auto simp: buffers_def do_seal_def)

lemma do_open_eq:
  assumes "evp_laws (lib_ssl L) view ks mac" and "evp_total (lib_ssl L) view mac" and "n \<le> length ct" and "n \<le> length pt"
  shows "\<exists>v. do_open L key nonce ct n tag pt st = Some (Return (
    (case aead_open ks mac (take 32 key) (take 12 nonce) (take n ct) (take 16 tag) of
       Some p \<Rightarrow> (0, write_at pt 0 p) | None \<Rightarrow> (- 1, write_at pt 0 (replicate n 0))), st\<lparr> w_ssl := v \<rparr>))"
  using open_correct [OF assms(1,2), of n "buffers [key, nonce, ct, tag, pt]" 2 4 0 1 3 "w_ssl st"] assms(3-)
  by (auto simp: buffers_def do_open_def split: option.splits)

lemma do_compress_eq:
  assumes "zlib_laws (lib_z L) gz" and "zlib_total (lib_z L)" and "n \<le> UINT_MAX" and "n \<le> length b"
    and "0 < om" and "om \<le> UINT_MAX" and "om \<le> length out"
  shows "\<exists>k out' u. do_compress L b n out om st = Some (Return ((k, out'), st\<lparr> w_z := u \<rparr>)) \<and> length out' = length out \<and>
    (if length (gz (take n b)) \<le> om then k = length (gz (take n b)) \<and> take k out' = gz (take n b) else k = 0)"
proof -
  from compress_correct [OF assms, of "w_z st"] show ?thesis
    unfolding do_compress_def by (elim exE conjE) (intro exI conjI, simp_all)
qed

lemma do_decompress_eq:
  assumes "zlib_laws (lib_z L) gz" and "zlib_total (lib_z L)" and "n \<le> UINT_MAX" and "take n b = gz x"
    and "0 < om" and "om \<le> UINT_MAX" and "om \<le> length out"
  shows "\<exists>k out' u. do_decompress L b n out om st = Some (Return ((k, out'), st\<lparr> w_z := u \<rparr>)) \<and> length out' = length out \<and>
    (if length x \<le> om then k = length x \<and> take k out' = x else k = 0)"
proof -
  from decompress_correct [OF assms, of "w_z st"] show ?thesis
    unfolding do_decompress_def by (elim exE conjE) (intro exI conjI, simp_all)
qed

section \<open>Clients that succeed\<close>

text \<open>
  \<open>yields w m R w'\<close>: from the state \<open>w\<close> of the operating system and any states of the libraries, \<open>m\<close> returns
  with a result in \<open>R\<close> and leaves the operating system in \<open>w'\<close>.
\<close>

definition yields :: "'w \<Rightarrow> (('w, 'v, 'x, 'u, 'z) native_scheme, 'a) call \<Rightarrow> ('a \<Rightarrow> bool) \<Rightarrow> 'w \<Rightarrow> bool" where
  "yields w m R w' \<longleftrightarrow> (\<forall>st. w_os st = w \<longrightarrow> (\<exists>a st'. m st = Some (Return (a, st')) \<and> R a \<and> w_os st' = w'))"

named_theorems calls "the results of the calls"

lemma yieldsD: "yields w m R w' \<Longrightarrow> w_os st = w \<Longrightarrow> \<exists>a st'. m st = Some (Return (a, st')) \<and> R a \<and> w_os st' = w'"
  unfolding yields_def by blast

lemma yields_bind:
  assumes "yields w m R w1" and "\<And>a. R a \<Longrightarrow> yields w1 (f a) Q w2"
  shows "yields w (tbind m f) Q w2"
  unfolding yields_def
proof (intro allI impI)
  fix st :: "('a, 'b, 'c, 'd, 'e) native_scheme"
  assume "w_os st = w"
  with assms(1) obtain a st1 where m: "m st = Some (Return (a, st1))" "R a" "w_os st1 = w1"
    unfolding yields_def by blast
  with assms(2) [OF m(2)] obtain b st2 where "f a st1 = Some (Return (b, st2))" "Q b" "w_os st2 = w2"
    unfolding yields_def by blast
  with m show "\<exists>b st'. tbind m f st = Some (Return (b, st')) \<and> Q b \<and> w_os st' = w2"
    by (simp add: tbind_def)
qed

lemma yields_tret: "R a \<Longrightarrow> yields w (tret a) R w"
  by (simp add: yields_def tret_def)

lemma yields_weaken: "yields w m R w' \<Longrightarrow> (\<And>a. R a \<Longrightarrow> Q a) \<Longrightarrow> yields w m Q w'"
  unfolding yields_def by blast

lemma yields_random [calls]:
  assumes "entropy (lib_os L) rnd" and "length out = n"
  shows "yields w (do_random L out n) (\<lambda>bs. bs = fst (rnd n w)) (snd (rnd n w))"
  by (simp add: yields_def do_random_eq [OF assms])

lemma yields_keygen [calls]:
  assumes "entropy (lib_os L) rnd" and "length pk0 = 1184" and "length sk0 = 2400"
    and "crypto_kem_keypair_derand (fst (rnd 64 w)) = Some (pk, sk)"
  shows "yields w (do_keygen L pk0 sk0) (\<lambda>r. r = (0, pk, sk)) (snd (rnd 64 w))"
  using assms(4) by (simp add: yields_def do_keygen_eq [OF assms(1-3)])

lemma yields_encapsulate [calls]:
  assumes "entropy (lib_os L) rnd" and "length pk = 1184" and "length ct0 = 1088" and "length ss0 = 32"
    and "crypto_kem_enc_derand pk (fst (rnd 32 w)) = Some (ct, ss)"
  shows "yields w (do_encapsulate L pk ct0 ss0) (\<lambda>r. r = (0, ct, ss)) (snd (rnd 32 w))"
  using assms(5) by (simp add: yields_def do_encapsulate_eq [OF assms(1-4)])

lemma yields_decapsulate [calls]:
  assumes "length ct = 1088" and "length sk = 2400" and "length ss0 = 32" and "crypto_kem_dec ct sk = Some ss"
  shows "yields w (do_decapsulate sk ct ss0) (\<lambda>r. r = (0, ss)) w"
  using assms(4) by (simp add: yields_def do_decapsulate_eq [OF assms(1-3)])

lemma yields_hkdf [calls]:
  assumes "kdf_laws (lib_kdf L) view hmac" "kdf_total (lib_kdf L)"
    and "salt_len = 0 \<or> salt = Some s" "info_len = 0 \<or> info = Some i"
      "0 < ikm_len" "ikm_len \<le> INT_MAX" "salt_len \<le> INT_MAX" "info_len \<le> INT_MAX" "0 < n" "n \<le> 8160" "n \<le> length out"
  shows "yields w (do_hkdf L ikm ikm_len salt salt_len info info_len out n) (\<lambda>r. r = (0,
    hkdf (hmac (EVP_sha256 (lib_kdf L))) (take salt_len s) (take ikm_len ikm) (take info_len i) n @ drop n out)) w"
  unfolding yields_def using do_hkdf_eq [OF assms] by fastforce

lemma yields_seal [calls]:
  assumes "evp_laws (lib_ssl L) view ks mac" and "evp_total (lib_ssl L) view mac" and "n \<le> length pt" and "n \<le> length ct"
    and "aead_seal ks mac (take 32 key) (take 12 nonce) (take n pt) = (c, t)"
  shows "yields w (do_seal L key nonce pt n ct tag) (\<lambda>r. r = (0, write_at ct 0 c, write_at tag 0 t)) w"
  unfolding yields_def using do_seal_eq [OF assms] by fastforce

lemma yields_open [calls]:
  assumes "evp_laws (lib_ssl L) view ks mac" and "evp_total (lib_ssl L) view mac" and "n \<le> length ct" and "n \<le> length pt"
  shows "yields w (do_open L key nonce ct n tag pt) (\<lambda>r. r =
    (case aead_open ks mac (take 32 key) (take 12 nonce) (take n ct) (take 16 tag) of
       Some p \<Rightarrow> (0, write_at pt 0 p) | None \<Rightarrow> (- 1, write_at pt 0 (replicate n 0)))) w"
  unfolding yields_def using do_open_eq [OF assms] by fastforce

lemma yields_compress [calls]:
  assumes "zlib_laws (lib_z L) gz" and "zlib_total (lib_z L)" and "n \<le> UINT_MAX" and "n \<le> length b"
    and "0 < om" and "om \<le> UINT_MAX" and "om \<le> length out"
  shows "yields w (do_compress L b n out om) (\<lambda>(k, out'). length out' = length out \<and>
    (if length (gz (take n b)) \<le> om then k = length (gz (take n b)) \<and> take k out' = gz (take n b) else k = 0)) w"
  unfolding yields_def using do_compress_eq [OF assms] by fastforce

lemma yields_decompress [calls]:
  assumes "zlib_laws (lib_z L) gz" and "zlib_total (lib_z L)" and "n \<le> UINT_MAX" and "take n b = gz x"
    and "0 < om" and "om \<le> UINT_MAX" and "om \<le> length out"
  shows "yields w (do_decompress L b n out om) (\<lambda>(k, out'). length out' = length out \<and>
    (if length x \<le> om then k = length x \<and> take k out' = x else k = 0)) w"
  unfolding yields_def using do_decompress_eq [OF assms] by fastforce

section \<open>Libraries that satisfy the laws\<close>

definition framed_gz :: "bytes \<Rightarrow> bytes" where
  "framed_gz x = [0x1f, 0x8b] @ replicate 12 0 @ x @ le32 (of_nat (length x))"

definition framed_gunzip :: "bytes \<Rightarrow> bytes option" where
  "framed_gunzip y = (if length y < 18 \<or> hd y \<noteq> 0x1f then None else Some (take (length y - 18) (drop 14 y)))"

definition framed_zlib :: "(unit, int) zlib" where
  "framed_zlib = toy_zlib\<lparr> deflate := toy_finish (\<lambda>x. Some (framed_gz x)), inflate := toy_finish framed_gunzip \<rparr>"

lemma framed_gz:
  "length (framed_gz x) = length x + 18" "framed_gunzip (framed_gz x) = Some x"
  "drop (14 + length x) (framed_gz x) = le32 (of_nat (length x))"
proof -
  show len: "length (framed_gz x) = length x + 18"
    by (simp add: framed_gz_def le32_def)
  show "framed_gunzip (framed_gz x) = Some x"
    unfolding framed_gunzip_def len by (simp add: framed_gz_def)
  have "framed_gz x = ([0x1f, 0x8b] @ replicate 12 0 @ x) @ le32 (of_nat (length x))"
    by (simp add: framed_gz_def)
  moreover have "length ([0x1f, 0x8b :: u8] @ replicate 12 0 @ x) = 14 + length x"
    by simp
  ultimately show "drop (14 + length x) (framed_gz x) = le32 (of_nat (length x))"
    by (metis append_eq_conv_conj)
qed

lemma framed_finish:
  "stores_well framed_zlib (toy_finish f) s" "f (stream_data s) = Some y \<Longrightarrow> runs_to framed_zlib (toy_finish f) s y"
proof -
  have "Z_FINISH framed_zlib = Z_FINISH toy_zlib" "Z_STREAM_END framed_zlib = Z_STREAM_END toy_zlib" "Z_OK framed_zlib = Z_OK toy_zlib"
    by (simp_all add: framed_zlib_def)
  note same = this
  show "stores_well framed_zlib (toy_finish f) s"
    using toy_finish_laws(1) [of f s] unfolding stores_well_def same .
  show "runs_to framed_zlib (toy_finish f) s y" if "f (stream_data s) = Some y"
    using toy_finish_laws(2) [of f s y, OF that] unfolding runs_to_def same .
qed

lemma framed_sel:
  "deflate framed_zlib = toy_finish (\<lambda>x. Some (framed_gz x))" "inflate framed_zlib = toy_finish framed_gunzip"
  "Z_STREAM_END framed_zlib = 1"
  by (simp_all add: framed_zlib_def toy_zlib_def)

lemma framed_zlib_laws: "zlib_laws framed_zlib framed_gz" "zlib_total framed_zlib" "gzip_format framed_zlib framed_gz"
proof -
  show "zlib_laws framed_zlib framed_gz"
    by (auto simp: zlib_laws_def Let_def framed_sel framed_gz intro!: framed_finish)
  show "zlib_total framed_zlib"
    by (simp add: zlib_total_def framed_zlib_def toy_zlib_def)
  have "fst (toy_finish framed_gunzip s f) \<noteq> 1" if "hd (stream_data s) = 0" for s f
    using that by (simp add: toy_finish_def framed_gunzip_def)
  moreover have "framed_gz x ! 0 = 0x1f \<and> framed_gz x ! 1 = 0x8b" for x
    by (simp add: framed_gz_def)
  ultimately show "gzip_format framed_zlib framed_gz"
    unfolding gzip_format_def framed_sel Let_def by (simp add: framed_gz)
qed

definition apple_rnd :: "'w os \<Rightarrow> nat \<Rightarrow> 'w \<Rightarrow> bytes \<times> 'w" where
  "apple_rnd os n w = (if n = 0 then ([], w) else arc4random_buf os n w)"

lemma entropy_Apple:
  assumes "platform os = Apple" and "os_laws os"
  shows "entropy os (apple_rnd os)"
  unfolding entropy_def
proof (intro allI impI)
  fix out :: bytes and n w
  assume len: "length out = n"
  obtain bs w' where bs: "arc4random_buf os n w = (bs, w')"
    by (metis surj_pair)
  then have "length bs = n"
    using assms(2) unfolding os_laws_def by (metis fst_conv)
  then show "e2ee_secure_random os (Some out) n w = Some (0, Some (fst (apple_rnd os n w)), snd (apple_rnd os n w)) \<and> length (fst (apple_rnd os n w)) = n"
    using len assms(1) bs by (auto simp: e2ee_secure_random_def apple_rnd_def write_at_all)
qed

lemma os_laws_sample: "os_laws ((script_os [])\<lparr> platform := Apple \<rparr>)"
  using os_laws_script [of "[]"] by (simp add: os_laws_def)

end
