(* ===== verification/Kat.thy ===== *)
theory Kat
  imports Prelude
begin

text \<open>
  The known-answer vectors of the self-test: \<open>native/selftest_kat.h\<close>, generated there from the published
  ACVP, RFC and Wycheproof vectors. The arrays are written in rows of 16 bytes as in the source; an array
  that stands for an empty string holds one zero, as there. The length macros are the numbers they stand
  for.
\<close>

section \<open>Definitions\<close>

definition KAT_KEYGEN_D :: bytes where
  "KAT_KEYGEN_D = concat [
    [0xe5, 0x82, 0xb7, 0xd7, 0x5e, 0x6c, 0x80, 0xb0, 0x5a, 0xe3, 0x92, 0xa1, 0xfc, 0x9f, 0x71, 0x53],
    [0xb1, 0x23, 0x90, 0xfd, 0x99, 0x93, 0x03, 0x68, 0xcc, 0x67, 0xa7, 0x68, 0xba, 0xeb, 0xc8, 0xa0]]"

definition KAT_KEYGEN_Z :: bytes where
  "KAT_KEYGEN_Z = concat [
    [0x1c, 0xda, 0xcb, 0x87, 0x40, 0xc0, 0xb8, 0x7c, 0x4a, 0x37, 0x95, 0x75, 0xf1, 0x87, 0xb3, 0x67],
    [0xcb, 0xfa, 0x3b, 0x30, 0x0b, 0xf5, 0x91, 0xb1, 0x09, 0xf7, 0x98, 0x16, 0xe9, 0xcb, 0xe8, 0xf0]]"

definition KAT_KEYGEN_EK :: bytes where
  "KAT_KEYGEN_EK = concat [
    [0x28, 0xc7, 0x93, 0x77, 0x87, 0x41, 0xb8, 0x0b, 0x02, 0xb4, 0x33, 0x9f, 0x2a, 0xa4, 0x34, 0x72],
    [0x55, 0xb0, 0x99, 0xf1, 0x72, 0x64, 0xe1, 0xb8, 0xcc, 0x0a, 0x2c, 0x7c, 0x2a, 0x1a, 0x79, 0xf7],
    [0x99, 0x7b, 0x90, 0x7f, 0xd0, 0x49, 0x6c, 0x6e, 0x6c, 0x8a, 0xd7, 0x71, 0x4f, 0x5f, 0x33, 0x9d],
    [0x75, 0xf1, 0x1f, 0x62, 0x55, 0x91, 0xa8, 0x69, 0xbe, 0x11, 0x75, 0xae, 0x47, 0xf0, 0x5f, 0xd4],
    [0x31, 0x34, 0x68, 0x23, 0x2b, 0xa6, 0x95, 0x7d, 0x78, 0x07, 0xb8, 0x24, 0xf4, 0x45, 0xac, 0x99],
    [0xa0, 0xd5, 0x68, 0xab, 0x1a, 0xd5, 0x4d, 0xca, 0x82, 0x49, 0xd1, 0x48, 0x2e, 0x61, 0x27, 0x5f],
    [0x52, 0x24, 0x8c, 0x77, 0xf6, 0x1a, 0x42, 0x48, 0x75, 0x31, 0x88, 0xcd, 0x17, 0x94, 0xcd, 0x0a],
    [0x46, 0x5e, 0xc0, 0xdc, 0x4b, 0x02, 0x59, 0x85, 0xc4, 0x61, 0xb7, 0x4e, 0x76, 0x28, 0x6e, 0x4c],
    [0x37, 0xe7, 0x74, 0x05, 0x69, 0x5c, 0xc9, 0xfd, 0x06, 0x54, 0x37, 0x4b, 0x42, 0x7a, 0x20, 0x34],
    [0x3a, 0xec, 0x0f, 0xf1, 0xa1, 0x87, 0x76, 0x82, 0x73, 0xbf, 0xc4, 0x90, 0x54, 0x72, 0xa1, 0xda],
    [0x38, 0x7f, 0x14, 0x55, 0x9d, 0x6c, 0xe8, 0x73, 0x13, 0xf6, 0xa5, 0xb6, 0x13, 0x84, 0x34, 0x53],
    [0x9f, 0x9a, 0x13, 0x68, 0x40, 0x55, 0xb1, 0x77, 0xe5, 0x43, 0xf8, 0xb4, 0x0f, 0x43, 0x2a, 0xbd],
    [0x7c, 0xc4, 0x99, 0x89, 0xa5, 0x0a, 0x90, 0x84, 0xc6, 0x60, 0x91, 0x3f, 0x45, 0xa8, 0x59, 0x3b],
    [0x17, 0x49, 0x9b, 0xc4, 0xcf, 0x93, 0x6c, 0x2b, 0xc1, 0x85, 0x14, 0x21, 0xcb, 0x98, 0x68, 0x08],
    [0xa0, 0xef, 0x30, 0xaf, 0xe9, 0x7a, 0xab, 0x5b, 0x8b, 0x8e, 0xb3, 0xf0, 0xb3, 0x50, 0x6a, 0x95],
    [0xb9, 0x15, 0x63, 0xa0, 0xe5, 0x7d, 0xb7, 0x23, 0x10, 0x44, 0x98, 0x7e, 0xf1, 0x41, 0xbd, 0xab],
    [0x35, 0x37, 0xc3, 0x16, 0xad, 0x16, 0xf1, 0x78, 0x05, 0xa8, 0x1f, 0x29, 0x32, 0x98, 0x79, 0xa9],
    [0x4e, 0x96, 0x15, 0x7e, 0x4b, 0x74, 0x47, 0xf7, 0xd5, 0x96, 0x03, 0xb2, 0x1b, 0xd8, 0x96, 0xcc],
    [0x47, 0xb7, 0xcd, 0x4e, 0x23, 0x23, 0x22, 0xeb, 0x9c, 0x5d, 0x22, 0x15, 0x69, 0x6b, 0xcf, 0xfc],
    [0xa3, 0xa0, 0x4e, 0xfc, 0xc4, 0xc5, 0xd9, 0xcc, 0x39, 0xac, 0x9a, 0x6e, 0x87, 0x00, 0xd3, 0x8c],
    [0x24, 0x4b, 0x01, 0x69, 0xe7, 0xfa, 0x1f, 0xe8, 0x1b, 0x4b, 0x10, 0x36, 0x5e, 0x74, 0xe6, 0xa1],
    [0xf7, 0xf7, 0x56, 0xd1, 0x1a, 0xcd, 0xc8, 0x40, 0x43, 0xf8, 0x10, 0x06, 0xd6, 0x29, 0x95, 0x37],
    [0x6c, 0x22, 0x53, 0x59, 0x58, 0xfe, 0xb5, 0x3f, 0x78, 0x11, 0x7e, 0xe0, 0xf6, 0x1c, 0x4c, 0x86],
    [0x26, 0x40, 0xd0, 0x6d, 0xc5, 0x7a, 0x2b, 0x8b, 0xe6, 0x2a, 0x41, 0xa6, 0x42, 0xaf, 0x3b, 0xc6],
    [0x3f, 0x6b, 0xac, 0x98, 0xbb, 0xbb, 0xff, 0x70, 0x57, 0x0f, 0x37, 0xb8, 0xf8, 0xd9, 0x57, 0x2f],
    [0x27, 0x35, 0x65, 0x7a, 0x6c, 0x98, 0xf9, 0x6c, 0xaf, 0x57, 0xa8, 0x49, 0x86, 0x87, 0x20, 0xb2],
    [0x64, 0x0b, 0x8b, 0xb2, 0x73, 0x22, 0x37, 0xa1, 0xf9, 0x84, 0xc1, 0x88, 0x72, 0xd1, 0x02, 0x89],
    [0xce, 0x43, 0xc9, 0x52, 0xc9, 0x25, 0x7e, 0x06, 0x52, 0x9a, 0xeb, 0x76, 0xaf, 0xd1, 0x27, 0xb1],
    [0x75, 0x96, 0xfd, 0x25, 0xc5, 0x21, 0x6c, 0x9c, 0xab, 0xd9, 0xb1, 0x8e, 0xfc, 0x50, 0xe8, 0x7b],
    [0xbb, 0x04, 0x56, 0x8b, 0xb7, 0xd5, 0xc4, 0xe9, 0x28, 0x8c, 0x00, 0x64, 0x83, 0xaf, 0x59, 0x12],
    [0xe1, 0x91, 0x08, 0x57, 0x37, 0x00, 0xbd, 0x10, 0xcd, 0x77, 0x22, 0x4b, 0x80, 0x65, 0x9e, 0xa7],
    [0x5a, 0xa7, 0x42, 0x70, 0xb3, 0x3a, 0xc4, 0x00, 0x8b, 0x73, 0x8b, 0xfe, 0xe2, 0x71, 0xe7, 0x86],
    [0x58, 0xc8, 0x74, 0x2f, 0xf1, 0x3c, 0x96, 0xad, 0x07, 0x81, 0xa0, 0x3c, 0x75, 0x76, 0xca, 0x26],
    [0xdd, 0x58, 0xb5, 0x29, 0x80, 0xba, 0x58, 0xc0, 0x50, 0x5e, 0x44, 0x6a, 0xfa, 0x14, 0x0c, 0xdc],
    [0xea, 0x04, 0x90, 0xdb, 0x1f, 0x9b, 0x18, 0x81, 0x5d, 0x43, 0x14, 0xb2, 0x45, 0x9c, 0xac, 0xc5],
    [0x62, 0x44, 0x1c, 0x91, 0xf4, 0x08, 0x4e, 0x54, 0x26, 0xc8, 0x8e, 0x63, 0x2c, 0xf7, 0x48, 0x2e],
    [0x79, 0x90, 0x79, 0x11, 0xd0, 0x64, 0x73, 0x26, 0x08, 0x35, 0xd7, 0xb8, 0x5e, 0x78, 0x56, 0xa8],
    [0x29, 0xae, 0xa0, 0x38, 0x17, 0x07, 0xb9, 0x39, 0xce, 0x86, 0x88, 0x2c, 0xc0, 0x9c, 0x44, 0x48],
    [0xc6, 0xae, 0x94, 0xa9, 0xc3, 0x03, 0x10, 0x7c, 0x56, 0x67, 0xee, 0xfb, 0x8d, 0xf7, 0x76, 0x3c],
    [0xc2, 0x11, 0x89, 0xa3, 0xc5, 0x90, 0xc4, 0x0a, 0xa5, 0x1f, 0x49, 0x15, 0x03, 0xa7, 0x93, 0x5e],
    [0xc0, 0x8f, 0x4f, 0xc3, 0x00, 0xcb, 0xe6, 0x07, 0xed, 0x8c, 0x91, 0x00, 0xc2, 0x9f, 0xbf, 0x45],
    [0x58, 0x4b, 0x13, 0xc8, 0xd7, 0x80, 0x06, 0x93, 0x37, 0xae, 0xc7, 0x6c, 0x36, 0xce, 0xb7, 0x03],
    [0x73, 0xe2, 0xab, 0x6e, 0x7b, 0x93, 0x4b, 0x46, 0x6f, 0x53, 0xfb, 0x32, 0xea, 0xf0, 0x40, 0x05],
    [0x54, 0x96, 0xb8, 0x54, 0x0e, 0x23, 0xa2, 0xa2, 0x77, 0xe5, 0x34, 0x46, 0x86, 0x08, 0xd5, 0xec],
    [0x0f, 0x8d, 0x38, 0xce, 0xa5, 0xbb, 0xb8, 0x06, 0xc1, 0xbf, 0x4f, 0x16, 0x4f, 0x6a, 0xc8, 0x26],
    [0xfe, 0x73, 0x3f, 0x95, 0x46, 0x1e, 0x29, 0xdc, 0xc1, 0x12, 0x00, 0xc0, 0xaa, 0xda, 0x1b, 0x83],
    [0x32, 0x02, 0x3e, 0xab, 0x32, 0x97, 0x18, 0xce, 0x25, 0xcc, 0x0a, 0x09, 0x55, 0x59, 0x03, 0xf3],
    [0x57, 0x8b, 0xbc, 0x86, 0x3b, 0x17, 0x52, 0xca, 0x94, 0x36, 0x5d, 0xa5, 0x56, 0xdf, 0x54, 0xc3],
    [0xb7, 0xe0, 0x5c, 0xbb, 0x71, 0x15, 0xfb, 0xc1, 0xb6, 0xc5, 0x7a, 0x17, 0x2c, 0x31, 0xb9, 0x90],
    [0x65, 0x60, 0xc8, 0xfb, 0x54, 0xf3, 0xc5, 0x63, 0xa2, 0x25, 0x6c, 0xc0, 0x73, 0x24, 0x3b, 0x81],
    [0x79, 0xb4, 0xa2, 0x8d, 0x60, 0xe0, 0x86, 0xcf, 0x51, 0x08, 0x2e, 0xe4, 0x29, 0x27, 0x29, 0x96],
    [0xf0, 0xaa, 0xbe, 0x03, 0xba, 0x0e, 0xaf, 0xd3, 0xc8, 0xe7, 0xd9, 0x54, 0xbd, 0x09, 0x33, 0xe2],
    [0xf6, 0x0e, 0xd0, 0xc3, 0x2c, 0xed, 0xe7, 0xb8, 0x20, 0xa2, 0x8e, 0x48, 0xf3, 0xca, 0x3c, 0x40],
    [0x91, 0x3c, 0xcc, 0xae, 0x23, 0x37, 0xab, 0xfc, 0x59, 0x84, 0x3f, 0x08, 0xc9, 0x86, 0x33, 0x25],
    [0xd6, 0x5a, 0x4e, 0x9e, 0x15, 0xc1, 0xf4, 0x61, 0x72, 0xb1, 0x18, 0xb2, 0xb5, 0xeb, 0x0f, 0x1d],
    [0x51, 0x58, 0xa0, 0x01, 0x34, 0xf2, 0x7b, 0x08, 0x54, 0x88, 0xc3, 0xa0, 0x62, 0x1f, 0xe4, 0xe5],
    [0x67, 0x86, 0x98, 0x25, 0x0f, 0xb7, 0x4e, 0xe5, 0x15, 0x2e, 0x3e, 0x35, 0xa6, 0x65, 0x44, 0xa0],
    [0x5d, 0x27, 0x9e, 0xa9, 0x91, 0x31, 0xfb, 0xc1, 0x51, 0x65, 0x06, 0x0b, 0x90, 0xf8, 0x8e, 0xeb],
    [0x7b, 0x20, 0x89, 0x2a, 0x4d, 0xe4, 0xcb, 0x16, 0x83, 0x49, 0x5b, 0xd7, 0xda, 0x03, 0x79, 0x66],
    [0xb4, 0x7c, 0xc0, 0x40, 0xf1, 0x76, 0x4c, 0x5d, 0xeb, 0x06, 0xb5, 0x49, 0x9d, 0x42, 0x67, 0x39],
    [0x1c, 0xeb, 0xbb, 0x47, 0xf7, 0x34, 0xd8, 0x53, 0x9e, 0x39, 0x52, 0x84, 0x36, 0xa1, 0x85, 0x81],
    [0x82, 0x85, 0x4b, 0xf2, 0x0b, 0x1f, 0x93, 0x27, 0x9a, 0xfb, 0x70, 0x64, 0x64, 0xc6, 0x5c, 0xcc],
    [0x5a, 0xe0, 0x99, 0xb3, 0x7c, 0xc0, 0x35, 0x56, 0xc2, 0x6a, 0xbf, 0x4c, 0x3f, 0x8b, 0x9b, 0xa3],
    [0xa9, 0x36, 0x70, 0x72, 0x11, 0xa4, 0x9a, 0x59, 0xb2, 0x68, 0xf5, 0x28, 0x4f, 0x79, 0x70, 0xc7],
    [0x76, 0x12, 0x71, 0x94, 0x50, 0x37, 0x74, 0x17, 0x42, 0x8c, 0x4b, 0xa4, 0x7c, 0x9c, 0xa1, 0x15],
    [0xcf, 0x95, 0x30, 0x4c, 0x47, 0x59, 0xc5, 0xd8, 0x85, 0x9b, 0x44, 0x98, 0x5c, 0x06, 0xa6, 0xc9],
    [0x24, 0x68, 0x92, 0x37, 0xba, 0x32, 0x0d, 0x61, 0x09, 0x60, 0xd6, 0x1c, 0x53, 0xe8, 0x54, 0x31],
    [0x78, 0x9e, 0x67, 0xa4, 0x01, 0x13, 0xf1, 0x67, 0xff, 0x93, 0x42, 0x9c, 0x26, 0x4f, 0x6c, 0xab],
    [0xc9, 0x54, 0x48, 0xc9, 0x03, 0x43, 0x7d, 0x39, 0xa6, 0x57, 0x7b, 0xe0, 0xcf, 0x00, 0x12, 0x85],
    [0x2a, 0xa4, 0x76, 0x35, 0x1a, 0x90, 0x46, 0xa1, 0x10, 0xa1, 0xa6, 0x25, 0xa3, 0xd7, 0x4c, 0x91],
    [0x0b, 0x78, 0xbc, 0xe9, 0xcf, 0xca, 0x73, 0x5e, 0x4f, 0x91, 0xb8, 0xa4, 0xc5, 0x7d, 0xbe, 0x48],
    [0x9e, 0x84, 0x94, 0x46, 0x09, 0x8a, 0xac, 0xf7, 0x30, 0x70, 0xae, 0xe6, 0x38, 0xfc, 0xc8, 0x89],
    [0x64, 0x73, 0xd3, 0xc1, 0x59, 0xd3, 0xaf, 0xb4, 0xb6, 0x87, 0xb4, 0x0d, 0xfb, 0xf3, 0x71, 0xa9],
    [0xc2, 0x64, 0x4b, 0x60, 0x51, 0x87, 0xb7, 0x1a, 0x14, 0xbc, 0x4c, 0x86, 0x78, 0xfe, 0x82, 0x47]]"

definition KAT_KEYGEN_DK :: bytes where
  "KAT_KEYGEN_DK = concat [
    [0x38, 0x08, 0xb9, 0x8d, 0x9a, 0x09, 0x3c, 0x78, 0x53, 0xb0, 0xb8, 0x14, 0xd1, 0xca, 0x5f, 0x39],
    [0x26, 0x77, 0xd3, 0xd0, 0xa3, 0x8f, 0x81, 0xc8, 0x52, 0xf9, 0x5b, 0x9a, 0x69, 0xb3, 0x74, 0xa2],
    [0x45, 0x88, 0xc0, 0xad, 0xd5, 0xb5, 0x10, 0xbe, 0x56, 0x7c, 0x5a, 0x24, 0x68, 0x8e, 0xc9, 0x1e],
    [0xd0, 0xf2, 0x8b, 0xb4, 0xc8, 0x69, 0x78, 0xc0, 0x97, 0x93, 0x79, 0x5c, 0x36, 0xb9, 0x4e, 0x5d],
    [0xd8, 0x49, 0x8e, 0xb4, 0x35, 0x3f, 0xf4, 0x0e, 0xa8, 0x7b, 0x17, 0xe9, 0x21, 0xb5, 0xb4, 0xcb],
    [0xa0, 0x8e, 0x5b, 0x7b, 0xe5, 0xa9, 0xc8, 0xbc, 0x69, 0xac, 0x5a, 0xc3, 0x07, 0x5d, 0xd9, 0x47],
    [0xd0, 0x4b, 0x86, 0x95, 0x09, 0x7a, 0xc3, 0x97, 0x90, 0xa0, 0xc8, 0xab, 0xe1, 0x12, 0x00, 0xc9],
    [0xf1, 0x36, 0xed, 0x7b, 0x0c, 0x10, 0x07, 0x7e, 0x36, 0x11, 0x1c, 0x1f, 0x13, 0x9d, 0x9b, 0xd2],
    [0x71, 0x42, 0x99, 0x3f, 0x58, 0x83, 0x92, 0x5c, 0x49, 0x18, 0x41, 0x3c, 0xb8, 0x04, 0x39, 0x62],
    [0xa2, 0x85, 0x67, 0x39, 0x7a, 0x1c, 0x7e, 0x00, 0x3b, 0xac, 0x30, 0x64, 0x40, 0x55, 0x15, 0x5c],
    [0xe9, 0x46, 0x4e, 0x62, 0x3f, 0xc5, 0xe2, 0x16, 0x0c, 0xd1, 0x14, 0x3f, 0xd2, 0xc9, 0x0c, 0x03],
    [0xa0, 0x8d, 0x0b, 0x33, 0x3f, 0xbb, 0x40, 0xa3, 0x08, 0xca, 0xcd, 0x81, 0x61, 0x86, 0x74, 0xb4],
    [0x06, 0x80, 0x97, 0x90, 0xb2, 0x53, 0x8d, 0x30, 0x43, 0x1f, 0x06, 0x4f, 0x65, 0xeb, 0xba, 0x7c],
    [0x41, 0xb2, 0xa5, 0x31, 0x46, 0xa3, 0xab, 0xca, 0x66, 0x75, 0x4c, 0xae, 0x59, 0x15, 0x34, 0x04],
    [0x5c, 0x1d, 0x64, 0x0d, 0x63, 0x08, 0x47, 0x2e, 0xbc, 0xa6, 0x60, 0xa8, 0xa7, 0xd3, 0x72, 0x47],
    [0x0d, 0x38, 0x69, 0x11, 0x5b, 0x88, 0x60, 0xb5, 0x77, 0x31, 0x19, 0x80, 0xb2, 0xc6, 0x6b, 0x83],
    [0x52, 0x22, 0x9a, 0xbc, 0x17, 0xb0, 0xc3, 0x1f, 0x58, 0xe5, 0xa5, 0xeb, 0xdb, 0xca, 0x6e, 0x3b],
    [0x15, 0x7d, 0x9c, 0xa7, 0x9e, 0xe8, 0x90, 0x77, 0x8a, 0x4c, 0xf2, 0x84, 0x29, 0xc2, 0xa8, 0x2c],
    [0x80, 0xdc, 0x9c, 0x52, 0x4b, 0x08, 0x64, 0xe3, 0x85, 0xe3, 0x55, 0xbd, 0x4e, 0x65, 0x73, 0x2d],
    [0x39, 0x5e, 0x46, 0x40, 0x70, 0xf6, 0x18, 0x28, 0xe5, 0x7c, 0x3e, 0x1b, 0xe2, 0xa5, 0x00, 0x52],
    [0xc4, 0xff, 0x19, 0x51, 0xf5, 0xd0, 0xc8, 0x97, 0x20, 0x98, 0x7d, 0x89, 0x41, 0xf0, 0x85, 0x87],
    [0x11, 0x13, 0xa9, 0x1f, 0x51, 0x8f, 0xc7, 0x9b, 0x71, 0x89, 0x05, 0x69, 0x90, 0xb2, 0x44, 0x7b],
    [0xf5, 0x4f, 0xc1, 0x70, 0xc9, 0x32, 0xe0, 0xa4, 0xe0, 0xf7, 0xa2, 0x62, 0x54, 0x2f, 0x56, 0xd1],
    [0xb4, 0x9e, 0xeb, 0xc3, 0x92, 0x10, 0x6d, 0x93, 0xc7, 0x7d, 0xe9, 0x18, 0x6d, 0xfb, 0xb8, 0x24],
    [0xe7, 0x3b, 0x2f, 0x7f, 0xc7, 0x96, 0xb3, 0x12, 0x87, 0x5b, 0x43, 0x41, 0x48, 0x77, 0xaf, 0xb3],
    [0x56, 0x21, 0x44, 0x92, 0xc1, 0x9c, 0x74, 0x8d, 0xd3, 0x81, 0xbc, 0x7a, 0x92, 0x37, 0xbf, 0x09],
    [0x7c, 0xc6, 0x06, 0xa0, 0x31, 0x19, 0xa2, 0x40, 0xa5, 0x53, 0x6a, 0xc7, 0x84, 0x4f, 0x6a, 0x79],
    [0xd0, 0xe2, 0xb8, 0x21, 0xb6, 0x8d, 0x96, 0x54, 0x24, 0x50, 0x17, 0x9b, 0xcc, 0xa2, 0x31, 0xf2],
    [0xda, 0x68, 0xc5, 0xeb, 0x6d, 0x11, 0x8b, 0x99, 0xa1, 0xb6, 0x6e, 0xaa, 0x56, 0x6c, 0x78, 0xa9],
    [0x00, 0x90, 0x08, 0xb0, 0xd6, 0x61, 0x55, 0xba, 0x48, 0x39, 0xf8, 0xe5, 0x18, 0xc6, 0x50, 0x17],
    [0x7d, 0xec, 0x17, 0x0e, 0xb0, 0x9e, 0x8b, 0xf6, 0xa8, 0x99, 0x05, 0x32, 0x05, 0x90, 0xc6, 0x42],
    [0xb8, 0x01, 0xcf, 0x5b, 0x51, 0x51, 0xc2, 0xaf, 0x3e, 0x72, 0x71, 0xcb, 0x99, 0x61, 0xc6, 0x5a],
    [0x5b, 0xd1, 0x74, 0x79, 0x42, 0x9a, 0x31, 0xbe, 0x90, 0x81, 0xf2, 0x76, 0x7d, 0x94, 0x81, 0x6c],
    [0x16, 0xd1, 0xb0, 0x47, 0x72, 0x01, 0x23, 0x82, 0xb6, 0x89, 0xab, 0x2d, 0x3f, 0xb9, 0xbd, 0xc6],
    [0x65, 0x47, 0xbf, 0xeb, 0x23, 0x05, 0x26, 0x00, 0xbb, 0x36, 0x97, 0x71, 0x49, 0x4d, 0x9c, 0x91],
    [0x4e, 0xc9, 0x3a, 0x06, 0x6a, 0xbc, 0x96, 0x11, 0x94, 0x0b, 0x94, 0x73, 0x10, 0xda, 0x04, 0x19],
    [0x73, 0x12, 0x42, 0x5d, 0x73, 0x6a, 0x19, 0x33, 0xb7, 0x85, 0xc9, 0x5d, 0xc4, 0x30, 0x79, 0x1e],
    [0x42, 0xcd, 0x69, 0x1c, 0x79, 0xba, 0x63, 0xbe, 0x06, 0xec, 0x80, 0x76, 0x5c, 0x9c, 0x07, 0x05],
    [0x3e, 0xac, 0x70, 0x66, 0x97, 0xf2, 0x17, 0x20, 0xc6, 0x72, 0xb9, 0x80, 0x3d, 0xf9, 0x93, 0x55],
    [0x32, 0x19, 0x7b, 0x04, 0x85, 0xbb, 0xe4, 0x2b, 0x0d, 0xd1, 0x65, 0x61, 0xac, 0x06, 0x05, 0xe9],
    [0xda, 0x73, 0xc1, 0x89, 0xc9, 0xe2, 0x9a, 0xba, 0x3a, 0xec, 0xa1, 0x9c, 0x21, 0x62, 0x1b, 0x20],
    [0x93, 0x26, 0x41, 0x85, 0x43, 0xc4, 0x4b, 0x88, 0x84, 0x3e, 0xb3, 0x72, 0x0a, 0x2c, 0xec, 0x3d],
    [0xb5, 0x2c, 0x59, 0xd6, 0x50, 0x7e, 0xe5, 0xcb, 0x03, 0xc2, 0x68, 0xb3, 0x1f, 0xc4, 0xbf, 0x11],
    [0x56, 0x95, 0xeb, 0x0b, 0x8a, 0xd3, 0xf1, 0x1f, 0xed, 0xea, 0x1a, 0x5d, 0x07, 0x24, 0xa5, 0xd5],
    [0x28, 0x4d, 0x0c, 0x10, 0xe9, 0x84, 0x4d, 0x0d, 0x32, 0xbb, 0x57, 0x35, 0x44, 0x84, 0x21, 0xbc],
    [0x53, 0x17, 0x65, 0x0b, 0xea, 0xc4, 0x82, 0x9b, 0x23, 0x4b, 0x78, 0x73, 0x39, 0x81, 0x2f, 0x23],
    [0x16, 0xac, 0xe8, 0xc2, 0x2c, 0x42, 0xd6, 0x34, 0x62, 0x14, 0x93, 0x4f, 0xc0, 0xb4, 0x9e, 0xcc],
    [0xbd, 0xf8, 0xda, 0x19, 0xae, 0xe6, 0x4d, 0xe9, 0x62, 0x8c, 0x4f, 0x7a, 0xb3, 0xe5, 0x12, 0xa3],
    [0x99, 0xb0, 0xc2, 0x27, 0xb6, 0x77, 0xac, 0x4a, 0x69, 0x89, 0x1a, 0x68, 0x74, 0xf6, 0x64, 0x1d],
    [0x2c, 0xc9, 0x54, 0x60, 0xb7, 0x51, 0xe1, 0x7e, 0x43, 0x4c, 0x92, 0x4b, 0x29, 0x47, 0xd8, 0x06],
    [0x85, 0x66, 0x65, 0x69, 0x6e, 0x3c, 0xc4, 0xdb, 0x95, 0x53, 0xb8, 0x16, 0x06, 0xc3, 0x1c, 0x38],
    [0x00, 0xb4, 0x87, 0x56, 0xa0, 0x73, 0xbf, 0x68, 0x5e, 0xea, 0x20, 0x89, 0x9c, 0x17, 0x67, 0x69],
    [0xe9, 0x02, 0xdb, 0x97, 0x18, 0x27, 0xd1, 0x53, 0xb9, 0xc3, 0x35, 0x16, 0xe9, 0x59, 0xc6, 0xb4],
    [0x69, 0x84, 0x19, 0x46, 0xc0, 0xd9, 0x21, 0xa3, 0x71, 0xa5, 0xde, 0x97, 0x40, 0xc6, 0xab, 0x9c],
    [0xa2, 0x72, 0xb5, 0x85, 0x0b, 0xa8, 0x75, 0x3c, 0xa0, 0x23, 0xa4, 0x60, 0xeb, 0xf7, 0xbd, 0x57],
    [0x3c, 0x07, 0x45, 0xf4, 0x0b, 0x90, 0xf1, 0x05, 0xee, 0x17, 0xc1, 0x9b, 0x68, 0x32, 0xe0, 0x19],
    [0xb8, 0x0f, 0x88, 0x58, 0xbb, 0x51, 0x5f, 0x7c, 0x70, 0x9e, 0x68, 0xf2, 0x9c, 0x13, 0x75, 0xb2],
    [0x25, 0x67, 0xaf, 0xe7, 0xb5, 0x28, 0xf4, 0x43, 0x1a, 0x94, 0xb5, 0x53, 0xdf, 0x82, 0x5c, 0xde],
    [0xb8, 0x4b, 0x4e, 0xa9, 0x29, 0x6e, 0xab, 0x9a, 0xd6, 0x62, 0x71, 0xee, 0xc5, 0xae, 0xf6, 0xf7],
    [0x95, 0x09, 0xa2, 0x0a, 0x18, 0x22, 0x79, 0xfd, 0xf9, 0x2f, 0x87, 0xfb, 0x6e, 0x75, 0x09, 0x96],
    [0x8d, 0x22, 0xca, 0x75, 0x0b, 0x50, 0x56, 0x97, 0x48, 0x41, 0xb9, 0x65, 0x4e, 0x57, 0x16, 0xbd],
    [0xc3, 0x3a, 0x2c, 0x6a, 0x11, 0x6a, 0x41, 0x17, 0xfa, 0x75, 0x7a, 0x1d, 0x22, 0x71, 0x06, 0x68],
    [0x41, 0x2b, 0x88, 0x78, 0xe1, 0x34, 0xb7, 0x0f, 0xe3, 0x21, 0x58, 0xa2, 0x31, 0x7f, 0xbc, 0x62],
    [0xf0, 0x13, 0x71, 0x29, 0x6a, 0xa4, 0x2e, 0x33, 0xc9, 0x03, 0xe0, 0xc4, 0x39, 0xf1, 0x96, 0x84],
    [0xb1, 0x1e, 0x2f, 0x91, 0x1f, 0x7f, 0xb7, 0x98, 0x60, 0xc8, 0x80, 0x0f, 0x9c, 0xa1, 0x46, 0xea],
    [0xbe, 0x29, 0xdb, 0x07, 0x23, 0x7a, 0xab, 0xb5, 0x03, 0xa9, 0xbe, 0x2a, 0xa7, 0x26, 0x3a, 0x06],
    [0x26, 0xc1, 0x62, 0xa2, 0x75, 0x37, 0x77, 0x57, 0x92, 0xb2, 0xe7, 0xb0, 0xfd, 0x34, 0x79, 0x29],
    [0x93, 0x4a, 0xd8, 0xf5, 0x21, 0xd4, 0x15, 0x90, 0x59, 0xf6, 0x11, 0x31, 0x2a, 0xb9, 0x03, 0x87],
    [0x94, 0x90, 0x05, 0x9b, 0xe8, 0xb3, 0x89, 0x20, 0xe2, 0xcb, 0x4a, 0x25, 0x6b, 0x8b, 0x35, 0x78],
    [0x3e, 0x90, 0x93, 0x46, 0xd1, 0x3e, 0x98, 0x88, 0xbe, 0xb9, 0x35, 0x03, 0x69, 0xf7, 0xc1, 0xa8],
    [0x50, 0x13, 0x31, 0x11, 0x0c, 0x65, 0x16, 0x21, 0xa6, 0x16, 0xb3, 0x65, 0xa0, 0x26, 0xd1, 0xcc],
    [0x47, 0xdf, 0x44, 0x0c, 0x9e, 0x65, 0x0d, 0xd0, 0xc0, 0xbf, 0xc8, 0x29, 0x54, 0x39, 0x11, 0x45],
    [0x28, 0xc7, 0x93, 0x77, 0x87, 0x41, 0xb8, 0x0b, 0x02, 0xb4, 0x33, 0x9f, 0x2a, 0xa4, 0x34, 0x72],
    [0x55, 0xb0, 0x99, 0xf1, 0x72, 0x64, 0xe1, 0xb8, 0xcc, 0x0a, 0x2c, 0x7c, 0x2a, 0x1a, 0x79, 0xf7],
    [0x99, 0x7b, 0x90, 0x7f, 0xd0, 0x49, 0x6c, 0x6e, 0x6c, 0x8a, 0xd7, 0x71, 0x4f, 0x5f, 0x33, 0x9d],
    [0x75, 0xf1, 0x1f, 0x62, 0x55, 0x91, 0xa8, 0x69, 0xbe, 0x11, 0x75, 0xae, 0x47, 0xf0, 0x5f, 0xd4],
    [0x31, 0x34, 0x68, 0x23, 0x2b, 0xa6, 0x95, 0x7d, 0x78, 0x07, 0xb8, 0x24, 0xf4, 0x45, 0xac, 0x99],
    [0xa0, 0xd5, 0x68, 0xab, 0x1a, 0xd5, 0x4d, 0xca, 0x82, 0x49, 0xd1, 0x48, 0x2e, 0x61, 0x27, 0x5f],
    [0x52, 0x24, 0x8c, 0x77, 0xf6, 0x1a, 0x42, 0x48, 0x75, 0x31, 0x88, 0xcd, 0x17, 0x94, 0xcd, 0x0a],
    [0x46, 0x5e, 0xc0, 0xdc, 0x4b, 0x02, 0x59, 0x85, 0xc4, 0x61, 0xb7, 0x4e, 0x76, 0x28, 0x6e, 0x4c],
    [0x37, 0xe7, 0x74, 0x05, 0x69, 0x5c, 0xc9, 0xfd, 0x06, 0x54, 0x37, 0x4b, 0x42, 0x7a, 0x20, 0x34],
    [0x3a, 0xec, 0x0f, 0xf1, 0xa1, 0x87, 0x76, 0x82, 0x73, 0xbf, 0xc4, 0x90, 0x54, 0x72, 0xa1, 0xda],
    [0x38, 0x7f, 0x14, 0x55, 0x9d, 0x6c, 0xe8, 0x73, 0x13, 0xf6, 0xa5, 0xb6, 0x13, 0x84, 0x34, 0x53],
    [0x9f, 0x9a, 0x13, 0x68, 0x40, 0x55, 0xb1, 0x77, 0xe5, 0x43, 0xf8, 0xb4, 0x0f, 0x43, 0x2a, 0xbd],
    [0x7c, 0xc4, 0x99, 0x89, 0xa5, 0x0a, 0x90, 0x84, 0xc6, 0x60, 0x91, 0x3f, 0x45, 0xa8, 0x59, 0x3b],
    [0x17, 0x49, 0x9b, 0xc4, 0xcf, 0x93, 0x6c, 0x2b, 0xc1, 0x85, 0x14, 0x21, 0xcb, 0x98, 0x68, 0x08],
    [0xa0, 0xef, 0x30, 0xaf, 0xe9, 0x7a, 0xab, 0x5b, 0x8b, 0x8e, 0xb3, 0xf0, 0xb3, 0x50, 0x6a, 0x95],
    [0xb9, 0x15, 0x63, 0xa0, 0xe5, 0x7d, 0xb7, 0x23, 0x10, 0x44, 0x98, 0x7e, 0xf1, 0x41, 0xbd, 0xab],
    [0x35, 0x37, 0xc3, 0x16, 0xad, 0x16, 0xf1, 0x78, 0x05, 0xa8, 0x1f, 0x29, 0x32, 0x98, 0x79, 0xa9],
    [0x4e, 0x96, 0x15, 0x7e, 0x4b, 0x74, 0x47, 0xf7, 0xd5, 0x96, 0x03, 0xb2, 0x1b, 0xd8, 0x96, 0xcc],
    [0x47, 0xb7, 0xcd, 0x4e, 0x23, 0x23, 0x22, 0xeb, 0x9c, 0x5d, 0x22, 0x15, 0x69, 0x6b, 0xcf, 0xfc],
    [0xa3, 0xa0, 0x4e, 0xfc, 0xc4, 0xc5, 0xd9, 0xcc, 0x39, 0xac, 0x9a, 0x6e, 0x87, 0x00, 0xd3, 0x8c],
    [0x24, 0x4b, 0x01, 0x69, 0xe7, 0xfa, 0x1f, 0xe8, 0x1b, 0x4b, 0x10, 0x36, 0x5e, 0x74, 0xe6, 0xa1],
    [0xf7, 0xf7, 0x56, 0xd1, 0x1a, 0xcd, 0xc8, 0x40, 0x43, 0xf8, 0x10, 0x06, 0xd6, 0x29, 0x95, 0x37],
    [0x6c, 0x22, 0x53, 0x59, 0x58, 0xfe, 0xb5, 0x3f, 0x78, 0x11, 0x7e, 0xe0, 0xf6, 0x1c, 0x4c, 0x86],
    [0x26, 0x40, 0xd0, 0x6d, 0xc5, 0x7a, 0x2b, 0x8b, 0xe6, 0x2a, 0x41, 0xa6, 0x42, 0xaf, 0x3b, 0xc6],
    [0x3f, 0x6b, 0xac, 0x98, 0xbb, 0xbb, 0xff, 0x70, 0x57, 0x0f, 0x37, 0xb8, 0xf8, 0xd9, 0x57, 0x2f],
    [0x27, 0x35, 0x65, 0x7a, 0x6c, 0x98, 0xf9, 0x6c, 0xaf, 0x57, 0xa8, 0x49, 0x86, 0x87, 0x20, 0xb2],
    [0x64, 0x0b, 0x8b, 0xb2, 0x73, 0x22, 0x37, 0xa1, 0xf9, 0x84, 0xc1, 0x88, 0x72, 0xd1, 0x02, 0x89],
    [0xce, 0x43, 0xc9, 0x52, 0xc9, 0x25, 0x7e, 0x06, 0x52, 0x9a, 0xeb, 0x76, 0xaf, 0xd1, 0x27, 0xb1],
    [0x75, 0x96, 0xfd, 0x25, 0xc5, 0x21, 0x6c, 0x9c, 0xab, 0xd9, 0xb1, 0x8e, 0xfc, 0x50, 0xe8, 0x7b],
    [0xbb, 0x04, 0x56, 0x8b, 0xb7, 0xd5, 0xc4, 0xe9, 0x28, 0x8c, 0x00, 0x64, 0x83, 0xaf, 0x59, 0x12],
    [0xe1, 0x91, 0x08, 0x57, 0x37, 0x00, 0xbd, 0x10, 0xcd, 0x77, 0x22, 0x4b, 0x80, 0x65, 0x9e, 0xa7],
    [0x5a, 0xa7, 0x42, 0x70, 0xb3, 0x3a, 0xc4, 0x00, 0x8b, 0x73, 0x8b, 0xfe, 0xe2, 0x71, 0xe7, 0x86],
    [0x58, 0xc8, 0x74, 0x2f, 0xf1, 0x3c, 0x96, 0xad, 0x07, 0x81, 0xa0, 0x3c, 0x75, 0x76, 0xca, 0x26],
    [0xdd, 0x58, 0xb5, 0x29, 0x80, 0xba, 0x58, 0xc0, 0x50, 0x5e, 0x44, 0x6a, 0xfa, 0x14, 0x0c, 0xdc],
    [0xea, 0x04, 0x90, 0xdb, 0x1f, 0x9b, 0x18, 0x81, 0x5d, 0x43, 0x14, 0xb2, 0x45, 0x9c, 0xac, 0xc5],
    [0x62, 0x44, 0x1c, 0x91, 0xf4, 0x08, 0x4e, 0x54, 0x26, 0xc8, 0x8e, 0x63, 0x2c, 0xf7, 0x48, 0x2e],
    [0x79, 0x90, 0x79, 0x11, 0xd0, 0x64, 0x73, 0x26, 0x08, 0x35, 0xd7, 0xb8, 0x5e, 0x78, 0x56, 0xa8],
    [0x29, 0xae, 0xa0, 0x38, 0x17, 0x07, 0xb9, 0x39, 0xce, 0x86, 0x88, 0x2c, 0xc0, 0x9c, 0x44, 0x48],
    [0xc6, 0xae, 0x94, 0xa9, 0xc3, 0x03, 0x10, 0x7c, 0x56, 0x67, 0xee, 0xfb, 0x8d, 0xf7, 0x76, 0x3c],
    [0xc2, 0x11, 0x89, 0xa3, 0xc5, 0x90, 0xc4, 0x0a, 0xa5, 0x1f, 0x49, 0x15, 0x03, 0xa7, 0x93, 0x5e],
    [0xc0, 0x8f, 0x4f, 0xc3, 0x00, 0xcb, 0xe6, 0x07, 0xed, 0x8c, 0x91, 0x00, 0xc2, 0x9f, 0xbf, 0x45],
    [0x58, 0x4b, 0x13, 0xc8, 0xd7, 0x80, 0x06, 0x93, 0x37, 0xae, 0xc7, 0x6c, 0x36, 0xce, 0xb7, 0x03],
    [0x73, 0xe2, 0xab, 0x6e, 0x7b, 0x93, 0x4b, 0x46, 0x6f, 0x53, 0xfb, 0x32, 0xea, 0xf0, 0x40, 0x05],
    [0x54, 0x96, 0xb8, 0x54, 0x0e, 0x23, 0xa2, 0xa2, 0x77, 0xe5, 0x34, 0x46, 0x86, 0x08, 0xd5, 0xec],
    [0x0f, 0x8d, 0x38, 0xce, 0xa5, 0xbb, 0xb8, 0x06, 0xc1, 0xbf, 0x4f, 0x16, 0x4f, 0x6a, 0xc8, 0x26],
    [0xfe, 0x73, 0x3f, 0x95, 0x46, 0x1e, 0x29, 0xdc, 0xc1, 0x12, 0x00, 0xc0, 0xaa, 0xda, 0x1b, 0x83],
    [0x32, 0x02, 0x3e, 0xab, 0x32, 0x97, 0x18, 0xce, 0x25, 0xcc, 0x0a, 0x09, 0x55, 0x59, 0x03, 0xf3],
    [0x57, 0x8b, 0xbc, 0x86, 0x3b, 0x17, 0x52, 0xca, 0x94, 0x36, 0x5d, 0xa5, 0x56, 0xdf, 0x54, 0xc3],
    [0xb7, 0xe0, 0x5c, 0xbb, 0x71, 0x15, 0xfb, 0xc1, 0xb6, 0xc5, 0x7a, 0x17, 0x2c, 0x31, 0xb9, 0x90],
    [0x65, 0x60, 0xc8, 0xfb, 0x54, 0xf3, 0xc5, 0x63, 0xa2, 0x25, 0x6c, 0xc0, 0x73, 0x24, 0x3b, 0x81],
    [0x79, 0xb4, 0xa2, 0x8d, 0x60, 0xe0, 0x86, 0xcf, 0x51, 0x08, 0x2e, 0xe4, 0x29, 0x27, 0x29, 0x96],
    [0xf0, 0xaa, 0xbe, 0x03, 0xba, 0x0e, 0xaf, 0xd3, 0xc8, 0xe7, 0xd9, 0x54, 0xbd, 0x09, 0x33, 0xe2],
    [0xf6, 0x0e, 0xd0, 0xc3, 0x2c, 0xed, 0xe7, 0xb8, 0x20, 0xa2, 0x8e, 0x48, 0xf3, 0xca, 0x3c, 0x40],
    [0x91, 0x3c, 0xcc, 0xae, 0x23, 0x37, 0xab, 0xfc, 0x59, 0x84, 0x3f, 0x08, 0xc9, 0x86, 0x33, 0x25],
    [0xd6, 0x5a, 0x4e, 0x9e, 0x15, 0xc1, 0xf4, 0x61, 0x72, 0xb1, 0x18, 0xb2, 0xb5, 0xeb, 0x0f, 0x1d],
    [0x51, 0x58, 0xa0, 0x01, 0x34, 0xf2, 0x7b, 0x08, 0x54, 0x88, 0xc3, 0xa0, 0x62, 0x1f, 0xe4, 0xe5],
    [0x67, 0x86, 0x98, 0x25, 0x0f, 0xb7, 0x4e, 0xe5, 0x15, 0x2e, 0x3e, 0x35, 0xa6, 0x65, 0x44, 0xa0],
    [0x5d, 0x27, 0x9e, 0xa9, 0x91, 0x31, 0xfb, 0xc1, 0x51, 0x65, 0x06, 0x0b, 0x90, 0xf8, 0x8e, 0xeb],
    [0x7b, 0x20, 0x89, 0x2a, 0x4d, 0xe4, 0xcb, 0x16, 0x83, 0x49, 0x5b, 0xd7, 0xda, 0x03, 0x79, 0x66],
    [0xb4, 0x7c, 0xc0, 0x40, 0xf1, 0x76, 0x4c, 0x5d, 0xeb, 0x06, 0xb5, 0x49, 0x9d, 0x42, 0x67, 0x39],
    [0x1c, 0xeb, 0xbb, 0x47, 0xf7, 0x34, 0xd8, 0x53, 0x9e, 0x39, 0x52, 0x84, 0x36, 0xa1, 0x85, 0x81],
    [0x82, 0x85, 0x4b, 0xf2, 0x0b, 0x1f, 0x93, 0x27, 0x9a, 0xfb, 0x70, 0x64, 0x64, 0xc6, 0x5c, 0xcc],
    [0x5a, 0xe0, 0x99, 0xb3, 0x7c, 0xc0, 0x35, 0x56, 0xc2, 0x6a, 0xbf, 0x4c, 0x3f, 0x8b, 0x9b, 0xa3],
    [0xa9, 0x36, 0x70, 0x72, 0x11, 0xa4, 0x9a, 0x59, 0xb2, 0x68, 0xf5, 0x28, 0x4f, 0x79, 0x70, 0xc7],
    [0x76, 0x12, 0x71, 0x94, 0x50, 0x37, 0x74, 0x17, 0x42, 0x8c, 0x4b, 0xa4, 0x7c, 0x9c, 0xa1, 0x15],
    [0xcf, 0x95, 0x30, 0x4c, 0x47, 0x59, 0xc5, 0xd8, 0x85, 0x9b, 0x44, 0x98, 0x5c, 0x06, 0xa6, 0xc9],
    [0x24, 0x68, 0x92, 0x37, 0xba, 0x32, 0x0d, 0x61, 0x09, 0x60, 0xd6, 0x1c, 0x53, 0xe8, 0x54, 0x31],
    [0x78, 0x9e, 0x67, 0xa4, 0x01, 0x13, 0xf1, 0x67, 0xff, 0x93, 0x42, 0x9c, 0x26, 0x4f, 0x6c, 0xab],
    [0xc9, 0x54, 0x48, 0xc9, 0x03, 0x43, 0x7d, 0x39, 0xa6, 0x57, 0x7b, 0xe0, 0xcf, 0x00, 0x12, 0x85],
    [0x2a, 0xa4, 0x76, 0x35, 0x1a, 0x90, 0x46, 0xa1, 0x10, 0xa1, 0xa6, 0x25, 0xa3, 0xd7, 0x4c, 0x91],
    [0x0b, 0x78, 0xbc, 0xe9, 0xcf, 0xca, 0x73, 0x5e, 0x4f, 0x91, 0xb8, 0xa4, 0xc5, 0x7d, 0xbe, 0x48],
    [0x9e, 0x84, 0x94, 0x46, 0x09, 0x8a, 0xac, 0xf7, 0x30, 0x70, 0xae, 0xe6, 0x38, 0xfc, 0xc8, 0x89],
    [0x64, 0x73, 0xd3, 0xc1, 0x59, 0xd3, 0xaf, 0xb4, 0xb6, 0x87, 0xb4, 0x0d, 0xfb, 0xf3, 0x71, 0xa9],
    [0xc2, 0x64, 0x4b, 0x60, 0x51, 0x87, 0xb7, 0x1a, 0x14, 0xbc, 0x4c, 0x86, 0x78, 0xfe, 0x82, 0x47],
    [0x81, 0xe6, 0x6e, 0xf5, 0xa7, 0xa2, 0x21, 0x61, 0x9f, 0x6a, 0x64, 0x03, 0x9c, 0xc3, 0x69, 0x84],
    [0x3e, 0x10, 0xdf, 0x5c, 0x85, 0x9f, 0x69, 0x59, 0xcc, 0x3f, 0xd8, 0xe5, 0x27, 0x23, 0x30, 0xfd],
    [0x1c, 0xda, 0xcb, 0x87, 0x40, 0xc0, 0xb8, 0x7c, 0x4a, 0x37, 0x95, 0x75, 0xf1, 0x87, 0xb3, 0x67],
    [0xcb, 0xfa, 0x3b, 0x30, 0x0b, 0xf5, 0x91, 0xb1, 0x09, 0xf7, 0x98, 0x16, 0xe9, 0xcb, 0xe8, 0xf0]]"

definition KAT_ENCAP_EK :: bytes where
  "KAT_ENCAP_EK = concat [
    [0x9c, 0x68, 0x39, 0x35, 0x40, 0x86, 0x91, 0x9b, 0xc7, 0xb8, 0xa5, 0x47, 0xff, 0x18, 0xb5, 0x23],
    [0x07, 0x5f, 0xd1, 0x70, 0x68, 0x56, 0x40, 0x09, 0x52, 0x48, 0x9e, 0x4c, 0xd1, 0x3e, 0xd8, 0xb1],
    [0x7a, 0x81, 0x7a, 0x30, 0x76, 0xe0, 0x94, 0x7b, 0x86, 0x0e, 0xc9, 0x55, 0x8b, 0xd9, 0xd3, 0xc9],
    [0x4d, 0xf5, 0x41, 0x8a, 0x7a, 0x73, 0x01, 0x76, 0x39, 0x99, 0xc0, 0x99, 0x96, 0x71, 0x5c, 0xe3],
    [0x2a, 0xac, 0xfe, 0xf7, 0x67, 0xa4, 0x49, 0x69, 0x92, 0x59, 0x49, 0xcc, 0x9b, 0x81, 0x20, 0xcb],
    [0x78, 0x95, 0x3b, 0xcf, 0x6f, 0xb8, 0x28, 0x24, 0x27, 0xcb, 0x3f, 0x4c, 0xbb, 0xc5, 0x0a, 0xb2],
    [0x32, 0x74, 0x49, 0x3a, 0x8b, 0xa7, 0xe5, 0xc0, 0x90, 0x88, 0x16, 0x0f, 0xda, 0x73, 0x1b, 0x55],
    [0x98, 0x08, 0x67, 0x91, 0x2b, 0xac, 0x53, 0x12, 0x5b, 0x27, 0x07, 0x3b, 0xb5, 0x02, 0xaf, 0xac],
    [0x5e, 0x74, 0x97, 0x3e, 0x0f, 0x36, 0x01, 0xdc, 0x50, 0xce, 0x08, 0xcc, 0x7f, 0x3f, 0xa4, 0x4c],
    [0xe3, 0x31, 0xa4, 0x3f, 0x96, 0x73, 0xbe, 0x74, 0x52, 0x95, 0xe6, 0x93, 0x07, 0x72, 0x64, 0xa8],
    [0xe2, 0x38, 0xf0, 0xa9, 0x12, 0xc0, 0xa5, 0x9c, 0x44, 0xd5, 0x61, 0xe2, 0xa8, 0xbd, 0x83, 0x15],
    [0x41, 0xfe, 0x86, 0x9b, 0x31, 0x10, 0xb0, 0x51, 0x10, 0x0d, 0xb3, 0x51, 0x7f, 0x87, 0x51, 0x0e],
    [0xca, 0xd8, 0x65, 0x1c, 0xe4, 0x99, 0x8b, 0xb6, 0x48, 0x00, 0x2b, 0xa4, 0x1a, 0x53, 0x51, 0xfa],
    [0x2a, 0x4e, 0xd9, 0x4a, 0x58, 0xcb, 0x70, 0x72, 0x14, 0xa5, 0x9f, 0x88, 0x76, 0x17, 0x6c, 0xf8],
    [0x2f, 0xce, 0xb9, 0x93, 0x64, 0x97, 0x1c, 0x7c, 0x08, 0x96, 0xe8, 0xb6, 0x2c, 0x05, 0x44, 0x46],
    [0x3f, 0xf1, 0x01, 0x98, 0x3c, 0x20, 0x45, 0x98, 0x1c, 0xcd, 0x91, 0x73, 0xeb, 0x33, 0xba, 0x18],
    [0x48, 0x3e, 0xd9, 0x15, 0xbd, 0x11, 0xea, 0x95, 0x0d, 0xb3, 0xa8, 0x78, 0x7c, 0x10, 0x52, 0x63],
    [0x24, 0x2e, 0x3a, 0x64, 0xc7, 0x48, 0xb8, 0xb1, 0xa5, 0x94, 0x78, 0x80, 0xc5, 0xbf, 0x38, 0x96],
    [0xe0, 0x8b, 0x4b, 0x99, 0x16, 0xa3, 0x9f, 0xd7, 0x0c, 0x2f, 0xf8, 0xbd, 0x04, 0x1a, 0x2b, 0x18],
    [0xe2, 0x51, 0xd1, 0x6a, 0x27, 0x6e, 0x38, 0x10, 0x0a, 0x61, 0x3e, 0xa9, 0x6a, 0x86, 0xcb, 0x36],
    [0x52, 0xdc, 0xc8, 0x3f, 0x2d, 0x31, 0xcd, 0x9f, 0x8b, 0x79, 0xe4, 0x25, 0x41, 0xa6, 0x67, 0x52],
    [0xd1, 0x91, 0x43, 0x6c, 0xf5, 0xb5, 0xd8, 0x35, 0x0e, 0xe7, 0x83, 0x5c, 0xdb, 0x12, 0x28, 0x55],
    [0x39, 0x2c, 0x1d, 0xa5, 0xc3, 0x3f, 0xda, 0x12, 0xad, 0x10, 0x28, 0xf2, 0x80, 0x68, 0x61, 0xa2],
    [0xab, 0x9c, 0x63, 0x78, 0x5f, 0xd1, 0x1e, 0x22, 0x03, 0x46, 0x32, 0x2c, 0x25, 0x09, 0x36, 0xab],
    [0x81, 0x92, 0x54, 0x73, 0x4a, 0x8d, 0xc9, 0x24, 0x19, 0x71, 0xac, 0x90, 0xcd, 0xa6, 0x69, 0x6a],
    [0xdb, 0x90, 0xd1, 0xe3, 0x27, 0xdc, 0x97, 0x78, 0x41, 0xab, 0xa3, 0x83, 0x24, 0xc8, 0xfb, 0x20],
    [0x92, 0x78, 0x49, 0x42, 0x00, 0x3a, 0x08, 0x08, 0xe5, 0x54, 0x6d, 0x03, 0x45, 0x92, 0xf0, 0x3b],
    [0xac, 0xc1, 0x9e, 0x31, 0x38, 0xc9, 0x07, 0x0c, 0xce, 0xa8, 0x0a, 0x93, 0x3d, 0x53, 0x6c, 0x49],
    [0xe4, 0x77, 0x10, 0x91, 0xaf, 0x8a, 0x70, 0x20, 0x7d, 0x47, 0x45, 0x74, 0xc6, 0x4b, 0x9f, 0x1c],
    [0x8e, 0x47, 0x22, 0x41, 0x74, 0x06, 0x11, 0x17, 0xe9, 0x8c, 0x18, 0x89, 0x7a, 0x7b, 0x1b, 0x3c],
    [0x44, 0x78, 0xc6, 0x55, 0x8c, 0x32, 0x1a, 0x89, 0xa8, 0x4b, 0x6c, 0x50, 0x89, 0x47, 0xcb, 0x61],
    [0xc8, 0x92, 0x04, 0xfb, 0xca, 0x43, 0xbc, 0xaa, 0x1d, 0x68, 0x8f, 0x76, 0x8b, 0x02, 0xe5, 0x0b],
    [0xab, 0xeb, 0xf0, 0xc5, 0xfb, 0x89, 0x62, 0xb2, 0x35, 0x59, 0x73, 0xc4, 0x19, 0x3f, 0xa9, 0x2e],
    [0x0c, 0xe4, 0xb9, 0xf8, 0x47, 0x3e, 0x15, 0x48, 0x28, 0xc9, 0x86, 0xbf, 0x63, 0xe1, 0xcd, 0x98],
    [0x5c, 0x6f, 0x04, 0x62, 0xc9, 0xb4, 0x37, 0x45, 0x94, 0xd2, 0x26, 0xc5, 0xe9, 0x9b, 0x8a, 0x84],
    [0x49, 0x78, 0xdb, 0x8d, 0xd2, 0x83, 0x9e, 0x27, 0x13, 0x8a, 0xac, 0xf7, 0x5e, 0x91, 0x76, 0x35],
    [0xce, 0xc4, 0xb4, 0x07, 0xa5, 0x4f, 0x18, 0x4c, 0x22, 0xf6, 0x29, 0x81, 0xb9, 0xf4, 0x55, 0x2f],
    [0xb3, 0x34, 0xff, 0x2b, 0x7f, 0xf6, 0x8b, 0x47, 0x0f, 0xd6, 0x1b, 0x99, 0x3c, 0x32, 0x58, 0x1c],
    [0xc0, 0xf3, 0x98, 0x81, 0xa5, 0xa6, 0xa7, 0x69, 0xa6, 0x02, 0x97, 0xf4, 0xb0, 0x57, 0x9a, 0xcb],
    [0xf5, 0x2a, 0x8a, 0xbb, 0x14, 0x38, 0x85, 0x88, 0x62, 0x45, 0xca, 0x26, 0x36, 0xe2, 0x04, 0x98],
    [0x95, 0x9e, 0x4f, 0x28, 0x57, 0xab, 0x96, 0x70, 0x6e, 0x64, 0x09, 0xc4, 0x16, 0x4b, 0xa8, 0x8c],
    [0x71, 0x93, 0xe5, 0x68, 0xe4, 0x44, 0x61, 0x20, 0x21, 0x5a, 0x6d, 0x84, 0x99, 0xc6, 0xb4, 0xbc],
    [0x55, 0x96, 0x28, 0xa9, 0xf4, 0x81, 0xc7, 0xdb, 0x51, 0xe2, 0xe1, 0x0d, 0xf1, 0xf4, 0x33, 0x9a],
    [0x64, 0x7b, 0x4c, 0xcc, 0x04, 0x05, 0xb7, 0x9f, 0x70, 0xa9, 0x0c, 0xa9, 0xa8, 0xad, 0x07, 0x78],
    [0x92, 0x22, 0xba, 0x6e, 0x66, 0xc3, 0xaf, 0xf4, 0x2b, 0x61, 0xba, 0xa6, 0x37, 0xaf, 0x15, 0x12],
    [0x6c, 0x88, 0xb2, 0xe2, 0x10, 0xa7, 0xca, 0xd9, 0xcb, 0x08, 0xcb, 0xb5, 0x12, 0x3a, 0x7f, 0x9b],
    [0xb4, 0xad, 0x63, 0xda, 0xae, 0xa6, 0xb4, 0x3f, 0x9a, 0xab, 0xa5, 0x61, 0x21, 0x28, 0x23, 0xcb],
    [0x89, 0x8a, 0x67, 0x6c, 0x96, 0x7b, 0x2d, 0x64, 0xf4, 0xb6, 0x33, 0x34, 0x39, 0xf8, 0x99, 0x3b],
    [0xd7, 0xb1, 0x96, 0x87, 0x24, 0x89, 0x26, 0xe0, 0x77, 0xa9, 0x70, 0x04, 0x31, 0xa5, 0x91, 0x57],
    [0xb9, 0x66, 0x8e, 0xe0, 0x22, 0xb6, 0xd3, 0x13, 0x43, 0xf1, 0x5c, 0x08, 0xf1, 0x44, 0x88, 0x87],
    [0x7d, 0xfb, 0x30, 0xa5, 0x52, 0xc0, 0x6f, 0x96, 0xa1, 0x6f, 0x35, 0x4b, 0x9a, 0x3f, 0x19, 0x09],
    [0x0b, 0x32, 0xa0, 0x43, 0xb4, 0x32, 0x56, 0xba, 0x5b, 0x10, 0x88, 0xb5, 0x6a, 0x41, 0x25, 0x58],
    [0x8c, 0x87, 0x46, 0xd4, 0x09, 0x9e, 0xa2, 0x1c, 0x4f, 0x33, 0xad, 0x8c, 0x5c, 0x7c, 0x32, 0x28],
    [0x6d, 0xee, 0x2c, 0xa7, 0x6f, 0xc2, 0x65, 0x1d, 0x57, 0xae, 0xe9, 0xd8, 0x47, 0x82, 0x4a, 0xc6],
    [0x09, 0xb5, 0xbf, 0xd5, 0xc8, 0x73, 0x16, 0xc2, 0xaf, 0xe0, 0xe1, 0x53, 0xd6, 0x32, 0x6a, 0xf8],
    [0x99, 0x87, 0xec, 0xb7, 0x0c, 0xf0, 0xa0, 0xa7, 0x7f, 0xa0, 0x00, 0xe0, 0xe0, 0xac, 0xc2, 0x68],
    [0x5e, 0x23, 0x17, 0x42, 0x9c, 0x3a, 0x75, 0x13, 0xf4, 0x28, 0x73, 0xcb, 0x98, 0xf6, 0x69, 0x70],
    [0x3a, 0xe9, 0x14, 0x69, 0x19, 0x22, 0x6d, 0xb5, 0x8d, 0x6c, 0x2b, 0x93, 0xb6, 0xf5, 0x0c, 0x7c],
    [0xda, 0xb6, 0x77, 0xb5, 0x05, 0x94, 0x5a, 0x0f, 0x25, 0x23, 0x88, 0x6c, 0x1b, 0x82, 0xa6, 0xa7],
    [0xcc, 0x7e, 0xba, 0x92, 0x51, 0x09, 0x6d, 0x88, 0x36, 0x0d, 0x7e, 0xf6, 0x47, 0x3a, 0xcb, 0xcd],
    [0x35, 0x9a, 0x0d, 0x20, 0x41, 0x4b, 0x95, 0xc2, 0x09, 0xb2, 0x41, 0x3b, 0x14, 0x83, 0xa3, 0xa0],
    [0x61, 0x38, 0x63, 0x77, 0xb2, 0x8e, 0x38, 0x96, 0xbc, 0xd8, 0xc5, 0xe2, 0x69, 0x26, 0x81, 0xcc],
    [0x80, 0x3e, 0x16, 0x94, 0xef, 0xb6, 0xce, 0x35, 0x30, 0x82, 0xff, 0xca, 0x40, 0x79, 0xea, 0x9b],
    [0xb7, 0xb2, 0x02, 0x5b, 0xcb, 0x68, 0x99, 0x04, 0x66, 0xed, 0x28, 0x03, 0xab, 0x11, 0x51, 0x6d],
    [0x80, 0x32, 0x5d, 0xc4, 0xcd, 0xe3, 0xda, 0x9e, 0x02, 0x06, 0x53, 0xe0, 0x84, 0xc4, 0x5f, 0x83],
    [0x7c, 0x88, 0x71, 0x1d, 0xf3, 0xaa, 0x60, 0x75, 0x74, 0x1c, 0x12, 0x83, 0x12, 0x1c, 0x8b, 0x1c],
    [0x69, 0x10, 0x13, 0x96, 0x9a, 0x62, 0xb2, 0x56, 0x3e, 0x55, 0x62, 0x06, 0xcf, 0x08, 0x10, 0x84],
    [0x86, 0x91, 0xc7, 0xc4, 0x08, 0xd0, 0x18, 0x61, 0x7a, 0x73, 0x00, 0xad, 0x94, 0x3e, 0x18, 0x9a],
    [0x9b, 0x44, 0x51, 0x2e, 0xf1, 0x3b, 0x66, 0x98, 0x31, 0x39, 0x2f, 0x13, 0x29, 0xe2, 0xac, 0x7c],
    [0x62, 0x3a, 0xa0, 0x44, 0x22, 0x30, 0x79, 0x13, 0x9b, 0x7f, 0x1c, 0x21, 0x3e, 0x93, 0x68, 0x2e],
    [0xd8, 0x61, 0x65, 0x46, 0x83, 0x77, 0xd4, 0x08, 0x84, 0x31, 0x01, 0x63, 0xa5, 0x53, 0x9f, 0x27],
    [0x74, 0x5e, 0x66, 0x7a, 0xdf, 0x50, 0x68, 0x96, 0xba, 0x93, 0x3b, 0x00, 0x2e, 0x4d, 0x50, 0xb2],
    [0x49, 0x7e, 0xcf, 0xf0, 0x9d, 0x0b, 0xbc, 0xa4, 0xf7, 0xe6, 0xf9, 0xdb, 0x9e, 0x10, 0xc6, 0x43],
    [0xd2, 0x37, 0x01, 0xbd, 0x63, 0x85, 0xe1, 0x63, 0xcf, 0x71, 0xc1, 0xe9, 0x19, 0xa6, 0xe2, 0x0a]]"

definition KAT_ENCAP_DK :: bytes where
  "KAT_ENCAP_DK = concat [
    [0x54, 0x02, 0x7a, 0x27, 0xbc, 0x42, 0x34, 0x6b, 0xce, 0x5e, 0x19, 0xb8, 0x4b, 0x07, 0x47, 0x81],
    [0x17, 0x9c, 0xbd, 0xa1, 0x95, 0x57, 0x10, 0x5f, 0x95, 0xa0, 0x63, 0x9c, 0x61, 0x35, 0x7d, 0xc8],
    [0x9a, 0x0b, 0xba, 0x38, 0xa8, 0xb9, 0x20, 0x17, 0x26, 0x21, 0x94, 0x34, 0x90, 0x5d, 0xd2, 0xbb],
    [0xd5, 0xf7, 0xa5, 0x7f, 0xd2, 0x13, 0x5c, 0xe1, 0x2c, 0x09, 0x4b, 0x58, 0x29, 0xf9, 0x7e, 0x40],
    [0xfa, 0x7a, 0xe0, 0x8b, 0x57, 0x93, 0x22, 0xcd, 0x2e, 0x87, 0xa4, 0xb0, 0x60, 0xc0, 0x95, 0xc1],
    [0x28, 0x3a, 0xf1, 0x9a, 0xb5, 0x76, 0x1f, 0xcd, 0x5a, 0x5b, 0x55, 0x63, 0x88, 0xf8, 0x58, 0x2a],
    [0x8d, 0x94, 0x1f, 0x69, 0x74, 0x85, 0x7a, 0xfb, 0x4e, 0xfa, 0x62, 0x47, 0x15, 0x77, 0x2b, 0x04],
    [0xfa, 0x5a, 0x86, 0x09, 0x99, 0xfb, 0xec, 0x9a, 0x3e, 0x35, 0x02, 0xeb, 0xd7, 0x87, 0x9c, 0xd4],
    [0x8b, 0x2b, 0x28, 0x85, 0xa9, 0x92, 0x78, 0x45, 0xab, 0x29, 0x23, 0x95, 0x94, 0x4c, 0x1b, 0x87],
    [0x4d, 0xea, 0x35, 0x6b, 0xec, 0x5c, 0x34, 0xbc, 0x10, 0xd7, 0xaa, 0x9e, 0xce, 0x26, 0x30, 0xd3],
    [0x27, 0x6c, 0x0f, 0x24, 0x8d, 0x70, 0x54, 0x94, 0x56, 0xc7, 0x0b, 0x7c, 0xf6, 0x07, 0x88, 0x30],
    [0xb7, 0x11, 0x61, 0x97, 0x26, 0x41, 0x79, 0xb1, 0x82, 0x5a, 0x2e, 0x8b, 0xbc, 0xf6, 0x11, 0x9b],
    [0x81, 0xa7, 0xb9, 0xf1, 0xa3, 0xb1, 0xce, 0x91, 0xaa, 0x21, 0x12, 0xbe, 0x43, 0xfb, 0xba, 0x23],
    [0xdc, 0x78, 0x0d, 0x34, 0x08, 0x5f, 0x37, 0x30, 0xbe, 0x10, 0xa8, 0x24, 0xb7, 0xb0, 0xcb, 0xb6],
    [0xb3, 0xe5, 0x4a, 0x6c, 0xe4, 0x22, 0x81, 0xb7, 0x26, 0x80, 0xdf, 0x4b, 0x40, 0x63, 0x1a, 0x17],
    [0x3f, 0x60, 0xb9, 0x2c, 0x30, 0x63, 0x92, 0xe0, 0x98, 0x21, 0xb7, 0x71, 0xe7, 0xab, 0x21, 0x11],
    [0x83, 0x67, 0x8b, 0x58, 0xa8, 0x13, 0x40, 0xc8, 0xe1, 0xe1, 0x3b, 0x49, 0xd8, 0x64, 0x22, 0xd5],
    [0x06, 0xb2, 0x02, 0x4b, 0xfa, 0x97, 0x42, 0x01, 0x50, 0x6d, 0x9a, 0x2a, 0x09, 0x9c, 0xa6, 0x79],
    [0xc4, 0xf3, 0x6c, 0xe2, 0xd6, 0xa0, 0xee, 0x56, 0xa0, 0x4f, 0x91, 0x15, 0xb9, 0x50, 0x3f, 0x27],
    [0xa3, 0x28, 0xac, 0x49, 0xc8, 0x46, 0xa4, 0x39, 0x72, 0x68, 0x90, 0x94, 0x39, 0xbf, 0xac, 0x89],
    [0x66, 0x52, 0x07, 0x58, 0xcd, 0x43, 0x10, 0x99, 0x44, 0xa2, 0xeb, 0x95, 0x07, 0x76, 0x74, 0x06],
    [0xd6, 0xf0, 0x8c, 0xc5, 0x69, 0x79, 0x2f, 0xfb, 0xa9, 0x76, 0xb0, 0x81, 0x32, 0xc3, 0x23, 0x6b],
    [0xf4, 0xbe, 0x51, 0x4b, 0xaf, 0x92, 0x47, 0x0b, 0x3e, 0xc7, 0x0c, 0xf3, 0x07, 0x7b, 0x90, 0x87],
    [0x58, 0x31, 0x87, 0x7e, 0x85, 0x2b, 0x45, 0xbd, 0x1a, 0x8d, 0xdc, 0x2b, 0x93, 0x68, 0xa7, 0x21],
    [0xd8, 0x3c, 0x6c, 0xea, 0x30, 0x5d, 0x2e, 0xf5, 0x00, 0x31, 0x05, 0x1b, 0xb3, 0xa3, 0x95, 0x93],
    [0x4a, 0xb9, 0x50, 0x48, 0x5e, 0xc8, 0x31, 0x5c, 0x33, 0x75, 0x94, 0x0b, 0xe6, 0x2e, 0xe3, 0x33],
    [0x64, 0x7f, 0x16, 0x71, 0x87, 0x34, 0xb1, 0xec, 0x81, 0xc4, 0xcc, 0x19, 0x02, 0x76, 0x16, 0x89],
    [0xe7, 0x2a, 0xcf, 0x69, 0x5b, 0x88, 0x34, 0xb0, 0x4b, 0x90, 0x58, 0x3a, 0xdb, 0xe1, 0x3b, 0xbc],
    [0x73, 0x1c, 0x8c, 0x33, 0xcb, 0x69, 0x51, 0x54, 0xf5, 0x40, 0x82, 0x5e, 0x84, 0xb2, 0x7c, 0x87],
    [0x39, 0xd2, 0x96, 0x2c, 0x82, 0x30, 0xae, 0x3e, 0x09, 0x28, 0x6d, 0xdc, 0x06, 0x9d, 0xe5, 0x29],
    [0x37, 0xe1, 0x8d, 0x08, 0x40, 0xad, 0x33, 0x9c, 0xaa, 0x6d, 0x55, 0x41, 0x8b, 0xfb, 0x40, 0x0e],
    [0x83, 0xbf, 0xf4, 0x10, 0xa5, 0x6b, 0x76, 0xc8, 0xd8, 0xd3, 0x5b, 0x7b, 0x7a, 0xb2, 0xce, 0xd2],
    [0x39, 0x12, 0xf7, 0xc4, 0xcd, 0xa5, 0x90, 0x98, 0x0a, 0x23, 0x06, 0xca, 0x9c, 0xbe, 0x87, 0xa4],
    [0xc7, 0xf5, 0xba, 0xbc, 0xe3, 0x51, 0xc0, 0x64, 0xa9, 0x84, 0x23, 0x6e, 0x2d, 0xe2, 0x51, 0x1c],
    [0x74, 0xae, 0xa2, 0x22, 0x66, 0x48, 0xa8, 0x0d, 0x83, 0x08, 0x22, 0xb0, 0x0b, 0x41, 0x75, 0x01],
    [0x57, 0x4e, 0x1c, 0x14, 0x12, 0xc3, 0x2a, 0x32, 0x38, 0x94, 0xdd, 0xbc, 0x62, 0x9c, 0x4c, 0x30],
    [0xb1, 0xd7, 0x64, 0x58, 0x93, 0xb4, 0xc1, 0x64, 0x3b, 0x5f, 0x12, 0x72, 0x9f, 0x2a, 0x38, 0x9c],
    [0xf3, 0x8f, 0x20, 0x45, 0x80, 0x70, 0x49, 0x02, 0x82, 0x71, 0x59, 0x29, 0x00, 0xa7, 0x90, 0x66],
    [0xb9, 0x21, 0x59, 0xa7, 0x5d, 0x5c, 0x08, 0x68, 0x3c, 0x46, 0x96, 0xca, 0x5e, 0x0a, 0xe1, 0x00],
    [0x36, 0xb5, 0xc9, 0xdf, 0x34, 0xcf, 0x61, 0x68, 0x8e, 0xbc, 0x02, 0x4f, 0x0c, 0xe7, 0x8e, 0x26],
    [0xf3, 0xa3, 0x29, 0xac, 0x36, 0xbb, 0x22, 0x05, 0x0a, 0xe7, 0x43, 0x9a, 0x86, 0xbd, 0xa6, 0x67],
    [0x3b, 0xd4, 0x25, 0x0f, 0x35, 0x46, 0x53, 0xac, 0x77, 0x99, 0x0f, 0xfb, 0x21, 0x5b, 0xa1, 0xc8],
    [0xcb, 0xe0, 0xa4, 0xf4, 0xcb, 0x38, 0x18, 0xc9, 0x26, 0x21, 0x55, 0x19, 0xa6, 0xe2, 0x57, 0xe4],
    [0x07, 0xa5, 0xa0, 0x24, 0x70, 0x14, 0x1c, 0xba, 0x49, 0x99, 0x99, 0xad, 0x05, 0x3c, 0xfd, 0x89],
    [0xb1, 0x06, 0xc8, 0x55, 0xe7, 0xda, 0xa8, 0x73, 0x42, 0x18, 0xed, 0x06, 0x1b, 0xa9, 0xba, 0x82],
    [0x11, 0x98, 0x05, 0x94, 0x0a, 0x4a, 0x67, 0xe4, 0xc1, 0xe1, 0x62, 0xa9, 0xc5, 0x8a, 0x93, 0x69],
    [0x8b, 0xc8, 0x2f, 0x62, 0x0d, 0x5b, 0xd7, 0x61, 0xd2, 0xf5, 0x79, 0x5a, 0x51, 0x2d, 0x74, 0x75],
    [0x3b, 0xf4, 0x88, 0x1d, 0x34, 0xd4, 0x76, 0xa8, 0x26, 0x92, 0x3d, 0x53, 0x49, 0x28, 0xb7, 0x7c],
    [0x52, 0xb3, 0xb7, 0xb2, 0x8b, 0x48, 0xd6, 0x86, 0x77, 0x99, 0x16, 0x54, 0x12, 0x81, 0x5e, 0xb7],
    [0xb5, 0xa7, 0x9d, 0x18, 0x4c, 0x12, 0x91, 0x89, 0x08, 0xb4, 0x10, 0xd7, 0x40, 0x5e, 0x7b, 0xac],
    [0xa5, 0x0f, 0x00, 0x67, 0x82, 0x52, 0x62, 0x00, 0x4a, 0x9f, 0x73, 0x9c, 0x7d, 0x56, 0x9a, 0x69],
    [0x15, 0xc3, 0x0c, 0x4a, 0x62, 0x4c, 0x4c, 0xf7, 0xc9, 0xa5, 0x59, 0xc1, 0x3e, 0xc5, 0x40, 0x75],
    [0x9b, 0xae, 0xa5, 0xa3, 0x27, 0x15, 0xf1, 0x81, 0x5e, 0x79, 0xbc, 0x23, 0x83, 0x6e, 0xb9, 0x67],
    [0x26, 0xbb, 0xc7, 0x87, 0xad, 0x1a, 0x25, 0xaa, 0x2a, 0x47, 0x83, 0xc7, 0x8b, 0xce, 0x9a, 0xa0],
    [0x5e, 0x92, 0x34, 0xc9, 0xe9, 0x38, 0xc7, 0x3a, 0x6e, 0x89, 0xcb, 0x1f, 0x00, 0x87, 0x8b, 0x68],
    [0x7b, 0x1b, 0xdb, 0x45, 0x3e, 0x7c, 0x60, 0x20, 0x3f, 0x8c, 0x91, 0x75, 0x5c, 0xa7, 0xb3, 0xea],
    [0x76, 0x36, 0x01, 0x70, 0x8a, 0xc6, 0xa4, 0xee, 0x8b, 0x05, 0xa4, 0x2b, 0x7f, 0x89, 0x41, 0x00],
    [0x68, 0x03, 0xab, 0x66, 0x28, 0x87, 0x18, 0x80, 0x72, 0x14, 0x16, 0x65, 0x19, 0xeb, 0x8a, 0x57],
    [0xc8, 0x97, 0xef, 0xd8, 0x0d, 0xd3, 0x46, 0xa1, 0x03, 0xaa, 0x4e, 0x8f, 0xa4, 0x28, 0x5c, 0xf5],
    [0xb2, 0xd8, 0x74, 0x48, 0xf1, 0x10, 0x64, 0x7e, 0x7a, 0x20, 0xde, 0x21, 0x00, 0x10, 0x75, 0x1a],
    [0xfe, 0x70, 0xb4, 0xda, 0x1c, 0x66, 0x22, 0x10, 0x54, 0x8d, 0xd8, 0xc0, 0xea, 0x5a, 0xaf, 0xd2],
    [0x6b, 0x03, 0x63, 0xa8, 0x5b, 0xf6, 0x75, 0xbc, 0x0d, 0x8a, 0x77, 0xe6, 0x18, 0x7a, 0xe5, 0xc0],
    [0x41, 0xd8, 0x77, 0x9d, 0xd7, 0x70, 0xa4, 0xa7, 0x91, 0x73, 0x17, 0xa4, 0x82, 0x22, 0x57, 0x3c],
    [0x94, 0x04, 0x19, 0x26, 0x91, 0x93, 0xdf, 0xeb, 0x7b, 0x41, 0x02, 0x2c, 0xfa, 0x60, 0x09, 0xd3],
    [0xb4, 0x8d, 0xee, 0x22, 0x9f, 0x0d, 0x22, 0x0a, 0x99, 0x60, 0x70, 0x7d, 0x95, 0x29, 0x2a, 0x9a],
    [0xba, 0x8a, 0x1b, 0xab, 0x48, 0x64, 0x7b, 0xe1, 0x25, 0xac, 0x1f, 0xe3, 0x3a, 0x55, 0x91, 0x88],
    [0x70, 0xb5, 0x9c, 0x2a, 0x10, 0x05, 0xf8, 0xb2, 0xac, 0xaa, 0x65, 0x9a, 0xa3, 0x12, 0x03, 0x3b],
    [0x6c, 0x95, 0x18, 0xf3, 0x8d, 0x03, 0x58, 0x11, 0x12, 0xa3, 0x07, 0x90, 0x77, 0x79, 0xb0, 0xf1],
    [0x99, 0xc7, 0x47, 0x1a, 0x8e, 0x7a, 0x72, 0x26, 0xac, 0x6f, 0x87, 0xa4, 0x20, 0x29, 0x1b, 0x8d],
    [0x84, 0x1b, 0xb7, 0x9d, 0x59, 0x74, 0x64, 0x2c, 0x29, 0xce, 0x11, 0xaa, 0x36, 0x14, 0x9d, 0x32],
    [0x17, 0x80, 0xaa, 0x32, 0x91, 0x0a, 0xa0, 0x03, 0x33, 0xe7, 0x38, 0x50, 0x4c, 0x14, 0xb7, 0x25],
    [0x92, 0x1c, 0x8c, 0x8f, 0xd9, 0x56, 0x80, 0x5b, 0x75, 0x97, 0xf7, 0xe6, 0x32, 0xd1, 0xa8, 0x61],
    [0x9c, 0x68, 0x39, 0x35, 0x40, 0x86, 0x91, 0x9b, 0xc7, 0xb8, 0xa5, 0x47, 0xff, 0x18, 0xb5, 0x23],
    [0x07, 0x5f, 0xd1, 0x70, 0x68, 0x56, 0x40, 0x09, 0x52, 0x48, 0x9e, 0x4c, 0xd1, 0x3e, 0xd8, 0xb1],
    [0x7a, 0x81, 0x7a, 0x30, 0x76, 0xe0, 0x94, 0x7b, 0x86, 0x0e, 0xc9, 0x55, 0x8b, 0xd9, 0xd3, 0xc9],
    [0x4d, 0xf5, 0x41, 0x8a, 0x7a, 0x73, 0x01, 0x76, 0x39, 0x99, 0xc0, 0x99, 0x96, 0x71, 0x5c, 0xe3],
    [0x2a, 0xac, 0xfe, 0xf7, 0x67, 0xa4, 0x49, 0x69, 0x92, 0x59, 0x49, 0xcc, 0x9b, 0x81, 0x20, 0xcb],
    [0x78, 0x95, 0x3b, 0xcf, 0x6f, 0xb8, 0x28, 0x24, 0x27, 0xcb, 0x3f, 0x4c, 0xbb, 0xc5, 0x0a, 0xb2],
    [0x32, 0x74, 0x49, 0x3a, 0x8b, 0xa7, 0xe5, 0xc0, 0x90, 0x88, 0x16, 0x0f, 0xda, 0x73, 0x1b, 0x55],
    [0x98, 0x08, 0x67, 0x91, 0x2b, 0xac, 0x53, 0x12, 0x5b, 0x27, 0x07, 0x3b, 0xb5, 0x02, 0xaf, 0xac],
    [0x5e, 0x74, 0x97, 0x3e, 0x0f, 0x36, 0x01, 0xdc, 0x50, 0xce, 0x08, 0xcc, 0x7f, 0x3f, 0xa4, 0x4c],
    [0xe3, 0x31, 0xa4, 0x3f, 0x96, 0x73, 0xbe, 0x74, 0x52, 0x95, 0xe6, 0x93, 0x07, 0x72, 0x64, 0xa8],
    [0xe2, 0x38, 0xf0, 0xa9, 0x12, 0xc0, 0xa5, 0x9c, 0x44, 0xd5, 0x61, 0xe2, 0xa8, 0xbd, 0x83, 0x15],
    [0x41, 0xfe, 0x86, 0x9b, 0x31, 0x10, 0xb0, 0x51, 0x10, 0x0d, 0xb3, 0x51, 0x7f, 0x87, 0x51, 0x0e],
    [0xca, 0xd8, 0x65, 0x1c, 0xe4, 0x99, 0x8b, 0xb6, 0x48, 0x00, 0x2b, 0xa4, 0x1a, 0x53, 0x51, 0xfa],
    [0x2a, 0x4e, 0xd9, 0x4a, 0x58, 0xcb, 0x70, 0x72, 0x14, 0xa5, 0x9f, 0x88, 0x76, 0x17, 0x6c, 0xf8],
    [0x2f, 0xce, 0xb9, 0x93, 0x64, 0x97, 0x1c, 0x7c, 0x08, 0x96, 0xe8, 0xb6, 0x2c, 0x05, 0x44, 0x46],
    [0x3f, 0xf1, 0x01, 0x98, 0x3c, 0x20, 0x45, 0x98, 0x1c, 0xcd, 0x91, 0x73, 0xeb, 0x33, 0xba, 0x18],
    [0x48, 0x3e, 0xd9, 0x15, 0xbd, 0x11, 0xea, 0x95, 0x0d, 0xb3, 0xa8, 0x78, 0x7c, 0x10, 0x52, 0x63],
    [0x24, 0x2e, 0x3a, 0x64, 0xc7, 0x48, 0xb8, 0xb1, 0xa5, 0x94, 0x78, 0x80, 0xc5, 0xbf, 0x38, 0x96],
    [0xe0, 0x8b, 0x4b, 0x99, 0x16, 0xa3, 0x9f, 0xd7, 0x0c, 0x2f, 0xf8, 0xbd, 0x04, 0x1a, 0x2b, 0x18],
    [0xe2, 0x51, 0xd1, 0x6a, 0x27, 0x6e, 0x38, 0x10, 0x0a, 0x61, 0x3e, 0xa9, 0x6a, 0x86, 0xcb, 0x36],
    [0x52, 0xdc, 0xc8, 0x3f, 0x2d, 0x31, 0xcd, 0x9f, 0x8b, 0x79, 0xe4, 0x25, 0x41, 0xa6, 0x67, 0x52],
    [0xd1, 0x91, 0x43, 0x6c, 0xf5, 0xb5, 0xd8, 0x35, 0x0e, 0xe7, 0x83, 0x5c, 0xdb, 0x12, 0x28, 0x55],
    [0x39, 0x2c, 0x1d, 0xa5, 0xc3, 0x3f, 0xda, 0x12, 0xad, 0x10, 0x28, 0xf2, 0x80, 0x68, 0x61, 0xa2],
    [0xab, 0x9c, 0x63, 0x78, 0x5f, 0xd1, 0x1e, 0x22, 0x03, 0x46, 0x32, 0x2c, 0x25, 0x09, 0x36, 0xab],
    [0x81, 0x92, 0x54, 0x73, 0x4a, 0x8d, 0xc9, 0x24, 0x19, 0x71, 0xac, 0x90, 0xcd, 0xa6, 0x69, 0x6a],
    [0xdb, 0x90, 0xd1, 0xe3, 0x27, 0xdc, 0x97, 0x78, 0x41, 0xab, 0xa3, 0x83, 0x24, 0xc8, 0xfb, 0x20],
    [0x92, 0x78, 0x49, 0x42, 0x00, 0x3a, 0x08, 0x08, 0xe5, 0x54, 0x6d, 0x03, 0x45, 0x92, 0xf0, 0x3b],
    [0xac, 0xc1, 0x9e, 0x31, 0x38, 0xc9, 0x07, 0x0c, 0xce, 0xa8, 0x0a, 0x93, 0x3d, 0x53, 0x6c, 0x49],
    [0xe4, 0x77, 0x10, 0x91, 0xaf, 0x8a, 0x70, 0x20, 0x7d, 0x47, 0x45, 0x74, 0xc6, 0x4b, 0x9f, 0x1c],
    [0x8e, 0x47, 0x22, 0x41, 0x74, 0x06, 0x11, 0x17, 0xe9, 0x8c, 0x18, 0x89, 0x7a, 0x7b, 0x1b, 0x3c],
    [0x44, 0x78, 0xc6, 0x55, 0x8c, 0x32, 0x1a, 0x89, 0xa8, 0x4b, 0x6c, 0x50, 0x89, 0x47, 0xcb, 0x61],
    [0xc8, 0x92, 0x04, 0xfb, 0xca, 0x43, 0xbc, 0xaa, 0x1d, 0x68, 0x8f, 0x76, 0x8b, 0x02, 0xe5, 0x0b],
    [0xab, 0xeb, 0xf0, 0xc5, 0xfb, 0x89, 0x62, 0xb2, 0x35, 0x59, 0x73, 0xc4, 0x19, 0x3f, 0xa9, 0x2e],
    [0x0c, 0xe4, 0xb9, 0xf8, 0x47, 0x3e, 0x15, 0x48, 0x28, 0xc9, 0x86, 0xbf, 0x63, 0xe1, 0xcd, 0x98],
    [0x5c, 0x6f, 0x04, 0x62, 0xc9, 0xb4, 0x37, 0x45, 0x94, 0xd2, 0x26, 0xc5, 0xe9, 0x9b, 0x8a, 0x84],
    [0x49, 0x78, 0xdb, 0x8d, 0xd2, 0x83, 0x9e, 0x27, 0x13, 0x8a, 0xac, 0xf7, 0x5e, 0x91, 0x76, 0x35],
    [0xce, 0xc4, 0xb4, 0x07, 0xa5, 0x4f, 0x18, 0x4c, 0x22, 0xf6, 0x29, 0x81, 0xb9, 0xf4, 0x55, 0x2f],
    [0xb3, 0x34, 0xff, 0x2b, 0x7f, 0xf6, 0x8b, 0x47, 0x0f, 0xd6, 0x1b, 0x99, 0x3c, 0x32, 0x58, 0x1c],
    [0xc0, 0xf3, 0x98, 0x81, 0xa5, 0xa6, 0xa7, 0x69, 0xa6, 0x02, 0x97, 0xf4, 0xb0, 0x57, 0x9a, 0xcb],
    [0xf5, 0x2a, 0x8a, 0xbb, 0x14, 0x38, 0x85, 0x88, 0x62, 0x45, 0xca, 0x26, 0x36, 0xe2, 0x04, 0x98],
    [0x95, 0x9e, 0x4f, 0x28, 0x57, 0xab, 0x96, 0x70, 0x6e, 0x64, 0x09, 0xc4, 0x16, 0x4b, 0xa8, 0x8c],
    [0x71, 0x93, 0xe5, 0x68, 0xe4, 0x44, 0x61, 0x20, 0x21, 0x5a, 0x6d, 0x84, 0x99, 0xc6, 0xb4, 0xbc],
    [0x55, 0x96, 0x28, 0xa9, 0xf4, 0x81, 0xc7, 0xdb, 0x51, 0xe2, 0xe1, 0x0d, 0xf1, 0xf4, 0x33, 0x9a],
    [0x64, 0x7b, 0x4c, 0xcc, 0x04, 0x05, 0xb7, 0x9f, 0x70, 0xa9, 0x0c, 0xa9, 0xa8, 0xad, 0x07, 0x78],
    [0x92, 0x22, 0xba, 0x6e, 0x66, 0xc3, 0xaf, 0xf4, 0x2b, 0x61, 0xba, 0xa6, 0x37, 0xaf, 0x15, 0x12],
    [0x6c, 0x88, 0xb2, 0xe2, 0x10, 0xa7, 0xca, 0xd9, 0xcb, 0x08, 0xcb, 0xb5, 0x12, 0x3a, 0x7f, 0x9b],
    [0xb4, 0xad, 0x63, 0xda, 0xae, 0xa6, 0xb4, 0x3f, 0x9a, 0xab, 0xa5, 0x61, 0x21, 0x28, 0x23, 0xcb],
    [0x89, 0x8a, 0x67, 0x6c, 0x96, 0x7b, 0x2d, 0x64, 0xf4, 0xb6, 0x33, 0x34, 0x39, 0xf8, 0x99, 0x3b],
    [0xd7, 0xb1, 0x96, 0x87, 0x24, 0x89, 0x26, 0xe0, 0x77, 0xa9, 0x70, 0x04, 0x31, 0xa5, 0x91, 0x57],
    [0xb9, 0x66, 0x8e, 0xe0, 0x22, 0xb6, 0xd3, 0x13, 0x43, 0xf1, 0x5c, 0x08, 0xf1, 0x44, 0x88, 0x87],
    [0x7d, 0xfb, 0x30, 0xa5, 0x52, 0xc0, 0x6f, 0x96, 0xa1, 0x6f, 0x35, 0x4b, 0x9a, 0x3f, 0x19, 0x09],
    [0x0b, 0x32, 0xa0, 0x43, 0xb4, 0x32, 0x56, 0xba, 0x5b, 0x10, 0x88, 0xb5, 0x6a, 0x41, 0x25, 0x58],
    [0x8c, 0x87, 0x46, 0xd4, 0x09, 0x9e, 0xa2, 0x1c, 0x4f, 0x33, 0xad, 0x8c, 0x5c, 0x7c, 0x32, 0x28],
    [0x6d, 0xee, 0x2c, 0xa7, 0x6f, 0xc2, 0x65, 0x1d, 0x57, 0xae, 0xe9, 0xd8, 0x47, 0x82, 0x4a, 0xc6],
    [0x09, 0xb5, 0xbf, 0xd5, 0xc8, 0x73, 0x16, 0xc2, 0xaf, 0xe0, 0xe1, 0x53, 0xd6, 0x32, 0x6a, 0xf8],
    [0x99, 0x87, 0xec, 0xb7, 0x0c, 0xf0, 0xa0, 0xa7, 0x7f, 0xa0, 0x00, 0xe0, 0xe0, 0xac, 0xc2, 0x68],
    [0x5e, 0x23, 0x17, 0x42, 0x9c, 0x3a, 0x75, 0x13, 0xf4, 0x28, 0x73, 0xcb, 0x98, 0xf6, 0x69, 0x70],
    [0x3a, 0xe9, 0x14, 0x69, 0x19, 0x22, 0x6d, 0xb5, 0x8d, 0x6c, 0x2b, 0x93, 0xb6, 0xf5, 0x0c, 0x7c],
    [0xda, 0xb6, 0x77, 0xb5, 0x05, 0x94, 0x5a, 0x0f, 0x25, 0x23, 0x88, 0x6c, 0x1b, 0x82, 0xa6, 0xa7],
    [0xcc, 0x7e, 0xba, 0x92, 0x51, 0x09, 0x6d, 0x88, 0x36, 0x0d, 0x7e, 0xf6, 0x47, 0x3a, 0xcb, 0xcd],
    [0x35, 0x9a, 0x0d, 0x20, 0x41, 0x4b, 0x95, 0xc2, 0x09, 0xb2, 0x41, 0x3b, 0x14, 0x83, 0xa3, 0xa0],
    [0x61, 0x38, 0x63, 0x77, 0xb2, 0x8e, 0x38, 0x96, 0xbc, 0xd8, 0xc5, 0xe2, 0x69, 0x26, 0x81, 0xcc],
    [0x80, 0x3e, 0x16, 0x94, 0xef, 0xb6, 0xce, 0x35, 0x30, 0x82, 0xff, 0xca, 0x40, 0x79, 0xea, 0x9b],
    [0xb7, 0xb2, 0x02, 0x5b, 0xcb, 0x68, 0x99, 0x04, 0x66, 0xed, 0x28, 0x03, 0xab, 0x11, 0x51, 0x6d],
    [0x80, 0x32, 0x5d, 0xc4, 0xcd, 0xe3, 0xda, 0x9e, 0x02, 0x06, 0x53, 0xe0, 0x84, 0xc4, 0x5f, 0x83],
    [0x7c, 0x88, 0x71, 0x1d, 0xf3, 0xaa, 0x60, 0x75, 0x74, 0x1c, 0x12, 0x83, 0x12, 0x1c, 0x8b, 0x1c],
    [0x69, 0x10, 0x13, 0x96, 0x9a, 0x62, 0xb2, 0x56, 0x3e, 0x55, 0x62, 0x06, 0xcf, 0x08, 0x10, 0x84],
    [0x86, 0x91, 0xc7, 0xc4, 0x08, 0xd0, 0x18, 0x61, 0x7a, 0x73, 0x00, 0xad, 0x94, 0x3e, 0x18, 0x9a],
    [0x9b, 0x44, 0x51, 0x2e, 0xf1, 0x3b, 0x66, 0x98, 0x31, 0x39, 0x2f, 0x13, 0x29, 0xe2, 0xac, 0x7c],
    [0x62, 0x3a, 0xa0, 0x44, 0x22, 0x30, 0x79, 0x13, 0x9b, 0x7f, 0x1c, 0x21, 0x3e, 0x93, 0x68, 0x2e],
    [0xd8, 0x61, 0x65, 0x46, 0x83, 0x77, 0xd4, 0x08, 0x84, 0x31, 0x01, 0x63, 0xa5, 0x53, 0x9f, 0x27],
    [0x74, 0x5e, 0x66, 0x7a, 0xdf, 0x50, 0x68, 0x96, 0xba, 0x93, 0x3b, 0x00, 0x2e, 0x4d, 0x50, 0xb2],
    [0x49, 0x7e, 0xcf, 0xf0, 0x9d, 0x0b, 0xbc, 0xa4, 0xf7, 0xe6, 0xf9, 0xdb, 0x9e, 0x10, 0xc6, 0x43],
    [0xd2, 0x37, 0x01, 0xbd, 0x63, 0x85, 0xe1, 0x63, 0xcf, 0x71, 0xc1, 0xe9, 0x19, 0xa6, 0xe2, 0x0a],
    [0x03, 0xec, 0xc8, 0x55, 0xc2, 0xac, 0xd2, 0x1b, 0x09, 0x15, 0x7d, 0xe2, 0xef, 0xb9, 0xa0, 0x9f],
    [0xb3, 0x55, 0x0d, 0xfe, 0xe7, 0x52, 0x40, 0x4b, 0xde, 0xc4, 0x83, 0x83, 0x11, 0x0b, 0xb0, 0x8f],
    [0x4f, 0xaa, 0x97, 0x42, 0x8d, 0x2e, 0xa7, 0xc8, 0xc4, 0x46, 0x5a, 0xb3, 0xbb, 0x76, 0x00, 0xa9],
    [0x22, 0x0b, 0x11, 0x5e, 0x89, 0xef, 0x37, 0x8e, 0xe3, 0xc8, 0x3c, 0x4a, 0xa9, 0x99, 0x1c, 0x3a]]"

definition KAT_ENCAP_M :: bytes where
  "KAT_ENCAP_M = concat [
    [0x4e, 0x77, 0x59, 0x61, 0x68, 0x71, 0x1e, 0x91, 0x39, 0x65, 0xd8, 0x17, 0x5a, 0xc3, 0xbd, 0x76],
    [0xaa, 0xb0, 0x8b, 0x7f, 0x93, 0x85, 0xa0, 0x2a, 0xe8, 0x83, 0xcf, 0x6c, 0x6e, 0x17, 0xdd, 0x81]]"

definition KAT_ENCAP_C :: bytes where
  "KAT_ENCAP_C = concat [
    [0x03, 0x85, 0xe8, 0x04, 0x4d, 0x17, 0xe2, 0xb9, 0x6b, 0x3f, 0x50, 0xed, 0x28, 0xc2, 0x50, 0x22],
    [0x16, 0x32, 0x2a, 0xc3, 0x3f, 0x69, 0xd2, 0xce, 0x34, 0xf0, 0xa1, 0x1e, 0x9b, 0x3d, 0xe3, 0x39],
    [0xae, 0xbe, 0x98, 0x28, 0x3a, 0x60, 0x10, 0xa3, 0x4b, 0xdc, 0x98, 0xb0, 0xe5, 0xbb, 0xe1, 0x42],
    [0xa3, 0x85, 0x75, 0xda, 0x30, 0x50, 0x66, 0x33, 0x1d, 0x8d, 0x11, 0xd1, 0x61, 0xf5, 0x12, 0xb4],
    [0xb5, 0x6b, 0x60, 0xfd, 0x04, 0x9d, 0xfe, 0xe3, 0x77, 0x14, 0x73, 0x25, 0x3a, 0x03, 0x10, 0xcd],
    [0x84, 0x2c, 0x71, 0xcb, 0x77, 0x34, 0x47, 0x4b, 0xfb, 0xdb, 0xba, 0xdd, 0x2b, 0x9b, 0x87, 0xc3],
    [0x78, 0x04, 0xd8, 0x55, 0x8b, 0x00, 0xd7, 0x7b, 0x1f, 0x79, 0xf0, 0xfd, 0x2c, 0x94, 0x55, 0x2a],
    [0x8d, 0x3b, 0x19, 0xfd, 0xd6, 0xa5, 0x51, 0x1c, 0x4e, 0xbe, 0xea, 0x40, 0xaa, 0x83, 0x9a, 0x48],
    [0x9a, 0xec, 0x63, 0x6b, 0x51, 0x0b, 0xf5, 0x1b, 0xf3, 0x78, 0x2f, 0x24, 0xf5, 0x3f, 0x75, 0x2e],
    [0xe2, 0xdb, 0x9f, 0xb4, 0x96, 0x4e, 0x83, 0x79, 0xd0, 0xfa, 0x70, 0x60, 0x3c, 0xb8, 0xc2, 0xc7],
    [0x29, 0x3b, 0xc3, 0x5a, 0x56, 0xb8, 0x18, 0x25, 0x7b, 0x65, 0xfb, 0xe6, 0xb2, 0xc9, 0x81, 0x78],
    [0xb6, 0x1d, 0x7c, 0xeb, 0x58, 0xc7, 0xe1, 0xa9, 0x10, 0x06, 0x50, 0xa9, 0x45, 0xc7, 0x39, 0xe3],
    [0x60, 0x3c, 0x18, 0x8b, 0xa3, 0xc1, 0x79, 0x82, 0x39, 0x50, 0xc6, 0xd8, 0x74, 0xd7, 0xfc, 0x8f],
    [0x8d, 0xdb, 0x7a, 0x9e, 0xe9, 0x41, 0xf4, 0xa7, 0x8a, 0x0f, 0x8a, 0x1e, 0xae, 0x08, 0x0d, 0x4d],
    [0x77, 0x89, 0x3a, 0xae, 0xfb, 0x0d, 0xb4, 0x52, 0x65, 0x9b, 0x02, 0x75, 0xd1, 0x71, 0x73, 0x63],
    [0x90, 0xa1, 0xb2, 0x36, 0x61, 0xc6, 0x90, 0x58, 0x86, 0x9a, 0x8c, 0x4d, 0x0b, 0xb4, 0x6d, 0x16],
    [0x55, 0x85, 0x81, 0x62, 0x01, 0x2a, 0x05, 0x7c, 0x7c, 0x06, 0x7f, 0xd0, 0x35, 0xd4, 0x7d, 0x5d],
    [0x62, 0x7e, 0x3c, 0xd2, 0x7c, 0xd3, 0xca, 0x02, 0x1a, 0x34, 0xf8, 0xdb, 0x66, 0x95, 0xc7, 0xe5],
    [0x81, 0xec, 0xe6, 0x7d, 0x89, 0x84, 0x82, 0xd5, 0x09, 0xe4, 0xdf, 0x61, 0xdc, 0xe5, 0xbb, 0xdf],
    [0xaa, 0xc8, 0x94, 0x65, 0xa9, 0x20, 0x9c, 0x54, 0x7b, 0x42, 0x63, 0xe9, 0x15, 0x59, 0x40, 0xf8],
    [0xfc, 0xb1, 0xda, 0x3a, 0x4a, 0x7d, 0x25, 0xdf, 0x29, 0x69, 0xf3, 0x16, 0x44, 0x74, 0x1a, 0x8c],
    [0x6f, 0xe8, 0x06, 0x5d, 0x5f, 0x17, 0x62, 0x14, 0xa4, 0xdb, 0x8f, 0xe7, 0x6b, 0xf4, 0x18, 0x69],
    [0xb0, 0xf2, 0x2e, 0x1f, 0x5c, 0xf5, 0xc3, 0x4a, 0x50, 0x67, 0xb1, 0xd9, 0xf3, 0x9f, 0x3a, 0xb4],
    [0xb0, 0xb9, 0xf6, 0x33, 0x0d, 0x7c, 0xf6, 0xec, 0x74, 0x77, 0xb5, 0x3d, 0x92, 0x23, 0xfa, 0x70],
    [0xe4, 0xc6, 0x80, 0xd4, 0x9b, 0x32, 0x88, 0x3d, 0x92, 0xb5, 0x0c, 0x53, 0xcf, 0x9e, 0x61, 0x91],
    [0x54, 0x37, 0xcf, 0x57, 0xec, 0xa4, 0x9d, 0x6b, 0xbc, 0x88, 0xc6, 0x4c, 0xcb, 0x22, 0x2d, 0x4f],
    [0x20, 0x22, 0x7c, 0xcc, 0xd4, 0xf7, 0xe7, 0xc2, 0x1f, 0x95, 0xce, 0x74, 0xd6, 0xab, 0x5d, 0xec],
    [0xe1, 0x7f, 0x60, 0x0a, 0xd1, 0x71, 0x52, 0x48, 0x64, 0x8e, 0x4d, 0x1a, 0xf6, 0xfe, 0x41, 0xa0],
    [0x20, 0x23, 0xeb, 0x5c, 0xff, 0x87, 0x1e, 0xc6, 0x54, 0x75, 0x6b, 0x7d, 0x15, 0x6e, 0x60, 0x1e],
    [0x82, 0x82, 0x7e, 0x17, 0xdd, 0x0f, 0xe4, 0xf5, 0x35, 0x71, 0x36, 0x12, 0x0a, 0x81, 0x05, 0x06],
    [0xa4, 0x0f, 0x28, 0xa0, 0xb8, 0x60, 0xc3, 0xce, 0x75, 0xbf, 0x77, 0x96, 0x65, 0x33, 0x27, 0x93],
    [0x9b, 0x50, 0x70, 0x43, 0xab, 0x8b, 0xe0, 0x17, 0x5a, 0x9b, 0x31, 0x23, 0x19, 0x81, 0x80, 0x63],
    [0xac, 0x40, 0x30, 0x2e, 0xb4, 0x24, 0x52, 0xda, 0x0b, 0x1c, 0xb9, 0xe3, 0xc2, 0xe4, 0x3c, 0x49],
    [0xd7, 0x40, 0xa0, 0x3a, 0xc1, 0xb9, 0x05, 0x7f, 0xb4, 0x4e, 0xff, 0x83, 0x0d, 0x54, 0x8d, 0x12],
    [0x58, 0x5f, 0x50, 0xdb, 0xaf, 0x74, 0x04, 0xc2, 0xdf, 0xa7, 0xf4, 0x40, 0x3d, 0xb8, 0xb7, 0xce],
    [0xe6, 0x5d, 0xf5, 0x28, 0xf5, 0x75, 0xc7, 0xf5, 0x52, 0xd0, 0x63, 0x25, 0x53, 0xfc, 0x6c, 0x90],
    [0xa3, 0xb0, 0x9c, 0x11, 0x14, 0x49, 0x23, 0x92, 0xc1, 0x65, 0xe9, 0xb1, 0xb0, 0xa1, 0x0e, 0x95],
    [0x56, 0xc7, 0x2c, 0xde, 0x2b, 0xb2, 0x3d, 0xf6, 0xda, 0x78, 0x45, 0x21, 0x24, 0x9e, 0xec, 0x54],
    [0x20, 0x12, 0xec, 0x33, 0x59, 0x9b, 0x97, 0xb9, 0x5f, 0xf5, 0x23, 0x41, 0x58, 0xa6, 0xd5, 0x53],
    [0xb3, 0xbb, 0xae, 0x97, 0x04, 0xe6, 0x30, 0xd6, 0x4a, 0x66, 0xd6, 0x58, 0xf7, 0x4f, 0x27, 0xc8],
    [0xc3, 0x02, 0x37, 0xe8, 0x76, 0x86, 0xfb, 0x04, 0x55, 0x1b, 0xb1, 0x28, 0xd9, 0x17, 0x30, 0x51],
    [0x73, 0xe2, 0x78, 0x88, 0x83, 0x35, 0x2a, 0x02, 0x16, 0xfd, 0x8d, 0x00, 0x35, 0xd7, 0x48, 0xc9],
    [0xb4, 0x2a, 0x60, 0x00, 0x73, 0xad, 0xba, 0x73, 0xf8, 0x51, 0xbb, 0x5e, 0xca, 0x28, 0x7a, 0xd3],
    [0x25, 0xa3, 0xa3, 0x56, 0x17, 0x69, 0x86, 0x8c, 0x56, 0xe6, 0xd8, 0x4f, 0xb6, 0x61, 0xed, 0x5a],
    [0x41, 0x64, 0x93, 0x42, 0xea, 0x34, 0x2f, 0x82, 0xbe, 0x52, 0x8f, 0xd9, 0xbb, 0x4f, 0x49, 0x24],
    [0x52, 0xc0, 0xa9, 0x42, 0x6e, 0xd8, 0x67, 0x71, 0x13, 0xec, 0x6f, 0x1c, 0xac, 0x51, 0x23, 0x3f],
    [0x05, 0x20, 0x42, 0x5c, 0x3b, 0x27, 0xac, 0xfa, 0xa0, 0xd2, 0x5a, 0x07, 0xbc, 0x2c, 0xa0, 0x11],
    [0x15, 0xc9, 0x04, 0x32, 0xed, 0x14, 0xa1, 0xf4, 0xdd, 0xa6, 0x93, 0xc6, 0xe7, 0x04, 0xa1, 0x6b],
    [0xec, 0xe8, 0x97, 0x2d, 0x82, 0x18, 0xb6, 0x2c, 0xec, 0x4f, 0x25, 0x50, 0x58, 0x98, 0x8b, 0x22],
    [0x4d, 0x86, 0xf2, 0xbd, 0xe4, 0xb2, 0x21, 0xa3, 0xc6, 0x72, 0xcb, 0x74, 0x4c, 0xa8, 0xf9, 0x15],
    [0x8a, 0x4e, 0x5c, 0x97, 0xd0, 0xc5, 0x6a, 0xf5, 0xdf, 0xc1, 0xc5, 0xf0, 0x19, 0x1f, 0x64, 0xcb],
    [0x6d, 0x7a, 0xb8, 0x6b, 0x14, 0x43, 0x2e, 0xce, 0xb5, 0xa3, 0xed, 0x77, 0xa8, 0xd3, 0xea, 0x65],
    [0x1a, 0x07, 0xc9, 0xa0, 0xcf, 0x95, 0xe6, 0x31, 0xf4, 0x1c, 0x2a, 0xb2, 0x91, 0x91, 0xf6, 0x6d],
    [0xd9, 0xa7, 0x32, 0x71, 0xf4, 0x7a, 0x45, 0x59, 0x99, 0xc5, 0xfc, 0x83, 0x91, 0x55, 0x0b, 0xbb],
    [0x34, 0x6c, 0xa1, 0xbc, 0xad, 0x59, 0x8a, 0x32, 0xa5, 0x0c, 0xb5, 0x22, 0x81, 0x15, 0x68, 0x74],
    [0xf3, 0x6d, 0xe9, 0xd8, 0xea, 0x58, 0x60, 0xd9, 0x97, 0x03, 0xea, 0x3f, 0x49, 0x07, 0xc6, 0x40],
    [0xb4, 0x7a, 0x75, 0xa2, 0x85, 0xb4, 0x34, 0x78, 0x45, 0xcd, 0x6c, 0x94, 0x40, 0x79, 0x95, 0xf5],
    [0x69, 0xfd, 0x8a, 0x4b, 0x12, 0x46, 0x1d, 0x82, 0x36, 0xe4, 0x01, 0x5a, 0xe0, 0x00, 0xe2, 0xac],
    [0xaf, 0x2b, 0xd9, 0xf8, 0xd2, 0x83, 0x77, 0xec, 0x0d, 0x9e, 0x4c, 0xae, 0x71, 0x4c, 0x48, 0x1c],
    [0x5a, 0xba, 0xe3, 0x74, 0x48, 0xb3, 0xf8, 0x4a, 0x29, 0x1b, 0x84, 0xb4, 0x21, 0x3c, 0x8f, 0xe1],
    [0xf6, 0xe0, 0xfd, 0xfa, 0x1a, 0x6d, 0x1a, 0x52, 0xc9, 0x74, 0xf7, 0x95, 0xc5, 0x94, 0x7f, 0x66],
    [0x7a, 0x8d, 0xbe, 0x16, 0x29, 0x83, 0xec, 0x0c, 0x71, 0xc0, 0xf0, 0x23, 0x7e, 0x6e, 0xd8, 0xbc],
    [0xb7, 0xac, 0x9e, 0x4c, 0x73, 0xb5, 0xa1, 0xed, 0x85, 0xfd, 0x5e, 0x0f, 0xa2, 0x81, 0x0c, 0x84],
    [0x2d, 0x48, 0x4d, 0x6f, 0x9d, 0xfc, 0xc8, 0x47, 0x2f, 0x05, 0x68, 0x3d, 0x9d, 0x11, 0x44, 0xef],
    [0x6c, 0x36, 0x29, 0x4b, 0xd0, 0x6a, 0x01, 0x9e, 0xfe, 0xc2, 0x02, 0xfc, 0x46, 0x28, 0x8e, 0xba],
    [0x2a, 0xde, 0x82, 0xaa, 0x33, 0x63, 0xfa, 0xf3, 0x2b, 0x9b, 0x02, 0x7c, 0x75, 0xa7, 0xd6, 0x15],
    [0x84, 0x5c, 0xf2, 0xec, 0x53, 0x81, 0x41, 0xf1, 0x74, 0x60, 0x09, 0x73, 0x76, 0x00, 0xf6, 0x97],
    [0xcc, 0x8d, 0x90, 0xc8, 0x0c, 0x1e, 0x19, 0xf1, 0xab, 0x2c, 0x08, 0x64, 0x6c, 0x0e, 0x39, 0x58]]"

definition KAT_ENCAP_K :: bytes where
  "KAT_ENCAP_K = concat [
    [0x79, 0xd7, 0x4f, 0x6c, 0x6c, 0x2d, 0x91, 0x6b, 0xec, 0x47, 0xbd, 0x82, 0x8f, 0xd9, 0xb6, 0x72],
    [0x95, 0xa3, 0x7f, 0x54, 0x92, 0x7f, 0xab, 0x12, 0x63, 0xc0, 0xd1, 0x22, 0xf1, 0xc6, 0xf1, 0xed]]"

definition KAT_DECAP_VALID_DK :: bytes where
  "KAT_DECAP_VALID_DK = concat [
    [0x85, 0x93, 0x84, 0xdf, 0xc0, 0xc2, 0x07, 0xa6, 0x46, 0x6c, 0xcb, 0xbc, 0x50, 0x7c, 0x26, 0xdf],
    [0xec, 0xa4, 0x13, 0xe0, 0x6e, 0x46, 0xe3, 0x0c, 0xf1, 0x85, 0x28, 0x57, 0x7b, 0x76, 0xc1, 0x08],
    [0xc3, 0x1e, 0x1b, 0x6e, 0xfa, 0x8b, 0x41, 0x04, 0x4a, 0x4f, 0xb2, 0x15, 0x2d, 0x3f, 0xf3, 0x91],
    [0xbc, 0x64, 0x43, 0xb5, 0x70, 0x60, 0xae, 0x65, 0x5b, 0x0e, 0xfc, 0xba, 0xbc, 0x88, 0x90, 0x32],
    [0xec, 0xc9, 0x86, 0xd2, 0xa1, 0x44, 0x15, 0x3c, 0x81, 0x89, 0x50, 0x5c, 0x37, 0xc6, 0xbb, 0x14],
    [0x71, 0xe5, 0xea, 0x8c, 0x15, 0x21, 0x77, 0x0d, 0x73, 0x2e, 0x88, 0xa1, 0xa3, 0xb0, 0x62, 0x4e],
    [0x5a, 0x2a, 0x42, 0x66, 0x1c, 0x17, 0x43, 0x67, 0x75, 0x91, 0x29, 0x6b, 0x81, 0x44, 0x71, 0x69],
    [0x63, 0x51, 0x60, 0xf8, 0x0d, 0x61, 0xf3, 0x1c, 0x42, 0x0a, 0x5d, 0x35, 0xf5, 0xad, 0xfe, 0xa3],
    [0x7e, 0x42, 0x54, 0xbe, 0x39, 0x74, 0x1e, 0x19, 0x70, 0x56, 0x08, 0x2c, 0x1b, 0xd9, 0x39, 0x0a],
    [0x03, 0x0b, 0x2a, 0x63, 0xfc, 0x37, 0xdf, 0xa5, 0x61, 0xae, 0x09, 0x1d, 0xd9, 0xda, 0x11, 0x64],
    [0x9b, 0xb7, 0x40, 0x64, 0x64, 0x83, 0x8b, 0xc2, 0x3c, 0x87, 0x24, 0x23, 0xb7, 0x51, 0x5e, 0x34],
    [0x44, 0xfb, 0x86, 0x2b, 0xa7, 0xd5, 0x1b, 0xec, 0xab, 0xcf, 0x9b, 0x45, 0x8f, 0x30, 0x29, 0x05],
    [0xcf, 0xf9, 0x83, 0xd0, 0x05, 0x78, 0xad, 0x89, 0x68, 0x67, 0x21, 0x43, 0x22, 0x21, 0x78, 0x2b],
    [0xa7, 0xa1, 0x34, 0xe0, 0x52, 0xbb, 0xa7, 0x87, 0x9a, 0x36, 0x65, 0x4c, 0x08, 0x1e, 0x4c, 0x3b],
    [0x61, 0x5a, 0x1c, 0x76, 0x4c, 0x12, 0x8a, 0xfb, 0xd7, 0x9e, 0xf0, 0xd8, 0x16, 0xc7, 0xe5, 0xaf],
    [0x13, 0x5a, 0x51, 0x44, 0x8c, 0x14, 0xcf, 0x3c, 0x61, 0x72, 0xe0, 0x22, 0x74, 0x1b, 0x88, 0x9d],
    [0xa4, 0x85, 0xc2, 0x08, 0x89, 0x91, 0x90, 0xbb, 0x2c, 0xb8, 0x09, 0x0b, 0xd2, 0xb7, 0xf8, 0x21],
    [0x32, 0x13, 0xe0, 0x90, 0xb2, 0x7a, 0x9c, 0x3c, 0x56, 0xbf, 0x87, 0x02, 0x4b, 0xd2, 0xe3, 0x00],
    [0x1c, 0xea, 0x03, 0x1b, 0xe2, 0x0e, 0x95, 0x9b, 0xc1, 0xa7, 0x52, 0x81, 0xb8, 0xa3, 0x63, 0x9f],
    [0x48, 0x7c, 0x12, 0xf4, 0x07, 0x86, 0xe5, 0x45, 0x8b, 0x14, 0x74, 0x7d, 0x96, 0x5e, 0x0e, 0x29],
    [0x49, 0x47, 0xd6, 0xa4, 0x87, 0xd4, 0x49, 0x38, 0xd5, 0x08, 0x29, 0xd0, 0x72, 0x3a, 0x91, 0x08],
    [0x06, 0xb9, 0x37, 0x6e, 0x76, 0x48, 0x01, 0x41, 0x96, 0x07, 0x57, 0xcf, 0x37, 0xe2, 0xac, 0x03],
    [0xb4, 0xa6, 0x76, 0x7a, 0x68, 0x38, 0x1a, 0x69, 0xf6, 0xb4, 0x5c, 0x27, 0x4c, 0x62, 0xb8, 0x00],
    [0x40, 0x3c, 0x1c, 0x99, 0x2d, 0x0b, 0x84, 0xd3, 0x36, 0x56, 0x0d, 0x6b, 0x4b, 0xfe, 0xd4, 0xa3],
    [0x8e, 0xdc, 0xca, 0x3c, 0x61, 0x69, 0x9d, 0x31, 0xcb, 0x6b, 0xb8, 0x8c, 0x10, 0x90, 0x9c, 0xc6],
    [0x08, 0x1d, 0x1b, 0xc9, 0xa5, 0x49, 0xf6, 0x04, 0x37, 0x35, 0x76, 0xf2, 0xb5, 0xb1, 0x4d, 0x45],
    [0x3e, 0xec, 0x5c, 0x76, 0x73, 0xb5, 0xa3, 0x9f, 0xfa, 0x8b, 0x6a, 0x22, 0x39, 0x72, 0x01, 0x9f],
    [0x0e, 0xe7, 0x30, 0x0b, 0xc8, 0x2d, 0xa7, 0x74, 0x14, 0xe4, 0x41, 0x36, 0x48, 0xb6, 0x8f, 0xc8],
    [0xe7, 0xb5, 0x1d, 0xc6, 0xcb, 0xf0, 0x83, 0x09, 0x8c, 0x1a, 0x2f, 0x2c, 0xc6, 0x80, 0xe5, 0x2a],
    [0x9e, 0x7a, 0x89, 0x64, 0xea, 0xcb, 0x2d, 0xf1, 0x8b, 0x8d, 0xa1, 0xd6, 0x03, 0x31, 0x72, 0x98],
    [0xb7, 0x97, 0xbc, 0x17, 0x52, 0x4e, 0xa0, 0x33, 0x76, 0xba, 0x3b, 0x41, 0x0f, 0xf1, 0xb1, 0xb2],
    [0x35, 0x26, 0xd3, 0xeb, 0x7a, 0x82, 0x55, 0x38, 0x07, 0x93, 0xc5, 0xd9, 0x38, 0x86, 0x1e, 0x49],
    [0x83, 0xd4, 0xd2, 0x3c, 0xad, 0x3a, 0x34, 0xbb, 0x25, 0x64, 0x34, 0xdc, 0xc3, 0x15, 0xc4, 0x0c],
    [0x8d, 0x0a, 0x9d, 0x21, 0x32, 0xa5, 0x95, 0xb7, 0x8d, 0xfb, 0xb6, 0x55, 0xf9, 0xf2, 0x36, 0x1a],
    [0x37, 0x90, 0x47, 0x70, 0x64, 0x00, 0xe5, 0xcf, 0xa1, 0x65, 0x4a, 0xc7, 0x79, 0x84, 0x1c, 0x07],
    [0x67, 0xac, 0x8c, 0x1d, 0xd2, 0x72, 0x54, 0x59, 0x91, 0x37, 0xd9, 0xf3, 0x35, 0x53, 0x28, 0xcd],
    [0x34, 0xe5, 0x81, 0xe1, 0xe1, 0xbd, 0xd6, 0x4c, 0x08, 0x2e, 0xaa, 0x29, 0xa7, 0xf7, 0x16, 0x10],
    [0xb6, 0x57, 0x66, 0x88, 0x2c, 0xa8, 0x04, 0x10, 0x6c, 0xe0, 0xbc, 0x5e, 0x20, 0x63, 0x0a, 0x44],
    [0xbc, 0x5f, 0xf8, 0x7d, 0xb4, 0x91, 0xc2, 0xcf, 0x77, 0x46, 0xb3, 0x15, 0x0b, 0xa0, 0x3a, 0xbd],
    [0x90, 0x70, 0x96, 0xd8, 0x00, 0x4f, 0xa2, 0x03, 0x84, 0xfb, 0x15, 0x4f, 0x55, 0x36, 0x59, 0xbb],
    [0xc4, 0x51, 0xc0, 0x9c, 0x0d, 0x42, 0xa4, 0x30, 0x35, 0x99, 0x4c, 0xc2, 0x4b, 0x4f, 0x79, 0x8b],
    [0xc7, 0xc9, 0x61, 0xc6, 0xc6, 0x4c, 0x92, 0xf2, 0xc6, 0x3e, 0x87, 0x14, 0x9d, 0x89, 0xe9, 0x82],
    [0x21, 0xa9, 0x33, 0x7f, 0x0a, 0x97, 0x32, 0x26, 0x55, 0x70, 0x56, 0x95, 0x2b, 0xbc, 0x05, 0xab],
    [0xba, 0x46, 0xc7, 0xec, 0x6c, 0xe1, 0xb2, 0x72, 0x1a, 0x04, 0x87, 0x68, 0x7c, 0x16, 0xcf, 0xf6],
    [0xb5, 0x0c, 0xd5, 0xbd, 0x59, 0x44, 0x3c, 0xa7, 0x65, 0x35, 0x38, 0x48, 0xaa, 0x42, 0x32, 0x3e],
    [0xbe, 0xd3, 0x77, 0x6c, 0x01, 0x4d, 0x60, 0xd8, 0xa6, 0xb6, 0xd6, 0xb3, 0x1d, 0xe2, 0x6f, 0x11],
    [0xc1, 0x58, 0x22, 0x99, 0x12, 0x49, 0xf7, 0x6c, 0x31, 0x30, 0x73, 0x5d, 0x2c, 0x22, 0xd5, 0xd4],
    [0xb4, 0x55, 0x0a, 0x34, 0x28, 0x00, 0x43, 0x49, 0x07, 0x3e, 0x3f, 0x29, 0x6a, 0x28, 0x6c, 0x3a],
    [0x0d, 0x65, 0x72, 0xc3, 0x83, 0xb3, 0xfd, 0x27, 0x74, 0x39, 0xc8, 0x5a, 0x03, 0xb4, 0x2b, 0x58],
    [0x4c, 0x97, 0xb5, 0x77, 0x9a, 0x2d, 0x67, 0x5b, 0x6d, 0xe0, 0x24, 0x94, 0x94, 0x38, 0xaa, 0x87],
    [0x00, 0xae, 0xeb, 0xc9, 0xff, 0xca, 0x10, 0xc8, 0xb3, 0x27, 0xca, 0x6b, 0x91, 0x7b, 0x89, 0x9d],
    [0x3e, 0xd8, 0x17, 0xc4, 0x54, 0x3c, 0xdf, 0x28, 0x8b, 0x48, 0x9c, 0x2e, 0xf3, 0xaa, 0x2f, 0x95],
    [0xf3, 0x10, 0xb0, 0x68, 0x8e, 0x3e, 0x81, 0xaa, 0x83, 0x00, 0x55, 0x71, 0x81, 0x2a, 0x52, 0x67],
    [0x78, 0x1a, 0xc2, 0x1c, 0x92, 0xf7, 0xc4, 0x1f, 0x35, 0x9d, 0xe7, 0x48, 0x77, 0xc1, 0x91, 0x24],
    [0xfa, 0x46, 0x2b, 0x3a, 0x18, 0x1b, 0xd8, 0x85, 0xa3, 0xc3, 0x53, 0x4f, 0x16, 0xd9, 0x9a, 0xfe],
    [0xa4, 0xbb, 0x6a, 0x43, 0x4c, 0xe1, 0x77, 0xc9, 0x90, 0x20, 0xc8, 0x80, 0xeb, 0x36, 0x8f, 0xd2],
    [0x11, 0x26, 0x11, 0x72, 0xf0, 0xbb, 0x7a, 0xe4, 0x27, 0x0f, 0xc9, 0xaa, 0x6d, 0xfd, 0xb5, 0x98],
    [0x5a, 0x1c, 0x06, 0x9f, 0x18, 0x15, 0xe9, 0x27, 0x7b, 0xee, 0x24, 0xcd, 0xb1, 0xec, 0xba, 0x0c],
    [0xf2, 0xc3, 0xc4, 0x81, 0x00, 0xf5, 0x40, 0xa2, 0x4e, 0x40, 0x50, 0xf9, 0xb3, 0x76, 0x86, 0x80],
    [0x98, 0x80, 0x51, 0x36, 0xe6, 0x73, 0x15, 0x0c, 0x95, 0x7b, 0x73, 0xea, 0x3e, 0x7b, 0xba, 0xb0],
    [0x76, 0xb4, 0x59, 0xd2, 0x15, 0x7e, 0x9e, 0x50, 0x17, 0x34, 0x50, 0x0b, 0xd2, 0xb5, 0x74, 0xb9],
    [0xc5, 0x63, 0xa7, 0xca, 0x8a, 0xd8, 0x3b, 0x6c, 0xfb, 0xec, 0x76, 0x72, 0x7b, 0x1d, 0x3c, 0x61],
    [0xc2, 0x89, 0x95, 0x8f, 0xc8, 0x80, 0x5a, 0xe6, 0xe4, 0x45, 0x5a, 0x52, 0x57, 0xe8, 0x90, 0x38],
    [0x54, 0xe3, 0x51, 0x12, 0xb7, 0xcd, 0x46, 0x18, 0x5e, 0xa1, 0x63, 0x39, 0xdc, 0x08, 0x38, 0xe1],
    [0x18, 0x97, 0x1c, 0xba, 0x5a, 0x78, 0x02, 0x5f, 0x86, 0x74, 0x94, 0x33, 0xa3, 0x8a, 0xb7, 0x9b],
    [0x58, 0xe6, 0xe6, 0x88, 0x50, 0x03, 0x47, 0x0e, 0x20, 0x87, 0x35, 0x17, 0x7f, 0x82, 0xd7, 0x38],
    [0xc3, 0xf7, 0xa5, 0x2d, 0x84, 0x8b, 0x74, 0x2a, 0x75, 0xd1, 0x15, 0xa5, 0x28, 0xf4, 0x91, 0x50],
    [0x78, 0x63, 0x2f, 0xbb, 0x63, 0x91, 0x45, 0x66, 0x8b, 0x50, 0x4c, 0x30, 0xab, 0xb9, 0x69, 0x29],
    [0xa7, 0x5f, 0xec, 0x5d, 0xea, 0xe9, 0x09, 0x73, 0xb2, 0x43, 0x1d, 0x68, 0x5f, 0x74, 0xc9, 0x8d],
    [0x36, 0xdb, 0x26, 0x3b, 0xbb, 0x6c, 0x73, 0xd7, 0x19, 0x74, 0x99, 0x3e, 0x13, 0xb5, 0x02, 0x42],
    [0x16, 0x71, 0x10, 0x26, 0x2a, 0x8e, 0xb4, 0x06, 0xc9, 0x87, 0x48, 0x1e, 0xaa, 0xcd, 0x44, 0x06],
    [0x9d, 0x53, 0xc2, 0xb9, 0x67, 0x00, 0x3d, 0xd2, 0xdc, 0xb9, 0x79, 0xd8, 0x1a, 0x97, 0xf6, 0x23],
    [0x51, 0x34, 0x4b, 0xc4, 0x0a, 0x6b, 0x20, 0x30, 0x83, 0x91, 0x8c, 0x40, 0xaa, 0x45, 0x9e, 0xa2],
    [0xe2, 0x08, 0x92, 0x51, 0x47, 0x49, 0x55, 0x62, 0x94, 0x53, 0x4c, 0xb3, 0xe3, 0xb9, 0x48, 0xf1],
    [0xc0, 0xf7, 0xa9, 0x41, 0xfd, 0xe4, 0x98, 0x74, 0xc6, 0x09, 0x97, 0x3a, 0x4e, 0x84, 0x5b, 0x11],
    [0x24, 0x56, 0x97, 0x4b, 0x3a, 0xaf, 0x98, 0x77, 0xb3, 0x15, 0x9b, 0x7e, 0xd0, 0xc4, 0xc4, 0x23],
    [0x88, 0x9c, 0x8a, 0x8b, 0x1c, 0x5b, 0x33, 0x40, 0x9a, 0x8c, 0x6b, 0x26, 0xf5, 0x73, 0xa6, 0x66],
    [0x8a, 0x5f, 0xe0, 0xc7, 0x4a, 0xd0, 0xca, 0x28, 0x30, 0x4d, 0x1c, 0x7a, 0x49, 0x8a, 0x93, 0xbc],
    [0x08, 0x92, 0x1d, 0x39, 0x43, 0x04, 0x2f, 0x98, 0x64, 0x38, 0xab, 0xcc, 0x61, 0xa3, 0x58, 0xc6],
    [0x48, 0x28, 0x39, 0xa5, 0x24, 0x84, 0x5b, 0x04, 0xff, 0xca, 0x16, 0xcb, 0x74, 0x1f, 0x7d, 0xb5],
    [0xb0, 0xaf, 0xd7, 0xb9, 0x87, 0x4b, 0x6b, 0x53, 0xd1, 0x56, 0xb3, 0xe0, 0x36, 0xb3, 0xd4, 0x1e],
    [0x96, 0x3b, 0x27, 0xac, 0x0c, 0x87, 0xb4, 0x11, 0x43, 0x64, 0x71, 0x59, 0x10, 0x01, 0x63, 0x5e],
    [0x64, 0x40, 0x90, 0x3a, 0x0b, 0x38, 0x30, 0x2a, 0x92, 0xc8, 0x77, 0x7f, 0x26, 0x4d, 0xe5, 0x29],
    [0x0d, 0xd1, 0xe5, 0x11, 0xbc, 0x7c, 0x0a, 0x68, 0xe3, 0x26, 0x68, 0x82, 0xce, 0xdd, 0x30, 0xac],
    [0xa8, 0x92, 0x85, 0x96, 0xb7, 0xaf, 0xfb, 0x28, 0xb9, 0x4d, 0x87, 0x11, 0xe3, 0x1a, 0x8c, 0x9e],
    [0x5a, 0xc2, 0xa9, 0x56, 0x7b, 0x55, 0x63, 0x0d, 0x5f, 0xf8, 0x62, 0x7e, 0x52, 0x38, 0x64, 0x08],
    [0xa1, 0xbb, 0x3b, 0xc2, 0xd6, 0xb9, 0x0a, 0x7c, 0x33, 0xc0, 0x4a, 0xaa, 0x60, 0xe9, 0x04, 0x6e],
    [0x10, 0xd8, 0x9b, 0x41, 0xfb, 0xb8, 0xe3, 0xe2, 0x6c, 0xbc, 0x27, 0xc1, 0xc0, 0x62, 0x41, 0x14],
    [0x36, 0xcc, 0x22, 0xd6, 0x37, 0xdd, 0x02, 0x1c, 0xb9, 0x3b, 0x69, 0x72, 0xcb, 0x7a, 0xee, 0x5c],
    [0x98, 0xad, 0x64, 0x00, 0x6b, 0x0c, 0xd0, 0x70, 0xb0, 0xad, 0x99, 0xd4, 0x67, 0x15, 0x8c, 0x85],
    [0x85, 0x2b, 0x88, 0x66, 0x6b, 0xa1, 0xde, 0x29, 0xcf, 0xa3, 0x04, 0x73, 0x96, 0xa5, 0xbd, 0xdc],
    [0x76, 0xb1, 0xaf, 0xab, 0xa6, 0x2d, 0x62, 0x2e, 0x17, 0xf8, 0x46, 0xe1, 0x74, 0x87, 0xa1, 0x67],
    [0xca, 0x9b, 0x45, 0x07, 0x03, 0x09, 0x52, 0x6e, 0xe0, 0x87, 0x91, 0x64, 0x7c, 0xee, 0x81, 0xb7],
    [0xaf, 0xf2, 0x1c, 0xa9, 0x7c, 0x7d, 0x09, 0xa7, 0xb0, 0xa2, 0x88, 0x0d, 0xb0, 0x11, 0x04, 0x61],
    [0xf1, 0x68, 0xa8, 0xf5, 0xba, 0xfa, 0x04, 0x58, 0x64, 0x37, 0x32, 0x17, 0xb0, 0x5e, 0xd1, 0x22],
    [0x3f, 0xd0, 0xb0, 0x0a, 0x1d, 0x78, 0x10, 0xe3, 0x41, 0xc1, 0x5c, 0xe6, 0x95, 0x67, 0xe8, 0x26],
    [0x51, 0x10, 0x91, 0x8b, 0x85, 0x7f, 0x25, 0x46, 0xbe, 0xb5, 0x76, 0x1d, 0xe3, 0x84, 0x9f, 0xde],
    [0x97, 0x1e, 0x2c, 0xc6, 0x49, 0xc3, 0x63, 0xc0, 0xef, 0x29, 0x6e, 0x2d, 0xc9, 0x4b, 0x07, 0x49],
    [0x98, 0x69, 0x85, 0x1b, 0xa3, 0x03, 0x22, 0x48, 0xe4, 0xa6, 0x28, 0x29, 0x4d, 0x62, 0x6c, 0x6f],
    [0x38, 0xc4, 0x25, 0x30, 0xa0, 0x79, 0x52, 0xd6, 0xb4, 0x4b, 0x65, 0x01, 0x12, 0xf7, 0x7c, 0x8d],
    [0xf5, 0xc5, 0x93, 0x91, 0x02, 0x09, 0x0c, 0x81, 0x88, 0xdb, 0x61, 0xf3, 0x71, 0x3e, 0x93, 0xc4],
    [0xa2, 0x2a, 0x61, 0xc9, 0x1f, 0xea, 0x79, 0xea, 0x06, 0xbb, 0x13, 0x44, 0xa5, 0xcc, 0xd6, 0x38],
    [0x12, 0xf5, 0x40, 0xa8, 0x90, 0x7f, 0xfc, 0xf6, 0x2f, 0xbd, 0xd7, 0x34, 0x4a, 0x74, 0x40, 0x95],
    [0xbc, 0x5d, 0xf6, 0x50, 0x47, 0xdc, 0xf8, 0x36, 0x2a, 0x38, 0xbf, 0xf9, 0x2b, 0x5b, 0x60, 0x98],
    [0x89, 0x3a, 0xe9, 0x62, 0x86, 0xf4, 0x19, 0x9f, 0x85, 0x7d, 0xc5, 0x35, 0x1b, 0x96, 0x22, 0x04],
    [0x80, 0x7b, 0x94, 0x21, 0x60, 0x2a, 0x0f, 0x00, 0x22, 0x2a, 0x82, 0xb6, 0xf4, 0x78, 0x5d, 0xaf],
    [0x30, 0x33, 0x54, 0xf9, 0xc0, 0x97, 0xcb, 0x74, 0xa0, 0x72, 0x3c, 0xbf, 0xda, 0x05, 0x53, 0xc4],
    [0xb0, 0xb4, 0x45, 0x4e, 0x1e, 0xd1, 0x1c, 0x69, 0x26, 0x39, 0x6b, 0xe9, 0xad, 0x5c, 0xd1, 0x60],
    [0x11, 0xd3, 0x33, 0xa1, 0xa8, 0x80, 0xe1, 0x23, 0x93, 0x42, 0x43, 0x54, 0x27, 0x76, 0xa0, 0x84],
    [0x8b, 0x0c, 0xcc, 0x44, 0x2b, 0xcb, 0x11, 0x7c, 0x24, 0x98, 0x2c, 0x42, 0xd1, 0x05, 0x10, 0x68],
    [0x3e, 0x7d, 0x53, 0x4a, 0xc4, 0x7c, 0x66, 0x31, 0xac, 0xb1, 0x87, 0x03, 0x9d, 0x09, 0x8b, 0x7d],
    [0xe5, 0x51, 0xb8, 0x68, 0xa2, 0x8f, 0xfc, 0x42, 0x11, 0x22, 0x53, 0xae, 0xf0, 0xf8, 0x6f, 0x4c],
    [0x35, 0x8c, 0x77, 0x80, 0x17, 0xb3, 0x0c, 0x0c, 0x35, 0x10, 0x25, 0x4e, 0x6a, 0xbf, 0x50, 0x66],
    [0x4f, 0xb5, 0x4c, 0x19, 0x7b, 0xac, 0xbb, 0x79, 0x0c, 0x32, 0xa9, 0x35, 0x78, 0x30, 0x93, 0xc8],
    [0x89, 0x27, 0xb6, 0x5c, 0x5c, 0x69, 0x6c, 0x69, 0x5c, 0xab, 0x4a, 0x84, 0x5b, 0x26, 0x22, 0x19],
    [0xc6, 0x39, 0xc4, 0xf0, 0x7d, 0xcf, 0x66, 0x39, 0x14, 0x09, 0x4b, 0x1d, 0xb5, 0x8d, 0xd0, 0x41],
    [0x05, 0xd7, 0xc6, 0xbc, 0x32, 0xb6, 0x39, 0x2d, 0x48, 0x1b, 0xf9, 0x54, 0xab, 0xac, 0xac, 0x75],
    [0x70, 0xcb, 0x30, 0xbd, 0xf2, 0x65, 0xe9, 0x55, 0xac, 0x1d, 0xf3, 0xa3, 0x56, 0xab, 0x59, 0xc8],
    [0x9b, 0x0c, 0xc6, 0xdb, 0x7e, 0xcf, 0x41, 0x85, 0xf8, 0x1b, 0xa9, 0xaf, 0x7b, 0xa8, 0xca, 0x47],
    [0xbf, 0x69, 0xa2, 0x78, 0x68, 0x1c, 0x1c, 0x82, 0x16, 0xca, 0xbb, 0x48, 0x87, 0xa3, 0x66, 0x20],
    [0x41, 0x18, 0x76, 0x46, 0x69, 0x20, 0x9d, 0x50, 0x2b, 0xe6, 0x3b, 0xc8, 0xf2, 0x14, 0x29, 0xe7],
    [0x43, 0x4b, 0x38, 0x1b, 0x55, 0xc9, 0x5c, 0x53, 0xda, 0x86, 0x4e, 0x33, 0x3c, 0x13, 0xe7, 0x81],
    [0x86, 0x44, 0x78, 0x8a, 0x38, 0x12, 0x15, 0xa4, 0x95, 0x4c, 0xf3, 0xa0, 0x38, 0xda, 0xe2, 0x7c],
    [0xa4, 0x68, 0x4b, 0x13, 0x02, 0x68, 0x43, 0x6c, 0xc2, 0x2f, 0xa1, 0x00, 0xeb, 0xd8, 0x43, 0xd6],
    [0xd9, 0xa2, 0x0d, 0xd0, 0xb8, 0xc4, 0xbc, 0x8d, 0x56, 0x89, 0x9f, 0xd3, 0xe4, 0x27, 0x2c, 0xa1],
    [0x30, 0x1a, 0xc9, 0x42, 0x99, 0x86, 0x97, 0x7a, 0x9a, 0x49, 0x10, 0xa7, 0x85, 0x99, 0x06, 0x29],
    [0xdf, 0xfc, 0x7e, 0xf2, 0x09, 0x3a, 0xaa, 0x64, 0x67, 0x41, 0x82, 0x5e, 0x53, 0xac, 0x6c, 0x43],
    [0xb9, 0x62, 0xb5, 0x62, 0x4a, 0x4d, 0x31, 0xa5, 0xe0, 0x54, 0x43, 0x6a, 0x2b, 0x7b, 0x88, 0x04],
    [0x60, 0xa5, 0x20, 0x62, 0xe4, 0xc5, 0xc9, 0xb2, 0xe7, 0x22, 0x25, 0xdc, 0x23, 0x55, 0xd4, 0x4d],
    [0xd6, 0xb2, 0x2a, 0x18, 0xca, 0x6a, 0x05, 0x09, 0x4b, 0xf8, 0xd3, 0xb2, 0xa0, 0xc5, 0x8c, 0x13],
    [0x77, 0x7b, 0xbe, 0x44, 0x8f, 0xd0, 0x18, 0x2b, 0x87, 0x6a, 0x59, 0x6e, 0x59, 0x5a, 0xd4, 0xe7],
    [0x9d, 0xb6, 0xf0, 0xc1, 0xb4, 0xe1, 0x43, 0x55, 0x07, 0x80, 0x2e, 0x2b, 0x53, 0x9e, 0xdc, 0x25],
    [0x82, 0x0b, 0x23, 0xe7, 0x12, 0x76, 0x55, 0xe1, 0x1b, 0x34, 0xa5, 0xaa, 0xff, 0x25, 0xc1, 0x1a],
    [0x7b, 0x61, 0x7e, 0xd7, 0x08, 0x36, 0x50, 0xc9, 0x03, 0x04, 0x62, 0xa7, 0x9a, 0xb7, 0x7b, 0xe6],
    [0x37, 0x80, 0xa4, 0x5f, 0x8c, 0xa9, 0x6d, 0xcb, 0x15, 0x35, 0x8e, 0x56, 0xae, 0xdc, 0x31, 0x36],
    [0x0b, 0x20, 0x30, 0x01, 0x02, 0x82, 0xca, 0x67, 0xcd, 0xe5, 0x16, 0x99, 0x93, 0xfa, 0x80, 0x8e],
    [0xe4, 0x75, 0xbd, 0xa0, 0xaf, 0x49, 0xc2, 0x16, 0xaf, 0x95, 0x06, 0x33, 0x0c, 0x9b, 0x03, 0x84],
    [0xbd, 0x2c, 0x3c, 0x51, 0xb8, 0x14, 0xcf, 0xf0, 0x9b, 0x3c, 0x53, 0x0c, 0xa7, 0x54, 0xe6, 0x79],
    [0x66, 0xc2, 0x2e, 0x44, 0xf6, 0x86, 0x50, 0xb7, 0x11, 0x7f, 0x78, 0x23, 0x5d, 0x84, 0x25, 0x92],
    [0x98, 0x16, 0x52, 0x6b, 0x0a, 0x46, 0xf6, 0x47, 0xa8, 0x5a, 0x79, 0x29, 0xb4, 0x9d, 0x67, 0x7a],
    [0x38, 0x41, 0x83, 0x68, 0x09, 0x15, 0x90, 0xfd, 0x12, 0x76, 0xee, 0x96, 0x29, 0xe6, 0x39, 0x44],
    [0xdb, 0x47, 0x70, 0xb7, 0xc2, 0x2e, 0x30, 0xb2, 0xcf, 0xfb, 0xa5, 0xb6, 0xd4, 0x6a, 0x9a, 0x12],
    [0x17, 0xb7, 0xfa, 0x44, 0xb5, 0x4b, 0x82, 0x66, 0xf0, 0x75, 0x54, 0xb3, 0xea, 0x97, 0x0c, 0xc3],
    [0x0d, 0x1e, 0x92, 0xc0, 0x3f, 0x41, 0xce, 0x2a, 0x20, 0x93, 0xf5, 0x8a, 0x83, 0x1a, 0x43, 0x53],
    [0xe0, 0x23, 0x93, 0xcb, 0x89, 0x69, 0xa5, 0x82, 0xd5, 0x55, 0x45, 0xec, 0x39, 0xa6, 0x11, 0x04],
    [0xba, 0x2e, 0x5b, 0xf0, 0x82, 0xd0, 0xd9, 0x57, 0x39, 0x88, 0xcc, 0x26, 0x08, 0x9b, 0x22, 0x27],
    [0x18, 0xd2, 0x9b, 0xcf, 0xb3, 0x65, 0x36, 0x5b, 0xd9, 0x52, 0x9c, 0x55, 0xaa, 0xba, 0x56, 0x35],
    [0x85, 0x08, 0x09, 0xb3, 0x05, 0x61, 0x40, 0x91, 0x24, 0x7e, 0x8b, 0xb4, 0x73, 0x15, 0x50, 0x3a],
    [0x07, 0x33, 0x7e, 0xd4, 0x0c, 0xa7, 0x9d, 0x3c, 0x8b, 0x8d, 0x24, 0x0d, 0x3a, 0xf3, 0x8c, 0x8a],
    [0x7a, 0x65, 0xed, 0x18, 0x04, 0x7b, 0x92, 0x60, 0x0f, 0xf0, 0x9e, 0xb5, 0x09, 0x82, 0x0f, 0x0e]]"

definition KAT_DECAP_VALID_C :: bytes where
  "KAT_DECAP_VALID_C = concat [
    [0xf8, 0xff, 0xae, 0x03, 0xca, 0x26, 0xe1, 0x56, 0xaf, 0x3a, 0xa5, 0x62, 0xe6, 0xf8, 0x41, 0x59],
    [0x59, 0x6d, 0x3a, 0x98, 0x5a, 0xe4, 0x2d, 0xa4, 0xe4, 0x51, 0x71, 0xba, 0x7c, 0x8a, 0x1c, 0xfe],
    [0xe2, 0x54, 0x9e, 0xfd, 0xdc, 0x41, 0x4b, 0x27, 0xff, 0x69, 0x79, 0x20, 0xbf, 0xc8, 0xa0, 0x06],
    [0xbe, 0x16, 0x51, 0xb0, 0xec, 0xd1, 0x8f, 0x91, 0xc9, 0x1f, 0x1d, 0xf9, 0xe6, 0x33, 0x21, 0x78],
    [0xc3, 0xba, 0x45, 0x40, 0x70, 0x99, 0xc0, 0xc5, 0xc2, 0x23, 0xe9, 0xc8, 0x8d, 0x4b, 0xed, 0x97],
    [0x42, 0xd8, 0xa3, 0xe1, 0x25, 0x1c, 0x6a, 0xf4, 0xb0, 0x3c, 0xf7, 0x9f, 0x26, 0x71, 0xd8, 0x74],
    [0x6e, 0x7c, 0x86, 0xeb, 0x27, 0x0f, 0x0c, 0x54, 0xb3, 0x36, 0x2f, 0x69, 0x13, 0x87, 0x53, 0x9f],
    [0x5e, 0x7b, 0x16, 0x68, 0x0a, 0xb5, 0x1c, 0x1f, 0x93, 0xd0, 0x98, 0xd4, 0x0c, 0xb8, 0x69, 0x88],
    [0x27, 0xae, 0x9e, 0xb1, 0xa8, 0x5f, 0x52, 0x19, 0x95, 0x89, 0xd5, 0x61, 0xa0, 0xfb, 0x11, 0x40],
    [0xfa, 0xd8, 0x88, 0xab, 0x0b, 0x03, 0xfc, 0xe0, 0x3a, 0x9d, 0x1d, 0x10, 0x69, 0xf0, 0xff, 0xe2],
    [0x74, 0x36, 0x2f, 0x3f, 0x1b, 0x65, 0x6e, 0x40, 0x2e, 0x30, 0x75, 0xef, 0xc2, 0x9c, 0xfd, 0xcd],
    [0x3d, 0x3a, 0x41, 0x63, 0xf7, 0x4c, 0xe6, 0xb1, 0x56, 0x6c, 0xf4, 0x62, 0x6d, 0x14, 0x54, 0x4a],
    [0x2a, 0x33, 0xdd, 0xf5, 0x86, 0x06, 0x12, 0xaf, 0x5d, 0x33, 0x7c, 0x6b, 0x55, 0xa7, 0xea, 0xe0],
    [0x14, 0x22, 0xca, 0x01, 0x88, 0x2b, 0xaa, 0x59, 0x1f, 0x9e, 0xdd, 0xa6, 0x97, 0x6e, 0x2b, 0xfd],
    [0xf9, 0x45, 0x27, 0x7b, 0x4c, 0x14, 0x5c, 0xdb, 0xea, 0x5f, 0x22, 0xb6, 0x36, 0xdd, 0x97, 0x61],
    [0xf8, 0xed, 0xc5, 0x18, 0xc3, 0x32, 0x23, 0xfd, 0x46, 0xd7, 0x71, 0xe3, 0x97, 0x56, 0xb2, 0x6d],
    [0xfd, 0x35, 0x79, 0x8d, 0x3a, 0xa0, 0x71, 0xf9, 0x0d, 0x22, 0x50, 0x22, 0x0d, 0x48, 0x69, 0xc5],
    [0x9b, 0x3c, 0xad, 0x02, 0x0b, 0x1e, 0x78, 0x6e, 0xb8, 0xc8, 0x56, 0xd2, 0xab, 0x33, 0xff, 0xa1],
    [0x60, 0x5f, 0xb6, 0x1c, 0xb9, 0x1c, 0x64, 0xde, 0x69, 0x5f, 0xcc, 0x1d, 0x61, 0xba, 0x06, 0x94],
    [0x1b, 0x53, 0x36, 0xcb, 0x67, 0xe6, 0x48, 0xb4, 0x19, 0x7a, 0xf2, 0xb2, 0x97, 0xf4, 0xee, 0xd2],
    [0xdf, 0x99, 0x6e, 0x21, 0x3d, 0x63, 0xe0, 0xbf, 0xb5, 0x4a, 0x86, 0xc4, 0x7b, 0x28, 0x6a, 0x9d],
    [0x50, 0x59, 0x58, 0x0d, 0xad, 0x40, 0x07, 0xe4, 0xdc, 0x6f, 0xb9, 0x44, 0xa5, 0x37, 0x17, 0xf3],
    [0x25, 0xd9, 0x4e, 0xb6, 0xa5, 0x14, 0xc1, 0x3e, 0xfc, 0x44, 0x5f, 0x8e, 0x4e, 0xbf, 0xfd, 0xe3],
    [0xd7, 0xb0, 0x0b, 0x95, 0x5a, 0xeb, 0xce, 0x82, 0x6e, 0x4e, 0x95, 0x68, 0xc5, 0xe4, 0xeb, 0x69],
    [0xe0, 0xf3, 0xbe, 0x52, 0xc7, 0xb4, 0x41, 0xcb, 0x7f, 0x09, 0xee, 0x44, 0x1b, 0xc0, 0x10, 0x58],
    [0x18, 0x3a, 0xcc, 0xde, 0x0a, 0x94, 0x73, 0x88, 0x1b, 0xf0, 0x9c, 0x99, 0x2a, 0x86, 0xc6, 0x51],
    [0x13, 0x19, 0xee, 0x5a, 0xf7, 0x6f, 0xa8, 0x00, 0x79, 0xde, 0x11, 0xea, 0x7c, 0x8b, 0x9d, 0x09],
    [0x47, 0xc3, 0x08, 0x34, 0x5a, 0x65, 0x86, 0xa8, 0xed, 0xa5, 0xd0, 0x0a, 0xa7, 0xa2, 0x63, 0x46],
    [0xc3, 0xe2, 0xc9, 0x0c, 0x17, 0x09, 0xe5, 0x2e, 0xe7, 0xca, 0x29, 0x2e, 0x89, 0xe1, 0xc2, 0x2b],
    [0x54, 0x47, 0x44, 0x9a, 0xe5, 0x08, 0xba, 0x0f, 0xe2, 0xc8, 0x01, 0xe3, 0xa0, 0xf6, 0xd1, 0x2e],
    [0x22, 0xc9, 0x3b, 0xd9, 0x8d, 0x19, 0xce, 0x19, 0x9a, 0xa0, 0x55, 0xd2, 0x09, 0x43, 0x1f, 0xdd],
    [0xc4, 0x6b, 0xea, 0xb5, 0xdb, 0x20, 0xfa, 0xd6, 0xb5, 0x3b, 0x93, 0xe1, 0xe7, 0x23, 0x78, 0x5e],
    [0xbc, 0x29, 0xd4, 0x86, 0xfb, 0x24, 0x0d, 0x6a, 0x48, 0x13, 0x68, 0x3e, 0x2e, 0x71, 0xff, 0x05],
    [0xb4, 0xf5, 0x3e, 0xb5, 0x7c, 0x06, 0x8c, 0x2c, 0x35, 0xf0, 0xb0, 0xdd, 0xab, 0xd8, 0xe1, 0x7b],
    [0x48, 0xf8, 0x47, 0x77, 0x47, 0xd1, 0xd9, 0x7a, 0xff, 0x54, 0x34, 0xd1, 0xf0, 0x9c, 0xe1, 0xdd],
    [0x32, 0x5d, 0xc2, 0xbb, 0x5f, 0x79, 0x52, 0x3d, 0xd4, 0x18, 0x5d, 0xd3, 0x8d, 0x36, 0x29, 0xb6],
    [0xe8, 0x3f, 0x76, 0x25, 0x7b, 0xbb, 0xdc, 0xd6, 0x96, 0x3b, 0x1e, 0xdf, 0xfb, 0xdf, 0x44, 0x56],
    [0xc6, 0xa6, 0xd2, 0x64, 0x1f, 0x03, 0x5d, 0x08, 0xa7, 0xee, 0x3a, 0x7f, 0x1c, 0x04, 0x6c, 0xd3],
    [0xbe, 0x55, 0x0a, 0xb9, 0x38, 0x53, 0xfc, 0x68, 0x99, 0x13, 0xe0, 0xe1, 0x36, 0xa8, 0x3b, 0xa1],
    [0x5f, 0x94, 0x8d, 0x8f, 0x22, 0x9c, 0xfd, 0x6e, 0x12, 0xd1, 0x9c, 0x2f, 0xdd, 0xc9, 0xf1, 0x7d],
    [0xfd, 0xe4, 0xb2, 0x8a, 0x7e, 0xac, 0x09, 0x04, 0x3f, 0x1d, 0x4f, 0x37, 0xdd, 0xd4, 0x92, 0x31],
    [0x51, 0xe8, 0x37, 0xd7, 0xc9, 0xc9, 0xfc, 0x4d, 0xc9, 0xde, 0x15, 0x76, 0x68, 0x6b, 0x50, 0xf6],
    [0x93, 0x44, 0x74, 0x40, 0x2d, 0x53, 0x43, 0x9d, 0x45, 0xa0, 0x15, 0xba, 0x65, 0x58, 0xc3, 0x03],
    [0x25, 0x71, 0xe1, 0xb3, 0x26, 0x3b, 0xc7, 0xe6, 0xca, 0xd5, 0x49, 0xd1, 0x05, 0x0f, 0xdd, 0x49],
    [0xf9, 0xb5, 0xcb, 0x20, 0x24, 0xcf, 0x54, 0x3b, 0x6f, 0xb7, 0x06, 0xb6, 0x36, 0x10, 0x6b, 0x54],
    [0xe9, 0x38, 0xf8, 0xea, 0x66, 0x4d, 0x9c, 0xbd, 0x75, 0xff, 0x70, 0x42, 0xed, 0x9d, 0x81, 0x54],
    [0x6b, 0xda, 0x25, 0x5d, 0x17, 0x7d, 0x73, 0x35, 0xa7, 0xdf, 0x06, 0xb5, 0xd0, 0xed, 0xc9, 0x8c],
    [0x66, 0x78, 0x31, 0x8f, 0x71, 0x31, 0xed, 0x75, 0x64, 0xd5, 0x34, 0x4d, 0xf5, 0x48, 0x02, 0x24],
    [0x11, 0x44, 0x50, 0x2e, 0xed, 0xcb, 0x05, 0x7b, 0xe3, 0xca, 0x1d, 0x3f, 0xf8, 0xc6, 0x5f, 0xa7],
    [0x48, 0x75, 0x21, 0xdc, 0x9d, 0x4d, 0xb4, 0x92, 0x65, 0xdf, 0xf8, 0x15, 0x8b, 0x4c, 0xe2, 0xa1],
    [0x89, 0x33, 0x99, 0xbc, 0xb4, 0xbb, 0xfc, 0xd2, 0xc3, 0xf7, 0xd9, 0xc2, 0x28, 0x6e, 0xed, 0xcd],
    [0x76, 0x51, 0x80, 0x26, 0xd6, 0x58, 0x6f, 0x10, 0xa7, 0x9e, 0x02, 0x47, 0x7e, 0xfd, 0x8f, 0xf9],
    [0x39, 0x31, 0xb0, 0x12, 0x10, 0xc6, 0xad, 0x0f, 0x75, 0xd2, 0x3a, 0x62, 0xf6, 0x80, 0x44, 0x20],
    [0x05, 0x97, 0xdd, 0x27, 0x7c, 0xeb, 0xab, 0x9b, 0x5c, 0x21, 0xc7, 0x4c, 0x5c, 0xd7, 0x4b, 0x63],
    [0xa8, 0xb6, 0xd5, 0x97, 0x89, 0xf5, 0xc5, 0x0c, 0xac, 0xe6, 0x67, 0x6c, 0x93, 0x99, 0x0d, 0xb2],
    [0xf7, 0xb4, 0xf3, 0x9e, 0x00, 0xf4, 0x55, 0xac, 0x00, 0x2c, 0x12, 0x36, 0x7d, 0x7b, 0xfd, 0x0c],
    [0xb0, 0x32, 0x7e, 0xf0, 0x77, 0xc4, 0x53, 0x82, 0xf0, 0x45, 0x42, 0x55, 0xb2, 0xe1, 0x1a, 0x94],
    [0x22, 0x54, 0x60, 0x8b, 0xc4, 0x1b, 0x89, 0x01, 0x72, 0xbe, 0x38, 0xe3, 0xed, 0xd2, 0x0e, 0xd0],
    [0x28, 0xc3, 0x70, 0x06, 0xaa, 0x6e, 0xd5, 0x90, 0x7c, 0x78, 0x61, 0x47, 0x48, 0xe5, 0x3b, 0x7e],
    [0xe3, 0x24, 0x2a, 0x7c, 0x10, 0x00, 0x55, 0x2e, 0xdd, 0xb6, 0x7a, 0x54, 0x36, 0xfe, 0x88, 0x08],
    [0xd5, 0x36, 0x99, 0xe9, 0xbb, 0x3c, 0x19, 0x0f, 0x5b, 0x96, 0x6a, 0x1f, 0xdb, 0xb1, 0xda, 0x68],
    [0xe8, 0xfc, 0x63, 0x0d, 0x84, 0x1c, 0x63, 0xf5, 0xfb, 0xe7, 0x16, 0x1b, 0xaa, 0x06, 0x70, 0xbf],
    [0x97, 0x0c, 0x3e, 0x61, 0x7a, 0xaa, 0xc1, 0x2c, 0x83, 0xff, 0x3c, 0x1d, 0x19, 0x76, 0x1b, 0x74],
    [0x21, 0x68, 0x5f, 0x1f, 0x6c, 0x9c, 0x93, 0xeb, 0x35, 0x90, 0x0e, 0x54, 0xf1, 0x07, 0x44, 0xd9],
    [0x0f, 0x4d, 0x44, 0x4e, 0x06, 0xc4, 0x5e, 0x2a, 0x9f, 0xae, 0xf1, 0xa9, 0x6f, 0x0b, 0x75, 0x2d],
    [0x4d, 0xf1, 0xdf, 0x86, 0xa9, 0x50, 0x3d, 0x8d, 0x99, 0xcd, 0xf8, 0xa6, 0x26, 0x22, 0x18, 0x4a],
    [0x91, 0x9e, 0x19, 0xdf, 0x82, 0x30, 0xe7, 0x01, 0x7d, 0x5f, 0x41, 0x1a, 0x89, 0xda, 0x30, 0x4b],
    [0x67, 0xe6, 0x3c, 0xc3, 0xe3, 0xd9, 0x01, 0xf9, 0x98, 0xf5, 0x63, 0xca, 0x9b, 0xd4, 0xc9, 0xbe]]"

definition KAT_DECAP_VALID_K :: bytes where
  "KAT_DECAP_VALID_K = concat [
    [0x34, 0xcf, 0xae, 0x7f, 0x2c, 0xa3, 0xb0, 0xb9, 0xc3, 0xe0, 0x6a, 0xfe, 0xed, 0x55, 0x4c, 0x05],
    [0x3f, 0x6e, 0x51, 0xd8, 0x75, 0xd3, 0xbd, 0x3f, 0xf0, 0xed, 0xa2, 0x08, 0x6e, 0xe7, 0x9f, 0x3a]]"

definition KAT_DECAP_REJECT_DK :: bytes where
  "KAT_DECAP_REJECT_DK = concat [
    [0x5d, 0xe1, 0x7b, 0x5a, 0x59, 0x6d, 0x15, 0x39, 0x0d, 0x56, 0x95, 0x54, 0x1c, 0xb0, 0x3f, 0xae],
    [0x40, 0x73, 0xe6, 0x01, 0xc7, 0x55, 0x78, 0x94, 0xab, 0x34, 0x1f, 0xc3, 0x19, 0x82, 0xbb, 0xa0],
    [0xc9, 0x2e, 0x04, 0xba, 0xdd, 0x2a, 0x82, 0x6f, 0xdc, 0x16, 0x6e, 0x72, 0xaf, 0x28, 0x38, 0x70],
    [0x3f, 0xe9, 0x4f, 0x87, 0xba, 0xb6, 0x4c, 0xd9, 0x71, 0x87, 0x9b, 0x6b, 0xb8, 0xc8, 0x4a, 0x52],
    [0xc3, 0x18, 0x83, 0x4c, 0x46, 0xae, 0x10, 0x28, 0xcb, 0x83, 0x9f, 0xd9, 0x12, 0x77, 0x37, 0x14],
    [0xc6, 0x51, 0xdb, 0xad, 0xd6, 0x9a, 0x73, 0x23, 0xe1, 0x19, 0x30, 0x59, 0xbd, 0x47, 0x99, 0xb1],
    [0x4f, 0x5c, 0xc2, 0xca, 0x92, 0x21, 0x97, 0x80, 0xb3, 0xbe, 0xfa, 0xb6, 0x5c, 0x91, 0xb6, 0x37],
    [0x02, 0x3b, 0x4b, 0xaa, 0x4a, 0x63, 0xa3, 0x7d, 0x83, 0x24, 0x03, 0x93, 0x44, 0x2b, 0xb9, 0x38],
    [0x6b, 0x62, 0x5a, 0x97, 0x7a, 0x53, 0x88, 0xab, 0xb4, 0x35, 0xfb, 0x34, 0x53, 0xe3, 0x46, 0x33],
    [0xa0, 0xb8, 0x03, 0xec, 0x28, 0xbe, 0x69, 0x1c, 0x25, 0x8f, 0xe6, 0x10, 0x36, 0x4b, 0x89, 0x55],
    [0x7c, 0x78, 0x09, 0x35, 0x7a, 0x4c, 0x69, 0x19, 0x25, 0xac, 0x7d, 0x4b, 0xd2, 0x62, 0x1f, 0x76],
    [0xa0, 0x7a, 0x4b, 0x26, 0xb3, 0xb4, 0x5a, 0x10, 0x99, 0x57, 0xd6, 0xe2, 0x36, 0xe8, 0x35, 0x92],
    [0x71, 0xf8, 0xb4, 0xfc, 0x05, 0x4a, 0xf0, 0x51, 0x58, 0xed, 0x60, 0x26, 0x14, 0x05, 0x43, 0xf2],
    [0xd9, 0x05, 0xcc, 0x14, 0x4c, 0x34, 0x36, 0xc9, 0x66, 0xe9, 0x2e, 0x89, 0xaa, 0x24, 0x88, 0x5c],
    [0x04, 0x4e, 0xca, 0x36, 0x10, 0x92, 0x1c, 0xb1, 0xa5, 0x08, 0xe7, 0x1b, 0x2a, 0x3f, 0x97, 0x9e],
    [0x0a, 0x33, 0xc1, 0xed, 0xb6, 0x1c, 0x23, 0x03, 0x05, 0x78, 0x42, 0xc9, 0x37, 0x45, 0x39, 0x04],
    [0xc8, 0x0f, 0x45, 0x42, 0xbf, 0x5d, 0xb8, 0x86, 0x63, 0x6c, 0x8b, 0xc3, 0x92, 0xcb, 0xa8, 0xb7],
    [0x4a, 0xfd, 0x21, 0x0b, 0x3d, 0x34, 0x00, 0xb7, 0x25, 0x7e, 0xa2, 0xc2, 0xab, 0x03, 0xd5, 0x77],
    [0xc9, 0x51, 0x70, 0xd5, 0xc7, 0x77, 0x1c, 0x54, 0xb6, 0x3f, 0x9c, 0x60, 0x30, 0xcb, 0x6f, 0x02],
    [0xf9, 0x51, 0x65, 0x02, 0xc4, 0x78, 0x00, 0x2a, 0xf1, 0xba, 0xc2, 0xe1, 0x1b, 0x58, 0xec, 0x20],
    [0x09, 0xfb, 0x08, 0x5a, 0xa8, 0xb4, 0x8c, 0x51, 0xd4, 0xb1, 0x33, 0x75, 0x67, 0x9e, 0x77, 0x42],
    [0xcb, 0x97, 0x54, 0x8b, 0x1b, 0x88, 0x61, 0x21, 0x6e, 0x3b, 0x73, 0x91, 0x46, 0x48, 0x74, 0x05],
    [0x46, 0x6c, 0xcb, 0xe1, 0xa3, 0xeb, 0xeb, 0x9c, 0x65, 0x53, 0x01, 0x3c, 0xc8, 0x6e, 0xa0, 0xfb],
    [0x2c, 0xdf, 0xe8, 0xbb, 0x93, 0xe3, 0x8e, 0x66, 0xb7, 0x62, 0xaf, 0x97, 0xa9, 0x8a, 0xd1, 0x7b],
    [0x6f, 0x6b, 0x1a, 0xfa, 0x93, 0x5a, 0x50, 0xbc, 0x3e, 0x71, 0x54, 0x22, 0x99, 0x04, 0x57, 0x8f],
    [0xb9, 0x0d, 0x07, 0x03, 0x0e, 0xa8, 0x71, 0x6a, 0x1a, 0xf9, 0xc7, 0x87, 0xf7, 0x89, 0xd4, 0xb2],
    [0x17, 0x46, 0x73, 0x13, 0x10, 0x21, 0x09, 0x2a, 0x84, 0x14, 0x5d, 0x18, 0x34, 0x21, 0xec, 0xca],
    [0x36, 0x14, 0x2f, 0x43, 0x16, 0x61, 0x4c, 0x20, 0x01, 0xbb, 0x33, 0xce, 0x04, 0x4c, 0x25, 0x7e],
    [0xb5, 0x92, 0xb3, 0xc5, 0x7f, 0xa7, 0xcb, 0x7a, 0x3e, 0x1a, 0xc2, 0x4d, 0xa0, 0x8c, 0x15, 0xa5],
    [0xa0, 0xaf, 0x31, 0x90, 0x0f, 0xb2, 0x14, 0x7b, 0xd8, 0x3d, 0xa4, 0xd5, 0x8b, 0x6a, 0xa5, 0xa1],
    [0x09, 0x60, 0x8d, 0x53, 0xb0, 0xa8, 0x6a, 0xa1, 0x31, 0x47, 0x43, 0x5a, 0x6f, 0xdb, 0xad, 0x92],
    [0x6b, 0xb6, 0x5b, 0x83, 0xb0, 0xdf, 0x6c, 0x43, 0x2a, 0xf2, 0x58, 0xf2, 0xac, 0x57, 0xab, 0xb6],
    [0x3d, 0xd5, 0xe6, 0xc2, 0x72, 0xc5, 0x0e, 0x5d, 0x6a, 0xc3, 0x4f, 0xba, 0x51, 0x57, 0x32, 0x45],
    [0xd3, 0xa0, 0x6a, 0x1d, 0x59, 0x3f, 0xae, 0x29, 0x24, 0x08, 0x83, 0x88, 0x3a, 0x5c, 0x5b, 0x25],
    [0x05, 0x8b, 0x99, 0xf4, 0x9c, 0xa6, 0x89, 0x4e, 0x9a, 0xc2, 0x25, 0xbf, 0x44, 0x21, 0x35, 0x37],
    [0x20, 0x4e, 0x82, 0x4c, 0x46, 0xf9, 0x70, 0x4b, 0x89, 0xc3, 0xc1, 0x6a, 0x52, 0xbb, 0x13, 0x37],
    [0x81, 0x58, 0x33, 0x17, 0x96, 0x80, 0x10, 0xc8, 0x67, 0x58, 0xc5, 0xbf, 0x7c, 0x19, 0x0c, 0x34],
    [0xb8, 0xb7, 0x33, 0x1b, 0x82, 0x42, 0xc8, 0x4c, 0xc9, 0x62, 0x78, 0xae, 0x58, 0x6f, 0x84, 0x72],
    [0x22, 0x5e, 0x79, 0x56, 0x63, 0xb3, 0x79, 0xa9, 0x3c, 0x46, 0x96, 0x40, 0x7c, 0x00, 0x50, 0x4c],
    [0x81, 0x0c, 0x5f, 0xc4, 0x99, 0xa9, 0x8b, 0xa6, 0x7c, 0x0a, 0xd6, 0x71, 0x8b, 0xa3, 0x2d, 0x40],
    [0x49, 0x71, 0x3b, 0x65, 0x14, 0x7a, 0xb1, 0x19, 0x2f, 0xb4, 0x6a, 0x2e, 0xa7, 0x02, 0x34, 0x23],
    [0xae, 0xb6, 0x52, 0x6a, 0x80, 0x58, 0x5f, 0x55, 0x16, 0x10, 0xab, 0xd4, 0x57, 0x26, 0x86, 0x4e],
    [0x0a, 0xf9, 0x48, 0x2f, 0x49, 0x88, 0x22, 0x77, 0x84, 0x71, 0xcb, 0x89, 0x5d, 0x1c, 0xb1, 0xaa],
    [0xa1, 0x44, 0x40, 0x98, 0x73, 0xb1, 0xec, 0xca, 0xec, 0xf6, 0x5a, 0x5f, 0x52, 0x98, 0xca, 0xb6],
    [0x85, 0xca, 0xa0, 0xa1, 0x93, 0x58, 0x49, 0x43, 0xdc, 0xba, 0xa8, 0x4c, 0x25, 0x5d, 0xf3, 0x5c],
    [0xe7, 0x52, 0x63, 0x0a, 0x11, 0x0a, 0x98, 0x85, 0x36, 0xc8, 0xe0, 0x2f, 0xf0, 0x55, 0x4b, 0x57],
    [0x25, 0x22, 0x1e, 0xf9, 0x86, 0x14, 0xe1, 0xbd, 0xab, 0x92, 0x3b, 0xf2, 0x22, 0x56, 0x78, 0x82],
    [0x86, 0x9b, 0xc8, 0x19, 0xad, 0x47, 0x01, 0x45, 0x58, 0x9d, 0x3d, 0x74, 0x93, 0x72, 0x33, 0x3b],
    [0xa5, 0x97, 0x7e, 0x26, 0x64, 0xc5, 0x6c, 0x72, 0x9e, 0x70, 0x05, 0xb4, 0x50, 0x05, 0x44, 0x18],
    [0x46, 0x52, 0xd2, 0xe1, 0x65, 0x3f, 0x81, 0x3c, 0x48, 0x29, 0xc8, 0x78, 0x7a, 0x6e, 0x63, 0xaa],
    [0xb5, 0xee, 0x17, 0x1c, 0x18, 0xba, 0x4b, 0x0c, 0x5b, 0x39, 0x94, 0xda, 0x4a, 0xf6, 0xc5, 0x39],
    [0x9c, 0x71, 0xc9, 0x10, 0x81, 0x1b, 0xdb, 0xf4, 0x8d, 0x02, 0x67, 0x73, 0x7c, 0xf6, 0xa7, 0x91],
    [0x7b, 0x80, 0xd6, 0xc7, 0x6a, 0xea, 0x1c, 0x09, 0x1c, 0x94, 0x3d, 0x1d, 0xfb, 0x1b, 0x6f, 0x28],
    [0x04, 0x14, 0xd9, 0x38, 0x98, 0xe7, 0x59, 0x71, 0x75, 0x09, 0x77, 0x0b, 0x21, 0x5a, 0xeb, 0x81],
    [0x9d, 0xd4, 0xb1, 0xc4, 0x25, 0xcd, 0xe0, 0x25, 0x97, 0x91, 0x12, 0x9f, 0x09, 0x0a, 0xb1, 0x5d],
    [0x81, 0x48, 0x8a, 0xdc, 0x92, 0xbd, 0x87, 0x07, 0xed, 0xf3, 0xc1, 0xeb, 0xe2, 0x28, 0xcc, 0x01],
    [0xc8, 0xd2, 0xdb, 0xc7, 0xc7, 0x02, 0x4b, 0x96, 0xb2, 0x12, 0x5b, 0x96, 0x5a, 0xf6, 0x26, 0xaa],
    [0xab, 0xfc, 0xb7, 0xec, 0x2c, 0x1a, 0x33, 0x48, 0x7c, 0x8b, 0xd3, 0x74, 0x5f, 0xe4, 0x9c, 0x78],
    [0x69, 0x17, 0x2e, 0x1b, 0x6a, 0x8d, 0x92, 0x63, 0x2d, 0x71, 0x2b, 0x56, 0x88, 0x67, 0x32, 0xe4],
    [0x80, 0xd4, 0x10, 0x0a, 0x36, 0xd8, 0xb8, 0xb5, 0x61, 0x07, 0xa2, 0x6c, 0x8c, 0xf6, 0xf5, 0xa0],
    [0x7d, 0x51, 0xb9, 0xba, 0x54, 0xa5, 0x2c, 0x9a, 0x40, 0xad, 0x4c, 0x31, 0xeb, 0x68, 0x7a, 0xcd],
    [0x44, 0x5d, 0x58, 0x01, 0x07, 0xb6, 0x94, 0x81, 0x19, 0xe5, 0x55, 0xc0, 0xc3, 0x57, 0xa8, 0xe0],
    [0xbb, 0xb8, 0xc6, 0x24, 0x04, 0xc4, 0x6d, 0x3b, 0x23, 0x2c, 0x8f, 0x0a, 0x40, 0xaf, 0x3b, 0x7a],
    [0x05, 0xb8, 0xbb, 0x71, 0xf0, 0x4e, 0xd5, 0xea, 0xbe, 0xc3, 0x80, 0xb7, 0x5b, 0xbb, 0x4d, 0x26],
    [0x2b, 0xa1, 0xda, 0x07, 0xc1, 0x1a, 0x95, 0x8f, 0x04, 0xcb, 0x64, 0x83, 0xb4, 0x73, 0x74, 0x62],
    [0xc2, 0xa9, 0xa3, 0x46, 0x76, 0x1c, 0x22, 0x88, 0x8a, 0x99, 0x23, 0x35, 0x11, 0xc3, 0x1a, 0x0f],
    [0xb1, 0xcb, 0x7c, 0x97, 0xd6, 0xa3, 0xfb, 0xe7, 0x8a, 0xdd, 0xb6, 0xc8, 0xdf, 0x15, 0x75, 0xd7],
    [0x29, 0x3e, 0x98, 0xd3, 0xcb, 0xa1, 0xda, 0xb3, 0xd3, 0x93, 0xa5, 0x5f, 0x3c, 0x73, 0xa3, 0x8b],
    [0x8c, 0xcd, 0x6b, 0xcc, 0x42, 0xb3, 0x12, 0x74, 0xcb, 0xb7, 0xc4, 0x6a, 0xcc, 0x8c, 0x56, 0xa8],
    [0x5e, 0x58, 0xbd, 0x5f, 0x49, 0xb7, 0x36, 0x42, 0x3b, 0xf9, 0xa0, 0x50, 0xf4, 0xe5, 0xcb, 0x6d],
    [0x39, 0x5f, 0x49, 0x96, 0x24, 0x04, 0x60, 0x11, 0xc3, 0xb0, 0x2e, 0x7b, 0x98, 0xa0, 0x2e, 0x9b],
    [0x6f, 0xb5, 0x61, 0x29, 0x8d, 0xa8, 0x88, 0x3e, 0xc2, 0xb2, 0xde, 0x4a, 0x2d, 0xb0, 0xaa, 0x93],
    [0x8c, 0x6a, 0x9c, 0x67, 0xa1, 0x37, 0x34, 0x2b, 0xba, 0x5a, 0x1a, 0x71, 0x91, 0xc1, 0x74, 0x11],
    [0xa6, 0x49, 0xe9, 0xb9, 0xb4, 0x7f, 0x0c, 0x35, 0x22, 0x26, 0x4c, 0x38, 0xf6, 0x64, 0x37, 0x43],
    [0x8c, 0x7b, 0x75, 0x58, 0x87, 0x87, 0xbb, 0x03, 0xb1, 0xc0, 0x73, 0xd6, 0x68, 0xb3, 0x55, 0x23],
    [0x9e, 0x75, 0x02, 0x84, 0x0a, 0x71, 0x83, 0xe9, 0xc9, 0xe4, 0x92, 0x70, 0xa1, 0x33, 0x99, 0x41],
    [0xe1, 0x77, 0x33, 0x79, 0x2d, 0x4b, 0xea, 0xbe, 0x4d, 0xc5, 0x0a, 0x23, 0x51, 0xa3, 0xf1, 0xaa],
    [0x11, 0x32, 0x34, 0x90, 0x51, 0x1b, 0xb0, 0x03, 0x71, 0xad, 0x9a, 0xe7, 0x2f, 0x45, 0x89, 0xbd],
    [0x5d, 0xa7, 0x32, 0xea, 0x52, 0x89, 0x2d, 0x8a, 0x6f, 0x98, 0x38, 0x6e, 0x67, 0xd3, 0xb8, 0xcc],
    [0x97, 0xaf, 0x61, 0xca, 0x9c, 0x15, 0xc2, 0x3a, 0x97, 0x72, 0x5b, 0xa5, 0xc8, 0x20, 0x45, 0x27],
    [0x86, 0xcc, 0xcc, 0x34, 0x75, 0x1c, 0xcf, 0x13, 0xf7, 0x2d, 0x2a, 0xf1, 0xa0, 0xb7, 0xf8, 0x1f],
    [0x69, 0x8b, 0x5b, 0x8f, 0xf9, 0xa2, 0xcd, 0x5b, 0x07, 0x6d, 0x23, 0xa6, 0x21, 0x9c, 0xa9, 0x45],
    [0x73, 0x38, 0x23, 0x6c, 0x74, 0x33, 0x60, 0xcf, 0x9e, 0x8a, 0x19, 0xdc, 0x83, 0xce, 0xa7, 0xf5],
    [0xbe, 0x17, 0xd0, 0x84, 0x83, 0x5b, 0x8e, 0xd7, 0x00, 0xcb, 0x0a, 0x1c, 0x9d, 0x7c, 0xdc, 0xc4],
    [0xf5, 0x52, 0x6b, 0x63, 0xc3, 0x4d, 0x62, 0x37, 0x49, 0xc9, 0x99, 0x2a, 0x19, 0x95, 0x7a, 0xa5],
    [0xc0, 0x89, 0x4a, 0x62, 0x38, 0x21, 0xac, 0xc3, 0xcc, 0xa0, 0xb9, 0x41, 0x0c, 0x0f, 0x8c, 0xd5],
    [0x97, 0x57, 0xc5, 0x38, 0x99, 0xc1, 0xa0, 0xd3, 0x27, 0x73, 0x3c, 0x0b, 0x7f, 0x19, 0x61, 0xb0],
    [0xc7, 0x4b, 0x9d, 0xdb, 0xac, 0x66, 0x2c, 0x16, 0x6c, 0x5f, 0x78, 0x71, 0x41, 0xf8, 0x1d, 0x19],
    [0xb9, 0x07, 0xe8, 0xa0, 0x42, 0xfd, 0x2b, 0x01, 0x79, 0x4b, 0x89, 0x68, 0x48, 0x6e, 0x69, 0xfa],
    [0x02, 0xfd, 0x13, 0x6d, 0xed, 0x53, 0xc6, 0xa6, 0x33, 0x89, 0x9a, 0x36, 0x84, 0x42, 0xac, 0xca],
    [0x49, 0xf6, 0x6e, 0xb4, 0x76, 0x6a, 0x16, 0x24, 0x71, 0x28, 0xc3, 0x8b, 0x7e, 0x02, 0x87, 0xd3],
    [0xbb, 0xb1, 0x59, 0x43, 0x24, 0xd6, 0xb1, 0xc9, 0xc8, 0x0a, 0x36, 0x8c, 0x59, 0x03, 0xa0, 0x08],
    [0x0e, 0xbd, 0xf6, 0xc7, 0x2a, 0x27, 0xaa, 0x10, 0x28, 0x68, 0x59, 0x38, 0x23, 0x49, 0xd3, 0x9f],
    [0x9c, 0x91, 0xac, 0xb0, 0x68, 0x00, 0x15, 0x2b, 0x9e, 0xdc, 0x9c, 0xb9, 0x65, 0xa5, 0xac, 0x9e],
    [0x7c, 0x8a, 0x6f, 0x14, 0x39, 0xb1, 0x8b, 0x2f, 0xe1, 0x94, 0x2c, 0x9b, 0x99, 0x43, 0xee, 0x83],
    [0x0a, 0x7a, 0xdb, 0x5e, 0xec, 0x65, 0x01, 0xf5, 0x93, 0x36, 0x1e, 0x0c, 0x95, 0x62, 0x5b, 0x74],
    [0x97, 0xa0, 0x2a, 0x30, 0x17, 0x3f, 0xaf, 0x47, 0xc7, 0x4d, 0xcc, 0x4e, 0x99, 0xa4, 0x36, 0x86],
    [0x4a, 0x51, 0x10, 0x13, 0x0b, 0x2b, 0x6c, 0x80, 0x07, 0x01, 0x5d, 0x1e, 0xbb, 0x15, 0xc2, 0x32],
    [0xbf, 0x91, 0xab, 0x19, 0xdc, 0xa7, 0x71, 0x1e, 0xd9, 0x7d, 0x98, 0x63, 0x7e, 0x05, 0x1a, 0x1e],
    [0x68, 0x6b, 0x21, 0xf9, 0xea, 0xac, 0x86, 0x52, 0x12, 0x9b, 0x69, 0x10, 0x2e, 0xb4, 0xa4, 0xca],
    [0x09, 0x06, 0xec, 0x94, 0x89, 0xda, 0xea, 0x05, 0x4d, 0xbb, 0x7a, 0xfb, 0xcc, 0xa5, 0xc4, 0xc8],
    [0xc5, 0x11, 0xb7, 0x53, 0xe8, 0x84, 0x72, 0x24, 0xf9, 0x5a, 0x3f, 0xc8, 0xb1, 0x2a, 0x65, 0x61],
    [0x4c, 0x8c, 0x04, 0xef, 0x58, 0xa5, 0x6e, 0xbc, 0x11, 0x70, 0xa4, 0x88, 0x86, 0xf0, 0x4e, 0x24],
    [0x97, 0x64, 0x11, 0xe8, 0x8e, 0x44, 0x22, 0x0f, 0x1c, 0xe1, 0x3b, 0xba, 0x41, 0x47, 0x75, 0xe4],
    [0x63, 0xe9, 0x82, 0x65, 0x72, 0xb6, 0xa8, 0x79, 0x62, 0x5b, 0x34, 0x8a, 0xab, 0xc7, 0xa6, 0x44],
    [0x5e, 0x95, 0x05, 0x2c, 0x77, 0xb1, 0x3d, 0xb3, 0x9f, 0x1c, 0x71, 0x9f, 0xf5, 0x97, 0xb6, 0x88],
    [0xa7, 0x3a, 0x23, 0xd7, 0x91, 0x2c, 0x3a, 0xc0, 0x6b, 0x6b, 0x83, 0x24, 0x15, 0x3e, 0x3b, 0x2b],
    [0x4c, 0x63, 0xb3, 0x61, 0xbe, 0x77, 0x26, 0x75, 0x73, 0xc5, 0xf2, 0xa8, 0x84, 0x77, 0xa2, 0x59],
    [0x71, 0x77, 0x81, 0x51, 0xa9, 0x6b, 0x1c, 0x8c, 0x30, 0x33, 0xd0, 0xa4, 0x3c, 0x73, 0x78, 0x73],
    [0x6a, 0x2c, 0xaf, 0x73, 0x14, 0x3e, 0x3c, 0xc3, 0x48, 0xfa, 0x23, 0x9f, 0x74, 0xa3, 0xdd, 0xd5],
    [0x1c, 0xf1, 0x0a, 0xcf, 0xd7, 0x87, 0x35, 0xf1, 0x13, 0x65, 0x76, 0xc9, 0x77, 0x18, 0xd7, 0x82],
    [0x26, 0x35, 0xb2, 0xbd, 0xb1, 0x59, 0xca, 0x27, 0x01, 0x49, 0x34, 0x89, 0xf4, 0xfc, 0x8b, 0xa2],
    [0x7a, 0x5c, 0x89, 0x1a, 0xbf, 0x9d, 0x73, 0x31, 0x6c, 0x75, 0x83, 0x24, 0x89, 0x56, 0xbf, 0xfc],
    [0xbb, 0x79, 0x0c, 0x35, 0x19, 0xb0, 0x10, 0x01, 0x88, 0x87, 0xfc, 0x89, 0x1d, 0x98, 0xb3, 0x3a],
    [0xa6, 0x25, 0x82, 0xf0, 0xd9, 0xcd, 0x79, 0x06, 0x26, 0xaf, 0xe1, 0x83, 0x26, 0x98, 0x34, 0xc7],
    [0x42, 0x58, 0x94, 0x97, 0x15, 0x5c, 0x55, 0x45, 0x70, 0x6c, 0x0e, 0x39, 0x7b, 0x25, 0x90, 0x9b],
    [0x18, 0xec, 0x3c, 0x73, 0x4b, 0x82, 0x4a, 0x60, 0x95, 0xc2, 0xb0, 0x84, 0x3a, 0x0a, 0x16, 0x5a],
    [0x88, 0x72, 0x9d, 0xfc, 0x1b, 0xc0, 0x31, 0x97, 0x97, 0x94, 0x6b, 0xa4, 0xe3, 0xd8, 0x5e, 0x3d],
    [0x20, 0xb1, 0xe0, 0xcb, 0x1e, 0xab, 0x05, 0x47, 0xea, 0x30, 0xc4, 0x10, 0x56, 0x83, 0x5d, 0x3c],
    [0x78, 0xa7, 0x48, 0x7f, 0x6c, 0xb7, 0x74, 0xb9, 0xd6, 0x8f, 0x7e, 0x61, 0x3f, 0x56, 0x68, 0x71],
    [0x7b, 0xf8, 0x14, 0x98, 0x61, 0x7f, 0xcb, 0xc7, 0x30, 0xf9, 0x33, 0x77, 0x65, 0x6c, 0x9a, 0x60],
    [0x33, 0x34, 0x7a, 0x4a, 0xc0, 0x74, 0x93, 0x74, 0xba, 0x88, 0x07, 0xe2, 0x44, 0x07, 0x58, 0x78],
    [0x8c, 0xf7, 0x05, 0x6f, 0x94, 0x80, 0x93, 0x65, 0x24, 0x60, 0x87, 0x04, 0x28, 0x14, 0x99, 0xa7],
    [0xb0, 0x4a, 0x46, 0xfb, 0x59, 0x5c, 0x7b, 0xd2, 0x74, 0x56, 0x8b, 0x2c, 0x70, 0x07, 0x44, 0x20],
    [0x59, 0xbf, 0xf1, 0x85, 0x17, 0x95, 0x73, 0x95, 0x68, 0x33, 0x4b, 0x2d, 0xd3, 0x51, 0x70, 0x92],
    [0x63, 0x2d, 0x83, 0x99, 0x61, 0xf7, 0xa2, 0xb2, 0x3b, 0x33, 0xcc, 0x38, 0x31, 0x21, 0x7a, 0xb6],
    [0xde, 0xd0, 0xa4, 0x13, 0x11, 0x8f, 0x36, 0x9b, 0x85, 0x95, 0x07, 0xad, 0x1e, 0xea, 0x01, 0x9d],
    [0x0c, 0x82, 0xb1, 0x34, 0x11, 0x46, 0xb5, 0x8d, 0xa5, 0x21, 0x53, 0x5e, 0x55, 0x90, 0x4a, 0xc7],
    [0x14, 0x5b, 0xdc, 0x71, 0x74, 0xc8, 0x2e, 0x5b, 0xc8, 0x77, 0xda, 0xfa, 0x99, 0x30, 0x49, 0xce],
    [0xb9, 0xd3, 0xac, 0x2a, 0x81, 0x95, 0x5c, 0x55, 0x08, 0xce, 0xdc, 0x13, 0x31, 0xa2, 0x8b, 0xce],
    [0x28, 0x27, 0xd1, 0x27, 0xa0, 0x10, 0x9a, 0x85, 0x12, 0xfb, 0x78, 0xbb, 0xac, 0x2c, 0xfe, 0xb3],
    [0x1a, 0x99, 0x7a, 0x09, 0x1a, 0xf6, 0x04, 0x14, 0xe6, 0x37, 0x59, 0x7a, 0x38, 0x24, 0x68, 0x42],
    [0x13, 0x58, 0x83, 0x86, 0x05, 0x5e, 0x64, 0xa5, 0x15, 0xda, 0x5a, 0x5c, 0x67, 0x0a, 0x81, 0xac],
    [0x97, 0x2b, 0x2f, 0x6c, 0xc6, 0xe8, 0x2a, 0xbf, 0xf1, 0x15, 0x0b, 0xf5, 0x90, 0x1f, 0xb0, 0xf0],
    [0x18, 0x6f, 0x4a, 0xb7, 0x6e, 0xe2, 0x2a, 0x36, 0x38, 0xa0, 0x01, 0x8c, 0x8d, 0xfa, 0x04, 0x77],
    [0x73, 0x57, 0xcd, 0xc5, 0xc6, 0x67, 0xf0, 0xf8, 0x1e, 0x1b, 0x6a, 0x83, 0x3e, 0x67, 0x52, 0x9c],
    [0x71, 0x85, 0x4b, 0xb3, 0x2d, 0x20, 0x6b, 0x39, 0xab, 0x32, 0x47, 0xdb, 0x61, 0xac, 0x28, 0x74],
    [0x34, 0x4d, 0x82, 0xa8, 0xb8, 0x18, 0x17, 0x8c, 0x85, 0x89, 0xe5, 0x41, 0x9d, 0x55, 0x84, 0x14],
    [0xf3, 0xfc, 0x53, 0xb7, 0x28, 0x23, 0x35, 0x7b, 0x0b, 0x50, 0x13, 0x8d, 0x4c, 0x80, 0x86, 0x4d],
    [0xb3, 0x68, 0x59, 0x44, 0x73, 0x27, 0x93, 0x46, 0x7f, 0x59, 0x89, 0xf2, 0x83, 0x58, 0x91, 0x78],
    [0x99, 0x4a, 0xa6, 0x3b, 0x01, 0xa6, 0x8d, 0x2a, 0xc8, 0xca, 0xd2, 0xf3, 0xb3, 0xb6, 0x2c, 0x6f],
    [0x5a, 0xa7, 0xad, 0x4b, 0xc2, 0xca, 0xba, 0xf3, 0x06, 0xdc, 0x37, 0xcf, 0x46, 0x42, 0x88, 0x55],
    [0xf2, 0x3e, 0x69, 0x88, 0xbd, 0x2b, 0x21, 0x34, 0x9b, 0xc1, 0x22, 0x3a, 0x81, 0x9b, 0x54, 0x47],
    [0x3f, 0x39, 0x7c, 0x60, 0xf6, 0xd4, 0x77, 0x7d, 0xd1, 0x77, 0x5e, 0x36, 0x85, 0xea, 0xd3, 0x4b],
    [0x9a, 0x16, 0x2c, 0x06, 0x25, 0xe8, 0x76, 0xdd, 0x24, 0x3d, 0xeb, 0xe6, 0xb4, 0xd6, 0xe1, 0xa2],
    [0x82, 0x9a, 0xbd, 0xf7, 0x0d, 0x12, 0x0c, 0x02, 0xc3, 0x4c, 0xe8, 0x76, 0xbe, 0xc1, 0x7a, 0x72],
    [0x43, 0x17, 0x82, 0x6d, 0x17, 0xb0, 0xb6, 0x2b, 0x5f, 0xd1, 0x88, 0xab, 0x78, 0x9f, 0x3e, 0x51],
    [0x17, 0x24, 0x28, 0x14, 0x6a, 0x05, 0x97, 0x8d, 0x22, 0xa9, 0x86, 0x42, 0xc3, 0xae, 0x40, 0x03],
    [0x57, 0x1a, 0x76, 0x16, 0x83, 0x92, 0xf7, 0x2f, 0xdf, 0xb4, 0x15, 0x51, 0x0f, 0x11, 0x25, 0xc8],
    [0xbf, 0x5f, 0x54, 0x74, 0xa2, 0x72, 0x77, 0xb7, 0x11, 0x47, 0xc9, 0xeb, 0xa7, 0x1c, 0xab, 0x9a]]"

definition KAT_DECAP_REJECT_C :: bytes where
  "KAT_DECAP_REJECT_C = concat [
    [0xc4, 0xff, 0x03, 0x34, 0xee, 0x9e, 0x01, 0xb0, 0x40, 0x14, 0xca, 0x57, 0xfd, 0x3c, 0x1f, 0x02],
    [0xf6, 0xb4, 0xfa, 0x91, 0x49, 0x08, 0x64, 0xfe, 0x7b, 0xe3, 0xf3, 0x60, 0x1a, 0x0b, 0xa8, 0x77],
    [0x91, 0xc7, 0x3a, 0xc5, 0xa5, 0x40, 0x97, 0xfb, 0xf4, 0xc2, 0x1a, 0x8c, 0x50, 0x51, 0xa5, 0xea],
    [0x8a, 0x32, 0x15, 0x0a, 0xc7, 0xf4, 0xdd, 0xa5, 0x92, 0x80, 0xaf, 0xcf, 0x93, 0x8b, 0x6b, 0x5e],
    [0x7a, 0x02, 0x32, 0x35, 0xc2, 0xaa, 0x33, 0x0c, 0xdc, 0x0a, 0x97, 0x6c, 0x53, 0x87, 0xbf, 0x1e],
    [0x92, 0xae, 0x9c, 0x9d, 0x19, 0x54, 0x36, 0x90, 0x4c, 0xc9, 0xa4, 0xf9, 0xd7, 0xf2, 0xfc, 0x90],
    [0x31, 0x79, 0x57, 0xb9, 0x74, 0x4a, 0x6f, 0x42, 0x78, 0xbc, 0x48, 0x09, 0x4b, 0xfe, 0x26, 0xc9],
    [0xaa, 0x09, 0xca, 0xfe, 0x0d, 0x7d, 0x8e, 0x1f, 0xc0, 0x44, 0x16, 0xad, 0x27, 0xc3, 0x7e, 0x95],
    [0x0d, 0xbc, 0xfb, 0x69, 0x6a, 0x6f, 0x9b, 0xb9, 0x63, 0x25, 0xf9, 0x9d, 0x71, 0x43, 0x77, 0x0e],
    [0x9f, 0x45, 0xc1, 0xe0, 0x11, 0xbf, 0x6b, 0x9e, 0x55, 0x0f, 0x28, 0xe8, 0xdc, 0x15, 0x1d, 0x56],
    [0x1a, 0x0b, 0x30, 0x48, 0xb1, 0xfc, 0xc0, 0x7b, 0x2e, 0xbe, 0x07, 0x90, 0xa5, 0x89, 0xa1, 0x6c],
    [0x7b, 0xc7, 0x5f, 0xff, 0x4c, 0xdc, 0x90, 0xdf, 0xb5, 0x71, 0xbc, 0xd0, 0xdc, 0xe0, 0x0d, 0xca],
    [0xe5, 0x49, 0x5b, 0x54, 0xf6, 0x68, 0x81, 0x54, 0x8a, 0x0f, 0xdb, 0xd1, 0xb9, 0x0e, 0x52, 0x9a],
    [0xd7, 0xfa, 0x29, 0x21, 0x87, 0x40, 0x88, 0xc9, 0x6a, 0xf8, 0xfb, 0x99, 0xc7, 0xf6, 0x21, 0x56],
    [0x0e, 0xcc, 0x66, 0x91, 0xc6, 0x9a, 0x8d, 0x02, 0x32, 0x2d, 0x67, 0x1f, 0x67, 0xd6, 0x7c, 0x66],
    [0x3b, 0xba, 0x9b, 0x0b, 0xa4, 0x51, 0x79, 0x8e, 0xef, 0xb2, 0xc1, 0x48, 0x32, 0x49, 0x61, 0xc1],
    [0x45, 0x73, 0x73, 0x25, 0x73, 0x1f, 0xd6, 0xb8, 0x38, 0x31, 0x37, 0x40, 0x04, 0x09, 0x47, 0x87],
    [0x37, 0xe7, 0x92, 0xf0, 0x72, 0xa0, 0xed, 0x2e, 0x7f, 0x43, 0x76, 0x8c, 0xd1, 0x32, 0xec, 0xcd],
    [0xbb, 0xb3, 0x93, 0xac, 0x43, 0x59, 0x34, 0xd1, 0xfb, 0x8a, 0xdc, 0x17, 0x55, 0x1d, 0x3c, 0x2a],
    [0x1d, 0x9d, 0xb4, 0xc2, 0x05, 0x88, 0x8f, 0x58, 0xb6, 0x30, 0xc8, 0x0f, 0x2c, 0x98, 0xed, 0xa0],
    [0x0b, 0x7e, 0x6f, 0x2e, 0x3e, 0x0c, 0x6d, 0x41, 0x24, 0x86, 0x69, 0x64, 0xc9, 0x8b, 0xd0, 0x86],
    [0xda, 0xa1, 0x26, 0x21, 0x5a, 0x98, 0x29, 0x39, 0x57, 0xc6, 0xad, 0x68, 0x72, 0x4b, 0x2b, 0xd0],
    [0xe4, 0xcf, 0x55, 0xa4, 0x5f, 0xec, 0x8c, 0x03, 0x62, 0x2b, 0x3b, 0x35, 0x8d, 0x3f, 0xb4, 0x5b],
    [0x61, 0x9d, 0x32, 0x86, 0xe5, 0xd7, 0xbc, 0x42, 0x9d, 0x9e, 0x06, 0x34, 0x2b, 0x38, 0x48, 0x57],
    [0x67, 0xbc, 0xa1, 0x89, 0x86, 0x91, 0x20, 0x8b, 0x47, 0x86, 0xa3, 0x25, 0x8b, 0xe2, 0xe9, 0xa6],
    [0xbb, 0x5a, 0xb2, 0xec, 0x7b, 0x8c, 0xf3, 0x75, 0x2b, 0xdc, 0x0e, 0x4e, 0x67, 0x67, 0xf5, 0xe4],
    [0x6d, 0x72, 0x21, 0xbc, 0x8e, 0x8b, 0xd6, 0x9f, 0x36, 0xf1, 0xb1, 0x4c, 0x6f, 0x4b, 0x15, 0x27],
    [0x2b, 0x78, 0x0c, 0x18, 0xfa, 0x11, 0x8a, 0xac, 0x52, 0xa3, 0x90, 0xa2, 0x8e, 0x88, 0x62, 0x77],
    [0x37, 0x89, 0x11, 0x33, 0x71, 0xcd, 0xce, 0xfd, 0xc4, 0xb4, 0x55, 0x47, 0xbe, 0x5f, 0x26, 0xa9],
    [0xbc, 0x31, 0x51, 0xfc, 0xb8, 0x7f, 0xd9, 0xc5, 0x0a, 0x99, 0xcf, 0x43, 0x38, 0x56, 0x20, 0x23],
    [0xa1, 0x5b, 0x13, 0x86, 0x0a, 0xff, 0x9d, 0xaa, 0xc0, 0x5a, 0x24, 0x09, 0x83, 0x4c, 0x0b, 0x68],
    [0xee, 0x3a, 0x63, 0x52, 0x61, 0x05, 0x35, 0x46, 0x40, 0x7e, 0x8c, 0xfa, 0x75, 0x04, 0x6f, 0x55],
    [0x97, 0x8a, 0xd9, 0xb2, 0xaf, 0xec, 0xc8, 0xa7, 0x9d, 0x35, 0xb8, 0x34, 0x9e, 0x0a, 0x33, 0xf9],
    [0x0f, 0x23, 0xad, 0x66, 0x48, 0x76, 0x1f, 0x40, 0x02, 0x28, 0xd8, 0x3f, 0xa2, 0x23, 0x66, 0xf0],
    [0xd2, 0x61, 0x38, 0x14, 0xb5, 0x05, 0xc2, 0x90, 0x69, 0xfa, 0x8f, 0x3c, 0xb0, 0xb6, 0x14, 0x3d],
    [0xe9, 0xba, 0xf4, 0xe9, 0xdf, 0xda, 0xf2, 0xb6, 0x06, 0xcc, 0x57, 0x7d, 0x06, 0xd2, 0xb3, 0x27],
    [0x94, 0xc4, 0x11, 0x99, 0xf0, 0x65, 0x17, 0xa4, 0x75, 0x31, 0x3f, 0xc9, 0xf9, 0xd4, 0x33, 0x09],
    [0x9f, 0xc7, 0xb3, 0x10, 0xc9, 0x9f, 0xba, 0xa1, 0x32, 0x08, 0x2b, 0x05, 0xc3, 0x32, 0xb0, 0x0c],
    [0xb3, 0x87, 0x1d, 0x2d, 0xcc, 0x60, 0xfa, 0x33, 0xf8, 0x95, 0x60, 0x74, 0xb8, 0x7a, 0x2c, 0x1e],
    [0x4e, 0xa6, 0x60, 0x96, 0x70, 0xf0, 0xe8, 0x1d, 0xfd, 0x75, 0xad, 0x8b, 0x68, 0xdd, 0xc9, 0x12],
    [0x17, 0x12, 0x79, 0x30, 0x65, 0x9c, 0x6a, 0x29, 0xe0, 0x7a, 0x9e, 0x51, 0x02, 0x90, 0x8e, 0x21],
    [0x8f, 0x10, 0x1d, 0x5f, 0xee, 0xc1, 0x1f, 0x9c, 0x3e, 0x75, 0x9e, 0x38, 0x1e, 0x74, 0x37, 0x9f],
    [0x64, 0x8c, 0x29, 0xf7, 0x03, 0x3b, 0xb5, 0x8a, 0xfc, 0xa6, 0x59, 0x0f, 0x0f, 0x84, 0xfe, 0xe5],
    [0x45, 0x10, 0xa7, 0x8e, 0xd1, 0x25, 0x28, 0xc9, 0x60, 0xa9, 0x3a, 0x69, 0x1f, 0xf1, 0x66, 0x7e],
    [0x31, 0x9d, 0x64, 0x1f, 0x97, 0xc1, 0x6c, 0xf1, 0xd4, 0x53, 0x99, 0xda, 0xa0, 0x3b, 0xd5, 0xea],
    [0x15, 0xc8, 0x06, 0xf1, 0x9d, 0x4e, 0x75, 0x9d, 0x64, 0x1f, 0xe1, 0x07, 0x14, 0x49, 0xcf, 0x4e],
    [0x13, 0xc7, 0x0d, 0x1c, 0x58, 0xd2, 0x26, 0x5d, 0x53, 0xeb, 0x07, 0xa5, 0xcb, 0xe0, 0x12, 0xcf],
    [0x9f, 0xd6, 0x76, 0x82, 0x21, 0xd2, 0x7e, 0x69, 0xd7, 0x27, 0xaf, 0x65, 0x7e, 0x21, 0x51, 0x59],
    [0x32, 0x07, 0x90, 0x9d, 0x1c, 0xa1, 0x1a, 0x8c, 0x96, 0xe2, 0xcc, 0xca, 0x09, 0x5c, 0x3b, 0xb8],
    [0x11, 0xc8, 0x7e, 0xbe, 0x14, 0xe9, 0x95, 0xff, 0xb7, 0xf7, 0x63, 0xb4, 0x7e, 0xd0, 0xee, 0xb6],
    [0x04, 0xa0, 0xcc, 0xcd, 0x74, 0xab, 0x0c, 0x29, 0xdf, 0xcf, 0xe3, 0xb4, 0x62, 0x0f, 0x5e, 0x8e],
    [0xb3, 0xff, 0xd7, 0x4a, 0xe9, 0xbc, 0x7a, 0x6b, 0x48, 0xae, 0x46, 0x51, 0xd4, 0x30, 0x87, 0x1d],
    [0x46, 0x51, 0xe6, 0x4c, 0x2b, 0x2f, 0xbe, 0x57, 0x01, 0xe2, 0xc6, 0x4e, 0x20, 0xf5, 0x27, 0x91],
    [0x57, 0xb5, 0x5e, 0x3e, 0x9d, 0x16, 0x6c, 0xaf, 0x03, 0xfb, 0xae, 0xf2, 0x47, 0x2e, 0x96, 0x0d],
    [0x1a, 0x01, 0x60, 0xa9, 0x2f, 0x42, 0xd1, 0x83, 0x4b, 0x5d, 0x49, 0x3e, 0x52, 0xe9, 0xd0, 0x89],
    [0x7d, 0xbf, 0xaa, 0x37, 0x32, 0x08, 0xea, 0xdc, 0x16, 0xfc, 0xff, 0x3c, 0xe8, 0xae, 0x40, 0x22],
    [0x6a, 0x46, 0x9a, 0xbc, 0x60, 0xb9, 0xa1, 0xb6, 0x72, 0x44, 0xc5, 0xae, 0xeb, 0xf1, 0xab, 0xae],
    [0xcf, 0xe9, 0xdd, 0x9f, 0x9c, 0x11, 0x83, 0xf1, 0x25, 0xd3, 0xb6, 0x17, 0x2a, 0xfb, 0x2c, 0x6c],
    [0xc2, 0x91, 0x25, 0xa9, 0xf8, 0xc3, 0xa8, 0xb3, 0x1f, 0xa8, 0x80, 0xfc, 0x44, 0x77, 0x19, 0xc5],
    [0xe5, 0x8c, 0x50, 0xc4, 0x19, 0x9e, 0x17, 0xef, 0x9a, 0x06, 0x1e, 0xab, 0x48, 0x3b, 0xbf, 0xe3],
    [0x70, 0xf2, 0x77, 0xb9, 0xca, 0x09, 0xb3, 0xe3, 0xe6, 0xff, 0x39, 0xe9, 0x7a, 0xe3, 0x92, 0xc0],
    [0xef, 0x0b, 0x62, 0x3f, 0x9b, 0xe0, 0x56, 0xdb, 0x4d, 0x21, 0xe7, 0x70, 0x4b, 0x51, 0x27, 0xd4],
    [0x2f, 0x7f, 0xea, 0x27, 0xfe, 0xa8, 0xf9, 0x18, 0x60, 0x44, 0xe4, 0x9d, 0x2c, 0x2d, 0x51, 0x75],
    [0x83, 0x29, 0xc8, 0xca, 0xb3, 0x5b, 0x00, 0xdf, 0x58, 0xc9, 0x1a, 0x5e, 0x2f, 0x6f, 0xc6, 0xfa],
    [0xaf, 0xcd, 0x20, 0x37, 0xba, 0x98, 0x20, 0x52, 0xf0, 0x2f, 0x20, 0x45, 0x08, 0xc9, 0xb2, 0xc7],
    [0xd6, 0xef, 0x53, 0x95, 0x53, 0x72, 0x01, 0x0f, 0xb3, 0x50, 0x5c, 0x8c, 0x8e, 0x27, 0x67, 0x7e],
    [0xf3, 0x7e, 0xf0, 0x7b, 0xd6, 0x19, 0x34, 0x2a, 0xa3, 0xfa, 0x6d, 0xe3, 0x1e, 0xb7, 0xe6, 0x08],
    [0x9e, 0xf5, 0xf0, 0xbf, 0x9c, 0x4a, 0xeb, 0x02, 0x4f, 0x91, 0x61, 0x89, 0x79, 0x06, 0xc6, 0x43]]"

definition KAT_DECAP_REJECT_K :: bytes where
  "KAT_DECAP_REJECT_K = concat [
    [0x2c, 0xfb, 0x69, 0x57, 0x10, 0xa6, 0xc4, 0x37, 0x7f, 0x46, 0xc2, 0x0c, 0x13, 0x48, 0x0a, 0xef],
    [0x7a, 0xc5, 0x60, 0x30, 0xd4, 0x7a, 0x0a, 0xb5, 0xaf, 0x07, 0xdd, 0xd6, 0x06, 0x2c, 0x28, 0xf4]]"

definition KAT_HKDF0_IKM :: bytes where
  "KAT_HKDF0_IKM = concat [
    [0x0b, 0x0b, 0x0b, 0x0b, 0x0b, 0x0b, 0x0b, 0x0b, 0x0b, 0x0b, 0x0b, 0x0b, 0x0b, 0x0b, 0x0b, 0x0b],
    [0x0b, 0x0b, 0x0b, 0x0b, 0x0b, 0x0b]]"

definition KAT_HKDF0_SALT :: bytes where
  "KAT_HKDF0_SALT = concat [
    [0x00, 0x01, 0x02, 0x03, 0x04, 0x05, 0x06, 0x07, 0x08, 0x09, 0x0a, 0x0b, 0x0c]]"

definition KAT_HKDF0_INFO :: bytes where
  "KAT_HKDF0_INFO = concat [
    [0xf0, 0xf1, 0xf2, 0xf3, 0xf4, 0xf5, 0xf6, 0xf7, 0xf8, 0xf9]]"

definition KAT_HKDF0_OKM :: bytes where
  "KAT_HKDF0_OKM = concat [
    [0x3c, 0xb2, 0x5f, 0x25, 0xfa, 0xac, 0xd5, 0x7a, 0x90, 0x43, 0x4f, 0x64, 0xd0, 0x36, 0x2f, 0x2a],
    [0x2d, 0x2d, 0x0a, 0x90, 0xcf, 0x1a, 0x5a, 0x4c, 0x5d, 0xb0, 0x2d, 0x56, 0xec, 0xc4, 0xc5, 0xbf],
    [0x34, 0x00, 0x72, 0x08, 0xd5, 0xb8, 0x87, 0x18, 0x58, 0x65]]"

definition KAT_HKDF1_IKM :: bytes where
  "KAT_HKDF1_IKM = concat [
    [0x00, 0x01, 0x02, 0x03, 0x04, 0x05, 0x06, 0x07, 0x08, 0x09, 0x0a, 0x0b, 0x0c, 0x0d, 0x0e, 0x0f],
    [0x10, 0x11, 0x12, 0x13, 0x14, 0x15, 0x16, 0x17, 0x18, 0x19, 0x1a, 0x1b, 0x1c, 0x1d, 0x1e, 0x1f],
    [0x20, 0x21, 0x22, 0x23, 0x24, 0x25, 0x26, 0x27, 0x28, 0x29, 0x2a, 0x2b, 0x2c, 0x2d, 0x2e, 0x2f],
    [0x30, 0x31, 0x32, 0x33, 0x34, 0x35, 0x36, 0x37, 0x38, 0x39, 0x3a, 0x3b, 0x3c, 0x3d, 0x3e, 0x3f],
    [0x40, 0x41, 0x42, 0x43, 0x44, 0x45, 0x46, 0x47, 0x48, 0x49, 0x4a, 0x4b, 0x4c, 0x4d, 0x4e, 0x4f]]"

definition KAT_HKDF1_SALT :: bytes where
  "KAT_HKDF1_SALT = concat [
    [0x60, 0x61, 0x62, 0x63, 0x64, 0x65, 0x66, 0x67, 0x68, 0x69, 0x6a, 0x6b, 0x6c, 0x6d, 0x6e, 0x6f],
    [0x70, 0x71, 0x72, 0x73, 0x74, 0x75, 0x76, 0x77, 0x78, 0x79, 0x7a, 0x7b, 0x7c, 0x7d, 0x7e, 0x7f],
    [0x80, 0x81, 0x82, 0x83, 0x84, 0x85, 0x86, 0x87, 0x88, 0x89, 0x8a, 0x8b, 0x8c, 0x8d, 0x8e, 0x8f],
    [0x90, 0x91, 0x92, 0x93, 0x94, 0x95, 0x96, 0x97, 0x98, 0x99, 0x9a, 0x9b, 0x9c, 0x9d, 0x9e, 0x9f],
    [0xa0, 0xa1, 0xa2, 0xa3, 0xa4, 0xa5, 0xa6, 0xa7, 0xa8, 0xa9, 0xaa, 0xab, 0xac, 0xad, 0xae, 0xaf]]"

definition KAT_HKDF1_INFO :: bytes where
  "KAT_HKDF1_INFO = concat [
    [0xb0, 0xb1, 0xb2, 0xb3, 0xb4, 0xb5, 0xb6, 0xb7, 0xb8, 0xb9, 0xba, 0xbb, 0xbc, 0xbd, 0xbe, 0xbf],
    [0xc0, 0xc1, 0xc2, 0xc3, 0xc4, 0xc5, 0xc6, 0xc7, 0xc8, 0xc9, 0xca, 0xcb, 0xcc, 0xcd, 0xce, 0xcf],
    [0xd0, 0xd1, 0xd2, 0xd3, 0xd4, 0xd5, 0xd6, 0xd7, 0xd8, 0xd9, 0xda, 0xdb, 0xdc, 0xdd, 0xde, 0xdf],
    [0xe0, 0xe1, 0xe2, 0xe3, 0xe4, 0xe5, 0xe6, 0xe7, 0xe8, 0xe9, 0xea, 0xeb, 0xec, 0xed, 0xee, 0xef],
    [0xf0, 0xf1, 0xf2, 0xf3, 0xf4, 0xf5, 0xf6, 0xf7, 0xf8, 0xf9, 0xfa, 0xfb, 0xfc, 0xfd, 0xfe, 0xff]]"

definition KAT_HKDF1_OKM :: bytes where
  "KAT_HKDF1_OKM = concat [
    [0xb1, 0x1e, 0x39, 0x8d, 0xc8, 0x03, 0x27, 0xa1, 0xc8, 0xe7, 0xf7, 0x8c, 0x59, 0x6a, 0x49, 0x34],
    [0x4f, 0x01, 0x2e, 0xda, 0x2d, 0x4e, 0xfa, 0xd8, 0xa0, 0x50, 0xcc, 0x4c, 0x19, 0xaf, 0xa9, 0x7c],
    [0x59, 0x04, 0x5a, 0x99, 0xca, 0xc7, 0x82, 0x72, 0x71, 0xcb, 0x41, 0xc6, 0x5e, 0x59, 0x0e, 0x09],
    [0xda, 0x32, 0x75, 0x60, 0x0c, 0x2f, 0x09, 0xb8, 0x36, 0x77, 0x93, 0xa9, 0xac, 0xa3, 0xdb, 0x71],
    [0xcc, 0x30, 0xc5, 0x81, 0x79, 0xec, 0x3e, 0x87, 0xc1, 0x4c, 0x01, 0xd5, 0xc1, 0xf3, 0x43, 0x4f]]"

definition KAT_HKDF2_IKM :: bytes where
  "KAT_HKDF2_IKM = concat [
    [0x0b, 0x0b, 0x0b, 0x0b, 0x0b, 0x0b, 0x0b, 0x0b, 0x0b, 0x0b, 0x0b, 0x0b, 0x0b, 0x0b, 0x0b, 0x0b],
    [0x0b, 0x0b, 0x0b, 0x0b, 0x0b, 0x0b]]"

definition KAT_HKDF2_SALT :: bytes where
  "KAT_HKDF2_SALT = concat [
    [0]]"

definition KAT_HKDF2_INFO :: bytes where
  "KAT_HKDF2_INFO = concat [
    [0]]"

definition KAT_HKDF2_OKM :: bytes where
  "KAT_HKDF2_OKM = concat [
    [0x8d, 0xa4, 0xe7, 0x75, 0xa5, 0x63, 0xc1, 0x8f, 0x71, 0x5f, 0x80, 0x2a, 0x06, 0x3c, 0x5a, 0x31],
    [0xb8, 0xa1, 0x1f, 0x5c, 0x5e, 0xe1, 0x87, 0x9e, 0xc3, 0x45, 0x4e, 0x5f, 0x3c, 0x73, 0x8d, 0x2d],
    [0x9d, 0x20, 0x13, 0x95, 0xfa, 0xa4, 0xb6, 0x1a, 0x96, 0xc8]]"

definition KAT_RFC8439_KEY :: bytes where
  "KAT_RFC8439_KEY = concat [
    [0x00, 0x01, 0x02, 0x03, 0x04, 0x05, 0x06, 0x07, 0x08, 0x09, 0x0a, 0x0b, 0x0c, 0x0d, 0x0e, 0x0f],
    [0x10, 0x11, 0x12, 0x13, 0x14, 0x15, 0x16, 0x17, 0x18, 0x19, 0x1a, 0x1b, 0x1c, 0x1d, 0x1e, 0x1f]]"

definition KAT_RFC8439_NONCE :: bytes where
  "KAT_RFC8439_NONCE = concat [
    [0x00, 0x00, 0x00, 0x00, 0x00, 0x00, 0x00, 0x4a, 0x00, 0x00, 0x00, 0x00]]"

definition KAT_RFC8439_PT :: bytes where
  "KAT_RFC8439_PT = concat [
    [0x4c, 0x61, 0x64, 0x69, 0x65, 0x73, 0x20, 0x61, 0x6e, 0x64, 0x20, 0x47, 0x65, 0x6e, 0x74, 0x6c],
    [0x65, 0x6d, 0x65, 0x6e, 0x20, 0x6f, 0x66, 0x20, 0x74, 0x68, 0x65, 0x20, 0x63, 0x6c, 0x61, 0x73],
    [0x73, 0x20, 0x6f, 0x66, 0x20, 0x27, 0x39, 0x39, 0x3a, 0x20, 0x49, 0x66, 0x20, 0x49, 0x20, 0x63],
    [0x6f, 0x75, 0x6c, 0x64, 0x20, 0x6f, 0x66, 0x66, 0x65, 0x72, 0x20, 0x79, 0x6f, 0x75, 0x20, 0x6f],
    [0x6e, 0x6c, 0x79, 0x20, 0x6f, 0x6e, 0x65, 0x20, 0x74, 0x69, 0x70, 0x20, 0x66, 0x6f, 0x72, 0x20],
    [0x74, 0x68, 0x65, 0x20, 0x66, 0x75, 0x74, 0x75, 0x72, 0x65, 0x2c, 0x20, 0x73, 0x75, 0x6e, 0x73],
    [0x63, 0x72, 0x65, 0x65, 0x6e, 0x20, 0x77, 0x6f, 0x75, 0x6c, 0x64, 0x20, 0x62, 0x65, 0x20, 0x69],
    [0x74, 0x2e]]"

definition KAT_RFC8439_CT :: bytes where
  "KAT_RFC8439_CT = concat [
    [0x6e, 0x2e, 0x35, 0x9a, 0x25, 0x68, 0xf9, 0x80, 0x41, 0xba, 0x07, 0x28, 0xdd, 0x0d, 0x69, 0x81],
    [0xe9, 0x7e, 0x7a, 0xec, 0x1d, 0x43, 0x60, 0xc2, 0x0a, 0x27, 0xaf, 0xcc, 0xfd, 0x9f, 0xae, 0x0b],
    [0xf9, 0x1b, 0x65, 0xc5, 0x52, 0x47, 0x33, 0xab, 0x8f, 0x59, 0x3d, 0xab, 0xcd, 0x62, 0xb3, 0x57],
    [0x16, 0x39, 0xd6, 0x24, 0xe6, 0x51, 0x52, 0xab, 0x8f, 0x53, 0x0c, 0x35, 0x9f, 0x08, 0x61, 0xd8],
    [0x07, 0xca, 0x0d, 0xbf, 0x50, 0x0d, 0x6a, 0x61, 0x56, 0xa3, 0x8e, 0x08, 0x8a, 0x22, 0xb6, 0x5e],
    [0x52, 0xbc, 0x51, 0x4d, 0x16, 0xcc, 0xf8, 0x06, 0x81, 0x8c, 0xe9, 0x1a, 0xb7, 0x79, 0x37, 0x36],
    [0x5a, 0xf9, 0x0b, 0xbf, 0x74, 0xa3, 0x5b, 0xe6, 0xb4, 0x0b, 0x8e, 0xed, 0xf2, 0x78, 0x5e, 0x42],
    [0x87, 0x4d]]"

definition KAT_WY2_KEY :: bytes where
  "KAT_WY2_KEY = concat [
    [0x80, 0xba, 0x31, 0x92, 0xc8, 0x03, 0xce, 0x96, 0x5e, 0xa3, 0x71, 0xd5, 0xff, 0x07, 0x3c, 0xf0],
    [0xf4, 0x3b, 0x6a, 0x2a, 0xb5, 0x76, 0xb2, 0x08, 0x42, 0x6e, 0x11, 0x40, 0x9c, 0x09, 0xb9, 0xb0]]"

definition KAT_WY2_IV :: bytes where
  "KAT_WY2_IV = concat [
    [0x4d, 0xa5, 0xbf, 0x8d, 0xfd, 0x58, 0x52, 0xc1, 0xea, 0x12, 0x37, 0x9d]]"

definition KAT_WY2_MSG :: bytes where
  "KAT_WY2_MSG = concat [
    [0]]"

definition KAT_WY2_CT :: bytes where
  "KAT_WY2_CT = concat [
    [0]]"

definition KAT_WY2_TAG :: bytes where
  "KAT_WY2_TAG = concat [
    [0x76, 0xac, 0xb3, 0x42, 0xcf, 0x31, 0x66, 0xa5, 0xb6, 0x3c, 0x0c, 0x0e, 0xa1, 0x38, 0x3c, 0x8d]]"

definition KAT_WY4_KEY :: bytes where
  "KAT_WY4_KEY = concat [
    [0xcc, 0x56, 0xb6, 0x80, 0x55, 0x2e, 0xb7, 0x50, 0x08, 0xf5, 0x48, 0x4b, 0x4c, 0xb8, 0x03, 0xfa],
    [0x50, 0x63, 0xeb, 0xd6, 0xea, 0xb9, 0x1f, 0x6a, 0xb6, 0xae, 0xf4, 0x91, 0x6a, 0x76, 0x62, 0x73]]"

definition KAT_WY4_IV :: bytes where
  "KAT_WY4_IV = concat [
    [0x99, 0xe2, 0x3e, 0xc4, 0x89, 0x85, 0xbc, 0xcd, 0xee, 0xab, 0x60, 0xf1]]"

definition KAT_WY4_MSG :: bytes where
  "KAT_WY4_MSG = concat [
    [0x2a]]"

definition KAT_WY4_CT :: bytes where
  "KAT_WY4_CT = concat [
    [0x3a]]"

definition KAT_WY4_TAG :: bytes where
  "KAT_WY4_TAG = concat [
    [0xca, 0xc2, 0x7d, 0xec, 0x09, 0x68, 0x80, 0x1e, 0x9f, 0x6e, 0xde, 0xd6, 0x9d, 0x80, 0x75, 0x22]]"

definition KAT_WY32_KEY :: bytes where
  "KAT_WY32_KEY = concat [
    [0x67, 0x11, 0x96, 0x27, 0xbd, 0x98, 0x8e, 0xda, 0x90, 0x62, 0x19, 0xe0, 0x8c, 0x0d, 0x0d, 0x77],
    [0x9a, 0x07, 0xd2, 0x08, 0xce, 0x8a, 0x4f, 0xe0, 0x70, 0x9a, 0xf7, 0x55, 0xee, 0xec, 0x6d, 0xcb]]"

definition KAT_WY32_IV :: bytes where
  "KAT_WY32_IV = concat [
    [0x68, 0xab, 0x7f, 0xdb, 0xf6, 0x19, 0x01, 0xda, 0xd4, 0x61, 0xd2, 0x3c]]"

definition KAT_WY32_MSG :: bytes where
  "KAT_WY32_MSG = concat [
    [0x51, 0xf8, 0xc1, 0xf7, 0x31, 0xea, 0x14, 0xac, 0xdb, 0x21, 0x0a, 0x6d, 0x97, 0x3e, 0x07]]"

definition KAT_WY32_CT :: bytes where
  "KAT_WY32_CT = concat [
    [0x0b, 0x29, 0x63, 0x8e, 0x1f, 0xbd, 0xd6, 0xdf, 0x53, 0x97, 0x0b, 0xe2, 0x21, 0x00, 0x42]]"

definition KAT_WY32_TAG :: bytes where
  "KAT_WY32_TAG = concat [
    [0x2a, 0x91, 0x34, 0x08, 0x7d, 0x67, 0xa4, 0x6e, 0x79, 0x17, 0x8d, 0x0a, 0x93, 0xf5, 0xe1, 0xd2]]"

definition KAT_WY62_KEY :: bytes where
  "KAT_WY62_KEY = concat [
    [0x09, 0xe8, 0x22, 0x12, 0x3a, 0xdb, 0xb1, 0xed, 0x89, 0xb7, 0x9a, 0x58, 0x61, 0x9c, 0x64, 0x85],
    [0x39, 0x92, 0xf8, 0x37, 0x1d, 0x46, 0x33, 0x87, 0x12, 0xf6, 0xc9, 0x1a, 0xb1, 0x1a, 0x68, 0xbb]]"

definition KAT_WY62_IV :: bytes where
  "KAT_WY62_IV = concat [
    [0xa7, 0x97, 0x20, 0x5a, 0x6c, 0xac, 0xdd, 0x7e, 0x47, 0xa4, 0x78, 0x9d]]"

definition KAT_WY62_MSG :: bytes where
  "KAT_WY62_MSG = concat [
    [0x80, 0xb7, 0x1b, 0xbe, 0x83, 0x36, 0x29, 0x84, 0x1b, 0xd3, 0xae, 0xae, 0xb9, 0xdb, 0x61, 0x23],
    [0xe5, 0x1d, 0x36, 0x7b, 0x43, 0x6f, 0xe9, 0xd2, 0xd3, 0x45, 0x4b, 0x62, 0xcf, 0xad]]"

definition KAT_WY62_CT :: bytes where
  "KAT_WY62_CT = concat [
    [0x83, 0xf5, 0xc7, 0x73, 0x96, 0xca, 0xbd, 0x28, 0xdf, 0xcc, 0x00, 0x2c, 0xba, 0x07, 0x56, 0xd4],
    [0xea, 0x54, 0x55, 0xe0, 0x26, 0x1d, 0x84, 0x7d, 0x57, 0x08, 0xaa, 0xc2, 0x1e, 0x8d]]"

definition KAT_WY62_TAG :: bytes where
  "KAT_WY62_TAG = concat [
    [0x70, 0x5a, 0x05, 0x82, 0x0a, 0x21, 0xf3, 0x81, 0xd2, 0x44, 0xd4, 0x0e, 0x58, 0xd2, 0xf1, 0x6b]]"

definition KAT_WY90_KEY :: bytes where
  "KAT_WY90_KEY = concat [
    [0xaf, 0xd5, 0x79, 0xaa, 0x1a, 0xcc, 0xc6, 0x82, 0xac, 0xa5, 0x4e, 0x14, 0x2a, 0xa6, 0x9d, 0xf0],
    [0x98, 0x02, 0xf0, 0x20, 0xb2, 0x4a, 0x42, 0xc4, 0x1d, 0xb5, 0x8f, 0x69, 0x97, 0xed, 0xc6, 0x78]]"

definition KAT_WY90_IV :: bytes where
  "KAT_WY90_IV = concat [
    [0x9f, 0x79, 0xd1, 0xda, 0x95, 0x74, 0x91, 0x06, 0x9d, 0x77, 0x44, 0x96]]"

definition KAT_WY90_MSG :: bytes where
  "KAT_WY90_MSG = concat [
    [0xba, 0xfc, 0x6e, 0x86, 0x5c, 0x48, 0xbd, 0x34, 0xb7, 0xf9, 0x32, 0x9e, 0x35, 0xcf, 0xb2, 0x86],
    [0xcd, 0x4d, 0xc3, 0x1f, 0x83, 0x16, 0x17, 0x12, 0x18, 0xbf, 0x04, 0x71, 0xdf, 0xfd, 0x35, 0xa3],
    [0x30, 0xa1, 0x81, 0x69, 0x7c, 0xa5, 0x17, 0x86, 0x88, 0xdd, 0x87, 0xef, 0xe5, 0x27, 0x92, 0x4f],
    [0x90, 0xd1, 0xc7, 0x8b, 0xa4, 0x0d, 0xe7, 0x09, 0x52, 0xff, 0x44, 0xc2, 0x6e, 0xfe, 0x21, 0x59],
    [0xe5, 0x93, 0x58, 0xf3, 0x93, 0x15, 0x73, 0xdf, 0x93, 0x73, 0xa7, 0x3b, 0x91, 0xba, 0x95, 0x92],
    [0xe1, 0x21, 0x40, 0xcc, 0x00, 0x9f, 0xee, 0xdd, 0x25, 0x95, 0xe5, 0xb6, 0xf0, 0x66, 0xb5, 0xef],
    [0x6d, 0xe9, 0x9d, 0x4c, 0x31, 0x55, 0x2c, 0xec, 0xb0, 0x61, 0x4f, 0x1d, 0xce, 0x99, 0x0e, 0x46],
    [0xe7, 0x69, 0x43, 0x82, 0xf3, 0xcf, 0x3c, 0xcf, 0xcd, 0x1e, 0xa6, 0x2e, 0x56, 0x3e, 0x5f, 0x0d],
    [0xc3, 0x6c, 0xb5, 0xa8, 0x4e, 0x0c, 0x0b, 0x3f, 0x1f, 0x8f, 0x3f, 0xa9, 0x10, 0x0f, 0x48, 0x71],
    [0x95, 0xff, 0x2e, 0x31, 0x69, 0xad, 0x08, 0x13, 0x6a, 0xa8, 0xad, 0x56, 0x65, 0x48, 0xc9, 0x83],
    [0x6a, 0xa0, 0x0d, 0xba, 0xc7, 0x47, 0x16, 0xc2, 0x6e, 0x83, 0x8c, 0x14, 0x86, 0xa0, 0x08, 0x4d],
    [0x3d, 0xfd, 0x69, 0x25, 0x85, 0xe2, 0xe5, 0xae, 0x7c, 0x75, 0xca, 0xf0, 0xe7, 0xaf, 0x60, 0x21],
    [0x9f, 0x96, 0x11, 0x6a, 0xe9, 0x63, 0xb4, 0xa5, 0x89, 0x9c, 0xb3, 0x0a, 0x12, 0x0d, 0xaa, 0xca],
    [0x78, 0x33, 0x77, 0x66, 0x92, 0xc2, 0x5a, 0xd7, 0xc1, 0x85, 0xe6, 0xa2, 0xd7, 0x0c, 0xe0, 0x3f],
    [0xf1, 0x56, 0xcd, 0x25, 0xd7, 0x61, 0x53, 0x53, 0x9d, 0x68, 0x55, 0x77, 0x3e, 0x21, 0x14, 0x2f],
    [0x9b, 0xa0, 0x31, 0x35, 0x62, 0x87, 0x5f, 0x10, 0x5a, 0x2b, 0x77, 0x0a, 0x15, 0xb5, 0x33, 0xfb],
    [0xf5, 0x11, 0x0d, 0xaf, 0xb6, 0x93, 0x29, 0x98, 0x2a, 0xb4, 0x4e, 0xd1, 0xb9, 0xf3, 0x21, 0xd7],
    [0xb7, 0x9a, 0xe1, 0x5a, 0x19, 0xd9, 0xf3, 0xbd, 0x4c, 0x50, 0x4c, 0x24, 0xb2, 0x3b, 0x81, 0x2d],
    [0x51, 0x4c, 0x19, 0xae, 0x2a, 0x34, 0x7c, 0xc1, 0x8c, 0x12, 0xce, 0x91, 0x5a, 0x0b, 0xad, 0x7c],
    [0xc8, 0x9a, 0x87, 0x20, 0xd4, 0xba, 0x5e, 0xe0, 0x96, 0x4f, 0xe0, 0x5e, 0x4c, 0xc5, 0x9a, 0x13],
    [0xf9, 0x2c, 0x67, 0x0b, 0x86, 0x55, 0x07, 0x1e, 0x21, 0x6f, 0x19, 0xad, 0x05, 0xf4, 0xbb, 0xcc],
    [0xa6, 0xdc, 0x7f, 0xee, 0xb1, 0x88, 0xd6, 0x26, 0x9c, 0x58, 0x06, 0x5c, 0x98, 0xfc, 0xbb, 0xac],
    [0x18, 0x3a, 0x9a, 0xbb, 0x38, 0x11, 0xd8, 0x0c, 0xb4, 0x76, 0x54, 0x4b, 0xd7, 0x4b, 0x26, 0x99],
    [0x1f, 0x3d, 0xf9, 0x87, 0xf0, 0xed, 0x0e, 0xa6, 0x23, 0x86, 0x59, 0xac, 0x09, 0xa2, 0x25, 0x0f],
    [0xec, 0xc0, 0x72, 0x3f, 0xfc, 0x51, 0x64, 0x7b, 0x74, 0xbd, 0xf4, 0x54, 0xf2, 0x6e, 0x11, 0x11],
    [0x2c, 0x8b, 0xbd, 0x79, 0x7f, 0x09, 0xa3, 0xbe, 0x82, 0x51, 0xc6, 0xb5, 0xb3, 0x19, 0xed, 0x95],
    [0x37, 0x27, 0x8c, 0xc1, 0xab, 0xed, 0xb3, 0x2a, 0xa1, 0x08, 0x40, 0x98, 0x4b, 0x96, 0xe8, 0x63],
    [0x6b, 0x28, 0x93, 0x35, 0x84, 0x6a, 0xe4, 0xfb, 0xd4, 0xa0, 0x0f, 0x66, 0x00, 0xd9, 0x8e, 0xbe],
    [0x25, 0x88, 0x5c, 0x68, 0xd7, 0x04, 0x3c, 0xe0, 0xdc, 0x52, 0x29, 0xd7, 0xe9, 0xbd, 0x51, 0xbe],
    [0xa9, 0xb8, 0xfe, 0x05, 0x52, 0xf4, 0x06, 0x88, 0x42, 0x9c, 0x48, 0x26, 0x29, 0xce, 0xd6, 0x23],
    [0xf6, 0x07, 0x48, 0x58, 0x14, 0x7e, 0x73, 0xda, 0x3f, 0xf4, 0xad, 0x2a, 0xe4, 0x5c, 0x1a, 0x1c],
    [0x8a, 0x6c, 0x5b, 0x3b, 0x2c, 0x3d, 0x56, 0x8a, 0x75, 0x66, 0x08, 0x17, 0x9f, 0x63, 0xb5, 0x80],
    [0xfd]]"

definition KAT_WY90_CT :: bytes where
  "KAT_WY90_CT = concat [
    [0x11, 0x2f, 0x4c, 0xe5, 0x52, 0xe4, 0x1a, 0x1e, 0x8c, 0x93, 0xf6, 0xed, 0x3e, 0x12, 0x73, 0xb9],
    [0xda, 0xb4, 0xc1, 0xee, 0xb5, 0xc1, 0x00, 0xc2, 0xc2, 0x73, 0x2a, 0xf2, 0x7f, 0x01, 0x60, 0x76],
    [0x40, 0x12, 0xaf, 0x26, 0x9a, 0x50, 0xf0, 0x4d, 0x10, 0xba, 0x24, 0xbb, 0x43, 0x59, 0x85, 0x47],
    [0xb7, 0x00, 0xcf, 0xc4, 0x80, 0xab, 0x12, 0x3f, 0x6e, 0x5c, 0x74, 0x88, 0xd6, 0x74, 0xa6, 0x37],
    [0x55, 0x2c, 0xa0, 0x3e, 0xb2, 0x98, 0xaf, 0x4c, 0xa2, 0x87, 0x98, 0x30, 0xca, 0x25, 0xf2, 0x73],
    [0x71, 0x3b, 0xd5, 0xbd, 0xe1, 0x6a, 0x06, 0xb3, 0x12, 0x54, 0xb4, 0x12, 0xbf, 0x6a, 0x8c, 0xe2],
    [0x2e, 0xfe, 0x73, 0xb1, 0x53, 0x80, 0xfa, 0xfe, 0x2a, 0xde, 0x9d, 0x5c, 0x57, 0xe6, 0x26, 0x7d],
    [0x08, 0x2b, 0x5a, 0xdc, 0x06, 0xf5, 0x5e, 0x83, 0x13, 0xb1, 0xd0, 0x75, 0x3a, 0x46, 0xb9, 0x88],
    [0xe7, 0x77, 0x6b, 0x20, 0x1a, 0x9d, 0x58, 0x96, 0xc3, 0x49, 0xe8, 0x63, 0x1f, 0x1b, 0x38, 0x1c],
    [0x8f, 0x43, 0x24, 0x7d, 0x0d, 0x9b, 0x17, 0x17, 0x01, 0xfc, 0x94, 0xc5, 0x26, 0x5e, 0xad, 0x84],
    [0xf3, 0xd4, 0x46, 0x72, 0xbb, 0x79, 0x9d, 0x3d, 0xdf, 0x8d, 0x63, 0xae, 0x73, 0xd7, 0x91, 0x04],
    [0xe4, 0x83, 0x66, 0xf0, 0x5d, 0x04, 0x8d, 0xf2, 0xee, 0x54, 0x10, 0x2d, 0x63, 0x7b, 0x9c, 0x2d],
    [0x4d, 0x03, 0x20, 0x01, 0x09, 0xbe, 0x48, 0xb6, 0xd4, 0xc2, 0xfb, 0x9b, 0x0b, 0x45, 0xf7, 0x94],
    [0x5c, 0x8c, 0x54, 0x68, 0xc9, 0x7f, 0x36, 0xc9, 0xf4, 0xb9, 0x78, 0x9a, 0x3a, 0x54, 0x73, 0x48],
    [0x73, 0x9d, 0xac, 0x3e, 0x7b, 0x11, 0x44, 0x88, 0x4d, 0x50, 0x1b, 0x4a, 0x07, 0x3f, 0x04, 0x08],
    [0x1d, 0xe6, 0x28, 0x7b, 0x66, 0xaf, 0x2d, 0x0e, 0x37, 0x28, 0xcf, 0x20, 0x64, 0xbe, 0x88, 0x97],
    [0x5e, 0x57, 0x85, 0x81, 0xe1, 0xe8, 0xd7, 0xc7, 0xd9, 0xc9, 0x56, 0xd5, 0x58, 0xc2, 0xfa, 0x68],
    [0x16, 0x72, 0x15, 0x18, 0xf1, 0xe1, 0xde, 0x49, 0x3e, 0x83, 0x62, 0x8a, 0x42, 0xcc, 0xe4, 0x0f],
    [0x85, 0xc5, 0x5d, 0x59, 0x73, 0xb3, 0x97, 0xea, 0x1d, 0x58, 0xee, 0x47, 0x3b, 0xf5, 0xea, 0x59],
    [0xf3, 0x55, 0x10, 0xe1, 0x90, 0x3d, 0x22, 0x67, 0x3c, 0x3d, 0x28, 0x91, 0x21, 0xf3, 0xfe, 0xd8],
    [0xee, 0x42, 0x53, 0xe2, 0x99, 0xa5, 0x24, 0x10, 0xbb, 0xbd, 0x39, 0xda, 0xf1, 0xb8, 0x7e, 0x43],
    [0xb5, 0xc4, 0xbe, 0x3e, 0x46, 0x98, 0x94, 0x3e, 0x55, 0x78, 0xf0, 0x74, 0x4c, 0x2b, 0x0a, 0x4d],
    [0x39, 0x92, 0x2d, 0x6c, 0x4b, 0x20, 0x5e, 0x82, 0x59, 0x16, 0x6a, 0x46, 0x23, 0x0d, 0x32, 0x64],
    [0x42, 0x49, 0x27, 0x63, 0xdb, 0xa8, 0xa2, 0xcd, 0x9d, 0x62, 0xc7, 0xe8, 0x71, 0x5e, 0x43, 0xc8],
    [0x91, 0xce, 0x2f, 0x53, 0x33, 0xb0, 0x2e, 0xa9, 0x4c, 0xe6, 0xfa, 0x1c, 0x27, 0xe8, 0x6e, 0x34],
    [0x88, 0xa9, 0xb7, 0xf2, 0x6b, 0xb8, 0x14, 0xd2, 0x14, 0xb9, 0xd2, 0x9e, 0xef, 0xa5, 0xa4, 0xa0],
    [0x40, 0x40, 0xcd, 0xcb, 0xb1, 0xa1, 0x3c, 0xa2, 0xf4, 0x36, 0xe3, 0x02, 0xf7, 0x67, 0xda, 0x3a],
    [0x76, 0x75, 0xbc, 0xf5, 0x01, 0xce, 0xe4, 0x5f, 0x77, 0x4e, 0xb6, 0x4c, 0x0f, 0xcb, 0x64, 0xf1],
    [0xd2, 0xe5, 0xcd, 0x8d, 0xd9, 0xf9, 0x60, 0x0e, 0x0b, 0x51, 0x97, 0x12, 0x5a, 0x35, 0x24, 0x9a],
    [0x0d, 0xa6, 0xf6, 0x4c, 0xad, 0xca, 0x4a, 0x76, 0x99, 0x84, 0xba, 0xb6, 0x24, 0x38, 0xaf, 0x11],
    [0xc3, 0x23, 0xde, 0x33, 0x01, 0x4f, 0x62, 0x7e, 0x94, 0x5c, 0xb9, 0x0f, 0x5b, 0xe8, 0x82, 0x91],
    [0xaf, 0x1e, 0x7e, 0x16, 0x9d, 0x76, 0x95, 0xdb, 0x62, 0x89, 0x30, 0x2a, 0xd9, 0x9f, 0xec, 0x05],
    [0x0c]]"

definition KAT_WY90_TAG :: bytes where
  "KAT_WY90_TAG = concat [
    [0xe2, 0xfc, 0xad, 0xc3, 0x1a, 0xd7, 0x55, 0x13, 0x9d, 0x38, 0xec, 0xbf, 0xb7, 0x5d, 0x1d, 0xdc]]"

record hkdf_case_t =
  hk_name :: string
  hk_ikm :: bytes
  hk_ikm_len :: nat
  hk_salt :: bytes
  hk_salt_len :: nat
  hk_info :: bytes
  hk_info_len :: nat
  hk_okm :: bytes
  hk_okm_len :: nat

definition HKDF_CASES :: "hkdf_case_t list" where
  "HKDF_CASES = [
    \<lparr> hk_name = ''RFC5869 A.1'', hk_ikm = KAT_HKDF0_IKM, hk_ikm_len = 22, hk_salt = KAT_HKDF0_SALT, hk_salt_len = 13,
      hk_info = KAT_HKDF0_INFO, hk_info_len = 10, hk_okm = KAT_HKDF0_OKM, hk_okm_len = 42 \<rparr>,
    \<lparr> hk_name = ''RFC5869 A.2'', hk_ikm = KAT_HKDF1_IKM, hk_ikm_len = 80, hk_salt = KAT_HKDF1_SALT, hk_salt_len = 80,
      hk_info = KAT_HKDF1_INFO, hk_info_len = 80, hk_okm = KAT_HKDF1_OKM, hk_okm_len = 80 \<rparr>,
    \<lparr> hk_name = ''RFC5869 A.3'', hk_ikm = KAT_HKDF2_IKM, hk_ikm_len = 22, hk_salt = KAT_HKDF2_SALT, hk_salt_len = 0,
      hk_info = KAT_HKDF2_INFO, hk_info_len = 0, hk_okm = KAT_HKDF2_OKM, hk_okm_len = 42 \<rparr>]"

definition KAT_RFC8439_PT_LEN :: nat where
  "KAT_RFC8439_PT_LEN = 114"

record aead_case_t =
  ae_tcId :: int
  ae_key :: bytes
  ae_iv :: bytes
  ae_msg :: bytes
  ae_msg_len :: nat
  ae_ct :: bytes
  ae_tag :: bytes

definition AEAD_CASES :: "aead_case_t list" where
  "AEAD_CASES = [
    \<lparr> ae_tcId = 2, ae_key = KAT_WY2_KEY, ae_iv = KAT_WY2_IV, ae_msg = KAT_WY2_MSG, ae_msg_len = 0,
      ae_ct = KAT_WY2_CT, ae_tag = KAT_WY2_TAG \<rparr>,
    \<lparr> ae_tcId = 4, ae_key = KAT_WY4_KEY, ae_iv = KAT_WY4_IV, ae_msg = KAT_WY4_MSG, ae_msg_len = 1,
      ae_ct = KAT_WY4_CT, ae_tag = KAT_WY4_TAG \<rparr>,
    \<lparr> ae_tcId = 32, ae_key = KAT_WY32_KEY, ae_iv = KAT_WY32_IV, ae_msg = KAT_WY32_MSG, ae_msg_len = 15,
      ae_ct = KAT_WY32_CT, ae_tag = KAT_WY32_TAG \<rparr>,
    \<lparr> ae_tcId = 62, ae_key = KAT_WY62_KEY, ae_iv = KAT_WY62_IV, ae_msg = KAT_WY62_MSG, ae_msg_len = 30,
      ae_ct = KAT_WY62_CT, ae_tag = KAT_WY62_TAG \<rparr>,
    \<lparr> ae_tcId = 90, ae_key = KAT_WY90_KEY, ae_iv = KAT_WY90_IV, ae_msg = KAT_WY90_MSG, ae_msg_len = 513,
      ae_ct = KAT_WY90_CT, ae_tag = KAT_WY90_TAG \<rparr>]"


section \<open>Sizes\<close>

lemma aead_cases_sizes:
  "c \<in> set AEAD_CASES \<Longrightarrow> length (ae_key c) = 32 \<and> length (ae_iv c) = 12 \<and> length (ae_tag c) = 16
    \<and> ae_msg_len c \<le> length (ae_msg c) \<and> ae_msg_len c \<le> length (ae_ct c)"
  unfolding AEAD_CASES_def
  by (auto simp: KAT_WY2_KEY_def KAT_WY2_IV_def KAT_WY2_TAG_def
      KAT_WY4_KEY_def KAT_WY4_IV_def KAT_WY4_TAG_def KAT_WY4_MSG_def KAT_WY4_CT_def
      KAT_WY32_KEY_def KAT_WY32_IV_def KAT_WY32_TAG_def KAT_WY32_MSG_def KAT_WY32_CT_def
      KAT_WY62_KEY_def KAT_WY62_IV_def KAT_WY62_TAG_def KAT_WY62_MSG_def KAT_WY62_CT_def
      KAT_WY90_KEY_def KAT_WY90_IV_def KAT_WY90_TAG_def KAT_WY90_MSG_def KAT_WY90_CT_def)

lemma hkdf_cases_sizes:
  "c \<in> set HKDF_CASES \<Longrightarrow> 0 < hk_ikm_len c \<and> hk_ikm_len c \<le> length (hk_ikm c) \<and> hk_salt_len c \<le> length (hk_salt c)
    \<and> hk_info_len c \<le> length (hk_info c) \<and> 0 < hk_okm_len c \<and> hk_okm_len c \<le> 80 \<and> hk_okm_len c = length (hk_okm c)
    \<and> hk_ikm_len c \<le> 80 \<and> hk_salt_len c \<le> 80 \<and> hk_info_len c \<le> 80"
  unfolding HKDF_CASES_def
  by (auto simp: KAT_HKDF0_IKM_def KAT_HKDF0_SALT_def KAT_HKDF0_INFO_def KAT_HKDF0_OKM_def
      KAT_HKDF1_IKM_def KAT_HKDF1_SALT_def KAT_HKDF1_INFO_def KAT_HKDF1_OKM_def
      KAT_HKDF2_IKM_def KAT_HKDF2_OKM_def)

end
