(* ===== verification/Selftest.thy ===== *)
theory Selftest
  imports Calls Kat "HOL-Library.Sublist"
begin

text \<open>
  The self-test program: \<open>native/selftest.c\<close>. A test is a function on the two counters and the states of the
  operating system and the libraries; it may fail to return or abort, like the functions it calls. What
  the program prints is not modelled. Local arrays start with arbitrary contents (\<open>uninit\<close>), and the
  allocations of the test itself succeed.
\<close>

unbundle bit_operations_syntax

section \<open>Definitions\<close>

record ('w, 'k, 'c, 'v, 'd, 'p, 'x, 's, 'u) test_libs = "('w, 'k, 'c, 'v, 'd, 'p, 'x, 's, 'u) libs" +
  version_texts :: "string \<times> string \<times> string"
  uninit :: "nat \<Rightarrow> bytes"

record ('w, 'v, 'x, 'u) test_state = "('w, 'v, 'x, 'u) native" +
  checks :: int
  failures :: int

type_synonym ('st, 'a) test = "('st, 'a) call"

fun tseq :: "('st, unit) test list \<Rightarrow> ('st, unit) test" where
  "tseq [] = tret ()"
| "tseq (m # ms) = tbind m (\<lambda>_. tseq ms)"

definition CHECK :: "bool \<Rightarrow> (('w, 'v, 'x, 'u) test_state, unit) test" where
  "CHECK cond st = Some (Return ((), st\<lparr> checks := checks st + 1, failures := (if \<not> cond then failures st + 1 else failures st) \<rparr>))"

definition memcmp_eq :: "bytes \<Rightarrow> bytes \<Rightarrow> nat \<Rightarrow> bool" where
  "memcmp_eq a b n \<longleftrightarrow> take n a = take n b"

text \<open>A string literal in memory.\<close>

definition c_string :: "string \<Rightarrow> bytes" where
  "c_string s = map of_char s @ [0]"

subsection \<open>The functions of ML-KEM on uninitialised local arrays\<close>

definition test_keygen where
  "test_keygen L = do_keygen L (uninit L E2EE_MLKEM_PK_SIZE) (uninit L E2EE_MLKEM_SK_SIZE)"

definition test_encapsulate where
  "test_encapsulate L pk = do_encapsulate L pk (uninit L E2EE_MLKEM_CT_SIZE) (uninit L 32)"

definition test_decapsulate where
  "test_decapsulate L sk ct = do_decapsulate sk ct (uninit L 32)"

definition do_keypair_derand where
  "do_keypair_derand L coins st = (case crypto_kem_keypair_derand coins of
       None \<Rightarrow> None
     | Some (pk, sk) \<Rightarrow> Some (Return ((0 :: int, write_at (uninit L E2EE_MLKEM_PK_SIZE) 0 pk, write_at (uninit L E2EE_MLKEM_SK_SIZE) 0 sk), st)))"

definition do_enc_derand where
  "do_enc_derand L pk coins st = (case crypto_kem_enc_derand pk coins of
       None \<Rightarrow> None
     | Some (ct, ss) \<Rightarrow> Some (Return ((0 :: int, write_at (uninit L E2EE_MLKEM_CT_SIZE) 0 ct, write_at (uninit L 32) 0 ss), st)))"

subsection \<open>The tests\<close>

definition mlkem_roundtrip_iter where
  "mlkem_roundtrip_iter L i =
     tbind (test_keygen L) (\<lambda>(rc, pk, sk). tbind (CHECK (rc = 0)) (\<lambda>_.
     tbind (test_encapsulate L pk) (\<lambda>(rc, ct, ss1). tbind (CHECK (rc = 0)) (\<lambda>_.
     tbind (test_decapsulate L sk ct) (\<lambda>(rc, ss2). tbind (CHECK (rc = 0)) (\<lambda>_.
     tbind (CHECK (memcmp_eq ss1 ss2 32)) (\<lambda>_.
     let k = i * 97 mod E2EE_MLKEM_CT_SIZE; bad = ct[k := ct ! k XOR 0x01] in
     tbind (test_decapsulate L sk bad) (\<lambda>(rc, ss3). tbind (CHECK (rc = 0)) (\<lambda>_.
     CHECK (\<not> memcmp_eq ss1 ss3 32))))))))))"

definition test_mlkem_sizes_and_roundtrip where
  "test_mlkem_sizes_and_roundtrip L =
     tbind (CHECK (E2EE_MLKEM_PK_SIZE = 1184 \<and> E2EE_MLKEM_SK_SIZE = 2400 \<and> E2EE_MLKEM_CT_SIZE = 1088 \<and> E2EE_MLKEM_SS_SIZE = 32)) (\<lambda>_.
     tbind (tseq (map (mlkem_roundtrip_iter L) [0..<10])) (\<lambda>_.
     tbind (test_keygen L) (\<lambda>(rc, pk1, sk1). tbind (test_keygen L) (\<lambda>(rc, pk2, sk2).
     CHECK (\<not> memcmp_eq pk1 pk2 E2EE_MLKEM_PK_SIZE)))))"

definition test_mlkem_kat where
  "test_mlkem_kat L =
     tbind (do_keypair_derand L (take 32 KAT_KEYGEN_D @ take 32 KAT_KEYGEN_Z)) (\<lambda>(rc, pk, sk). tbind (CHECK (rc = 0)) (\<lambda>_.
     tbind (CHECK (memcmp_eq pk KAT_KEYGEN_EK E2EE_MLKEM_PK_SIZE)) (\<lambda>_.
     tbind (CHECK (memcmp_eq sk KAT_KEYGEN_DK E2EE_MLKEM_SK_SIZE)) (\<lambda>_.
     tbind (do_enc_derand L KAT_ENCAP_EK KAT_ENCAP_M) (\<lambda>(rc, ct, ss). tbind (CHECK (rc = 0)) (\<lambda>_.
     tbind (CHECK (memcmp_eq ct KAT_ENCAP_C E2EE_MLKEM_CT_SIZE)) (\<lambda>_.
     tbind (CHECK (memcmp_eq ss KAT_ENCAP_K 32)) (\<lambda>_.
     tbind (test_decapsulate L KAT_ENCAP_DK KAT_ENCAP_C) (\<lambda>(rc, ss2). tbind (CHECK (rc = 0)) (\<lambda>_.
     tbind (CHECK (memcmp_eq ss2 KAT_ENCAP_K 32)) (\<lambda>_.
     tbind (test_decapsulate L KAT_DECAP_VALID_DK KAT_DECAP_VALID_C) (\<lambda>(rc, ss). tbind (CHECK (rc = 0)) (\<lambda>_.
     tbind (CHECK (memcmp_eq ss KAT_DECAP_VALID_K 32)) (\<lambda>_.
     tbind (test_decapsulate L KAT_DECAP_REJECT_DK KAT_DECAP_REJECT_C) (\<lambda>(rc, ss). tbind (CHECK (rc = 0)) (\<lambda>_.
     CHECK (memcmp_eq ss KAT_DECAP_REJECT_K 32)))))))))))))))))"

definition hkdf_case_test where
  "hkdf_case_test L c =
     tbind (do_hkdf L (hk_ikm c) (hk_ikm_len c) (if hk_salt_len c \<noteq> 0 then Some (hk_salt c) else None) (hk_salt_len c)
         (if hk_info_len c \<noteq> 0 then Some (hk_info c) else None) (hk_info_len c) (uninit L 256) (hk_okm_len c)) (\<lambda>(rc, okm).
     tbind (CHECK (rc = 0)) (\<lambda>_.
     CHECK (memcmp_eq okm (hk_okm c) (hk_okm_len c))))"

definition hkdf_protocol_test where
  "hkdf_protocol_test L =
     tbind (do_random L (uninit L 32) 32) (\<lambda>ss. tbind (do_random L (uninit L 16) 16) (\<lambda>salt.
     tbind (do_hkdf L ss 32 (Some salt) 16 (Some (c_string ''e2e-req-v1'')) 10 (uninit L 32) 32) (\<lambda>(rc, key1). tbind (CHECK (rc = 0)) (\<lambda>_.
     tbind (do_hkdf L ss 32 (Some salt) 16 (Some (c_string ''e2e-resp-v1'')) 11 (uninit L 32) 32) (\<lambda>(rc, key2). tbind (CHECK (rc = 0)) (\<lambda>_.
     tbind (CHECK (\<not> memcmp_eq key1 key2 32)) (\<lambda>_.
     tbind (do_hkdf L ss 32 (Some salt) 16 (Some (c_string ''x'')) 1 key1 (255 * 32 + 1)) (\<lambda>(rc, key1).
     CHECK (rc \<noteq> 0)))))))))"

definition test_hkdf where
  "test_hkdf L = tbind (tseq (map (hkdf_case_test L) HKDF_CASES)) (\<lambda>_. hkdf_protocol_test L)"

definition test_chacha20_rfc8439 where
  "test_chacha20_rfc8439 L =
     tbind (do_seal L KAT_RFC8439_KEY KAT_RFC8439_NONCE KAT_RFC8439_PT KAT_RFC8439_PT_LEN (uninit L KAT_RFC8439_PT_LEN) (uninit L 16)) (\<lambda>(rc, ct, tag).
     tbind (CHECK (rc = 0)) (\<lambda>_.
     tbind (CHECK (memcmp_eq ct KAT_RFC8439_CT KAT_RFC8439_PT_LEN)) (\<lambda>_.
     tbind (do_open L KAT_RFC8439_KEY KAT_RFC8439_NONCE ct KAT_RFC8439_PT_LEN tag (uninit L KAT_RFC8439_PT_LEN)) (\<lambda>(rc, pt).
     tbind (CHECK (rc = 0)) (\<lambda>_.
     CHECK (memcmp_eq pt KAT_RFC8439_PT KAT_RFC8439_PT_LEN))))))"

text \<open>The two checks on a corrupted ciphertext, made only when there is one.\<close>

definition aead_case_corrupt where
  "aead_case_corrupt L c n ct pt =
     (if n > 0
      then let ct = write_at ct 0 (take n (ae_ct c)); ct = ct[n div 2 := ct ! (n div 2) XOR 0x01] in
           tbind (do_open L (ae_key c) (ae_iv c) ct n (ae_tag c) pt) (\<lambda>(rc, pt).
           tbind (CHECK (rc \<noteq> 0)) (\<lambda>_.
           tbind (CHECK (list_all (\<lambda>b. b = 0) (take n pt))) (\<lambda>_. tret pt)))
      else tret pt)"

definition aead_case_test where
  "aead_case_test L i c =
     (let n = ae_msg_len c in
     tbind (do_seal L (ae_key c) (ae_iv c) (ae_msg c) n (uninit L (n + 1)) (uninit L 16)) (\<lambda>(rc, ct, tag).
     tbind (CHECK (rc = 0)) (\<lambda>_.
     tbind (CHECK (memcmp_eq ct (ae_ct c) n)) (\<lambda>_.
     tbind (CHECK (memcmp_eq tag (ae_tag c) 16)) (\<lambda>_.
     tbind (do_open L (ae_key c) (ae_iv c) (ae_ct c) n (ae_tag c) (uninit L (n + 1))) (\<lambda>(rc, pt).
     tbind (CHECK (rc = 0)) (\<lambda>_.
     tbind (CHECK (memcmp_eq pt (ae_msg c) n)) (\<lambda>_.
     let badtag = (ae_tag c)[i mod 16 := ae_tag c ! (i mod 16) XOR 0x80] in
     tbind (do_open L (ae_key c) (ae_iv c) (ae_ct c) n badtag pt) (\<lambda>(rc, pt).
     tbind (CHECK (rc \<noteq> 0)) (\<lambda>_.
     tbind (aead_case_corrupt L c n ct pt) (\<lambda>pt.
     let badiv = (ae_iv c)[0 := ae_iv c ! 0 XOR 0x01] in
     tbind (do_open L (ae_key c) badiv (ae_ct c) n (ae_tag c) pt) (\<lambda>(rc, pt).
     CHECK (rc \<noteq> 0)))))))))))))"

definition aead_large_test where
  "aead_large_test L =
     (let n = 2 ^ 20 in
     tbind (do_random L (uninit L 32) 32) (\<lambda>key. tbind (do_random L (uninit L 12) 12) (\<lambda>nonce.
     let buf = map (\<lambda>k. of_nat (k * 31)) [0..<n] in
     tbind (do_seal L key nonce buf n (uninit L n) (uninit L 16)) (\<lambda>(rc, ct, tag).
     tbind (CHECK (rc = 0)) (\<lambda>_.
     tbind (do_open L key nonce ct n tag (uninit L n)) (\<lambda>(rc, pt).
     tbind (CHECK (rc = 0)) (\<lambda>_.
     CHECK (memcmp_eq buf pt n))))))))"

definition test_aead_wycheproof where
  "test_aead_wycheproof L =
     tbind (tseq (map (\<lambda>(i, c). aead_case_test L i c) (enumerate 0 AEAD_CASES))) (\<lambda>_. aead_large_test L)"

definition selftest_msg :: bytes where
  "selftest_msg = c_string ''{\"model\":\"x\",\"messages\":[{\"role\":\"user\",\"content\":\"hello hello hello\"}]}''"

text \<open>The last four bytes of the stream, little-endian.\<close>

definition isize_of :: "bytes \<Rightarrow> nat \<Rightarrow> u32" where
  "isize_of zbuf clen = ucast (zbuf ! (clen - 4)) OR push_bit 8 (ucast (zbuf ! (clen - 3)))
     OR push_bit 16 (ucast (zbuf ! (clen - 2))) OR push_bit 24 (ucast (zbuf ! (clen - 1)))"

definition gzip_message_test where
  "gzip_message_test L msg n =
     tbind (do_compress L msg n (uninit L 4096) 4096) (\<lambda>(clen, zbuf).
     tbind (CHECK (clen > 0)) (\<lambda>_.
     tbind (CHECK (clen \<ge> 18 \<and> zbuf ! 0 = 0x1f \<and> zbuf ! 1 = 0x8b)) (\<lambda>_.
     tbind (if clen \<ge> 4 then CHECK (unat (isize_of zbuf clen) = n) else tret ()) (\<lambda>_.
     tbind (do_decompress L zbuf clen (uninit L 4096) 4096) (\<lambda>(dlen, decomp).
     tbind (CHECK (dlen = n)) (\<lambda>_.
     tbind (CHECK (dlen = n \<and> memcmp_eq decomp msg n)) (\<lambda>_.
     tbind (do_decompress L zbuf clen decomp 8) (\<lambda>(k, decomp). tbind (CHECK (k = 0)) (\<lambda>_.
     tbind (do_compress L msg n zbuf 4) (\<lambda>(k, zbuf). tbind (CHECK (k = 0)) (\<lambda>_.
     tret (zbuf, decomp))))))))))))"

definition gzip_garbage_test where
  "gzip_garbage_test L decomp =
     tbind (do_random L (uninit L 64) 64) (\<lambda>junk.
     let junk = junk[0 := 0x00] in
     tbind (do_decompress L junk 64 decomp 4096) (\<lambda>(k, decomp). tbind (CHECK (k = 0)) (\<lambda>_. tret decomp)))"

definition gzip_incompressible_test where
  "gzip_incompressible_test L =
     (let big = 512 * 1024 in
     tbind (do_random L (uninit L big) big) (\<lambda>inp.
     let bound = big + drop_bit 12 big + drop_bit 14 big + drop_bit 25 big + 64 in
     tbind (do_compress L inp big (uninit L bound) bound) (\<lambda>(got, out). tbind (CHECK (got > 0)) (\<lambda>_.
     tbind (do_decompress L out got (uninit L big) big) (\<lambda>(k, back). tbind (CHECK (k = big)) (\<lambda>_.
     CHECK (memcmp_eq inp back big)))))))"

definition gzip_empty_test where
  "gzip_empty_test L zbuf decomp =
     tbind (do_compress L (c_string []) 0 zbuf 4096) (\<lambda>(got, zbuf). tbind (CHECK (got > 0)) (\<lambda>_.
     tbind (do_decompress L zbuf got decomp 4096) (\<lambda>(k, decomp). tret ())))"

definition test_gzip where
  "test_gzip L =
     tbind (gzip_message_test L selftest_msg (length selftest_msg - 1)) (\<lambda>(zbuf, decomp).
     tbind (gzip_garbage_test L decomp) (\<lambda>decomp.
     tbind (gzip_incompressible_test L) (\<lambda>_.
     gzip_empty_test L zbuf decomp)))"

definition test_random_and_stubs where
  "test_random_and_stubs L =
     tbind (do_random L (replicate 32 0) 32) (\<lambda>a. tbind (do_random L (replicate 32 0) 32) (\<lambda>b.
     tbind (CHECK (\<not> memcmp_eq a b 32)) (\<lambda>_.
     let nz = fold (\<lambda>i nz. nz OR (ucast (a ! i) :: i32)) [0..<32] 0 in
     tbind (CHECK (nz \<noteq> 0)) (\<lambda>_.
     tbind (CHECK (e2ee_init = 0)) (\<lambda>_.
     let (openssl, zlib, date) = version_texts L; info = e2ee_build_info openssl zlib date in
     tbind (CHECK (sublist ''mlkem='' info)) (\<lambda>_.
     let (rc, buf, len) = e2ee_get_cert_der (Some (uninit L 8)) (Some 8) in
     tbind (CHECK (rc \<noteq> 0 \<and> len = Some 0)) (\<lambda>_.
     let (rc, buf, len) = e2ee_get_privkey_der buf (Some 8) in
     CHECK (rc \<noteq> 0 \<and> len = Some 0))))))))"

definition selftest_main where
  "selftest_main L =
     tbind (test_mlkem_sizes_and_roundtrip L) (\<lambda>_. tbind (test_mlkem_kat L) (\<lambda>_. tbind (test_hkdf L) (\<lambda>_.
     tbind (test_chacha20_rfc8439 L) (\<lambda>_. tbind (test_aead_wycheproof L) (\<lambda>_. tbind (test_gzip L) (\<lambda>_.
     tbind (test_random_and_stubs L) (\<lambda>_ st. Some (Return (if failures st = 0 then 0 else 1 :: int, st)))))))))"


section \<open>Passing\<close>

text \<open>
  \<open>passes n m R\<close>: from every state, \<open>m\<close> returns after \<open>n\<close> checks that all succeed, with a result that
  satisfies \<open>R\<close>.
\<close>

definition passes :: "nat \<Rightarrow> (('w, 'v, 'x, 'u) test_state, 'a) test \<Rightarrow> ('a \<Rightarrow> bool) \<Rightarrow> bool" where
  "passes n m R \<longleftrightarrow> (\<forall>st. \<exists>a st'. m st = Some (Return (a, st')) \<and>
     checks st' = checks st + int n \<and> failures st' = failures st \<and> R a)"

lemma passes_tbind:
  assumes "passes a m R" and "\<And>x. R x \<Longrightarrow> passes b (f x) Q"
  shows "passes (a + b) (tbind m f) Q"
  unfolding passes_def
proof
  fix st
  obtain x st1 where m: "m st = Some (Return (x, st1))" "checks st1 = checks st + int a" "failures st1 = failures st" "R x"
    using assms(1) unfolding passes_def by blast
  obtain y st2 where f: "f x st1 = Some (Return (y, st2))" "checks st2 = checks st1 + int b" "failures st2 = failures st1" "Q y"
    using assms(2) [OF m(4)] unfolding passes_def by blast
  show "\<exists>y st'. tbind m f st = Some (Return (y, st')) \<and> checks st' = checks st + int (a + b) \<and> failures st' = failures st \<and> Q y"
    using m f by (simp add: tbind_def)
qed

lemma passes_call: "passes 0 m R \<Longrightarrow> (\<And>x. R x \<Longrightarrow> passes n (f x) Q) \<Longrightarrow> passes n (tbind m f) Q"
  using passes_tbind [of 0 m R n f Q] by simp

lemma passes_check: "b \<Longrightarrow> passes n (f ()) Q \<Longrightarrow> passes (Suc n) (tbind (CHECK b) f) Q"
  using passes_tbind [of "Suc 0" "CHECK b" "\<lambda>_. True" n f Q] by (simp add: passes_def CHECK_def)

lemma passes_last: "b \<Longrightarrow> passes (Suc 0) (CHECK b) (\<lambda>_. True)"
  by (simp add: passes_def CHECK_def)

lemma passes_tret: "R a \<Longrightarrow> passes 0 (tret a) R"
  by (simp add: passes_def tret_def)

subsection \<open>The compression test\<close>

text \<open>An operating system whose entropy source works.\<close>

definition random_total :: "'w os \<Rightarrow> bool" where
  "random_total os \<longleftrightarrow> (\<forall>out n w. length out = n \<longrightarrow>
     (\<exists>bs w'. e2ee_random_bytes os (Some out) n w = Some (Return (Some bs, w')) \<and> length bs = n))"

lemma passes_random:
  assumes "random_total (lib_os L)" and "length out = n"
  shows "passes 0 (do_random L out n :: (('w, 'v, 'x, 'u) test_state, bytes) test) (\<lambda>bs. length bs = n)"
  unfolding passes_def
proof
  fix st :: "('w, 'v, 'x, 'u) test_state"
  obtain bs w' where "e2ee_random_bytes (lib_os L) (Some out) n (w_os st) = Some (Return (Some bs, w'))" "length bs = n"
    using assms unfolding random_total_def by blast
  then show "\<exists>a st'. do_random L out n st = Some (Return (a, st')) \<and> checks st' = checks st + int 0
      \<and> failures st' = failures st \<and> length a = n"
    by (simp add: do_random_def)
qed

lemma passes_gzip_callI:
  assumes "\<And>u. \<exists>k out' u'. f u = (k, Some out', u') \<and> R k out'"
    and "\<And>st :: ('a, 'b, 'c, 'd) test_state. m st = (let (k, out, u) = f (w_z st) in Some (Return ((k, the out), st\<lparr> w_z := u \<rparr>)))"
  shows "passes 0 m (\<lambda>(k, out'). R k out')"
  unfolding passes_def
proof
  fix st :: "('a, 'b, 'c, 'd) test_state"
  obtain k out' u' where "f (w_z st) = (k, Some out', u')" "R k out'"
    using assms(1) by blast
  then show "\<exists>a st'. m st = Some (Return (a, st')) \<and> checks st' = checks st + int 0 \<and> failures st' = failures st
      \<and> (case a of (k, out') \<Rightarrow> R k out')"
    by (simp add: assms(2))
qed

lemma passes_compress:
  assumes "zlib_laws (lib_z L) gz" and "zlib_total (lib_z L)" and "n \<le> UINT_MAX" and "n \<le> length b"
    and "0 < om" and "om \<le> UINT_MAX" and "om \<le> length out"
  shows "passes 0 (do_compress L b n out om) (\<lambda>(k, out'). length out' = length out \<and>
    (if length (gz (take n b)) \<le> om then k = length (gz (take n b)) \<and> take k out' = gz (take n b) else k = 0))"
  by (rule passes_gzip_callI [OF _ do_compress_def]) (use compress_correct [OF assms] in blast)

lemma passes_decompress:
  assumes "zlib_laws (lib_z L) gz" and "zlib_total (lib_z L)" and "n \<le> UINT_MAX" and "take n b = gz x"
    and "0 < om" and "om \<le> UINT_MAX" and "om \<le> length out"
  shows "passes 0 (do_decompress L b n out om) (\<lambda>(k, out'). length out' = length out \<and>
    (if length x \<le> om then k = length x \<and> take k out' = x else k = 0))"
  by (rule passes_gzip_callI [OF _ do_decompress_def]) (use decompress_correct [OF assms] in blast)

lemma decompress_garbage:
  assumes laws: "zlib_laws z gz" "zlib_total z" "gzip_format z gz"
    and "0 < n" "n \<le> length b" "n \<le> UINT_MAX" "hd b = 0" and out: "0 < om" "om \<le> UINT_MAX" "om \<le> length out"
  shows "\<exists>out' w'. e2ee_gzip_decompress z (Some b) n (Some out) om w = (0, Some out', w') \<and> length out' = length out"
proof -
  obtain s w1 where init: "inflateInit2 z zeroed 47 w = (Z_OK z, s, w1)"
    using laws(2) unfolding zlib_total_def by (metis prod.collapse)
  obtain k out' where run: "gz_run z (inflate z) (set_buffers s (Some b) n out om) out = (k, out')"
    by (metis surj_pair)
  let ?s = "set_buffers s (Some b) n out om"
  have "stream_data ?s = take n b"
    using assms(6) by simp
  then have "stream_data ?s \<noteq> []" "hd (stream_data ?s) = 0"
    using assms(4,5,7) by (cases b; auto)+
  then have "fst (inflate z ?s (Z_FINISH z)) \<noteq> Z_STREAM_END z"
    using laws(3) init unfolding gzip_format_def set_buffers_def Let_def by blast
  then have "k = 0"
    using run by (auto simp: gz_run_def split: prod.splits)
  moreover have "length out' = length out"
    using gz_run_bounds [OF zlib_lawsD(3) [OF laws(1) init] _ run] out by simp
  ultimately show ?thesis
    using decompress_eq [OF assms(4) out(1) assms(6) out(2) init, of b out] run by auto
qed

lemma passes_garbage:
  assumes "zlib_laws (lib_z L) gz" "zlib_total (lib_z L)" "gzip_format (lib_z L) gz"
    and "0 < n" "n \<le> length b" "n \<le> UINT_MAX" "hd b = 0" "0 < om" "om \<le> UINT_MAX" "om \<le> length out"
  shows "passes 0 (do_decompress L b n out om) (\<lambda>(k, out'). length out' = length out \<and> k = 0)"
  by (rule passes_gzip_callI [OF _ do_decompress_def]) (use decompress_garbage [OF assms] in blast)

lemma length_selftest_msg: "length selftest_msg = 73"
  by (simp add: selftest_msg_def c_string_def)

lemma passes_split: "(\<And>a b. p = (a, b) \<Longrightarrow> passes n (f a b) R) \<Longrightarrow> passes n (case p of (a, b) \<Rightarrow> f a b) R"
  by (cases p) simp

lemma passes_empty:
  assumes laws: "zlib_laws (lib_z L) gz" "zlib_total (lib_z L)" "gzip_format (lib_z L) gz"
    and "length zbuf = 4096" "length decomp = 4096"
  shows "passes 1 (gzip_empty_test L zbuf decomp) (\<lambda>_. True)"
proof -
  have "length (gz []) \<le> 64"
    using laws(3) [unfolded gzip_format_def] by (metis (no_types, lifting) add_0 div_0 list.size(3))
  then have "0 < length (gz [])" "length (gz []) \<le> 4096"
    using zlib_lawsD(1) [OF laws(1), of "[]"] by linarith+
  then show ?thesis
    unfolding gzip_empty_test_def One_nat_def
    by (intro passes_call [OF passes_compress [OF laws(1,2)]] passes_split passes_check
        passes_call [OF passes_decompress [OF laws(1,2), of _ _ "[]"]] passes_tret)
      (use assms(4,5) in \<open>auto simp: UINT_MAX_def c_string_def\<close>)
qed

lemma hd_update: "0 < length xs \<Longrightarrow> hd (xs[0 := a]) = a"
  by (cases xs) simp_all

lemma passes_garbage_test:
  assumes laws: "zlib_laws (lib_z L) gz" "zlib_total (lib_z L)" "gzip_format (lib_z L) gz"
    and "\<And>n. length (uninit L n) = n" "random_total (lib_os L)" "length decomp = 4096"
  shows "passes 1 (gzip_garbage_test L decomp) (\<lambda>decomp. length decomp = 4096)"
  unfolding gzip_garbage_test_def Let_def One_nat_def
  by (intro passes_call [OF passes_random] passes_call [OF passes_garbage [OF laws]] passes_split passes_check passes_tret)
    (use assms(4-) in \<open>auto simp: UINT_MAX_def hd_update\<close>)

lemma passes_incompressible:
  assumes laws: "zlib_laws (lib_z L) gz" "zlib_total (lib_z L)" "gzip_format (lib_z L) gz"
    and uninit: "\<And>n. length (uninit L n) = n" and random: "random_total (lib_os L)"
  shows "passes 3 (gzip_incompressible_test L) (\<lambda>_. True)"
proof -
  define big :: nat where "big = 512 * 1024"
  define bound where "bound = big + drop_bit 12 big + drop_bit 14 big + drop_bit 25 big + 64"
  have num: "0 < big" "big \<le> UINT_MAX" "0 < bound" "bound \<le> UINT_MAX"
    by (simp_all add: bound_def big_def UINT_MAX_def drop_bit_eq_div)
  have gz: "0 < length (gz x)" "length x = big \<Longrightarrow> length (gz x) \<le> bound" for x
    using zlib_lawsD(1) [OF laws(1), of x] laws(3) unfolding gzip_format_def bound_def drop_bit_eq_div by (linarith, metis)
  show ?thesis
    unfolding gzip_incompressible_test_def big_def [symmetric] Let_def bound_def [symmetric] numeral_3_eq_3
  proof (intro passes_call [OF passes_random] random uninit)
    fix x :: bytes
    assume x: "length x = big"
    show "passes (Suc (Suc (Suc 0))) (tbind (do_compress L x big (uninit L bound) bound) (\<lambda>(got, out). tbind (CHECK (0 < got)) (\<lambda>_.
        tbind (do_decompress L out got (uninit L big) big) (\<lambda>(k, back). tbind (CHECK (k = big)) (\<lambda>_.
        CHECK (memcmp_eq x back big)))))) (\<lambda>_. True)"
      by (intro passes_call [OF passes_compress [OF laws(1,2)]] passes_split passes_check
          passes_call [OF passes_decompress [OF laws(1,2), of _ _ x]] passes_last)
        (use x num gz [of x] uninit in \<open>auto simp: memcmp_eq_def\<close>)
  qed
qed

lemma prefix_nth: "take (length b) a = b \<Longrightarrow> i < length b \<Longrightarrow> a ! i = b ! i"
  by (metis nth_take)

lemma prefix_isize: "take (length b) a = b \<Longrightarrow> 4 \<le> length b \<Longrightarrow> isize_of a (length b) = isize_of b (length b)"
  by (simp add: isize_of_def prefix_nth)

lemma passes_weaken: "passes n m R \<Longrightarrow> (\<And>x. R x \<Longrightarrow> Q x) \<Longrightarrow> passes n m Q"
  unfolding passes_def by blast

lemma passes_check_if:
  "c \<Longrightarrow> b \<Longrightarrow> passes n (f ()) Q \<Longrightarrow> passes (Suc n) (tbind (if c then CHECK b else tret ()) f) Q"
  by (simp add: passes_check)

text \<open>What the format says of the compressed message, in a buffer that starts with it.\<close>

definition packed :: "bytes \<Rightarrow> bytes \<Rightarrow> bool" where
  "packed g zbuf \<longleftrightarrow> take (length g) zbuf = g \<and> length zbuf = 4096"

lemma gz_small:
  assumes "zlib_laws z gz" "gzip_format z gz" "length x \<le> 1000"
  shows "18 \<le> length (gz x)" "length (gz x) \<le> 4096"
proof -
  have "length (gz x) \<le> length x + length x div 2 ^ 12 + length x div 2 ^ 14 + length x div 2 ^ 25 + 64"
    using assms(2) unfolding gzip_format_def by blast
  then show "18 \<le> length (gz x)" "length (gz x) \<le> 4096"
    using assms(3) zlib_lawsD(1) [OF assms(1), of x] by simp_all
qed

lemma isize_le32: "isize_of (a @ le32 w) (length a + 4) = w"
proof -
  have n: "(a @ le32 w) ! (length a + 4 - k) = le32 w ! (4 - k)" if "k \<le> 4" for k
    using that nth_append_length_plus [of a "le32 w" "4 - k"] by simp
  have "isize_of (a @ le32 w) (length a + 4) = ucast (le32 w ! 0) OR push_bit 8 (ucast (le32 w ! 1))
      OR push_bit 16 (ucast (le32 w ! 2)) OR push_bit 24 (ucast (le32 w ! 3))"
    using n [of 4] n [of 3] n [of 2] n [of 1] by (simp add: isize_of_def)
  also have "\<dots> = w"
  proof (rule bit_word_eqI)
    fix i
    assume "i < LENGTH(32)"
    then consider "i < 8" | "8 \<le> i" "i < 16" | "16 \<le> i" "i < 24" | "24 \<le> i" "i < 32"
      by (auto simp: not_less) linarith
    then show "bit (ucast (le32 w ! 0) OR push_bit 8 (ucast (le32 w ! 1))
        OR push_bit 16 (ucast (le32 w ! 2)) OR push_bit 24 (ucast (le32 w ! 3)) :: u32) i = bit w i"
      by cases (auto simp: le32_def bit_simps)
  qed
  finally show ?thesis .
qed

lemma isize_gz:
  assumes "zlib_laws z gz" "gzip_format z gz"
  shows "isize_of (gz x) (length (gz x)) = of_nat (length x)"
proof -
  have "drop (length (gz x) - 4) (gz x) = le32 (of_nat (length x))"
    using assms(2) unfolding gzip_format_def by blast
  then have "gz x = take (length (gz x) - 4) (gz x) @ le32 (of_nat (length x))"
    by (metis append_take_drop_id)
  moreover have "length (take (length (gz x) - 4) (gz x)) + 4 = length (gz x)"
    using zlib_lawsD(1) [OF assms(1), of x] by simp
  ultimately show ?thesis
    using isize_le32 [of "take (length (gz x) - 4) (gz x)" "of_nat (length x)"] by simp
qed

lemma packed_format:
  assumes laws: "zlib_laws z gz" "gzip_format z gz" and x: "length x \<le> 1000" and zbuf: "packed (gz x) zbuf"
  shows "zbuf ! 0 = 0x1f" "zbuf ! 1 = 0x8b" "unat (isize_of zbuf (length (gz x))) = length x"
proof -
  have "zbuf ! 0 = gz x ! 0" "zbuf ! 1 = gz x ! 1" "isize_of zbuf (length (gz x)) = isize_of (gz x) (length (gz x))"
    using zbuf gz_small [OF laws x] unfolding packed_def by (intro prefix_nth prefix_isize; linarith)+
  moreover have "unat (of_nat (length x) :: u32) = length x"
    using x by (simp add: UINT_MAX_def)
  ultimately show "zbuf ! 0 = 0x1f" "zbuf ! 1 = 0x8b" "unat (isize_of zbuf (length (gz x))) = length x"
    using laws(2) isize_gz [OF laws] unfolding gzip_format_def by simp_all
qed

lemma passes_message:
  assumes laws: "zlib_laws (lib_z L) gz" "zlib_total (lib_z L)" "gzip_format (lib_z L) gz"
    and uninit: "\<And>n. length (uninit L n) = n" and n: "8 < n" "n \<le> 1000" "n \<le> length msg"
  shows "passes 7 (gzip_message_test L msg n) (\<lambda>(zbuf, decomp). length zbuf = 4096 \<and> length decomp = 4096)"
proof -
  define g where "g = gz (take n msg)"
  have x: "length (take n msg) = n" "length (take n msg) \<le> 1000"
    using n by simp_all
  note fmt = packed_format [OF laws(1,3) x(2), folded g_def, unfolded x(1)] and len = gz_small [OF laws(1,3) x(2), folded g_def]
  have c1: "passes 0 (do_compress L msg n (uninit L 4096) 4096) (\<lambda>(k, zbuf). k = length g \<and> packed g zbuf)"
    by (rule passes_weaken [OF passes_compress [OF laws(1,2)]]) (use n len uninit in \<open>auto simp: UINT_MAX_def packed_def simp flip: g_def\<close>)
  have c2: "passes 0 (do_compress L msg n zbuf 4) (\<lambda>(k, zbuf). k = 0 \<and> length zbuf = 4096)" if "packed g zbuf" for zbuf
    by (rule passes_weaken [OF passes_compress [OF laws(1,2)]])
      (use n len that in \<open>auto simp: UINT_MAX_def packed_def simp flip: g_def\<close>)
  have d1: "passes 0 (do_decompress L zbuf k (uninit L 4096) 4096)
      (\<lambda>(m, out). m = n \<and> take n out = take n msg \<and> length out = 4096)" if "k = length g \<and> packed g zbuf" for k zbuf
    by (rule passes_weaken [OF passes_decompress [OF laws(1,2), of _ _ "take n msg"]])
      (use n len that uninit in \<open>auto simp: UINT_MAX_def packed_def min_absorb2 simp flip: g_def\<close>)
  have d2: "passes 0 (do_decompress L zbuf k out 8) (\<lambda>(m, out). m = 0 \<and> length out = 4096)"
    if "k = length g \<and> packed g zbuf" "length out = 4096" for k zbuf out
    by (rule passes_weaken [OF passes_decompress [OF laws(1,2), of _ _ "take n msg"]])
      (use n len that in \<open>auto simp: UINT_MAX_def packed_def min_absorb2 simp flip: g_def\<close>)
  have "passes (Suc (Suc (Suc (Suc (Suc (Suc (Suc 0))))))) (gzip_message_test L msg n)
      (\<lambda>(zbuf, decomp). length zbuf = 4096 \<and> length decomp = 4096)"
    unfolding gzip_message_test_def
    by (intro passes_call [OF c1] passes_call [OF d1] passes_call [OF d2] passes_call [OF c2] passes_split passes_check passes_check_if passes_tret)
      (use len fmt in \<open>auto simp: memcmp_eq_def\<close>)
  then show ?thesis
    by (simp add: eval_nat_numeral)
qed

lemma passes_test_gzip:
  assumes "zlib_laws (lib_z L) gz" "zlib_total (lib_z L)" "gzip_format (lib_z L) gz"
    and "\<And>n. length (uninit L n) = n" "random_total (lib_os L)"
  shows "passes 12 (test_gzip L) (\<lambda>_. True)"
proof -
  have "passes (7 + (1 + (3 + 1))) (test_gzip L) (\<lambda>_. True)"
    unfolding test_gzip_def
    by (intro passes_tbind [OF passes_message] passes_split passes_tbind [OF passes_garbage_test]
        passes_tbind [OF passes_incompressible] passes_empty)
      (use assms in \<open>auto simp: length_selftest_msg\<close>)
  then show ?thesis
    by simp
qed

section \<open>Libraries that satisfy the hypotheses\<close>

lemma random_total_Apple:
  assumes "platform os = Apple" and "os_laws os"
  shows "random_total os"
  unfolding random_total_def
proof (intro allI impI)
  fix out :: bytes and n w
  assume len: "length out = n"
  obtain bs w' where bs: "arc4random_buf os n w = (bs, w')"
    by (metis surj_pair)
  then have "length bs = n"
    using assms(2) unfolding os_laws_def by (metis fst_conv)
  then show "\<exists>bs w'. e2ee_random_bytes os (Some out) n w = Some (Return (Some bs, w')) \<and> length bs = n"
    using len assms(1) bs by (cases "n = 0") (simp_all add: e2ee_random_bytes_def e2ee_secure_random_def write_at_all)
qed

definition sample_libs where
  "sample_libs = \<lparr> lib_os = (script_os [])\<lparr> platform := Apple \<rparr>, lib_ssl = toy_cipher, lib_kdf = toy_kdf, lib_z = framed_zlib,
     version_texts = ([], [], []), uninit = (\<lambda>n. replicate n 7) \<rparr>"

definition sample_state :: "((errno + bytes) list, int, int, int) test_state" where
  "sample_state = \<lparr> w_os = [], w_ssl = 0, w_kdf = 0, w_z = 0, checks = 0, failures = 0 \<rparr>"

section \<open>Properties\<close>

text \<open>
  The compression part of the self-test (\<open>test_gzip\<close> in \<open>selftest.c\<close>) returns and passes all of its 12
  checks over every zlib that behaves as documented and a working entropy source: the framing, the length
  in the trailer, the round trips of a message and of 512 KiB of incompressible data within the bound the
  callers use, the refusal of buffers that are too small and of garbage, and the empty input.
\<close>

theorem gzip_selftest_passes:
  assumes "zlib_laws (lib_z L) gz" and "zlib_total (lib_z L)" and "gzip_format (lib_z L) gz"
    and "\<And>n. length (uninit L n) = n" and "random_total (lib_os L)"
  shows "\<exists>st'. test_gzip L st = Some (Return ((), st')) \<and> checks st' = checks st + 12 \<and> failures st' = failures st"
  using passes_test_gzip [OF assms] unfolding passes_def by fastforce

theorem gzip_selftest_passes_witness:
  "\<exists>st'. test_gzip sample_libs sample_state = Some (Return ((), st')) \<and> checks st' = checks sample_state + 12 \<and> failures st' = failures sample_state"
  by (rule gzip_selftest_passes [where gz = framed_gz])
    (simp_all add: sample_libs_def framed_zlib_laws random_total_Apple os_laws_sample)

end
