(* ===== verification/Selftest_Exact.thy ===== *)
theory Selftest_Exact
  imports Selftest
begin

text \<open>
  What the tests of \<open>selftest.c\<close> establish: each of them counts no failure if and only if an equation about
  the tested functions holds. The equations are put together by following the text of a test.
\<close>

unbundle bit_operations_syntax

section \<open>Exact tests\<close>

text \<open>
  \<open>exact w m w' P\<close>: started with the state \<open>w\<close> of the operating system, \<open>m\<close> returns without counting a failure
  exactly if \<open>P\<close> holds; if it returns at all, it has not taken back a failure and has left the state \<open>w'\<close>.
\<close>

definition exact :: "'w \<Rightarrow> (('w, 'v, 'x, 'u) test_state, unit) test \<Rightarrow> 'w \<Rightarrow> bool \<Rightarrow> bool" where
  "exact w m w' P \<longleftrightarrow> (\<forall>st. w_os st = w \<longrightarrow>
     ((\<exists>st'. m st = Some (Return ((), st')) \<and> failures st' = failures st) \<longleftrightarrow> P) \<and>
     (\<forall>st'. m st = Some (Return ((), st')) \<longrightarrow> w_os st' = w' \<and> failures st \<le> failures st'))"

text \<open>A call that makes no checks: its result does not depend on the states of the libraries.\<close>

definition returns :: "'w \<Rightarrow> (('w, 'v, 'x, 'u) test_state, 'a) test \<Rightarrow> 'a option \<Rightarrow> 'w \<Rightarrow> bool" where
  "returns w m X w' \<longleftrightarrow> (\<forall>st. w_os st = w \<longrightarrow> (case X of
       None \<Rightarrow> m st = None
     | Some a \<Rightarrow> \<exists>st'. m st = Some (Return (a, st')) \<and> w_os st' = w' \<and> failures st' = failures st))"

lemma exactD:
  assumes "exact w m w' P" and "w_os st = w"
  shows "(\<exists>st'. m st = Some (Return ((), st')) \<and> failures st' = failures st) \<longleftrightarrow> P"
  using assms unfolding exact_def by blast

lemma exact_CHECK: "exact w (CHECK b) w b"
  by (auto simp: exact_def CHECK_def)

lemma exact_seq:
  assumes "exact w m w1 P" and "exact w1 m' w2 P'"
  shows "exact w (tbind m (\<lambda>_. m')) w2 (P \<and> P')"
  unfolding exact_def
proof (intro allI impI)
  fix st :: "('a, 'b, 'c, 'd) test_state"
  assume st: "w_os st = w"
  note m = assms(1) [unfolded exact_def, rule_format, OF st]
  show "((\<exists>st'. tbind m (\<lambda>_. m') st = Some (Return ((), st')) \<and> failures st' = failures st) \<longleftrightarrow> P \<and> P') \<and>
     (\<forall>st'. tbind m (\<lambda>_. m') st = Some (Return ((), st')) \<longrightarrow> w_os st' = w2 \<and> failures st \<le> failures st')"
  proof (cases "m st")
    case (Some r)
    show ?thesis
    proof (cases r)
      case (Return p)
      obtain st1 where st1: "m st = Some (Return ((), st1))"
        using Some Return by (cases p) simp
      then have "w_os st1 = w1" "failures st \<le> failures st1" "P \<longleftrightarrow> failures st1 = failures st"
        using m by auto
      moreover from assms(2) [unfolded exact_def, rule_format, OF this(1)]
      have "(\<exists>st'. m' st1 = Some (Return ((), st')) \<and> failures st' = failures st1) \<longleftrightarrow> P'"
        and "\<And>st'. m' st1 = Some (Return ((), st')) \<Longrightarrow> w_os st' = w2 \<and> failures st1 \<le> failures st'"
        by blast+
      ultimately show ?thesis
        by (auto simp: tbind_def st1)
    qed (use m Some in \<open>simp add: tbind_def\<close>)
  qed (use m in \<open>simp add: tbind_def\<close>)
qed

lemma exact_check: "exact w (f ()) w' P \<Longrightarrow> exact w (tbind (CHECK b) f) w' (b \<and> P)"
  using exact_seq [OF exact_CHECK, of w "f ()" w' P b] by (simp add: tbind_def)

lemma exact_option:
  assumes "returns w m X w1" and "\<And>a. X = Some a \<Longrightarrow> exact w1 (f a) w2 (P a)"
  shows "exact w (tbind m f) w2 (\<exists>a. X = Some a \<and> P a)"
proof (cases X)
  case None
  then show ?thesis
    using assms(1) by (auto simp: exact_def returns_def tbind_def)
next
  case (Some a)
  show ?thesis
    unfolding exact_def
  proof (intro allI impI)
    fix st :: "('a, 'b, 'c, 'd) test_state"
    assume "w_os st = w"
    then obtain st1 where "m st = Some (Return (a, st1))" "w_os st1 = w1" "failures st1 = failures st"
      using assms(1) Some unfolding returns_def by auto
    with assms(2) [OF Some, unfolded exact_def, rule_format, of st1] Some
    show "((\<exists>st'. tbind m f st = Some (Return ((), st')) \<and> failures st' = failures st) \<longleftrightarrow> (\<exists>a. X = Some a \<and> P a)) \<and>
       (\<forall>st'. tbind m f st = Some (Return ((), st')) \<longrightarrow> w_os st' = w2 \<and> failures st \<le> failures st')"
      by (simp add: tbind_def)
  qed
qed

lemma exact_call: "returns w m (Some a) w1 \<Longrightarrow> exact w1 (f a) w2 P \<Longrightarrow> exact w (tbind m f) w2 P"
  using exact_option [of w m "Some a" w1 f w2 "\<lambda>_. P"] by simp

lemma exact_cong: "exact w m w' P \<Longrightarrow> P \<longleftrightarrow> Q \<Longrightarrow> exact w m w' Q"
  by simp

lemma exact_pair: "exact w (f a b) w' P \<Longrightarrow> exact w (case (a, b) of (a, b) \<Rightarrow> f a b) w' P"
  by simp

lemma exact_tret: "exact w (tret ()) w True"
  by (simp add: exact_def tret_def)

lemma exact_tseq: "(\<And>x. x \<in> set xs \<Longrightarrow> exact w (f x) w (P x)) \<Longrightarrow> exact w (tseq (map f xs)) w (\<forall>x\<in>set xs. P x)"
proof (induction xs)
  case (Cons x xs)
  then show ?case
    using exact_seq [of w "f x" w "P x" "tseq (map f xs)" w] by simp
qed (simp add: exact_tret)

lemma memcmp_eq_iff: "length a = n \<Longrightarrow> length b = n \<Longrightarrow> memcmp_eq a b n \<longleftrightarrow> a = b"
  by (simp add: memcmp_eq_def)

section \<open>The known-answer tests of ML-KEM\<close>

lemma returns_keypair_derand:
  assumes "\<And>n. length (uninit L n) = n" and "length coins = 64"
  shows "returns w (do_keypair_derand L coins) (map_option (\<lambda>(pk, sk). (0, pk, sk)) (crypto_kem_keypair_derand coins)) w"
  using kem_keypair_length [OF _ assms(2)] assms(1)
  by (auto simp: returns_def do_keypair_derand_def write_at_all E2EE_MLKEM_PK_SIZE_def E2EE_MLKEM_SK_SIZE_def split: option.split)

lemma returns_enc_derand:
  assumes "\<And>n. length (uninit L n) = n" and "length m = 32" and "length pk = 1184"
  shows "returns w (do_enc_derand L pk m) (map_option (\<lambda>(ct, ss). (0, ct, ss)) (crypto_kem_enc_derand pk m)) w"
  using kem_enc_length [OF _ assms(2,3)] assms(1)
  by (auto simp: returns_def do_enc_derand_def write_at_all E2EE_MLKEM_CT_SIZE_def split: option.split)

lemma returns_decapsulate:
  assumes "\<And>n. length (uninit L n) = n" and "length ct = 1088" and "length sk = 2400"
  shows "returns w (test_decapsulate L sk ct) (map_option (\<lambda>ss. (0, ss)) (crypto_kem_dec ct sk)) w"
  using assms(1) by (auto simp: returns_def test_decapsulate_def do_decapsulate_eq [OF assms(2,3)] split: option.split)

lemma kat_lengths:
  "length KAT_KEYGEN_D = 32" "length KAT_KEYGEN_Z = 32" "length KAT_KEYGEN_EK = 1184" "length KAT_KEYGEN_DK = 2400"
  "length KAT_ENCAP_EK = 1184" "length KAT_ENCAP_DK = 2400" "length KAT_ENCAP_M = 32" "length KAT_ENCAP_C = 1088" "length KAT_ENCAP_K = 32"
  "length KAT_DECAP_VALID_DK = 2400" "length KAT_DECAP_VALID_C = 1088" "length KAT_DECAP_VALID_K = 32"
  "length KAT_DECAP_REJECT_DK = 2400" "length KAT_DECAP_REJECT_C = 1088" "length KAT_DECAP_REJECT_K = 32"
  by (simp_all add: KAT_KEYGEN_D_def KAT_KEYGEN_Z_def KAT_KEYGEN_EK_def KAT_KEYGEN_DK_def
      KAT_ENCAP_EK_def KAT_ENCAP_DK_def KAT_ENCAP_M_def KAT_ENCAP_C_def KAT_ENCAP_K_def
      KAT_DECAP_VALID_DK_def KAT_DECAP_VALID_C_def KAT_DECAP_VALID_K_def
      KAT_DECAP_REJECT_DK_def KAT_DECAP_REJECT_C_def KAT_DECAP_REJECT_K_def)

lemma exact_keypair_derand:
  assumes "\<And>n. length (uninit L n) = n" and "length coins = 64" and "length ek = 1184" "length dk = 2400"
  shows "exact w (tbind (do_keypair_derand L coins) (\<lambda>(rc, pk, sk). tbind (CHECK (rc = 0)) (\<lambda>_.
      tbind (CHECK (memcmp_eq pk ek E2EE_MLKEM_PK_SIZE)) (\<lambda>_. CHECK (memcmp_eq sk dk E2EE_MLKEM_SK_SIZE))))) w
    (crypto_kem_keypair_derand coins = Some (ek, dk))"
proof -
  have "exact w (tbind (do_keypair_derand L coins) (\<lambda>(rc, pk, sk). tbind (CHECK (rc = 0)) (\<lambda>_.
      tbind (CHECK (memcmp_eq pk ek E2EE_MLKEM_PK_SIZE)) (\<lambda>_. CHECK (memcmp_eq sk dk E2EE_MLKEM_SK_SIZE))))) w
    (\<exists>a. map_option (\<lambda>(pk, sk). (0, pk, sk)) (crypto_kem_keypair_derand coins) = Some a \<and>
      (case a of (rc, pk, sk) \<Rightarrow> rc = (0 :: int) \<and> memcmp_eq pk ek E2EE_MLKEM_PK_SIZE \<and> memcmp_eq sk dk E2EE_MLKEM_SK_SIZE))"
    by (rule exact_option [OF returns_keypair_derand [OF assms(1,2)]]) (auto split: prod.split intro!: exact_check exact_CHECK)
  then show ?thesis
    by (rule exact_cong) (use kem_keypair_length [OF _ assms(2)] assms(3,4) in
      \<open>auto simp: memcmp_eq_iff E2EE_MLKEM_PK_SIZE_def E2EE_MLKEM_SK_SIZE_def\<close>)
qed

lemma exact_enc_derand:
  assumes "\<And>n. length (uninit L n) = n" and "length m = 32" and "length pk = 1184" and "length c = 1088" "length k = 32"
  shows "exact w (tbind (do_enc_derand L pk m) (\<lambda>(rc, ct, ss). tbind (CHECK (rc = 0)) (\<lambda>_.
      tbind (CHECK (memcmp_eq ct c E2EE_MLKEM_CT_SIZE)) (\<lambda>_. CHECK (memcmp_eq ss k 32))))) w
    (crypto_kem_enc_derand pk m = Some (c, k))"
proof -
  have "exact w (tbind (do_enc_derand L pk m) (\<lambda>(rc, ct, ss). tbind (CHECK (rc = 0)) (\<lambda>_.
      tbind (CHECK (memcmp_eq ct c E2EE_MLKEM_CT_SIZE)) (\<lambda>_. CHECK (memcmp_eq ss k 32))))) w
    (\<exists>a. map_option (\<lambda>(ct, ss). (0, ct, ss)) (crypto_kem_enc_derand pk m) = Some a \<and>
      (case a of (rc, ct, ss) \<Rightarrow> rc = (0 :: int) \<and> memcmp_eq ct c E2EE_MLKEM_CT_SIZE \<and> memcmp_eq ss k 32))"
    by (rule exact_option [OF returns_enc_derand [OF assms(1-3)]]) (auto split: prod.split intro!: exact_check exact_CHECK)
  then show ?thesis
    by (rule exact_cong) (use kem_enc_length [OF _ assms(2,3)] assms(4,5) in
      \<open>auto simp: memcmp_eq_iff E2EE_MLKEM_CT_SIZE_def\<close>)
qed

lemma exact_decapsulate:
  assumes "\<And>n. length (uninit L n) = n" and "length ct = 1088" and "length sk = 2400" and "length k = 32"
  shows "exact w (tbind (test_decapsulate L sk ct) (\<lambda>(rc, ss). tbind (CHECK (rc = 0)) (\<lambda>_. CHECK (memcmp_eq ss k 32)))) w
    (crypto_kem_dec ct sk = Some k)"
proof -
  have "exact w (tbind (test_decapsulate L sk ct) (\<lambda>(rc, ss). tbind (CHECK (rc = 0)) (\<lambda>_. CHECK (memcmp_eq ss k 32)))) w
    (\<exists>a. map_option (\<lambda>ss. (0, ss)) (crypto_kem_dec ct sk) = Some a \<and>
      (case a of (rc, ss) \<Rightarrow> rc = (0 :: int) \<and> memcmp_eq ss k 32))"
    by (rule exact_option [OF returns_decapsulate [OF assms(1-3)]]) (auto split: prod.split intro!: exact_check exact_CHECK)
  then show ?thesis
    by (rule exact_cong) (use kem_dec_length [OF _ assms(2,3)] assms(4) in \<open>auto simp: memcmp_eq_iff\<close>)
qed

lemma exact_test_mlkem_kat:
  assumes "\<And>n. length (uninit L n) = n"
  shows "exact w (test_mlkem_kat L) w
    (crypto_kem_keypair_derand (KAT_KEYGEN_D @ KAT_KEYGEN_Z) = Some (KAT_KEYGEN_EK, KAT_KEYGEN_DK) \<and>
     crypto_kem_enc_derand KAT_ENCAP_EK KAT_ENCAP_M = Some (KAT_ENCAP_C, KAT_ENCAP_K) \<and>
     crypto_kem_dec KAT_ENCAP_C KAT_ENCAP_DK = Some KAT_ENCAP_K \<and>
     crypto_kem_dec KAT_DECAP_VALID_C KAT_DECAP_VALID_DK = Some KAT_DECAP_VALID_K \<and>
     crypto_kem_dec KAT_DECAP_REJECT_C KAT_DECAP_REJECT_DK = Some KAT_DECAP_REJECT_K)"
proof -
  note parts = exact_seq [OF exact_keypair_derand [OF assms] exact_seq [OF exact_enc_derand [OF assms]
    exact_seq [OF exact_decapsulate [OF assms] exact_seq [OF exact_decapsulate [OF assms] exact_decapsulate [OF assms]]]]]
  show ?thesis
    using parts [of "KAT_KEYGEN_D @ KAT_KEYGEN_Z" KAT_KEYGEN_EK KAT_KEYGEN_DK KAT_ENCAP_M KAT_ENCAP_EK KAT_ENCAP_C KAT_ENCAP_K
        KAT_ENCAP_C KAT_ENCAP_DK KAT_ENCAP_K KAT_DECAP_VALID_C KAT_DECAP_VALID_DK KAT_DECAP_VALID_K
        KAT_DECAP_REJECT_C KAT_DECAP_REJECT_DK KAT_DECAP_REJECT_K w]
    by (simp add: test_mlkem_kat_def kat_lengths tbind_assoc tbind_split)
qed

section \<open>The tests of authenticated encryption\<close>

lemma returns_ssl: "(\<And>st. \<exists>v. m st = Some (Return (a, st\<lparr> w_ssl := v \<rparr>))) \<Longrightarrow> returns w m (Some a) w"
  unfolding returns_def option.case by fastforce

lemma exact_seal:
  assumes "evp_laws (lib_ssl L) view ks mac" and "evp_total (lib_ssl L) view mac" and "n \<le> length pt" and "n \<le> length ct"
    and "aead_seal ks mac (take 32 key) (take 12 nonce) (take n pt) = (c, t)"
    and "exact w (f (0, write_at ct 0 c, write_at tag 0 t)) w' P"
  shows "exact w (tbind (do_seal L key nonce pt n ct tag) f) w' P"
proof (rule exact_call)
  show "returns w (do_seal L key nonce pt n ct tag) (Some (0, write_at ct 0 c, write_at tag 0 t)) w"
    by (rule returns_ssl) (rule do_seal_eq [OF assms(1-5)])
qed (rule assms(6))

text \<open>A call of \<open>e2ee_chacha20_open\<close>: it accepts or wipes.\<close>

lemma exact_open:
  assumes "evp_laws (lib_ssl L) view ks mac" and "evp_total (lib_ssl L) view mac" and n: "n \<le> length ct" "n \<le> length pt"
    and rest: "\<And>rc p. (rc = (0 :: int)) = (take 16 tag = mac (take 32 key) (take 12 nonce) (take n ct)) \<Longrightarrow> length p = length pt \<Longrightarrow>
      take n p = (if take 16 tag = mac (take 32 key) (take 12 nonce) (take n ct)
        then stream_xor (ks (take 32 key) (take 12 nonce)) 0 (take n ct) else replicate n 0) \<Longrightarrow> exact w (f (rc, p)) w' P"
  shows "exact w (tbind (do_open L key nonce ct n tag pt) f) w' P"
proof -
  obtain rc p where rp: "(case aead_open ks mac (take 32 key) (take 12 nonce) (take n ct) (take 16 tag) of
       Some p \<Rightarrow> (0 :: int, write_at pt 0 p) | None \<Rightarrow> (- 1, write_at pt 0 (replicate n 0))) = (rc, p)"
    by (metis surj_pair)
  have "returns w (do_open L key nonce ct n tag pt) (Some (rc, p)) w"
    by (rule returns_ssl) (use do_open_eq [OF assms(1-4), of key nonce tag] in \<open>unfold rp\<close>)
  moreover have "exact w (f (rc, p)) w' P"
    using rp n by (intro rest) (auto simp: aead_open_def write_at_def split: if_splits)
  ultimately show ?thesis
    by (rule exact_call)
qed

lemma exact_checkI: "b \<longleftrightarrow> B \<Longrightarrow> exact w (f ()) w' P \<Longrightarrow> exact w (tbind (CHECK b) f) w' (B \<and> P)"
  using exact_check by simp

lemma exact_CHECKI: "b \<longleftrightarrow> B \<Longrightarrow> exact w (CHECK b) w B"
  using exact_CHECK by simp

definition flip_ct :: "bytes \<Rightarrow> bytes" where
  "flip_ct ct = ct[length ct div 2 := ct ! (length ct div 2) XOR 0x01]"

definition flip_iv :: "bytes \<Rightarrow> bytes" where
  "flip_iv iv = iv[0 := iv ! 0 XOR 0x01]"

text \<open>What a case of the Wycheproof vectors says of a keystream and an authenticator.\<close>

definition aead_case_holds :: "keystream \<Rightarrow> mac \<Rightarrow> aead_case_t \<Rightarrow> bool" where
  "aead_case_holds ks mac c \<longleftrightarrow>
     (let n = ae_msg_len c; ct = take n (ae_ct c) in
      aead_seal ks mac (ae_key c) (ae_iv c) (take n (ae_msg c)) = (ct, ae_tag c) \<and>
      (0 < n \<longrightarrow> aead_open ks mac (ae_key c) (ae_iv c) (flip_ct ct) (ae_tag c) = None) \<and>
      aead_open ks mac (ae_key c) (flip_iv (ae_iv c)) ct (ae_tag c) = None)"

lemma exact_corrupt:
  assumes laws: "evp_laws (lib_ssl L) view ks mac" "evp_total (lib_ssl L) view mac"
    and "length (ae_key c) = 32" "length (ae_iv c) = 12" "length (ae_tag c) = 16" "n \<le> length (ae_ct c)"
    and "n \<le> length ct" "n \<le> length pt"
    and rest: "\<And>p. length p = length pt \<Longrightarrow> exact w (f p) w' P"
  shows "exact w (tbind (aead_case_corrupt L c n ct pt) f) w'
    ((0 < n \<longrightarrow> aead_open ks mac (ae_key c) (ae_iv c) (flip_ct (take n (ae_ct c))) (ae_tag c) = None) \<and> P)"
proof (cases "n = 0")
  case True
  then show ?thesis
    using rest [of pt] by (simp add: aead_case_corrupt_def tbind_tret)
next
  case False
  define bad where "bad = (write_at ct 0 (take n (ae_ct c)))[n div 2 := write_at ct 0 (take n (ae_ct c)) ! (n div 2) XOR 0x01]"
  have bad: "take n bad = flip_ct (take n (ae_ct c))" "n \<le> length bad"
    using assms(6,7) False by (simp_all add: bad_def flip_ct_def write_at_def take_update_swap min_absorb2 nth_append)
  let ?V = "ae_tag c = mac (ae_key c) (ae_iv c) (take n bad)"
  have "exact w (tbind (do_open L (ae_key c) (ae_iv c) bad n (ae_tag c) pt) (\<lambda>(rc, pt).
      tbind (CHECK (rc \<noteq> 0)) (\<lambda>_. tbind (CHECK (list_all (\<lambda>b. b = 0) (take n pt))) (\<lambda>_. f pt)))) w'
    (\<not> ?V \<and> (?V \<longrightarrow> list_all (\<lambda>b. b = 0) (stream_xor (ks (ae_key c) (ae_iv c)) 0 (take n bad))) \<and> P)"
    by (rule exact_open [OF laws bad(2) assms(8)], (intro exact_pair exact_checkI rest)) (use assms(3-5) in \<open>auto simp: list_all_iff\<close>)
  then have "exact w (tbind (aead_case_corrupt L c n ct pt) f) w'
    (\<not> ?V \<and> (?V \<longrightarrow> list_all (\<lambda>b. b = 0) (stream_xor (ks (ae_key c) (ae_iv c)) 0 (take n bad))) \<and> P)"
    using False by (simp add: aead_case_corrupt_def tbind_assoc tbind_split tbind_tret bad_def Let_def)
  then show ?thesis
    by (rule exact_cong) (use False bad(1) in \<open>simp_all add: aead_open_def\<close>)
qed

lemma xor_neq: "b \<noteq> 0 \<Longrightarrow> a XOR b \<noteq> (a :: u8)"
proof
  assume "a XOR b = a" and "b \<noteq> 0"
  then have "a XOR (a XOR b) = 0"
    by simp
  then show False
    using \<open>b \<noteq> 0\<close> unfolding xor.assoc [symmetric] by simp
qed

lemma flip_neq: "i < length xs \<Longrightarrow> b \<noteq> 0 \<Longrightarrow> xs[i := xs ! i XOR b] \<noteq> (xs :: bytes)"
  using xor_neq [of b "xs ! i"] by (metis nth_list_update_eq)

lemma exact_aead_case:
  assumes laws: "evp_laws (lib_ssl L) view ks mac" "evp_total (lib_ssl L) view mac" and uninit: "\<And>n. length (uninit L n) = n"
    and c: "length (ae_key c) = 32" "length (ae_iv c) = 12" "length (ae_tag c) = 16" "ae_msg_len c \<le> length (ae_msg c)" "ae_msg_len c \<le> length (ae_ct c)"
  shows "exact w (aead_case_test L i c) w (aead_case_holds ks mac c)"
proof -
  define n where "n = ae_msg_len c"
  define msg where "msg = take n (ae_msg c)"
  define ct where "ct = take n (ae_ct c)"
  define C where "C = stream_xor (ks (ae_key c) (ae_iv c)) 0 msg"
  define T where "T = mac (ae_key c) (ae_iv c) C"
  define V where "V \<longleftrightarrow> ae_tag c = mac (ae_key c) (ae_iv c) ct"
  define badtag where "badtag = (ae_tag c)[i mod 16 := ae_tag c ! (i mod 16) XOR 0x80]"
  have badtag: "length badtag = 16" "badtag \<noteq> ae_tag c"
    using flip_neq [of "i mod 16" "ae_tag c" "0x80"] c(3) by (simp_all add: badtag_def)
  have lens: "length msg = n" "length ct = n" "length C = n" "length T = 16"
    using c laws(1) by (simp_all add: msg_def ct_def C_def T_def n_def evp_laws_def)
  have seal: "aead_seal ks mac (take 32 (ae_key c)) (take 12 (ae_iv c)) (take n (ae_msg c)) = (C, T)"
    using c by (simp add: aead_seal_def C_def T_def msg_def Let_def)
  note len = c [folded n_def] uninit [of "n + 1"]
  have room: "n \<le> length (uninit L (n + 1))"
    by (simp add: uninit)
  have "exact w (aead_case_test L i c) w
    (True \<and> C = ct \<and> T = ae_tag c \<and> V \<and> (if V then stream_xor (ks (ae_key c) (ae_iv c)) 0 ct else replicate n 0) = msg \<and>
     badtag \<noteq> mac (ae_key c) (ae_iv c) ct \<and>
     (0 < n \<longrightarrow> aead_open ks mac (ae_key c) (ae_iv c) (flip_ct ct) (ae_tag c) = None) \<and>
     ae_tag c \<noteq> mac (ae_key c) (flip_iv (ae_iv c)) ct)"
    unfolding aead_case_test_def Let_def n_def [symmetric] badtag_def [symmetric] flip_iv_def [symmetric] ct_def msg_def
    by (rule exact_seal [OF laws len(4) room seal],
        intro exact_pair exact_checkI exact_CHECKI exact_open [OF laws] exact_corrupt [OF laws])
      (use len lens badtag in \<open>simp_all add: memcmp_eq_def V_def ct_def msg_def flip_iv_def write_at_def\<close>)
  then show ?thesis
    by (rule exact_cong) (use badtag(2) in \<open>auto simp: aead_case_holds_def aead_seal_def aead_open_def Let_def V_def C_def T_def simp flip: n_def msg_def ct_def\<close>)
qed

lemma returns_random:
  assumes "e2ee_random_bytes (lib_os L) (Some out) n w = Some (Return (Some bs, w'))"
  shows "returns w (do_random L out n) (Some bs) w'"
  using assms by (simp add: returns_def do_random_def)

text \<open>Opening what was sealed with the same key and nonce.\<close>

lemma exact_open_sealed:
  assumes laws: "evp_laws (lib_ssl L) view ks mac" "evp_total (lib_ssl L) view mac"
    and n: "length key = 32" "length nonce = 12" "n = length pt" "n = length out"
    and rest: "\<And>p. take n p = pt \<Longrightarrow> exact w (f (0, p)) w' P"
  shows "exact w (tbind (do_open L key nonce (stream_xor (ks key nonce) 0 pt) n (mac key nonce (stream_xor (ks key nonce) 0 pt)) out) f) w' P"
proof (rule exact_open [OF laws])
  have "length (mac key nonce (stream_xor (ks key nonce) 0 pt)) = 16"
    using laws(1) by (simp add: evp_laws_def)
  note len = n this
  let ?ct = "stream_xor (ks key nonce) 0 pt"
  show "exact w (f (rc, p)) w' P"
    if "(rc = 0) = (take 16 (mac key nonce ?ct) = mac (take 32 key) (take 12 nonce) (take n ?ct))"
      and "take n p = (if take 16 (mac key nonce ?ct) = mac (take 32 key) (take 12 nonce) (take n ?ct)
        then stream_xor (ks (take 32 key) (take 12 nonce)) 0 (take n ?ct) else replicate n 0)" for rc p
    using that len rest [of p] by simp
qed (use n in simp_all)

text \<open>Sealing into buffers of the right sizes.\<close>

lemma exact_seal_all:
  assumes laws: "evp_laws (lib_ssl L) view ks mac" "evp_total (lib_ssl L) view mac"
    and n: "length key = 32" "length nonce = 12" "n = length pt" "n = length ct" "length tag = 16"
    and rest: "exact w (f (0, stream_xor (ks key nonce) 0 pt, mac key nonce (stream_xor (ks key nonce) 0 pt))) w' P"
  shows "exact w (tbind (do_seal L key nonce pt n ct tag) f) w' P"
proof -
  let ?c = "stream_xor (ks key nonce) 0 pt"
  have "length (mac key nonce ?c) = 16"
    using laws(1) by (simp add: evp_laws_def)
  then have "exact w (f (0, write_at ct 0 ?c, write_at tag 0 (mac key nonce ?c))) w' P"
    using n rest by (simp add: write_at_all)
  then show ?thesis
    by (rule exact_seal [OF laws, rotated -1]) (use n in \<open>simp_all add: aead_seal_def Let_def\<close>)
qed

lemma exact_rfc8439:
  assumes laws: "evp_laws (lib_ssl L) view ks mac" "evp_total (lib_ssl L) view mac" and uninit: "\<And>n. length (uninit L n) = n"
  shows "exact w (test_chacha20_rfc8439 L) w (stream_xor (ks KAT_RFC8439_KEY KAT_RFC8439_NONCE) 0 KAT_RFC8439_PT = KAT_RFC8439_CT)"
proof -
  have len: "length KAT_RFC8439_KEY = 32" "length KAT_RFC8439_NONCE = 12" "length KAT_RFC8439_PT = KAT_RFC8439_PT_LEN" "length KAT_RFC8439_CT = KAT_RFC8439_PT_LEN"
    by (simp_all add: KAT_RFC8439_KEY_def KAT_RFC8439_NONCE_def KAT_RFC8439_PT_def KAT_RFC8439_CT_def KAT_RFC8439_PT_LEN_def)
  show ?thesis
    unfolding test_chacha20_rfc8439_def
    by (rule exact_cong [where P = "True \<and> stream_xor (ks KAT_RFC8439_KEY KAT_RFC8439_NONCE) 0 KAT_RFC8439_PT = KAT_RFC8439_CT \<and> True \<and> True"],
        intro exact_seal_all [OF laws] exact_pair exact_checkI exact_open_sealed [OF laws] exact_CHECKI)
      (use len uninit in \<open>auto simp: memcmp_eq_def\<close>)
qed

lemma exact_aead_large:
  assumes laws: "evp_laws (lib_ssl L) view ks mac" "evp_total (lib_ssl L) view mac" and uninit: "\<And>n. length (uninit L n) = n"
    and r: "e2ee_random_bytes (lib_os L) (Some (uninit L 32)) 32 w = Some (Return (Some key, w1))" "length key = 32"
      "e2ee_random_bytes (lib_os L) (Some (uninit L 12)) 12 w1 = Some (Return (Some nonce, w2))" "length nonce = 12"
  shows "exact w (aead_large_test L) w2 True"
proof -
  define n :: nat where "n = 2 ^ 20"
  define buf :: bytes where "buf = map (\<lambda>k. of_nat (k * 31)) [0..<n]"
  have "exact w (aead_large_test L) w2 (True \<and> True \<and> True)"
    unfolding aead_large_test_def Let_def n_def [symmetric] buf_def [symmetric]
    by (intro exact_call [OF returns_random [OF r(1)]] exact_call [OF returns_random [OF r(3)]]
        exact_seal_all [OF laws] exact_pair exact_checkI exact_open_sealed [OF laws] exact_CHECKI)
      (use r uninit in \<open>auto simp: memcmp_eq_def buf_def\<close>)
  then show ?thesis
    by simp
qed

lemma exact_aead_cases:
  assumes laws: "evp_laws (lib_ssl L) view ks mac" "evp_total (lib_ssl L) view mac" and uninit: "\<And>n. length (uninit L n) = n"
  shows "exact w (tseq (map (\<lambda>(i, c). aead_case_test L i c) (enumerate 0 AEAD_CASES))) w (\<forall>c\<in>set AEAD_CASES. aead_case_holds ks mac c)"
proof (rule exact_cong)
  show "exact w (tseq (map (\<lambda>(i, c). aead_case_test L i c) (enumerate 0 AEAD_CASES))) w
      (\<forall>x\<in>set (enumerate 0 AEAD_CASES). aead_case_holds ks mac (snd x))"
  proof (rule exact_tseq)
    fix x
    assume "x \<in> set (enumerate 0 AEAD_CASES)"
    then have "snd x \<in> set AEAD_CASES"
      by (metis in_set_conv_nth length_map map_snd_enumerate nth_map)
    from aead_cases_sizes [OF this]
    show "exact w (case x of (i, c) \<Rightarrow> aead_case_test L i c) w (aead_case_holds ks mac (snd x))"
      by (cases x) (auto intro: exact_aead_case [OF laws uninit])
  qed
  have "set AEAD_CASES = snd ` set (enumerate 0 AEAD_CASES)"
    by (simp flip: list.set_map)
  then show "(\<forall>x\<in>set (enumerate 0 AEAD_CASES). aead_case_holds ks mac (snd x)) = (\<forall>c\<in>set AEAD_CASES. aead_case_holds ks mac c)"
    by simp
qed

section \<open>The tests of key derivation, randomness and the stubs\<close>

lemma returns_kdf: "(\<And>st. \<exists>x. m st = Some (Return (a, st\<lparr> w_kdf := x \<rparr>))) \<Longrightarrow> returns w m (Some a) w"
  unfolding returns_def option.case by fastforce

lemma exact_hkdf:
  assumes laws: "kdf_laws (lib_kdf L) view hmac" "kdf_total (lib_kdf L)"
    and args: "salt_len = 0 \<or> salt = Some s" "info_len = 0 \<or> info = Some i"
      "0 < ikm_len" "ikm_len \<le> INT_MAX" "salt_len \<le> INT_MAX" "info_len \<le> INT_MAX" "0 < n" "n \<le> 8160" "n \<le> length out"
    and rest: "exact w (f (0, hkdf (hmac (EVP_sha256 (lib_kdf L))) (take salt_len s) (take ikm_len ikm) (take info_len i) n @ drop n out)) w' P"
  shows "exact w (tbind (do_hkdf L ikm ikm_len salt salt_len info info_len out n) f) w' P"
proof (rule exact_call)
  show "returns w (do_hkdf L ikm ikm_len salt salt_len info info_len out n)
      (Some (0, hkdf (hmac (EVP_sha256 (lib_kdf L))) (take salt_len s) (take ikm_len ikm) (take info_len i) n @ drop n out)) w"
    by (rule returns_kdf) (rule do_hkdf_eq [OF laws args])
qed (rule rest)

text \<open>What a case of RFC 5869 says of an authenticator.\<close>

definition hkdf_case_holds :: "hmac \<Rightarrow> hkdf_case_t \<Rightarrow> bool" where
  "hkdf_case_holds hmac c \<longleftrightarrow>
     hkdf hmac (take (hk_salt_len c) (hk_salt c)) (take (hk_ikm_len c) (hk_ikm c)) (take (hk_info_len c) (hk_info c)) (hk_okm_len c)
       = take (hk_okm_len c) (hk_okm c)"

lemma exact_hkdf_case:
  assumes laws: "kdf_laws (lib_kdf L) view hmac" "kdf_total (lib_kdf L)" and uninit: "\<And>n. length (uninit L n) = n"
    and c: "c \<in> set HKDF_CASES"
  shows "exact w (hkdf_case_test L c) w (hkdf_case_holds (hmac (EVP_sha256 (lib_kdf L))) c)"
proof -
  have len: "length (hkdf (hmac (EVP_sha256 (lib_kdf L))) s k i n) = n" for s k i n
    using laws(1) by (intro length_hkdf) (simp add: kdf_laws_def)
  have "exact w (hkdf_case_test L c) w (True \<and> hkdf_case_holds (hmac (EVP_sha256 (lib_kdf L))) c)"
    unfolding hkdf_case_test_def
    by (rule exact_hkdf [OF laws, where s = "hk_salt c" and i = "hk_info c", rotated -1], intro exact_pair exact_checkI exact_CHECKI)
      (use hkdf_cases_sizes [OF c] uninit len in \<open>auto simp: INT_MAX_def memcmp_eq_def hkdf_case_holds_def\<close>)
  then show ?thesis
    by simp
qed

text \<open>The two keys of the protocol, and the request for more than RFC 5869 allows.\<close>

lemma exact_hkdf_protocol:
  assumes laws: "kdf_laws (lib_kdf L) view hmac" "kdf_total (lib_kdf L)" and uninit: "\<And>n. length (uninit L n) = n"
    and r: "e2ee_random_bytes (lib_os L) (Some (uninit L 32)) 32 w = Some (Return (Some ss, w1))" "length ss = 32"
      "e2ee_random_bytes (lib_os L) (Some (uninit L 16)) 16 w1 = Some (Return (Some salt, w2))" "length salt = 16"
  shows "exact w (hkdf_protocol_test L) w2 (hkdf (hmac (EVP_sha256 (lib_kdf L))) salt ss (map of_char ''e2e-req-v1'') 32
    \<noteq> hkdf (hmac (EVP_sha256 (lib_kdf L))) salt ss (map of_char ''e2e-resp-v1'') 32)" (is "exact _ _ _ (?key1 \<noteq> ?key2)")
proof -
  have len: "length (hkdf (hmac (EVP_sha256 (lib_kdf L))) s k i n) = n" for s k i n
    using laws(1) by (intro length_hkdf) (simp add: kdf_laws_def)
  have info: "take 10 (c_string ''e2e-req-v1'') = map of_char ''e2e-req-v1''" "take 11 (c_string ''e2e-resp-v1'') = map of_char ''e2e-resp-v1''"
    by (simp_all add: c_string_def)
  have refuse: "returns w2 (do_hkdf L ss 32 (Some salt) 16 (Some (c_string ''x'')) 1 key (255 * 32 + 1)) (Some (- 1, key)) w2" for key
    by (simp add: returns_def do_hkdf_def e2ee_hkdf_sha256_def)
  have "exact w (hkdf_protocol_test L) w2 (True \<and> True \<and> ?key1 \<noteq> ?key2 \<and> True)"
    unfolding hkdf_protocol_test_def
    by (intro exact_call [OF returns_random [OF r(1)]] exact_call [OF returns_random [OF r(3)]]
        exact_hkdf [OF laws disjI2 [OF refl] disjI2 [OF refl]] exact_pair exact_checkI exact_call [OF refuse] exact_CHECKI)
      (use r uninit info len in \<open>auto simp: INT_MAX_def memcmp_eq_def\<close>)
  then show ?thesis
    by simp
qed

lemma promote_zero: "(ucast x :: i32) = 0 \<longleftrightarrow> x = (0 :: u8)"
proof
  assume "(ucast x :: i32) = 0"
  then have none: "\<not> bit (ucast x :: i32) i" for i
    by simp
  have "\<not> bit x i" for i
    using none [of i] bit_imp_le_length [of x i] by (simp add: bit_simps) linarith
  then show "x = 0"
    by (simp add: bit_eq_iff)
qed simp

lemma fold_or_zero: "fold (\<lambda>i nz. nz OR ucast (xs ! i)) [0..<n] 0 = (0 :: i32) \<longleftrightarrow> (\<forall>i<n. xs ! i = (0 :: u8))"
proof (induction n)
  case (Suc n)
  then show ?case
    by (simp add: promote_zero or_eq_0_iff less_Suc_eq all_conj_distrib)
qed simp

lemma build_info_mlkem: "sublist ''mlkem='' (e2ee_build_info openssl zlib date)"
proof -
  have "e2ee_build_info openssl zlib date = ''e2ee-proxy native '' @ ''mlkem='' @ (E2EE_MLKEM_BACKEND_NAME
     @ '' crypto='' @ openssl @ '' zlib='' @ zlib @ '' built='' @ date)"
    by (simp add: e2ee_build_info_def)
  then show ?thesis
    by (metis sublist_appendI)
qed

lemma exact_random_and_stubs:
  assumes "e2ee_random_bytes (lib_os L) (Some (replicate 32 0)) 32 w = Some (Return (Some a, w1))" "length a = 32"
    and "e2ee_random_bytes (lib_os L) (Some (replicate 32 0)) 32 w1 = Some (Return (Some b, w2))" "length b = 32"
  shows "exact w (test_random_and_stubs L) w2 (a \<noteq> b \<and> a \<noteq> replicate 32 0)"
proof -
  obtain openssl zlib date where v: "version_texts L = (openssl, zlib, date)"
    by (metis surj_pair)
  have zero: "a = replicate 32 0 \<longleftrightarrow> (\<forall>i<32. a ! i = 0)"
    using assms(2) by (auto simp: list_eq_iff_nth_eq)
  have "exact w (test_random_and_stubs L) w2 (a \<noteq> b \<and> a \<noteq> replicate 32 0 \<and> True \<and> True \<and> True \<and> True)"
    unfolding test_random_and_stubs_def v Let_def e2ee_get_cert_der_def e2ee_get_privkey_der_def no_embedded_material_def prod.case
    by (intro exact_call [OF returns_random [OF assms(1)]] exact_call [OF returns_random [OF assms(3)]] exact_checkI exact_CHECKI)
      (use assms(2,4) zero in \<open>auto simp: memcmp_eq_iff fold_or_zero e2ee_init_def build_info_mlkem\<close>)
  then show ?thesis
    by simp
qed

section \<open>The round trips of ML-KEM\<close>

lemma entropy_total: "entropy os rnd \<Longrightarrow> random_total os"
  unfolding random_total_def by (intro allI impI exI conjI) (erule (1) entropyD(1), erule (1) entropyD(3))

lemma returns_keygen:
  assumes "entropy (lib_os L) rnd" and "\<And>n. length (uninit L n) = n"
  shows "returns w (test_keygen L) (map_option (\<lambda>(pk, sk). (0, pk, sk)) (crypto_kem_keypair_derand (fst (rnd 64 w)))) (snd (rnd 64 w))"
  using assms(2) unfolding returns_def test_keygen_def
  by (auto simp: do_keygen_eq [OF assms(1)] E2EE_MLKEM_PK_SIZE_def E2EE_MLKEM_SK_SIZE_def split: option.split)

lemma returns_encapsulate:
  assumes "entropy (lib_os L) rnd" and "\<And>n. length (uninit L n) = n" and "length pk = 1184"
  shows "returns w (test_encapsulate L pk) (map_option (\<lambda>(ct, ss). (0, ct, ss)) (crypto_kem_enc_derand pk (fst (rnd 32 w)))) (snd (rnd 32 w))"
  using assms(2) unfolding returns_def test_encapsulate_def
  by (auto simp: do_encapsulate_eq [OF assms(1,3)] E2EE_MLKEM_CT_SIZE_def split: option.split)

definition flip_at :: "nat \<Rightarrow> bytes \<Rightarrow> bytes" where
  "flip_at k ct = ct[k := ct ! k XOR 0x01]"

text \<open>
  What an iteration says of the coins \<open>d\<close> of key generation and \<open>m\<close> of encapsulation: the holder of the key
  obtains the secret, and a different one from the ciphertext with a flipped bit.
\<close>

definition kem_iter_holds :: "bytes \<Rightarrow> bytes \<Rightarrow> nat \<Rightarrow> bool" where
  "kem_iter_holds d m k \<longleftrightarrow> (\<exists>pk sk ct ss ss3. crypto_kem_keypair_derand d = Some (pk, sk) \<and> crypto_kem_enc_derand pk m = Some (ct, ss)
     \<and> crypto_kem_dec ct sk = Some ss \<and> crypto_kem_dec (flip_at k ct) sk = Some ss3 \<and> ss3 \<noteq> ss)"

lemma exact_keygen:
  assumes os: "entropy (lib_os L) rnd" and uninit: "\<And>n. length (uninit L n) = n"
    and rest: "\<And>pk sk. length pk = 1184 \<Longrightarrow> length sk = 2400 \<Longrightarrow> exact (snd (rnd 64 w)) (f (0, pk, sk)) w' (P pk sk)"
  shows "exact w (tbind (test_keygen L) f) w' (\<exists>pk sk. crypto_kem_keypair_derand (fst (rnd 64 w)) = Some (pk, sk) \<and> P pk sk)"
proof (rule exact_cong [OF exact_option [OF returns_keygen [OF os uninit], where P = "\<lambda>(rc, pk, sk). P pk sk"]])
  have "length (fst (rnd 64 w)) = 64"
    using entropyD(3) [OF os, of "replicate 64 0" 64 w] by simp
  note len = kem_keypair_length [OF _ this]
  show "exact (snd (rnd 64 w)) (f a) w' (case a of (rc, pk, sk) \<Rightarrow> P pk sk)"
    if "map_option (\<lambda>(pk, sk). (0, pk, sk)) (crypto_kem_keypair_derand (fst (rnd 64 w))) = Some a" for a
    using that len by (auto intro!: rest)
qed auto

lemma exact_encapsulate:
  assumes os: "entropy (lib_os L) rnd" and uninit: "\<And>n. length (uninit L n) = n" and pk: "length pk = 1184"
    and rest: "\<And>ct ss. length ct = 1088 \<Longrightarrow> length ss = 32 \<Longrightarrow> exact (snd (rnd 32 w)) (f (0, ct, ss)) w' (P ct ss)"
  shows "exact w (tbind (test_encapsulate L pk) f) w' (\<exists>ct ss. crypto_kem_enc_derand pk (fst (rnd 32 w)) = Some (ct, ss) \<and> P ct ss)"
proof (rule exact_cong [OF exact_option [OF returns_encapsulate [OF os uninit pk], where P = "\<lambda>(rc, ct, ss). P ct ss"]])
  have "length (fst (rnd 32 w)) = 32"
    using entropyD(3) [OF os, of "replicate 32 0" 32 w] by simp
  note len = kem_enc_length [OF _ this pk]
  show "exact (snd (rnd 32 w)) (f a) w' (case a of (rc, ct, ss) \<Rightarrow> P ct ss)"
    if "map_option (\<lambda>(ct, ss). (0, ct, ss)) (crypto_kem_enc_derand pk (fst (rnd 32 w))) = Some a" for a
    using that len by (auto intro!: rest)
qed auto

lemma exact_decaps:
  assumes uninit: "\<And>n. length (uninit L n) = n" and len: "length ct = 1088" "length sk = 2400"
    and rest: "\<And>ss. length ss = 32 \<Longrightarrow> exact w (f (0, ss)) w' (P ss)"
  shows "exact w (tbind (test_decapsulate L sk ct) f) w' (\<exists>ss. crypto_kem_dec ct sk = Some ss \<and> P ss)"
  using exact_option [OF returns_decapsulate [OF uninit len], of w f w' "\<lambda>(rc, ss). P ss"] rest kem_dec_length [OF _ len] by auto

lemma exact_roundtrip_iter:
  assumes os: "entropy (lib_os L) rnd" and uninit: "\<And>n. length (uninit L n) = n"
  shows "exact w (mlkem_roundtrip_iter L i) (snd (rnd 32 (snd (rnd 64 w))))
    (kem_iter_holds (fst (rnd 64 w)) (fst (rnd 32 (snd (rnd 64 w)))) (i * 97 mod E2EE_MLKEM_CT_SIZE))"
proof (rule exact_cong)
  define k where "k = i * 97 mod E2EE_MLKEM_CT_SIZE"
  show "exact w (mlkem_roundtrip_iter L i) (snd (rnd 32 (snd (rnd 64 w))))
    (\<exists>pk sk. crypto_kem_keypair_derand (fst (rnd 64 w)) = Some (pk, sk) \<and> True \<and>
     (\<exists>ct ss. crypto_kem_enc_derand pk (fst (rnd 32 (snd (rnd 64 w)))) = Some (ct, ss) \<and> True \<and>
     (\<exists>ss2. crypto_kem_dec ct sk = Some ss2 \<and> True \<and> ss = ss2 \<and>
     (\<exists>ss3. crypto_kem_dec (flip_at k ct) sk = Some ss3 \<and> True \<and> ss \<noteq> ss3))))"
    unfolding mlkem_roundtrip_iter_def k_def [symmetric] Let_def flip_at_def [symmetric]
    by (intro exact_keygen [OF os uninit] exact_encapsulate [OF os uninit] exact_decaps [OF uninit] exact_pair exact_checkI exact_CHECKI)
      (simp_all add: flip_at_def memcmp_eq_iff)
qed (auto simp: kem_iter_holds_def)

text \<open>The states of the operating system between the iterations.\<close>

fun after_iters :: "(nat \<Rightarrow> 'w \<Rightarrow> bytes \<times> 'w) \<Rightarrow> nat \<Rightarrow> 'w \<Rightarrow> 'w" where
  "after_iters rnd 0 w = w"
| "after_iters rnd (Suc i) w = (let w = after_iters rnd i w in snd (rnd 32 (snd (rnd 64 w))))"

lemma exact_iterate:
  assumes "\<And>i. exact (ws i) (f i) (ws (Suc i)) (P i)"
  shows "exact (ws j) (tseq (map f [j..<j + n])) (ws (j + n)) (\<forall>i\<in>{j..<j + n}. P i)"
proof (induction n arbitrary: j)
  case (Suc n)
  have "exact (ws j) (tbind (f j) (\<lambda>_. tseq (map f [Suc j..<Suc j + n]))) (ws (Suc j + n)) (P j \<and> (\<forall>i\<in>{Suc j..<Suc j + n}. P i))"
    by (rule exact_seq [OF assms Suc.IH])
  moreover have "map f [j..<j + Suc n] = f j # map f [Suc j..<Suc j + n]"
    by (subst upt_conv_Cons) simp_all
  moreover have "{j..<j + Suc n} = insert j {Suc j..<Suc j + n}"
    by auto
  ultimately show ?case
    by simp
qed (simp add: exact_tret)

definition kem_roundtrips_hold :: "(nat \<Rightarrow> 'w \<Rightarrow> bytes \<times> 'w) \<Rightarrow> 'w \<Rightarrow> bool" where
  "kem_roundtrips_hold rnd w \<longleftrightarrow>
     (\<forall>i<10. let w = after_iters rnd i w in
        kem_iter_holds (fst (rnd 64 w)) (fst (rnd 32 (snd (rnd 64 w)))) (i * 97 mod E2EE_MLKEM_CT_SIZE)) \<and>
     (let w = after_iters rnd 10 w; (d1, w) = rnd 64 w; (d2, w) = rnd 64 w in
      \<exists>pk1 sk1 pk2 sk2. crypto_kem_keypair_derand d1 = Some (pk1, sk1) \<and> crypto_kem_keypair_derand d2 = Some (pk2, sk2) \<and> pk1 \<noteq> pk2)"

lemma exact_mlkem_roundtrip:
  assumes os: "entropy (lib_os L) rnd" and uninit: "\<And>n. length (uninit L n) = n"
  shows "exact w (test_mlkem_sizes_and_roundtrip L) (snd (rnd 64 (snd (rnd 64 (after_iters rnd 10 w))))) (kem_roundtrips_hold rnd w)"
proof (rule exact_cong)
  have iters: "exact w (tseq (map (mlkem_roundtrip_iter L) [0..<10])) (after_iters rnd 10 w)
    (\<forall>i\<in>{0..<10}. let w = after_iters rnd i w in
        kem_iter_holds (fst (rnd 64 w)) (fst (rnd 32 (snd (rnd 64 w)))) (i * 97 mod E2EE_MLKEM_CT_SIZE))"
  proof -
    have "exact (after_iters rnd i w) (mlkem_roundtrip_iter L i) (after_iters rnd (Suc i) w) (let w = after_iters rnd i w in
        kem_iter_holds (fst (rnd 64 w)) (fst (rnd 32 (snd (rnd 64 w)))) (i * 97 mod E2EE_MLKEM_CT_SIZE))" for i
      using exact_roundtrip_iter [OF os uninit] by (simp add: Let_def)
    from exact_iterate [of "\<lambda>i. after_iters rnd i w", OF this, of 0 10] show ?thesis
      by simp
  qed
  show "exact w (test_mlkem_sizes_and_roundtrip L) (snd (rnd 64 (snd (rnd 64 (after_iters rnd 10 w)))))
    (True \<and> (\<forall>i\<in>{0..<10}. let w = after_iters rnd i w in
        kem_iter_holds (fst (rnd 64 w)) (fst (rnd 32 (snd (rnd 64 w)))) (i * 97 mod E2EE_MLKEM_CT_SIZE)) \<and>
     (\<exists>pk1 sk1. crypto_kem_keypair_derand (fst (rnd 64 (after_iters rnd 10 w))) = Some (pk1, sk1) \<and>
     (\<exists>pk2 sk2. crypto_kem_keypair_derand (fst (rnd 64 (snd (rnd 64 (after_iters rnd 10 w))))) = Some (pk2, sk2) \<and> pk1 \<noteq> pk2)))"
    unfolding test_mlkem_sizes_and_roundtrip_def
    by (intro exact_checkI exact_seq [OF iters] exact_keygen [OF os uninit] exact_pair exact_CHECKI)
      (simp_all add: memcmp_eq_iff E2EE_MLKEM_PK_SIZE_def E2EE_MLKEM_SK_SIZE_def E2EE_MLKEM_CT_SIZE_def E2EE_MLKEM_SS_SIZE_def)
qed (auto simp: kem_roundtrips_hold_def Let_def split_beta)

section \<open>The whole program\<close>

text \<open>\<open>leaves w m w'\<close>: a call of \<open>m\<close> takes the operating system from \<open>w\<close> to \<open>w'\<close>.\<close>

definition leaves :: "'w \<Rightarrow> (('w, 'v, 'x, 'u) test_state, 'a) test \<Rightarrow> 'w \<Rightarrow> bool" where
  "leaves w m w' \<longleftrightarrow> (\<forall>st a st'. w_os st = w \<longrightarrow> m st = Some (Return (a, st')) \<longrightarrow> w_os st' = w')"

lemma leaves_tbind:
  assumes "leaves w m w1" and "\<And>a. leaves w1 (f a) w2"
  shows "leaves w (tbind m f) w2"
  unfolding leaves_def
proof (intro allI impI)
  fix st a st'
  assume "w_os st = w" and "tbind m f st = Some (Return (a, st'))"
  moreover from this(2) obtain b st1 where "m st = Some (Return (b, st1))" "f b st1 = Some (Return (a, st'))"
    by (auto simp: tbind_def split: option.splits outcome.splits)
  ultimately show "w_os st' = w2"
    using assms unfolding leaves_def by blast
qed

lemma leaves_steps:
  "leaves w (CHECK b) w" "leaves w (tret a) w" "leaves w (do_compress L inp n out om) w" "leaves w (do_decompress L inp n out om) w"
  by (auto simp: leaves_def CHECK_def tret_def do_compress_def do_decompress_def split: prod.splits)

lemma leaves_split: "(\<And>a b. leaves w (f a b) w') \<Longrightarrow> leaves w (case p of (a, b) \<Rightarrow> f a b) w'"
  by (cases p) simp

lemma leaves_if: "leaves w m w' \<Longrightarrow> leaves w m' w' \<Longrightarrow> leaves w (if b then m else m') w'"
  by simp

lemma leaves_random:
  assumes "entropy (lib_os L) rnd" and "length out = n"
  shows "leaves w (do_random L out n) (snd (rnd n w))"
  using entropyD(1) [OF assms] by (auto simp: leaves_def do_random_def)

lemma leaves_test_gzip:
  assumes "entropy (lib_os L) rnd" and "\<And>n. length (uninit L n) = n"
  shows "leaves w (test_gzip L) (snd (rnd (512 * 1024) (snd (rnd 64 w))))"
  unfolding test_gzip_def gzip_message_test_def gzip_garbage_test_def gzip_incompressible_test_def gzip_empty_test_def Let_def
  by (rule leaves_tbind leaves_split leaves_if leaves_steps leaves_random [OF assms(1) assms(2)])+

lemma exact_passes:
  assumes "passes n m (\<lambda>_. True)" and "leaves w m w'"
  shows "exact w m w' True"
  unfolding exact_def
proof (intro allI impI)
  fix st :: "('a, 'b, 'c, 'd) test_state"
  assume "w_os st = w"
  moreover obtain st' where st': "m st = Some (Return ((), st'))" "failures st' = failures st"
    using assms(1) [unfolded passes_def, rule_format, of st] by auto
  ultimately have "w_os st' = w'"
    using assms(2) unfolding leaves_def by blast
  then show "((\<exists>st'. m st = Some (Return ((), st')) \<and> failures st' = failures st) \<longleftrightarrow> True) \<and>
     (\<forall>st'. m st = Some (Return ((), st')) \<longrightarrow> w_os st' = w' \<and> failures st \<le> failures st')"
    using st' by simp
qed

text \<open>The known answers of NIST.\<close>

definition kem_vectors_hold :: bool where
  "kem_vectors_hold \<longleftrightarrow>
     crypto_kem_keypair_derand (KAT_KEYGEN_D @ KAT_KEYGEN_Z) = Some (KAT_KEYGEN_EK, KAT_KEYGEN_DK) \<and>
     crypto_kem_enc_derand KAT_ENCAP_EK KAT_ENCAP_M = Some (KAT_ENCAP_C, KAT_ENCAP_K) \<and>
     crypto_kem_dec KAT_ENCAP_C KAT_ENCAP_DK = Some KAT_ENCAP_K \<and>
     crypto_kem_dec KAT_DECAP_VALID_C KAT_DECAP_VALID_DK = Some KAT_DECAP_VALID_K \<and>
     crypto_kem_dec KAT_DECAP_REJECT_C KAT_DECAP_REJECT_DK = Some KAT_DECAP_REJECT_K"

text \<open>
  What a successful run establishes of the cryptography, given the bytes that are drawn on the way: the
  round trips, all vectors, two different keys for the two directions, and two different draws.
\<close>

definition selftest_holds :: "(nat \<Rightarrow> 'w \<Rightarrow> bytes \<times> 'w) \<Rightarrow> keystream \<Rightarrow> mac \<Rightarrow> hmac \<Rightarrow> 'w \<Rightarrow> bool" where
  "selftest_holds rnd ks mac hmac w0 \<longleftrightarrow>
     (let w1 = snd (rnd 64 (snd (rnd 64 (after_iters rnd 10 w0))));
          (ss, w2) = rnd 32 w1; (salt, w3) = rnd 16 w2;
          (key, w4) = rnd 32 w3; (nonce, w5) = rnd 12 w4;
          (junk, w6) = rnd 64 w5; (payload, w7) = rnd (512 * 1024) w6;
          (a, w8) = rnd 32 w7; (b, w9) = rnd 32 w8
      in kem_roundtrips_hold rnd w0 \<and> kem_vectors_hold \<and>
         (\<forall>c\<in>set HKDF_CASES. hkdf_case_holds hmac c) \<and>
         hkdf hmac salt ss (map of_char ''e2e-req-v1'') 32 \<noteq> hkdf hmac salt ss (map of_char ''e2e-resp-v1'') 32 \<and>
         stream_xor (ks KAT_RFC8439_KEY KAT_RFC8439_NONCE) 0 KAT_RFC8439_PT = KAT_RFC8439_CT \<and>
         (\<forall>c\<in>set AEAD_CASES. aead_case_holds ks mac c) \<and>
         a \<noteq> b \<and> a \<noteq> replicate 32 0)"

definition test_libs_laws where
  "test_libs_laws L rnd cview ks mac kview hmac gz \<longleftrightarrow> libs_laws L rnd cview ks mac kview hmac gz \<and> (\<forall>n. length (uninit L n) = n)"

lemma test_libs_lawsD:
  assumes "test_libs_laws L rnd cview ks mac kview hmac gz"
  shows "entropy (lib_os L) rnd" "\<And>n. length (uninit L n) = n" "evp_laws (lib_ssl L) cview ks mac" "evp_total (lib_ssl L) cview mac"
    "kdf_laws (lib_kdf L) kview hmac" "kdf_total (lib_kdf L)" "zlib_laws (lib_z L) gz" "zlib_total (lib_z L)" "gzip_format (lib_z L) gz"
  using assms by (simp_all add: test_libs_laws_def libs_laws_def)

lemma drawn:
  assumes L: "test_libs_laws L rnd cview ks mac kview hmac gz"
  shows "e2ee_random_bytes (lib_os L) (Some (uninit L n)) n w = Some (Return (Some (fst (rnd n w)), snd (rnd n w)))"
    and "length (fst (rnd n w)) = n"
  using entropyD(1,3) [OF test_libs_lawsD(1) [OF L] test_libs_lawsD(2) [OF L]] by blast+

lemma exact_test_hkdf:
  assumes L: "test_libs_laws L rnd cview ks mac kview hmac gz"
  shows "exact w (test_hkdf L) (snd (rnd 16 (snd (rnd 32 w)))) ((\<forall>c\<in>set HKDF_CASES. hkdf_case_holds (hmac (EVP_sha256 (lib_kdf L))) c) \<and>
    hkdf (hmac (EVP_sha256 (lib_kdf L))) (fst (rnd 16 (snd (rnd 32 w)))) (fst (rnd 32 w)) (map of_char ''e2e-req-v1'') 32
    \<noteq> hkdf (hmac (EVP_sha256 (lib_kdf L))) (fst (rnd 16 (snd (rnd 32 w)))) (fst (rnd 32 w)) (map of_char ''e2e-resp-v1'') 32)"
  unfolding test_hkdf_def
  by (rule exact_seq [OF exact_tseq [OF exact_hkdf_case [OF test_libs_lawsD(5,6,2) [OF L]]]
        exact_hkdf_protocol [OF test_libs_lawsD(5,6,2) [OF L] drawn [OF L] drawn [OF L]]])

lemma exact_test_wycheproof:
  assumes L: "test_libs_laws L rnd cview ks mac kview hmac gz"
  shows "exact w (test_aead_wycheproof L) (snd (rnd 12 (snd (rnd 32 w)))) (\<forall>c\<in>set AEAD_CASES. aead_case_holds ks mac c)"
proof -
  have "exact w (test_aead_wycheproof L) (snd (rnd 12 (snd (rnd 32 w)))) ((\<forall>c\<in>set AEAD_CASES. aead_case_holds ks mac c) \<and> True)"
    unfolding test_aead_wycheproof_def
    by (rule exact_seq [OF exact_aead_cases [OF test_libs_lawsD(3,4,2) [OF L]]
          exact_aead_large [OF test_libs_lawsD(3,4,2) [OF L] drawn [OF L] drawn [OF L]]])
  then show ?thesis
    by simp
qed

lemma exact_test_stubs:
  assumes L: "test_libs_laws L rnd cview ks mac kview hmac gz"
  shows "exact w (test_random_and_stubs L) (snd (rnd 32 (snd (rnd 32 w))))
    (fst (rnd 32 w) \<noteq> fst (rnd 32 (snd (rnd 32 w))) \<and> fst (rnd 32 w) \<noteq> replicate 32 0)"
  by (rule exact_random_and_stubs) (simp_all add: entropyD [OF test_libs_lawsD(1) [OF L]] drawn(2) [OF L])

lemma exact_tests:
  assumes L: "test_libs_laws L rnd cview ks mac kview hmac gz"
  shows "\<exists>w'. exact w (tbind (test_mlkem_sizes_and_roundtrip L) (\<lambda>_. tbind (test_mlkem_kat L) (\<lambda>_. tbind (test_hkdf L) (\<lambda>_.
     tbind (test_chacha20_rfc8439 L) (\<lambda>_. tbind (test_aead_wycheproof L) (\<lambda>_. tbind (test_gzip L) (\<lambda>_. test_random_and_stubs L))))))) w'
     (selftest_holds rnd ks mac (hmac (EVP_sha256 (lib_kdf L))) w)"
proof -
  note gzip = exact_passes [OF passes_test_gzip [OF test_libs_lawsD(7-9,2) [OF L] entropy_total [OF test_libs_lawsD(1) [OF L]]]
      leaves_test_gzip [OF test_libs_lawsD(1,2) [OF L]]]
  show ?thesis
    by (rule exI, rule exact_cong [OF exact_seq [OF exact_mlkem_roundtrip [OF test_libs_lawsD(1,2) [OF L]]
          exact_seq [OF exact_test_mlkem_kat [OF test_libs_lawsD(2) [OF L]] exact_seq [OF exact_test_hkdf [OF L]
          exact_seq [OF exact_rfc8439 [OF test_libs_lawsD(3,4,2) [OF L]] exact_seq [OF exact_test_wycheproof [OF L]
          exact_seq [OF gzip exact_test_stubs [OF L]]]]]]]])
      (simp add: selftest_holds_def kem_vectors_hold_def Let_def split_beta; blast)
qed

section \<open>Libraries that satisfy the hypotheses\<close>

lemma sample_libs_laws:
  "test_libs_laws sample_libs (apple_rnd (lib_os sample_libs)) (\<lambda>v. v) toy_keystream toy_mac (\<lambda>v. v) toy_hmac framed_gz"
  unfolding test_libs_laws_def libs_laws_def sample_libs_def
  by (simp add: entropy_Apple os_laws_sample toy_cipher_laws toy_kdf_laws framed_zlib_laws)

section \<open>Properties\<close>

text \<open>
  C11. The self-test program (\<open>selftest.c\<close>) decides the correctness of the cryptography it tests. Over an
  operating system, OpenSSL and zlib that behave as documented, it ends with status 0 if and only if the
  keystream, the authenticator and the HMAC of the libraries and the ML-KEM of this repository satisfy
  \<open>selftest_holds\<close>: every published vector is reproduced in every byte, the ten key agreements succeed and
  reject a flipped bit, no tampered ciphertext or nonce is accepted, the keys of the two directions
  differ, and the random draws differ. The remaining checks (return codes, opening what was sealed, the
  wiping after a failure, wrong tags, the limits of HKDF, compression, the stubs) never fail.
\<close>

theorem selftest_exact:
  assumes "test_libs_laws L rnd cview ks mac kview hmac gz" and "failures st = 0"
  shows "(\<exists>st'. selftest_main L st = Some (Return (0, st'))) \<longleftrightarrow> selftest_holds rnd ks mac (hmac (EVP_sha256 (lib_kdf L))) (w_os st)"
proof -
  define tests where "tests = tbind (test_mlkem_sizes_and_roundtrip L) (\<lambda>_. tbind (test_mlkem_kat L) (\<lambda>_. tbind (test_hkdf L) (\<lambda>_.
     tbind (test_chacha20_rfc8439 L) (\<lambda>_. tbind (test_aead_wycheproof L) (\<lambda>_. tbind (test_gzip L) (\<lambda>_. test_random_and_stubs L))))))"
  have main: "selftest_main L = tbind tests (\<lambda>_ st. Some (Return (if failures st = 0 then 0 else 1, st)))"
    by (simp add: selftest_main_def tests_def tbind_assoc)
  have "(\<exists>st'. selftest_main L st = Some (Return (0, st'))) \<longleftrightarrow> (\<exists>st'. tests st = Some (Return ((), st')) \<and> failures st' = failures st)"
  proof (cases "tests st")
    case (Some r)
    then show ?thesis
      using assms(2) unfolding main by (cases r) (auto simp: tbind_def split: prod.split)
  qed (simp add: main tbind_def)
  also have "\<dots> \<longleftrightarrow> selftest_holds rnd ks mac (hmac (EVP_sha256 (lib_kdf L))) (w_os st)"
  proof -
    obtain w' where "exact (w_os st) tests w' (selftest_holds rnd ks mac (hmac (EVP_sha256 (lib_kdf L))) (w_os st))"
      using exact_tests [OF assms(1), of "w_os st"] unfolding tests_def [symmetric] by (rule exE)
    then show ?thesis
      by (rule exactD) (rule refl)
  qed
  finally show ?thesis .
qed

theorem selftest_exact_witness:
  "(\<exists>st'. selftest_main sample_libs sample_state = Some (Return (0, st')))
    \<longleftrightarrow> selftest_holds (apple_rnd (lib_os sample_libs)) toy_keystream toy_mac (toy_hmac (EVP_sha256 (lib_kdf sample_libs))) (w_os sample_state)"
  by (rule selftest_exact [OF sample_libs_laws]) (simp add: sample_state_def)

end
