(* ===== verification/Protocol.thy ===== *)
theory Protocol
  imports Calls
begin

text \<open>
  The protocol of the proxy: \<open>lua/e2ee_crypto.lua\<close>, which builds encrypted requests and opens responses and
  stream chunks with the exported functions. A Lua string is a list of bytes. \<open>cjson\<close> and the base64 functions of
  OpenResty are parameters, as is the size of the largest array that \<open>ffi.new\<close> can allocate.
\<close>

unbundle bit_operations_syntax

section \<open>Definitions\<close>

text \<open>A Lua function returns a value, or \<open>nil\<close> and a message, or raises an error.\<close>

datatype 'a lua = Value 'a | Failure string | Raised

text \<open>
  \<open>decode_base64\<close> returns \<open>nil\<close> for malformed input; \<open>cjson.decode\<close> and \<open>cjson.encode\<close> raise an error for what they
  cannot translate; \<open>ffi.new\<close> raises an error for arrays of more than \<open>ffi_max\<close> bytes, which LuaJIT limits to
  \<open>2 ^ 31 - 1\<close> and the memory may limit further.
\<close>

record 'j lua_libs =
  decode_base64 :: "bytes \<Rightarrow> bytes option"
  encode_base64 :: "bytes \<Rightarrow> bytes"
  cjson_decode :: "bytes \<Rightarrow> 'j option"
  is_table :: "'j \<Rightarrow> bool"
  set_field :: "'j \<Rightarrow> string \<Rightarrow> bytes \<Rightarrow> 'j"
  cjson_encode :: "'j \<Rightarrow> bytes option"
  ffi_max :: nat

definition lua_string :: "string \<Rightarrow> bytes" where
  "lua_string s = map of_char s"

definition ffi_new :: "nat \<Rightarrow> bytes" where
  "ffi_new n = replicate n 0"

definition ffi_alloc :: "('j, 'l) lua_libs_scheme \<Rightarrow> nat \<Rightarrow> (bytes \<Rightarrow> ('st, 'a lua) call) \<Rightarrow> ('st, 'a lua) call" where
  "ffi_alloc J n f = (if n > ffi_max J then tret Raised else f (ffi_new n))"

definition MLKEM_PK_SIZE :: nat where "MLKEM_PK_SIZE = 1184"
definition MLKEM_SK_SIZE :: nat where "MLKEM_SK_SIZE = 2400"
definition MLKEM_CT_SIZE :: nat where "MLKEM_CT_SIZE = 1088"
definition NONCE_SIZE :: nat where "NONCE_SIZE = 12"
definition TAG_SIZE :: nat where "TAG_SIZE = 16"
definition INFO_REQ :: bytes where "INFO_REQ = lua_string ''e2e-req-v1''"
definition INFO_RESP :: bytes where "INFO_RESP = lua_string ''e2e-resp-v1''"
definition INFO_STREAM :: bytes where "INFO_STREAM = lua_string ''e2e-stream-v1''"

text \<open>The library \<open>bit\<close> works on numbers modulo \<open>2 ^ 32\<close>.\<close>

definition rshift :: "nat \<Rightarrow> nat \<Rightarrow> nat" where
  "rshift n k = drop_bit k (n mod 2 ^ 32)"

definition gzip_bound :: "nat \<Rightarrow> nat" where
  "gzip_bound n = n + rshift n 12 + rshift n 14 + rshift n 25 + 64"

definition gzip_isize :: "bytes \<Rightarrow> nat \<Rightarrow> nat option" where
  "gzip_isize buf n =
     (if n < 18 then None
      else Some (unat (buf ! (n - 4)) + unat (buf ! (n - 3)) * 256 + unat (buf ! (n - 2)) * 65536 + unat (buf ! (n - 1)) * 16777216))"

definition lbind :: "('st, 'a lua) call \<Rightarrow> ('a \<Rightarrow> ('st, 'b lua) call) \<Rightarrow> ('st, 'b lua) call" where
  "lbind m f = tbind m (\<lambda>r. case r of Value a \<Rightarrow> f a | Failure e \<Rightarrow> tret (Failure e) | Raised \<Rightarrow> tret Raised)"

definition derive_key where
  "derive_key L J shared_secret mlkem_ct info =
     ffi_alloc J 32 (\<lambda>okm.
     ffi_alloc J 16 (\<lambda>salt.
     tbind (do_hkdf L shared_secret (length shared_secret) (Some (write_at salt 0 (take 16 mlkem_ct))) 16
         (Some info) (length info) okm 32) (\<lambda>(rc, okm).
     if rc \<noteq> 0 then tret (Failure ''HKDF derivation failed'') else tret (Value (take 32 okm)))))"

definition build_e2ee_request where
  "build_e2ee_request L J e2e_pubkey_b64 payload_json =
     ffi_alloc J MLKEM_PK_SIZE (\<lambda>response_pk.
     ffi_alloc J MLKEM_SK_SIZE (\<lambda>response_sk.
     tbind (do_keygen L response_pk response_sk) (\<lambda>(rc, response_pk, response_sk).
     if rc \<noteq> 0 then tret (Failure ''ML-KEM keygen failed'') else
     case decode_base64 J (case e2e_pubkey_b64 of None \<Rightarrow> [] | Some s \<Rightarrow> s) of
       None \<Rightarrow> tret (Failure ''invalid server pubkey (expected 1184 bytes)'')
     | Some e2e_pubkey \<Rightarrow>
     if length e2e_pubkey \<noteq> MLKEM_PK_SIZE then tret (Failure ''invalid server pubkey (expected 1184 bytes)'') else
     ffi_alloc J MLKEM_CT_SIZE (\<lambda>mlkem_ct.
     ffi_alloc J 32 (\<lambda>shared_secret.
     tbind (do_encapsulate L e2e_pubkey mlkem_ct shared_secret) (\<lambda>(rc, mlkem_ct, shared_secret).
     if rc \<noteq> 0 then tret (Failure ''ML-KEM encapsulation failed'') else
     let mlkem_ct_str = take MLKEM_CT_SIZE mlkem_ct; ss_str = take 32 shared_secret in
     lbind (derive_key L J ss_str mlkem_ct_str INFO_REQ) (\<lambda>sym_key.
     case cjson_decode J payload_json of
       None \<Rightarrow> tret Raised
     | Some payload \<Rightarrow>
     if \<not> is_table J payload then tret (Failure ''payload is not a JSON object'') else
     let payload = set_field J payload ''e2e_response_pk'' (encode_base64 J (take MLKEM_PK_SIZE response_pk)) in
     case cjson_encode J payload of
       None \<Rightarrow> tret Raised
     | Some augmented_json \<Rightarrow>
     let in_len = length augmented_json; bound = gzip_bound in_len in
     ffi_alloc J bound (\<lambda>compressed_buf.
     tbind (do_compress L augmented_json in_len compressed_buf bound) (\<lambda>(compressed_len, compressed_buf).
     if compressed_len = 0 then tret (Failure ''gzip compression failed'') else
     ffi_alloc J 12 (\<lambda>nonce.
     tbind (do_random L nonce NONCE_SIZE) (\<lambda>nonce.
     ffi_alloc J compressed_len (\<lambda>ciphertext.
     ffi_alloc J 16 (\<lambda>tag.
     tbind (do_seal L sym_key nonce compressed_buf compressed_len ciphertext tag) (\<lambda>(rc, ciphertext, tag).
     if rc \<noteq> 0 then tret (Failure ''encryption failed'') else
     let blob = mlkem_ct_str @ take NONCE_SIZE nonce @ take compressed_len ciphertext @ take TAG_SIZE tag in
     tret (Value (blob, take MLKEM_SK_SIZE response_sk))))))))))))))))"

definition decrypt_response where
  "decrypt_response L J response_blob response_sk =
     (if length response_blob < MLKEM_CT_SIZE + NONCE_SIZE + TAG_SIZE then tret (Failure ''response too short'') else
     let mlkem_ct = take MLKEM_CT_SIZE response_blob;
         nonce = take NONCE_SIZE (drop MLKEM_CT_SIZE response_blob);
         ciphertext = drop (MLKEM_CT_SIZE + NONCE_SIZE) (take (length response_blob - TAG_SIZE) response_blob);
         tag = drop (length response_blob - TAG_SIZE) response_blob in
     ffi_alloc J 32 (\<lambda>ss.
     tbind (do_decapsulate response_sk mlkem_ct ss) (\<lambda>(rc, ss).
     if rc \<noteq> 0 then tret (Failure ''ML-KEM decapsulation failed'') else
     lbind (derive_key L J (take 32 ss) mlkem_ct INFO_RESP) (\<lambda>sym_key.
     let ct_len = length ciphertext in
     ffi_alloc J (if ct_len > 0 then ct_len else 1) (\<lambda>plaintext.
     tbind (do_open L sym_key nonce ciphertext ct_len tag plaintext) (\<lambda>(rc, plaintext).
     if rc \<noteq> 0 then tret (Failure ''decryption failed (auth tag mismatch)'') else
     case gzip_isize plaintext ct_len of
       None \<Rightarrow> tret (Failure ''decrypted payload is not gzip'')
     | Some isize \<Rightarrow>
     if isize = 0 then tret (Failure ''decrypted payload is not gzip'') else
     let out_max = isize + 1 in
     ffi_alloc J out_max (\<lambda>decompressed_buf.
     tbind (do_decompress L plaintext ct_len decompressed_buf out_max) (\<lambda>(decompressed_len, decompressed_buf).
     if decompressed_len = 0 then tret (Failure ''gzip decompression failed'') else
     tret (Value (take decompressed_len decompressed_buf))))))))))"

definition decrypt_stream_init where
  "decrypt_stream_init L J response_sk mlkem_ct_b64 =
     (case decode_base64 J (case mlkem_ct_b64 of None \<Rightarrow> [] | Some s \<Rightarrow> s) of
        None \<Rightarrow> tret (Failure ''invalid e2e_init ciphertext'')
      | Some mlkem_ct \<Rightarrow>
     if length mlkem_ct \<noteq> MLKEM_CT_SIZE then tret (Failure ''invalid e2e_init ciphertext'') else
     ffi_alloc J 32 (\<lambda>ss.
     tbind (do_decapsulate response_sk mlkem_ct ss) (\<lambda>(rc, ss).
     if rc \<noteq> 0 then tret (Failure ''stream init decapsulation failed'') else
     derive_key L J (take 32 ss) mlkem_ct INFO_STREAM)))"

definition decrypt_stream_chunk where
  "decrypt_stream_chunk L J enc_chunk_b64 stream_key =
     (case decode_base64 J (case enc_chunk_b64 of None \<Rightarrow> [] | Some s \<Rightarrow> s) of
        None \<Rightarrow> tret (Failure ''invalid stream chunk'')
      | Some raw \<Rightarrow>
     if length raw < NONCE_SIZE + TAG_SIZE then tret (Failure ''invalid stream chunk'') else
     let nonce = take NONCE_SIZE raw;
         ciphertext = drop NONCE_SIZE (take (length raw - TAG_SIZE) raw);
         tag = drop (length raw - TAG_SIZE) raw;
         ct_len = length ciphertext in
     ffi_alloc J (if ct_len > 0 then ct_len else 1) (\<lambda>plaintext.
     tbind (do_open L stream_key nonce ciphertext ct_len tag plaintext) (\<lambda>(rc, plaintext).
     if rc \<noteq> 0 then tret (Failure ''stream chunk decryption failed'') else
     tret (Value (take ct_len plaintext)))))"

section \<open>The wire format\<close>

text \<open>
  The documented format, over the primitives: the key of a direction, and the blob that carries a message
  sealed with the secret \<open>ss\<close> encapsulated in \<open>ct\<close>.
\<close>

definition blob_key :: "hmac \<Rightarrow> bytes \<Rightarrow> bytes \<Rightarrow> bytes \<Rightarrow> bytes" where
  "blob_key hmac ss ct info = hkdf hmac (take 16 ct) ss info 32"

definition seal_blob ::
    "keystream \<Rightarrow> mac \<Rightarrow> hmac \<Rightarrow> (bytes \<Rightarrow> bytes) \<Rightarrow> bytes \<Rightarrow> bytes \<times> bytes \<Rightarrow> bytes \<Rightarrow> bytes \<Rightarrow> bytes" where
  "seal_blob ks mac hmac gz info kem nonce msg =
     (let (ct, ss) = kem; (c, t) = aead_seal ks mac (blob_key hmac ss ct info) nonce (gz msg) in ct @ nonce @ c @ t)"

definition open_blob :: "keystream \<Rightarrow> mac \<Rightarrow> hmac \<Rightarrow> bytes \<Rightarrow> bytes \<Rightarrow> bytes \<Rightarrow> bytes option" where
  "open_blob ks mac hmac info ss blob =
     aead_open ks mac (blob_key hmac ss (take 1088 blob) info) (take 12 (drop 1088 blob))
       (drop 1100 (take (length blob - 16) blob)) (drop (length blob - 16) blob)"

lemma ffi_alloc_fails: "n > ffi_max J \<Longrightarrow> ffi_alloc J n f = tret Raised"
  by (simp add: ffi_alloc_def)

lemma ffi_alloc_ok: "n \<le> ffi_max J \<Longrightarrow> ffi_alloc J n f = f (ffi_new n)"
  by (simp add: ffi_alloc_def)

lemma small_allocs:
  assumes "2400 \<le> ffi_max J"
  shows "ffi_alloc J 12 f = f (ffi_new 12)" "ffi_alloc J 16 f = f (ffi_new 16)" "ffi_alloc J 32 f = f (ffi_new 32)"
    "ffi_alloc J MLKEM_CT_SIZE f = f (ffi_new MLKEM_CT_SIZE)" "ffi_alloc J MLKEM_PK_SIZE f = f (ffi_new MLKEM_PK_SIZE)"
    "ffi_alloc J MLKEM_SK_SIZE f = f (ffi_new MLKEM_SK_SIZE)"
  using assms by (simp_all add: ffi_alloc_def MLKEM_PK_SIZE_def MLKEM_SK_SIZE_def MLKEM_CT_SIZE_def)

lemma length_blob_key: "kdf_laws (lib_kdf L) view hmac \<Longrightarrow> length (blob_key (hmac (EVP_sha256 (lib_kdf L))) ss ct info) = 32"
  unfolding blob_key_def by (intro length_hkdf) (simp add: kdf_laws_def)

lemma yields_derive_key:
  assumes laws: "kdf_laws (lib_kdf L) view hmac" "kdf_total (lib_kdf L)"
    and "length ss = 32" and "16 \<le> length ct" and "length info \<le> 100" and mem: "2400 \<le> ffi_max J"
  shows "yields w (derive_key L J ss ct info) (\<lambda>r. r = Value (blob_key (hmac (EVP_sha256 (lib_kdf L))) ss ct info)) w"
  unfolding derive_key_def small_allocs [OF mem]
proof (rule yields_bind [OF yields_hkdf [OF laws disjI2 [OF refl] disjI2 [OF refl]]])
  show "yields w (case a of (rc, okm) \<Rightarrow> if rc \<noteq> 0 then tret (Failure ''HKDF derivation failed'') else tret (Value (take 32 okm)))
      (\<lambda>r. r = Value (blob_key (hmac (EVP_sha256 (lib_kdf L))) ss ct info)) w"
    if "a = (0, hkdf (hmac (EVP_sha256 (lib_kdf L))) (take 16 (write_at (ffi_new 16) 0 (take 16 ct))) (take (length ss) ss)
      (take (length info) info) 32 @ drop 32 (ffi_new 32))" for a
    using that assms(4) length_blob_key [OF laws(1), of ss ct info]
    by (simp add: yields_tret blob_key_def ffi_new_def write_at_def)
qed (use assms(3-5) in \<open>simp_all add: INT_MAX_def ffi_new_def\<close>)

lemma yields_lbind:
  assumes "yields w m (\<lambda>r. r = Value a) w1" and "yields w1 (f a) Q w2"
  shows "yields w (lbind m f) Q w2"
  unfolding lbind_def by (rule yields_bind [OF assms(1)]) (simp add: assms(2))

lemma gz_bound:
  assumes "gzip_format z gz" and "length x < 2 ^ 32"
  shows "length (gz x) \<le> gzip_bound (length x)"
  using assms unfolding gzip_format_def gzip_bound_def rshift_def drop_bit_eq_div by simp

lemma infos: "length INFO_REQ = 10" "length INFO_RESP = 11" "length INFO_STREAM = 13"
  by (simp_all add: INFO_REQ_def INFO_RESP_def INFO_STREAM_def lua_string_def)

lemmas sizes = MLKEM_PK_SIZE_def MLKEM_SK_SIZE_def MLKEM_CT_SIZE_def NONCE_SIZE_def TAG_SIZE_def

lemma yields_call: "yields w m (\<lambda>r. r = a) w1 \<Longrightarrow> yields w1 (f a) Q w2 \<Longrightarrow> yields w (tbind m f) Q w2"
  by (erule yields_bind) simp

lemma yields_pair: "yields w (f a b) Q w' \<Longrightarrow> yields w (case (a, b) of (a, b) \<Rightarrow> f a b) Q w'"
  by simp

lemma yields_else: "\<not> c \<Longrightarrow> yields w m' Q w' \<Longrightarrow> yields w (if c then m else m') Q w'"
  by simp

section \<open>Sealing and opening blobs\<close>

lemma yields_seal_blob:
  assumes L: "libs_laws L rnd cview ks mac kview hmac gz" and lens: "length key = 32" "length rsk = 2400" "k \<le> length zbuf" and mem: "k \<le> ffi_max J"
    and s: "aead_seal ks mac key (fst (rnd 12 w)) (take k zbuf) = (c, t)"
  shows "yields w (tbind (do_random L (ffi_new 12) NONCE_SIZE) (\<lambda>nonce.
     ffi_alloc J k (\<lambda>ciphertext.
     tbind (do_seal L key nonce zbuf k ciphertext (ffi_new 16)) (\<lambda>(rc, ciphertext, tag).
     if rc \<noteq> 0 then tret (Failure ''encryption failed'') else
     tret (Value (ct @ take NONCE_SIZE nonce @ take k ciphertext @ take TAG_SIZE tag, take MLKEM_SK_SIZE rsk))))))
     (\<lambda>r. r = Value (ct @ fst (rnd 12 w) @ c @ t, rsk)) (snd (rnd 12 w))"
proof -
  note laws = libs_lawsD [OF L]
  have nonce: "length (fst (rnd 12 w)) = 12"
    using entropyD(3) [OF laws(1), of "ffi_new 12" 12 w] by (simp add: ffi_new_def)
  have ct: "length c = k" "length t = 16"
    using s evp_lawsD(1) [OF laws(2)] lens(3) by (auto simp: aead_seal_def Let_def)
  have seal: "aead_seal ks mac (take 32 key) (take 12 (fst (rnd 12 w))) (take k zbuf) = (c, t)"
    using s lens nonce by simp
  have draw: "yields w (do_random L (ffi_new 12) NONCE_SIZE) (\<lambda>bs. bs = fst (rnd 12 w)) (snd (rnd 12 w))"
    using yields_random [OF laws(1), of "ffi_new 12" 12 w] by (simp add: ffi_new_def NONCE_SIZE_def)
  show ?thesis
    unfolding ffi_alloc_ok [OF mem]
    by (rule yields_call [OF draw], rule yields_call [OF yields_seal [OF laws(2,3) lens(3) _ seal]])
      (use lens nonce ct in \<open>simp_all add: yields_tret write_at_def ffi_new_def sizes\<close>)
qed

lemma base256: "n < 2 ^ 32 \<Longrightarrow> n mod 256 + n div 256 mod 256 * 256 + n div 65536 mod 256 * 65536 + n div 16777216 mod 256 * 16777216 = n"
  for n :: nat
  using mod_mult2_eq [of n 256 16777216] mod_mult2_eq [of "n div 256" 256 65536] mod_mult2_eq [of "n div 65536" 256 256]
  by (simp flip: div_mult2_eq add: distrib_left)

lemma isize_bytes: "unat (le32 w ! 0) + unat (le32 w ! 1) * 256 + unat (le32 w ! 2) * 65536 + unat (le32 w ! 3) * 16777216 = unat w"
  using base256 [of "unat w"] unsigned_less [of w, where 'a = nat]
  by (simp add: le32_def unsigned_ucast_eq unsigned_drop_bit_eq drop_bit_eq_div take_bit_eq_mod unat_div)

lemma gzip_isize_gz:
  assumes "zlib_laws z gz" and "gzip_format z gz" and "take n buf = gz x" and "n = length (gz x)" and "length x < 2 ^ 32"
  shows "gzip_isize buf n = Some (length x)"
proof -
  have fmt: "18 \<le> n" "drop (n - 4) (take n buf) = le32 (of_nat (length x))"
    using assms(2) zlib_lawsD(1) [OF assms(1), of x] unfolding gzip_format_def assms(3) unfolding assms(4) by blast+
  have "n \<le> length buf"
    using arg_cong [OF assms(3), of length] assms(4) by simp
  then have "buf ! (n - 4 + i) = le32 (of_nat (length x)) ! i" if "i < 4" for i
    using that fmt(1) unfolding fmt(2) [symmetric] by simp
  note nth = this
  have ix: "n - 3 = n - 4 + 1" "n - 2 = n - 4 + 2" "n - 1 = n - 4 + 3"
    using fmt(1) by simp_all
  from nth [of 0] nth [of 1] nth [of 2] nth [of 3]
  have "buf ! (n - 4) = le32 (of_nat (length x)) ! 0" "buf ! (n - 3) = le32 (of_nat (length x)) ! 1"
    "buf ! (n - 2) = le32 (of_nat (length x)) ! 2" "buf ! (n - 1) = le32 (of_nat (length x)) ! 3"
    unfolding ix by (simp_all del: One_nat_def)
  then show ?thesis
    using fmt(1) assms(5) isize_bytes [of "of_nat (length x)"] by (simp add: gzip_isize_def unat_of_nat)
qed

lemma open_seal_blob:
  assumes "evp_laws ssl view ks mac" and "length ct = 1088" and "length nonce = 12"
  shows "open_blob ks mac hmac info ss (seal_blob ks mac hmac gz info (ct, ss) nonce msg) = Some (gz msg)"
    and "length (seal_blob ks mac hmac gz info (ct, ss) nonce msg) = 1116 + length (gz msg)"
    and "take 1088 (seal_blob ks mac hmac gz info (ct, ss) nonce msg) = ct"
proof -
  obtain c t where s: "aead_seal ks mac (blob_key hmac ss ct info) nonce (gz msg) = (c, t)"
    by (metis surj_pair)
  have "length c = length (gz msg)" "length t = 16"
    using s evp_lawsD(1) [OF assms(1)] by (auto simp: aead_seal_def Let_def)
  moreover have blob: "seal_blob ks mac hmac gz info (ct, ss) nonce msg = ct @ nonce @ c @ t"
    using s by (simp add: seal_blob_def)
  ultimately show "open_blob ks mac hmac info ss (seal_blob ks mac hmac gz info (ct, ss) nonce msg) = Some (gz msg)"
    and "length (seal_blob ks mac hmac gz info (ct, ss) nonce msg) = 1116 + length (gz msg)"
    and "take 1088 (seal_blob ks mac hmac gz info (ct, ss) nonce msg) = ct"
    using assms(2,3) aead_open_seal [OF s] by (simp_all add: open_blob_def)
qed

lemma yields_decompress_any: "yields w (do_decompress L zbuf n out m) (\<lambda>_. True) w"
  unfolding yields_def do_decompress_def by (simp split: prod.split)

text \<open>The last steps of \<open>decrypt_response\<close>.\<close>

definition inflate_payload where
  "inflate_payload L J plaintext ct_len =
     (case gzip_isize plaintext ct_len of
       None \<Rightarrow> tret (Failure ''decrypted payload is not gzip'')
     | Some isize \<Rightarrow>
     if isize = 0 then tret (Failure ''decrypted payload is not gzip'') else
     let out_max = isize + 1 in
     ffi_alloc J out_max (\<lambda>decompressed_buf.
     tbind (do_decompress L plaintext ct_len decompressed_buf out_max) (\<lambda>(decompressed_len, decompressed_buf).
     if decompressed_len = 0 then tret (Failure ''gzip decompression failed'') else
     tret (Value (take decompressed_len decompressed_buf)))))"

text \<open>A payload announces more than can be allocated: \<open>ISIZE\<close>, its last four bytes, is too large.\<close>

definition oversized :: "nat \<Rightarrow> bytes \<Rightarrow> bool" where
  "oversized limit p = (case gzip_isize p (length p) of None \<Rightarrow> False | Some isize \<Rightarrow> isize > 0 \<and> isize + 1 > limit)"

lemma yields_inflate:
  assumes L: "libs_laws L rnd cview ks mac kview hmac gz"
    and buf: "take n buf = gz x" "n = length (gz x)" and "x \<noteq> []" and "length x < UINT_MAX" and "n \<le> UINT_MAX"
    and mem: "length x < ffi_max J"
  shows "yields w (inflate_payload L J buf n) (\<lambda>r. r = Value x) w"
proof -
  note laws = libs_lawsD [OF L]
  have isize: "gzip_isize buf n = Some (length x)"
    using gzip_isize_gz [OF laws(6,8) buf] assms(5) by (simp add: UINT_MAX_def)
  have "yields w (do_decompress L buf n (ffi_new (length x + 1)) (length x + 1)) (\<lambda>(k, out). k = length x \<and> take k out = x) w"
    by (rule yields_weaken [OF yields_decompress [OF laws(6,7) assms(6) buf(1)]])
      (use assms(5) in \<open>auto simp: ffi_new_def split: if_splits\<close>)
  then show ?thesis
    unfolding inflate_payload_def isize using assms(4) mem by (auto intro!: yields_bind yields_tret simp: ffi_alloc_ok)
qed

lemma gzip_isize_take: "gzip_isize (take n buf) (length (take n buf)) = gzip_isize buf n" if "n \<le> length buf"
  using that by (simp add: gzip_isize_def min_absorb2)

lemma yields_inflate_any:
  assumes "n \<le> length buf"
  shows "yields w (inflate_payload L J buf n) (\<lambda>r. r \<noteq> Failure ''decryption failed (auth tag mismatch)'' \<and>
    (r = Raised \<longleftrightarrow> oversized (ffi_max J) (take n buf))) w"
  unfolding inflate_payload_def oversized_def gzip_isize_take [OF assms] ffi_alloc_def Let_def
  by (auto intro!: yields_bind [OF yields_decompress_any] yields_tret split: option.split)

lemma yields_response:
  assumes L: "libs_laws L rnd cview ks mac kview hmac gz" and "length sk = 2400" and blob: "1116 \<le> length blob"
    and mem: "2400 \<le> ffi_max J" "length blob - 1116 \<le> ffi_max J"
    and dec: "crypto_kem_dec (take 1088 blob) sk = Some ss"
    and open_blob: "open_blob ks mac (hmac (EVP_sha256 (lib_kdf L))) INFO_RESP ss blob = q"
    and fail: "q = None \<Longrightarrow> Q (Failure ''decryption failed (auth tag mismatch)'')"
    and succ: "\<And>p buf. q = Some p \<Longrightarrow> take (length p) buf = p \<Longrightarrow> length p \<le> length buf \<Longrightarrow> yields w (inflate_payload L J buf (length p) :: (('w, 'v, 'x, 'u, 'z) native_scheme, bytes lua) call) Q w"
  shows "yields w (decrypt_response L J blob sk :: (('w, 'v, 'x, 'u, 'z) native_scheme, bytes lua) call) Q w"
proof -
  note laws = libs_lawsD [OF L]
  define key where "key = blob_key (hmac (EVP_sha256 (lib_kdf L))) ss (take 1088 blob) INFO_RESP"
  define ct where "ct = drop 1100 (take (length blob - 16) blob)"
  define out :: bytes where "out = ffi_new (if 0 < length ct then length ct else 1)"
  have len: "length ct \<le> length out" "length ss = 32"
    using kem_dec_length [OF dec] blob assms(2) by (auto simp: out_def ffi_new_def)
  have decaps: "yields w (do_decapsulate sk (take 1088 blob) (ffi_new 32)) (\<lambda>r. r = (0, ss)) w"
    by (rule yields_decapsulate [OF _ _ _ dec]) (use assms(2) blob in \<open>simp_all add: ffi_new_def\<close>)
  have kdf: "yields w (derive_key L J (take 32 ss) (take 1088 blob) INFO_RESP) (\<lambda>r. r = Value key) w"
    using yields_derive_key [OF laws(4,5), of ss "take 1088 blob" INFO_RESP J w] blob len(2) mem(1) by (simp add: key_def infos)
  have "(if 0 < length ct then length ct else 1) \<le> ffi_max J"
    using mem by (simp add: ct_def)
  note alloc = ffi_alloc_ok [OF this, folded out_def]
  have opens: "yields w (do_open L key (take 12 (drop 1088 blob)) ct (length ct) (drop (length blob - 16) blob) out)
      (\<lambda>r. r = (case q of Some p \<Rightarrow> (0, write_at out 0 p) | None \<Rightarrow> (- 1, write_at out 0 (replicate (length ct) 0)))) w"
    using yields_open [OF laws(2,3) order_refl len(1), of w key "take 12 (drop 1088 blob)" "drop (length blob - 16) blob"] blob
      length_blob_key [OF laws(4), of ss "take 1088 blob" INFO_RESP] open_blob
    by (simp add: open_blob_def key_def ct_def)
  have p: "length p = length ct" if "q = Some p" for p
    using that open_blob by (auto simp: open_blob_def aead_open_def ct_def split: if_splits)
  have ct': "drop (1088 + 12) (take (length blob - 16) blob) = ct"
    by (simp add: ct_def)
  have rest: "yields w (case (case q of Some p \<Rightarrow> (0, write_at out 0 p) | None \<Rightarrow> (- 1, write_at out 0 (replicate (length ct) 0))) of (rc, plaintext) \<Rightarrow>
      if rc \<noteq> (0 :: int) then tret (Failure ''decryption failed (auth tag mismatch)'') else (inflate_payload L J plaintext (length ct) :: (('w, 'v, 'x, 'u, 'z) native_scheme, bytes lua) call)) Q w"
  proof (cases q)
    case (Some p)
    then show ?thesis
      using succ [OF Some, of "write_at out 0 p"] p [OF Some] by (simp add: write_at_def)
  qed (simp add: yields_tret fail)
  show ?thesis
    unfolding decrypt_response_def Let_def sizes small_allocs [OF mem(1)] ct' alloc inflate_payload_def [unfolded Let_def, symmetric]
    by (intro yields_else yields_call [OF decaps] yields_pair yields_lbind [OF kdf] yields_call [OF opens] rest) (use blob in simp_all)
qed

section \<open>Clients against their specification\<close>

text \<open>
  \<open>meets w m s\<close>: from the state \<open>w\<close> of the operating system and any states of the libraries, \<open>m\<close> does not
  return if \<open>s\<close> is \<open>None\<close>, and otherwise returns the result \<open>s\<close> names and leaves the operating system in the
  state \<open>s\<close> names.
\<close>

definition meets :: "'w \<Rightarrow> (('w, 'v, 'x, 'u, 'z) native_scheme, 'a) call \<Rightarrow> ('a \<times> 'w) option \<Rightarrow> bool" where
  "meets w m s \<longleftrightarrow> (\<forall>st. w_os st = w \<longrightarrow> (case s of
       None \<Rightarrow> m st = None
     | Some (a, w') \<Rightarrow> \<exists>st'. m st = Some (Return (a, st')) \<and> w_os st' = w'))"

lemma meetsD:
  "meets w m s \<Longrightarrow> w_os st = w \<Longrightarrow>
     (case s of None \<Rightarrow> m st = None | Some (a, w') \<Rightarrow> \<exists>st'. m st = Some (Return (a, st')) \<and> w_os st' = w')"
  unfolding meets_def by blast

lemma meets_Some: "yields w m (\<lambda>r. r = a) w' \<Longrightarrow> meets w m (Some (a, w'))"
  unfolding meets_def yields_def by fastforce

lemma meets_tret: "meets w (tret a) (Some (a, w))"
  by (simp add: meets_Some yields_tret)

lemma meets_bind:
  assumes "yields w m R w1" and "\<And>a. R a \<Longrightarrow> meets w1 (f a) s"
  shows "meets w (tbind m f) s"
  unfolding meets_def
proof (intro allI impI)
  fix st :: "('a, 'b, 'c, 'd, 'e) native_scheme"
  assume "w_os st = w"
  with assms(1) obtain a st1 where "m st = Some (Return (a, st1))" "R a" "w_os st1 = w1"
    unfolding yields_def by blast
  then have "tbind m f st = f a st1" and "w_os st1 = w1" and "R a"
    by (simp_all add: tbind_def)
  then show "case s of None \<Rightarrow> tbind m f st = None | Some (b, w') \<Rightarrow> \<exists>st'. tbind m f st = Some (Return (b, st')) \<and> w_os st' = w'"
    unfolding \<open>tbind m f st = f a st1\<close> by (intro meetsD [OF assms(2)])
qed

lemma meets_option:
  "(x = None \<Longrightarrow> meets w m s) \<Longrightarrow> (\<And>a. x = Some a \<Longrightarrow> meets w (f a) (t a)) \<Longrightarrow>
     meets w (case x of None \<Rightarrow> m | Some a \<Rightarrow> f a) (case x of None \<Rightarrow> s | Some a \<Rightarrow> t a)"
  by (cases x) simp_all

lemma meets_if: "(c \<Longrightarrow> meets w m s) \<Longrightarrow> (\<not> c \<Longrightarrow> meets w m' s') \<Longrightarrow> meets w (if c then m else m') (if c then s else s')"
  by simp

lemma meets_call: "yields w m (\<lambda>r. r = a) w1 \<Longrightarrow> meets w1 (f a) s \<Longrightarrow> meets w (tbind m f) s"
  by (erule meets_bind) simp

lemma meets_lbind: "yields w m (\<lambda>r. r = Value a) w1 \<Longrightarrow> meets w1 (f a) s \<Longrightarrow> meets w (lbind m f) s"
  unfolding lbind_def by (erule meets_bind) simp

lemma meets_keygen:
  assumes "entropy (lib_os L) rnd" and "length pk0 = 1184" and "length sk0 = 2400"
    and "\<And>pk sk. crypto_kem_keypair_derand (fst (rnd 64 w)) = Some (pk, sk) \<Longrightarrow> meets (snd (rnd 64 w)) (f (0, pk, sk)) (s (pk, sk))"
  shows "meets w (tbind (do_keygen L pk0 sk0) f) (case crypto_kem_keypair_derand (fst (rnd 64 w)) of None \<Rightarrow> None | Some p \<Rightarrow> s p)"
proof (cases "crypto_kem_keypair_derand (fst (rnd 64 w))")
  case None
  then show ?thesis
    by (simp add: meets_def tbind_def do_keygen_eq [OF assms(1-3)])
next
  case (Some p)
  then show ?thesis
    by (cases p) (auto intro!: meets_call [OF yields_keygen [OF assms(1-3)]] assms(4))
qed

lemma meets_encapsulate:
  assumes "entropy (lib_os L) rnd" and "length pk = 1184" and "length ct0 = 1088" and "length ss0 = 32"
    and "\<And>ct ss. crypto_kem_enc_derand pk (fst (rnd 32 w)) = Some (ct, ss) \<Longrightarrow> meets (snd (rnd 32 w)) (f (0, ct, ss)) (s (ct, ss))"
  shows "meets w (tbind (do_encapsulate L pk ct0 ss0) f) (case crypto_kem_enc_derand pk (fst (rnd 32 w)) of None \<Rightarrow> None | Some p \<Rightarrow> s p)"
proof (cases "crypto_kem_enc_derand pk (fst (rnd 32 w))")
  case None
  then show ?thesis
    by (simp add: meets_def tbind_def do_encapsulate_eq [OF assms(1-4)])
next
  case (Some p)
  then show ?thesis
    by (cases p) (auto intro!: meets_call [OF yields_encapsulate [OF assms(1-4)]] assms(5))
qed

lemma meets_decapsulate:
  assumes "length ct = 1088" and "length sk = 2400" and "length ss0 = 32"
    and "\<And>ss. crypto_kem_dec ct sk = Some ss \<Longrightarrow> meets w (f (0, ss)) (s ss)"
  shows "meets w (tbind (do_decapsulate sk ct ss0) f) (case crypto_kem_dec ct sk of None \<Rightarrow> None | Some ss \<Rightarrow> s ss)"
proof (cases "crypto_kem_dec ct sk")
  case None
  then show ?thesis
    by (simp add: meets_def tbind_def do_decapsulate_eq [OF assms(1-3)])
next
  case (Some ss)
  then show ?thesis
    by (auto intro!: meets_call [OF yields_decapsulate [OF assms(1-3)]] assms(4))
qed

text \<open>The last steps of \<open>build_e2ee_request\<close>.\<close>

definition seal_request where
  "seal_request L J mlkem_ct_str sym_key response_sk augmented_json =
     (let in_len = length augmented_json; bound = gzip_bound in_len in
     ffi_alloc J bound (\<lambda>compressed_buf.
     tbind (do_compress L augmented_json in_len compressed_buf bound) (\<lambda>(compressed_len, compressed_buf).
     if compressed_len = 0 then tret (Failure ''gzip compression failed'') else
     ffi_alloc J 12 (\<lambda>nonce.
     tbind (do_random L nonce NONCE_SIZE) (\<lambda>nonce.
     ffi_alloc J compressed_len (\<lambda>ciphertext.
     ffi_alloc J 16 (\<lambda>tag.
     tbind (do_seal L sym_key nonce compressed_buf compressed_len ciphertext tag) (\<lambda>(rc, ciphertext, tag).
     if rc \<noteq> 0 then tret (Failure ''encryption failed'') else
     let blob = mlkem_ct_str @ take NONCE_SIZE nonce @ take compressed_len ciphertext @ take TAG_SIZE tag in
     tret (Value (blob, take MLKEM_SK_SIZE response_sk))))))))))"

lemma meets_seal_request:
  assumes L: "libs_laws L rnd cview ks mac kview hmac gz" and lens: "length rsk = 2400" "length ss = 32" "16 \<le> length ct"
    and mem: "2400 \<le> ffi_max J"
  shows "meets w (seal_request L J ct (blob_key (hmac (EVP_sha256 (lib_kdf L))) ss ct INFO_REQ) rsk aug)
    (if gzip_bound (length aug) > ffi_max J then Some (Raised, w)
     else if gzip_bound (length aug) > UINT_MAX then Some (Failure ''gzip compression failed'', w)
     else Some (Value (seal_blob ks mac (hmac (EVP_sha256 (lib_kdf L))) gz INFO_REQ (ct, ss) (fst (rnd 12 w)) aug, rsk), snd (rnd 12 w)))"
proof (cases "gzip_bound (length aug) > ffi_max J")
  case True
  then show ?thesis
    by (simp add: seal_request_def ffi_alloc_def Let_def meets_tret)
next
  case room: False
  then have "gzip_bound (length aug) \<le> ffi_max J"
    by simp
  note alloc = ffi_alloc_ok [OF this]
  show ?thesis
proof (cases "gzip_bound (length aug) > UINT_MAX")
  case True
  then have "yields w (do_compress L aug (length aug) (ffi_new (gzip_bound (length aug))) (gzip_bound (length aug))) (\<lambda>(k, _). k = 0) w"
    by (simp add: yields_def do_compress_def e2ee_gzip_compress_def)
  with True room show ?thesis
    unfolding seal_request_def Let_def alloc by (auto intro!: meets_bind meets_tret)
next
  case False
  note laws = libs_lawsD [OF L]
  define key where "key = blob_key (hmac (EVP_sha256 (lib_kdf L))) ss ct INFO_REQ"
  obtain c t where s: "aead_seal ks mac key (fst (rnd 12 w)) (gz aug) = (c, t)"
    by (metis surj_pair)
  have aug: "length aug \<le> UINT_MAX" "0 < gzip_bound (length aug)"
    using False by (simp_all add: gzip_bound_def)
  then have fits: "length (gz aug) \<le> gzip_bound (length aug)" "0 < length (gz aug)"
    using gz_bound [OF laws(8), of aug] zlib_lawsD(1) [OF laws(6), of aug] by (auto simp: UINT_MAX_def)
  have compress: "yields w (do_compress L aug (length aug) (ffi_new (gzip_bound (length aug))) (gzip_bound (length aug)))
      (\<lambda>(k, zbuf). k = length (gz aug) \<and> take k zbuf = gz aug \<and> k \<le> length zbuf) w"
    by (rule yields_weaken [OF yields_compress [OF laws(6,7) _ _ aug(2)]])
      (use fits False aug in \<open>auto simp: ffi_new_def split: if_splits\<close>)
  have blob: "seal_blob ks mac (hmac (EVP_sha256 (lib_kdf L))) gz INFO_REQ (ct, ss) (fst (rnd 12 w)) aug = ct @ fst (rnd 12 w) @ c @ t"
    using s by (simp add: seal_blob_def key_def)
  have key: "length key = 32"
    unfolding key_def by (rule length_blob_key [OF laws(4)])
  have sealed: "yields w (seal_request L J ct key rsk aug) (\<lambda>r. r = Value (ct @ fst (rnd 12 w) @ c @ t, rsk)) (snd (rnd 12 w))"
    unfolding seal_request_def Let_def alloc small_allocs [OF mem]
    by (rule yields_bind [OF compress]) (use fits s room in \<open>auto intro!: yields_seal_blob [OF L key lens(1)]\<close>)
  from False room show ?thesis
    unfolding blob key_def [symmetric] by (simp add: meets_Some [OF sealed])
qed
qed

section \<open>Requests\<close>

text \<open>
  What \<open>build_e2ee_request\<close> does, without buffers and library states: it draws from the operating system
  64 bytes for the response key, 32 for the encapsulation and 12 for the nonce, in this order, and no
  more than it has come to need when it fails.
\<close>

definition request_spec ::
    "(nat \<Rightarrow> 'w \<Rightarrow> bytes \<times> 'w) \<Rightarrow> keystream \<Rightarrow> mac \<Rightarrow> hmac \<Rightarrow> (bytes \<Rightarrow> bytes) \<Rightarrow> ('j, 'l) lua_libs_scheme
     \<Rightarrow> bytes option \<Rightarrow> bytes \<Rightarrow> 'w \<Rightarrow> ((bytes \<times> bytes) lua \<times> 'w) option" where
  "request_spec rnd ks mac hmac gz J pub payload w =
     (case crypto_kem_keypair_derand (fst (rnd 64 w)) of None \<Rightarrow> None | Some (rpk, rsk) \<Rightarrow>
      let w = snd (rnd 64 w) in
      case decode_base64 J (case pub of None \<Rightarrow> [] | Some s \<Rightarrow> s) of
        None \<Rightarrow> Some (Failure ''invalid server pubkey (expected 1184 bytes)'', w)
      | Some pk \<Rightarrow>
      if length pk \<noteq> 1184 then Some (Failure ''invalid server pubkey (expected 1184 bytes)'', w) else
      case crypto_kem_enc_derand pk (fst (rnd 32 w)) of None \<Rightarrow> None | Some (ct, ss) \<Rightarrow>
      let w = snd (rnd 32 w) in
      case cjson_decode J payload of None \<Rightarrow> Some (Raised, w) | Some j \<Rightarrow>
      if \<not> is_table J j then Some (Failure ''payload is not a JSON object'', w) else
      case cjson_encode J (set_field J j ''e2e_response_pk'' (encode_base64 J rpk)) of None \<Rightarrow> Some (Raised, w) | Some aug \<Rightarrow>
      if gzip_bound (length aug) > ffi_max J then Some (Raised, w) else
      if gzip_bound (length aug) > UINT_MAX then Some (Failure ''gzip compression failed'', w) else
      Some (Value (seal_blob ks mac hmac gz INFO_REQ (ct, ss) (fst (rnd 12 w)) aug, rsk), snd (rnd 12 w)))"

lemma rc_ok: "(if (0 :: int) \<noteq> 0 then m else m') = m'"
  by simp

lemma meets_request:
  assumes L: "libs_laws L rnd cview ks mac kview hmac gz" and mem: "2400 \<le> ffi_max J"
  shows "meets w (build_e2ee_request L J pub payload) (request_spec rnd ks mac (hmac (EVP_sha256 (lib_kdf L))) gz J pub payload w)"
proof -
  note laws = libs_lawsD [OF L]
  have rnd: "length (fst (rnd n v)) = n" for n v
    using entropyD(3) [OF laws(1), of "replicate n 0" n v] by simp
  have kdf: "yields w (derive_key L J (take 32 ss) ct INFO_REQ)
      (\<lambda>r. r = Value (blob_key (hmac (EVP_sha256 (lib_kdf L))) ss ct INFO_REQ)) w" if "length ss = 32" "length ct = 1088" for w ss ct
    using yields_derive_key [OF laws(4,5), of ss ct INFO_REQ J w] that mem by (simp add: sizes infos)
  show ?thesis
    unfolding build_e2ee_request_def request_spec_def Let_def small_allocs [OF mem]
  proof (intro meets_keygen [OF laws(1)], goal_cases)
    case (3 rpk rsk)
    note key = kem_keypair_length [OF 3 rnd]
    show ?case
      unfolding prod.case MLKEM_PK_SIZE_def rc_ok
    proof (intro meets_option meets_if meets_tret meets_encapsulate [OF laws(1)], goal_cases)
      case (4 pk ct ss)
      note kem = kem_enc_length [OF 4(3) rnd]
      then have "take MLKEM_CT_SIZE ct = ct" "take 1184 rpk = rpk" "length ss = 32" "length ct = 1088"
        using 4(2) key by (simp_all add: sizes)
      note len = this
      show ?case
       unfolding prod.case rc_ok len(1,2)
       by (intro meets_lbind [OF kdf [OF len(3,4)]] meets_option meets_if meets_tret
         meets_seal_request [OF L key(2) len(3) _ mem, unfolded seal_request_def Let_def small_allocs [OF mem]]) (simp add: len(4))
    qed (simp_all add: sizes ffi_new_def)
  qed (simp_all add: sizes ffi_new_def)
qed

section \<open>Streams\<close>

definition stream_key_spec :: "hmac \<Rightarrow> ('j, 'l) lua_libs_scheme \<Rightarrow> bytes \<Rightarrow> bytes option \<Rightarrow> bytes lua option" where
  "stream_key_spec hmac J sk ct_b64 =
     (case decode_base64 J (case ct_b64 of None \<Rightarrow> [] | Some s \<Rightarrow> s) of
        None \<Rightarrow> Some (Failure ''invalid e2e_init ciphertext'')
      | Some ct \<Rightarrow>
      if length ct \<noteq> 1088 then Some (Failure ''invalid e2e_init ciphertext'')
      else map_option (\<lambda>ss. Value (blob_key hmac ss ct INFO_STREAM)) (crypto_kem_dec ct sk))"

definition chunk_spec :: "keystream \<Rightarrow> mac \<Rightarrow> ('j, 'l) lua_libs_scheme \<Rightarrow> bytes option \<Rightarrow> bytes \<Rightarrow> bytes lua" where
  "chunk_spec ks mac J chunk_b64 key =
     (case decode_base64 J (case chunk_b64 of None \<Rightarrow> [] | Some s \<Rightarrow> s) of
        None \<Rightarrow> Failure ''invalid stream chunk''
      | Some raw \<Rightarrow>
      if length raw < 28 then Failure ''invalid stream chunk''
      else if length raw - 28 > ffi_max J then Raised
      else case aead_open ks mac key (take 12 raw) (drop 12 (take (length raw - 16) raw)) (drop (length raw - 16) raw) of
        None \<Rightarrow> Failure ''stream chunk decryption failed''
      | Some p \<Rightarrow> Value p)"

lemma meets_stream_init:
  assumes L: "libs_laws L rnd cview ks mac kview hmac gz" and sk: "length sk = 2400" and mem: "2400 \<le> ffi_max J"
  shows "meets w (decrypt_stream_init L J sk ct_b64)
    (map_option (\<lambda>r. (r, w)) (stream_key_spec (hmac (EVP_sha256 (lib_kdf L))) J sk ct_b64))"
proof -
  note laws = libs_lawsD [OF L]
  have kdf: "yields w (derive_key L J (take 32 ss) ct INFO_STREAM)
      (\<lambda>r. r = Value (blob_key (hmac (EVP_sha256 (lib_kdf L))) ss ct INFO_STREAM)) w" if "length ss = 32" "length ct = 1088" for ss ct
    using yields_derive_key [OF laws(4,5), of ss ct INFO_STREAM J w] that mem by (simp add: infos)
  have "meets w (decrypt_stream_init L J sk ct_b64)
    (case decode_base64 J (case ct_b64 of None \<Rightarrow> [] | Some s \<Rightarrow> s) of
        None \<Rightarrow> Some (Failure ''invalid e2e_init ciphertext'', w)
      | Some ct \<Rightarrow>
      if length ct \<noteq> 1088 then Some (Failure ''invalid e2e_init ciphertext'', w)
      else case crypto_kem_dec ct sk of None \<Rightarrow> None | Some ss \<Rightarrow> Some (Value (blob_key (hmac (EVP_sha256 (lib_kdf L))) ss ct INFO_STREAM), w))"
    unfolding decrypt_stream_init_def MLKEM_CT_SIZE_def small_allocs [OF mem]
  proof (intro meets_option meets_if meets_tret meets_decapsulate, goal_cases)
    case (4 ct ss)
    then have "length ss = 32"
      using kem_dec_length [OF 4(3)] sk by simp
    with 4 show ?case
      unfolding prod.case rc_ok by (intro meets_Some [OF kdf]) simp_all
  qed (simp_all add: sk ffi_new_def)
  then show ?thesis
    unfolding stream_key_spec_def
    by (cases "decode_base64 J (case ct_b64 of None \<Rightarrow> [] | Some s \<Rightarrow> s)") (auto simp: option.case_eq_if map_option_case)
qed

lemma yields_stream_chunk:
  assumes L: "libs_laws L rnd cview ks mac kview hmac gz" and key: "length key = 32" and mem: "2400 \<le> ffi_max J"
  shows "yields w (decrypt_stream_chunk L J chunk_b64 key) (\<lambda>r. r = chunk_spec ks mac J chunk_b64 key) w"
proof (cases "decode_base64 J (case chunk_b64 of None \<Rightarrow> [] | Some s \<Rightarrow> s)")
  case None
  then show ?thesis
    by (simp add: decrypt_stream_chunk_def chunk_spec_def yields_tret)
next
  case (Some raw)
  note laws = libs_lawsD [OF L]
  define ct where "ct = drop 12 (take (length raw - 16) raw)"
  define out :: bytes where "out = ffi_new (if 0 < length ct then length ct else 1)"
  define q where "q = aead_open ks mac key (take 12 raw) ct (drop (length raw - 16) raw)"
  have len: "length ct \<le> length out"
    by (auto simp: out_def ffi_new_def)
  have opens: "yields w (do_open L key (take 12 raw) ct (length ct) (drop (length raw - 16) raw) out)
      (\<lambda>r. r = (case q of Some p \<Rightarrow> (0, write_at out 0 p) | None \<Rightarrow> (- 1, write_at out 0 (replicate (length ct) 0)))) w" if "28 \<le> length raw"
    using yields_open [OF laws(2,3) order_refl len, of w key "take 12 raw" "drop (length raw - 16) raw"] that key by (simp add: q_def)
  have q: "length p = length ct" if "q = Some p" for p
    using that by (auto simp: q_def aead_open_def split: if_splits)
  consider "length raw < 28" | "28 \<le> length raw" "length raw - 28 > ffi_max J" | "28 \<le> length raw" "length raw - 28 \<le> ffi_max J"
    by linarith
  then show ?thesis
  proof cases
    case 3
    then have "(if 0 < length ct then length ct else 1) \<le> ffi_max J"
      using mem by (simp add: ct_def)
    note alloc = ffi_alloc_ok [OF this, folded out_def]
    have eq: "decrypt_stream_chunk L J chunk_b64 key = ffi_alloc J (if 0 < length ct then length ct else 1) (\<lambda>out.
        tbind (do_open L key (take 12 raw) ct (length ct) (drop (length raw - 16) raw) out)
        (\<lambda>(rc, plaintext). if rc \<noteq> 0 then tret (Failure ''stream chunk decryption failed'') else tret (Value (take (length ct) plaintext))))"
      unfolding decrypt_stream_chunk_def Some sizes Let_def ct_def using 3(1) by simp
    have spec: "chunk_spec ks mac J chunk_b64 key = (case q of None \<Rightarrow> Failure ''stream chunk decryption failed'' | Some p \<Rightarrow> Value p)"
      unfolding chunk_spec_def Some ct_def q_def using 3 by simp
    show ?thesis
      unfolding eq spec alloc by (rule yields_call [OF opens]) (use 3 q in \<open>auto simp: write_at_def yields_tret split: option.split\<close>)
  next
    case 2
    have long: "28 < length raw" "\<not> length raw - 16 \<le> 12"
      using 2 mem by linarith+
    have spec: "chunk_spec ks mac J chunk_b64 key = Raised"
      unfolding chunk_spec_def Some using 2 by simp
    show ?thesis
      unfolding decrypt_stream_chunk_def Some sizes Let_def spec using 2 long by (simp add: ffi_alloc_def yields_tret)
  qed (use Some in \<open>simp add: decrypt_stream_chunk_def chunk_spec_def sizes yields_tret\<close>)
qed

section \<open>Responses\<close>

lemma response_diverges:
  assumes "length sk = 2400" and "1116 \<le> length blob" and "2400 \<le> ffi_max J" and "crypto_kem_dec (take 1088 blob) sk = None"
  shows "decrypt_response L J blob sk st = None"
  unfolding decrypt_response_def small_allocs [OF assms(3)]
  using assms(1,2,4) do_decapsulate_eq [of "take 1088 blob" sk "ffi_new 32" st]
  by (simp add: sizes Let_def tbind_def ffi_new_def)

lemma response_too_large:
  assumes L: "libs_laws L rnd cview ks mac kview hmac gz" and "length sk = 2400" and blob: "1116 \<le> length blob"
    and mem: "2400 \<le> ffi_max J" "length blob - 1116 > ffi_max J"
    and dec: "crypto_kem_dec (take 1088 blob) sk = Some ss"
  shows "yields w (decrypt_response L J blob sk) (\<lambda>r. r = Raised) w"
proof -
  have decaps: "yields w (do_decapsulate sk (take 1088 blob) (ffi_new 32)) (\<lambda>r. r = (0, ss)) w"
    by (rule yields_decapsulate [OF _ _ _ dec]) (use assms(2) blob in \<open>simp_all add: ffi_new_def\<close>)
  have "length ss = 32"
    using kem_dec_length [OF dec] blob assms(2) by simp
  then have kdf: "yields w (derive_key L J (take 32 ss) (take 1088 blob) INFO_RESP)
      (\<lambda>r. r = Value (blob_key (hmac (EVP_sha256 (lib_kdf L))) ss (take 1088 blob) INFO_RESP)) w"
    using yields_derive_key [OF libs_lawsD(4,5) [OF L], of ss "take 1088 blob" INFO_RESP J w] blob mem(1) by (simp add: infos)
  have "1116 < length blob"
    using mem by linarith
  then have "(if 0 < length (drop (1088 + 12) (take (length blob - 16) blob))
      then length (drop (1088 + 12) (take (length blob - 16) blob)) else 1) > ffi_max J"
    using mem by simp
  note fails = ffi_alloc_fails [OF this]
  show ?thesis
    unfolding decrypt_response_def Let_def sizes small_allocs [OF mem(1)] fails
    by (intro yields_else yields_call [OF decaps] yields_pair yields_lbind [OF kdf]) (use blob in \<open>simp_all add: yields_tret\<close>)
qed

lemma response_outcome:
  assumes L: "libs_laws L rnd cview ks mac kview hmac gz" and "length sk = 2400" and "1116 \<le> length blob"
    and mem: "2400 \<le> ffi_max J" and dec: "crypto_kem_dec (take 1088 blob) sk = Some ss"
    and opened: "opened = open_blob ks mac (hmac (EVP_sha256 (lib_kdf L))) INFO_RESP ss blob"
  shows "\<exists>r st'. decrypt_response L J blob sk st = Some (Return (r, st')) \<and> w_os st' = w_os st \<and>
    (r = Failure ''decryption failed (auth tag mismatch)'' \<longleftrightarrow> length blob - 1116 \<le> ffi_max J \<and> opened = None) \<and>
    (r = Raised \<longleftrightarrow> length blob - 1116 > ffi_max J \<or> (\<exists>p. opened = Some p \<and> oversized (ffi_max J) p))"
proof (cases "length blob - 1116 > ffi_max J")
  case True
  then show ?thesis
    using yieldsD [OF response_too_large [OF L assms(2,3) mem True dec] refl, of st] by auto
next
  case False
  then have room: "length blob - 1116 \<le> ffi_max J"
    by simp
  have result: "yields (w_os st) (decrypt_response L J blob sk)
      (\<lambda>r. (r = Failure ''decryption failed (auth tag mismatch)'' \<longleftrightarrow> opened = None) \<and>
        (r = Raised \<longleftrightarrow> (\<exists>p. opened = Some p \<and> oversized (ffi_max J) p))) (w_os st)"
    by (rule yields_response [OF L assms(2,3) mem room dec opened [symmetric]]) (auto intro!: yields_weaken [OF yields_inflate_any])
  show ?thesis
    using yieldsD [OF result, of st] room by fastforce
qed

lemma response_opens:
  assumes L: "libs_laws L rnd cview ks mac kview hmac gz" and "length sk = 2400" and "length ct = 1088" and "length nonce = 12"
    and msg: "msg \<noteq> []" "length msg < UINT_MAX" "length (gz msg) \<le> UINT_MAX"
    and mem: "2400 \<le> ffi_max J" "length msg < ffi_max J" "length (gz msg) \<le> ffi_max J" and dec: "crypto_kem_dec ct sk = Some ss"
  shows "\<exists>st'. decrypt_response L J (seal_blob ks mac (hmac (EVP_sha256 (lib_kdf L))) gz INFO_RESP (ct, ss) nonce msg) sk st
    = Some (Return (Value msg, st')) \<and> w_os st' = w_os st"
proof -
  define blob where "blob = seal_blob ks mac (hmac (EVP_sha256 (lib_kdf L))) gz INFO_RESP (ct, ss) nonce msg"
  note blob = open_seal_blob [OF libs_lawsD(2) [OF L] assms(3,4),
    where hmac = "hmac (EVP_sha256 (lib_kdf L))" and gz = gz and info = INFO_RESP and ss = ss and msg = msg, folded blob_def]
  have result: "yields (w_os st) (decrypt_response L J blob sk) (\<lambda>r. r = Value msg) (w_os st)"
    by (rule yields_response [OF L assms(2) _ mem(1) _ _ blob(1)]) (use blob(2,3) dec mem in \<open>auto intro!: yields_inflate [OF L _ _ msg mem(2)]\<close>)
  show ?thesis
    using yieldsD [OF result, of st] unfolding blob_def by fastforce
qed

section \<open>Libraries for examples\<close>

definition plain_lua :: "bytes lua_libs" where
  "plain_lua = \<lparr> decode_base64 = Some, encode_base64 = (\<lambda>b. b), cjson_decode = Some, is_table = (\<lambda>j. True),
     set_field = (\<lambda>j k v. j @ lua_string k @ v), cjson_encode = Some, ffi_max = 2147483647 \<rparr>"

definition proxy_libs where
  "proxy_libs = \<lparr> lib_os = (script_os [])\<lparr> platform := Apple \<rparr>, lib_ssl = toy_cipher, lib_kdf = toy_kdf, lib_z = framed_zlib \<rparr>"

definition proxy_state :: "((errno + bytes) list, int, int, int) native" where
  "proxy_state = \<lparr> w_os = [], w_ssl = 0, w_kdf = 0, w_z = 0 \<rparr>"

lemma proxy_libs_laws:
  "libs_laws proxy_libs (apple_rnd (lib_os proxy_libs)) (\<lambda>v. v) toy_keystream toy_mac (\<lambda>v. v) toy_hmac framed_gz"
  unfolding libs_laws_def proxy_libs_def
  by (simp add: entropy_Apple os_laws_sample toy_cipher_laws toy_kdf_laws framed_zlib_laws)

section \<open>Properties\<close>

text \<open>
  C5. \<open>build_e2ee_request\<close> (\<open>e2ee_crypto.lua\<close>) is \<open>request_spec\<close> on every input: over libraries that behave as
  documented it draws the response key, encapsulates to the decoded public key of the instance, puts the
  response key into the payload, and returns the blob \<open>mlkem_ct || nonce || ciphertext || tag\<close> of the
  compressed payload, sealed with the key HKDF derives from the shared secret for requests, together with
  the secret response key. It fails, with the message it has for the case, exactly on a public key that is
  not 1184 bytes of base64, a payload that is neither a JSON object nor a JSON array, and one that is too large for
  the compression; it raises an error exactly when \<open>cjson\<close> does or the buffer for the compression cannot be
  allocated; and it does not return exactly if rejection sampling does not. The only assumption on memory is
  that buffers of up to 2400 bytes can be allocated.
\<close>

theorem request_refines:
  assumes "libs_laws L rnd cview ks mac kview hmac gz" and "2400 \<le> ffi_max J"
  shows "case request_spec rnd ks mac (hmac (EVP_sha256 (lib_kdf L))) gz J pub payload (w_os st) of
      None \<Rightarrow> build_e2ee_request L J pub payload st = None
    | Some (r, w') \<Rightarrow> \<exists>st'. build_e2ee_request L J pub payload st = Some (Return (r, st')) \<and> w_os st' = w'"
  by (rule meetsD [OF meets_request [OF assms] refl])

theorem request_refines_witness:
  "case request_spec (apple_rnd (lib_os proxy_libs)) toy_keystream toy_mac (toy_hmac (EVP_sha256 (lib_kdf proxy_libs))) framed_gz
      plain_lua (Some (replicate 1184 1)) [123, 125] (w_os proxy_state) of
      None \<Rightarrow> build_e2ee_request proxy_libs plain_lua (Some (replicate 1184 1)) [123, 125] proxy_state = None
    | Some (r, w') \<Rightarrow> \<exists>st'. build_e2ee_request proxy_libs plain_lua (Some (replicate 1184 1)) [123, 125] proxy_state = Some (Return (r, st'))
        \<and> w_os st' = w'"
  by (rule request_refines [OF proxy_libs_laws]) (simp add: plain_lua_def)

text \<open>
  C14. \<open>decrypt_response\<close> (\<open>e2ee_crypto.lua\<close>) opens what an instance seals. For every response key and every ML-KEM
  ciphertext, a non-empty message that is compressed and sealed for responses under the secret the
  ciphertext decapsulates to is returned unchanged, whatever its nonce: the size of the buffer for the
  decompression, read from the gzip trailer, is enough. The message must be shorter than \<open>2 ^ 32 - 1\<close> bytes and
  its compression not longer, and buffers for both must be available. The operating system is not asked for
  anything.
\<close>

theorem response_roundtrip:
  assumes "libs_laws L rnd cview ks mac kview hmac gz" and "length sk = 2400" and "length ct = 1088" and "length nonce = 12"
    and "msg \<noteq> []" and "length msg < UINT_MAX" and "length (gz msg) \<le> UINT_MAX"
    and "2400 \<le> ffi_max J" and "length msg < ffi_max J" and "length (gz msg) \<le> ffi_max J"
  shows "case crypto_kem_dec ct sk of
      None \<Rightarrow> (\<forall>ss. decrypt_response L J (seal_blob ks mac (hmac (EVP_sha256 (lib_kdf L))) gz INFO_RESP (ct, ss) nonce msg) sk st = None)
    | Some ss \<Rightarrow> \<exists>st'. decrypt_response L J (seal_blob ks mac (hmac (EVP_sha256 (lib_kdf L))) gz INFO_RESP (ct, ss) nonce msg) sk st
        = Some (Return (Value msg, st')) \<and> w_os st' = w_os st"
proof (cases "crypto_kem_dec ct sk")
  case None
  with open_seal_blob(2,3) [OF libs_lawsD(2) [OF assms(1)] assms(3,4)] show ?thesis
    by (auto intro!: response_diverges [OF assms(2)] assms(8))
next
  case (Some ss)
  with response_opens [OF assms Some, of st] show ?thesis
    by simp
qed

theorem response_roundtrip_witness:
  "case crypto_kem_dec (replicate 1088 1) (replicate 2400 2) of
      None \<Rightarrow> (\<forall>ss. decrypt_response proxy_libs plain_lua (seal_blob toy_keystream toy_mac (toy_hmac (EVP_sha256 (lib_kdf proxy_libs))) framed_gz INFO_RESP
        (replicate 1088 1, ss) (replicate 12 3) [123, 125]) (replicate 2400 2) proxy_state = None)
    | Some ss \<Rightarrow> \<exists>st'. decrypt_response proxy_libs plain_lua (seal_blob toy_keystream toy_mac (toy_hmac (EVP_sha256 (lib_kdf proxy_libs))) framed_gz INFO_RESP
        (replicate 1088 1, ss) (replicate 12 3) [123, 125]) (replicate 2400 2) proxy_state = Some (Return (Value [123, 125], st')) \<and> w_os st' = w_os proxy_state"
  by (rule response_roundtrip [OF proxy_libs_laws]) (simp_all add: UINT_MAX_def framed_gz plain_lua_def)

text \<open>
  C13. \<open>decrypt_response\<close> (\<open>e2ee_crypto.lua\<close>) on an arbitrary response. One that is shorter than the ML-KEM
  ciphertext, the nonce and the tag together is refused before anything is called. For any other, if the
  decapsulation returns, so does the call. It leads to the message that the tag does not match exactly if a
  buffer for the plaintext can be allocated and the response does not open under the response key that is derived
  from it: nothing that does not authenticate is decompressed or returned. It leads to a Lua error exactly if a
  buffer cannot be allocated: the one for the plaintext, as long as the ciphertext, or the one for the
  decompression, whose size an authentic response announces in its last four bytes and nothing checks. Buffers
  of up to 2400 bytes are assumed to be available.
\<close>

theorem response_authentic:
  assumes "libs_laws L rnd cview ks mac kview hmac gz" and "length sk = 2400" and "2400 \<le> ffi_max J"
  shows "if length blob < 1116 then decrypt_response L J blob sk st = Some (Return (Failure ''response too short'', st))
    else case crypto_kem_dec (take 1088 blob) sk of
      None \<Rightarrow> decrypt_response L J blob sk st = None
    | Some ss \<Rightarrow>
        let opened = open_blob ks mac (hmac (EVP_sha256 (lib_kdf L))) INFO_RESP ss blob
        in \<exists>r st'. decrypt_response L J blob sk st = Some (Return (r, st')) \<and> w_os st' = w_os st \<and>
          (r = Failure ''decryption failed (auth tag mismatch)'' \<longleftrightarrow> length blob - 1116 \<le> ffi_max J \<and> opened = None) \<and>
          (r = Raised \<longleftrightarrow> length blob - 1116 > ffi_max J \<or> (\<exists>p. opened = Some p \<and> oversized (ffi_max J) p))"
proof (cases "length blob < 1116")
  case True
  then show ?thesis
    by (simp add: decrypt_response_def sizes tret_def)
next
  case False
  then have blob: "1116 \<le> length blob"
    by simp
  show ?thesis
  proof (cases "crypto_kem_dec (take 1088 blob) sk")
    case None
    then show ?thesis
      using blob response_diverges [OF assms(2) blob assms(3) None, of L st] by simp
  next
    case (Some ss)
    show ?thesis
      unfolding if_not_P [OF False] Some option.case Let_def by (rule response_outcome [OF assms(1,2) blob assms(3) Some refl])
  qed
qed

theorem response_authentic_witness:
  "case crypto_kem_dec (take 1088 (replicate 1200 1)) (replicate 2400 2) of
      None \<Rightarrow> decrypt_response proxy_libs plain_lua (replicate 1200 1) (replicate 2400 2) proxy_state = None
    | Some ss \<Rightarrow>
        let opened = open_blob toy_keystream toy_mac (toy_hmac (EVP_sha256 (lib_kdf proxy_libs))) INFO_RESP ss (replicate 1200 1)
        in \<exists>r st'. decrypt_response proxy_libs plain_lua (replicate 1200 1) (replicate 2400 2) proxy_state = Some (Return (r, st'))
          \<and> w_os st' = w_os proxy_state \<and>
          (r = Failure ''decryption failed (auth tag mismatch)'' \<longleftrightarrow> length (replicate 1200 (1 :: u8)) - 1116 \<le> ffi_max plain_lua \<and> opened = None) \<and>
          (r = Raised \<longleftrightarrow> length (replicate 1200 (1 :: u8)) - 1116 > ffi_max plain_lua \<or> (\<exists>p. opened = Some p \<and> oversized (ffi_max plain_lua) p))"
proof -
  have "2400 \<le> ffi_max plain_lua" "\<not> length (replicate 1200 (1 :: u8)) < 1116"
    by (simp_all add: plain_lua_def)
  then show ?thesis
    using response_authentic [OF proxy_libs_laws, of "replicate 2400 2" plain_lua "replicate 1200 1" proxy_state]
    unfolding if_not_P [OF \<open>\<not> length (replicate 1200 (1 :: u8)) < 1116\<close>] by (simp only: length_replicate)
qed

text \<open>
  The two functions for streams (\<open>e2ee_crypto.lua\<close>) are their specifications on every input. \<open>decrypt_stream_init\<close>
  returns the key HKDF derives for streams from the secret that the announced ciphertext decapsulates to,
  and an error exactly if that is not 1088 bytes of base64; \<open>decrypt_stream_chunk\<close> returns the plaintext of
  a chunk \<open>nonce || ciphertext || tag\<close> exactly if it authenticates under the key of the stream, and an
  error otherwise, also for chunks too short to hold a nonce and a tag; it raises an error for a chunk that is
  too large for its buffer.
\<close>

theorem stream_refines:
  assumes "libs_laws L rnd cview ks mac kview hmac gz" and "length sk = 2400" and "length key = 32" and "2400 \<le> ffi_max J"
  shows "(case stream_key_spec (hmac (EVP_sha256 (lib_kdf L))) J sk ct_b64 of
      None \<Rightarrow> decrypt_stream_init L J sk ct_b64 st = None
    | Some r \<Rightarrow> \<exists>st'. decrypt_stream_init L J sk ct_b64 st = Some (Return (r, st')) \<and> w_os st' = w_os st) \<and>
    (\<exists>st'. decrypt_stream_chunk L J chunk_b64 key st = Some (Return (chunk_spec ks mac J chunk_b64 key, st')) \<and> w_os st' = w_os st)"
  using meetsD [OF meets_stream_init [OF assms(1,2,4)] refl, of ct_b64 st] yieldsD [OF yields_stream_chunk [OF assms(1,3,4)] refl, of chunk_b64 st]
  by (auto split: option.splits)

theorem stream_refines_witness:
  "(case stream_key_spec (toy_hmac (EVP_sha256 (lib_kdf proxy_libs))) plain_lua (replicate 2400 2) (Some (replicate 1088 1)) of
      None \<Rightarrow> decrypt_stream_init proxy_libs plain_lua (replicate 2400 2) (Some (replicate 1088 1)) proxy_state = None
    | Some r \<Rightarrow> \<exists>st'. decrypt_stream_init proxy_libs plain_lua (replicate 2400 2) (Some (replicate 1088 1)) proxy_state = Some (Return (r, st'))
        \<and> w_os st' = w_os proxy_state) \<and>
    (\<exists>st'. decrypt_stream_chunk proxy_libs plain_lua (Some (replicate 30 5)) (replicate 32 4) proxy_state
       = Some (Return (chunk_spec toy_keystream toy_mac plain_lua (Some (replicate 30 5)) (replicate 32 4), st')) \<and> w_os st' = w_os proxy_state)"
  by (rule stream_refines [OF proxy_libs_laws]) (simp_all add: plain_lua_def)

end
