(* ===== verification/Relay.thy ===== *)
theory Relay
  imports Protocol
begin

text \<open>
  The relay of streamed responses: the part of \<open>lua/e2ee_handler.lua\<close> that reads server-sent events from the
  connection, decrypts them with \<open>e2ee_crypto.lua\<close> and passes them to \<open>on_chunk\<close>. The reads are a list of
  what the body reader returns, a chunk of bytes or an error, its end being \<open>nil\<close>; the calls of
  \<open>on_chunk\<close> are collected in order, \<open>None\<close> being the call with \<open>nil\<close>. \<open>cjson.safe\<close> is a parameter.
  Metrics, logging, the bookkeeping of the instance selector and the token accounting are left out.
\<close>

section \<open>Definitions\<close>

text \<open>
  Lua values of parsed events: \<open>cjson.safe\<close> returns \<open>nil\<close> instead of raising errors; indexing a value that is neither a
  table nor a string is an error (\<open>None\<close>), a missing field is \<open>nil\<close>, which is not true.
\<close>

record 'j event_libs = "'j lua_libs" +
  safe_decode :: "bytes \<Rightarrow> 'j option"
  truth :: "'j \<Rightarrow> bool"
  index :: "'j \<Rightarrow> string \<Rightarrow> 'j option"
  string_of :: "'j \<Rightarrow> bytes option"
  encode_error :: "'j \<Rightarrow> bytes option"
  encode_message :: "bytes \<Rightarrow> bytes"

text \<open>The class \<open>%s\<close> of Lua patterns, and the pattern \<open>^%s*(.-)%s*$\<close>.\<close>

definition is_space :: "u8 \<Rightarrow> bool" where
  "is_space c \<longleftrightarrow> c = 32 \<or> (9 \<le> c \<and> c \<le> 13)"

definition trim :: "bytes \<Rightarrow> bytes" where
  "trim s = rev (dropWhile is_space (rev (dropWhile is_space s)))"

definition strip_cr :: "bytes \<Rightarrow> bytes" where
  "strip_cr line = (if line \<noteq> [] \<and> last line = 13 then butlast line else line)"

datatype event = Ignored | Init bytes | Chunk bytes | Passthrough bytes | Done | Error bytes

definition failed :: "string \<Rightarrow> string \<Rightarrow> event" where
  "failed prefix err = Error (lua_string prefix @ lua_string err)"

definition process_sse_line ::
    "('w, 'k, 'c, 'v, 'd, 'p, 'x, 's, 'u) libs \<Rightarrow> 'j event_libs \<Rightarrow> bytes \<Rightarrow> bytes option \<Rightarrow> bytes
     \<Rightarrow> (('w, 'v, 'x, 'u) native, event lua) call" where
  "process_sse_line L J line stream_key response_sk =
     (let line = strip_cr line in
      if take 6 line \<noteq> lua_string ''data: '' then tret (Value Ignored) else
      let raw = trim (drop 6 line) in
      if raw = lua_string ''[DONE]'' then tret (Value Done) else
      if raw = [] then tret (Value Ignored) else
      case safe_decode J raw of None \<Rightarrow> tret (Value Ignored) | Some event \<Rightarrow>
      if \<not> truth J event then tret (Value Ignored) else
      case index J event ''e2e_init'' of None \<Rightarrow> tret Raised | Some e2e_init \<Rightarrow>
      if truth J e2e_init then
        (case string_of J e2e_init of None \<Rightarrow> tret Raised | Some s \<Rightarrow>
         tbind (decrypt_stream_init L J response_sk (Some s)) (\<lambda>r. case r of
           Value key \<Rightarrow> tret (Value (Init key))
         | Failure err \<Rightarrow> tret (Value (failed ''stream init failed: '' err))
         | Raised \<Rightarrow> tret Raised))
      else case index J event ''e2e'' of None \<Rightarrow> tret Raised | Some e2e \<Rightarrow>
      if truth J e2e then
        (case stream_key of None \<Rightarrow> tret (Value (failed ''received e2e chunk before e2e_init'' [])) | Some stream_key \<Rightarrow>
         case string_of J e2e of None \<Rightarrow> tret Raised | Some s \<Rightarrow>
         tbind (decrypt_stream_chunk L J (Some s) stream_key) (\<lambda>r. case r of
           Value decrypted \<Rightarrow> tret (Value (Chunk decrypted))
         | Failure err \<Rightarrow> tret (Value (failed ''chunk decryption failed: '' err))
         | Raised \<Rightarrow> tret Raised))
      else case index J event ''usage'' of None \<Rightarrow> tret Raised | Some usage \<Rightarrow>
      if truth J usage then tret (Value (Passthrough line))
      else case index J event ''e2e_error'' of None \<Rightarrow> tret Raised | Some e2e_error \<Rightarrow>
      if truth J e2e_error then
        (case encode_error J e2e_error of None \<Rightarrow> tret Raised
         | Some s \<Rightarrow> tret (Value (Chunk (lua_string ''data: '' @ s))))
      else tret (Value Ignored))"

record relay =
  stream_key :: "bytes option"
  done_sent :: bool
  had_error :: bool
  chunks :: "bytes option list"

definition on_chunk :: "bytes option \<Rightarrow> relay \<Rightarrow> relay" where
  "on_chunk d s = s\<lparr> chunks := chunks s @ [d] \<rparr>"

fun handle :: "'j event_libs \<Rightarrow> event \<Rightarrow> relay \<Rightarrow> relay" where
  "handle J (Init key) s = s\<lparr> stream_key := Some key \<rparr>"
| "handle J (Chunk data) s = on_chunk (Some data) s"
| "handle J (Passthrough data) s = on_chunk (Some data) s"
| "handle J Done s = (on_chunk None s)\<lparr> done_sent := True \<rparr>"
| "handle J (Error err) s =
     (on_chunk None (on_chunk (Some (lua_string ''data: '' @ encode_message J err)) (s\<lparr> had_error := True \<rparr>)))\<lparr> done_sent := True \<rparr>"
| "handle J Ignored s = s"

fun split_line :: "bytes \<Rightarrow> (bytes \<times> bytes) option" where
  "split_line [] = None"
| "split_line (c # cs) = (if c = 10 then Some ([], cs) else map_option (\<lambda>(line, rest). (c # line, rest)) (split_line cs))"

definition handle_line where
  "handle_line L J response_sk line s =
     (if line = [] then tret (Value s)
      else lbind (process_sse_line L J line (stream_key s) response_sk) (\<lambda>e. tret (Value (handle J e s))))"

lemma split_line_length: "split_line buf = Some (line, rest) \<Longrightarrow> length rest < length buf"
  by (induction buf arbitrary: line) (auto split: if_splits)

function drain where
  "drain L J response_sk buf s =
     (if done_sent s then tret (Value (buf, s)) else
      case split_line buf of
        None \<Rightarrow> tret (Value (buf, s))
      | Some (line, rest) \<Rightarrow> lbind (handle_line L J response_sk line s) (\<lambda>s. drain L J response_sk rest s))"
  by pat_completeness auto
termination
  by (relation "measure (\<lambda>(L, J, sk, buf, s). length buf)") (auto dest: split_line_length)

fun read_loop ::
    "('w, 'k, 'c, 'v, 'd, 'p, 'x, 's, 'u) libs \<Rightarrow> 'j event_libs \<Rightarrow> bytes \<Rightarrow> (string + bytes) list \<Rightarrow> bytes \<Rightarrow> relay
     \<Rightarrow> (('w, 'v, 'x, 'u) native, (bytes \<times> relay) lua) call" where
  "read_loop L J response_sk [] buf s = tret (Value (buf, s))"
| "read_loop L J response_sk (r # rs) buf s =
     (if done_sent s then tret (Value (buf, s)) else
      case r of
        Inl err \<Rightarrow> tret (Value (buf, s\<lparr> had_error := True \<rparr>))
      | Inr chunk \<Rightarrow> lbind (drain L J response_sk (buf @ chunk) s) (\<lambda>(buf, s). read_loop L J response_sk rs buf s))"

definition trailing :: "event \<Rightarrow> relay \<Rightarrow> relay" where
  "trailing e s = (case e of
       Chunk data \<Rightarrow> on_chunk (Some data) s
     | Passthrough data \<Rightarrow> on_chunk (Some data) s
     | Done \<Rightarrow> (on_chunk None s)\<lparr> done_sent := True \<rparr>
     | _ \<Rightarrow> s)"

definition finish where
  "finish L J response_sk buf s =
     lbind (if buf \<noteq> [] \<and> \<not> done_sent s
            then lbind (process_sse_line L J buf (stream_key s) response_sk) (\<lambda>e. tret (Value (trailing e s)))
            else tret (Value s)) (\<lambda>s.
     tret (Value (if \<not> done_sent s then on_chunk None s else s)))"

definition relay_stream where
  "relay_stream L J response_sk reads =
     lbind (read_loop L J response_sk reads [] \<lparr> stream_key = None, done_sent = False, had_error = False, chunks = [] \<rparr>)
       (\<lambda>(buf, s). finish L J response_sk buf s)"

section \<open>Sequencing\<close>

lemma lbind_Value [simp]: "lbind (tret (Value a)) f = f a"
  by (simp add: lbind_def tbind_tret)

lemma lbind_assoc: "lbind (lbind m f) g = lbind m (\<lambda>a. lbind (f a) g)"
  unfolding lbind_def tbind_assoc
  by (rule arg_cong [where f = "tbind m"]) (auto simp: fun_eq_iff tbind_tret split: lua.split)

lemma lbind_split: "lbind (case p of (a, b) \<Rightarrow> f a b) g = (case p of (a, b) \<Rightarrow> lbind (f a b) g)"
  by (cases p) simp

definition ensures :: "('st, 'a lua) call \<Rightarrow> ('a \<Rightarrow> bool) \<Rightarrow> bool" where
  "ensures m P \<longleftrightarrow> (\<forall>st a st'. m st = Some (Return (Value a, st')) \<longrightarrow> P a)"

lemma ensures_tret [simp]: "ensures (tret (Value a)) P \<longleftrightarrow> P a"
  by (simp add: ensures_def tret_def)

lemma lbind_result:
  "lbind m f st = Some (Return (Value b, st')) \<longleftrightarrow> (\<exists>a st1. m st = Some (Return (Value a, st1)) \<and> f a st1 = Some (Return (Value b, st')))"
  by (auto simp: lbind_def tbind_def tret_def split: option.splits outcome.splits lua.splits)

lemma ensures_lbind: "ensures m P \<Longrightarrow> (\<And>a. P a \<Longrightarrow> ensures (f a) Q) \<Longrightarrow> ensures (lbind m f) Q"
  unfolding ensures_def lbind_result by blast

lemma ensures_any: "ensures m (\<lambda>_. True)"
  by (simp add: ensures_def)

lemma lbind_cong: "ensures m P \<Longrightarrow> (\<And>a. P a \<Longrightarrow> f a = g a) \<Longrightarrow> lbind m f = lbind m g"
  unfolding ensures_def lbind_def tbind_def
  by (rule ext) (auto split: option.split outcome.split lua.split prod.split intro: fun_cong)

section \<open>The reads do not matter\<close>

lemma split_line_append: "split_line buf = Some (line, rest) \<Longrightarrow> split_line (buf @ c) = Some (line, rest @ c)"
  by (induction buf arbitrary: line) (auto split: if_splits)

lemma split_line_None: "10 \<notin> set buf \<Longrightarrow> split_line buf = None"
  by (induction buf) auto

declare drain.simps [simp del]

lemma drain_append:
  "drain L J sk (buf @ c) s = lbind (drain L J sk buf s) (\<lambda>(buf, s). drain L J sk (buf @ c) s)"
proof (induction L J sk buf s rule: drain.induct)
  case (1 L J sk buf s)
  show ?case
  proof (cases "\<not> done_sent s \<and> split_line buf \<noteq> None")
    case True
    then obtain line rest where split: "split_line buf = Some (line, rest)" and "\<not> done_sent s"
      by auto
    then have "drain L J sk (rest @ c) = (\<lambda>s. lbind (drain L J sk rest s) (\<lambda>(buf, s). drain L J sk (buf @ c) s))"
      using 1 [OF _ split refl] by (intro ext) simp
    with \<open>\<not> done_sent s\<close> split split_line_append [OF split, of c] show ?thesis
      by (simp add: drain.simps [of L J sk buf s] drain.simps [of L J sk "buf @ c" s] lbind_assoc)
  next
    case False
    then have "drain L J sk buf s = tret (Value (buf, s))"
      by (cases "split_line buf") (auto simp: drain.simps [of L J sk buf s])
    then show ?thesis
      by simp
  qed
qed

lemma drain_ensures: "ensures (drain L J sk buf s) (\<lambda>(buf, s). done_sent s \<or> split_line buf = None)"
proof (induction L J sk buf s rule: drain.induct)
  case (1 L J sk buf s)
  then show ?case
    by (subst drain.simps) (auto split: option.split intro!: ensures_lbind [OF ensures_any])
qed

lemma finish_done: "done_sent s \<Longrightarrow> finish L J sk buf s = tret (Value s)"
  by (simp add: finish_def)

lemma read_loop_drain:
  assumes "done_sent s \<or> split_line buf = None"
  shows "lbind (read_loop L J sk (map Inr cs) buf s) (\<lambda>(buf, s). finish L J sk buf s)
    = lbind (drain L J sk (buf @ concat cs) s) (\<lambda>(buf, s). finish L J sk buf s)"
  using assms
proof (induction cs arbitrary: buf s)
  case Nil
  then show ?case
    by (auto simp: drain.simps)
next
  case (Cons c cs)
  show ?case
  proof (cases "done_sent s")
    case True
    then show ?thesis
      by (simp add: drain.simps finish_done)
  next
    case False
    have "lbind (drain L J sk (buf @ c) s) (\<lambda>(buf, s). lbind (read_loop L J sk (map Inr cs) buf s) (\<lambda>(buf, s). finish L J sk buf s))
        = lbind (drain L J sk (buf @ c) s) (\<lambda>(buf, s). lbind (drain L J sk (buf @ concat cs) s) (\<lambda>(buf, s). finish L J sk buf s))"
      by (rule lbind_cong [OF drain_ensures]) (auto intro!: Cons.IH)
    with False drain_append [of L J sk "buf @ c" "concat cs" s] show ?thesis
      by (simp add: lbind_assoc lbind_split)
  qed
qed

section \<open>The end of the stream\<close>

definition ended_once :: "relay \<Rightarrow> bool" where
  "ended_once s \<longleftrightarrow> (if done_sent s then \<exists>ds. chunks s = map Some ds @ [None] else \<exists>ds. chunks s = map Some ds)"

lemma ended_once_on_chunk:
  assumes "ended_once s" and "\<not> done_sent s"
  shows "ended_once (on_chunk (Some d) s)" and "ended_once ((on_chunk None s)\<lparr> done_sent := True \<rparr>)"
proof -
  from assms obtain ds where ds: "chunks s = map Some ds"
    by (auto simp: ended_once_def)
  then show "ended_once (on_chunk (Some d) s)"
    using assms(2) by (auto simp: ended_once_def on_chunk_def intro!: exI [of _ "ds @ [d]"])
  show "ended_once ((on_chunk None s)\<lparr> done_sent := True \<rparr>)"
    using ds by (auto simp: ended_once_def on_chunk_def)
qed

lemma ended_once_had_error: "ended_once (s\<lparr> had_error := b \<rparr>) = ended_once s" "ended_once (s\<lparr> stream_key := k \<rparr>) = ended_once s"
  by (simp_all add: ended_once_def)

lemma done_sent_on_chunk: "done_sent (on_chunk d s) = done_sent s"
  by (simp add: on_chunk_def)

lemmas ended = ended_once_on_chunk ended_once_had_error done_sent_on_chunk

lemma handle_ended_once: "ended_once s \<Longrightarrow> \<not> done_sent s \<Longrightarrow> ended_once (handle J e s)"
  by (cases e) (simp_all add: ended)

lemma trailing_ended_once: "ended_once s \<Longrightarrow> \<not> done_sent s \<Longrightarrow> ended_once (trailing e s)"
  by (cases e) (simp_all add: trailing_def ended)

lemma handle_line_ended_once: "ended_once s \<Longrightarrow> \<not> done_sent s \<Longrightarrow> ensures (handle_line L J sk line s) ended_once"
  by (auto simp: handle_line_def handle_ended_once intro!: ensures_lbind [OF ensures_any])

lemma drain_ended_once: "ended_once s \<Longrightarrow> ensures (drain L J sk buf s) (\<lambda>(buf, s). ended_once s)"
proof (induction L J sk buf s rule: drain.induct)
  case (1 L J sk buf s)
  then show ?case
    by (subst drain.simps) (auto split: option.split intro!: ensures_lbind [OF handle_line_ended_once])
qed

lemma read_loop_ended_once: "ended_once s \<Longrightarrow> ensures (read_loop L J sk reads buf s) (\<lambda>(buf, s). ended_once s)"
  by (induction L J sk reads buf s rule: read_loop.induct) (auto simp: ended split: sum.split intro!: ensures_lbind [OF drain_ended_once])

lemma finish_ended_once: "ended_once s \<Longrightarrow> ensures (finish L J sk buf s) (\<lambda>s. \<exists>ds. chunks s = map Some ds @ [None])"
  unfolding finish_def
proof (rule ensures_lbind)
  assume s: "ended_once s"
  then show "ensures (if buf \<noteq> [] \<and> \<not> done_sent s then lbind (process_sse_line L J buf (stream_key s) sk) (\<lambda>e. tret (Value (trailing e s)))
      else tret (Value s)) ended_once"
    by (auto intro!: ensures_lbind [OF ensures_any] trailing_ended_once)
qed (auto simp: ended_once_def on_chunk_def split: if_splits)

section \<open>Streams as an instance sends them\<close>

text \<open>
  The event of a line, the text of one of its fields, and the assumption about the two kinds of lines an
  instance renders.
\<close>

definition event_of :: "'j event_libs \<Rightarrow> bytes \<Rightarrow> 'j option" where
  "event_of J line =
     (let line = strip_cr line; raw = trim (drop 6 line)
      in if take 6 line \<noteq> lua_string ''data: '' \<or> raw = lua_string ''[DONE]'' \<or> raw = [] then None
         else case safe_decode J raw of None \<Rightarrow> None | Some ev \<Rightarrow> if truth J ev then Some ev else None)"

definition field_text :: "'j event_libs \<Rightarrow> 'j \<Rightarrow> string \<Rightarrow> bytes option" where
  "field_text J ev f = (case index J ev f of None \<Rightarrow> None | Some v \<Rightarrow> if truth J v then string_of J v else None)"

definition renders :: "'j event_libs \<Rightarrow> (bytes \<Rightarrow> bytes) \<Rightarrow> (bytes \<Rightarrow> bytes) \<Rightarrow> bool" where
  "renders J init_line chunk_line \<longleftrightarrow> (\<forall>b.
     10 \<notin> set (init_line b) \<and> 10 \<notin> set (chunk_line b) \<and>
     (\<exists>ev s. event_of J (init_line b) = Some ev \<and> field_text J ev ''e2e_init'' = Some s \<and> decode_base64 J s = Some b) \<and>
     (\<exists>ev v s. event_of J (chunk_line b) = Some ev \<and> index J ev ''e2e_init'' = Some v \<and> \<not> truth J v \<and>
        field_text J ev ''e2e'' = Some s \<and> decode_base64 J s = Some b))"

definition done_line :: bytes where
  "done_line = lua_string ''data: [DONE]''"

definition sealed_chunk :: "keystream \<Rightarrow> mac \<Rightarrow> bytes \<Rightarrow> bytes \<times> bytes \<Rightarrow> bytes" where
  "sealed_chunk ks mac key x = (case x of (nonce, pt) \<Rightarrow> case aead_seal ks mac key nonce pt of (c, t) \<Rightarrow> nonce @ c @ t)"

definition stream_head :: "(bytes \<Rightarrow> bytes) \<Rightarrow> (bytes \<Rightarrow> bytes) \<Rightarrow> keystream \<Rightarrow> mac \<Rightarrow> bytes \<Rightarrow> bytes \<Rightarrow> (bytes \<times> bytes) list \<Rightarrow> bytes" where
  "stream_head init_line chunk_line ks mac key ct xs =
     init_line ct @ 10 # concat (map (\<lambda>x. chunk_line (sealed_chunk ks mac key x) @ [10]) xs)"

definition stream_text :: "(bytes \<Rightarrow> bytes) \<Rightarrow> (bytes \<Rightarrow> bytes) \<Rightarrow> keystream \<Rightarrow> mac \<Rightarrow> bytes \<Rightarrow> bytes \<Rightarrow> (bytes \<times> bytes) list \<Rightarrow> bytes" where
  "stream_text init_line chunk_line ks mac key ct xs = stream_head init_line chunk_line ks mac key ct xs @ done_line @ [10]"

lemma event_ofD:
  assumes "event_of J line = Some ev"
  shows "take 6 (strip_cr line) = lua_string ''data: ''" "trim (drop 6 (strip_cr line)) \<noteq> lua_string ''[DONE]''"
    "trim (drop 6 (strip_cr line)) \<noteq> []" "safe_decode J (trim (drop 6 (strip_cr line))) = Some ev" "truth J ev" "line \<noteq> []"
proof -
  show "take 6 (strip_cr line) = lua_string ''data: ''" "trim (drop 6 (strip_cr line)) \<noteq> lua_string ''[DONE]''"
    "trim (drop 6 (strip_cr line)) \<noteq> []" "safe_decode J (trim (drop 6 (strip_cr line))) = Some ev" "truth J ev"
    using assms by (auto simp only: event_of_def Let_def split: if_splits option.splits)
  then show "line \<noteq> []"
    by (auto simp: strip_cr_def lua_string_def)
qed

lemma field_textD:
  assumes "field_text J ev f = Some s"
  obtains v where "index J ev f = Some v" "truth J v" "string_of J v = Some s"
  using assms by (auto simp: field_text_def split: option.splits if_splits)

lemma process_init:
  assumes "event_of J line = Some ev" and "field_text J ev ''e2e_init'' = Some s"
  shows "process_sse_line L J line k sk = tbind (decrypt_stream_init L J sk (Some s)) (\<lambda>r. case r of
       Value key \<Rightarrow> tret (Value (Init key))
     | Failure err \<Rightarrow> tret (Value (failed ''stream init failed: '' err))
     | Raised \<Rightarrow> tret Raised)"
proof -
  from assms(2) obtain v where "index J ev ''e2e_init'' = Some v" "truth J v" "string_of J v = Some s"
    by (rule field_textD)
  with event_ofD [OF assms(1)] show ?thesis
    by (simp add: process_sse_line_def Let_def)
qed

lemma process_chunk:
  assumes "event_of J line = Some ev" and "index J ev ''e2e_init'' = Some u" "\<not> truth J u" and "field_text J ev ''e2e'' = Some s"
  shows "process_sse_line L J line (Some key) sk = tbind (decrypt_stream_chunk L J (Some s) key) (\<lambda>r. case r of
       Value decrypted \<Rightarrow> tret (Value (Chunk decrypted))
     | Failure err \<Rightarrow> tret (Value (failed ''chunk decryption failed: '' err))
     | Raised \<Rightarrow> tret Raised)"
proof -
  from assms(4) obtain v where "index J ev ''e2e'' = Some v" "truth J v" "string_of J v = Some s"
    by (rule field_textD)
  with event_ofD [OF assms(1)] assms(2,3) show ?thesis
    by (simp add: process_sse_line_def Let_def)
qed

lemma process_done: "process_sse_line L J done_line k sk = tret (Value Done)"
  by (simp add: process_sse_line_def done_line_def lua_string_def strip_cr_def trim_def is_space_def Let_def)

lemma done_line: "10 \<notin> set done_line" "done_line \<noteq> []"
  by (simp_all add: done_line_def lua_string_def)

lemma split_line_of: "10 \<notin> set line \<Longrightarrow> split_line (line @ 10 # rest) = Some (line, rest)"
  by (induction line) auto

lemma drain_line:
  assumes "10 \<notin> set line" and "line \<noteq> []" and "\<not> done_sent s"
  shows "drain L J sk (line @ 10 # rest) s = lbind (process_sse_line L J line (stream_key s) sk) (\<lambda>e. drain L J sk rest (handle J e s))"
  using assms split_line_of [OF assms(1), of rest] by (simp add: drain.simps [of L J sk "line @ 10 # rest"] handle_line_def lbind_assoc)

lemma chunk_spec_sealed:
  assumes "evp_laws ssl view ks mac" and "length nonce = 12" and "decode_base64 J s = Some (sealed_chunk ks mac key (nonce, pt))"
    and "length pt \<le> ffi_max J"
  shows "chunk_spec ks mac J (Some s) key = Value pt"
proof -
  obtain c t where s: "aead_seal ks mac key nonce pt = (c, t)"
    by (metis surj_pair)
  then have "length t = 16" "length c = length pt"
    using evp_lawsD(1) [OF assms(1)] by (auto simp: aead_seal_def Let_def)
  with assms(2-4) aead_open_seal [OF s] show ?thesis
    by (simp add: chunk_spec_def sealed_chunk_def s)
qed

lemma yields_chunk_line:
  assumes L: "libs_laws L rnd cview ks mac kview hmac gz" and J: "renders J init_line chunk_line" "2400 \<le> ffi_max J"
    and key: "length key = 32"
  shows "yields w (process_sse_line L J (chunk_line b) (Some key) sk)
    (\<lambda>r. r = (case chunk_spec ks mac (J\<lparr> decode_base64 := Some \<rparr>) (Some b) key of
       Value pt \<Rightarrow> Value (Chunk pt) | Failure err \<Rightarrow> Value (failed ''chunk decryption failed: '' err) | Raised \<Rightarrow> Raised)) w"
proof -
  obtain ev v s where ev: "event_of J (chunk_line b) = Some ev" "index J ev ''e2e_init'' = Some v" "\<not> truth J v"
      "field_text J ev ''e2e'' = Some s" "decode_base64 J s = Some b"
    using J unfolding renders_def by blast
  have "chunk_spec ks mac J (Some s) key = chunk_spec ks mac (J\<lparr> decode_base64 := Some \<rparr>) (Some b) key"
    by (simp add: chunk_spec_def ev(5))
  with yields_stream_chunk [OF L key J(2), of w "Some s"] show ?thesis
    unfolding process_chunk [OF ev(1-4)] by (auto intro!: yields_bind yields_tret split: lua.split)
qed

lemma yields_sealed_line:
  assumes L: "libs_laws L rnd cview ks mac kview hmac gz" and J: "renders J init_line chunk_line" "2400 \<le> ffi_max J"
    and key: "length key = 32" and x: "length (fst x) = 12" "length (snd x) \<le> ffi_max J"
  shows "yields w (process_sse_line L J (chunk_line (sealed_chunk ks mac key x)) (Some key) sk) (\<lambda>r. r = Value (Chunk (snd x))) w"
proof -
  have "chunk_spec ks mac (J\<lparr> decode_base64 := Some \<rparr>) (Some (sealed_chunk ks mac key x)) key = Value (snd x)"
    by (rule chunk_spec_sealed [OF libs_lawsD(2) [OF L] x(1)]) (use x(2) in simp_all)
  then show ?thesis
    using yields_chunk_line [OF L J key, of w "sealed_chunk ks mac key x" sk] by simp
qed

lemma chunk_line_renders:
  assumes "renders J init_line chunk_line"
  shows "10 \<notin> set (chunk_line b)" and "chunk_line b \<noteq> []"
  using assms event_ofD(6) [of J "chunk_line b"] unfolding renders_def by blast+

lemma yields_chunks:
  assumes L: "libs_laws L rnd cview ks mac kview hmac gz" and J: "renders J init_line chunk_line" "2400 \<le> ffi_max J"
    and key: "length key = 32" and "\<forall>x\<in>set xs. length (fst x) = 12 \<and> length (snd x) \<le> ffi_max J"
    and "\<not> done_sent s" and "stream_key s = Some key"
    and "yields w (drain L J sk rest (s\<lparr> chunks := chunks s @ map (\<lambda>x. Some (snd x)) xs \<rparr>)) P w"
  shows "yields w (drain L J sk (concat (map (\<lambda>x. chunk_line (sealed_chunk ks mac key x) @ [10]) xs) @ rest) s) P w"
  using assms(5-8)
proof (induction xs arbitrary: s)
  case (Cons x xs)
  have "yields w (drain L J sk (concat (map (\<lambda>x. chunk_line (sealed_chunk ks mac key x) @ [10]) xs) @ rest) (handle J (Chunk (snd x)) s)) P w"
    using Cons.IH [of "handle J (Chunk (snd x)) s"] Cons.prems by (simp add: on_chunk_def)
  moreover have "yields w (process_sse_line L J (chunk_line (sealed_chunk ks mac key x)) (stream_key s) sk) (\<lambda>r. r = Value (Chunk (snd x))) w"
    unfolding Cons.prems(3) by (rule yields_sealed_line [OF L J key]) (use Cons.prems(1) in simp_all)
  ultimately show ?case
    using drain_line [OF chunk_line_renders [OF J(1)] Cons.prems(2), of L J sk] by (simp add: yields_lbind)
qed simp

text \<open>The state after the announcement of a ciphertext and the delivery of the messages \<open>xs\<close>.\<close>

definition delivered :: "bytes \<Rightarrow> (bytes \<times> bytes) list \<Rightarrow> relay" where
  "delivered key xs = \<lparr> stream_key = Some key, done_sent = False, had_error = False, chunks = map (\<lambda>x. Some (snd x)) xs \<rparr>"

lemma relay_stream_drain:
  "relay_stream L J sk (map Inr cs) = lbind (drain L J sk (concat cs) \<lparr> stream_key = None, done_sent = False, had_error = False, chunks = [] \<rparr>)
     (\<lambda>(buf, s). finish L J sk buf s)"
  unfolding relay_stream_def by (subst read_loop_drain) simp_all

lemma yields_stream:
  assumes L: "libs_laws L rnd cview ks mac kview hmac gz" and J: "renders J init_line chunk_line" "2400 \<le> ffi_max J"
    and sk: "length sk = 2400" and ct: "length ct = 1088" and dec: "crypto_kem_dec ct sk = Some ss"
    and xs: "\<forall>x\<in>set xs. length (fst x) = 12 \<and> length (snd x) \<le> ffi_max J"
    and key: "key = blob_key (hmac (EVP_sha256 (lib_kdf L))) ss ct INFO_STREAM"
    and cs: "concat cs = stream_head init_line chunk_line ks mac key ct xs @ rest"
    and rest: "yields w (drain L J sk rest (delivered key xs)) (\<lambda>r. r = Value (buf, s)) w"
    and fin: "yields w (finish L J sk buf s) P w"
  shows "yields w (relay_stream L J sk (map Inr cs)) P w"
    (is "yields w ?m P w")
proof -
  let ?s0 = "\<lparr> stream_key = None, done_sent = False, had_error = False, chunks = [] \<rparr>"
  obtain ev t where ev: "event_of J (init_line ct) = Some ev" "field_text J ev ''e2e_init'' = Some t" "decode_base64 J t = Some ct"
      "10 \<notin> set (init_line ct)"
    using J(1) unfolding renders_def by blast
  have "stream_key_spec (hmac (EVP_sha256 (lib_kdf L))) J sk (Some t) = Some (Value key)"
    using ev(3) ct dec by (simp add: stream_key_spec_def key)
  then have "meets w (decrypt_stream_init L J sk (Some t)) (Some (Value key, w))"
    using meets_stream_init [OF L sk J(2), of w "Some t"] by simp
  then have "yields w (decrypt_stream_init L J sk (Some t)) (\<lambda>r. r = Value key) w"
    by (simp add: meets_def yields_def)
  then have init: "yields w (process_sse_line L J (init_line ct) None sk) (\<lambda>r. r = Value (Init key)) w"
    unfolding process_init [OF ev(1,2)] by (auto intro!: yields_bind yields_tret)
  have "length key = 32"
    unfolding key by (rule length_blob_key [OF libs_lawsD(4) [OF L]])
  then have "yields w (drain L J sk (concat (map (\<lambda>x. chunk_line (sealed_chunk ks mac key x) @ [10]) xs) @ rest) (handle J (Init key) ?s0))
      (\<lambda>r. r = Value (buf, s)) w"
    using rest by (intro yields_chunks [OF L J _ xs]) (simp_all add: delivered_def)
  with init have "yields w (drain L J sk (concat cs) ?s0) (\<lambda>r. r = Value (buf, s)) w"
    unfolding cs stream_head_def using drain_line [OF ev(4) event_ofD(6) [OF ev(1)], of ?s0 L J sk] by (simp add: yields_lbind)
  then show ?thesis
    unfolding relay_stream_drain by (rule yields_lbind) (simp add: fin)
qed

lemma stream_diverges:
  assumes L: "libs_laws L rnd cview ks mac kview hmac gz" and J: "renders J init_line chunk_line" "2400 \<le> ffi_max J"
    and sk: "length sk = 2400" and ct: "length ct = 1088" and dec: "crypto_kem_dec ct sk = None"
    and cs: "concat cs = stream_head init_line chunk_line ks mac key ct xs @ rest"
  shows "relay_stream L J sk (map Inr cs) st = None"
proof -
  obtain ev s where ev: "event_of J (init_line ct) = Some ev" "field_text J ev ''e2e_init'' = Some s" "decode_base64 J s = Some ct"
      "10 \<notin> set (init_line ct)"
    using J(1) unfolding renders_def by blast
  have "stream_key_spec (hmac (EVP_sha256 (lib_kdf L))) J sk (Some s) = None"
    using ev(3) ct dec by (simp add: stream_key_spec_def)
  then have "decrypt_stream_init L J sk (Some s) st = None"
    using meetsD [OF meets_stream_init [OF L sk J(2)] refl, of "Some s" st] by simp
  then show ?thesis
    unfolding relay_stream_drain cs stream_head_def
    by (simp add: drain_line [OF ev(4) event_ofD(6) [OF ev(1)]] process_init [OF ev(1,2)] lbind_def tbind_def)
qed

lemma drain_done: "\<not> done_sent s \<Longrightarrow> drain L J sk (done_line @ [10]) s = tret (Value ([], (on_chunk None s)\<lparr> done_sent := True \<rparr>))"
  using drain_line [OF done_line(1,2), of s L J sk "[]"] by (simp add: process_done on_chunk_def drain.simps)

lemma yields_bad_line:
  assumes L: "libs_laws L rnd cview ks mac kview hmac gz" and J: "renders J init_line chunk_line" "2400 \<le> ffi_max J"
    and key: "length key = 32" and bad: "28 \<le> length b" "length b - 28 \<le> ffi_max J"
      "aead_open ks mac key (take 12 b) (drop 12 (take (length b - 16) b)) (drop (length b - 16) b) = None"
  shows "yields w (process_sse_line L J (chunk_line b) (Some key) sk)
    (\<lambda>r. r = Value (failed ''chunk decryption failed: '' ''stream chunk decryption failed'')) w"
  using yields_chunk_line [OF L J key, of w b sk] bad by (simp add: chunk_spec_def)

section \<open>Events for examples\<close>

text \<open>A text format in which an instance can render events: the bits of a byte as digits.\<close>

definition bit_text :: "bytes \<Rightarrow> bytes" where
  "bit_text b = 97 # concat (map (\<lambda>c. map (\<lambda>i. if bit c i then 49 else 48) [0..<8]) b)"

fun of_digits :: "bytes \<Rightarrow> bytes" where
  "of_digits (a # b # c # d # e # f # g # h # r) = horner_sum of_bool 2 (map ((=) 49) [a, b, c, d, e, f, g, h]) # of_digits r"
| "of_digits _ = []"

definition plain_field :: "bytes \<Rightarrow> string \<Rightarrow> bytes" where
  "plain_field ev f = (if ev \<noteq> [] \<and> (f = ''e2e_init'' \<and> hd ev = 105 \<or> f = ''e2e'' \<and> hd ev = 101) then tl ev else [])"

definition plain_events :: "bytes event_libs" where
  "plain_events = \<lparr> decode_base64 = (\<lambda>s. Some (of_digits (tl s))), encode_base64 = bit_text, cjson_decode = Some, is_table = (\<lambda>j. True),
     set_field = (\<lambda>j k v. j @ lua_string k @ v), cjson_encode = Some, ffi_max = 2147483647, safe_decode = Some, truth = (\<lambda>v. v \<noteq> []),
     index = (\<lambda>ev f. Some (plain_field ev f)), string_of = Some, encode_error = Some, encode_message = (\<lambda>m. m) \<rparr>"

definition plain_line :: "u8 \<Rightarrow> bytes \<Rightarrow> bytes" where
  "plain_line kind b = lua_string ''data: '' @ kind # bit_text b"

lemma of_digits_step: "length x = 8 \<Longrightarrow> of_digits (x @ r) = horner_sum of_bool 2 (map ((=) 49) x) # of_digits r"
  by (auto simp: numeral_eq_Suc length_Suc_conv)

lemma of_digits_bit_text: "of_digits (tl (bit_text b)) = b"
proof (induction b)
  case (Cons c b)
  have "map ((=) 49) (map (\<lambda>i. if bit c i then 49 else 48 :: u8) [0..<8]) = map (bit c) [0..<8]"
    by simp
  moreover have "horner_sum of_bool 2 (map (bit c) [0..<8]) = c"
    unfolding horner_sum_bit_eq_take_bit by (rule take_bit_word_eq_self) simp
  ultimately have "of_digits (map (\<lambda>i. if bit c i then 49 else 48) [0..<8] @ tl (bit_text b)) = c # b"
    using Cons by (subst of_digits_step) (simp_all only: length_map length_upt diff_zero)
  then show ?case
    by (simp only: bit_text_def list.map concat.simps list.sel)
qed (simp add: bit_text_def)

lemma set_bit_text: "set (bit_text b) \<subseteq> {97, 49, 48}"
  by (auto simp: bit_text_def split: if_splits)

lemma trim_self: "s \<noteq> [] \<Longrightarrow> \<not> is_space (hd s) \<Longrightarrow> \<not> is_space (last s) \<Longrightarrow> trim s = s"
  using dropWhile_eq_self_iff [of is_space s] dropWhile_eq_self_iff [of is_space "rev s"] by (simp add: trim_def hd_rev)

lemma plain_event:
  assumes "kind \<in> {105, 101}"
  shows "event_of plain_events (plain_line kind b) = Some (kind # bit_text b)" and "10 \<notin> set (plain_line kind b)"
proof -
  define raw where "raw = kind # bit_text b"
  have "bit_text b \<noteq> []"
    by (simp add: bit_text_def)
  then have "last raw \<in> {97, 49, 48}"
    using subsetD [OF set_bit_text, OF last_in_set, of b] by (simp add: raw_def)
  then have "\<not> is_space (last raw)" "last raw \<noteq> 13" "\<not> is_space (hd raw)" "raw \<noteq> []"
    using assms by (auto simp: is_space_def raw_def)
  then have "trim raw = raw" "strip_cr (lua_string ''data: '' @ raw) = lua_string ''data: '' @ raw"
    by (simp_all add: trim_self strip_cr_def)
  moreover have "raw \<noteq> lua_string ''[DONE]''"
    using assms by (auto simp: raw_def lua_string_def)
  ultimately show "event_of plain_events (plain_line kind b) = Some (kind # bit_text b)"
    unfolding plain_line_def raw_def [symmetric] using \<open>raw \<noteq> []\<close> by (simp add: event_of_def plain_events_def lua_string_def)
  show "10 \<notin> set (plain_line kind b)"
    using set_bit_text [of b] assms by (auto simp: plain_line_def lua_string_def)
qed

lemma plain_renders: "renders plain_events (plain_line 105) (plain_line 101)"
proof -
  have "bit_text b \<noteq> []" for b
    by (simp add: bit_text_def)
  then have "field_text plain_events (105 # bit_text b) ''e2e_init'' = Some (bit_text b)"
    "field_text plain_events (101 # bit_text b) ''e2e'' = Some (bit_text b)" for b
    by (simp_all add: field_text_def plain_events_def plain_field_def)
  moreover have "index plain_events (101 # bit_text b) ''e2e_init'' = Some []" "\<not> truth plain_events []"
    "decode_base64 plain_events (bit_text b) = Some b" for b
    by (simp_all add: plain_events_def plain_field_def of_digits_bit_text)
  ultimately show ?thesis
    unfolding renders_def using plain_event by blast
qed

text \<open>A chunk whose tag is wrong in every byte.\<close>

definition forged_chunk :: "bytes \<Rightarrow> bytes" where
  "forged_chunk key = replicate 12 5 @ [1, 2, 3] @ map (\<lambda>c. c + 1) (toy_mac key (replicate 12 5) [1, 2, 3])"

lemma forged_chunk:
  "28 \<le> length (forged_chunk key)" "length (forged_chunk key) - 28 \<le> 2147483647"
  "aead_open toy_keystream toy_mac key (take 12 (forged_chunk key)) (drop 12 (take (length (forged_chunk key) - 16) (forged_chunk key)))
     (drop (length (forged_chunk key) - 16) (forged_chunk key)) = None"
proof -
  define mac where "mac = toy_mac key (replicate 12 5) [1, 2, 3]"
  have "length mac = 16" "mac ! 0 = 13"
    by (simp_all add: mac_def toy_mac_def)
  moreover from this have "map (\<lambda>c. c + 1) mac \<noteq> mac"
    by (auto dest: arg_cong [where f = "\<lambda>m. m ! 0"])
  ultimately show "28 \<le> length (forged_chunk key)" "length (forged_chunk key) - 28 \<le> 2147483647"
    "aead_open toy_keystream toy_mac key (take 12 (forged_chunk key)) (drop 12 (take (length (forged_chunk key) - 16) (forged_chunk key)))
       (drop (length (forged_chunk key) - 16) (forged_chunk key)) = None"
    unfolding forged_chunk_def mac_def [symmetric] by (simp_all add: aead_open_def mac_def [symmetric])
qed

section \<open>Properties\<close>

text \<open>
  C6. A stream is delivered (\<open>e2ee_handler.lua\<close>, \<open>e2ee_crypto.lua\<close>). Let an instance announce an ML-KEM ciphertext, then send
  any messages sealed under the key that both sides derive from it for streams, and end with \<open>[DONE]\<close>; let the
  network cut the text into reads wherever it likes. The client then gets exactly the messages, in order,
  followed by the end of the stream, without an error. The format of the events is a parameter that \<open>cjson\<close>
  and \<open>decode_base64\<close> read back; every message has to fit into a buffer that \<open>ffi.new\<close> can allocate.
\<close>

theorem stream_delivers:
  assumes "libs_laws L rnd cview ks mac kview hmac gz" and "renders J init_line chunk_line"
    and "2400 \<le> ffi_max J" and "length sk = 2400" and "length ct = 1088"
    and "\<forall>x\<in>set xs. length (fst x) = 12 \<and> length (snd x) \<le> ffi_max J" and "\<And>b. concat (segment b) = b"
  shows "case crypto_kem_dec ct sk of
      None \<Rightarrow> (\<forall>key. relay_stream L J sk (map Inr (segment (stream_text init_line chunk_line ks mac key ct xs))) st = None)
    | Some ss \<Rightarrow> \<exists>s st'. relay_stream L J sk (map Inr (segment (stream_text init_line chunk_line ks mac
          (blob_key (hmac (EVP_sha256 (lib_kdf L))) ss ct INFO_STREAM) ct xs))) st = Some (Return (Value s, st')) \<and>
        chunks s = map Some (map snd xs) @ [None] \<and> \<not> had_error s \<and> w_os st' = w_os st"
proof (cases "crypto_kem_dec ct sk")
  case None
  have "relay_stream L J sk (map Inr (segment (stream_text init_line chunk_line ks mac key ct xs))) st = None" for key
    by (rule stream_diverges [OF assms(1-5) None]) (unfold assms(7) stream_text_def, rule refl)
  then show ?thesis
    by (simp add: None)
next
  case (Some ss)
  define key where "key = blob_key (hmac (EVP_sha256 (lib_kdf L))) ss ct INFO_STREAM"
  have result: "yields (w_os st) (relay_stream L J sk (map Inr (segment (stream_text init_line chunk_line ks mac key ct xs))))
      (\<lambda>r. r = Value ((on_chunk None (delivered key xs))\<lparr> done_sent := True \<rparr>)) (w_os st)"
    by (rule yields_stream [OF assms(1-5) Some assms(6) key_def, where rest = "done_line @ [10]" and buf = "[]" and s = "(on_chunk None (delivered key xs))\<lparr> done_sent := True \<rparr>"])
      (simp_all add: assms(7) stream_text_def drain_done finish_done delivered_def yields_tret)
  show ?thesis
    using yieldsD [OF result refl] unfolding Some option.case key_def [symmetric] by (auto simp: on_chunk_def delivered_def comp_def)
qed

theorem stream_delivers_witness:
  "case crypto_kem_dec (replicate 1088 1) (replicate 2400 2) of
      None \<Rightarrow> (\<forall>key. relay_stream proxy_libs plain_events (replicate 2400 2) (map Inr (map (\<lambda>c. [c])
        (stream_text (plain_line 105) (plain_line 101) toy_keystream toy_mac key (replicate 1088 1) [(replicate 12 3, [104, 105]), (replicate 12 4, [33])]))) proxy_state = None)
    | Some ss \<Rightarrow> \<exists>s st'. relay_stream proxy_libs plain_events (replicate 2400 2) (map Inr (map (\<lambda>c. [c])
        (stream_text (plain_line 105) (plain_line 101) toy_keystream toy_mac
          (blob_key (toy_hmac (EVP_sha256 (lib_kdf proxy_libs))) ss (replicate 1088 1) INFO_STREAM) (replicate 1088 1)
          [(replicate 12 3, [104, 105]), (replicate 12 4, [33])]))) proxy_state = Some (Return (Value s, st')) \<and>
        chunks s = map Some (map snd [(replicate 12 (3 :: u8), [104, 105]), (replicate 12 4, [33])]) @ [None] \<and> \<not> had_error s \<and> w_os st' = w_os proxy_state"
  by (rule stream_delivers [OF proxy_libs_laws plain_renders]) (simp_all add: concat_map_singleton plain_events_def)

text \<open>
  C15. How the network cuts a stream does not matter (\<open>e2ee_handler.lua\<close>): two sequences of reads with the same
  concatenation have the same result, whatever the bytes are and whatever the libraries do, errors,
  incomplete last lines and bytes after the end of the stream included.
\<close>

theorem relay_reads_irrelevant:
  assumes "concat cs = concat ds"
  shows "relay_stream L J sk (map Inr cs) = relay_stream L J sk (map Inr ds)"
  by (simp add: relay_stream_drain assms)

theorem relay_reads_irrelevant_witness:
  "relay_stream proxy_libs plain_events (replicate 2400 2) (map Inr [[100, 97], [116, 97, 58], [], [32, 10, 100]])
    = relay_stream proxy_libs plain_events (replicate 2400 2) (map Inr [[100, 97, 116, 97, 58, 32, 10], [100]])"
  by (rule relay_reads_irrelevant) simp

text \<open>
  C33. The client is told once that the stream has ended, and last (\<open>e2ee_handler.lua\<close>): whenever the relay
  returns, whatever was read, a failing connection included, \<open>on_chunk\<close> has been called with \<open>nil\<close> exactly
  once, after all its other calls.
\<close>

theorem relay_ends_once:
  "case relay_stream L J sk reads st of
      Some (Return (Value s, st')) \<Rightarrow> \<exists>ds. chunks s = map Some ds @ [None]
    | _ \<Rightarrow> True"
proof -
  have "ensures (relay_stream L J sk reads) (\<lambda>s. \<exists>ds. chunks s = map Some ds @ [None])"
    unfolding relay_stream_def
    by (rule ensures_lbind [OF read_loop_ended_once]) (auto simp: ended_once_def intro: finish_ended_once)
  then show ?thesis
    by (auto simp: ensures_def split: option.split outcome.split lua.split)
qed

text \<open>
  C39. A decryption error in the last line of a stream is reported if the line is terminated, and lost if it is not
  (\<open>e2ee_handler.lua\<close>). Let an instance announce an ML-KEM ciphertext and send any messages sealed under the derived key,
  and let the chunk that follows fail to authenticate under this key. If a newline ends its line, the client gets the
  messages, an error event and the end of the stream, whatever comes after, and the error is recorded; if the connection
  ends without the newline, the client gets the messages and an ordinary end of the stream, and no error is recorded,
  although the chunk has been decrypted and rejected. Both hold however the network cuts the text into reads; messages
  and chunk have to fit into buffers that \<open>ffi.new\<close> can allocate.
\<close>

theorem unterminated_error_is_lost:
  assumes "libs_laws L rnd cview ks mac kview hmac gz" and "renders J init_line chunk_line"
    and "2400 \<le> ffi_max J" and "length sk = 2400" and "length ct = 1088"
    and "\<forall>x\<in>set xs. length (fst x) = 12 \<and> length (snd x) \<le> ffi_max J" and "\<And>b. concat (segment b) = b"
    and bad: "\<And>key. 28 \<le> length (bad key)" "\<And>key. length (bad key) - 28 \<le> ffi_max J"
      "\<And>key. aead_open ks mac key (take 12 (bad key)) (drop 12 (take (length (bad key) - 16) (bad key)))
         (drop (length (bad key) - 16) (bad key)) = None"
  shows "case crypto_kem_dec ct sk of
      None \<Rightarrow> (\<forall>key rest. relay_stream L J sk (map Inr (segment (stream_head init_line chunk_line ks mac key ct xs @ rest))) st = None)
    | Some ss \<Rightarrow>
        let key = blob_key (hmac (EVP_sha256 (lib_kdf L))) ss ct INFO_STREAM;
            body = stream_head init_line chunk_line ks mac key ct xs @ chunk_line (bad key)
        in (\<exists>s st'. relay_stream L J sk (map Inr (segment (body @ 10 # rest))) st = Some (Return (Value s, st')) \<and>
              chunks s = map Some (map snd xs) @ [Some (lua_string ''data: '' @ encode_message J
                (lua_string ''chunk decryption failed: '' @ lua_string ''stream chunk decryption failed'')), None] \<and> had_error s) \<and>
           (\<exists>s st'. relay_stream L J sk (map Inr (segment body)) st = Some (Return (Value s, st')) \<and>
              chunks s = map Some (map snd xs) @ [None] \<and> \<not> had_error s)"
proof (cases "crypto_kem_dec ct sk")
  case None
  have "relay_stream L J sk (map Inr (segment (stream_head init_line chunk_line ks mac key ct xs @ rest))) st = None" for key rest
    by (rule stream_diverges [OF assms(1-5) None]) (rule assms(7))
  then show ?thesis
    by (simp add: None)
next
  case (Some ss)
  define key where "key = blob_key (hmac (EVP_sha256 (lib_kdf L))) ss ct INFO_STREAM"
  define body where "body = stream_head init_line chunk_line ks mac key ct xs @ chunk_line (bad key)"
  define e where "e = failed ''chunk decryption failed: '' ''stream chunk decryption failed''"
  note line = chunk_line_renders [OF assms(2), of "bad key"]
  have "length key = 32"
    unfolding key_def by (rule length_blob_key [OF libs_lawsD(4) [OF assms(1)]])
  note fails = yields_bad_line [OF assms(1-3) this bad, of "w_os st" sk, folded e_def]
  note stream = yields_stream [OF assms(1-5) Some assms(6) key_def]
  have terminated: "yields (w_os st) (relay_stream L J sk (map Inr (segment (body @ 10 # rest))))
      (\<lambda>r. r = Value (handle J e (delivered key xs))) (w_os st)"
    by (rule stream [where rest = "chunk_line (bad key) @ 10 # rest" and buf = rest])
      (use fails in \<open>auto simp: assms(7) body_def drain_line [OF line] delivered_def e_def failed_def drain.simps [of L J sk rest]
         finish_done on_chunk_def intro!: yields_lbind yields_tret\<close>)
  have "drain L J sk (chunk_line (bad key)) s = tret (Value (chunk_line (bad key), s))" for s
    using line(1) by (subst drain.simps) (simp add: split_line_None)
  then have unterminated: "yields (w_os st) (relay_stream L J sk (map Inr (segment body)))
      (\<lambda>r. r = Value (on_chunk None (delivered key xs))) (w_os st)"
    by (intro stream [where rest = "chunk_line (bad key)" and buf = "chunk_line (bad key)" and s = "delivered key xs"])
      (use fails line(2) in \<open>auto simp: assms(7) body_def delivered_def finish_def trailing_def e_def failed_def intro!: yields_lbind yields_tret\<close>)
  show ?thesis
    using yieldsD [OF terminated refl] yieldsD [OF unterminated refl] unfolding Some option.case key_def [symmetric] Let_def body_def [symmetric]
    by (auto simp: e_def failed_def on_chunk_def delivered_def comp_def)
qed

theorem unterminated_error_is_lost_witness:
  "case crypto_kem_dec (replicate 1088 1) (replicate 2400 2) of
      None \<Rightarrow> (\<forall>key rest. relay_stream proxy_libs plain_events (replicate 2400 2) (map Inr (map (\<lambda>c. [c])
        (stream_head (plain_line 105) (plain_line 101) toy_keystream toy_mac key (replicate 1088 1) [(replicate 12 3, [104, 105])] @ rest))) proxy_state = None)
    | Some ss \<Rightarrow>
        let key = blob_key (toy_hmac (EVP_sha256 (lib_kdf proxy_libs))) ss (replicate 1088 1) INFO_STREAM;
            body = stream_head (plain_line 105) (plain_line 101) toy_keystream toy_mac key (replicate 1088 1) [(replicate 12 3, [104, 105])]
              @ plain_line 101 (forged_chunk key)
        in (\<exists>s st'. relay_stream proxy_libs plain_events (replicate 2400 2) (map Inr (map (\<lambda>c. [c]) (body @ 10 # [7]))) proxy_state
                = Some (Return (Value s, st')) \<and>
              chunks s = map Some (map snd [(replicate 12 (3 :: u8), [104, 105])]) @ [Some (lua_string ''data: '' @ encode_message plain_events
                (lua_string ''chunk decryption failed: '' @ lua_string ''stream chunk decryption failed'')), None] \<and> had_error s) \<and>
           (\<exists>s st'. relay_stream proxy_libs plain_events (replicate 2400 2) (map Inr (map (\<lambda>c. [c]) body)) proxy_state
                = Some (Return (Value s, st')) \<and>
              chunks s = map Some (map snd [(replicate 12 (3 :: u8), [104, 105])]) @ [None] \<and> \<not> had_error s)"
  by (rule unterminated_error_is_lost [OF proxy_libs_laws plain_renders])
    (use forged_chunk in \<open>simp_all add: concat_map_singleton plain_events_def\<close>)

end
