(* ===== verification/Selector.thy ===== *)
theory Selector
  imports Complex_Main "HOL-Library.Multiset"
begin

text \<open>
  The choice of the instance that serves a request: \<open>lua/instance_selector.lua\<close>, and the cache of single-use
  nonces in \<open>lua/e2ee_discovery.lua\<close> that uses it. Tables of instances are lists, and references to their
  elements are positions. The arithmetic of Lua numbers is a parameter, as are the clock (\<open>ngx.now\<close> does not
  advance during one call), \<open>math.random\<close> and what the discovery service returns. \<open>BALANCED_N\<close>, which need not be
  whole, is only compared with lengths and therefore a rational number. Logging and metrics are left out.
\<close>

section \<open>Definitions\<close>

record 'n numbers =
  num :: "nat \<Rightarrow> 'n"
  add :: "'n \<Rightarrow> 'n \<Rightarrow> 'n"
  sub :: "'n \<Rightarrow> 'n \<Rightarrow> 'n"
  mul :: "'n \<Rightarrow> 'n \<Rightarrow> 'n"
  quot :: "'n \<Rightarrow> 'n \<Rightarrow> 'n"
  half_to :: "'n \<Rightarrow> 'n"
  lt :: "'n \<Rightarrow> 'n \<Rightarrow> bool"
  le :: "'n \<Rightarrow> 'n \<Rightarrow> bool"

record 'n config =
  ROUTE_MODES :: "string list"
  ROUTE_MODE :: string
  BALANCED_N :: rat
  PIN_INSTANCE_ID :: "string option"
  PERF_COLD_START_S :: 'n
  PERF_HALF_LIFE_S :: 'n
  PERF_EWMA_ALPHA :: 'n
  ROUTE_BAN_S :: 'n

record instance_info =
  instance_id :: "string option"
  nonces :: "string list option"
  e2e_pubkey :: "string option"

record 'n instance_stats =
  ewma :: 'n
  samples :: nat
  last_at :: 'n
  fails :: nat

record 'n chute =
  sticky :: "string option"
  ring :: "string list"
  ring_pos :: nat
  stats :: "string \<Rightarrow> 'n instance_stats option"
  banned :: "string \<Rightarrow> 'n option"

type_synonym 'n selector = "string \<Rightarrow> 'n chute option"

definition new_chute :: "'n chute" where
  "new_chute = \<lparr> sticky = None, ring = [], ring_pos = 0, stats = (\<lambda>_. None), banned = (\<lambda>_. None) \<rparr>"

definition reset :: "'n selector" where
  "reset = (\<lambda>_. None)"

definition chute_state :: "'n selector \<Rightarrow> string \<Rightarrow> 'n chute" where
  "chute_state state chute_id = (case state chute_id of None \<Rightarrow> new_chute | Some s \<Rightarrow> s)"

definition id_at :: "instance_info list \<Rightarrow> nat \<Rightarrow> string" where
  "id_at instances i = (case instance_id (instances ! i) of None \<Rightarrow> [] | Some iid \<Rightarrow> iid)"

definition has_nonces :: "instance_info \<Rightarrow> bool" where
  "has_nonces inst = (case nonces inst of None \<Rightarrow> False | Some ns \<Rightarrow> length ns > 0)"

definition eligible :: "instance_info list \<Rightarrow> nat list" where
  "eligible instances = filter (\<lambda>i. has_nonces (instances ! i) \<and> instance_id (instances ! i) \<noteq> None) [0..<length instances]"

fun unbanned :: "'n numbers \<Rightarrow> 'n \<Rightarrow> instance_info list \<Rightarrow> nat list \<Rightarrow> 'n chute \<Rightarrow> nat list \<times> 'n chute" where
  "unbanned N t instances [] cs = ([], cs)"
| "unbanned N t instances (i # is) cs =
     (case banned cs (id_at instances i) of
        Some until_ts \<Rightarrow>
          if \<not> le N until_ts t then unbanned N t instances is cs
          else let (out, cs) = unbanned N t instances is (cs\<lparr> banned := (banned cs)(id_at instances i := None) \<rparr>) in (i # out, cs)
      | None \<Rightarrow> let (out, cs) = unbanned N t instances is cs in (i # out, cs))"

definition without_banned :: "'n numbers \<Rightarrow> 'n \<Rightarrow> instance_info list \<Rightarrow> nat list \<Rightarrow> 'n chute \<Rightarrow> nat list \<times> 'n chute" where
  "without_banned N t instances cands cs =
     (let (out, cs) = unbanned N t instances cands cs in (if out = [] then cands else out, cs))"

definition find_instance :: "instance_info list \<Rightarrow> nat list \<Rightarrow> string \<Rightarrow> nat option" where
  "find_instance instances cands iid = find (\<lambda>i. instance_id (instances ! i) = Some iid) cands"

definition present :: "instance_info list \<Rightarrow> string \<Rightarrow> bool" where
  "present instances iid = (\<exists>inst\<in>set instances. instance_id inst = Some iid)"

definition score :: "'n numbers \<Rightarrow> 'n config \<Rightarrow> 'n \<Rightarrow> 'n chute \<Rightarrow> string \<Rightarrow> 'n" where
  "score N C t cs iid =
     (let base = PERF_COLD_START_S C in
      case stats cs iid of
        None \<Rightarrow> base
      | Some st \<Rightarrow>
          if samples st = 0 then base else
          let age = sub N t (last_at st); factor = half_to N (quot N age (PERF_HALF_LIFE_S C))
          in add N base (mul N (sub N (ewma st) base) factor))"

definition pick_performance :: "'n numbers \<Rightarrow> 'n config \<Rightarrow> 'n \<Rightarrow> (nat \<Rightarrow> nat) \<times> (nat \<Rightarrow> nat) \<Rightarrow> instance_info list \<Rightarrow> 'n chute
    \<Rightarrow> nat list \<Rightarrow> nat \<times> string" where
  "pick_performance N C t random instances cs cands =
     (if length cands = 1 then (cands ! 0, ''single'') else
      let i = fst random (length cands);
          j = snd random (length cands - 1);
          j = (if j \<ge> i then j + 1 else j);
          a = cands ! (i - 1);
          b = cands ! (j - 1)
      in if le N (score N C t cs (id_at instances a)) (score N C t cs (id_at instances b)) then (a, ''p2c'') else (b, ''p2c''))"

definition prune_ring :: "instance_info list \<Rightarrow> 'n chute \<Rightarrow> 'n chute" where
  "prune_ring instances cs = cs\<lparr> ring := filter (present instances) (ring cs) \<rparr>"

fun fill_ring :: "rat \<Rightarrow> instance_info list \<Rightarrow> nat list \<Rightarrow> string list \<Rightarrow> string list" where
  "fill_ring n instances [] r = r"
| "fill_ring n instances (i # is) r =
     (if of_nat (length r) \<ge> n then r
      else if id_at instances i \<in> set r then fill_ring n instances is r
      else fill_ring n instances is (r @ [id_at instances i]))"

fun next_member :: "instance_info list \<Rightarrow> nat list \<Rightarrow> 'n chute \<Rightarrow> nat list \<Rightarrow> (nat \<times> nat) option" where
  "next_member instances cands cs [] = None"
| "next_member instances cands cs (step # steps) =
     (let idx = ((ring_pos cs + step - 1) mod length (ring cs)) + 1 in
      case find_instance instances cands (ring cs ! (idx - 1)) of
        Some i \<Rightarrow> Some (idx, i)
      | None \<Rightarrow> next_member instances cands cs steps)"

definition pick_balanced :: "'n config \<Rightarrow> instance_info list \<Rightarrow> nat list \<Rightarrow> 'n chute \<Rightarrow> (nat \<times> string) option \<times> 'n chute" where
  "pick_balanced C instances cands cs =
     (let cs = prune_ring instances cs;
          members = set (ring cs);
          cs = cs\<lparr> ring := fill_ring (BALANCED_N C) instances cands (ring cs) \<rparr>
      in if ring cs = [] then (None, cs) else
      case next_member instances cands cs [1..<Suc (length (ring cs))] of
        Some (idx, i) \<Rightarrow> (Some (i, if id_at instances i \<in> members then ''ring'' else ''ring_new''), cs\<lparr> ring_pos := idx \<rparr>)
      | None \<Rightarrow> (None, cs))"

fun fastest :: "'n numbers \<Rightarrow> ('i \<Rightarrow> 'n) \<Rightarrow> 'i list \<Rightarrow> 'n \<Rightarrow> 'i \<Rightarrow> 'i" where
  "fastest N sc [] best chosen = chosen"
| "fastest N sc (c # cs) best chosen = (if lt N (sc c) best then fastest N sc cs (sc c) c else fastest N sc cs best chosen)"

definition pick_agent :: "'n numbers \<Rightarrow> 'n config \<Rightarrow> 'n \<Rightarrow> instance_info list \<Rightarrow> nat list \<Rightarrow> 'n chute \<Rightarrow> (nat \<times> string) \<times> 'n chute" where
  "pick_agent N C t instances cands cs =
     (let (chosen, reason) =
        (case (case sticky cs of None \<Rightarrow> None | Some iid \<Rightarrow> find_instance instances cands iid) of
           Some i \<Rightarrow> (i, ''sticky'')
         | None \<Rightarrow>
             let sc = (\<lambda>i. score N C t cs (id_at instances i))
             in (fastest N sc cands (sc (cands ! 0)) (cands ! 0), ''new''))
      in ((chosen, reason), cs\<lparr> sticky := instance_id (instances ! chosen) \<rparr>))"

definition pick :: "'n numbers \<Rightarrow> 'n config \<Rightarrow> 'n \<Rightarrow> (nat \<Rightarrow> nat) \<times> (nat \<Rightarrow> nat) \<Rightarrow> instance_info list \<Rightarrow> string \<Rightarrow> string \<Rightarrow> 'n selector
    \<Rightarrow> (nat \<times> string) option \<times> 'n selector" where
  "pick N C t random instances chute_id mode state =
     (let mode = (if mode \<in> set (ROUTE_MODES C) then mode else ROUTE_MODE C);
          cands = eligible instances
      in if cands = [] then (None, state) else
      let (cands, cs) = without_banned N t instances cands (chute_state state chute_id);
          pinned = (case PIN_INSTANCE_ID C of None \<Rightarrow> None | Some iid \<Rightarrow> find_instance instances cands iid);
          (result, cs) =
            (case pinned of
               Some i \<Rightarrow> (Some (i, ''pin''), cs)
             | None \<Rightarrow>
                 if mode = ''default'' then (Some (cands ! 0, ''first''), cs)
                 else if mode = ''agent'' then (case pick_agent N C t instances cands cs of (r, cs) \<Rightarrow> (Some r, cs))
                 else if mode = ''balanced'' then pick_balanced C instances cands cs
                 else if mode = ''performance'' then (Some (pick_performance N C t random instances cs cands), cs)
                 else (None, cs))
      in (result, state(chute_id \<mapsto> cs)))"

definition record_sample :: "'n numbers \<Rightarrow> 'n config \<Rightarrow> 'n \<Rightarrow> string \<Rightarrow> string \<Rightarrow> 'n option \<Rightarrow> bool \<Rightarrow> 'n selector \<Rightarrow> 'n selector" where
  "record_sample N C t chute_id iid ttft_seconds ok state =
     (let cs = chute_state state chute_id;
          st = (case stats cs iid of None \<Rightarrow> \<lparr> ewma = num N 0, samples = 0, last_at = num N 0, fails = 0 \<rparr> | Some st \<Rightarrow> st);
          st = (if ok then st else st\<lparr> fails := fails st + 1 \<rparr>);
          slow = mul N (if samples st > 0 then ewma st else PERF_COLD_START_S C) (num N 4);
          sample = (if ok then ttft_seconds else Some (if lt N slow (num N 10) then num N 10 else slow));
          st = (case sample of
                  None \<Rightarrow> st
                | Some s \<Rightarrow>
                    if lt N s (num N 0) then st else
                    let st = st\<lparr> ewma := if samples st = 0 then s
                               else add N (mul N (PERF_EWMA_ALPHA C) s) (mul N (sub N (num N 1) (PERF_EWMA_ALPHA C)) (ewma st)) \<rparr>
                    in st\<lparr> samples := samples st + 1, last_at := t \<rparr>)
      in state(chute_id \<mapsto> cs\<lparr> stats := (stats cs)(iid \<mapsto> st) \<rparr>))"

definition invalidate :: "'n numbers \<Rightarrow> 'n config \<Rightarrow> 'n \<Rightarrow> string \<Rightarrow> string option \<Rightarrow> 'n selector \<Rightarrow> 'n selector" where
  "invalidate N C t chute_id iid state =
     (case state chute_id of
        None \<Rightarrow> state
      | Some cs \<Rightarrow>
      case iid of
        None \<Rightarrow> state(chute_id := None)
      | Some iid \<Rightarrow>
          let cs = (if sticky cs = Some iid then cs\<lparr> sticky := None \<rparr> else cs);
              cs = cs\<lparr> banned := (banned cs)(iid \<mapsto> add N t (ROUTE_BAN_S C)) \<rparr>;
              cs = cs\<lparr> ring := filter (\<lambda>v. v \<noteq> iid) (ring cs) \<rparr>;
              cs = (if ring_pos cs > length (ring cs) then cs\<lparr> ring_pos := 0 \<rparr> else cs)
          in record_sample N C t chute_id iid None False (state(chute_id \<mapsto> cs)))"

record 'n nonce_batch =
  instances :: "instance_info list"
  expires_at :: 'n

type_synonym 'n nonce_cache = "string \<Rightarrow> 'n nonce_batch option"

definition take_nonce :: "'n numbers \<Rightarrow> 'n config \<Rightarrow> 'n \<Rightarrow> (nat \<Rightarrow> nat) \<times> (nat \<Rightarrow> nat) \<Rightarrow> string \<Rightarrow> string \<Rightarrow> 'n nonce_cache \<Rightarrow> 'n selector
    \<Rightarrow> ((string option \<times> string option) \<times> string \<times> string) option \<times> 'n nonce_cache \<times> 'n selector" where
  "take_nonce N C t random chute_id mode cache state =
     (case cache chute_id of
        None \<Rightarrow> (None, cache, state)
      | Some cached \<Rightarrow>
      if le N (expires_at cached) t then (None, cache(chute_id := None), state) else
      case pick N C t random (instances cached) chute_id mode state of
        (None, state) \<Rightarrow> (None, cache(chute_id := None), state)
      | (Some (i, reason), state) \<Rightarrow>
          let inst = instances cached ! i;
              ns = (case nonces inst of None \<Rightarrow> [] | Some ns \<Rightarrow> ns);
              cached = cached\<lparr> instances := (instances cached)[i := inst\<lparr> nonces := Some (tl ns) \<rparr>] \<rparr>
          in (Some ((instance_id inst, e2e_pubkey inst), hd ns, reason), cache(chute_id \<mapsto> cached), state))"

definition invalidate_nonces where
  "invalidate_nonces N C t chute_id iid cache state = (cache(chute_id := None), invalidate N C t chute_id iid state)"

definition get_nonce where
  "get_nonce N C t t' random fetched chute_id mode cache state =
     (case take_nonce N C t random chute_id mode cache state of
        (Some r, cache, state) \<Rightarrow> (Inr r, cache, state)
      | (None, cache, state) \<Rightarrow>
      case fetched of
        Inl err \<Rightarrow> (Inl err, cache, state)
      | Inr cached \<Rightarrow>
      case take_nonce N C t' random chute_id mode (cache(chute_id \<mapsto> cached)) state of
        (Some r, cache, state) \<Rightarrow> (Inr r, cache, state)
      | (None, cache, state) \<Rightarrow> (Inl (''no nonces available for chute '' @ chute_id), cache, state))"

section \<open>Candidates\<close>

definition bans :: "'n numbers \<Rightarrow> 'n \<Rightarrow> 'n chute \<Rightarrow> string \<Rightarrow> bool" where
  "bans N t cs iid = (case banned cs iid of None \<Rightarrow> False | Some until_ts \<Rightarrow> \<not> le N until_ts t)"

definition candidates :: "'n numbers \<Rightarrow> 'n \<Rightarrow> instance_info list \<Rightarrow> 'n chute \<Rightarrow> nat list" where
  "candidates N t ins cs =
     (let out = filter (\<lambda>i. \<not> bans N t cs (id_at ins i)) (eligible ins) in if out = [] then eligible ins else out)"

definition random_ok :: "(nat \<Rightarrow> nat) \<times> (nat \<Rightarrow> nat) \<Rightarrow> bool" where
  "random_ok random \<longleftrightarrow> (\<forall>n>0. fst random n \<in> {1..n} \<and> snd random n \<in> {1..n})"

lemma unbanned_eq:
  "unbanned N t ins cands cs = (out, cs') \<Longrightarrow> out = filter (\<lambda>i. \<not> bans N t cs (id_at ins i)) cands \<and> (\<exists>b. cs' = cs\<lparr> banned := b \<rparr>)"
proof (induction cands arbitrary: cs out cs')
  case Nil
  then show ?case
    by (auto intro: exI [of _ "banned cs"])
next
  case (Cons i cands)
  have clear: "bans N t (cs\<lparr> banned := (banned cs)(k := None) \<rparr>) = bans N t cs" if "banned cs k = Some u" "le N u t" for k u
    using that by (auto simp: bans_def fun_eq_iff)
  show ?case
    using Cons.prems
    by (auto simp: clear bans_def [of N t cs "id_at ins i"] split: option.splits if_splits prod.splits dest!: Cons.IH)
qed

lemma without_banned_eq:
  "without_banned N t ins (eligible ins) cs = (out, cs') \<Longrightarrow> out = candidates N t ins cs \<and> (\<exists>b. cs' = cs\<lparr> banned := b \<rparr>)"
  by (auto simp: without_banned_def candidates_def Let_def split: prod.splits dest!: unbanned_eq)

lemma eligible_iff: "i \<in> set (eligible ins) \<longleftrightarrow> i < length ins \<and> has_nonces (ins ! i) \<and> instance_id (ins ! i) \<noteq> None"
  by (auto simp: eligible_def)

lemma candidates_eligible: "set (candidates N t ins cs) \<subseteq> set (eligible ins)" "eligible ins \<noteq> [] \<Longrightarrow> candidates N t ins cs \<noteq> []"
  by (auto simp: candidates_def Let_def)

lemma candidates_unbanned:
  "i \<in> set (candidates N t ins cs) \<Longrightarrow> j \<in> set (eligible ins) \<Longrightarrow> \<not> bans N t cs (id_at ins j) \<Longrightarrow> \<not> bans N t cs (id_at ins i)"
  by (auto simp: candidates_def Let_def filter_empty_conv split: if_splits)

section \<open>The choice\<close>

lemma find_instance_in: "find_instance ins cands iid = Some i \<Longrightarrow> i \<in> set cands \<and> instance_id (ins ! i) = Some iid"
  by (auto simp: find_instance_def find_Some_iff)

lemma fastest_in: "fastest N sc cands best chosen \<in> insert chosen (set cands)"
  by (induction N sc cands best chosen rule: fastest.induct) auto

lemma pick_agent_in: "cands \<noteq> [] \<Longrightarrow> pick_agent N C t ins cands cs = ((i, r), cs') \<Longrightarrow> i \<in> set cands"
  using fastest_in [of N "\<lambda>i. score N C t cs (id_at ins i)" cands "score N C t cs (id_at ins (cands ! 0))" "cands ! 0"]
  by (auto simp: pick_agent_def Let_def insert_absorb split: option.splits dest: find_instance_in)

lemma next_member_in: "next_member ins cands cs steps = Some (idx, i) \<Longrightarrow> i \<in> set cands \<and> (ring cs \<noteq> [] \<longrightarrow> idx \<le> length (ring cs))"
  by (induction ins cands cs steps rule: next_member.induct)
    (auto simp: Let_def Suc_le_eq split: option.splits dest: find_instance_in)

lemma pick_performance_in:
  assumes "random_ok random" and "cands \<noteq> []"
  shows "fst (pick_performance N C t random ins cs cands) \<in> set cands"
proof (cases "length cands = 1")
  case False
  with assms(2) have "1 < length cands"
    by (cases cands) auto
  then have "fst random (length cands) \<in> {1..length cands}" "snd random (length cands - 1) \<in> {1..length cands - 1}"
    using assms(1) [unfolded random_ok_def, rule_format, of "length cands"] assms(1) [unfolded random_ok_def, rule_format, of "length cands - 1"] assms(2)
    by simp_all
  then show ?thesis
    using \<open>1 < length cands\<close> by (auto simp: pick_performance_def Let_def)
qed (auto simp: pick_performance_def)

lemma pick_balanced_in: "pick_balanced C ins cands cs = (Some (i, r), cs') \<Longrightarrow> i \<in> set cands"
  by (auto simp: pick_balanced_def Let_def split: if_splits option.splits dest: next_member_in)

lemma pick_in:
  assumes "random_ok random" and "pick N C t random ins chute_id mode state = (Some (i, reason), state')"
  shows "i \<in> set (candidates N t ins (chute_state state chute_id))"
proof -
  obtain cands cs where w: "without_banned N t ins (eligible ins) (chute_state state chute_id) = (cands, cs)"
    by (metis surj_pair)
  have "eligible ins \<noteq> []"
    using assms(2) by (auto simp: pick_def)
  then have cands: "cands = candidates N t ins (chute_state state chute_id)" "cands \<noteq> []"
    using without_banned_eq [OF w] by (simp_all add: candidates_eligible(2))
  have "i \<in> set cands"
    using assms(2) pick_performance_in [OF assms(1) cands(2), of N C t ins cs] w cands(2) \<open>eligible ins \<noteq> []\<close>
    unfolding pick_def Let_def
    by (auto split: if_splits option.splits prod.splits dest: find_instance_in pick_balanced_in pick_agent_in [rotated])
  then show ?thesis
    unfolding cands(1) .
qed

section \<open>The states of the selector\<close>

text \<open>One call of an operation that changes the state.\<close>

inductive selector_step :: "'n numbers \<Rightarrow> 'n config \<Rightarrow> 'n selector \<Rightarrow> 'n selector \<Rightarrow> bool" for N C where
  step_pick: "selector_step N C s (snd (pick N C t random ins chute_id mode s))"
| step_record: "selector_step N C s (record_sample N C t chute_id iid ttft ok s)"
| step_invalidate: "selector_step N C s (invalidate N C t chute_id iid s)"
| step_reset: "selector_step N C s reset"

definition ring_inv :: "'n config \<Rightarrow> 'n chute \<Rightarrow> bool" where
  "ring_inv C cs \<longleftrightarrow> distinct (ring cs) \<and> length (ring cs) \<le> nat \<lceil>BALANCED_N C\<rceil> \<and> ring_pos cs \<le> nat \<lceil>BALANCED_N C\<rceil>"

definition state_inv :: "'n config \<Rightarrow> 'n selector \<Rightarrow> bool" where
  "state_inv C s \<longleftrightarrow> (\<forall>chute_id cs. s chute_id = Some cs \<longrightarrow> ring_inv C cs)"

lemma state_invD: "state_inv C s \<Longrightarrow> ring_inv C (chute_state s chute_id)"
  by (auto simp: state_inv_def chute_state_def new_chute_def ring_inv_def split: option.split)

lemma state_inv_upd: "state_inv C s \<Longrightarrow> ring_inv C cs \<Longrightarrow> state_inv C (s(chute_id \<mapsto> cs))"
  by (simp add: state_inv_def)

lemma ring_inv_cong: "ring cs' = ring cs \<Longrightarrow> ring_pos cs' = ring_pos cs \<Longrightarrow> ring_inv C cs' = ring_inv C cs"
  by (simp add: ring_inv_def)

lemma fill_ring:
  "distinct r \<Longrightarrow> length r \<le> nat \<lceil>n\<rceil> \<Longrightarrow> distinct (fill_ring n ins cands r) \<and> length (fill_ring n ins cands r) \<le> nat \<lceil>n\<rceil>"
proof (induction n ins cands r rule: fill_ring.induct)
  case (2 n ins i cands r)
  have "length (r @ [id_at ins i]) \<le> nat \<lceil>n\<rceil>" if "of_nat (length r) < n"
    using that by (simp add: le_nat_iff le_ceiling_iff)
  with 2 show ?case
    by simp
qed simp

lemma ring_inv_balanced:
  assumes "ring_inv C cs" and "pick_balanced C ins cands cs = (r, cs')"
  shows "ring_inv C cs'"
proof -
  define members where "members = filter (present ins) (ring cs)"
  define filled where "filled = fill_ring (BALANCED_N C) ins cands members"
  have "distinct members" "length members \<le> nat \<lceil>BALANCED_N C\<rceil>"
    using assms(1) le_trans [OF length_filter_le] by (auto simp: ring_inv_def members_def)
  then have f: "distinct filled" "length filled \<le> nat \<lceil>BALANCED_N C\<rceil>"
    using fill_ring by (auto simp: filled_def)
  have "ring cs' = filled \<and> (ring_pos cs' = ring_pos cs \<or> ring_pos cs' \<le> length filled)"
    using assms(2) unfolding pick_balanced_def prune_ring_def Let_def
    by (auto simp: members_def [symmetric] filled_def [symmetric] split: if_splits option.splits dest!: next_member_in)
  with f assms(1) show ?thesis
    by (auto simp: ring_inv_def)
qed

lemma ring_inv_agent: "ring_inv C cs \<Longrightarrow> pick_agent N C t ins cands cs = (r, cs') \<Longrightarrow> ring_inv C cs'"
  by (auto simp: pick_agent_def ring_inv_def Let_def split: option.splits)

lemma state_inv_pick:
  assumes "state_inv C s"
  shows "state_inv C (snd (pick N C t random ins chute_id mode s))"
proof (cases "eligible ins = []")
  case False
  obtain cands cs where w: "without_banned N t ins (eligible ins) (chute_state s chute_id) = (cands, cs)"
    by (metis surj_pair)
  then obtain b where "cs = (chute_state s chute_id)\<lparr> banned := b \<rparr>"
    using without_banned_eq [OF w] by auto
  then have "ring_inv C cs"
    using state_invD [OF assms, of chute_id] by (simp add: ring_inv_def)
  obtain ra csa rb csb where choices: "pick_agent N C t ins cands cs = (ra, csa)" "pick_balanced C ins cands cs = (rb, csb)"
    by (metis surj_pair)
  note inv = ring_inv_agent [OF \<open>ring_inv C cs\<close> choices(1)] ring_inv_balanced [OF \<open>ring_inv C cs\<close> choices(2)] \<open>ring_inv C cs\<close>
  show ?thesis
    using False by (simp add: pick_def Let_def w choices state_inv_upd [OF assms] inv split: option.split)
qed (simp add: pick_def assms)

lemma state_inv_record: "state_inv C s \<Longrightarrow> state_inv C (record_sample N C t chute_id iid ttft ok s)"
  using state_invD [of C s chute_id] by (simp add: record_sample_def Let_def state_inv_upd ring_inv_def)

lemma state_inv_invalidate:
  assumes "state_inv C s"
  shows "state_inv C (invalidate N C t chute_id iid s)"
proof (cases "s chute_id")
  case (Some cs)
  then have "ring_inv C cs"
    using assms by (simp add: state_inv_def)
  then have "distinct (filter (\<lambda>v. v \<noteq> k) (ring cs))" "length (filter (\<lambda>v. v \<noteq> k) (ring cs)) \<le> nat \<lceil>BALANCED_N C\<rceil>" "ring_pos cs \<le> nat \<lceil>BALANCED_N C\<rceil>" for k
    using le_trans [OF length_filter_le] by (auto simp: ring_inv_def)
  with Some assms show ?thesis
    by (cases iid) (auto simp: invalidate_def Let_def ring_inv_def state_inv_def [of C "s(_ := None)"] state_inv_def [of C s]
        intro!: state_inv_record state_inv_upd)
qed (simp add: invalidate_def assms)

lemma state_inv_reset: "state_inv C reset"
  by (simp add: state_inv_def reset_def)

lemma state_inv_step: "selector_step N C s s' \<Longrightarrow> state_inv C s \<Longrightarrow> state_inv C s'"
  by (induction rule: selector_step.induct)
    (simp_all add: state_inv_pick state_inv_record state_inv_invalidate state_inv_reset)

lemma state_inv_reachable: "(selector_step N C)\<^sup>*\<^sup>* reset s \<Longrightarrow> state_inv C s"
  by (induction rule: rtranclp_induct) (auto intro: state_inv_step state_inv_reset)

section \<open>Failover\<close>

lemma bans_invalidated:
  assumes "state chute_id = Some cs" and "\<not> le N (add N t (ROUTE_BAN_S C)) t'"
  shows "bans N t' (chute_state (invalidate N C t chute_id (Some iid) state) chute_id) k \<longleftrightarrow> k = iid \<or> bans N t' cs k"
  using assms by (auto simp: invalidate_def record_sample_def chute_state_def bans_def Let_def)

lemma ring_invalidated: "state chute_id = Some cs \<Longrightarrow> iid \<notin> set (ring (chute_state (invalidate N C t chute_id (Some iid) state) chute_id))"
  by (simp add: invalidate_def record_sample_def chute_state_def Let_def)

lemma set_fill_ring: "set (fill_ring n ins cands r) \<subseteq> set r \<union> id_at ins ` set cands"
  by (induction n ins cands r rule: fill_ring.induct) auto

lemma fill_ring_mono: "set r \<subseteq> set (fill_ring n ins cands r)"
  by (induction n ins cands r rule: fill_ring.induct) auto

lemma fill_ring_complete: "of_nat (length (fill_ring n ins cands r)) < n \<Longrightarrow> i \<in> set cands \<Longrightarrow> id_at ins i \<in> set (fill_ring n ins cands r)"
proof (induction n ins cands r rule: fill_ring.induct)
  case (2 n ins j cands r)
  then show ?case
    using subsetD [OF fill_ring_mono, of _ r n ins cands] subsetD [OF fill_ring_mono, of "id_at ins j" "r @ [id_at ins j]" n ins cands]
    by (auto split: if_splits)
qed simp

lemma next_member_NoneD:
  "next_member ins cands cs steps = None \<Longrightarrow> step \<in> set steps \<Longrightarrow>
    find_instance ins cands (ring cs ! ((ring_pos cs + step - 1) mod length (ring cs))) = None"
  by (induction ins cands cs steps rule: next_member.induct) (auto simp: Let_def split: option.splits)

lemma next_member_exhausted:
  assumes "next_member ins cands cs [1..<Suc (length (ring cs))] = None" and "k \<in> set (ring cs)"
  shows "find_instance ins cands k = None"
proof -
  obtain m where m: "m < length (ring cs)" "ring cs ! m = k"
    using assms(2) by (auto simp: in_set_conv_nth)
  define n p where "n = length (ring cs)" and "p = ring_pos cs mod n"
  define step where "step = (if p \<le> m then m - p else m + n - p) + 1"
  have "m < n"
    using m(1) by (simp add: n_def)
  then have "p < n"
    by (cases n) (simp_all add: p_def)
  with \<open>m < n\<close> have step: "step \<in> set [1..<Suc n]" "(p + step - 1) mod n = m"
    by (auto simp: step_def)
  have "(ring_pos cs + step - 1) mod n = (p + step - 1) mod n"
    using step(1) mod_add_left_eq [of "ring_pos cs" n "step - 1"] by (simp add: p_def del: upt_Suc)
  with step m(2) next_member_NoneD [OF assms(1), of step] show ?thesis
    by (simp add: n_def)
qed

lemma pick_balanced_None:
  assumes "pick_balanced C ins cands cs = (None, cs')" and "cands \<noteq> []" and "set cands \<subseteq> set (eligible ins)"
  shows "set (ring cs') \<subseteq> set (ring cs) \<union> id_at ins ` set cands" and "id_at ins ` set cands \<inter> set (ring cs') = {}"
    and "BALANCED_N C \<le> of_nat (length (ring cs'))"
proof -
  define r where "r = fill_ring (BALANCED_N C) ins cands (filter (present ins) (ring cs))"
  have cs': "cs' = cs\<lparr> ring := r \<rparr>" and exhausted: "r = [] \<or> next_member ins cands cs' [1..<Suc (length (ring cs'))] = None"
    using assms(1) unfolding pick_balanced_def prune_ring_def Let_def
    by (auto simp: r_def [symmetric] split: if_splits option.splits)
  show "set (ring cs') \<subseteq> set (ring cs) \<union> id_at ins ` set cands"
    using set_fill_ring [of "BALANCED_N C" ins cands "filter (present ins) (ring cs)"] unfolding cs' r_def by auto
  have "id_at ins i \<notin> set (ring cs')" if "i \<in> set cands" for i
  proof
    assume in_ring: "id_at ins i \<in> set (ring cs')"
    then have "r \<noteq> []"
      by (auto simp: cs')
    with exhausted in_ring have "find_instance ins cands (id_at ins i) = None"
      by (blast intro: next_member_exhausted)
    moreover have "instance_id (ins ! i) = Some (id_at ins i)"
      using subsetD [OF assms(3) that] by (auto simp: eligible_iff id_at_def)
    ultimately show False
      using that by (auto simp: find_instance_def find_None_iff)
  qed
  then show apart: "id_at ins ` set cands \<inter> set (ring cs') = {}"
    by blast
  show "BALANCED_N C \<le> of_nat (length (ring cs'))"
  proof (rule ccontr)
    assume "\<not> BALANCED_N C \<le> of_nat (length (ring cs'))"
    then have "id_at ins (hd cands) \<in> set (ring cs')"
      using fill_ring_complete [of "BALANCED_N C" ins cands "filter (present ins) (ring cs)" "hd cands"] assms(2)
      by (simp add: cs' r_def not_le)
    moreover have "hd cands \<in> set cands"
      using assms(2) by simp
    ultimately show False
      using apart by blast
  qed
qed

text \<open>The mode a request is served in, and the modes that \<open>e2ee_config.lua\<close> allows.\<close>

definition effective_mode :: "'n config \<Rightarrow> string \<Rightarrow> string" where
  "effective_mode C mode = (if mode \<in> set (ROUTE_MODES C) then mode else ROUTE_MODE C)"

definition modes_ok :: "'n config \<Rightarrow> bool" where
  "modes_ok C \<longleftrightarrow> ROUTE_MODES C = [''agent'', ''balanced'', ''performance'', ''default''] \<and> ROUTE_MODE C \<in> set (ROUTE_MODES C)"

lemma pick_None:
  assumes "pick N C t random ins chute_id mode state = (None, state')" and "eligible ins \<noteq> []" and "modes_ok C"
  obtains b cs' where "effective_mode C mode = ''balanced''" "state' = state(chute_id \<mapsto> cs')"
    "pick_balanced C ins (candidates N t ins (chute_state state chute_id)) ((chute_state state chute_id)\<lparr> banned := b \<rparr>) = (None, cs')"
proof -
  obtain cands cs where w: "without_banned N t ins (eligible ins) (chute_state state chute_id) = (cands, cs)"
    by (metis surj_pair)
  then obtain b where cands: "cands = candidates N t ins (chute_state state chute_id)" "cs = (chute_state state chute_id)\<lparr> banned := b \<rparr>"
    using without_banned_eq [OF w] by blast
  have mode: "effective_mode C mode \<in> {''agent'', ''balanced'', ''performance'', ''default''}"
    using assms(3) by (auto simp: modes_ok_def effective_mode_def)
  obtain cs' where "effective_mode C mode = ''balanced''" "pick_balanced C ins cands cs = (None, cs')" "state' = state(chute_id \<mapsto> cs')"
    using assms(1,2) mode unfolding pick_def Let_def w effective_mode_def [symmetric]
    by (auto split: option.splits prod.splits)
  then show ?thesis
    using that cands by blast
qed

section \<open>Nonces\<close>

definition nonces_of :: "instance_info \<Rightarrow> string list" where
  "nonces_of inst = (case nonces inst of None \<Rightarrow> [] | Some ns \<Rightarrow> ns)"

definition all_nonces :: "instance_info list \<Rightarrow> string multiset" where
  "all_nonces ins = mset (concat (map nonces_of ins))"

lemma all_nonces_take:
  assumes "i < length ins" and "nonces_of (ins ! i) = n # ns"
  shows "all_nonces ins = add_mset n (all_nonces (ins[i := (ins ! i)\<lparr> nonces := Some ns \<rparr>]))"
proof -
  obtain a b where ins: "ins = a @ ins ! i # b" and a: "length a = i"
    using id_take_nth_drop [OF assms(1)] assms(1) by (metis length_take min.absorb4)
  have "ins[i := (ins ! i)\<lparr> nonces := Some ns \<rparr>] = a @ (ins ! i)\<lparr> nonces := Some ns \<rparr> # b"
    by (subst ins) (simp add: a [symmetric])
  moreover have "nonces_of ((ins ! i)\<lparr> nonces := Some ns \<rparr>) = ns"
    by (simp add: nonces_of_def)
  moreover have "all_nonces ins = mset (concat (map nonces_of a) @ nonces_of (ins ! i) @ concat (map nonces_of b))"
    unfolding all_nonces_def by (subst ins) simp
  ultimately show ?thesis
    using assms(2) by (simp add: all_nonces_def)
qed

lemma take_nonce_eq:
  assumes "random_ok random" and "take_nonce N C t random chute_id mode cache state = (Some (info, nonce, reason), cache', state')"
  obtains b i ns where "cache chute_id = Some b" "\<not> le N (expires_at b) t" "i < length (instances b)" "nonces_of (instances b ! i) = nonce # ns"
    "info = (instance_id (instances b ! i), e2e_pubkey (instances b ! i))"
    "cache' = cache(chute_id \<mapsto> b\<lparr> instances := (instances b)[i := (instances b ! i)\<lparr> nonces := Some ns \<rparr>] \<rparr>)"
proof -
  obtain b i where b: "cache chute_id = Some b" "\<not> le N (expires_at b) t"
      "pick N C t random (instances b) chute_id mode state = (Some (i, reason), state')"
      "info = (instance_id (instances b ! i), e2e_pubkey (instances b ! i))" "nonce = hd (nonces_of (instances b ! i))"
      "cache' = cache(chute_id \<mapsto> b\<lparr> instances := (instances b)[i := (instances b ! i)\<lparr> nonces := Some (tl (nonces_of (instances b ! i))) \<rparr>] \<rparr>)"
    using assms(2) by (auto simp: take_nonce_def Let_def nonces_of_def [symmetric] split: option.splits if_splits prod.splits)
  have "i \<in> set (eligible (instances b))"
    by (rule subsetD [OF candidates_eligible(1) pick_in [OF assms(1) b(3)]])
  then have "i < length (instances b)" "nonces_of (instances b ! i) \<noteq> []"
    by (auto simp: eligible_iff has_nonces_def nonces_of_def split: option.splits)
  then show ?thesis
    using that b by (metis list.collapse)
qed

section \<open>A full ring without nonces\<close>

lemma fill_ring_full: "n \<le> of_nat (length r) \<Longrightarrow> fill_ring n ins cands r = r"
  by (cases cands) simp_all

lemma next_member_None:
  assumes "\<And>k. k \<in> set (ring cs) \<Longrightarrow> find_instance ins cands k = None" and "ring cs \<noteq> []"
  shows "next_member ins cands cs steps = None"
proof (induction steps)
  case (Cons step steps)
  have "(ring_pos cs + step - 1) mod length (ring cs) < length (ring cs)"
    using assms(2) by simp
  then have "find_instance ins cands (ring cs ! ((ring_pos cs + step - 1) mod length (ring cs))) = None"
    by (intro assms(1) nth_mem)
  with Cons show ?case
    by (simp add: Let_def)
qed simp

lemma find_instance_None:
  assumes "set cands \<subseteq> set (eligible ins)" and "\<And>i. i \<in> set (eligible ins) \<Longrightarrow> id_at ins i \<noteq> k"
  shows "find_instance ins cands k = None"
  using assms by (fastforce simp: find_instance_def find_None_iff id_at_def eligible_iff)

section \<open>Parameters for examples\<close>

definition whole_numbers :: "int numbers" where
  "whole_numbers = \<lparr> num = int, add = (+), sub = (-), mul = (*), quot = (div), half_to = (\<lambda>x. 1 div (2 ^ nat x)), lt = (<), le = (\<le>) \<rparr>"

definition sample_config :: "int config" where
  "sample_config = \<lparr> ROUTE_MODES = [''agent'', ''balanced'', ''performance'', ''default''], ROUTE_MODE = ''balanced'', BALANCED_N = 1,
     PIN_INSTANCE_ID = None, PERF_COLD_START_S = 1, PERF_HALF_LIFE_S = 300, PERF_EWMA_ALPHA = 1, ROUTE_BAN_S = 60 \<rparr>"

definition sample_random :: "(nat \<Rightarrow> nat) \<times> (nat \<Rightarrow> nat)" where
  "sample_random = (\<lambda>n. 1, \<lambda>n. n)"

definition sample_instance :: "string \<Rightarrow> string list \<Rightarrow> instance_info" where
  "sample_instance iid ns = \<lparr> instance_id = Some iid, nonces = Some ns, e2e_pubkey = None \<rparr>"

lemma sample_random_ok: "random_ok sample_random"
  by (auto simp: random_ok_def sample_random_def)

lemmas sample_defs = whole_numbers_def sample_config_def sample_random_def sample_instance_def
lemmas pick_defs = pick_def eligible_def without_banned_def find_instance_def chute_state_def new_chute_def reset_def id_at_def has_nonces_def
  pick_balanced_def prune_ring_def present_def pick_agent_def

section \<open>Properties\<close>

text \<open>
  C34. What \<open>pick\<close> chooses can serve the request (\<open>instance_selector.lua\<close>): in every mode, pinned or not, the
  instance it returns is one of the given ones, has an identifier and a nonce left, and has not been banned
  by a recent failure, unless all that could serve the request have been.
\<close>

theorem pick_sound:
  assumes "random_ok random" and "pick N C t random ins chute_id mode state = (Some (i, reason), state')"
  shows "i < length ins \<and> has_nonces (ins ! i) \<and> instance_id (ins ! i) \<noteq> None \<and>
    (bans N t (chute_state state chute_id) (id_at ins i) \<longleftrightarrow> (\<forall>j\<in>set (eligible ins). bans N t (chute_state state chute_id) (id_at ins j)))"
proof -
  have i: "i \<in> set (eligible ins)"
    by (rule subsetD [OF candidates_eligible(1) pick_in [OF assms]])
  have "bans N t (chute_state state chute_id) (id_at ins j)"
    if "j \<in> set (eligible ins)" "bans N t (chute_state state chute_id) (id_at ins i)" for j
    using candidates_unbanned [OF pick_in [OF assms] that(1)] that(2) by blast
  with i have "bans N t (chute_state state chute_id) (id_at ins i) \<longleftrightarrow>
      (\<forall>j\<in>set (eligible ins). bans N t (chute_state state chute_id) (id_at ins j))"
    by blast
  with i [unfolded eligible_iff] show ?thesis
    by blast
qed

theorem pick_sound_witness:
  "0 < length [sample_instance ''a'' [''n''], sample_instance ''b'' []] \<and> has_nonces ([sample_instance ''a'' [''n''], sample_instance ''b'' []] ! 0) \<and>
    instance_id ([sample_instance ''a'' [''n''], sample_instance ''b'' []] ! 0) \<noteq> None \<and>
    \<not> bans whole_numbers 5 (chute_state reset ''c'') (id_at [sample_instance ''a'' [''n''], sample_instance ''b'' []] 0)"
proof -
  have "pick whole_numbers sample_config 5 sample_random [sample_instance ''a'' [''n''], sample_instance ''b'' []] ''c'' ''default'' reset
    = (Some (0, ''first''), snd (pick whole_numbers sample_config 5 sample_random [sample_instance ''a'' [''n''], sample_instance ''b'' []] ''c'' ''default'' reset))"
    by (simp add: pick_defs sample_defs Let_def)
  from pick_sound [OF sample_random_ok this] show ?thesis
    by (simp add: bans_def chute_state_def reset_def new_chute_def)
qed



text \<open>
  C37. The ring of the balanced mode (\<open>instance_selector.lua\<close>): in every state that is reached by any sequence of
  calls of \<open>pick\<close>, \<open>record\<close>, \<open>invalidate\<close> and \<open>reset\<close>, for any clock, lists of instances and random numbers, the
  ring of every chute has no duplicates and at most \<open>BALANCED_N\<close> members, rounded up if that is not a whole
  number, and its position is within that bound.
\<close>

theorem ring_invariant:
  assumes "(selector_step N C)\<^sup>*\<^sup>* reset state"
  shows "case state chute_id of
      None \<Rightarrow> True
    | Some cs \<Rightarrow> distinct (ring cs) \<and> length (ring cs) \<le> nat \<lceil>BALANCED_N C\<rceil> \<and> ring_pos cs \<le> nat \<lceil>BALANCED_N C\<rceil>"
  using state_inv_reachable [OF assms] by (auto simp: state_inv_def ring_inv_def split: option.split)

theorem ring_invariant_witness:
  "case snd (pick whole_numbers sample_config 5 sample_random [sample_instance ''a'' [''n''], sample_instance ''b'' [''m'']] ''c'' ''balanced'' reset) ''c'' of
      None \<Rightarrow> True
    | Some cs \<Rightarrow> distinct (ring cs) \<and> length (ring cs) \<le> nat \<lceil>BALANCED_N sample_config\<rceil> \<and> ring_pos cs \<le> nat \<lceil>BALANCED_N sample_config\<rceil>"
  by (rule ring_invariant, rule r_into_rtranclp, rule step_pick)

text \<open>
  C36. A nonce is used once (\<open>e2ee_discovery.lua\<close>). When \<open>take_nonce\<close> returns a nonce, it is one of the instance it
  returns with it and of a batch that has not expired, and what stays in the cache are the other nonces of
  the batch, each as often as before.
\<close>

theorem nonce_single_use:
  assumes "random_ok random" and "take_nonce N C t random chute_id mode cache state = (Some (info, nonce, reason), cache', state')"
  shows "\<exists>batch batch' i. cache chute_id = Some batch \<and> \<not> le N (expires_at batch) t \<and>
    i < length (instances batch) \<and> info = (instance_id (instances batch ! i), e2e_pubkey (instances batch ! i)) \<and>
    nonce \<in> set (nonces_of (instances batch ! i)) \<and>
    cache' = cache(chute_id \<mapsto> batch') \<and> expires_at batch' = expires_at batch \<and>
    all_nonces (instances batch) = add_mset nonce (all_nonces (instances batch'))"
proof -
  obtain b i ns where b: "cache chute_id = Some b" "\<not> le N (expires_at b) t" "i < length (instances b)" "nonces_of (instances b ! i) = nonce # ns"
    "info = (instance_id (instances b ! i), e2e_pubkey (instances b ! i))"
    "cache' = cache(chute_id \<mapsto> b\<lparr> instances := (instances b)[i := (instances b ! i)\<lparr> nonces := Some ns \<rparr>] \<rparr>)"
    using take_nonce_eq [OF assms] .
  then show ?thesis
    using all_nonces_take [OF b(3,4)]
    by (intro exI [of _ b] exI [of _ "b\<lparr> instances := (instances b)[i := (instances b ! i)\<lparr> nonces := Some ns \<rparr>] \<rparr>"] exI [of _ i]) simp
qed

theorem nonce_single_use_witness:
  "\<exists>batch batch' i. [''c'' \<mapsto> \<lparr> instances = [sample_instance ''a'' [''n'', ''m'']], expires_at = 9 \<rparr>] ''c'' = Some batch \<and>
    \<not> le whole_numbers (expires_at batch) 5 \<and>
    i < length (instances batch) \<and> (Some ''a'', None) = (instance_id (instances batch ! i), e2e_pubkey (instances batch ! i)) \<and>
    ''n'' \<in> set (nonces_of (instances batch ! i)) \<and>
    [''c'' \<mapsto> \<lparr> instances = [sample_instance ''a'' [''m'']], expires_at = 9 \<rparr>]
      = [''c'' \<mapsto> \<lparr> instances = [sample_instance ''a'' [''n'', ''m'']], expires_at = 9 \<rparr>](''c'' \<mapsto> batch') \<and>
    expires_at batch' = expires_at batch \<and>
    all_nonces (instances batch) = add_mset ''n'' (all_nonces (instances batch'))"
proof (rule nonce_single_use [OF sample_random_ok])
  let ?cache = "[''c'' \<mapsto> \<lparr> instances = [sample_instance ''a'' [''n'', ''m'']], expires_at = 9 \<rparr>]"
  show "take_nonce whole_numbers sample_config 5 sample_random ''c'' ''default'' ?cache reset
      = (Some ((Some ''a'', None), ''n'', ''first''), [''c'' \<mapsto> \<lparr> instances = [sample_instance ''a'' [''m'']], expires_at = 9 \<rparr>],
         snd (snd (take_nonce whole_numbers sample_config 5 sample_random ''c'' ''default'' ?cache reset)))"
    by (simp add: take_nonce_def pick_defs sample_defs Let_def)
qed

text \<open>
  C38. The balanced mode can refuse a request that could be served (\<open>instance_selector.lua\<close>): if the ring is full and its
  members are listed but have no nonces left, \<open>pick\<close> returns nothing, although another instance has nonces.
\<close>

theorem balanced_refuses:
  assumes "''balanced'' \<in> set (ROUTE_MODES C)" and "PIN_INSTANCE_ID C = None" and "state chute_id = Some cs"
    and "BALANCED_N C \<le> of_nat (length (ring cs))" and "\<forall>k\<in>set (ring cs). present ins k"
    and "\<forall>i\<in>set (eligible ins). id_at ins i \<notin> set (ring cs)"
  shows "fst (pick N C t random ins chute_id ''balanced'' state) = None"
proof -
  obtain cands cs' where w: "without_banned N t ins (eligible ins) cs = (cands, cs')"
    by (metis surj_pair)
  then have cands: "set cands \<subseteq> set (eligible ins)" "ring cs' = ring cs"
    using without_banned_eq [OF w] candidates_eligible(1) [of N t ins cs] by auto
  have "prune_ring ins cs' = cs'" "fill_ring (BALANCED_N C) ins cands (ring cs') = ring cs'"
    using assms(4,5) cands(2) by (simp_all add: prune_ring_def fill_ring_full filter_True)
  moreover have "next_member ins cands cs' steps = None" if "ring cs' \<noteq> []" for steps
    using assms(6) cands that by (intro next_member_None find_instance_None) auto
  ultimately have "fst (pick_balanced C ins cands cs') = None"
    by (simp add: pick_balanced_def Let_def)
  then show ?thesis
    using assms(1-3) w by (auto simp: pick_def chute_state_def Let_def split: prod.split)
qed

theorem balanced_refuses_witness:
  "fst (pick whole_numbers sample_config 5 sample_random [sample_instance ''a'' [], sample_instance ''b'' [''m'']] ''c'' ''balanced''
      [''c'' \<mapsto> new_chute\<lparr> ring := [''a''], ring_pos := 1 \<rparr>]) = None
    \<and> eligible [sample_instance ''a'' [], sample_instance ''b'' [''m'']] = [1]"
  by (rule conjI, rule balanced_refuses [where cs = "new_chute\<lparr> ring := [''a''], ring_pos := 1 \<rparr>"]) (simp_all add: sample_defs pick_defs)

end
