(* ===== verification/Spec2Isabelle.thy ===== *)
theory Spec2Isabelle
  imports Api Fips_Ctx Selftest_Exact Relay Selector
begin

text \<open>
  \<^bold>\<open>The E2EE proxy and its native library.\<close>

  The repository is an OpenResty proxy that talks to model instances end to end encrypted. Its Lua code
  calls a C library, \<open>libe2ee_proxy\<close>, for everything cryptographic: the functions of
  \<open>src/native/e2ee_proxy_api.c\<close>. A request is sent in these steps: encapsulate a secret to the public key of
  the instance (ML-KEM-768), derive a key from it with HKDF-SHA256 salted with the first 16 bytes of the
  ciphertext, compress the message with gzip, and seal it with ChaCha20-Poly1305. ML-KEM is the vendored
  PQClean implementation (\<open>src/native/mlkem/pqclean-ml-kem-768\<close>) over its Keccak
  (\<open>src/native/mlkem/common/fips202.c\<close>) and the entropy source \<open>src/native/randombytes.c\<close>; the other
  primitives are those of OpenSSL and zlib. This development models the C library and proves it correct, and
  with it the Lua code that uses it for the protocol (\<open>src/lua/e2ee_crypto.lua\<close>), relays streamed responses
  (\<open>src/lua/e2ee_handler.lua\<close>) and chooses the instance and the nonce of a request
  (\<open>src/lua/instance_selector.lua\<close>, \<open>src/lua/e2ee_discovery.lua\<close>).

  \<^bold>\<open>Theories and sources.\<close> From the bottom up; the names of the definitions are those of the C functions,
  without the prefix \<open>PQCLEAN_MLKEM768_CLEAN_\<close>.

  \<^item> \<open>Prelude\<close>: C integers as words, integers modulo the Kyber prime, loops over index ranges, parameters
    (\<open>params.h\<close>). \<open>Buffer\<close>: pointers, memory and the limits of \<open>limits.h\<close>.
  \<^item> \<open>Reduce\<close> (\<open>reduce.c\<close>): Montgomery and Barrett reduction.
  \<^item> \<open>NTT_Theory\<close>, \<open>Negacyclic\<close>, \<open>Pke\<close>: mathematics only, the transform by evaluation at the odd powers of
    17, the negacyclic ring, and the noise equation of the encryption scheme.
  \<^item> \<open>NTT\<close> (\<open>ntt.c\<close>): the table of twiddle factors, both transforms loop by loop, the base multiplication.
  \<^item> \<open>Verify\<close> (\<open>verify.c\<close>), \<open>Codec\<close> and \<open>Poly_Codec\<close> (the byte formats of \<open>poly.c\<close>), \<open>Cbd\<close> (\<open>cbd.c\<close>), \<open>Poly\<close>
    (the arithmetic of \<open>poly.c\<close>), \<open>Polyvec\<close> (\<open>polyvec.c\<close>).
  \<^item> \<open>Keccak\<close> and \<open>Sponge\<close> (\<open>fips202.c\<close>): the permutation, the sponge, all SHA-3 and SHAKE functions one-shot
    and incremental, on contexts as values; \<open>Fips_Ctx\<close>: the same contexts as blocks of a heap with
    allocation, cloning and release. \<open>Symmetric\<close> (\<open>symmetric.h\<close>, \<open>symmetric-shake.c\<close>): the hashes, the
    extendable-output function and the pseudo-random functions of ML-KEM.
  \<^item> \<open>Sampling\<close> and \<open>Indcpa\<close> (\<open>indcpa.c\<close>): rejection sampling of the matrix, packing, key generation,
    encryption and decryption. \<open>Kem\<close> (\<open>kem.c\<close>): the key encapsulation.
  \<^item> \<open>Randombytes\<close> (\<open>randombytes.c\<close>): the entropy source over an abstract operating system.
  \<^item> \<open>Aead\<close>, \<open>Hkdf\<close>, \<open>Gzip\<close>, \<open>Api\<close> (\<open>e2ee_proxy_api.c\<close>, \<open>e2ee_proxy_api.h\<close>, \<open>mlkem_backend.h\<close>): the exported
    functions. This theory composes them. \<open>Calls\<close>: how clients call them, with buffers of their own, and what each
    call returns over libraries that behave as documented.
  \<^item> \<open>Kat\<close> (\<open>selftest_kat.h\<close>) and \<open>Selftest\<close> (\<open>selftest.c\<close>): the test vectors, and the self-test program that
    the build runs as a gate, every test over the exported functions with the two counters it keeps.
    \<open>Selftest_Exact\<close>: what its exit status says.
  \<^item> \<open>Protocol\<close> (\<open>e2ee_crypto.lua\<close>): requests, responses and stream chunks, against the wire format over the
    primitives. \<open>Relay\<close> (\<open>e2ee_handler.lua\<close>): the events of a streamed response, from the reads of the connection to
    the chunks for the client. \<open>Selector\<close> (\<open>instance_selector.lua\<close>, \<open>e2ee_discovery.lua\<close>): the state that is kept
    about instances, the choice among them, and the cache of nonces.

  \<^bold>\<open>How C is modelled.\<close> A machine integer is a word of its width, and every conversion and every
  wrap-around is written out; \<open>size_t\<close> lengths are natural numbers. An array is a list, a structure a
  record. A function that writes through a pointer returns the new contents; a null pointer is \<open>None\<close>.
  Where buffers may be the same (sealing and opening) or blocks are allocated and freed (\<open>Fips_Ctx\<close>), the
  pointers are addresses of a memory. The two loops that need not end, the retry loop over \<open>getrandom\<close> and
  rejection sampling, are partial functions whose value \<open>None\<close> is a call that does not return; there is no
  fuel anywhere. \<open>Abort\<close> and \<open>Exit\<close> are the end of the process. A Lua function returns a value, an error message or
  raises an error, and passes on the states of the libraries and the operating system; Lua strings are lists of
  bytes, tables are records, lists and maps, and references to their elements are positions.

  \<^bold>\<open>What is a parameter.\<close> The operating system, OpenSSL and zlib are records of functions. What is used of
  their documentation is a named predicate on such a record (\<open>os_laws\<close>, \<open>evp_laws\<close>, \<open>kdf_laws\<close>, \<open>zlib_laws\<close>,
  and \<open>evp_total\<close>, \<open>kdf_total\<close>, \<open>zlib_total\<close> for the absence of failures), and each is shown to hold for a
  concrete instance. For the Lua code, \<open>cjson\<close>, the base64 functions, number arithmetic, clock, random numbers and the
  discovery service are parameters too, and so is the size of the largest array that \<open>ffi.new\<close> can allocate. The statements that do not need a law do not assume it: wiping on failure, freeing of
  contexts, the refusal of bad arguments.

  \<^bold>\<open>What is proved.\<close>

  \<^item> Arithmetic: both reductions return the right residue within their bounds; the in-place transforms
    compute the number-theoretic transform and its inverse without overflow, and transform, pointwise
    product and inverse compute the product of the negacyclic ring.
  \<^item> Formats: packing is \<open>ByteEncode\<close> of FIPS 203 and round-trips; the division-free compression equals
    the specified rounding for every coefficient, with the exact error bounds; a message survives noise of
    at most 831 in every coefficient.
  \<^item> Hashing: the unrolled permutation is Keccak-f[1600]; every hash and every extendable-output function
    is the sponge of FIPS 202, however input and output are cut; contexts on the heap behave as the
    messages absorbed into them, without leaks, double frees or interference between copies.
  \<^item> Sampling: rejection sampling is \<open>SampleNTT\<close> of FIPS 203, with an exact characterisation of when it
    returns; the transposed matrix is the transpose.
  \<^item> Encryption and encapsulation: decryption yields the rounding of message plus noise, for every key,
    message and coins; decapsulation is the transform of FIPS 203 with implicit rejection; an encapsulated
    secret is recovered unless the noise destroys the message.
  \<^item> Interface: key agreement through the exported functions; opening authenticates, never leaves
    plaintext behind on failure, and inverts sealing, also in place; HKDF is RFC 5869; decompression stays
    in its bounds and inverts compression; the entropy source fills the buffer or ends the process; and the
    composition of all of it transports a message.
  \<^item> Self-test: the compression test passes over every zlib that behaves as documented, and over libraries that
    behave as documented the program succeeds exactly if all published vectors are reproduced, the key agreements
    succeed and nothing that was tampered with is accepted.
  \<^item> Protocol: building a request is its specification on every input, failures included; a response is returned
    exactly as it was sealed, and nothing that does not authenticate is; an authentic response that announces a size
    no buffer can have raises an error; a request and its response form a
    conversation that succeeds unless the noise of ML-KEM prevents it; a stream is delivered message by message
    however the network cuts it, and its end is signalled once and last.
  \<^item> Choice of instances: what is chosen can serve the request and is not banned while another could; an
    instance that was invalidated is avoided; the ring keeps its bounds in all reachable states; a nonce is
    handed out once and not after it has expired. Two statements describe what the code should not do: a full
    ring whose members have no nonces makes the balanced mode refuse although others could serve, and an
    error in an unterminated last line of a stream is lost.

  The definitions execute, on the known-answer vectors of \<open>src/native/selftest_kat.h\<close> among others.

  \<^bold>\<open>What is not modelled.\<close> The probability that rejection sampling does not end or that the noise is large,
  and with it the security of the scheme; timing (the constant-time routines are proved to be right, not
  constant in time); aliasing of output buffers other than in sealing and opening; the round-3 Kyber
  backend, whose sources are not in the repository; what the self-test prints, and the script that generates its
  vectors; the inside of OpenSSL and zlib; the rest of the Lua code (the HTTP exchange, attestation, metrics and the
  translation between message formats), the server configuration and the build.
\<close>


section \<open>A message through the whole interface\<close>

text \<open>The key both sides derive: 32 bytes of HKDF over the shared secret, salted with the ciphertext.\<close>

lemma session_key:
  assumes "kdf_laws kdf kview hmac" and "kdf_total kdf"
    and "length ss = 32" and "16 \<le> length ct" and "length info \<le> INT_MAX"
  shows "\<exists>w'. e2ee_hkdf_sha256 kdf (Some ss) 32 (Some ct) 16 (Some info) (length info) (Some (replicate 32 0)) 32 w
    = (0, Some (hkdf (hmac (EVP_sha256 kdf)) (take 16 ct) ss info 32), w')"
proof -
  obtain okm w' where "e2ee_hkdf_sha256 kdf (Some ss) 32 (Some ct) 16 (Some info) (length info) (Some (replicate 32 0)) 32 w
      = (0, Some okm, w')" "length okm = 32" "take 32 okm = hkdf (hmac (EVP_sha256 kdf)) (take 16 ct) ss info 32"
    using hkdf_correct [OF assms(1,2), of 16 "Some ct" ct "length info" "Some info" info 32 32 "replicate 32 0" ss w] assms(3,5)
    by (auto simp: INT_MAX_def)
  then show ?thesis
    by simp
qed

text \<open>
  C3. The exported functions compose to the protocol of the proxy (\<open>e2ee_proxy_api.c\<close>). Two parties that hold
  the same shared secret and ML-KEM ciphertext derive the same 32-byte key with \<open>e2ee_hkdf_sha256\<close>, the
  salt being the first 16 bytes of the ciphertext; a message that one of them compresses with
  \<open>e2ee_gzip_compress\<close> and seals with \<open>e2ee_chacha20_seal\<close> under that key and any nonce, the other opens with
  \<open>e2ee_chacha20_open\<close> and recovers with \<open>e2ee_gzip_decompress\<close>. Every call succeeds, over libraries that
  behave as documented and a compression buffer that is large enough.
\<close>

theorem message_transport:
  assumes "evp_laws ssl view ks mac" and "evp_total ssl view mac"
    and "kdf_laws kdf kview hmac" and "kdf_total kdf" and "zlib_laws z gz" and "zlib_total z"
    and "length ss = 32" and "16 \<le> length ct" and "length info \<le> INT_MAX"
    and "msg \<noteq> []" and "length msg \<le> UINT_MAX" and "length (gz msg) \<le> bound" and "bound \<le> UINT_MAX"
  shows "\<exists>key.
      (\<forall>w. \<exists>w'. e2ee_hkdf_sha256 kdf (Some ss) 32 (Some ct) 16 (Some info) (length info) (Some (replicate 32 0)) 32 w
         = (0, Some key, w')) \<and>
      (\<exists>k comp u'. e2ee_gzip_compress z (Some msg) (length msg) (Some (replicate bound 0)) bound u = (k, Some comp, u') \<and>
      (\<exists>m v'. e2ee_chacha20_seal ssl (Some 0) (Some 1) (Some 2) k (Some 3) (Some 4)
           (buffers [key, nonce, comp, replicate k 0, replicate 16 0]) v = (0, m, v') \<and>
      (\<exists>m' x'. e2ee_chacha20_open ssl (Some 0) (Some 1) (Some 2) k (Some 3) (Some 4)
           (buffers [key, nonce, m 3, m 4, replicate k 0]) x = (0, m', x') \<and>
      (\<exists>y'. e2ee_gzip_decompress z (Some (m' 4)) k (Some (replicate (length msg) 0)) (length msg) y
           = (length msg, Some msg, y')))))"
proof -
  define key where "key = hkdf (hmac (EVP_sha256 kdf)) (take 16 ct) ss info 32"
  define k where "k = length (gz msg)"
  have key: "\<forall>w. \<exists>w'. e2ee_hkdf_sha256 kdf (Some ss) 32 (Some ct) 16 (Some info) (length info) (Some (replicate 32 0)) 32 w
      = (0, Some key, w')"
    unfolding key_def using session_key [OF assms(3,4,7-9)] by blast
  have bounds: "0 < bound" "0 < length msg" "k \<le> UINT_MAX"
    using zlib_lawsD(1) [OF assms(5), of msg] assms(10,12,13) by (auto simp: k_def)
  obtain comp u' where comp: "e2ee_gzip_compress z (Some msg) (length msg) (Some (replicate bound 0)) bound u = (k, Some comp, u')"
      "take k comp = gz msg"
    using compress_correct [OF assms(5,6,11) _ bounds(1) assms(13), of msg "replicate bound 0" u] assms(12)
    by (auto simp: k_def)
  have lc: "k \<le> length comp"
    using arg_cong [OF comp(2), of length] by (simp add: k_def)
  obtain c t where s: "aead_seal ks mac (take 32 key) (take 12 nonce) (gz msg) = (c, t)"
    by (metis surj_pair)
  have ct: "length c = k" "length t = 16"
    using s evp_lawsD(1) [OF assms(1)] by (auto simp: aead_seal_def Let_def k_def)
  let ?m = "buffers [key, nonce, comp, replicate k 0, replicate 16 0]"
  obtain v' where seal: "e2ee_chacha20_seal ssl (Some 0) (Some 1) (Some 2) k (Some 3) (Some 4) ?m v
      = (0, ?m(3 := c, 4 := t), v')"
    using seal_correct [OF assms(1,2), of k ?m 2 3 4 0 1 c t v] lc s ct by (auto simp: comp(2) write_at_all)
  let ?n = "buffers [key, nonce, c, t, replicate k 0]"
  obtain x' where op: "e2ee_chacha20_open ssl (Some 0) (Some 1) (Some 2) k (Some 3) (Some 4) ?n x
      = (0, ?n(4 := gz msg), x')"
    using open_correct [OF assms(1,2), of k ?n 2 4 0 1 3 x] aead_open_seal [OF s] ct by (auto simp: write_at_all k_def)
  obtain y' where dec: "e2ee_gzip_decompress z (Some (gz msg)) k (Some (replicate (length msg) 0)) (length msg) y
      = (length msg, Some msg, y')"
    using decompress_correct [OF assms(5,6) bounds(3) _ bounds(2) assms(11), of "gz msg" msg "replicate (length msg) 0" y]
    by (auto simp: k_def)
  show ?thesis
    using key comp(1) seal op dec
    by (intro exI [of _ key] exI [of _ k] exI [of _ comp] exI [of _ u'] exI [of _ "?m(3 := c, 4 := t)"] exI [of _ v']
        exI [of _ "?n(4 := gz msg)"] exI [of _ x'] exI [of _ y'] conjI) simp_all
qed

theorem message_transport_witness:
  "\<exists>key.
      (\<forall>w. \<exists>w'. e2ee_hkdf_sha256 toy_kdf (Some (replicate 32 1)) 32 (Some (replicate 1088 2)) 16 (Some [3, 4]) (length [3, 4 :: u8])
         (Some (replicate 32 0)) 32 w = (0, Some key, w')) \<and>
      (\<exists>k comp u'. e2ee_gzip_compress toy_zlib (Some [5, 6, 7]) (length [5, 6, 7 :: u8]) (Some (replicate 40 0)) 40 0 = (k, Some comp, u') \<and>
      (\<exists>m v'. e2ee_chacha20_seal toy_cipher (Some 0) (Some 1) (Some 2) k (Some 3) (Some 4)
           (buffers [key, replicate 12 8, comp, replicate k 0, replicate 16 0]) 0 = (0, m, v') \<and>
      (\<exists>m' x'. e2ee_chacha20_open toy_cipher (Some 0) (Some 1) (Some 2) k (Some 3) (Some 4)
           (buffers [key, replicate 12 8, m 3, m 4, replicate k 0]) 0 = (0, m', x') \<and>
      (\<exists>y'. e2ee_gzip_decompress toy_zlib (Some (m' 4)) k (Some (replicate (length [5, 6, 7 :: u8]) 0)) (length [5, 6, 7 :: u8]) 0
           = (length [5, 6, 7 :: u8], Some [5, 6, 7], y')))))"
  by (rule message_transport [OF toy_cipher_laws toy_kdf_laws toy_zlib_laws])
    (simp_all add: INT_MAX_def UINT_MAX_def toy_gz_def)

section \<open>A request and its response\<close>

text \<open>The message \<open>m\<close> encapsulated to a key made from \<open>coins\<close> survives the noise of the decryption.\<close>

definition survives :: "bytes \<Rightarrow> bytes \<Rightarrow> bytes \<Rightarrow> bool" where
  "survives coins pk m \<longleftrightarrow> round_msg (\<lambda>n. 1665 * of_bool (bit_at m n) + decryption_noise coins m (fo_coins m (hash_h pk)) n) = m"

lemma survives_dec:
  assumes "length coins = 64" and "length m = 32"
    and "crypto_kem_keypair_derand coins = Some (pk, sk)" and "crypto_kem_enc_derand pk m = Some (ct, ss)" and "survives coins pk m"
  shows "crypto_kem_dec ct sk = Some ss"
  using kem_roundtrip_eq [OF assms(1,2)] assms(3-5) by (simp add: survives_def Let_def)

lemma request_parts:
  assumes L: "libs_laws L rnd cview ks mac kview hmac gz"
    and "request_spec rnd ks mac H gz J (Some pub) payload w = Some (Value (blob, sk), w')"
  obtains instance_pk m ss coins pk augmented where "decode_base64 J pub = Some instance_pk" "length m = 32"
    "crypto_kem_enc_derand instance_pk m = Some (take 1088 blob, ss)" "length coins = 64" "crypto_kem_keypair_derand coins = Some (pk, sk)"
    "cjson_encode J (set_field J (the (cjson_decode J payload)) ''e2e_response_pk'' (encode_base64 J pk)) = Some augmented"
    "open_blob ks mac H INFO_REQ ss blob = Some (gz augmented)"
proof -
  have rnd: "length (fst (rnd n v)) = n" for n v
    using entropyD(3) [OF libs_lawsD(1) [OF L], of "replicate n 0" n v] by simp
  obtain pk ct ss instance_pk j augmented where parts: "crypto_kem_keypair_derand (fst (rnd 64 w)) = Some (pk, sk)"
      "decode_base64 J pub = Some instance_pk" "length instance_pk = 1184"
      "crypto_kem_enc_derand instance_pk (fst (rnd 32 (snd (rnd 64 w)))) = Some (ct, ss)" "cjson_decode J payload = Some j"
      "cjson_encode J (set_field J j ''e2e_response_pk'' (encode_base64 J pk)) = Some augmented"
      "blob = seal_blob ks mac H gz INFO_REQ (ct, ss) (fst (rnd 12 (snd (rnd 32 (snd (rnd 64 w)))))) augmented"
    using assms(2) by (auto simp: request_spec_def Let_def split: option.splits if_splits)
  have "length ct = 1088"
    using kem_enc_length [OF parts(4) rnd parts(3)] by simp
  note blob = open_seal_blob [OF libs_lawsD(2) [OF L] this rnd]
  show ?thesis
    by (rule that [of instance_pk "fst (rnd 32 (snd (rnd 64 w)))" ss "fst (rnd 64 w)" pk augmented])
      (use parts blob rnd in simp_all)
qed

lemma response_survives:
  assumes L: "libs_laws L rnd cview ks mac kview hmac gz"
    and "length coins = 64" and "length m = 32" and key: "crypto_kem_keypair_derand coins = Some (pk, sk)"
    and enc: "crypto_kem_enc_derand pk m = Some (ct, ss)"
    and msg: "length nonce = 12" "reply \<noteq> []" "length reply < UINT_MAX" "length (gz reply) \<le> UINT_MAX"
    and mem: "2400 \<le> ffi_max J" "length reply < ffi_max J" "length (gz reply) \<le> ffi_max J"
    and sealed_def: "sealed = seal_blob ks mac (hmac (EVP_sha256 (lib_kdf L))) gz INFO_RESP (ct, ss) nonce reply"
  shows "if survives coins pk m then \<exists>st'. decrypt_response L J sealed sk st = Some (Return (Value reply, st'))
    else case crypto_kem_dec ct sk of
        None \<Rightarrow> decrypt_response L J sealed sk st = None
      | Some ss' \<Rightarrow> \<exists>r st'. decrypt_response L J sealed sk st = Some (Return (r, st')) \<and>
          (r = Failure ''decryption failed (auth tag mismatch)'' \<longleftrightarrow> open_blob ks mac (hmac (EVP_sha256 (lib_kdf L))) INFO_RESP ss' sealed = None)"
proof -
  have len: "length sk = 2400" "length ct = 1088"
    using kem_keypair_length [OF key assms(2)] kem_enc_length [OF enc assms(3)] by simp_all
  have blob: "length sealed = 1116 + length (gz reply)" "take 1088 sealed = ct"
    unfolding sealed_def by (rule open_seal_blob(2,3) [OF libs_lawsD(2) [OF L] len(2) msg(1)])+
  show ?thesis
  proof (cases "survives coins pk m")
    case True
    then show ?thesis
      using response_opens [OF L len msg mem survives_dec [OF assms(2,3) key enc True], of st] by (auto simp: sealed_def)
  next
    case False
    have "decrypt_response L J sealed sk st = None" if "crypto_kem_dec ct sk = None"
      by (rule response_diverges [OF len(1) _ mem(1)]) (simp_all add: blob that)
    moreover have "\<exists>r st'. decrypt_response L J sealed sk st = Some (Return (r, st')) \<and>
        (r = Failure ''decryption failed (auth tag mismatch)'' \<longleftrightarrow> open_blob ks mac (hmac (EVP_sha256 (lib_kdf L))) INFO_RESP ss' sealed = None)"
      if "crypto_kem_dec ct sk = Some ss'" for ss'
    proof -
      have "1116 \<le> length sealed" "crypto_kem_dec (take 1088 sealed) sk = Some ss'"
        using blob that by simp_all
      from response_outcome [OF L len(1) this(1) mem(1) this(2) refl, of st] show ?thesis
        using blob(1) mem(3) by fastforce
    qed
    ultimately show ?thesis
      using False by (cases "crypto_kem_dec ct sk") simp_all
  qed
qed

text \<open>
  C4. A request and its response (\<open>e2ee_crypto.lua\<close> over \<open>e2ee_proxy_api.c\<close>). Whenever \<open>build_e2ee_request\<close> returns a blob and a
  response key, the blob starts with a ciphertext that encapsulates a secret to the decoded public key of the
  instance, and opens under that secret to the compressed payload with the public response key in it; the
  secret response key belongs to the public one. If the instance then encapsulates to that public key and
  seals a non-empty reply for responses, \<open>decrypt_response\<close> called with the secret response key returns the
  reply, provided the encapsulated message survives the noise of ML-KEM; otherwise, if it
  returns, it fails with the message that the tag does not match exactly if the reply does not open under the secret
  that its ciphertext then decapsulates to. The reply must be shorter than \<open>2 ^ 32 - 1\<close> bytes, its compression not longer, and buffers for
  both must be available.
\<close>

theorem proxy_conversation:
  assumes "libs_laws L rnd cview ks mac kview hmac gz"
    and "length m = 32" and "length nonce = 12" and "reply \<noteq> []" and "length reply < UINT_MAX" and "length (gz reply) \<le> UINT_MAX"
    and mem: "2400 \<le> ffi_max J" "length reply < ffi_max J" "length (gz reply) \<le> ffi_max J"
  shows "case build_e2ee_request L J (Some pub) payload st of
      Some (Return (Value (blob, response_sk), st')) \<Rightarrow>
        (\<exists>instance_pk m' ss coins response_pk augmented.
           decode_base64 J pub = Some instance_pk \<and> length m' = 32 \<and>
           crypto_kem_enc_derand instance_pk m' = Some (take 1088 blob, ss) \<and>
           open_blob ks mac (hmac (EVP_sha256 (lib_kdf L))) INFO_REQ ss blob = Some (gz augmented) \<and>
           cjson_encode J (set_field J (the (cjson_decode J payload)) ''e2e_response_pk'' (encode_base64 J response_pk)) = Some augmented \<and>
           length coins = 64 \<and> crypto_kem_keypair_derand coins = Some (response_pk, response_sk) \<and>
           (case crypto_kem_enc_derand response_pk m of
              None \<Rightarrow> True
            | Some (ct, ss) \<Rightarrow>
                let sealed = seal_blob ks mac (hmac (EVP_sha256 (lib_kdf L))) gz INFO_RESP (ct, ss) nonce reply
                in if survives coins response_pk m then \<exists>st''. decrypt_response L J sealed response_sk st' = Some (Return (Value reply, st''))
                   else case crypto_kem_dec ct response_sk of
                       None \<Rightarrow> decrypt_response L J sealed response_sk st' = None
                     | Some ss' \<Rightarrow> \<exists>r st''. decrypt_response L J sealed response_sk st' = Some (Return (r, st'')) \<and>
                         (r = Failure ''decryption failed (auth tag mismatch)'' \<longleftrightarrow>
                          open_blob ks mac (hmac (EVP_sha256 (lib_kdf L))) INFO_RESP ss' sealed = None)))
    | _ \<Rightarrow> True"
proof (cases "build_e2ee_request L J (Some pub) payload st")
  case (Some out)
  show ?thesis
  proof (cases "\<exists>blob sk st'. out = Return (Value (blob, sk), st')")
    case True
    then obtain blob sk st' where out: "out = Return (Value (blob, sk), st')"
      by blast
    then have "request_spec rnd ks mac (hmac (EVP_sha256 (lib_kdf L))) gz J (Some pub) payload (w_os st) = Some (Value (blob, sk), w_os st')"
      using meetsD [OF meets_request [OF assms(1) mem(1)] refl, of "Some pub" payload st] Some by (auto split: option.splits)
    from request_parts [OF assms(1) this] obtain instance_pk m' ss coins pk augmented
      where parts: "decode_base64 J pub = Some instance_pk" "length m' = 32"
        "crypto_kem_enc_derand instance_pk m' = Some (take 1088 blob, ss)" "length coins = 64" "crypto_kem_keypair_derand coins = Some (pk, sk)"
        "cjson_encode J (set_field J (the (cjson_decode J payload)) ''e2e_response_pk'' (encode_base64 J pk)) = Some augmented"
        "open_blob ks mac (hmac (EVP_sha256 (lib_kdf L))) INFO_REQ ss blob = Some (gz augmented)"
      by metis
    have reply: "case crypto_kem_enc_derand pk m of None \<Rightarrow> True | Some p \<Rightarrow> P p"
      if "\<And>ct ss. crypto_kem_enc_derand pk m = Some (ct, ss) \<Longrightarrow> P (ct, ss)" for P
      using that by (auto split: option.split)
    show ?thesis
      unfolding Some out option.case outcome.case prod.case lua.case Let_def
      by (intro exI [of _ instance_pk] exI [of _ m'] exI [of _ ss] exI [of _ coins] exI [of _ pk] exI [of _ augmented] conjI parts reply)
        (simp only: prod.case, rule response_survives [OF assms(1) parts(4) assms(2) parts(5) _ assms(3-6) mem refl])
  next
    case False
    then consider "out = Abort" | st' where "out = Return (Raised, st')" | e st' where "out = Return (Failure e, st')"
      by (metis lua.exhaust outcome.exhaust prod.exhaust)
    then show ?thesis
      by cases (simp_all add: Some)
  qed
qed simp

theorem proxy_conversation_witness:
  "case build_e2ee_request proxy_libs plain_lua (Some (replicate 1184 1)) [123, 125] proxy_state of
      Some (Return (Value (blob, response_sk), st')) \<Rightarrow>
        (\<exists>instance_pk m' ss coins response_pk augmented.
           decode_base64 plain_lua (replicate 1184 1) = Some instance_pk \<and> length m' = 32 \<and>
           crypto_kem_enc_derand instance_pk m' = Some (take 1088 blob, ss) \<and>
           open_blob toy_keystream toy_mac (toy_hmac (EVP_sha256 (lib_kdf proxy_libs))) INFO_REQ ss blob = Some (framed_gz augmented) \<and>
           cjson_encode plain_lua (set_field plain_lua (the (cjson_decode plain_lua [123, 125])) ''e2e_response_pk''
             (encode_base64 plain_lua response_pk)) = Some augmented \<and>
           length coins = 64 \<and> crypto_kem_keypair_derand coins = Some (response_pk, response_sk) \<and>
           (case crypto_kem_enc_derand response_pk (replicate 32 9) of
              None \<Rightarrow> True
            | Some (ct, ss) \<Rightarrow>
                let sealed = seal_blob toy_keystream toy_mac (toy_hmac (EVP_sha256 (lib_kdf proxy_libs))) framed_gz
                  INFO_RESP (ct, ss) (replicate 12 3) [111, 107]
                in if survives coins response_pk (replicate 32 9)
                   then \<exists>st''. decrypt_response proxy_libs plain_lua sealed response_sk st' = Some (Return (Value [111, 107], st''))
                   else case crypto_kem_dec ct response_sk of
                       None \<Rightarrow> decrypt_response proxy_libs plain_lua sealed response_sk st' = None
                     | Some ss' \<Rightarrow> \<exists>r st''. decrypt_response proxy_libs plain_lua sealed response_sk st' = Some (Return (r, st'')) \<and>
                         (r = Failure ''decryption failed (auth tag mismatch)'' \<longleftrightarrow>
                          open_blob toy_keystream toy_mac (toy_hmac (EVP_sha256 (lib_kdf proxy_libs))) INFO_RESP ss' sealed = None)))
    | _ \<Rightarrow> True"
  by (rule proxy_conversation [OF proxy_libs_laws]) (simp_all add: UINT_MAX_def framed_gz plain_lua_def)

end
